(* ===== verification/Lacp_Prelude.thy ===== *)
theory Lacp_Prelude
  imports Main "HOL-Library.Word"
begin

text \<open>
  Shared vocabulary of the development: the fixed-width integers of the C sources, the outcome
  of a call that may dereference NULL, the timers of the daemon's OS service, and the generic
  facts on lists and on sums that the component theories use.
\<close>

unbundle bit_operations_syntax

type_synonym u8 = "8 word"
type_synonym u16 = "16 word"
type_synonym u32 = "32 word"

named_theorems frame_simps
  \<open>what an operation leaves unchanged\<close>

subsection \<open>Words\<close>

lemma take_bit_below:
  fixes w :: "'a::len word"
  assumes "unat w < 2 ^ n"
  shows "take_bit n w = w"
proof -
  have "unat (take_bit n w) = unat w"
    using assms by (simp add: unsigned_take_bit_eq take_bit_nat_eq_self)
  then show ?thesis by (rule word_unat_eq_iff [THEN iffD2])
qed

lemma bit_unat_less:
  fixes w :: "'a::len word"
  assumes "unat w < 2 ^ n" and "bit w m"
  shows "m < n"
  using take_bit_below [OF assms(1)] assms(2) by (metis bit_take_bit_iff)

subsection \<open>Calls that may crash\<close>

text \<open>
  A C function that reads through a NULL pointer, or past the end of a buffer, or that calls itself
  until the stack is used up, has no defined result, and a call that loops forever has none at
  all: their outcome is a fault. Every other call returns a value.
\<close>

datatype fault = Null_Deref | Out_Of_Bounds | Stack_Overflow | Diverges

datatype 'a outcome = Fault fault | Returns 'a

fun bind_outcome :: "'a outcome \<Rightarrow> ('a \<Rightarrow> 'b outcome) \<Rightarrow> 'b outcome" where
  "bind_outcome (Fault e) k = Fault e"
| "bind_outcome (Returns x) k = k x"

lemma bind_outcome_Returns_iff:
  "bind_outcome m k = Returns y \<longleftrightarrow> (\<exists>x. m = Returns x \<and> k x = Returns y)"
  by (cases m) auto

subsection \<open>Lists as the intrusive linked lists of the C code\<close>

text \<open>
  A \<^verbatim>\<open>struct list_head\<close> list is the list of the references linked on it, in list order.
  \<^verbatim>\<open>list_add_tail\<close> appends, \<^verbatim>\<open>list_del\<close> unlinks the entry.
\<close>

definition list_add_tail :: "'a \<Rightarrow> 'a list \<Rightarrow> 'a list" where
  "list_add_tail x xs = xs @ [x]"

definition list_del :: "'a \<Rightarrow> 'a list \<Rightarrow> 'a list" where
  "list_del x xs = remove1 x xs"

lemma set_list_add_tail [simp]: "set (list_add_tail x xs) = insert x (set xs)"
  by (auto simp: list_add_tail_def)

lemma distinct_list_add_tail [simp]:
  "distinct (list_add_tail x xs) \<longleftrightarrow> distinct xs \<and> x \<notin> set xs"
  by (auto simp: list_add_tail_def)

lemma length_list_add_tail [simp]: "length (list_add_tail x xs) = Suc (length xs)"
  by (simp add: list_add_tail_def)

lemma list_add_tail_not_Nil [simp]: "list_add_tail x xs \<noteq> []"
  by (simp add: list_add_tail_def)

lemma set_list_del [simp]: "distinct xs \<Longrightarrow> set (list_del x xs) = set xs - {x}"
  by (simp add: list_del_def)

lemma distinct_list_del [simp]: "distinct xs \<Longrightarrow> distinct (list_del x xs)"
  by (simp add: list_del_def)

lemma length_list_del: "x \<in> set xs \<Longrightarrow> length (list_del x xs) = length xs - 1"
  by (simp add: list_del_def length_remove1)

lemma list_del_notin [simp]: "x \<notin> set xs \<Longrightarrow> list_del x xs = xs"
  by (simp add: list_del_def remove1_idem)

subsection \<open>Families of disjoint lists\<close>

text \<open>
  The pigeonhole behind the aggregators: if every one of \<open>k\<close> lists over at most \<open>k\<close>
  elements is non-empty and the lists are disjoint, every element is on one of them.
\<close>

lemma disjoint_nonempty_card:
  assumes "finite A"
    and "\<And>a. a \<in> A \<Longrightarrow> f a \<noteq> {} \<and> f a \<subseteq> B"
    and "\<And>a b. a \<in> A \<Longrightarrow> b \<in> A \<Longrightarrow> a \<noteq> b \<Longrightarrow> f a \<inter> f b = {}"
    and "finite B"
  shows "card A \<le> card B"
proof -
  define g where "g a = (SOME x. x \<in> f a)" for a
  have g: "g a \<in> f a" if "a \<in> A" for a
    using assms(2) [OF that] some_in_eq by (auto simp: g_def)
  have "inj_on g A"
    using g assms(3) by (fastforce simp: inj_on_def)
  moreover have "g ` A \<subseteq> B"
    using g assms(2) by blast
  ultimately show ?thesis
    using assms(4) by (metis card_image card_mono)
qed

subsection \<open>Timers of the OS service\<close>

text \<open>
  \<^verbatim>\<open>struct genl_os_service_timer\<close> (lib_general_device/general_os_service.h): whether the
  timer is started, and the delay it was last started with. The queue of armed timeouts is
  libubox's \<^verbatim>\<open>uloop\<close>, which is not part of the repository: that a started timer fires
  later is an event of the model.
\<close>

record genl_os_service_timer =
  pending :: bool
  delay :: nat

definition idle_timer :: genl_os_service_timer where
  "idle_timer = \<lparr>pending = False, delay = 0\<rparr>"

definition lacpd_wrapper_os_service_timer_set ::
    "nat \<Rightarrow> genl_os_service_timer \<Rightarrow> genl_os_service_timer" where
  "lacpd_wrapper_os_service_timer_set msecs t = t\<lparr>pending := True, delay := msecs\<rparr>"

definition lacpd_wrapper_os_service_timer_cancel ::
    "genl_os_service_timer \<Rightarrow> genl_os_service_timer" where
  "lacpd_wrapper_os_service_timer_cancel t = t\<lparr>pending := False\<rparr>"

text \<open>The first half of \<^verbatim>\<open>lacpd_wrapper_os_service_timer_cb\<close>; the callback follows.\<close>

definition lacpd_wrapper_os_service_timer_cb ::
    "genl_os_service_timer \<Rightarrow> genl_os_service_timer" where
  "lacpd_wrapper_os_service_timer_cb t = t\<lparr>pending := False\<rparr>"

abbreviation "timer_set \<equiv> lacpd_wrapper_os_service_timer_set"
abbreviation "timer_cancel \<equiv> lacpd_wrapper_os_service_timer_cancel"
abbreviation "timer_fired \<equiv> lacpd_wrapper_os_service_timer_cb"

lemma timer_simps [simp]:
  "pending (timer_set ms t)" "delay (timer_set ms t) = ms"
  "\<not> pending (timer_cancel t)" "\<not> pending (timer_fired t)" "\<not> pending idle_timer"
  by (simp_all add: lacpd_wrapper_os_service_timer_set_def idle_timer_def
      lacpd_wrapper_os_service_timer_cancel_def lacpd_wrapper_os_service_timer_cb_def)

end
