(* ===== verification/Fsm.thy ===== *)
theory Fsm
  imports Lacp_Prelude
begin

text \<open>
  The state-machine engine of the LACP daemon (qca/src/qca-lacpd/lacp/fsm.c, fsm.h): a table of
  states with entry conditions and entry actions, and a runner that drives the machines of one
  port until none of them can change state.

  The engine is polymorphic: \<open>'q\<close> is the enumeration of a machine's states, \<open>'s\<close> the program
  state its conditions and actions read and write, \<open>'m\<close> the machine identifiers of a runner.
  A condition returns the verdict and the state it leaves, because one condition of the daemon
  (entering CURRENT) has side effects.
\<close>

subsection \<open>Machines\<close>

record ('q, 's) state_machine_state =
  st_id :: 'q
  st_name :: string
  condition :: "'s \<Rightarrow> bool \<times> 's"
  actions :: "('s \<Rightarrow> 's) list"

record ('q, 's) state_machine_base =
  base_name :: string
  initial_state :: 'q
  base_states :: "('q, 's) state_machine_state list"
  put_state :: "'q \<Rightarrow> 's \<Rightarrow> 's"

definition FSM_MAX_STATE :: nat where "FSM_MAX_STATE = 32"
definition FSM_MAX_ACTION :: nat where "FSM_MAX_ACTION = 8"
definition FSM_RUN_DELAY :: nat where "FSM_RUN_DELAY = 50"

definition max_state :: "('q, 's) state_machine_base \<Rightarrow> nat" where
  "max_state b = length (base_states b)"

text \<open>A condition without side effects.\<close>

definition pure_condition :: "('s \<Rightarrow> bool) \<Rightarrow> 's \<Rightarrow> bool \<times> 's" where
  "pure_condition c s = (c s, s)"

fun run_actions :: "('s \<Rightarrow> 's) list \<Rightarrow> 's \<Rightarrow> 's" where
  "run_actions [] s = s"
| "run_actions (a # as) s = run_actions as (a s)"

definition entry_actions :: "('q, 's) state_machine_base \<Rightarrow> 'q \<Rightarrow> ('s \<Rightarrow> 's) list" where
  "entry_actions b q =
     (case find (\<lambda>st. st_id st = q) (base_states b) of
        None \<Rightarrow> [] | Some st \<Rightarrow> take FSM_MAX_ACTION (actions st))"

definition fsm_change_to_state :: "('q, 's) state_machine_base \<Rightarrow> 'q \<Rightarrow> 's \<Rightarrow> 's" where
  "fsm_change_to_state b q s = run_actions (entry_actions b q) (put_state b q s)"

text \<open>
  One pass over the table: every state whose condition holds is entered at once, so a later
  condition of the same pass sees the state reached so far.
\<close>

fun fsm_check_states ::
    "('q, 's) state_machine_base \<Rightarrow> ('q, 's) state_machine_state list \<Rightarrow> bool \<Rightarrow> 's \<Rightarrow> bool \<times> 's"
where
  "fsm_check_states b [] changed s = (changed, s)"
| "fsm_check_states b (st # sts) changed s =
     (let (holds, s1) = condition st s in
      if holds then fsm_check_states b sts True (fsm_change_to_state b (st_id st) s1)
      else fsm_check_states b sts changed s1)"

definition fsm_check_transit_conditions :: "('q, 's) state_machine_base \<Rightarrow> 's \<Rightarrow> bool \<times> 's" where
  "fsm_check_transit_conditions b s = fsm_check_states b (base_states b) False s"

subsection \<open>The runner\<close>

record 'm fsm_runner =
  machines :: "'m list"
  initialized :: bool
  has_os_service :: bool
  has_timer_cb :: bool
  runner_timer :: genl_os_service_timer
  run_delay :: nat

text \<open>A runner inside calloc'ed memory: every pointer NULL, every flag false.\<close>

definition fsm_runner_zero :: "'m fsm_runner" where
  "fsm_runner_zero = \<lparr>machines = [], initialized = False, has_os_service = False,
     has_timer_cb = False, runner_timer = idle_timer, run_delay = 0\<rparr>"

definition fsm_runner_init :: "'m fsm_runner \<Rightarrow> 'm fsm_runner" where
  "fsm_runner_init r = r\<lparr>machines := [], initialized := False, has_os_service := True,
     has_timer_cb := True, run_delay := FSM_RUN_DELAY\<rparr>"

definition fsm_runner_schedule :: "'m fsm_runner \<Rightarrow> 'm fsm_runner" where
  "fsm_runner_schedule r =
     (if machines r = [] \<or> \<not> has_timer_cb r then r
      else if pending (runner_timer r) then r
      else r\<lparr>runner_timer := timer_set (run_delay r) (runner_timer r)\<rparr>)"

definition fsm_runner_stop :: "'m fsm_runner \<Rightarrow> 'm fsm_runner outcome" where
  "fsm_runner_stop r =
     (if \<not> has_os_service r then Fault Null_Deref
      else Returns (r\<lparr>runner_timer := timer_cancel (runner_timer r)\<rparr>))"

definition fsm_runner_lookup_state_machine :: "'m fsm_runner \<Rightarrow> 'm \<Rightarrow> 'm option" where
  "fsm_runner_lookup_state_machine r mid = find (\<lambda>m. m = mid) (machines r)"

definition fsm_runner_add_state_machine ::
    "'m fsm_runner \<Rightarrow> ('m \<times> ('q, 's) state_machine_base) option \<Rightarrow> bool \<times> 'm fsm_runner" where
  "fsm_runner_add_state_machine r st =
     (if initialized r \<or> \<not> has_timer_cb r then (False, r)
      else case st of
        None \<Rightarrow> (False, r)
      | Some (m, b) \<Rightarrow>
          if max_state b > FSM_MAX_STATE \<or> initial_state b \<notin> set (map st_id (base_states b))
          then (False, r)
          else if fsm_runner_lookup_state_machine r m \<noteq> None then (True, r)
          else (True, r\<lparr>machines := list_add_tail m (machines r)\<rparr>))"

definition fsm_runner_del_state_machine :: "'m fsm_runner \<Rightarrow> 'm option \<Rightarrow> bool \<times> 'm fsm_runner" where
  "fsm_runner_del_state_machine r st =
     (case st of
        None \<Rightarrow> (False, r)
      | Some m \<Rightarrow> (True, r\<lparr>machines := list_del m (machines r)\<rparr>))"

text \<open>
  \<open>rn\<close> and \<open>set_initialized\<close> reach the runner inside the program state; \<open>enter m\<close> puts
  machine \<open>m\<close> into its initial state.
\<close>

definition fsm_runner_initail_run ::
    "('s \<Rightarrow> 'm fsm_runner) \<Rightarrow> ('s \<Rightarrow> 's) \<Rightarrow> ('m \<Rightarrow> 's \<Rightarrow> 's) \<Rightarrow> 's \<Rightarrow> 's" where
  "fsm_runner_initail_run rn set_initialized enter s =
     (if initialized (rn s) then s
      else set_initialized (fold enter (machines (rn s)) s))"

text \<open>
  \<^verbatim>\<open>while (fsm_check_transit_conditions(st)) changed = true\<close>. The result is
  \<^term>\<open>None\<close> when the loop never ends.
\<close>

partial_function (option) fsm_settle ::
    "('s \<Rightarrow> bool \<times> 's) \<Rightarrow> bool \<Rightarrow> 's \<Rightarrow> (bool \<times> 's) option" where
  "fsm_settle chk changed s =
     (case chk s of (c, s') \<Rightarrow> if c then fsm_settle chk True s' else Some (changed, s'))"

fun fsm_sweep ::
    "('m \<Rightarrow> 's \<Rightarrow> bool \<times> 's) \<Rightarrow> 'm list \<Rightarrow> bool \<Rightarrow> 's \<Rightarrow> (bool \<times> 's) option" where
  "fsm_sweep chk [] changed s = Some (changed, s)"
| "fsm_sweep chk (m # ms) changed s =
     (case fsm_settle (chk m) changed s of
        None \<Rightarrow> None
      | Some (changed', s') \<Rightarrow> fsm_sweep chk ms changed' s')"

partial_function (option) fsm_runner_loop ::
    "('m \<Rightarrow> 's \<Rightarrow> bool \<times> 's) \<Rightarrow> 'm list \<Rightarrow> 's \<Rightarrow> 's option" where
  "fsm_runner_loop chk ms s =
     (case fsm_sweep chk ms False s of
        None \<Rightarrow> None
      | Some (changed, s') \<Rightarrow> if changed then fsm_runner_loop chk ms s' else Some s')"

declare fsm_settle.simps [code] fsm_runner_loop.simps [code]

definition fsm_runner_run ::
    "('s \<Rightarrow> 'm fsm_runner) \<Rightarrow> ('s \<Rightarrow> 's) \<Rightarrow> ('m \<Rightarrow> 's \<Rightarrow> 's) \<Rightarrow>
     ('m \<Rightarrow> 's \<Rightarrow> bool \<times> 's) \<Rightarrow> 's \<Rightarrow> 's option" where
  "fsm_runner_run rn set_initialized enter chk s =
     (if \<not> initialized (rn s) then Some (fsm_runner_initail_run rn set_initialized enter s)
      else fsm_runner_loop chk (machines (rn s)) s)"

definition fsm_runner_cleanup ::
    "('s \<Rightarrow> 'm fsm_runner) \<Rightarrow> ('m fsm_runner \<Rightarrow> 's \<Rightarrow> 's) \<Rightarrow> ('m \<Rightarrow> 's \<Rightarrow> 's) \<Rightarrow> 's \<Rightarrow> 's outcome"
where
  "fsm_runner_cleanup rn put_runner destroy s =
     bind_outcome (fsm_runner_stop (rn s)) (\<lambda>r.
       let s1 = put_runner r s;
           s2 = fold (\<lambda>m t. destroy m (put_runner (snd (fsm_runner_del_state_machine (rn t) (Some m))) t))
                  (machines r) s1
       in Returns (put_runner ((rn s2)\<lparr>initialized := False\<rparr>) s2))"

subsection \<open>Facts about the engine\<close>

lemma run_actions_append: "run_actions (xs @ ys) s = run_actions ys (run_actions xs s)"
  by (induction xs arbitrary: s) auto

lemma fsm_check_states_changed: "fst (fsm_check_states b sts True s)"
proof -
  have "ch \<Longrightarrow> fst (fsm_check_states b sts ch s)" for ch
    by (induction sts arbitrary: ch s) (auto split: prod.splits)
  then show ?thesis by simp
qed

text \<open>A pass that changes no state evaluates every condition on the state it found.\<close>

lemma fsm_check_states_idle:
  assumes "\<And>st t. st \<in> set sts \<Longrightarrow> snd (condition st t) = t"
    and "\<not> fst (fsm_check_states b sts False s)"
  shows "snd (fsm_check_states b sts False s) = s"
  using assms
proof (induction sts)
  case (Cons st sts)
  obtain h s1 where h: "condition st s = (h, s1)" by fastforce
  with Cons.prems(1) [of st s] have "s1 = s" by simp
  moreover have "\<not> h"
    using Cons.prems(2) h fsm_check_states_changed [of b sts] by auto
  ultimately show ?case using Cons h by simp
qed simp

lemma fsm_check_states_idle_iff:
  assumes "\<And>st t. st \<in> set sts \<Longrightarrow> snd (condition st t) = t"
  shows "fst (fsm_check_states b sts False s) \<longleftrightarrow> (\<exists>st\<in>set sts. fst (condition st s))"
  using assms
proof (induction sts)
  case (Cons st sts)
  obtain h s1 where h: "condition st s = (h, s1)" by fastforce
  with Cons.prems [of st s] have "s1 = s" by simp
  with h Cons fsm_check_states_changed [of b sts] show ?case by auto
qed simp

lemma pure_condition_simps [simp]:
  "fst (pure_condition c s) = c s" "snd (pure_condition c s) = s"
  "pure_condition c s = (h, t) \<longleftrightarrow> h = c s \<and> t = s"
  by (auto simp: pure_condition_def)

lemma fsm_settle_idle: "\<not> fst (chk s) \<Longrightarrow> fsm_settle chk ch s = Some (ch, snd (chk s))"
  by (subst fsm_settle.simps) (auto split: prod.splits)

lemma fsm_settle_busy: "fst (chk s) \<Longrightarrow> fsm_settle chk ch s = fsm_settle chk True (snd (chk s))"
  by (subst fsm_settle.simps) (auto split: prod.splits)

lemma fsm_runner_schedule_pending:
  "machines r \<noteq> [] \<Longrightarrow> has_timer_cb r \<Longrightarrow> pending (runner_timer (fsm_runner_schedule r))"
  by (simp add: fsm_runner_schedule_def)

lemma fsm_runner_schedule_frame [simp]:
  "machines (fsm_runner_schedule r) = machines r"
  "initialized (fsm_runner_schedule r) = initialized r"
  "has_os_service (fsm_runner_schedule r) = has_os_service r"
  "has_timer_cb (fsm_runner_schedule r) = has_timer_cb r"
  "run_delay (fsm_runner_schedule r) = run_delay r"
  by (simp_all add: fsm_runner_schedule_def)

subsection \<open>One machine's table\<close>

text \<open>
  The contract of a table: entering a state whose condition holds keeps the invariant and makes
  progress, and a condition that fails does not lose progress.
\<close>

locale fsm_table =
  fixes base :: "('q, 's) state_machine_base"
    and inv :: "'s \<Rightarrow> bool"
    and rank :: "'s \<Rightarrow> nat"
  assumes enter: "st \<in> set (base_states base) \<Longrightarrow> inv s \<Longrightarrow> condition st s = (True, s1) \<Longrightarrow>
      inv (fsm_change_to_state base (st_id st) s1) \<and>
      rank (fsm_change_to_state base (st_id st) s1) < rank s"
    and skip: "st \<in> set (base_states base) \<Longrightarrow> inv s \<Longrightarrow> condition st s = (False, s1) \<Longrightarrow>
      inv s1 \<and> rank s1 \<le> rank s"
begin

lemma check_states:
  assumes "set sts \<subseteq> set (base_states base)" and "inv s"
    and "fsm_check_states base sts ch s = (c, s')"
  shows "inv s' \<and> rank s' \<le> rank s \<and> (c \<longrightarrow> ch \<or> rank s' < rank s)"
  using assms
proof (induction sts arbitrary: ch s)
  case Nil
  then show ?case by simp
next
  case (Cons st sts)
  obtain h s1 where h: "condition st s = (h, s1)" by fastforce
  have st: "st \<in> set (base_states base)" using Cons.prems(1) by simp
  show ?case
  proof (cases h)
    case True
    let ?t = "fsm_change_to_state base (st_id st) s1"
    have t: "inv ?t \<and> rank ?t < rank s" using enter [OF st Cons.prems(2)] h True by simp
    have "fsm_check_states base sts True ?t = (c, s')" using Cons.prems(3) h True by simp
    with t Cons.IH [of ?t True] Cons.prems(1) show ?thesis by auto
  next
    case False
    have t: "inv s1 \<and> rank s1 \<le> rank s" using skip [OF st Cons.prems(2)] h False by simp
    have "fsm_check_states base sts ch s1 = (c, s')" using Cons.prems(3) h False by simp
    with t Cons.IH [of s1 ch] Cons.prems(1) show ?thesis by auto
  qed
qed

lemma check_inv: "inv s \<Longrightarrow> inv (snd (fsm_check_transit_conditions base s))"
  using check_states [of "base_states base" s False]
  by (cases "fsm_check_transit_conditions base s") (auto simp: fsm_check_transit_conditions_def)

lemma check_rank: "inv s \<Longrightarrow> rank (snd (fsm_check_transit_conditions base s)) \<le> rank s"
  using check_states [of "base_states base" s False]
  by (cases "fsm_check_transit_conditions base s") (auto simp: fsm_check_transit_conditions_def)

lemma check_progress:
  "inv s \<Longrightarrow> fst (fsm_check_transit_conditions base s) \<Longrightarrow>
   rank (snd (fsm_check_transit_conditions base s)) < rank s"
  using check_states [of "base_states base" s False]
  by (cases "fsm_check_transit_conditions base s") (auto simp: fsm_check_transit_conditions_def)

end

subsection \<open>All machines of a runner\<close>

locale fsm_progress =
  fixes chk :: "'m \<Rightarrow> 's \<Rightarrow> bool \<times> 's"
    and inv :: "'s \<Rightarrow> bool"
    and rank :: "'s \<Rightarrow> nat"
  assumes keeps: "inv s \<Longrightarrow> inv (snd (chk m s))"
    and progress: "inv s \<Longrightarrow> fst (chk m s) \<Longrightarrow> rank (snd (chk m s)) < rank s"
    and no_regress: "inv s \<Longrightarrow> rank (snd (chk m s)) \<le> rank s"
    and idle: "inv s \<Longrightarrow> \<not> fst (chk m s) \<Longrightarrow> fst (chk m' (snd (chk m s))) = fst (chk m' s)"
begin

lemma settle:
  "inv s \<Longrightarrow> \<exists>c s'. fsm_settle (chk m) ch s = Some (c, s') \<and> inv s' \<and> rank s' \<le> rank s \<and>
     (c \<longleftrightarrow> ch \<or> fst (chk m s)) \<and> (fst (chk m s) \<longrightarrow> rank s' < rank s) \<and>
     (\<not> fst (chk m s) \<longrightarrow> s' = snd (chk m s))"
proof (induction "rank s" arbitrary: s ch rule: less_induct)
  case less
  show ?case
  proof (cases "fst (chk m s)")
    case False
    then show ?thesis
      using less.prems by (auto simp: fsm_settle_idle keeps no_regress)
  next
    case True
    have p: "rank (snd (chk m s)) < rank s" using progress less.prems True by blast
    from less.hyps [OF p keeps [OF less.prems], of True] obtain c s' where
      "fsm_settle (chk m) True (snd (chk m s)) = Some (c, s')" "inv s'"
      "rank s' \<le> rank (snd (chk m s))" c
      by blast
    with True p show ?thesis by (simp add: fsm_settle_busy) blast
  qed
qed

lemma sweep:
  "inv s \<Longrightarrow> \<exists>c s'. fsm_sweep chk ms ch s = Some (c, s') \<and> inv s' \<and> rank s' \<le> rank s \<and>
     (ch \<longrightarrow> c) \<and> (c \<longrightarrow> ch \<or> rank s' < rank s) \<and>
     (\<not> c \<longrightarrow> (\<forall>m. fst (chk m s') = fst (chk m s)) \<and> (\<forall>m\<in>set ms. \<not> fst (chk m s)))"
proof (induction ms arbitrary: s ch)
  case Nil
  then show ?case by simp
next
  case (Cons m ms)
  from settle [OF Cons.prems, of m ch] obtain c1 s1 where
    1: "fsm_settle (chk m) ch s = Some (c1, s1)" "inv s1" "rank s1 \<le> rank s"
      "c1 \<longleftrightarrow> ch \<or> fst (chk m s)" "fst (chk m s) \<longrightarrow> rank s1 < rank s"
      "\<not> fst (chk m s) \<longrightarrow> s1 = snd (chk m s)" by blast
  from Cons.IH [OF 1(2), of c1] obtain c s' where
    2: "fsm_sweep chk ms c1 s1 = Some (c, s')" "inv s'" "rank s' \<le> rank s1"
      "c1 \<longrightarrow> c" "c \<longrightarrow> c1 \<or> rank s' < rank s1"
      "\<not> c \<longrightarrow> (\<forall>m. fst (chk m s') = fst (chk m s1)) \<and> (\<forall>m\<in>set ms. \<not> fst (chk m s1))"
    by blast
  have same: "fst (chk m' s1) = fst (chk m' s)" if "\<not> fst (chk m s)" for m'
    using 1(6) idle [OF Cons.prems that] that by simp
  have "fsm_sweep chk (m # ms) ch s = Some (c, s')" using 1(1) 2(1) by simp
  moreover have "rank s' \<le> rank s" using 1(3) 2(3) by simp
  moreover have "c \<longrightarrow> ch \<or> rank s' < rank s" using 1 2 by force
  ultimately show ?case using 1(4) 2 same by auto
qed

lemma loop:
  "inv s \<Longrightarrow> \<exists>s'. fsm_runner_loop chk ms s = Some s' \<and> inv s' \<and> rank s' \<le> rank s \<and>
     (\<forall>m\<in>set ms. \<not> fst (chk m s'))"
proof (induction "rank s" arbitrary: s rule: less_induct)
  case less
  from sweep [OF less.prems, of ms False] obtain c s1 where
    1: "fsm_sweep chk ms False s = Some (c, s1)" "inv s1" "rank s1 \<le> rank s"
      "c \<longrightarrow> rank s1 < rank s"
      "\<not> c \<longrightarrow> (\<forall>m. fst (chk m s1) = fst (chk m s)) \<and> (\<forall>m\<in>set ms. \<not> fst (chk m s))"
    by blast
  show ?case
  proof (cases c)
    case True
    with less.hyps [OF _ 1(2)] 1 obtain s' where
      "fsm_runner_loop chk ms s1 = Some s'" "inv s'" "rank s' \<le> rank s1"
      "\<forall>m\<in>set ms. \<not> fst (chk m s')" by blast
    moreover from this True 1(1) have "fsm_runner_loop chk ms s = Some s'"
      by (subst fsm_runner_loop.simps) simp
    ultimately show ?thesis using 1(3) by auto
  next
    case False
    with 1(1) have "fsm_runner_loop chk ms s = Some s1"
      by (subst fsm_runner_loop.simps) simp
    with False 1 show ?thesis by auto
  qed
qed

end

end
