(* ===== verification/Lacpdu.thy ===== *)
theory Lacpdu
  imports Lacp_Prelude
begin

text \<open>
  Port information and the LACP packet (qca/src/qca-lacpd/lacp/port_info.[ch], lacpdu.[ch]):
  the record both sides of a link exchange, its comparison under a mask, its encoding in a
  LACPDU, and the byte image of the packet that is sent.

  A uint16 field of a packet holds the value as a load would read it on the little-endian
  processors the firmware runs on, so htons and ntohs swap the two bytes.
\<close>

subsection \<open>MAC addresses\<close>

datatype mac_addr = Mac u8 u8 u8 u8 u8 u8

definition mac_zero :: mac_addr where
  "mac_zero = Mac 0 0 0 0 0 0"

text \<open>A 16-bit load of two adjacent bytes.\<close>

definition load16 :: "u8 \<Rightarrow> u8 \<Rightarrow> u16" where
  "load16 b0 b1 = ucast b0 OR push_bit 8 (ucast b1)"

fun mac_addr_is_empty :: "mac_addr \<Rightarrow> bool" where
  "mac_addr_is_empty (Mac b0 b1 b2 b3 b4 b5) \<longleftrightarrow>
     (load16 b0 b1 OR load16 b2 b3 OR load16 b4 b5) = 0"

fun mac_addr_euqal :: "mac_addr \<Rightarrow> mac_addr \<Rightarrow> bool" where
  "mac_addr_euqal (Mac a0 a1 a2 a3 a4 a5) (Mac b0 b1 b2 b3 b4 b5) \<longleftrightarrow>
     ((load16 a0 a1 XOR load16 b0 b1) OR (load16 a2 a3 XOR load16 b2 b3)
        OR (load16 a4 a5 XOR load16 b4 b5)) = 0"

lemma load16_eq_iff [simp]: "load16 a b = load16 c d \<longleftrightarrow> a = c \<and> b = d"
proof
  assume eq: "load16 a b = load16 c d"
  have "bit a n = bit c n" if "n < 8" for n
  proof -
    have "bit (load16 a b) n = bit (load16 c d) n" using eq by simp
    with that show ?thesis by (simp add: load16_def bit_simps)
  qed
  moreover have "bit b n = bit d n" if "n < 8" for n
  proof -
    have "bit (load16 a b) (n + 8) = bit (load16 c d) (n + 8)" using eq by simp
    with that show ?thesis
      using bit_imp_le_length [of a "n + 8"] bit_imp_le_length [of c "n + 8"]
      by (auto simp: load16_def bit_simps)
  qed
  ultimately show "a = c \<and> b = d" by (auto intro!: bit_word_eqI)
qed simp

lemma load16_0_iff [simp]: "load16 a b = 0 \<longleftrightarrow> a = 0 \<and> b = 0"
  using load16_eq_iff [of a b 0 0] by (simp add: load16_def)

lemma xor_eq_0_word [simp]: "(x XOR y = (0 :: 'a::len word)) \<longleftrightarrow> x = y"
proof
  assume "x XOR y = 0"
  then have "(x XOR y) XOR y = 0 XOR y" by simp
  then show "x = y" by (simp add: xor.assoc)
qed simp

lemma mac_addr_is_empty_iff [simp]: "mac_addr_is_empty m \<longleftrightarrow> m = mac_zero"
  by (cases m) (simp add: mac_zero_def or_eq_0_iff)

lemma mac_addr_euqal_iff [simp]: "mac_addr_euqal a b \<longleftrightarrow> a = b"
  by (cases a; cases b) (auto simp: or_eq_0_iff)

subsection \<open>Port information\<close>

text \<open>The eight one-bit fields of \<^verbatim>\<open>struct lacpd_port_info_state\<close>.\<close>

record lacpd_port_info_state =
  activity :: bool
  timeout :: bool
  aggregation :: bool
  synchronization :: bool
  collecting :: bool
  distributing :: bool
  defaulted :: bool
  expired :: bool

record lacpd_port_info =
  info_system_priority :: u16
  info_system :: mac_addr
  info_key :: u16
  info_port_priority :: u16
  info_port :: u16
  info_state :: lacpd_port_info_state

definition port_info_state_zero :: lacpd_port_info_state where
  "port_info_state_zero = \<lparr>activity = False, timeout = False, aggregation = False,
     synchronization = False, collecting = False, distributing = False,
     defaulted = False, expired = False\<rparr>"

definition port_info_zero :: lacpd_port_info where
  "port_info_zero = \<lparr>info_system_priority = 0, info_system = mac_zero, info_key = 0,
     info_port_priority = 0, info_port = 0, info_state = port_info_state_zero\<rparr>"

definition ignore_mask_system_priority :: u32 where "ignore_mask_system_priority = 0x0001"
definition ignore_mask_system :: u32 where "ignore_mask_system = 0x0002"
definition ignore_mask_key :: u32 where "ignore_mask_key = 0x0004"
definition ignore_mask_port_priority :: u32 where "ignore_mask_port_priority = 0x0008"
definition ignore_mask_port :: u32 where "ignore_mask_port = 0x0010"
definition ignore_mask_state_activity :: u32 where "ignore_mask_state_activity = 0x0020"
definition ignore_mask_state_timeout :: u32 where "ignore_mask_state_timeout = 0x0040"
definition ignore_mask_state_aggregation :: u32 where "ignore_mask_state_aggregation = 0x0080"
definition ignore_mask_state_synchronization :: u32 where "ignore_mask_state_synchronization = 0x0100"
definition ignore_mask_state_collecting :: u32 where "ignore_mask_state_collecting = 0x0200"
definition ignore_mask_state_distributing :: u32 where "ignore_mask_state_distributing = 0x0400"
definition ignore_mask_state_defaulted :: u32 where "ignore_mask_state_defaulted = 0x0800"
definition ignore_mask_state_expired :: u32 where "ignore_mask_state_expired = 0x1000"

lemmas ignore_mask_defs =
  ignore_mask_system_priority_def ignore_mask_system_def ignore_mask_key_def
  ignore_mask_port_priority_def ignore_mask_port_def ignore_mask_state_activity_def
  ignore_mask_state_timeout_def ignore_mask_state_aggregation_def
  ignore_mask_state_synchronization_def ignore_mask_state_collecting_def
  ignore_mask_state_distributing_def ignore_mask_state_defaulted_def
  ignore_mask_state_expired_def

definition ignore_states :: "u32 \<Rightarrow> u32 \<Rightarrow> u32 \<Rightarrow> u32 \<Rightarrow> u32" where
  "ignore_states n1 n2 n3 n4 = n1 OR n2 OR n3 OR n4"

definition ignore_all_states :: u32 where
  "ignore_all_states =
     ignore_states ignore_mask_state_activity ignore_mask_state_timeout
       ignore_mask_state_aggregation ignore_mask_state_synchronization OR
     ignore_states ignore_mask_state_collecting ignore_mask_state_distributing
       ignore_mask_state_defaulted ignore_mask_state_expired"

definition ignore_all_states_except :: "u32 \<Rightarrow> u32" where
  "ignore_all_states_except n = ignore_all_states AND NOT n"

definition port_info_equal :: "lacpd_port_info \<Rightarrow> lacpd_port_info \<Rightarrow> u32 \<Rightarrow> bool" where
  "port_info_equal a b ignore_mask =
     (if ignore_mask AND ignore_mask_system_priority = 0 \<and>
         info_system_priority a \<noteq> info_system_priority b then False
      else if ignore_mask AND ignore_mask_system = 0 \<and>
         \<not> mac_addr_euqal (info_system a) (info_system b) then False
      else if ignore_mask AND ignore_mask_key = 0 \<and> info_key a \<noteq> info_key b then False
      else if ignore_mask AND ignore_mask_port_priority = 0 \<and>
         info_port_priority a \<noteq> info_port_priority b then False
      else if ignore_mask AND ignore_mask_port = 0 \<and> info_port a \<noteq> info_port b then False
      else if ignore_mask AND ignore_mask_state_activity = 0 \<and>
         activity (info_state a) \<noteq> activity (info_state b) then False
      else if ignore_mask AND ignore_mask_state_timeout = 0 \<and>
         timeout (info_state a) \<noteq> timeout (info_state b) then False
      else if ignore_mask AND ignore_mask_state_aggregation = 0 \<and>
         aggregation (info_state a) \<noteq> aggregation (info_state b) then False
      else if ignore_mask AND ignore_mask_state_synchronization = 0 \<and>
         synchronization (info_state a) \<noteq> synchronization (info_state b) then False
      else if ignore_mask AND ignore_mask_state_collecting = 0 \<and>
         collecting (info_state a) \<noteq> collecting (info_state b) then False
      else if ignore_mask AND ignore_mask_state_distributing = 0 \<and>
         distributing (info_state a) \<noteq> distributing (info_state b) then False
      else if ignore_mask AND ignore_mask_state_defaulted = 0 \<and>
         defaulted (info_state a) \<noteq> defaulted (info_state b) then False
      else if ignore_mask AND ignore_mask_state_expired = 0 \<and>
         expired (info_state a) \<noteq> expired (info_state b) then False
      else True)"

text \<open>What the two masks of the receive machine compare.\<close>

definition same_identity :: "lacpd_port_info \<Rightarrow> lacpd_port_info \<Rightarrow> bool" where
  "same_identity a b \<longleftrightarrow>
     info_system_priority a = info_system_priority b \<and> info_system a = info_system b \<and>
     info_key a = info_key b \<and> info_port_priority a = info_port_priority b \<and>
     info_port a = info_port b"

lemma port_info_equal_except_aggregation:
  "port_info_equal a b (ignore_all_states_except ignore_mask_state_aggregation) \<longleftrightarrow>
   same_identity a b \<and> aggregation (info_state a) = aggregation (info_state b)"
  by (auto simp: port_info_equal_def same_identity_def ignore_all_states_except_def
      ignore_all_states_def ignore_states_def ignore_mask_defs)

lemma port_info_equal_NTT:
  "port_info_equal a b (ignore_states ignore_mask_state_collecting ignore_mask_state_distributing
      ignore_mask_state_defaulted ignore_mask_state_expired) \<longleftrightarrow>
   same_identity a b \<and> activity (info_state a) = activity (info_state b) \<and>
   timeout (info_state a) = timeout (info_state b) \<and>
   aggregation (info_state a) = aggregation (info_state b) \<and>
   synchronization (info_state a) = synchronization (info_state b)"
  by (auto simp: port_info_equal_def same_identity_def ignore_states_def ignore_mask_defs)

lemma port_info_equal_refl [simp]: "port_info_equal a a msk"
  by (simp add: port_info_equal_def)

lemma port_info_equal_0_iff: "port_info_equal a b 0 \<longleftrightarrow> a = b"
proof
  assume "port_info_equal a b 0"
  then show "a = b"
    by (intro lacpd_port_info.equality lacpd_port_info_state.equality)
      (simp_all add: port_info_equal_def split: if_splits)
qed simp

subsection \<open>The packet\<close>

record lacpdu_port_info =
  pi_tlv_type :: u8
  pi_tlv_length :: u8
  pi_system_priority :: u16
  pi_system :: mac_addr
  pi_key :: u16
  pi_port_priority :: u16
  pi_port :: u16
  pi_state :: u8
  pi_reserved :: "u8 list"

record lacpdu_collector_delay =
  cd_tlv_type :: u8
  cd_tlv_length :: u8
  cd_delay :: u16
  cd_reserved :: "u8 list"

record lacpdu_terminator =
  tm_tlv_type :: u8
  tm_tlv_length :: u8
  tm_reserved :: "u8 list"

record lacpdu =
  subtype :: u8
  version_number :: u8
  actor :: lacpdu_port_info
  partner :: lacpdu_port_info
  collector_delay :: lacpdu_collector_delay
  terminator :: lacpdu_terminator

record eth_header =
  dst_mac :: mac_addr
  src_mac :: mac_addr
  eth_type :: u16

record lacp_pkt =
  eth :: eth_header
  lacp :: lacpdu

definition sizeof_lacpdu_port_info :: nat where "sizeof_lacpdu_port_info = 20"
definition sizeof_lacpdu_collector_delay :: nat where "sizeof_lacpdu_collector_delay = 16"
definition sizeof_lacpdu_terminator :: nat where "sizeof_lacpdu_terminator = 52"
definition sizeof_lacpdu :: nat where "sizeof_lacpdu = 110"
definition sizeof_eth_header :: nat where "sizeof_eth_header = 14"
definition sizeof_lacp_pkt :: nat where "sizeof_lacp_pkt = 124"

definition LACPDU_ETH_TYPE :: u16 where "LACPDU_ETH_TYPE = 0x8809"
definition LACPDU_SUB_TYPE :: u8 where "LACPDU_SUB_TYPE = 1"
definition LACPDU_VERSION :: u8 where "LACPDU_VERSION = 1"
definition LACPDU_TLV_TYPE_ACTOR :: u8 where "LACPDU_TLV_TYPE_ACTOR = 1"
definition LACPDU_TLV_TYPE_PARTNER :: u8 where "LACPDU_TLV_TYPE_PARTNER = 2"
definition LACPDU_TLV_TYPE_COLLECTOR_DELAY :: u8 where "LACPDU_TLV_TYPE_COLLECTOR_DELAY = 3"
definition LACPDU_TLV_TYPE_TERMINATOR :: u8 where "LACPDU_TLV_TYPE_TERMINATOR = 0"

definition LACPDU_STATE_activity :: u8 where "LACPDU_STATE_activity = 0x01"
definition LACPDU_STATE_timeout :: u8 where "LACPDU_STATE_timeout = 0x02"
definition LACPDU_STATE_aggregation :: u8 where "LACPDU_STATE_aggregation = 0x04"
definition LACPDU_STATE_synchronization :: u8 where "LACPDU_STATE_synchronization = 0x08"
definition LACPDU_STATE_collecting :: u8 where "LACPDU_STATE_collecting = 0x10"
definition LACPDU_STATE_distributing :: u8 where "LACPDU_STATE_distributing = 0x20"
definition LACPDU_STATE_defaulted :: u8 where "LACPDU_STATE_defaulted = 0x40"
definition LACPDU_STATE_expired :: u8 where "LACPDU_STATE_expired = 0x80"

lemmas lacpdu_consts =
  LACPDU_ETH_TYPE_def LACPDU_SUB_TYPE_def LACPDU_VERSION_def LACPDU_TLV_TYPE_ACTOR_def
  LACPDU_TLV_TYPE_PARTNER_def LACPDU_TLV_TYPE_COLLECTOR_DELAY_def
  LACPDU_TLV_TYPE_TERMINATOR_def sizeof_lacpdu_port_info_def sizeof_lacpdu_collector_delay_def
  sizeof_lacpdu_terminator_def

lemmas lacpdu_state_defs =
  LACPDU_STATE_activity_def LACPDU_STATE_timeout_def LACPDU_STATE_aggregation_def
  LACPDU_STATE_synchronization_def LACPDU_STATE_collecting_def LACPDU_STATE_distributing_def
  LACPDU_STATE_defaulted_def LACPDU_STATE_expired_def

definition ntohs :: "u16 \<Rightarrow> u16" where
  "ntohs w = push_bit 8 w OR drop_bit 8 w"

definition htons :: "u16 \<Rightarrow> u16" where
  "htons w = push_bit 8 w OR drop_bit 8 w"

lemma ntohs_htons [simp]: "ntohs (htons w) = w"
  unfolding ntohs_def htons_def by (rule bit_word_eqI) (auto simp: bit_simps)

lemma htons_ntohs [simp]: "htons (ntohs w) = w"
  unfolding ntohs_def htons_def by (rule bit_word_eqI) (auto simp: bit_simps)

definition lacpdu_validate :: "lacpdu \<Rightarrow> bool" where
  "lacpdu_validate pkt \<longleftrightarrow>
     subtype pkt = LACPDU_SUB_TYPE \<and> version_number pkt = LACPDU_VERSION \<and>
     pi_tlv_type (actor pkt) = LACPDU_TLV_TYPE_ACTOR \<and>
     unat (pi_tlv_length (actor pkt)) = sizeof_lacpdu_port_info \<and>
     pi_tlv_type (partner pkt) = LACPDU_TLV_TYPE_PARTNER \<and>
     unat (pi_tlv_length (partner pkt)) = sizeof_lacpdu_port_info"

definition lacpdu_get_port_info :: "lacpdu \<Rightarrow> bool \<Rightarrow> lacpd_port_info" where
  "lacpdu_get_port_info pkt is_actor =
     (let from = (if is_actor then actor pkt else partner pkt) in
      \<lparr>info_system_priority = ntohs (pi_system_priority from),
       info_system = pi_system from,
       info_key = ntohs (pi_key from),
       info_port_priority = ntohs (pi_port_priority from),
       info_port = ntohs (pi_port from),
       info_state = \<lparr>
         activity = (pi_state from AND LACPDU_STATE_activity \<noteq> 0),
         timeout = (pi_state from AND LACPDU_STATE_timeout \<noteq> 0),
         aggregation = (pi_state from AND LACPDU_STATE_aggregation \<noteq> 0),
         synchronization = (pi_state from AND LACPDU_STATE_synchronization \<noteq> 0),
         collecting = (pi_state from AND LACPDU_STATE_collecting \<noteq> 0),
         distributing = (pi_state from AND LACPDU_STATE_distributing \<noteq> 0),
         defaulted = (pi_state from AND LACPDU_STATE_defaulted \<noteq> 0),
         expired = (pi_state from AND LACPDU_STATE_expired \<noteq> 0)\<rparr>\<rparr>)"

definition set_state_bits :: "lacpd_port_info_state \<Rightarrow> u8 \<Rightarrow> u8" where
  "set_state_bits st w =
     w OR (if activity st then LACPDU_STATE_activity else 0)
       OR (if timeout st then LACPDU_STATE_timeout else 0)
       OR (if aggregation st then LACPDU_STATE_aggregation else 0)
       OR (if synchronization st then LACPDU_STATE_synchronization else 0)
       OR (if collecting st then LACPDU_STATE_collecting else 0)
       OR (if distributing st then LACPDU_STATE_distributing else 0)
       OR (if defaulted st then LACPDU_STATE_defaulted else 0)
       OR (if expired st then LACPDU_STATE_expired else 0)"

definition fill_port_info :: "lacpd_port_info \<Rightarrow> lacpdu_port_info \<Rightarrow> lacpdu_port_info" where
  "fill_port_info info to = to\<lparr>
     pi_system_priority := htons (info_system_priority info),
     pi_system := info_system info,
     pi_key := htons (info_key info),
     pi_port_priority := htons (info_port_priority info),
     pi_port := htons (info_port info),
     pi_state := set_state_bits (info_state info) (pi_state to)\<rparr>"

definition lacpdu_set_port_info :: "lacpd_port_info \<Rightarrow> lacpdu \<Rightarrow> bool \<Rightarrow> lacpdu" where
  "lacpdu_set_port_info info pkt is_actor =
     (if is_actor then pkt\<lparr>actor := fill_port_info info (actor pkt)\<rparr>
      else pkt\<lparr>partner := fill_port_info info (partner pkt)\<rparr>)"

definition lacpdu_port_info_zero :: lacpdu_port_info where
  "lacpdu_port_info_zero = \<lparr>pi_tlv_type = 0, pi_tlv_length = 0, pi_system_priority = 0,
     pi_system = mac_zero, pi_key = 0, pi_port_priority = 0, pi_port = 0, pi_state = 0,
     pi_reserved = replicate 3 0\<rparr>"

definition lacpdu_zero :: lacpdu where
  "lacpdu_zero = \<lparr>subtype = 0, version_number = 0, actor = lacpdu_port_info_zero,
     partner = lacpdu_port_info_zero,
     collector_delay = \<lparr>cd_tlv_type = 0, cd_tlv_length = 0, cd_delay = 0, cd_reserved = replicate 12 0\<rparr>,
     terminator = \<lparr>tm_tlv_type = 0, tm_tlv_length = 0, tm_reserved = replicate 50 0\<rparr>\<rparr>"

definition lacpdu_init :: lacp_pkt where
  "lacpdu_init = \<lparr>
     eth = \<lparr>dst_mac = Mac 0x01 0x80 0xc2 0x00 0x00 0x02, src_mac = mac_zero,
            eth_type = htons LACPDU_ETH_TYPE\<rparr>,
     lacp = lacpdu_zero\<lparr>
       subtype := LACPDU_SUB_TYPE,
       version_number := LACPDU_VERSION,
       actor := lacpdu_port_info_zero\<lparr>pi_tlv_type := LACPDU_TLV_TYPE_ACTOR,
         pi_tlv_length := of_nat sizeof_lacpdu_port_info\<rparr>,
       partner := lacpdu_port_info_zero\<lparr>pi_tlv_type := LACPDU_TLV_TYPE_PARTNER,
         pi_tlv_length := of_nat sizeof_lacpdu_port_info\<rparr>,
       collector_delay := \<lparr>cd_tlv_type = LACPDU_TLV_TYPE_COLLECTOR_DELAY,
         cd_tlv_length = of_nat sizeof_lacpdu_collector_delay, cd_delay = 0,
         cd_reserved = replicate 12 0\<rparr>,
       terminator := \<lparr>tm_tlv_type = LACPDU_TLV_TYPE_TERMINATOR, tm_tlv_length = 0,
         tm_reserved = replicate 50 0\<rparr>\<rparr>\<rparr>"

subsection \<open>Reading back what was filled in\<close>

lemma set_state_bits_read [simp]:
  "(set_state_bits st 0 AND LACPDU_STATE_activity = 0) = (\<not> activity st)"
  "(set_state_bits st 0 AND LACPDU_STATE_timeout = 0) = (\<not> timeout st)"
  "(set_state_bits st 0 AND LACPDU_STATE_aggregation = 0) = (\<not> aggregation st)"
  "(set_state_bits st 0 AND LACPDU_STATE_synchronization = 0) = (\<not> synchronization st)"
  "(set_state_bits st 0 AND LACPDU_STATE_collecting = 0) = (\<not> collecting st)"
  "(set_state_bits st 0 AND LACPDU_STATE_distributing = 0) = (\<not> distributing st)"
  "(set_state_bits st 0 AND LACPDU_STATE_defaulted = 0) = (\<not> defaulted st)"
  "(set_state_bits st 0 AND LACPDU_STATE_expired = 0) = (\<not> expired st)"
  by (simp_all add: set_state_bits_def lacpdu_state_defs bit.conj_disj_distrib2
      if_distrib [where f = "\<lambda>x. x AND _"] or_eq_0_iff)

lemma lacpdu_get_set_same:
  "pi_state (if is_actor then actor pkt else partner pkt) = 0 \<Longrightarrow>
   lacpdu_get_port_info (lacpdu_set_port_info info pkt is_actor) is_actor = info"
  by (cases is_actor; cases "info_state info";
      simp add: lacpdu_get_port_info_def lacpdu_set_port_info_def fill_port_info_def Let_def)

lemma lacpdu_get_set_other:
  "is_actor \<noteq> is_actor' \<Longrightarrow>
   lacpdu_get_port_info (lacpdu_set_port_info info pkt is_actor) is_actor' =
   lacpdu_get_port_info pkt is_actor'"
  by (cases is_actor; cases is_actor';
      simp add: lacpdu_get_port_info_def lacpdu_set_port_info_def fill_port_info_def Let_def)

lemma lacpdu_get_set_both:
  assumes "pi_state (actor pkt) = 0" and "pi_state (partner pkt) = 0"
  shows "lacpdu_get_port_info (lacpdu_set_port_info q (lacpdu_set_port_info p pkt True) False) True = p"
    "lacpdu_get_port_info (lacpdu_set_port_info q (lacpdu_set_port_info p pkt True) False) False = q"
proof -
  have "lacpdu_get_port_info (lacpdu_set_port_info p pkt True) True = p"
    using assms(1) lacpdu_get_set_same [of True pkt p] by simp
  then show "lacpdu_get_port_info (lacpdu_set_port_info q (lacpdu_set_port_info p pkt True) False) True = p"
    using lacpdu_get_set_other [of False True] by simp
  show "lacpdu_get_port_info (lacpdu_set_port_info q (lacpdu_set_port_info p pkt True) False) False = q"
    using assms(2) lacpdu_get_set_same [of False "lacpdu_set_port_info p pkt True" q]
    by (simp add: lacpdu_set_port_info_def)
qed

lemma lacpdu_validate_set [simp]:
  "lacpdu_validate (lacpdu_set_port_info info pkt is_actor) = lacpdu_validate pkt"
  by (simp add: lacpdu_validate_def lacpdu_set_port_info_def fill_port_info_def)

lemma lacpdu_validate_init [simp]: "lacpdu_validate (lacp lacpdu_init)"
  by (simp add: lacpdu_validate_def lacpdu_init_def lacpdu_consts)

lemma lacpdu_validate_zero [simp]: "\<not> lacpdu_validate lacpdu_zero"
  by (simp add: lacpdu_validate_def lacpdu_zero_def lacpdu_consts)

subsection \<open>The byte image\<close>

text \<open>
  The structs have no padding (every uint16 field is at an even offset), so a packet in memory
  is the concatenation of its fields.
\<close>

definition bytes16 :: "u16 \<Rightarrow> u8 list" where
  "bytes16 w = [ucast w, ucast (drop_bit 8 w)]"

fun mac_bytes :: "mac_addr \<Rightarrow> u8 list" where
  "mac_bytes (Mac b0 b1 b2 b3 b4 b5) = [b0, b1, b2, b3, b4, b5]"

definition port_info_bytes :: "lacpdu_port_info \<Rightarrow> u8 list" where
  "port_info_bytes p =
     [pi_tlv_type p, pi_tlv_length p] @ bytes16 (pi_system_priority p) @ mac_bytes (pi_system p) @
     bytes16 (pi_key p) @ bytes16 (pi_port_priority p) @ bytes16 (pi_port p) @ [pi_state p] @
     pi_reserved p"

definition lacpdu_bytes :: "lacpdu \<Rightarrow> u8 list" where
  "lacpdu_bytes p =
     [subtype p, version_number p] @ port_info_bytes (actor p) @ port_info_bytes (partner p) @
     [cd_tlv_type (collector_delay p), cd_tlv_length (collector_delay p)] @
     bytes16 (cd_delay (collector_delay p)) @ cd_reserved (collector_delay p) @
     [tm_tlv_type (terminator p), tm_tlv_length (terminator p)] @ tm_reserved (terminator p)"

definition lacp_pkt_bytes :: "lacp_pkt \<Rightarrow> u8 list" where
  "lacp_pkt_bytes p =
     mac_bytes (dst_mac (eth p)) @ mac_bytes (src_mac (eth p)) @ bytes16 (eth_type (eth p)) @
     lacpdu_bytes (lacp p)"

definition mac_at :: "u8 list \<Rightarrow> nat \<Rightarrow> mac_addr" where
  "mac_at bs i = Mac (bs ! i) (bs ! (i + 1)) (bs ! (i + 2)) (bs ! (i + 3)) (bs ! (i + 4)) (bs ! (i + 5))"

definition load16_at :: "u8 list \<Rightarrow> nat \<Rightarrow> u16" where
  "load16_at bs i = load16 (bs ! i) (bs ! (i + 1))"

definition port_info_of_bytes :: "u8 list \<Rightarrow> lacpdu_port_info" where
  "port_info_of_bytes bs = \<lparr>pi_tlv_type = bs ! 0, pi_tlv_length = bs ! 1,
     pi_system_priority = load16_at bs 2, pi_system = mac_at bs 4, pi_key = load16_at bs 10,
     pi_port_priority = load16_at bs 12, pi_port = load16_at bs 14, pi_state = bs ! 16,
     pi_reserved = take 3 (drop 17 bs)\<rparr>"

definition lacpdu_of_bytes :: "u8 list \<Rightarrow> lacpdu" where
  "lacpdu_of_bytes bs = \<lparr>subtype = bs ! 0, version_number = bs ! 1,
     actor = port_info_of_bytes (drop 2 bs), partner = port_info_of_bytes (drop 22 bs),
     collector_delay = \<lparr>cd_tlv_type = bs ! 42, cd_tlv_length = bs ! 43,
       cd_delay = load16_at bs 44, cd_reserved = take 12 (drop 46 bs)\<rparr>,
     terminator = \<lparr>tm_tlv_type = bs ! 58, tm_tlv_length = bs ! 59,
       tm_reserved = take 50 (drop 60 bs)\<rparr>\<rparr>"

text \<open>
  \<^verbatim>\<open>(struct lacp_pkt *)buf\<close>: the cast reads 124 bytes whatever the length of the
  received frame.
\<close>

definition lacp_pkt_of_bytes :: "u8 list \<Rightarrow> lacp_pkt outcome" where
  "lacp_pkt_of_bytes bs =
     (if length bs < sizeof_lacp_pkt then Fault Out_Of_Bounds
      else Returns \<lparr>eth = \<lparr>dst_mac = mac_at bs 0, src_mac = mac_at bs 6, eth_type = load16_at bs 12\<rparr>,
                    lacp = lacpdu_of_bytes (drop sizeof_eth_header bs)\<rparr>)"

definition lacpdu_padded :: "lacpdu \<Rightarrow> bool" where
  "lacpdu_padded p \<longleftrightarrow> length (pi_reserved (actor p)) = 3 \<and> length (pi_reserved (partner p)) = 3 \<and>
     length (cd_reserved (collector_delay p)) = 12 \<and> length (tm_reserved (terminator p)) = 50"

lemma load16_bytes16 [simp]: "load16 (ucast w) (ucast (drop_bit 8 w)) = w"
  unfolding load16_def by (rule bit_word_eqI) (auto simp: bit_simps)

lemma length_bytes16 [simp]: "length (bytes16 w) = 2"
  by (simp add: bytes16_def)

lemma length_mac_bytes [simp]: "length (mac_bytes m) = 6"
  by (cases m) simp

lemma length_port_info_bytes [simp]: "length (port_info_bytes p) = 17 + length (pi_reserved p)"
  by (simp add: port_info_bytes_def)

lemma length_lacpdu_bytes: "lacpdu_padded p \<Longrightarrow> length (lacpdu_bytes p) = sizeof_lacpdu"
  by (simp add: lacpdu_bytes_def lacpdu_padded_def sizeof_lacpdu_def)

lemma length_lacp_pkt_bytes: "lacpdu_padded (lacp p) \<Longrightarrow> length (lacp_pkt_bytes p) = sizeof_lacp_pkt"
  by (simp add: lacp_pkt_bytes_def length_lacpdu_bytes sizeof_lacpdu_def sizeof_lacp_pkt_def)

text \<open>Network byte order: the high byte of a field goes out first.\<close>

lemma bytes16_htons: "bytes16 (htons w) = [ucast (drop_bit 8 w), ucast w]"
  by (auto simp: bytes16_def htons_def bit_simps intro!: bit_word_eqI)

lemma port_info_of_port_info_bytes:
  "length (pi_reserved p) = 3 \<Longrightarrow> port_info_of_bytes (port_info_bytes p @ rest) = p"
  by (cases "pi_system p")
    (simp add: port_info_of_bytes_def port_info_bytes_def bytes16_def load16_at_def mac_at_def)

lemma port_info_at:
  assumes "length (pi_reserved p) = 3" and "length xs = n"
  shows "port_info_of_bytes (drop n (xs @ port_info_bytes p @ rest)) = p"
  using assms by (simp add: port_info_of_port_info_bytes)

lemma lacpdu_of_lacpdu_bytes:
  assumes "lacpdu_padded p"
  shows "lacpdu_of_bytes (lacpdu_bytes p @ rest) = p"
proof -
  have len: "length (pi_reserved (actor p)) = 3" "length (pi_reserved (partner p)) = 3"
    "length (cd_reserved (collector_delay p)) = 12" "length (tm_reserved (terminator p)) = 50"
    using assms by (simp_all add: lacpdu_padded_def)
  have a: "length (port_info_bytes (actor p)) = 20" and b: "length (port_info_bytes (partner p)) = 20"
    using len by simp_all
  show ?thesis
    by (simp add: lacpdu_of_bytes_def lacpdu_bytes_def nth_append drop_append a b len
        port_info_of_port_info_bytes load16_at_def bytes16_def)
qed

lemma lacp_pkt_of_lacp_pkt_bytes:
  assumes "lacpdu_padded (lacp p)"
  shows "lacp_pkt_of_bytes (lacp_pkt_bytes p @ rest) = Returns p"
  using assms length_lacp_pkt_bytes [OF assms]
  by (cases "dst_mac (eth p)"; cases "src_mac (eth p)")
    (simp add: lacp_pkt_of_bytes_def lacp_pkt_bytes_def lacpdu_of_lacpdu_bytes mac_at_def
      load16_at_def bytes16_def sizeof_eth_header_def)

lemma lacpdu_padded_set [simp]:
  "lacpdu_padded (lacpdu_set_port_info info pkt is_actor) = lacpdu_padded pkt"
  by (simp add: lacpdu_padded_def lacpdu_set_port_info_def fill_port_info_def)

end
