(* ===== verification/Lacp_State.thy ===== *)
theory Lacp_State
  imports Fsm Lacpdu
begin

text \<open>
  The state of one LACP instance (qca/src/qca-lacpd/lacp/lacp.h, lacp_api.h, port.h,
  aggregator.h, and the structs of lacp_fsm.h).

  Ports and aggregators are heap objects that the instance links on two lists and that refer to
  each other; a reference is a natural number, \<open>port_mem\<close> and \<open>agg_mem\<close> map it to the object.
  A fresh object gets a reference that was never used before. Freeing an object drops it from
  the lists; the invariants of the development show that the lists hold live references only.
  The back pointers \<^verbatim>\<open>port->lacp\<close> and \<^verbatim>\<open>agg->lacp\<close> are the state itself: the model is of one
  instance, so the tests that two objects belong to the same instance succeed.
\<close>

subsection \<open>Enumerations\<close>

datatype lacpd_port_state_machines =
    LACPD_PORT_STATE_MACHINE_RECEIVE
  | LACPD_PORT_STATE_MACHINE_PERIODIC
  | LACPD_PORT_STATE_MACHINE_SELECT
  | LACPD_PORT_STATE_MACHINE_MUX
  | LACPD_PORT_STATE_MACHINE_TRANSMIT

datatype lacpd_port_selecte_state =
    LACPD_SEL_STATE_SELECTED
  | LACPD_SEL_STATE_UNSELECTED
  | LACPD_SEL_STATE_STANDBY

datatype lacpd_state_machine_receive_state =
    LACPD_RECV_ST_INITIALIZE
  | LACPD_RECV_ST_PORT_DISABLED
  | LACPD_RECV_ST_EXPIRED
  | LACPD_RECV_ST_LACP_DISABLED
  | LACPD_RECV_ST_DEFAULTED
  | LACPD_RECV_ST_CURRENT

datatype lacpd_state_machine_periodic_transmission_state =
    LACPD_PERIODIC_ST_NO_PERIODIC
  | LACPD_PERIODIC_ST_FAST_PERIODIC
  | LACPD_PERIODIC_ST_SLOW_PERIODIC
  | LACPD_PERIODIC_ST_PERIODIC_TX

datatype lacpd_state_machine_selection_logic_state =
    LACPD_SELECT_LOGIC_ST_UNSELECTED
  | LACPD_SELECT_LOGIC_ST_SELECTED

datatype lacpd_state_machine_mux_state =
    LACPD_MUX_ST_DETACHED
  | LACPD_MUX_ST_WAITING
  | LACPD_MUX_ST_ATTACHED
  | LACPD_MUX_ST_COLLECTING_DISTRIBUTING

datatype lacpd_state_machine_transmit_state =
    LACPD_TRANSMIT_ST_NO_TX
  | LACPD_TRANSMIT_ST_TX
  | LACPD_TRANSMIT_ST_DISABLED

datatype lacp_ad_select_alg =
    LACP_AD_SELECT_ALG_ALL
  | LACP_AD_SELECT_ALG_STABLE
  | LACP_AD_SELECT_ALG_BANDWIDTH
  | LACP_AD_SELECT_ALG_COUNT

subsection \<open>Constants\<close>

definition MSECS_PER_SEC :: nat where "MSECS_PER_SEC = 1000"
definition LACP_FAST_PERIODIC_TIME :: nat where "LACP_FAST_PERIODIC_TIME = 1 * MSECS_PER_SEC"
definition LACP_SLOW_PERIODIC_TIME :: nat where "LACP_SLOW_PERIODIC_TIME = 30 * MSECS_PER_SEC"
definition LACP_SHORT_TIMEOUT_TIME :: nat where "LACP_SHORT_TIMEOUT_TIME = 3 * MSECS_PER_SEC"
definition LACP_LONG_TIMEOUT_TIME :: nat where "LACP_LONG_TIMEOUT_TIME = 90 * MSECS_PER_SEC"
definition LACP_AGGREGATE_WAIT_TIME :: nat where "LACP_AGGREGATE_WAIT_TIME = 2 * MSECS_PER_SEC"

definition LACP_NAME_SIZE :: nat where "LACP_NAME_SIZE = 64"
definition DEFAULT_SYSTEM_PRIORITY :: u16 where "DEFAULT_SYSTEM_PRIORITY = 0xffff"
definition DEFAULT_PORT_PRIORITY :: u16 where "DEFAULT_PORT_PRIORITY = 0xff"
definition LACP_PORT_DUPLEX_DEFAULT :: u32 where "LACP_PORT_DUPLEX_DEFAULT = 1"
definition LACP_PORT_SPEED_DEFAULT :: u32 where "LACP_PORT_SPEED_DEFAULT = 8"
definition LACP_PORT_USER_KEY_DEFAULT :: u32 where "LACP_PORT_USER_KEY_DEFAULT = 0"
definition LACP_PORT_BITS_OF_SPEED :: nat where "LACP_PORT_BITS_OF_SPEED = 5"

subsection \<open>Structs of the machines\<close>

record lacpd_state_machine_receive =
  recv_state :: lacpd_state_machine_receive_state
  current_while_timer :: genl_os_service_timer

record lacpd_state_machine_periodic_transmission =
  periodic_state :: lacpd_state_machine_periodic_transmission_state
  periodic_timer :: genl_os_service_timer

record lacpd_state_machine_selection_logic =
  select_state :: lacpd_state_machine_selection_logic_state

record lacpd_state_machine_mux =
  mux_state :: lacpd_state_machine_mux_state
  wait_while_timer :: genl_os_service_timer

record lacpd_state_machine_transmit =
  transmit_state :: lacpd_state_machine_transmit_state
  rate_limit_timer :: genl_os_service_timer
  pkt_sent :: u32

subsection \<open>Ports, aggregators, the instance\<close>

record lacpd_port =
  actor_admin_port_info :: lacpd_port_info
  actor_port_info :: lacpd_port_info
  partner_admin_port_info :: lacpd_port_info
  partner_port_info :: lacpd_port_info
  actor_port_aggregator_identifier :: u32
  ntt :: bool
  port_enabled :: bool
  lacp_enabled :: bool
  ready_N :: bool
  selected :: lacpd_port_selecte_state
  port_moved :: bool
  port_mac :: mac_addr
  dev_ifindex :: u32
  lacpdu_indicate :: bool
  message :: lacpdu
  runner :: "lacpd_port_state_machines fsm_runner"
  m_receive :: lacpd_state_machine_receive
  m_periodic :: lacpd_state_machine_periodic_transmission
  m_select :: lacpd_state_machine_selection_logic
  m_mux :: lacpd_state_machine_mux
  m_transmit :: lacpd_state_machine_transmit
  tx_successes :: u32
  tx_error :: u32
  rx_successes :: u32
  rx_error :: u32

type_synonym port_ref = nat
type_synonym agg_ref = nat

record lacpd_aggregator =
  agg_ports :: "port_ref list"
  aggregator_mac_address :: mac_addr
  aggregator_identifier :: u32
  individual_aggregator :: bool
  actor_admin_aggregator_key :: u16
  actor_oper_aggregator_key :: u16
  partner_system :: mac_addr
  partner_system_priority :: u16
  partner_oper_aggregator_key :: u16
  agg_receive_state :: bool
  agg_transmit_state :: bool
  is_free :: bool
  agg_dev_ifindex :: u32
  ready :: bool

record lacp_parameters =
  priority :: u32
  lacp_rate :: u32
  ad_select :: lacp_ad_select_alg

record lacp_port_parameters =
  user_key :: u32

record 'e lacpd_lacp =
  lacp_name :: string
  param :: lacp_parameters
  actor_system :: mac_addr
  actor_system_priority :: u16
  next_port_agg_id :: u32
  ports :: "port_ref list"
  aggregators :: "agg_ref list"
  active_aggregator :: u32
  port_mem :: "port_ref \<Rightarrow> lacpd_port"
  agg_mem :: "agg_ref \<Rightarrow> lacpd_aggregator"
  next_ref :: nat
  env :: 'e

text \<open>
  \<^verbatim>\<open>struct lacp_out_api\<close>: what the daemon's wrapper and the device layer below it provide,
  over a state \<open>'e\<close> of their own. Nothing is assumed of these functions here. A call that
  changes devices returns the new state of the layer; \<open>os_calloc\<close> is the C allocator, which
  succeeds or returns NULL.
\<close>

record 'e lacp_out_api =
  os_calloc :: "'e \<Rightarrow> bool \<times> 'e"
  get_sys_mac_addr :: "'e \<Rightarrow> mac_addr option \<times> 'e"
  get_dev_name :: "'e \<Rightarrow> u32 \<Rightarrow> string option"
  get_dev_duplex :: "'e \<Rightarrow> u32 \<Rightarrow> u32"
  get_dev_speed :: "'e \<Rightarrow> u32 \<Rightarrow> u32"
  get_dev_link_status :: "'e \<Rightarrow> u32 \<Rightarrow> bool"
  get_dev_mac_addr :: "u32 \<Rightarrow> 'e \<Rightarrow> mac_addr option \<times> 'e"
  enable_dev :: "u32 \<Rightarrow> 'e \<Rightarrow> bool \<times> 'e"
  disable_dev :: "u32 \<Rightarrow> 'e \<Rightarrow> bool \<times> 'e"
  enable_lacp :: "u32 \<Rightarrow> 'e \<Rightarrow> bool \<times> 'e"
  disable_lacp :: "u32 \<Rightarrow> 'e \<Rightarrow> bool \<times> 'e"
  send_lacpdu :: "u32 \<Rightarrow> u8 list \<Rightarrow> 'e \<Rightarrow> bool \<times> 'e"
  is_slave :: "'e \<Rightarrow> u32 \<Rightarrow> u32 \<Rightarrow> bool"
  number_of_slaves :: "'e \<Rightarrow> u32 \<Rightarrow> u32"
  new_aggregator :: "string \<Rightarrow> 'e \<Rightarrow> u32 \<times> 'e"
  destroy_aggregator :: "u32 \<Rightarrow> 'e \<Rightarrow> bool \<times> 'e"
  attach_slave :: "u32 \<Rightarrow> u32 \<Rightarrow> 'e \<Rightarrow> bool \<times> 'e"
  detach_slave :: "u32 \<Rightarrow> u32 \<Rightarrow> 'e \<Rightarrow> bool \<times> 'e"

subsection \<open>Access to the heap objects\<close>

definition upd_port :: "port_ref \<Rightarrow> (lacpd_port \<Rightarrow> lacpd_port) \<Rightarrow> 'e lacpd_lacp \<Rightarrow> 'e lacpd_lacp" where
  "upd_port p f s = s\<lparr>port_mem := (port_mem s)(p := f (port_mem s p))\<rparr>"

definition upd_agg :: "agg_ref \<Rightarrow> (lacpd_aggregator \<Rightarrow> lacpd_aggregator) \<Rightarrow> 'e lacpd_lacp \<Rightarrow> 'e lacpd_lacp" where
  "upd_agg a f s = s\<lparr>agg_mem := (agg_mem s)(a := f (agg_mem s a))\<rparr>"

text \<open>\<^verbatim>\<open>lacp->out_api->f(lacp->out_api, ...)\<close>\<close>

definition call_api :: "('e \<Rightarrow> 'r \<times> 'e) \<Rightarrow> 'e lacpd_lacp \<Rightarrow> 'r \<times> 'e lacpd_lacp" where
  "call_api f s = (let (r, e) = f (env s) in (r, s\<lparr>env := e\<rparr>))"

text \<open>Assignments to the one-bit fields of a port's actor and partner information.\<close>

definition upd_actor_state ::
    "(lacpd_port_info_state \<Rightarrow> lacpd_port_info_state) \<Rightarrow> lacpd_port \<Rightarrow> lacpd_port" where
  "upd_actor_state f P = P\<lparr>actor_port_info := (actor_port_info P)\<lparr>info_state := f (info_state (actor_port_info P))\<rparr>\<rparr>"

definition upd_partner_state ::
    "(lacpd_port_info_state \<Rightarrow> lacpd_port_info_state) \<Rightarrow> lacpd_port \<Rightarrow> lacpd_port" where
  "upd_partner_state f P = P\<lparr>partner_port_info := (partner_port_info P)\<lparr>info_state := f (info_state (partner_port_info P))\<rparr>\<rparr>"

abbreviation actor_state :: "lacpd_port \<Rightarrow> lacpd_port_info_state" where
  "actor_state P \<equiv> info_state (actor_port_info P)"

abbreviation partner_state :: "lacpd_port \<Rightarrow> lacpd_port_info_state" where
  "partner_state P \<equiv> info_state (partner_port_info P)"

lemmas upd_state_defs = upd_actor_state_def upd_partner_state_def

lemma upd_port_simps [simp]:
  "port_mem (upd_port p f s) = (port_mem s)(p := f (port_mem s p))"
  "agg_mem (upd_port p f s) = agg_mem s"
  "ports (upd_port p f s) = ports s"
  "aggregators (upd_port p f s) = aggregators s"
  "next_port_agg_id (upd_port p f s) = next_port_agg_id s"
  "next_ref (upd_port p f s) = next_ref s"
  "active_aggregator (upd_port p f s) = active_aggregator s"
  "param (upd_port p f s) = param s"
  "env (upd_port p f s) = env s"
  "lacp_name (upd_port p f s) = lacp_name s"
  "actor_system (upd_port p f s) = actor_system s"
  "actor_system_priority (upd_port p f s) = actor_system_priority s"
  by (simp_all add: upd_port_def)

lemma upd_agg_simps [simp]:
  "agg_mem (upd_agg a f s) = (agg_mem s)(a := f (agg_mem s a))"
  "port_mem (upd_agg a f s) = port_mem s"
  "ports (upd_agg a f s) = ports s"
  "aggregators (upd_agg a f s) = aggregators s"
  "next_port_agg_id (upd_agg a f s) = next_port_agg_id s"
  "next_ref (upd_agg a f s) = next_ref s"
  "active_aggregator (upd_agg a f s) = active_aggregator s"
  "param (upd_agg a f s) = param s"
  "env (upd_agg a f s) = env s"
  "lacp_name (upd_agg a f s) = lacp_name s"
  "actor_system (upd_agg a f s) = actor_system s"
  "actor_system_priority (upd_agg a f s) = actor_system_priority s"
  by (simp_all add: upd_agg_def)

lemma call_api_simps [simp]:
  "snd (call_api f s) = s\<lparr>env := snd (f (env s))\<rparr>"
  "fst (call_api f s) = fst (f (env s))"
  by (simp_all add: call_api_def split: prod.splits)

lemma upd_port_upd_port [simp]: "upd_port p g (upd_port p f s) = upd_port p (g \<circ> f) s"
  by (simp add: upd_port_def)

lemma upd_port_cong: "f (port_mem s p) = g (port_mem s p) \<Longrightarrow> upd_port p f s = upd_port p g s"
  by (simp add: upd_port_def)

lemma upd_port_commute: "p \<noteq> q \<Longrightarrow> upd_port p f (upd_port q g s) = upd_port q g (upd_port p f s)"
  by (simp add: upd_port_def fun_upd_twist)

subsection \<open>Operation keys\<close>

text \<open>
  A key packs user key (10 bits), speed (5 bits) and duplex (1 bit). The macro computes in 32
  bits; the field it is stored in keeps 16.
\<close>

definition lacp_port_key_make :: "u32 \<Rightarrow> u32 \<Rightarrow> u32 \<Rightarrow> u16" where
  "lacp_port_key_make usr speed duplex = ucast (push_bit 6 usr OR push_bit 1 speed OR duplex)"

definition lacp_port_key_get_user :: "u16 \<Rightarrow> u32" where
  "lacp_port_key_get_user key = ucast (drop_bit 6 key AND 0x3ff)"

definition lacp_port_key_get_speed :: "u16 \<Rightarrow> u32" where
  "lacp_port_key_get_speed key = ucast (drop_bit 1 key AND 0x1f)"

definition lacp_port_key_get_duplex :: "u16 \<Rightarrow> u32" where
  "lacp_port_key_get_duplex key = ucast (key AND 0x1)"

fun speed_to_key_from :: "nat \<Rightarrow> u32 list \<Rightarrow> u32 \<Rightarrow> u16" where
  "speed_to_key_from idx [] speed = 0"
| "speed_to_key_from idx (v # vs) speed =
     (if v = speed then push_bit idx 1 else speed_to_key_from (Suc idx) vs speed)"

definition lacpd_port_speed_to_key :: "u32 \<Rightarrow> u16" where
  "lacpd_port_speed_to_key speed = speed_to_key_from 0 [1, 10, 100, 1000, 10000] speed"

fun key_to_speed_from :: "nat \<Rightarrow> nat \<Rightarrow> u32 \<Rightarrow> u32 \<Rightarrow> u32" where
  "key_to_speed_from 0 idx speed key = 0"
| "key_to_speed_from (Suc n) idx speed key =
     (if push_bit idx 1 AND key \<noteq> 0 then speed
      else key_to_speed_from n (Suc idx) (speed * 10) key)"

definition lacpd_port_key_to_speed :: "u32 \<Rightarrow> u32" where
  "lacpd_port_key_to_speed speed_key = key_to_speed_from LACP_PORT_BITS_OF_SPEED 0 1 speed_key"

subsection \<open>Lookups and scheduling\<close>

definition lacpd_port_lookup :: "'e lacpd_lacp \<Rightarrow> u32 \<Rightarrow> port_ref option" where
  "lacpd_port_lookup s ifindex =
     (if ifindex = 0 then None
      else find (\<lambda>p. dev_ifindex (port_mem s p) = ifindex) (ports s))"

definition lacpd_port_state_machine_get ::
    "lacpd_port \<Rightarrow> lacpd_port_state_machines \<Rightarrow> lacpd_port_state_machines option" where
  "lacpd_port_state_machine_get P m = fsm_runner_lookup_state_machine (runner P) m"

definition lacpd_port_fsm_schedule_run :: "port_ref \<Rightarrow> 'e lacpd_lacp \<Rightarrow> 'e lacpd_lacp" where
  "lacpd_port_fsm_schedule_run p s = upd_port p (\<lambda>P. P\<lparr>runner := fsm_runner_schedule (runner P)\<rparr>) s"

definition lacpd_aggregator_lookup ::
    "'e lacpd_lacp \<Rightarrow> (lacpd_aggregator \<Rightarrow> bool) \<Rightarrow> agg_ref option" where
  "lacpd_aggregator_lookup s func = find (\<lambda>a. func (agg_mem s a)) (aggregators s)"

definition lacpd_aggregator_selector_by_id :: "u32 \<Rightarrow> lacpd_aggregator \<Rightarrow> bool" where
  "lacpd_aggregator_selector_by_id i A =
     (if aggregator_identifier A = 0 \<or> i = 0 then False else aggregator_identifier A = i)"

definition lacpd_aggregator_selector_by_free :: "lacpd_aggregator \<Rightarrow> bool" where
  "lacpd_aggregator_selector_by_free A = is_free A"

end
