(* ===== verification/Aggregator.thy ===== *)
theory Aggregator
  imports Lacp_State "HOL-Library.Product_Lexorder"
begin

text \<open>
  Aggregators (qca/src/qca-lacpd/lacp/aggregator.c) and the choice of the active one
  (\<^verbatim>\<open>lacpd_select_active_aggregator\<close> in lacp.c, which attaching and detaching call).
\<close>

subsection \<open>Membership\<close>

definition lacpd_aggregator_clear :: "lacpd_aggregator \<Rightarrow> lacpd_aggregator" where
  "lacpd_aggregator_clear A = A\<lparr>
     individual_aggregator := False,
     actor_admin_aggregator_key := 0,
     actor_oper_aggregator_key := 0,
     partner_system := mac_zero,
     partner_system_priority := 0,
     partner_oper_aggregator_key := 0,
     agg_receive_state := False,
     agg_transmit_state := False,
     is_free := True,
     ready := False\<rparr>"

definition lacpd_aggregator_contains_port :: "agg_ref \<Rightarrow> port_ref \<Rightarrow> 'e lacpd_lacp \<Rightarrow> bool" where
  "lacpd_aggregator_contains_port a p s \<longleftrightarrow> p \<in> set (agg_ports (agg_mem s a))"

definition lacpd_aggregator_init_by_port :: "lacpd_port \<Rightarrow> lacpd_aggregator \<Rightarrow> lacpd_aggregator" where
  "lacpd_aggregator_init_by_port P A = A\<lparr>
     individual_aggregator := \<not> aggregation (actor_state P) \<or>
       mac_addr_is_empty (info_system (partner_port_info P)) \<or> \<not> aggregation (partner_state P),
     actor_admin_aggregator_key := info_key (actor_admin_port_info P),
     actor_oper_aggregator_key := info_key (actor_port_info P),
     partner_system := info_system (partner_port_info P),
     partner_system_priority := info_system_priority (partner_port_info P),
     partner_oper_aggregator_key := info_key (partner_port_info P),
     agg_receive_state := False,
     agg_transmit_state := False,
     is_free := False,
     ready := False\<rparr>"

definition lacpd_aggregator_update_ready :: "agg_ref \<Rightarrow> 'e lacpd_lacp \<Rightarrow> 'e lacpd_lacp" where
  "lacpd_aggregator_update_ready a s =
     upd_agg a (\<lambda>A. A\<lparr>ready := agg_ports A \<noteq> [] \<and> list_all (\<lambda>p. ready_N (port_mem s p)) (agg_ports A)\<rparr>) s"

definition lacpd_aggregator_add_port :: "agg_ref \<Rightarrow> port_ref \<Rightarrow> 'e lacpd_lacp \<Rightarrow> bool \<times> 'e lacpd_lacp" where
  "lacpd_aggregator_add_port a p s =
     (if lacpd_aggregator_contains_port a p s then (False, s)
      else
        let is_first_member = (agg_ports (agg_mem s a) = []);
            s1 = upd_agg a (\<lambda>A. A\<lparr>agg_ports := list_add_tail p (agg_ports A)\<rparr>) s;
            s2 = (if is_first_member then upd_agg a (lacpd_aggregator_init_by_port (port_mem s1 p)) s1 else s1)
        in (True, lacpd_aggregator_update_ready a s2))"

definition lacpd_aggregator_del_port :: "agg_ref \<Rightarrow> port_ref \<Rightarrow> 'e lacpd_lacp \<Rightarrow> bool \<times> 'e lacpd_lacp" where
  "lacpd_aggregator_del_port a p s =
     (if \<not> lacpd_aggregator_contains_port a p s then (False, s)
      else
        let s1 = upd_agg a (\<lambda>A. A\<lparr>agg_ports := list_del p (agg_ports A)\<rparr>) s;
            s2 = (if agg_ports (agg_mem s1 a) = [] then upd_agg a lacpd_aggregator_clear s1 else s1)
        in (True, lacpd_aggregator_update_ready a s2))"

subsection \<open>The active aggregator\<close>

text \<open>
  Total bandwidth of an aggregator's ports: an int that accumulates unsigned 32-bit speeds, so
  it wraps and is compared as a signed number.
\<close>

definition port_speed :: "lacpd_port \<Rightarrow> u32" where
  "port_speed P = lacpd_port_key_to_speed (lacp_port_key_get_speed (info_key (actor_port_info P)))"

definition agg_bandwidth :: "'e lacpd_lacp \<Rightarrow> agg_ref \<Rightarrow> u32" where
  "agg_bandwidth s a = fold (\<lambda>p b. b + port_speed (port_mem s p)) (agg_ports (agg_mem s a)) 0"

definition lacpd_aggregator_selection_compare ::
    "'e lacpd_lacp \<Rightarrow> agg_ref option \<Rightarrow> agg_ref \<Rightarrow> agg_ref" where
  "lacpd_aggregator_selection_compare s best_opt cur =
     (case best_opt of
        None \<Rightarrow> cur
      | Some best \<Rightarrow>
          let C = agg_mem s cur; B = agg_mem s best in
          if \<not> individual_aggregator C \<and> individual_aggregator B then cur
          else if individual_aggregator C \<and> \<not> individual_aggregator B then best
          else if \<not> mac_addr_is_empty (partner_system C) \<and> mac_addr_is_empty (partner_system B) then cur
          else if mac_addr_is_empty (partner_system C) \<and> \<not> mac_addr_is_empty (partner_system B) then best
          else
            let num_of_ports_of_best = length (agg_ports B); bandwidth_of_best = agg_bandwidth s best;
                num_of_ports_of_curr = length (agg_ports C); bandwidth_of_curr = agg_bandwidth s cur;
                by_bandwidth = (if sint bandwidth_of_curr > sint bandwidth_of_best then cur else best)
            in (case ad_select (param s) of
                  LACP_AD_SELECT_ALG_COUNT \<Rightarrow>
                    if num_of_ports_of_curr > num_of_ports_of_best then cur
                    else if num_of_ports_of_curr < num_of_ports_of_best then best
                    else by_bandwidth
                | LACP_AD_SELECT_ALG_STABLE \<Rightarrow> by_bandwidth
                | LACP_AD_SELECT_ALG_BANDWIDTH \<Rightarrow> by_bandwidth
                | LACP_AD_SELECT_ALG_ALL \<Rightarrow> best))"

abbreviation agg_link_up :: "'e lacp_out_api \<Rightarrow> 'e lacpd_lacp \<Rightarrow> agg_ref \<Rightarrow> bool" where
  "agg_link_up api s a \<equiv> get_dev_link_status api (env s) (agg_dev_ifindex (agg_mem s a))"

text \<open>The loop over the aggregators: the best one that is in use and up.\<close>

definition best_aggregator ::
    "'e lacp_out_api \<Rightarrow> 'e lacpd_lacp \<Rightarrow> agg_ref option \<Rightarrow> agg_ref list \<Rightarrow> agg_ref option" where
  "best_aggregator api s best0 as =
     fold (\<lambda>a best. if \<not> is_free (agg_mem s a) \<and> agg_link_up api s a
                    then Some (lacpd_aggregator_selection_compare s best a) else best) as best0"

text \<open>The stable policy: keep the old active aggregator.\<close>

definition keep_stable_active ::
    "'e lacp_out_api \<Rightarrow> 'e lacpd_lacp \<Rightarrow> agg_ref \<Rightarrow> agg_ref \<Rightarrow> bool" where
  "keep_stable_active api s act best \<longleftrightarrow>
     ad_select (param s) = LACP_AD_SELECT_ALG_STABLE \<and>
     agg_ports (agg_mem s act) \<noteq> [] \<and> agg_link_up api s act \<and>
     (\<not> mac_addr_is_empty (partner_system (agg_mem s act)) \<or>
      (mac_addr_is_empty (partner_system (agg_mem s act)) \<and> mac_addr_is_empty (partner_system (agg_mem s best)))) \<and>
     \<not> (actor_oper_aggregator_key (agg_mem s act) = 0 \<and> actor_oper_aggregator_key (agg_mem s best) \<noteq> 0)"

definition lacpd_select_active_aggregator :: "'e lacp_out_api \<Rightarrow> 'e lacpd_lacp \<Rightarrow> 'e lacpd_lacp" where
  "lacpd_select_active_aggregator api s =
     (if ad_select (param s) = LACP_AD_SELECT_ALG_ALL then s
      else
        let active = lacpd_aggregator_lookup s (lacpd_aggregator_selector_by_id (active_aggregator s));
            best0 = (case active of None \<Rightarrow> None | Some act \<Rightarrow> if agg_link_up api s act then Some act else None);
            s1 = s\<lparr>active_aggregator := 0\<rparr>;
            best1 = best_aggregator api s1 best0 (aggregators s1);
            (s2, best2) = (case (best1, active) of
                (Some best, Some act) \<Rightarrow>
                  if keep_stable_active api s1 act best
                  then (s1\<lparr>active_aggregator := aggregator_identifier (agg_mem s1 act)\<rparr>, None)
                  else (s1, best1)
              | _ \<Rightarrow> (s1, best1));
            (s3, best3) = (case (best2, active) of
                (Some best, Some act) \<Rightarrow>
                  if best = act then (s2\<lparr>active_aggregator := aggregator_identifier (agg_mem s2 act)\<rparr>, None)
                  else (s2, best2)
              | _ \<Rightarrow> (s2, best2));
            s4 = (case best3 of
                None \<Rightarrow> s3
              | Some best \<Rightarrow>
                  let s3' = s3\<lparr>active_aggregator := aggregator_identifier (agg_mem s3 best)\<rparr> in
                  (case active of
                     None \<Rightarrow> s3'
                   | Some act \<Rightarrow> snd (call_api (disable_dev api (agg_dev_ifindex (agg_mem s3' act))) s3')))
        in (case lacpd_aggregator_lookup s4 (lacpd_aggregator_selector_by_id (active_aggregator s4)) of
              None \<Rightarrow> s4
            | Some act \<Rightarrow> snd (call_api (enable_dev api (agg_dev_ifindex (agg_mem s4 act))) s4)))"

subsection \<open>Physical devices\<close>

text \<open>The \<^verbatim>\<open>%d\<close> of printf on a 32-bit value.\<close>

fun digits :: "nat \<Rightarrow> string" where
  "digits n = (if n < 10 then [char_of (48 + n)] else digits (n div 10) @ [char_of (48 + n mod 10)])"

declare digits.simps [simp del]

definition print_d :: "u32 \<Rightarrow> string" where
  "print_d w = (if sint w < 0 then ''-'' @ digits (nat (- sint w)) else digits (nat (sint w)))"

text \<open>\<^verbatim>\<open>snprintf\<close> into a buffer of \<open>n\<close> bytes keeps the first \<open>n - 1\<close> characters.\<close>

definition snprintf_buf :: "nat \<Rightarrow> string \<Rightarrow> string" where
  "snprintf_buf n str = take (n - 1) str"

definition aggregator_dev_name :: "'e lacpd_lacp \<Rightarrow> agg_ref \<Rightarrow> string" where
  "aggregator_dev_name s a =
     snprintf_buf (LACP_NAME_SIZE + 32)
       (lacp_name s @ ''.aggregator'' @ print_d (aggregator_identifier (agg_mem s a)))"

definition lacpd_aggregator_attach_port ::
    "'e lacp_out_api \<Rightarrow> agg_ref \<Rightarrow> port_ref \<Rightarrow> 'e lacpd_lacp \<Rightarrow> bool \<times> 'e lacpd_lacp" where
  "lacpd_aggregator_attach_port api a p s =
     (let pdev = dev_ifindex (port_mem s p) in
      if pdev = 0 then (False, s)
      else
        let s1 = (if agg_dev_ifindex (agg_mem s a) = 0
                  then let (d, t) = call_api (new_aggregator api (aggregator_dev_name s a)) s
                       in upd_agg a (\<lambda>A. A\<lparr>agg_dev_ifindex := d\<rparr>) t
                  else s);
            adev = agg_dev_ifindex (agg_mem s1 a)
        in if adev = 0 then (False, s1)
           else if is_slave api (env s1) pdev adev then (True, s1)
           else let (ok, s2) = call_api (attach_slave api adev pdev) s1
                in if \<not> ok then (False, s2)
                   else (True, lacpd_select_active_aggregator api s2))"

definition lacpd_aggregator_detach_port ::
    "'e lacp_out_api \<Rightarrow> agg_ref \<Rightarrow> port_ref \<Rightarrow> 'e lacpd_lacp \<Rightarrow> bool \<times> 'e lacpd_lacp" where
  "lacpd_aggregator_detach_port api a p s =
     (let pdev = dev_ifindex (port_mem s p); adev = agg_dev_ifindex (agg_mem s a) in
      if adev = 0 \<or> pdev = 0 then (False, s)
      else if \<not> is_slave api (env s) pdev adev then (True, s)
      else
        let (ok, s1) = call_api (detach_slave api adev pdev) s in
        if \<not> ok then (False, s1)
        else
          let s2 = lacpd_select_active_aggregator api s1 in
          if number_of_slaves api (env s2) adev > 0 then (True, s2)
          else
            let (ok', s3) = call_api (destroy_aggregator api adev) s2 in
            (True, if ok' then upd_agg a (\<lambda>A. A\<lparr>agg_dev_ifindex := 0\<rparr>) s3 else s3))"

subsection \<open>Creation and destruction\<close>

text \<open>The contents of a calloc'ed aggregator.\<close>

definition aggregator_zero :: lacpd_aggregator where
  "aggregator_zero = \<lparr>agg_ports = [], aggregator_mac_address = mac_zero, aggregator_identifier = 0,
     individual_aggregator = False, actor_admin_aggregator_key = 0, actor_oper_aggregator_key = 0,
     partner_system = mac_zero, partner_system_priority = 0, partner_oper_aggregator_key = 0,
     agg_receive_state = False, agg_transmit_state = False, is_free = False, agg_dev_ifindex = 0,
     ready = False\<rparr>"

definition lacpd_aggregator_new ::
    "'e lacp_out_api \<Rightarrow> u32 \<Rightarrow> 'e lacpd_lacp \<Rightarrow> agg_ref option \<times> 'e lacpd_lacp" where
  "lacpd_aggregator_new api aggregator_id s =
     (if aggregator_id = 0 then (None, s)
      else
        let (ok, s1) = call_api (os_calloc api) s in
        if \<not> ok then (None, s1)
        else
          let a = next_ref s1;
              A = aggregator_zero\<lparr>aggregator_mac_address := actor_system s1,
                    aggregator_identifier := aggregator_id, agg_dev_ifindex := 0\<rparr>
          in (Some a, upd_agg a (\<lambda>_. lacpd_aggregator_clear A) (s1\<lparr>next_ref := Suc a\<rparr>)))"

definition lacpd_aggregator_destroy :: "'e lacp_out_api \<Rightarrow> agg_ref \<Rightarrow> 'e lacpd_lacp \<Rightarrow> 'e lacpd_lacp" where
  "lacpd_aggregator_destroy api a s =
     fold (\<lambda>p t. snd (lacpd_aggregator_del_port a p (snd (lacpd_aggregator_detach_port api a p t))))
       (agg_ports (agg_mem s a)) s"

subsection \<open>What devices do not touch\<close>

text \<open>
  Calls to the device layer change the layer's own state, the active aggregator and device
  indices of aggregators, and nothing else.
\<close>

definition dev_frame :: "'e lacpd_lacp \<Rightarrow> 'e lacpd_lacp \<Rightarrow> bool" where
  "dev_frame s t \<longleftrightarrow>
     port_mem t = port_mem s \<and> ports t = ports s \<and> aggregators t = aggregators s \<and>
     next_ref t = next_ref s \<and> next_port_agg_id t = next_port_agg_id s \<and> param t = param s \<and>
     lacp_name t = lacp_name s \<and> actor_system t = actor_system s \<and>
     actor_system_priority t = actor_system_priority s \<and>
     (\<forall>a. (agg_mem t a)\<lparr>agg_dev_ifindex := 0\<rparr> = (agg_mem s a)\<lparr>agg_dev_ifindex := 0\<rparr>)"

lemma dev_frame_refl [simp]: "dev_frame s s"
  by (simp add: dev_frame_def)

lemma dev_frame_trans: "dev_frame s t \<Longrightarrow> dev_frame t u \<Longrightarrow> dev_frame s u"
  by (simp add: dev_frame_def)

lemma dev_frame_env: "dev_frame s t \<Longrightarrow> dev_frame s (t\<lparr>env := e\<rparr>)"
  by (simp add: dev_frame_def)

lemma dev_frame_active: "dev_frame s t \<Longrightarrow> dev_frame s (t\<lparr>active_aggregator := i\<rparr>)"
  by (simp add: dev_frame_def)

lemma dev_frame_ifindex: "dev_frame s t \<Longrightarrow> dev_frame s (upd_agg a (\<lambda>A. A\<lparr>agg_dev_ifindex := d\<rparr>) t)"
  by (simp add: dev_frame_def)

lemmas dev_frame_intros = dev_frame_refl dev_frame_env dev_frame_active dev_frame_ifindex

lemma dev_frame_simps:
  assumes "dev_frame s t"
  shows "port_mem t = port_mem s" "ports t = ports s" "aggregators t = aggregators s"
    "next_ref t = next_ref s" "next_port_agg_id t = next_port_agg_id s" "param t = param s"
    "lacp_name t = lacp_name s" "actor_system t = actor_system s"
    "actor_system_priority t = actor_system_priority s"
  using assms by (simp_all add: dev_frame_def)

lemma dev_frame_agg:
  assumes "dev_frame s t"
  shows "agg_ports (agg_mem t a) = agg_ports (agg_mem s a)"
    "aggregator_identifier (agg_mem t a) = aggregator_identifier (agg_mem s a)"
    "is_free (agg_mem t a) = is_free (agg_mem s a)"
    "ready (agg_mem t a) = ready (agg_mem s a)"
    "individual_aggregator (agg_mem t a) = individual_aggregator (agg_mem s a)"
    "partner_system (agg_mem t a) = partner_system (agg_mem s a)"
    "partner_system_priority (agg_mem t a) = partner_system_priority (agg_mem s a)"
    "partner_oper_aggregator_key (agg_mem t a) = partner_oper_aggregator_key (agg_mem s a)"
    "actor_oper_aggregator_key (agg_mem t a) = actor_oper_aggregator_key (agg_mem s a)"
proof -
  have e: "(agg_mem t a)\<lparr>agg_dev_ifindex := 0\<rparr> = (agg_mem s a)\<lparr>agg_dev_ifindex := 0\<rparr>"
    using assms by (simp add: dev_frame_def)
  show "agg_ports (agg_mem t a) = agg_ports (agg_mem s a)"
    using arg_cong [OF e, of agg_ports] by simp
  show "aggregator_identifier (agg_mem t a) = aggregator_identifier (agg_mem s a)"
    using arg_cong [OF e, of aggregator_identifier] by simp
  show "is_free (agg_mem t a) = is_free (agg_mem s a)"
    using arg_cong [OF e, of is_free] by simp
  show "ready (agg_mem t a) = ready (agg_mem s a)"
    using arg_cong [OF e, of ready] by simp
  show "individual_aggregator (agg_mem t a) = individual_aggregator (agg_mem s a)"
    using arg_cong [OF e, of individual_aggregator] by simp
  show "partner_system (agg_mem t a) = partner_system (agg_mem s a)"
    using arg_cong [OF e, of partner_system] by simp
  show "partner_system_priority (agg_mem t a) = partner_system_priority (agg_mem s a)"
    using arg_cong [OF e, of partner_system_priority] by simp
  show "partner_oper_aggregator_key (agg_mem t a) = partner_oper_aggregator_key (agg_mem s a)"
    using arg_cong [OF e, of partner_oper_aggregator_key] by simp
  show "actor_oper_aggregator_key (agg_mem t a) = actor_oper_aggregator_key (agg_mem s a)"
    using arg_cong [OF e, of actor_oper_aggregator_key] by simp
qed

lemma dev_frame_select [simp]: "dev_frame s (lacpd_select_active_aggregator api s)"
  by (auto simp: lacpd_select_active_aggregator_def Let_def split: option.splits
      intro!: dev_frame_intros)

lemma dev_frame_attach [simp]: "dev_frame s (snd (lacpd_aggregator_attach_port api a p s))"
  by (auto simp: lacpd_aggregator_attach_port_def Let_def call_api_def
      split: prod.splits intro!: dev_frame_intros intro: dev_frame_trans [OF _ dev_frame_select])

lemma dev_frame_detach [simp]: "dev_frame s (snd (lacpd_aggregator_detach_port api a p s))"
  by (auto simp: lacpd_aggregator_detach_port_def Let_def call_api_def
      split: prod.splits intro!: dev_frame_intros intro: dev_frame_trans [OF _ dev_frame_select])

end
