(* ===== verification/Lacp_Inv.thy ===== *)
theory Lacp_Inv
  imports Aggregator
begin

text \<open>
  The invariant of an LACP instance and the measure that drives its machines to rest.

  \<open>port_ok\<close> is what one port keeps to itself: the machines it runs, how the selection state, the
  mux state and the bits it advertises agree. \<open>lacp_wf\<close> adds the lists: which aggregator a port is
  on, that identifiers are unique, that there are at least as many aggregators as ports.
\<close>

subsection \<open>One port\<close>

definition lacp_machines :: "lacpd_port_state_machines list" where
  "lacp_machines = [LACPD_PORT_STATE_MACHINE_RECEIVE, LACPD_PORT_STATE_MACHINE_PERIODIC,
     LACPD_PORT_STATE_MACHINE_SELECT, LACPD_PORT_STATE_MACHINE_MUX, LACPD_PORT_STATE_MACHINE_TRANSMIT]"

text \<open>The synchronization, collecting and distributing bits that a mux state advertises.\<close>

fun mux_bits :: "lacpd_state_machine_mux_state \<Rightarrow> lacpd_port_info_state \<Rightarrow> bool" where
  "mux_bits LACPD_MUX_ST_DETACHED st \<longleftrightarrow> \<not> synchronization st \<and> \<not> collecting st \<and> \<not> distributing st"
| "mux_bits LACPD_MUX_ST_WAITING st \<longleftrightarrow> \<not> synchronization st \<and> \<not> collecting st \<and> \<not> distributing st"
| "mux_bits LACPD_MUX_ST_ATTACHED st \<longleftrightarrow> synchronization st \<and> \<not> collecting st \<and> \<not> distributing st"
| "mux_bits LACPD_MUX_ST_COLLECTING_DISTRIBUTING st \<longleftrightarrow>
     synchronization st \<and> collecting st \<and> distributing st"

definition runner_ok :: "lacpd_port_state_machines fsm_runner \<Rightarrow> bool" where
  "runner_ok r \<longleftrightarrow> machines r = lacp_machines \<and> has_os_service r \<and> has_timer_cb r"

text \<open>A port that waits for its aggregator has its timer running, or the timer has fired.\<close>

definition wait_ok :: "lacpd_port \<Rightarrow> bool" where
  "wait_ok P \<longleftrightarrow>
     (mux_state (m_mux P) = LACPD_MUX_ST_WAITING \<and> actor_port_aggregator_identifier P \<noteq> 0 \<longrightarrow>
      pending (wait_while_timer (m_mux P)) \<or> ready_N P)"

definition select_ok :: "lacpd_port \<Rightarrow> bool" where
  "select_ok P \<longleftrightarrow>
     selected P \<noteq> LACPD_SEL_STATE_STANDBY \<and>
     (selected P = LACPD_SEL_STATE_SELECTED \<longrightarrow>
        select_state (m_select P) = LACPD_SELECT_LOGIC_ST_SELECTED) \<and>
     (select_state (m_select P) = LACPD_SELECT_LOGIC_ST_SELECTED \<longleftrightarrow>
        actor_port_aggregator_identifier P \<noteq> 0)"

text \<open>
  The partner counts as in sync only while its information comes from a received packet; the
  administrative values that stand in for it are not in sync.
\<close>

definition partner_ok :: "lacpd_port \<Rightarrow> bool" where
  "partner_ok P \<longleftrightarrow>
     \<not> synchronization (info_state (partner_admin_port_info P)) \<and>
     (synchronization (partner_state P) \<longrightarrow> recv_state (m_receive P) = LACPD_RECV_ST_CURRENT)"

definition port_ok :: "lacpd_port \<Rightarrow> bool" where
  "port_ok P \<longleftrightarrow>
     dev_ifindex P \<noteq> 0 \<and> lacp_enabled P \<and> \<not> port_moved P \<and>
     recv_state (m_receive P) \<noteq> LACPD_RECV_ST_LACP_DISABLED \<and>
     select_ok P \<and> mux_bits (mux_state (m_mux P)) (actor_state P) \<and> wait_ok P \<and>
     partner_ok P \<and> pkt_sent (m_transmit P) \<le> 3 \<and> pending (rate_limit_timer (m_transmit P)) \<and>
     runner_ok (runner P)"

lemmas port_ok_defs = port_ok_def select_ok_def wait_ok_def partner_ok_def

lemma machine_get [simp]:
  "port_ok P \<Longrightarrow> lacpd_port_state_machine_get P m = Some m"
  by (cases m) (simp_all add: port_ok_def runner_ok_def lacp_machines_def
      lacpd_port_state_machine_get_def fsm_runner_lookup_state_machine_def)

subsection \<open>The instance\<close>

definition agg_ok :: "'e lacpd_lacp \<Rightarrow> agg_ref \<Rightarrow> bool" where
  "agg_ok s a \<longleftrightarrow>
     aggregator_identifier (agg_mem s a) \<noteq> 0 \<and>
     (next_port_agg_id s = 0 \<or> aggregator_identifier (agg_mem s a) < next_port_agg_id s) \<and>
     distinct (agg_ports (agg_mem s a)) \<and>
     (\<forall>p. p \<in> set (agg_ports (agg_mem s a)) \<longleftrightarrow>
        p \<in> set (ports s) \<and>
        actor_port_aggregator_identifier (port_mem s p) = aggregator_identifier (agg_mem s a)) \<and>
     (is_free (agg_mem s a) \<longleftrightarrow> agg_ports (agg_mem s a) = [])"

definition lacp_wf :: "'e lacpd_lacp \<Rightarrow> bool" where
  "lacp_wf s \<longleftrightarrow>
     distinct (ports s) \<and> distinct (aggregators s) \<and> length (ports s) \<le> length (aggregators s) \<and>
     (\<forall>p\<in>set (ports s). p < next_ref s) \<and> (\<forall>a\<in>set (aggregators s). a < next_ref s) \<and>
     inj_on (\<lambda>p. dev_ifindex (port_mem s p)) (set (ports s)) \<and>
     inj_on (\<lambda>a. aggregator_identifier (agg_mem s a)) (set (aggregators s)) \<and>
     (\<forall>a\<in>set (aggregators s). agg_ok s a) \<and>
     (\<forall>p\<in>set (ports s). port_ok (port_mem s p)) \<and>
     (\<forall>p\<in>set (ports s). actor_port_aggregator_identifier (port_mem s p) \<noteq> 0 \<longrightarrow>
        (\<exists>a\<in>set (aggregators s).
           aggregator_identifier (agg_mem s a) = actor_port_aggregator_identifier (port_mem s p)))"

abbreviation wf_port :: "port_ref \<Rightarrow> 'e lacpd_lacp \<Rightarrow> bool" where
  "wf_port p s \<equiv> lacp_wf s \<and> p \<in> set (ports s)"

lemma wf_port_ok [simp]: "lacp_wf s \<Longrightarrow> p \<in> set (ports s) \<Longrightarrow> port_ok (port_mem s p)"
  by (simp add: lacp_wf_def)

lemma wf_dev_frame:
  assumes "dev_frame s t" and "lacp_wf s"
  shows "lacp_wf t"
proof -
  have "lacp_wf t = lacp_wf s"
    unfolding lacp_wf_def agg_ok_def
    by (simp only: dev_frame_simps [OF assms(1)] dev_frame_agg [OF assms(1)])
  with assms(2) show ?thesis by simp
qed

lemma wf_env [simp]: "lacp_wf (s\<lparr>env := e\<rparr>) = lacp_wf s"
  by (simp add: lacp_wf_def agg_ok_def)

text \<open>An operation that changes one port and leaves it on its aggregator.\<close>

lemma wf_upd_port:
  assumes "lacp_wf s" and "p \<in> set (ports s)"
    and "dev_ifindex (f (port_mem s p)) = dev_ifindex (port_mem s p)"
    and "actor_port_aggregator_identifier (f (port_mem s p)) =
         actor_port_aggregator_identifier (port_mem s p)"
    and "port_ok (f (port_mem s p))"
  shows "lacp_wf (upd_port p f s)"
proof -
  have ids: "actor_port_aggregator_identifier (port_mem (upd_port p f s) q) =
      actor_port_aggregator_identifier (port_mem s q)" for q
    using assms(4) by simp
  have devs: "dev_ifindex (port_mem (upd_port p f s) q) = dev_ifindex (port_mem s q)" for q
    using assms(3) by simp
  have "port_ok (port_mem (upd_port p f s) q)" if "q \<in> set (ports s)" for q
    using that assms(1,5) by (cases "q = p") simp_all
  then show ?thesis
    using assms(1) unfolding lacp_wf_def agg_ok_def
    by (simp only: ids devs upd_port_simps(2-6) ball_simps HOL.simp_thms) blast
qed

subsection \<open>Looking up aggregators\<close>

lemma find_unique:
  assumes "x \<in> set xs" and "P x" and "\<And>y. y \<in> set xs \<Longrightarrow> P y \<Longrightarrow> y = x"
  shows "find P xs = Some x"
proof -
  have "find P xs \<noteq> None" using assms(1,2) by (auto simp: find_None_iff)
  then obtain y where y: "find P xs = Some y" by blast
  then have "y \<in> set xs" "P y" by (auto simp: find_Some_iff)
  with assms(3) y show ?thesis by simp
qed

lemma lookup_by_id:
  assumes "lacp_wf s" and "a \<in> set (aggregators s)"
  shows "lacpd_aggregator_lookup s (lacpd_aggregator_selector_by_id (aggregator_identifier (agg_mem s a))) = Some a"
  unfolding lacpd_aggregator_lookup_def
proof (rule find_unique [OF assms(2)])
  have ok: "agg_ok s a" using assms by (simp add: lacp_wf_def)
  then show "lacpd_aggregator_selector_by_id (aggregator_identifier (agg_mem s a)) (agg_mem s a)"
    by (simp add: lacpd_aggregator_selector_by_id_def agg_ok_def)
  show "b = a" if "b \<in> set (aggregators s)"
    and "lacpd_aggregator_selector_by_id (aggregator_identifier (agg_mem s a)) (agg_mem s b)" for b
    using that assms by (auto simp: lacp_wf_def lacpd_aggregator_selector_by_id_def inj_on_def split: if_splits)
qed

lemma lookup_by_id_0 [simp]: "lacpd_aggregator_lookup s (lacpd_aggregator_selector_by_id 0) = None"
  by (simp add: lacpd_aggregator_lookup_def lacpd_aggregator_selector_by_id_def find_None_iff)

lemma lookup_Some:
  "lacpd_aggregator_lookup s P = Some a \<Longrightarrow> a \<in> set (aggregators s) \<and> P (agg_mem s a)"
  by (auto simp: lacpd_aggregator_lookup_def find_Some_iff)

lemma lookup_own_aggregator:
  assumes "wf_port p s" and "actor_port_aggregator_identifier (port_mem s p) \<noteq> 0"
  obtains a where "a \<in> set (aggregators s)"
    "aggregator_identifier (agg_mem s a) = actor_port_aggregator_identifier (port_mem s p)"
    "lacpd_aggregator_lookup s (lacpd_aggregator_selector_by_id (actor_port_aggregator_identifier (port_mem s p))) = Some a"
    "p \<in> set (agg_ports (agg_mem s a))"
proof -
  obtain a where a: "a \<in> set (aggregators s)"
    "aggregator_identifier (agg_mem s a) = actor_port_aggregator_identifier (port_mem s p)"
    using assms by (auto simp: lacp_wf_def)
  then have "p \<in> set (agg_ports (agg_mem s a))" using assms(1) by (auto simp: lacp_wf_def agg_ok_def)
  with a lookup_by_id [of s a] assms(1) that show ?thesis by auto
qed

text \<open>
  A port without an aggregator always finds a free one: there are at least as many aggregators as ports,
  and the used ones hold disjoint sets of the other ports.
\<close>

lemma card_used_aggregators:
  assumes "finite A"
    and "\<And>a. a \<in> A \<Longrightarrow> agg_ports (agg_mem s a) \<noteq> [] \<and> set (agg_ports (agg_mem s a)) \<subseteq> B"
    and "\<And>a p. a \<in> A \<Longrightarrow> p \<in> set (agg_ports (agg_mem s a)) \<Longrightarrow>
       actor_port_aggregator_identifier (port_mem s p) = aggregator_identifier (agg_mem s a)"
    and "inj_on (\<lambda>a. aggregator_identifier (agg_mem s a)) A" and "finite B"
  shows "card A \<le> card B"
proof (rule disjoint_nonempty_card [where f = "\<lambda>a. set (agg_ports (agg_mem s a))"])
  show "set (agg_ports (agg_mem s a)) \<inter> set (agg_ports (agg_mem s b)) = {}"
    if "a \<in> A" "b \<in> A" "a \<noteq> b" for a b
  proof -
    have "aggregator_identifier (agg_mem s a) \<noteq> aggregator_identifier (agg_mem s b)"
      using assms(4) that by (auto simp: inj_on_def)
    then show ?thesis using assms(3) that by (metis disjoint_iff)
  qed
qed (use assms in auto)

lemma free_aggregator_exists:
  assumes "wf_port p s" and "actor_port_aggregator_identifier (port_mem s p) = 0"
  obtains a where "lacpd_aggregator_lookup s lacpd_aggregator_selector_by_free = Some a"
    "a \<in> set (aggregators s)" "agg_ports (agg_mem s a) = []"
proof (cases "\<exists>a\<in>set (aggregators s). is_free (agg_mem s a)")
  case True
  then have "lacpd_aggregator_lookup s lacpd_aggregator_selector_by_free \<noteq> None"
    by (auto simp: lacpd_aggregator_lookup_def lacpd_aggregator_selector_by_free_def find_None_iff)
  then obtain a where a: "lacpd_aggregator_lookup s lacpd_aggregator_selector_by_free = Some a"
    by blast
  from lookup_Some [OF this] have "a \<in> set (aggregators s)" "is_free (agg_mem s a)"
    by (simp_all add: lacpd_aggregator_selector_by_free_def)
  with assms(1) a that show ?thesis by (auto simp: lacp_wf_def agg_ok_def)
next
  case False
  have "card (set (aggregators s)) \<le> card (set (ports s) - {p})"
  proof (rule card_used_aggregators)
    show "agg_ports (agg_mem s a) \<noteq> [] \<and> set (agg_ports (agg_mem s a)) \<subseteq> set (ports s) - {p}"
      if "a \<in> set (aggregators s)" for a
    proof -
      have "agg_ok s a" "\<not> is_free (agg_mem s a)" using that assms False by (auto simp: lacp_wf_def)
      with assms(2) show ?thesis by (auto simp: agg_ok_def)
    qed
    show "actor_port_aggregator_identifier (port_mem s q) = aggregator_identifier (agg_mem s a)"
      if "a \<in> set (aggregators s)" "q \<in> set (agg_ports (agg_mem s a))" for a q
      using that assms(1) by (auto simp: lacp_wf_def agg_ok_def)
  qed (use assms in \<open>auto simp: lacp_wf_def\<close>)
  moreover have "card (set (ports s) - {p}) < card (set (ports s))"
    using assms(1) by (intro psubset_card_mono) auto
  moreover have "card (set (ports s)) \<le> card (set (aggregators s))"
    using assms(1) by (simp add: lacp_wf_def distinct_card)
  ultimately show ?thesis by simp
qed

subsection \<open>Joining and leaving an aggregator\<close>

lemma add_port_result:
  assumes "p \<notin> set (agg_ports (agg_mem s a))"
  shows "lacpd_aggregator_add_port a p s =
    (True, upd_agg a (\<lambda>A. let A1 = A\<lparr>agg_ports := list_add_tail p (agg_ports A)\<rparr>;
        A2 = (if agg_ports A = [] then lacpd_aggregator_init_by_port (port_mem s p) A1 else A1)
      in A2\<lparr>ready := list_all (\<lambda>q. ready_N (port_mem s q)) (agg_ports A2)\<rparr>) s)"
  using assms
  by (auto simp: lacpd_aggregator_add_port_def lacpd_aggregator_contains_port_def Let_def
      lacpd_aggregator_update_ready_def upd_agg_def lacpd_aggregator_init_by_port_def)

lemma del_port_result:
  assumes "p \<in> set (agg_ports (agg_mem s a))"
  shows "lacpd_aggregator_del_port a p s =
    (True, upd_agg a (\<lambda>A. let A1 = A\<lparr>agg_ports := list_del p (agg_ports A)\<rparr>;
        A2 = (if agg_ports A1 = [] then lacpd_aggregator_clear A1 else A1)
      in A2\<lparr>ready := agg_ports A2 \<noteq> [] \<and> list_all (\<lambda>q. ready_N (port_mem s q)) (agg_ports A2)\<rparr>) s)"
  using assms
  by (auto simp: lacpd_aggregator_del_port_def lacpd_aggregator_contains_port_def Let_def
      lacpd_aggregator_update_ready_def upd_agg_def lacpd_aggregator_clear_def)

text \<open>The step of a port from no aggregator onto \<open>a\<close>, and back.\<close>

lemma wf_change_member:
  assumes "wf_port p s" and "a \<in> set (aggregators s)"
    and "actor_port_aggregator_identifier (port_mem s p) \<in> {0, aggregator_identifier (agg_mem s a)}"
    and "port_mem t = (port_mem s)(p := P')" and "port_ok P'"
    and "dev_ifindex P' = dev_ifindex (port_mem s p)"
    and "actor_port_aggregator_identifier P' \<in> {0, aggregator_identifier (agg_mem s a)}"
    and "agg_mem t = (agg_mem s)(a := A')" and "distinct (agg_ports A')"
    and "set (agg_ports A') = (set (agg_ports (agg_mem s a)) - {p}) \<union>
      (if actor_port_aggregator_identifier P' = 0 then {} else {p})"
    and "aggregator_identifier A' = aggregator_identifier (agg_mem s a)"
    and "is_free A' \<longleftrightarrow> agg_ports A' = []"
    and "ports t = ports s" and "aggregators t = aggregators s"
    and "next_ref t = next_ref s" and "next_port_agg_id t = next_port_agg_id s"
  shows "lacp_wf t"
proof -
  have ids: "aggregator_identifier (agg_mem t b) = aggregator_identifier (agg_mem s b)" for b
    using assms(8,11) by simp
  have devs: "dev_ifindex (port_mem t q) = dev_ifindex (port_mem s q)" for q
    using assms(4,6) by simp
  have nz: "aggregator_identifier (agg_mem s a) \<noteq> 0"
    using assms(1,2) by (simp add: lacp_wf_def agg_ok_def)
  have aggs: "agg_ok t b" if b: "b \<in> set (aggregators s)" for b
  proof -
    have ok: "agg_ok s b" using b assms(1) by (simp add: lacp_wf_def)
    show ?thesis
    proof (cases "b = a")
      case True
      have "q \<in> set (agg_ports A') \<longleftrightarrow> q \<in> set (ports s) \<and>
          actor_port_aggregator_identifier (port_mem t q) = aggregator_identifier (agg_mem s a)" for q
      proof (cases "q = p")
        case True
        with assms(1,4,7,10) nz show ?thesis by (simp split: if_splits)
      next
        case False
        with ok \<open>b = a\<close> assms(4,10) show ?thesis by (simp add: agg_ok_def)
      qed
      with ok True assms(8,9,11,12,13,16) show ?thesis
        by (simp add: agg_ok_def)
    next
      case False
      have ne: "aggregator_identifier (agg_mem s b) \<noteq> aggregator_identifier (agg_mem s a)"
        using False b assms(1,2) by (auto simp: lacp_wf_def inj_on_def)
      have "q \<in> set (agg_ports (agg_mem s b)) \<longleftrightarrow> q \<in> set (ports s) \<and>
          actor_port_aggregator_identifier (port_mem t q) = aggregator_identifier (agg_mem s b)" for q
      proof (cases "q = p")
        case True
        with assms(3,4,7) ok ne show ?thesis by (simp add: agg_ok_def) (metis insertE singletonD)
      next
        case False
        with ok assms(4) show ?thesis by (simp add: agg_ok_def)
      qed
      with ok False assms(8,13,16) show ?thesis by (simp add: agg_ok_def)
    qed
  qed
  have own: "\<exists>b\<in>set (aggregators s). aggregator_identifier (agg_mem s b) = actor_port_aggregator_identifier (port_mem t q)"
    if "q \<in> set (ports s)" "actor_port_aggregator_identifier (port_mem t q) \<noteq> 0" for q
    using that assms(1,2,4,7) by (cases "q = p") (auto simp: lacp_wf_def)
  have "port_ok (port_mem t q)" if "q \<in> set (ports s)" for q
    using that assms(1,4,5) by (cases "q = p") auto
  with assms(1,13-16) aggs own show ?thesis
    unfolding lacp_wf_def by (simp add: ids devs)
qed

subsection \<open>The measure\<close>

text \<open>
  How far each machine of a port is from rest. A receive transition may set back every other
  machine, so it weighs most; the periodic, selection and mux machines may set back the
  transmit machine only, by less than one of their own steps.
\<close>

definition no_periodic :: "lacpd_port \<Rightarrow> bool" where
  "no_periodic P \<longleftrightarrow>
     \<not> lacp_enabled P \<or> \<not> port_enabled P \<or> (\<not> activity (actor_state P) \<and> \<not> activity (partner_state P))"

definition rank_receive :: "lacpd_port \<Rightarrow> nat" where
  "rank_receive P = (if lacpdu_indicate P then 10 else 0) +
     (case recv_state (m_receive P) of
        LACPD_RECV_ST_INITIALIZE \<Rightarrow> 7
      | LACPD_RECV_ST_PORT_DISABLED \<Rightarrow> if port_enabled P then 6 else 0
      | LACPD_RECV_ST_EXPIRED \<Rightarrow> if pending (current_while_timer (m_receive P)) then 3 else 4
      | LACPD_RECV_ST_LACP_DISABLED \<Rightarrow> 1
      | LACPD_RECV_ST_DEFAULTED \<Rightarrow> 2
      | LACPD_RECV_ST_CURRENT \<Rightarrow> if pending (current_while_timer (m_receive P)) then 4 else 5)"

definition rank_periodic :: "lacpd_port \<Rightarrow> nat" where
  "rank_periodic P =
     (let short = timeout (partner_state P); armed = pending (periodic_timer (m_periodic P)) in
      case periodic_state (m_periodic P) of
        LACPD_PERIODIC_ST_NO_PERIODIC \<Rightarrow> if no_periodic P then 0 else 4
      | LACPD_PERIODIC_ST_FAST_PERIODIC \<Rightarrow> if short \<and> armed then 1 else 3
      | LACPD_PERIODIC_ST_SLOW_PERIODIC \<Rightarrow> if \<not> short \<and> armed then 1 else 3
      | LACPD_PERIODIC_ST_PERIODIC_TX \<Rightarrow> 2)"

definition rank_mux :: "lacpd_port \<Rightarrow> nat" where
  "rank_mux P =
     (if selected P = LACPD_SEL_STATE_SELECTED
      then (case mux_state (m_mux P) of
              LACPD_MUX_ST_DETACHED \<Rightarrow> 3
            | LACPD_MUX_ST_WAITING \<Rightarrow> 2
            | LACPD_MUX_ST_ATTACHED \<Rightarrow> if synchronization (partner_state P) then 1 else 0
            | LACPD_MUX_ST_COLLECTING_DISTRIBUTING \<Rightarrow> if synchronization (partner_state P) then 0 else 1)
      else 4 +
        (if select_state (m_select P) = LACPD_SELECT_LOGIC_ST_SELECTED then 1 else 0) +
        (case mux_state (m_mux P) of
              LACPD_MUX_ST_DETACHED \<Rightarrow> 0
            | LACPD_MUX_ST_WAITING \<Rightarrow> 1
            | LACPD_MUX_ST_ATTACHED \<Rightarrow> 1
            | LACPD_MUX_ST_COLLECTING_DISTRIBUTING \<Rightarrow> 2))"

definition tx_disabled :: "lacpd_port \<Rightarrow> bool" where
  "tx_disabled P \<longleftrightarrow>
     periodic_state (m_periodic P) = LACPD_PERIODIC_ST_NO_PERIODIC \<or> \<not> lacp_enabled P"

definition rank_transmit :: "lacpd_port \<Rightarrow> nat" where
  "rank_transmit P = 3 * (3 - unat (pkt_sent (m_transmit P))) +
     (case transmit_state (m_transmit P) of
        LACPD_TRANSMIT_ST_NO_TX \<Rightarrow> if tx_disabled P then 1 else 0
      | LACPD_TRANSMIT_ST_TX \<Rightarrow> if tx_disabled P then 2 else 1
      | LACPD_TRANSMIT_ST_DISABLED \<Rightarrow> if tx_disabled P then 0 else 1)"

definition port_rank :: "lacpd_port \<Rightarrow> nat" where
  "port_rank P = 10000 * rank_receive P + 100 * rank_periodic P + 100 * rank_mux P + rank_transmit P"

lemma rank_periodic_bound: "rank_periodic P \<le> 4"
  by (cases "periodic_state (m_periodic P)") (simp_all add: rank_periodic_def Let_def)

lemma rank_mux_bound: "rank_mux P \<le> 7"
  by (cases "mux_state (m_mux P)") (simp_all add: rank_mux_def)

lemma rank_transmit_bound: "rank_transmit P \<le> 11"
proof -
  have "3 * (3 - unat (pkt_sent (m_transmit P))) \<le> 9" by simp
  then show ?thesis
    by (cases "transmit_state (m_transmit P)") (auto simp: rank_transmit_def)
qed

lemmas rank_bounds = rank_periodic_bound rank_mux_bound rank_transmit_bound

lemma rank_receive_cong:
  "lacpdu_indicate Q = lacpdu_indicate P \<Longrightarrow> m_receive Q = m_receive P \<Longrightarrow>
   port_enabled Q = port_enabled P \<Longrightarrow> rank_receive Q = rank_receive P"
  by (simp add: rank_receive_def)

lemma no_periodic_cong:
  "lacp_enabled Q = lacp_enabled P \<Longrightarrow> port_enabled Q = port_enabled P \<Longrightarrow>
   activity (actor_state Q) = activity (actor_state P) \<Longrightarrow>
   partner_port_info Q = partner_port_info P \<Longrightarrow> no_periodic Q = no_periodic P"
  by (simp add: no_periodic_def)

lemma rank_periodic_cong:
  "m_periodic Q = m_periodic P \<Longrightarrow> lacp_enabled Q = lacp_enabled P \<Longrightarrow>
   port_enabled Q = port_enabled P \<Longrightarrow> activity (actor_state Q) = activity (actor_state P) \<Longrightarrow>
   partner_port_info Q = partner_port_info P \<Longrightarrow> rank_periodic Q = rank_periodic P"
  by (simp add: rank_periodic_def no_periodic_cong [of Q P])

lemma rank_mux_cong:
  "selected Q = selected P \<Longrightarrow> m_select Q = m_select P \<Longrightarrow> m_mux Q = m_mux P \<Longrightarrow>
   partner_port_info Q = partner_port_info P \<Longrightarrow> rank_mux Q = rank_mux P"
  by (simp add: rank_mux_def)

lemma rank_transmit_cong:
  "m_transmit Q = m_transmit P \<Longrightarrow> m_periodic Q = m_periodic P \<Longrightarrow>
   lacp_enabled Q = lacp_enabled P \<Longrightarrow> rank_transmit Q = rank_transmit P"
  by (simp add: rank_transmit_def tx_disabled_def)

lemma port_rank_receive:
  "rank_receive P' < rank_receive P \<Longrightarrow> port_rank P' < port_rank P"
  using rank_bounds [of P'] unfolding port_rank_def by linarith

lemma port_rank_receive_le:
  assumes "rank_receive P' \<le> rank_receive P" and "rank_periodic P' = rank_periodic P"
    and "rank_mux P' = rank_mux P" and "rank_transmit P' = rank_transmit P"
  shows "port_rank P' \<le> port_rank P"
  using assms unfolding port_rank_def by linarith

lemma port_rank_periodic:
  assumes "rank_receive P' = rank_receive P" and "rank_periodic P' < rank_periodic P"
    and "rank_mux P' = rank_mux P"
  shows "port_rank P' < port_rank P"
  using rank_bounds [of P'] assms unfolding port_rank_def by linarith

lemma port_rank_mux:
  assumes "rank_receive P' = rank_receive P" and "rank_periodic P' = rank_periodic P"
    and "rank_mux P' < rank_mux P"
  shows "port_rank P' < port_rank P"
  using rank_bounds [of P'] assms unfolding port_rank_def by linarith

lemma port_rank_transmit:
  assumes "rank_receive P' = rank_receive P" and "rank_periodic P' = rank_periodic P"
    and "rank_mux P' = rank_mux P" and "rank_transmit P' < rank_transmit P"
  shows "port_rank P' < port_rank P"
  using assms unfolding port_rank_def by linarith

end
