(* ===== verification/Lacp_Receive.thy ===== *)
theory Lacp_Receive
  imports Lacp_Inv
begin

text \<open>
  The receive machine of a port (the first part of qca/src/qca-lacpd/lacp/lacp_fsm.c): it
  follows the link, records what the partner says in its LACPDUs, and lets the record expire.
\<close>

definition upd_receive ::
    "(lacpd_state_machine_receive \<Rightarrow> lacpd_state_machine_receive) \<Rightarrow> lacpd_port \<Rightarrow> lacpd_port" where
  "upd_receive f P = P\<lparr>m_receive := f (m_receive P)\<rparr>"

definition lacpd_fsm_receive_current_while_timer_cb :: "port_ref \<Rightarrow> 'e lacpd_lacp \<Rightarrow> 'e lacpd_lacp" where
  "lacpd_fsm_receive_current_while_timer_cb p s = lacpd_port_fsm_schedule_run p s"

subsection \<open>Conditions\<close>

definition lacpd_fsm_receive_cond_to_INITIALIZE :: "port_ref \<Rightarrow> 'e lacpd_lacp \<Rightarrow> bool" where
  "lacpd_fsm_receive_cond_to_INITIALIZE p s \<longleftrightarrow>
     (let P = port_mem s p in
      recv_state (m_receive P) = LACPD_RECV_ST_PORT_DISABLED \<and> port_moved P)"

definition lacpd_fsm_receive_cond_to_PORT_DISABLED :: "port_ref \<Rightarrow> 'e lacpd_lacp \<Rightarrow> bool" where
  "lacpd_fsm_receive_cond_to_PORT_DISABLED p s \<longleftrightarrow>
     (let P = port_mem s p in
      recv_state (m_receive P) = LACPD_RECV_ST_INITIALIZE \<or>
      (recv_state (m_receive P) \<noteq> LACPD_RECV_ST_PORT_DISABLED \<and> \<not> port_enabled P \<and> \<not> port_moved P))"

definition lacpd_fsm_receive_cond_to_EXPIRED :: "port_ref \<Rightarrow> 'e lacpd_lacp \<Rightarrow> bool" where
  "lacpd_fsm_receive_cond_to_EXPIRED p s \<longleftrightarrow>
     (let P = port_mem s p;
          from_PORT_DISABLED_to_EXPIRED =
            (recv_state (m_receive P) = LACPD_RECV_ST_PORT_DISABLED \<and> port_enabled P \<and> lacp_enabled P);
          from_CURRENT_to_EXPIRED =
            (recv_state (m_receive P) = LACPD_RECV_ST_CURRENT \<and> \<not> pending (current_while_timer (m_receive P)))
      in from_PORT_DISABLED_to_EXPIRED \<or> from_CURRENT_to_EXPIRED)"

definition lacpd_fsm_receive_cond_to_LACP_DISABLED :: "port_ref \<Rightarrow> 'e lacpd_lacp \<Rightarrow> bool" where
  "lacpd_fsm_receive_cond_to_LACP_DISABLED p s \<longleftrightarrow>
     (let P = port_mem s p in
      recv_state (m_receive P) = LACPD_RECV_ST_PORT_DISABLED \<and> port_enabled P \<and> \<not> lacp_enabled P)"

definition lacpd_fsm_receive_cond_to_DEFAULTED :: "port_ref \<Rightarrow> 'e lacpd_lacp \<Rightarrow> bool" where
  "lacpd_fsm_receive_cond_to_DEFAULTED p s \<longleftrightarrow>
     (let P = port_mem s p in
      recv_state (m_receive P) = LACPD_RECV_ST_EXPIRED \<and> \<not> pending (current_while_timer (m_receive P)))"

text \<open>The one condition with side effects: it validates the waiting packet and counts it.\<close>

definition receive_check_message :: "lacpd_port \<Rightarrow> lacpd_port" where
  "receive_check_message P =
     (if lacpdu_indicate P
      then if \<not> lacpdu_validate (message P)
           then P\<lparr>message := lacpdu_zero, lacpdu_indicate := False, rx_error := rx_error P + 1\<rparr>
           else P\<lparr>rx_successes := rx_successes P + 1\<rparr>
      else P)"

definition lacpd_fsm_receive_cond_to_CURRENT ::
    "port_ref \<Rightarrow> 'e lacpd_lacp \<Rightarrow> bool \<times> 'e lacpd_lacp" where
  "lacpd_fsm_receive_cond_to_CURRENT p s =
     (let s1 = upd_port p receive_check_message s; P = port_mem s1 p in
      (lacpdu_indicate P \<and>
         (recv_state (m_receive P) = LACPD_RECV_ST_EXPIRED \<or>
          recv_state (m_receive P) = LACPD_RECV_ST_DEFAULTED \<or>
          recv_state (m_receive P) = LACPD_RECV_ST_CURRENT),
       s1))"

subsection \<open>Entry actions\<close>

definition lacpd_fsm_receive_act_INITIALIZE_set :: "port_ref \<Rightarrow> 'e lacpd_lacp \<Rightarrow> 'e lacpd_lacp" where
  "lacpd_fsm_receive_act_INITIALIZE_set p = upd_port p (\<lambda>P.
     (upd_actor_state (\<lambda>st. st\<lparr>expired := False\<rparr>) (P\<lparr>selected := LACPD_SEL_STATE_UNSELECTED\<rparr>))
       \<lparr>port_moved := False\<rparr>)"

definition lacpd_fsm_receive_act_record_default :: "port_ref \<Rightarrow> 'e lacpd_lacp \<Rightarrow> 'e lacpd_lacp" where
  "lacpd_fsm_receive_act_record_default p = upd_port p (\<lambda>P.
     upd_actor_state (\<lambda>st. st\<lparr>defaulted := True\<rparr>) (P\<lparr>partner_port_info := partner_admin_port_info P\<rparr>))"

definition lacpd_fsm_receive_act_PORT_DISABLED_set :: "port_ref \<Rightarrow> 'e lacpd_lacp \<Rightarrow> 'e lacpd_lacp" where
  "lacpd_fsm_receive_act_PORT_DISABLED_set p =
     upd_port p (upd_partner_state (\<lambda>st. st\<lparr>synchronization := False\<rparr>))"

definition lacpd_fsm_receive_act_EXPIRED_set :: "port_ref \<Rightarrow> 'e lacpd_lacp \<Rightarrow> 'e lacpd_lacp" where
  "lacpd_fsm_receive_act_EXPIRED_set p = upd_port p (\<lambda>P.
     upd_actor_state (\<lambda>st. st\<lparr>expired := True\<rparr>)
       (upd_receive (\<lambda>m. m\<lparr>current_while_timer := timer_set LACP_SHORT_TIMEOUT_TIME (current_while_timer m)\<rparr>)
         (upd_partner_state (\<lambda>st. st\<lparr>synchronization := False, timeout := True\<rparr>) P)))"

definition lacpd_fsm_receive_act_LACP_DISABLED_set :: "port_ref \<Rightarrow> 'e lacpd_lacp \<Rightarrow> 'e lacpd_lacp" where
  "lacpd_fsm_receive_act_LACP_DISABLED_set p = upd_port p (\<lambda>P.
     upd_actor_state (\<lambda>st. st\<lparr>expired := False\<rparr>)
       (upd_partner_state (\<lambda>st. st\<lparr>aggregation := False\<rparr>) (P\<lparr>selected := LACPD_SEL_STATE_UNSELECTED\<rparr>)))"

definition lacpd_fsm_receive_act_update_default_selected :: "port_ref \<Rightarrow> 'e lacpd_lacp \<Rightarrow> 'e lacpd_lacp" where
  "lacpd_fsm_receive_act_update_default_selected p = upd_port p (\<lambda>P.
     if \<not> port_info_equal (partner_admin_port_info P) (partner_port_info P)
            (ignore_all_states_except ignore_mask_state_aggregation)
     then P\<lparr>selected := LACPD_SEL_STATE_UNSELECTED\<rparr> else P)"

definition lacpd_fsm_receive_act_DEFAULTED_set :: "port_ref \<Rightarrow> 'e lacpd_lacp \<Rightarrow> 'e lacpd_lacp" where
  "lacpd_fsm_receive_act_DEFAULTED_set p = upd_port p (upd_actor_state (\<lambda>st. st\<lparr>expired := False\<rparr>))"

text \<open>Debug output only: it prints the packet when the debug mask asks for it.\<close>

definition lacpd_fsm_receive_act_dump_pkt :: "port_ref \<Rightarrow> 'e lacpd_lacp \<Rightarrow> 'e lacpd_lacp" where
  "lacpd_fsm_receive_act_dump_pkt p s = s"

definition lacpd_fsm_receive_act_update_selected :: "port_ref \<Rightarrow> 'e lacpd_lacp \<Rightarrow> 'e lacpd_lacp" where
  "lacpd_fsm_receive_act_update_selected p = upd_port p (\<lambda>P.
     let remote_actor = lacpdu_get_port_info (message P) True in
     if \<not> port_info_equal remote_actor (partner_port_info P)
            (ignore_all_states_except ignore_mask_state_aggregation)
     then P\<lparr>selected := LACPD_SEL_STATE_UNSELECTED\<rparr> else P)"

definition lacpd_fsm_receive_act_update_NTT :: "port_ref \<Rightarrow> 'e lacpd_lacp \<Rightarrow> 'e lacpd_lacp" where
  "lacpd_fsm_receive_act_update_NTT p = upd_port p (\<lambda>P.
     let remote_partner = lacpdu_get_port_info (message P) False in
     if \<not> port_info_equal remote_partner (actor_port_info P)
            (ignore_states ignore_mask_state_collecting ignore_mask_state_distributing
              ignore_mask_state_defaulted ignore_mask_state_expired)
     then P\<lparr>ntt := True\<rparr> else P)"

definition record_PDU :: "lacpd_port \<Rightarrow> lacpd_port" where
  "record_PDU P =
     (let P1 = upd_actor_state (\<lambda>st. st\<lparr>defaulted := False\<rparr>)
                 (P\<lparr>partner_port_info := lacpdu_get_port_info (message P) True\<rparr>) in
      if \<not> synchronization (partner_state P1) then P1
      else
        let remote_partner = lacpdu_get_port_info (message P1) False;
            lacp_is_actively = (activity (partner_state P1) \<or>
              (activity (actor_state P1) \<and> activity (info_state remote_partner)))
        in if \<not> lacp_is_actively
           then upd_partner_state (\<lambda>st. st\<lparr>synchronization := False\<rparr>) P1
           else if aggregation (partner_state P1) \<and>
                   \<not> port_info_equal remote_partner (actor_port_info P1)
                        (ignore_all_states_except ignore_mask_state_aggregation)
           then upd_partner_state (\<lambda>st. st\<lparr>synchronization := False\<rparr>) P1
           else P1)"

definition lacpd_fsm_receive_act_record_PDU :: "port_ref \<Rightarrow> 'e lacpd_lacp \<Rightarrow> 'e lacpd_lacp" where
  "lacpd_fsm_receive_act_record_PDU p = upd_port p record_PDU"

definition lacpd_fsm_receive_act_CURRENT_set :: "port_ref \<Rightarrow> 'e lacpd_lacp \<Rightarrow> 'e lacpd_lacp" where
  "lacpd_fsm_receive_act_CURRENT_set p = upd_port p (\<lambda>P.
     (upd_actor_state (\<lambda>st. st\<lparr>expired := False\<rparr>)
       (upd_receive (\<lambda>m. m\<lparr>current_while_timer :=
            timer_set (if timeout (actor_state P) then LACP_SHORT_TIMEOUT_TIME else LACP_LONG_TIMEOUT_TIME)
              (current_while_timer m)\<rparr>) P))
       \<lparr>message := lacpdu_zero, lacpdu_indicate := False\<rparr>)"

definition lacpd_fsm_receive_destroy :: "port_ref \<Rightarrow> 'e lacpd_lacp \<Rightarrow> 'e lacpd_lacp" where
  "lacpd_fsm_receive_destroy p =
     upd_port p (upd_receive (\<lambda>m. m\<lparr>current_while_timer := timer_cancel (current_while_timer m)\<rparr>))"

subsection \<open>The table\<close>

definition receive_machine_base ::
    "port_ref \<Rightarrow> (lacpd_state_machine_receive_state, 'e lacpd_lacp) state_machine_base" where
  "receive_machine_base p = \<lparr>
     base_name = ''lacp receive state machine'',
     initial_state = LACPD_RECV_ST_INITIALIZE,
     base_states = [
       \<lparr>st_id = LACPD_RECV_ST_INITIALIZE, st_name = ''INITIALIZE'',
        condition = pure_condition (lacpd_fsm_receive_cond_to_INITIALIZE p),
        actions = [lacpd_fsm_receive_act_INITIALIZE_set p, lacpd_fsm_receive_act_record_default p]\<rparr>,
       \<lparr>st_id = LACPD_RECV_ST_PORT_DISABLED, st_name = ''PORT_DISABLED'',
        condition = pure_condition (lacpd_fsm_receive_cond_to_PORT_DISABLED p),
        actions = [lacpd_fsm_receive_act_PORT_DISABLED_set p]\<rparr>,
       \<lparr>st_id = LACPD_RECV_ST_EXPIRED, st_name = ''EXPIRED'',
        condition = pure_condition (lacpd_fsm_receive_cond_to_EXPIRED p),
        actions = [lacpd_fsm_receive_act_EXPIRED_set p]\<rparr>,
       \<lparr>st_id = LACPD_RECV_ST_LACP_DISABLED, st_name = ''LACP_DISABLED'',
        condition = pure_condition (lacpd_fsm_receive_cond_to_LACP_DISABLED p),
        actions = [lacpd_fsm_receive_act_LACP_DISABLED_set p, lacpd_fsm_receive_act_record_default p]\<rparr>,
       \<lparr>st_id = LACPD_RECV_ST_DEFAULTED, st_name = ''DEFAULTED'',
        condition = pure_condition (lacpd_fsm_receive_cond_to_DEFAULTED p),
        actions = [lacpd_fsm_receive_act_update_default_selected p, lacpd_fsm_receive_act_record_default p,
          lacpd_fsm_receive_act_DEFAULTED_set p]\<rparr>,
       \<lparr>st_id = LACPD_RECV_ST_CURRENT, st_name = ''CURRENT'',
        condition = lacpd_fsm_receive_cond_to_CURRENT p,
        actions = [lacpd_fsm_receive_act_dump_pkt p, lacpd_fsm_receive_act_update_selected p,
          lacpd_fsm_receive_act_update_NTT p, lacpd_fsm_receive_act_record_PDU p,
          lacpd_fsm_receive_act_CURRENT_set p]\<rparr>],
     put_state = (\<lambda>q. upd_port p (upd_receive (\<lambda>m. m\<lparr>recv_state := q\<rparr>)))\<rparr>"

text \<open>\<^verbatim>\<open>calloc\<close> of \<^verbatim>\<open>struct lacpd_state_machine_receive\<close>.\<close>

definition lacpd_fsm_receive_new :: "'e lacp_out_api \<Rightarrow> port_ref \<Rightarrow> 'e lacpd_lacp \<Rightarrow>
    (lacpd_port_state_machines \<times> (lacpd_state_machine_receive_state, 'e lacpd_lacp) state_machine_base) option
      \<times> 'e lacpd_lacp" where
  "lacpd_fsm_receive_new api p s =
     (let (ok, s1) = call_api (os_calloc api) s in
      if \<not> ok then (None, s1)
      else (Some (LACPD_PORT_STATE_MACHINE_RECEIVE, receive_machine_base p),
            upd_port p (upd_receive (\<lambda>_. \<lparr>recv_state = LACPD_RECV_ST_INITIALIZE,
              current_while_timer = idle_timer\<rparr>)) s1))"

subsection \<open>Entering a state\<close>

lemmas receive_act_defs =
  lacpd_fsm_receive_act_INITIALIZE_set_def lacpd_fsm_receive_act_record_default_def
  lacpd_fsm_receive_act_PORT_DISABLED_set_def lacpd_fsm_receive_act_EXPIRED_set_def
  lacpd_fsm_receive_act_LACP_DISABLED_set_def lacpd_fsm_receive_act_update_default_selected_def
  lacpd_fsm_receive_act_DEFAULTED_set_def lacpd_fsm_receive_act_dump_pkt_def
  lacpd_fsm_receive_act_update_selected_def lacpd_fsm_receive_act_update_NTT_def
  lacpd_fsm_receive_act_record_PDU_def lacpd_fsm_receive_act_CURRENT_set_def

lemmas receive_cond_defs =
  lacpd_fsm_receive_cond_to_INITIALIZE_def lacpd_fsm_receive_cond_to_PORT_DISABLED_def
  lacpd_fsm_receive_cond_to_EXPIRED_def lacpd_fsm_receive_cond_to_LACP_DISABLED_def
  lacpd_fsm_receive_cond_to_DEFAULTED_def lacpd_fsm_receive_cond_to_CURRENT_def

text \<open>What a port keeps when the receive machine enters any of its states.\<close>

definition receive_frame :: "lacpd_port \<Rightarrow> lacpd_port \<Rightarrow> bool" where
  "receive_frame P Q \<longleftrightarrow>
     dev_ifindex Q = dev_ifindex P \<and> lacp_enabled Q = lacp_enabled P \<and>
     port_enabled Q = port_enabled P \<and> (port_moved Q \<longrightarrow> port_moved P) \<and>
     actor_port_aggregator_identifier Q = actor_port_aggregator_identifier P \<and>
     (selected Q = selected P \<or> selected Q = LACPD_SEL_STATE_UNSELECTED) \<and>
     m_periodic Q = m_periodic P \<and> m_select Q = m_select P \<and> m_mux Q = m_mux P \<and>
     m_transmit Q = m_transmit P \<and> runner Q = runner P \<and> ready_N Q = ready_N P \<and>
     partner_admin_port_info Q = partner_admin_port_info P \<and>
     (partner_ok P \<longrightarrow> partner_ok Q) \<and>
     synchronization (actor_state Q) = synchronization (actor_state P) \<and>
     collecting (actor_state Q) = collecting (actor_state P) \<and>
     distributing (actor_state Q) = distributing (actor_state P) \<and>
     activity (actor_state Q) = activity (actor_state P) \<and>
     timeout (actor_state Q) = timeout (actor_state P)"

lemma receive_frame_trans:
  assumes "receive_frame P Q" and "receive_frame Q R"
  shows "receive_frame P R"
proof -
  have "selected R = selected P \<or> selected R = LACPD_SEL_STATE_UNSELECTED"
    using assms unfolding receive_frame_def by metis
  with assms show ?thesis unfolding receive_frame_def by simp
qed

lemma mux_bits_cong:
  "synchronization a = synchronization b \<Longrightarrow> collecting a = collecting b \<Longrightarrow>
   distributing a = distributing b \<Longrightarrow> mux_bits m a = mux_bits m b"
  by (cases m) simp_all

lemma receive_frame_port_ok:
  assumes "receive_frame P Q" and "port_ok P" and "recv_state (m_receive Q) \<noteq> LACPD_RECV_ST_LACP_DISABLED"
  shows "port_ok Q"
proof -
  note fr = assms(1) [unfolded receive_frame_def]
  have "mux_bits (mux_state (m_mux Q)) (actor_state Q) = mux_bits (mux_state (m_mux P)) (actor_state P)"
    using fr by (intro trans [OF arg_cong2 [where f = mux_bits, OF _ refl] mux_bits_cong]) simp_all
  moreover have "select_ok Q"
    using fr assms(2) by (cases "selected Q = selected P") (simp_all add: port_ok_def select_ok_def)
  moreover have "wait_ok Q"
    using fr assms(2) unfolding port_ok_def wait_ok_def by simp
  ultimately show ?thesis
    using fr assms(2,3) unfolding port_ok_def by simp
qed

text \<open>Recording a PDU rewrites the partner's information and the actor's defaulted bit.\<close>

lemma record_PDU_shape:
  obtains i where "record_PDU P = upd_actor_state (\<lambda>st. st\<lparr>defaulted := False\<rparr>) (P\<lparr>partner_port_info := i\<rparr>)"
proof -
  define P1 where "P1 = upd_actor_state (\<lambda>st. st\<lparr>defaulted := False\<rparr>)
    (P\<lparr>partner_port_info := lacpdu_get_port_info (message P) True\<rparr>)"
  have "record_PDU P = P1 \<or> record_PDU P = upd_partner_state (\<lambda>st. st\<lparr>synchronization := False\<rparr>) P1"
    unfolding record_PDU_def Let_def P1_def [symmetric] by (simp only: split: if_split) blast
  then show ?thesis
  proof
    assume "record_PDU P = P1"
    then show ?thesis unfolding P1_def by (rule that)
  next
    assume "record_PDU P = upd_partner_state (\<lambda>st. st\<lparr>synchronization := False\<rparr>) P1"
    moreover have "\<exists>i. upd_partner_state (\<lambda>st. st\<lparr>synchronization := False\<rparr>) P1 =
        upd_actor_state (\<lambda>st. st\<lparr>defaulted := False\<rparr>) (P\<lparr>partner_port_info := i\<rparr>)"
      unfolding P1_def upd_state_defs
      by (rule exI [where x = "(lacpdu_get_port_info (message P) True)\<lparr>info_state :=
          (info_state (lacpdu_get_port_info (message P) True))\<lparr>synchronization := False\<rparr>\<rparr>"]) simp
    ultimately show ?thesis using that by metis
  qed
qed

text \<open>The effect of entering a state, as a function of the port.\<close>

fun receive_enter :: "lacpd_state_machine_receive_state \<Rightarrow> lacpd_port \<Rightarrow> lacpd_port" where
  "receive_enter LACPD_RECV_ST_INITIALIZE P =
     upd_actor_state (\<lambda>st. st\<lparr>defaulted := True, expired := False\<rparr>)
       (upd_receive (\<lambda>m. m\<lparr>recv_state := LACPD_RECV_ST_INITIALIZE\<rparr>) P)
       \<lparr>selected := LACPD_SEL_STATE_UNSELECTED, port_moved := False,
        partner_port_info := partner_admin_port_info P\<rparr>"
| "receive_enter LACPD_RECV_ST_PORT_DISABLED P =
     upd_partner_state (\<lambda>st. st\<lparr>synchronization := False\<rparr>)
       (upd_receive (\<lambda>m. m\<lparr>recv_state := LACPD_RECV_ST_PORT_DISABLED\<rparr>) P)"
| "receive_enter LACPD_RECV_ST_EXPIRED P =
     upd_actor_state (\<lambda>st. st\<lparr>expired := True\<rparr>)
       (upd_partner_state (\<lambda>st. st\<lparr>timeout := True, synchronization := False\<rparr>)
         (upd_receive (\<lambda>m. m\<lparr>recv_state := LACPD_RECV_ST_EXPIRED,
            current_while_timer := timer_set LACP_SHORT_TIMEOUT_TIME (current_while_timer m)\<rparr>) P))"
| "receive_enter LACPD_RECV_ST_LACP_DISABLED P =
     upd_actor_state (\<lambda>st. st\<lparr>defaulted := True, expired := False\<rparr>)
       (upd_receive (\<lambda>m. m\<lparr>recv_state := LACPD_RECV_ST_LACP_DISABLED\<rparr>) P)
       \<lparr>selected := LACPD_SEL_STATE_UNSELECTED, partner_port_info := partner_admin_port_info P\<rparr>"
| "receive_enter LACPD_RECV_ST_DEFAULTED P =
     upd_actor_state (\<lambda>st. st\<lparr>defaulted := True, expired := False\<rparr>)
       (upd_receive (\<lambda>m. m\<lparr>recv_state := LACPD_RECV_ST_DEFAULTED\<rparr>) P)
       \<lparr>selected :=
          (if same_identity (partner_admin_port_info P) (partner_port_info P) \<and>
              aggregation (info_state (partner_admin_port_info P)) = aggregation (partner_state P)
           then selected P else LACPD_SEL_STATE_UNSELECTED),
        partner_port_info := partner_admin_port_info P\<rparr>"
| "receive_enter LACPD_RECV_ST_CURRENT P =
     upd_actor_state (\<lambda>st. st\<lparr>defaulted := False, expired := False\<rparr>)
       (upd_receive (\<lambda>m. m\<lparr>recv_state := LACPD_RECV_ST_CURRENT,
          current_while_timer := timer_set
            (if timeout (actor_state P) then LACP_SHORT_TIMEOUT_TIME else LACP_LONG_TIMEOUT_TIME)
            (current_while_timer m)\<rparr>) P)
       \<lparr>selected :=
          (if port_info_equal (lacpdu_get_port_info (message P) True) (partner_port_info P)
                (ignore_all_states_except ignore_mask_state_aggregation)
           then selected P else LACPD_SEL_STATE_UNSELECTED),
        ntt := ntt P \<or> \<not> port_info_equal (lacpdu_get_port_info (message P) False) (actor_port_info P)
            (ignore_states ignore_mask_state_collecting ignore_mask_state_distributing
              ignore_mask_state_defaulted ignore_mask_state_expired),
        partner_port_info := partner_port_info (record_PDU P),
        message := lacpdu_zero, lacpdu_indicate := False\<rparr>"

lemma receive_entry_actions:
  "entry_actions (receive_machine_base p) q =
     (case q of
        LACPD_RECV_ST_INITIALIZE \<Rightarrow>
          [lacpd_fsm_receive_act_INITIALIZE_set p, lacpd_fsm_receive_act_record_default p]
      | LACPD_RECV_ST_PORT_DISABLED \<Rightarrow> [lacpd_fsm_receive_act_PORT_DISABLED_set p]
      | LACPD_RECV_ST_EXPIRED \<Rightarrow> [lacpd_fsm_receive_act_EXPIRED_set p]
      | LACPD_RECV_ST_LACP_DISABLED \<Rightarrow>
          [lacpd_fsm_receive_act_LACP_DISABLED_set p, lacpd_fsm_receive_act_record_default p]
      | LACPD_RECV_ST_DEFAULTED \<Rightarrow>
          [lacpd_fsm_receive_act_update_default_selected p, lacpd_fsm_receive_act_record_default p,
           lacpd_fsm_receive_act_DEFAULTED_set p]
      | LACPD_RECV_ST_CURRENT \<Rightarrow>
          [lacpd_fsm_receive_act_dump_pkt p, lacpd_fsm_receive_act_update_selected p,
           lacpd_fsm_receive_act_update_NTT p, lacpd_fsm_receive_act_record_PDU p,
           lacpd_fsm_receive_act_CURRENT_set p])"
  by (cases q) (simp_all add: entry_actions_def receive_machine_base_def FSM_MAX_ACTION_def)

lemma receive_put_state:
  "put_state (receive_machine_base p) q = upd_port p (upd_receive (\<lambda>m. m\<lparr>recv_state := q\<rparr>))"
  by (simp add: receive_machine_base_def)

lemma record_PDU_frame:
  "record_PDU (P\<lparr>selected := sl, ntt := n, m_receive := m\<rparr>) =
   (record_PDU P)\<lparr>selected := sl, ntt := n, m_receive := m\<rparr>"
proof -
  define P1 where "P1 = upd_actor_state (\<lambda>st. st\<lparr>defaulted := False\<rparr>)
    (P\<lparr>partner_port_info := lacpdu_get_port_info (message P) True\<rparr>)"
  define G :: "lacpd_port \<Rightarrow> lacpd_port" where "G Q = Q\<lparr>selected := sl, ntt := n, m_receive := m\<rparr>" for Q
  have 1: "upd_actor_state (\<lambda>st. st\<lparr>defaulted := False\<rparr>)
      ((G P)\<lparr>partner_port_info := lacpdu_get_port_info (message (G P)) True\<rparr>) = G P1"
    by (simp add: G_def P1_def upd_state_defs)
  have 2: "partner_port_info (G P1) = partner_port_info P1" "actor_port_info (G P1) = actor_port_info P1"
    "message (G P1) = message P1"
    by (simp_all add: G_def)
  have 3: "upd_partner_state (\<lambda>st. st\<lparr>synchronization := False\<rparr>) (G P1) =
      G (upd_partner_state (\<lambda>st. st\<lparr>synchronization := False\<rparr>) P1)"
    by (simp add: G_def upd_state_defs)
  have "record_PDU (G P) = G (record_PDU P)"
    unfolding record_PDU_def Let_def 1 P1_def [symmetric] 2 3 by (simp only: if_distrib [of G])
  then show ?thesis by (simp add: G_def)
qed

lemma receive_change_to_state:
  "fsm_change_to_state (receive_machine_base p) q s = upd_port p (receive_enter q) s"
proof (cases q)
  case LACPD_RECV_ST_INITIALIZE
  show ?thesis
    unfolding fsm_change_to_state_def receive_put_state receive_entry_actions LACPD_RECV_ST_INITIALIZE
    by (simp add: receive_act_defs, rule upd_port_cong,
        simp add: upd_receive_def upd_state_defs port_info_equal_except_aggregation)
next
  case LACPD_RECV_ST_PORT_DISABLED
  show ?thesis
    unfolding fsm_change_to_state_def receive_put_state receive_entry_actions LACPD_RECV_ST_PORT_DISABLED
    by (simp add: receive_act_defs upd_port_def)
next
  case LACPD_RECV_ST_EXPIRED
  show ?thesis
    unfolding fsm_change_to_state_def receive_put_state receive_entry_actions LACPD_RECV_ST_EXPIRED
    by (simp add: receive_act_defs, rule upd_port_cong,
        simp add: upd_receive_def upd_state_defs port_info_equal_except_aggregation)
next
  case LACPD_RECV_ST_LACP_DISABLED
  show ?thesis
    unfolding fsm_change_to_state_def receive_put_state receive_entry_actions LACPD_RECV_ST_LACP_DISABLED
    by (simp add: receive_act_defs, rule upd_port_cong,
        simp add: upd_receive_def upd_state_defs port_info_equal_except_aggregation)
next
  case LACPD_RECV_ST_DEFAULTED
  show ?thesis
    unfolding fsm_change_to_state_def receive_put_state receive_entry_actions LACPD_RECV_ST_DEFAULTED
    by (simp add: receive_act_defs, rule upd_port_cong,
        simp add: upd_receive_def upd_state_defs port_info_equal_except_aggregation)
next
  case LACPD_RECV_ST_CURRENT
  let ?P = "port_mem s p"
  define sl where "sl = (if port_info_equal (lacpdu_get_port_info (message ?P) True) (partner_port_info ?P)
      (ignore_all_states_except ignore_mask_state_aggregation)
    then selected ?P else LACPD_SEL_STATE_UNSELECTED)"
  define n where "n = (ntt ?P \<or> \<not> port_info_equal (lacpdu_get_port_info (message ?P) False) (actor_port_info ?P)
      (ignore_states ignore_mask_state_collecting ignore_mask_state_distributing
        ignore_mask_state_defaulted ignore_mask_state_expired))"
  define m where "m = (m_receive ?P)\<lparr>recv_state := LACPD_RECV_ST_CURRENT\<rparr>"
  let ?s3 = "lacpd_fsm_receive_act_update_NTT p (lacpd_fsm_receive_act_update_selected p
    (lacpd_fsm_receive_act_dump_pkt p (upd_port p (upd_receive (\<lambda>m. m\<lparr>recv_state := LACPD_RECV_ST_CURRENT\<rparr>)) s)))"
  have "port_mem ?s3 p = ?P\<lparr>selected := sl, ntt := n, m_receive := m\<rparr>"
    by (simp add: receive_act_defs Let_def upd_receive_def sl_def n_def m_def)
  then have "?s3 = upd_port p (\<lambda>P. P\<lparr>selected := sl, ntt := n, m_receive := m\<rparr>) s"
    by (simp add: receive_act_defs upd_port_def)
  moreover obtain i where i: "record_PDU ?P = upd_actor_state (\<lambda>st. st\<lparr>defaulted := False\<rparr>) (?P\<lparr>partner_port_info := i\<rparr>)"
    by (rule record_PDU_shape)
  moreover have "partner_port_info (record_PDU ?P) = i"
    by (simp add: i upd_state_defs)
  ultimately have "run_actions (entry_actions (receive_machine_base p) LACPD_RECV_ST_CURRENT)
      (upd_port p (upd_receive (\<lambda>m. m\<lparr>recv_state := LACPD_RECV_ST_CURRENT\<rparr>)) s) =
    upd_port p (\<lambda>P. P\<lparr>partner_port_info := partner_port_info (record_PDU ?P), selected := sl, ntt := n,
      m_receive := m\<lparr>current_while_timer := timer_set
        (if timeout (actor_state P) then LACP_SHORT_TIMEOUT_TIME else LACP_LONG_TIMEOUT_TIME)
        (current_while_timer m)\<rparr>,
      actor_port_info := (actor_port_info P)\<lparr>info_state := (actor_state P)\<lparr>defaulted := False, expired := False\<rparr>\<rparr>,
      message := lacpdu_zero, lacpdu_indicate := False\<rparr>) s"
    by (simp add: receive_entry_actions lacpd_fsm_receive_act_record_PDU_def
        lacpd_fsm_receive_act_CURRENT_set_def upd_port_def record_PDU_frame upd_state_defs upd_receive_def)
  then show ?thesis
    unfolding fsm_change_to_state_def receive_put_state LACPD_RECV_ST_CURRENT
    by (simp, intro upd_port_cong) (simp add: upd_state_defs upd_receive_def sl_def n_def m_def)
qed

lemma receive_frame_enter: "receive_frame P (receive_enter q P)"
  by (cases q) (simp_all add: receive_frame_def partner_ok_def upd_state_defs upd_receive_def)

lemma receive_enter_state [simp]: "recv_state (m_receive (receive_enter q P)) = q"
  by (cases q) (simp_all add: upd_state_defs upd_receive_def)

lemma receive_check_message_frame: "receive_frame P (receive_check_message P)"
  by (simp add: receive_frame_def receive_check_message_def partner_ok_def)

lemma receive_check_message_state [simp]:
  "m_receive (receive_check_message P) = m_receive P"
  "partner_port_info (receive_check_message P) = partner_port_info P"
  "selected (receive_check_message P) = selected P"
  "actor_port_info (receive_check_message P) = actor_port_info P"
  "port_moved (receive_check_message P) = port_moved P"
  by (simp_all add: receive_check_message_def)

lemma receive_frame_wf:
  assumes "wf_port p s" and "receive_frame (port_mem s p) (f (port_mem s p))"
    and "recv_state (m_receive (f (port_mem s p))) \<noteq> LACPD_RECV_ST_LACP_DISABLED"
  shows "wf_port p (upd_port p f s)"
proof -
  have "port_ok (f (port_mem s p))"
    using assms by (intro receive_frame_port_ok [OF assms(2)]) auto
  with assms(1,2) show ?thesis
    by (simp add: wf_upd_port receive_frame_def)
qed

subsection \<open>Progress\<close>

lemma receive_enter_rank:
  assumes "port_ok (port_mem s p)" and "st \<in> set (base_states (receive_machine_base p))"
    and "condition st s = (True, s1)"
  shows "rank_receive (receive_enter (st_id st) (port_mem s1 p)) < rank_receive (port_mem s p) \<and>
    st_id st \<noteq> LACPD_RECV_ST_LACP_DISABLED \<and> (\<exists>f. s1 = upd_port p f s \<and> receive_frame (port_mem s p) (f (port_mem s p)))"
proof -
  have ok: "lacp_enabled (port_mem s p)" "\<not> port_moved (port_mem s p)"
    using assms(1) by (simp_all add: port_ok_def)
  have id: "\<exists>f. s = upd_port p f s \<and> receive_frame (port_mem s p) (f (port_mem s p))"
    by (rule exI [where x = id]) (simp add: upd_port_def receive_frame_def)
  from assms(2) consider
      "st_id st = LACPD_RECV_ST_INITIALIZE" "condition st = pure_condition (lacpd_fsm_receive_cond_to_INITIALIZE p)"
    | "st_id st = LACPD_RECV_ST_PORT_DISABLED" "condition st = pure_condition (lacpd_fsm_receive_cond_to_PORT_DISABLED p)"
    | "st_id st = LACPD_RECV_ST_EXPIRED" "condition st = pure_condition (lacpd_fsm_receive_cond_to_EXPIRED p)"
    | "st_id st = LACPD_RECV_ST_LACP_DISABLED" "condition st = pure_condition (lacpd_fsm_receive_cond_to_LACP_DISABLED p)"
    | "st_id st = LACPD_RECV_ST_DEFAULTED" "condition st = pure_condition (lacpd_fsm_receive_cond_to_DEFAULTED p)"
    | "st_id st = LACPD_RECV_ST_CURRENT" "condition st = lacpd_fsm_receive_cond_to_CURRENT p"
    by (auto simp: receive_machine_base_def)
  then show ?thesis
  proof cases
    case 1
    with assms(3) ok show ?thesis by (simp add: receive_cond_defs)
  next
    case 2
    with assms(3) ok id show ?thesis
      by (cases "recv_state (m_receive (port_mem s p))")
        (simp_all add: receive_cond_defs rank_receive_def upd_state_defs upd_receive_def Let_def)
  next
    case 3
    with assms(3) ok id show ?thesis
      by (cases "recv_state (m_receive (port_mem s p))")
        (simp_all add: receive_cond_defs rank_receive_def upd_state_defs upd_receive_def Let_def)
  next
    case 4
    with assms(3) ok show ?thesis by (simp add: receive_cond_defs)
  next
    case 5
    with assms(3) ok id show ?thesis
      by (simp add: receive_cond_defs rank_receive_def upd_state_defs upd_receive_def Let_def)
  next
    case 6
    let ?P = "port_mem s p"
    have s1: "s1 = upd_port p receive_check_message s" and ind: "lacpdu_indicate (receive_check_message ?P)"
      using 6 assms(3) by (auto simp: receive_cond_defs Let_def)
    from ind have "lacpdu_indicate ?P" by (simp add: receive_check_message_def split: if_splits)
    then have "rank_receive (receive_enter LACPD_RECV_ST_CURRENT (receive_check_message ?P)) < rank_receive ?P"
      by (simp add: rank_receive_def upd_state_defs upd_receive_def)
    with 6 s1 receive_check_message_frame show ?thesis by auto
  qed
qed

lemma receive_check_message_rank:
  "port_rank (receive_check_message P) \<le> port_rank P"
proof (rule port_rank_receive_le)
  show "rank_receive (receive_check_message P) \<le> rank_receive P"
    by (simp add: receive_check_message_def rank_receive_def)
  note fr = receive_check_message_frame [of P, unfolded receive_frame_def]
  show "rank_periodic (receive_check_message P) = rank_periodic P"
    by (rule rank_periodic_cong) (use fr in simp_all)
  show "rank_mux (receive_check_message P) = rank_mux P"
    by (rule rank_mux_cong) (use fr in simp_all)
  show "rank_transmit (receive_check_message P) = rank_transmit P"
    by (rule rank_transmit_cong) (use fr in simp_all)
qed

interpretation receive: fsm_table "receive_machine_base p" "wf_port p" "\<lambda>s. port_rank (port_mem s p)"
  for p :: port_ref
proof unfold_locales
  fix st :: "(lacpd_state_machine_receive_state, 'a lacpd_lacp) state_machine_state" and s s1
  assume st: "st \<in> set (base_states (receive_machine_base p))" and inv: "wf_port p s"
    and c: "condition st s = (True, s1)"
  from receive_enter_rank [OF _ st c] inv obtain f where
    r: "rank_receive (receive_enter (st_id st) (port_mem s1 p)) < rank_receive (port_mem s p)"
    and ne: "st_id st \<noteq> LACPD_RECV_ST_LACP_DISABLED"
    and f: "s1 = upd_port p f s" "receive_frame (port_mem s p) (f (port_mem s p))" by auto
  have "receive_frame (port_mem s p) ((receive_enter (st_id st) \<circ> f) (port_mem s p))"
    using receive_frame_trans [OF f(2) receive_frame_enter] by simp
  from receive_frame_wf [where f = "receive_enter (st_id st) \<circ> f", OF inv this] ne f(1)
  have "wf_port p (upd_port p (receive_enter (st_id st)) s1)" by simp
  with r show "wf_port p (fsm_change_to_state (receive_machine_base p) (st_id st) s1) \<and>
      port_rank (port_mem (fsm_change_to_state (receive_machine_base p) (st_id st) s1) p)
        < port_rank (port_mem s p)"
    by (simp add: receive_change_to_state port_rank_receive)
next
  fix st :: "(lacpd_state_machine_receive_state, 'a lacpd_lacp) state_machine_state" and s s1
  assume st: "st \<in> set (base_states (receive_machine_base p))" and inv: "wf_port p s"
    and c: "condition st s = (False, s1)"
  from st c consider "s1 = s" | "s1 = upd_port p receive_check_message s"
    by (auto simp: receive_machine_base_def lacpd_fsm_receive_cond_to_CURRENT_def Let_def)
  then show "wf_port p s1 \<and> port_rank (port_mem s1 p) \<le> port_rank (port_mem s p)"
  proof cases
    case 1
    with inv show ?thesis by simp
  next
    case 2
    have "recv_state (m_receive (port_mem s p)) \<noteq> LACPD_RECV_ST_LACP_DISABLED"
      using inv wf_port_ok [of s p] by (simp add: port_ok_def)
    with 2 inv receive_frame_wf [where f = receive_check_message, OF inv receive_check_message_frame]
    show ?thesis by (simp add: receive_check_message_rank)
  qed
qed

end
