(* ===== verification/Lacp_Periodic.thy ===== *)
theory Lacp_Periodic
  imports Lacp_Inv
begin

text \<open>
  The periodic transmission machine of a port (qca/src/qca-lacpd/lacp/lacp_fsm.c): it asks for a
  LACPDU every second or every thirty seconds, as the partner wants.
\<close>

definition upd_periodic ::
    "(lacpd_state_machine_periodic_transmission \<Rightarrow> lacpd_state_machine_periodic_transmission) \<Rightarrow>
     lacpd_port \<Rightarrow> lacpd_port" where
  "upd_periodic f P = P\<lparr>m_periodic := f (m_periodic P)\<rparr>"

definition lacpd_fsm_periodic_transmission_timer_cb :: "port_ref \<Rightarrow> 'e lacpd_lacp \<Rightarrow> 'e lacpd_lacp" where
  "lacpd_fsm_periodic_transmission_timer_cb p s = lacpd_port_fsm_schedule_run p s"

subsection \<open>Conditions\<close>

definition lacpd_fsm_periodic_transmission_cond_to_NO_PERIODIC :: "port_ref \<Rightarrow> 'e lacpd_lacp \<Rightarrow> bool" where
  "lacpd_fsm_periodic_transmission_cond_to_NO_PERIODIC p s \<longleftrightarrow>
     (let P = port_mem s p;
          to_enter_NO_PERIODIC = (\<not> lacp_enabled P \<or> \<not> port_enabled P \<or>
            (\<not> activity (actor_state P) \<and> \<not> activity (partner_state P)))
      in periodic_state (m_periodic P) \<noteq> LACPD_PERIODIC_ST_NO_PERIODIC \<and> to_enter_NO_PERIODIC)"

definition lacpd_fsm_periodic_transmission_cond_to_FAST_PERIODIC :: "port_ref \<Rightarrow> 'e lacpd_lacp \<Rightarrow> bool" where
  "lacpd_fsm_periodic_transmission_cond_to_FAST_PERIODIC p s \<longleftrightarrow>
     (let P = port_mem s p;
          to_enter_NO_PERIODIC = (\<not> lacp_enabled P \<or> \<not> port_enabled P \<or>
            (\<not> activity (actor_state P) \<and> \<not> activity (partner_state P)));
          from_NO_PERIODIC_to_FAST_PERIODIC =
            (periodic_state (m_periodic P) = LACPD_PERIODIC_ST_NO_PERIODIC \<and> \<not> to_enter_NO_PERIODIC)
      in from_NO_PERIODIC_to_FAST_PERIODIC \<or>
         (periodic_state (m_periodic P) = LACPD_PERIODIC_ST_PERIODIC_TX \<and> timeout (partner_state P)))"

definition lacpd_fsm_periodic_transmission_cond_to_SLOW_PERIODIC :: "port_ref \<Rightarrow> 'e lacpd_lacp \<Rightarrow> bool" where
  "lacpd_fsm_periodic_transmission_cond_to_SLOW_PERIODIC p s \<longleftrightarrow>
     (let P = port_mem s p in
      (periodic_state (m_periodic P) = LACPD_PERIODIC_ST_PERIODIC_TX \<and> \<not> timeout (partner_state P)) \<or>
      (periodic_state (m_periodic P) = LACPD_PERIODIC_ST_FAST_PERIODIC \<and> \<not> timeout (partner_state P)))"

definition lacpd_fsm_periodic_transmission_cond_to_PERIODIC_TX :: "port_ref \<Rightarrow> 'e lacpd_lacp \<Rightarrow> bool" where
  "lacpd_fsm_periodic_transmission_cond_to_PERIODIC_TX p s \<longleftrightarrow>
     (let P = port_mem s p;
          from_FAST_PERIODIC_to_PERIODIC_TX =
            (periodic_state (m_periodic P) = LACPD_PERIODIC_ST_FAST_PERIODIC \<and>
             \<not> pending (periodic_timer (m_periodic P)));
          from_SLOW_PERIODIC_to_PERIODIC_TX =
            (periodic_state (m_periodic P) = LACPD_PERIODIC_ST_SLOW_PERIODIC \<and>
             (\<not> pending (periodic_timer (m_periodic P)) \<or> timeout (partner_state P)))
      in from_FAST_PERIODIC_to_PERIODIC_TX \<or> from_SLOW_PERIODIC_to_PERIODIC_TX)"

subsection \<open>Entry actions\<close>

definition lacpd_fsm_periodic_transmission_act_NO_PERIODIC_set :: "port_ref \<Rightarrow> 'e lacpd_lacp \<Rightarrow> 'e lacpd_lacp" where
  "lacpd_fsm_periodic_transmission_act_NO_PERIODIC_set p =
     upd_port p (upd_periodic (\<lambda>m. m\<lparr>periodic_timer := timer_cancel (periodic_timer m)\<rparr>))"

definition lacpd_fsm_periodic_transmission_act_FAST_PERIODIC_set :: "port_ref \<Rightarrow> 'e lacpd_lacp \<Rightarrow> 'e lacpd_lacp" where
  "lacpd_fsm_periodic_transmission_act_FAST_PERIODIC_set p =
     upd_port p (upd_periodic (\<lambda>m. m\<lparr>periodic_timer := timer_set LACP_FAST_PERIODIC_TIME (periodic_timer m)\<rparr>))"

definition lacpd_fsm_periodic_transmission_act_SLOW_PERIODIC_set :: "port_ref \<Rightarrow> 'e lacpd_lacp \<Rightarrow> 'e lacpd_lacp" where
  "lacpd_fsm_periodic_transmission_act_SLOW_PERIODIC_set p =
     upd_port p (upd_periodic (\<lambda>m. m\<lparr>periodic_timer := timer_set LACP_SLOW_PERIODIC_TIME (periodic_timer m)\<rparr>))"

definition lacpd_fsm_periodic_transmission_act_PERIODIC_TX_set :: "port_ref \<Rightarrow> 'e lacpd_lacp \<Rightarrow> 'e lacpd_lacp" where
  "lacpd_fsm_periodic_transmission_act_PERIODIC_TX_set p = upd_port p (\<lambda>P. P\<lparr>ntt := True\<rparr>)"

definition lacpd_fsm_periodic_transmission_destroy :: "port_ref \<Rightarrow> 'e lacpd_lacp \<Rightarrow> 'e lacpd_lacp" where
  "lacpd_fsm_periodic_transmission_destroy p =
     upd_port p (upd_periodic (\<lambda>m. m\<lparr>periodic_timer := timer_cancel (periodic_timer m)\<rparr>))"

subsection \<open>The table\<close>

definition periodic_transmit_machine_base ::
    "port_ref \<Rightarrow> (lacpd_state_machine_periodic_transmission_state, 'e lacpd_lacp) state_machine_base" where
  "periodic_transmit_machine_base p = \<lparr>
     base_name = ''lacp periodic transmission state machine'',
     initial_state = LACPD_PERIODIC_ST_NO_PERIODIC,
     base_states = [
       \<lparr>st_id = LACPD_PERIODIC_ST_NO_PERIODIC, st_name = ''NO_PERIODIC'',
        condition = pure_condition (lacpd_fsm_periodic_transmission_cond_to_NO_PERIODIC p),
        actions = [lacpd_fsm_periodic_transmission_act_NO_PERIODIC_set p]\<rparr>,
       \<lparr>st_id = LACPD_PERIODIC_ST_FAST_PERIODIC, st_name = ''FAST_PERIODIC'',
        condition = pure_condition (lacpd_fsm_periodic_transmission_cond_to_FAST_PERIODIC p),
        actions = [lacpd_fsm_periodic_transmission_act_FAST_PERIODIC_set p]\<rparr>,
       \<lparr>st_id = LACPD_PERIODIC_ST_SLOW_PERIODIC, st_name = ''SLOW_PERIODIC'',
        condition = pure_condition (lacpd_fsm_periodic_transmission_cond_to_SLOW_PERIODIC p),
        actions = [lacpd_fsm_periodic_transmission_act_SLOW_PERIODIC_set p]\<rparr>,
       \<lparr>st_id = LACPD_PERIODIC_ST_PERIODIC_TX, st_name = ''PERIODIC_TX'',
        condition = pure_condition (lacpd_fsm_periodic_transmission_cond_to_PERIODIC_TX p),
        actions = [lacpd_fsm_periodic_transmission_act_PERIODIC_TX_set p]\<rparr>],
     put_state = (\<lambda>q. upd_port p (upd_periodic (\<lambda>m. m\<lparr>periodic_state := q\<rparr>)))\<rparr>"

definition lacpd_fsm_periodic_transmission_new :: "'e lacp_out_api \<Rightarrow> port_ref \<Rightarrow> 'e lacpd_lacp \<Rightarrow>
    (lacpd_port_state_machines \<times>
       (lacpd_state_machine_periodic_transmission_state, 'e lacpd_lacp) state_machine_base) option
      \<times> 'e lacpd_lacp" where
  "lacpd_fsm_periodic_transmission_new api p s =
     (let (ok, s1) = call_api (os_calloc api) s in
      if \<not> ok then (None, s1)
      else (Some (LACPD_PORT_STATE_MACHINE_PERIODIC, periodic_transmit_machine_base p),
            upd_port p (upd_periodic (\<lambda>_. \<lparr>periodic_state = LACPD_PERIODIC_ST_NO_PERIODIC,
              periodic_timer = idle_timer\<rparr>)) s1))"

subsection \<open>Entering a state\<close>

lemmas periodic_act_defs =
  lacpd_fsm_periodic_transmission_act_NO_PERIODIC_set_def
  lacpd_fsm_periodic_transmission_act_FAST_PERIODIC_set_def
  lacpd_fsm_periodic_transmission_act_SLOW_PERIODIC_set_def
  lacpd_fsm_periodic_transmission_act_PERIODIC_TX_set_def

lemmas periodic_cond_defs =
  lacpd_fsm_periodic_transmission_cond_to_NO_PERIODIC_def
  lacpd_fsm_periodic_transmission_cond_to_FAST_PERIODIC_def
  lacpd_fsm_periodic_transmission_cond_to_SLOW_PERIODIC_def
  lacpd_fsm_periodic_transmission_cond_to_PERIODIC_TX_def

text \<open>Entering a state rewrites the machine's own struct and may ask for a transmission.\<close>

fun periodic_enter :: "lacpd_state_machine_periodic_transmission_state \<Rightarrow> lacpd_port \<Rightarrow> lacpd_port" where
  "periodic_enter LACPD_PERIODIC_ST_NO_PERIODIC P = upd_periodic (\<lambda>m. m\<lparr>
     periodic_state := LACPD_PERIODIC_ST_NO_PERIODIC, periodic_timer := timer_cancel (periodic_timer m)\<rparr>) P"
| "periodic_enter LACPD_PERIODIC_ST_FAST_PERIODIC P = upd_periodic (\<lambda>m. m\<lparr>
     periodic_state := LACPD_PERIODIC_ST_FAST_PERIODIC,
     periodic_timer := timer_set LACP_FAST_PERIODIC_TIME (periodic_timer m)\<rparr>) P"
| "periodic_enter LACPD_PERIODIC_ST_SLOW_PERIODIC P = upd_periodic (\<lambda>m. m\<lparr>
     periodic_state := LACPD_PERIODIC_ST_SLOW_PERIODIC,
     periodic_timer := timer_set LACP_SLOW_PERIODIC_TIME (periodic_timer m)\<rparr>) P"
| "periodic_enter LACPD_PERIODIC_ST_PERIODIC_TX P =
     (upd_periodic (\<lambda>m. m\<lparr>periodic_state := LACPD_PERIODIC_ST_PERIODIC_TX\<rparr>) P)\<lparr>ntt := True\<rparr>"

lemma periodic_change_to_state:
  "fsm_change_to_state (periodic_transmit_machine_base p) q s = upd_port p (periodic_enter q) s"
  by (cases q)
    (simp_all add: fsm_change_to_state_def entry_actions_def periodic_transmit_machine_base_def
      FSM_MAX_ACTION_def periodic_act_defs upd_port_def upd_periodic_def)

lemma periodic_enter_shape:
  obtains m n where "periodic_enter q P = P\<lparr>ntt := n, m_periodic := m\<rparr>"
proof -
  have "\<exists>m n. periodic_enter q P = P\<lparr>ntt := n, m_periodic := m\<rparr>"
    by (cases q; rule exI [where x = "m_periodic (periodic_enter q P)"];
        rule exI [where x = "ntt (periodic_enter q P)"]; simp add: upd_periodic_def)
  with that show ?thesis by blast
qed

lemma periodic_enter_wf:
  assumes "wf_port p s"
  shows "wf_port p (upd_port p (periodic_enter q) s)"
proof -
  obtain m n where e: "periodic_enter q (port_mem s p) = (port_mem s p)\<lparr>ntt := n, m_periodic := m\<rparr>"
    by (rule periodic_enter_shape)
  have "port_ok (port_mem s p)" using assms by simp
  then have "port_ok ((port_mem s p)\<lparr>ntt := n, m_periodic := m\<rparr>)"
    by (simp add: port_ok_defs)
  with assms show ?thesis by (simp add: wf_upd_port e)
qed

subsection \<open>Progress\<close>

lemma periodic_enter_rank:
  assumes "st \<in> set (base_states (periodic_transmit_machine_base p))"
    and "condition st s = (True, s1)"
  shows "s1 = s \<and> rank_periodic (periodic_enter (st_id st) (port_mem s p)) < rank_periodic (port_mem s p)"
proof -
  let ?P = "port_mem s p"
  from assms consider
      "s1 = s" "st_id st = LACPD_PERIODIC_ST_NO_PERIODIC" "lacpd_fsm_periodic_transmission_cond_to_NO_PERIODIC p s"
    | "s1 = s" "st_id st = LACPD_PERIODIC_ST_FAST_PERIODIC" "lacpd_fsm_periodic_transmission_cond_to_FAST_PERIODIC p s"
    | "s1 = s" "st_id st = LACPD_PERIODIC_ST_SLOW_PERIODIC" "lacpd_fsm_periodic_transmission_cond_to_SLOW_PERIODIC p s"
    | "s1 = s" "st_id st = LACPD_PERIODIC_ST_PERIODIC_TX" "lacpd_fsm_periodic_transmission_cond_to_PERIODIC_TX p s"
    by (auto simp: periodic_transmit_machine_base_def)
  then show ?thesis
  proof cases
    case 1
    then show ?thesis
      by (cases "periodic_state (m_periodic ?P)")
        (simp_all add: periodic_cond_defs rank_periodic_def no_periodic_def upd_periodic_def Let_def)
  next
    case 2
    then show ?thesis
      by (cases "periodic_state (m_periodic ?P)")
        (simp_all add: periodic_cond_defs rank_periodic_def no_periodic_def upd_periodic_def Let_def)
  next
    case 3
    then show ?thesis
      by (cases "periodic_state (m_periodic ?P)")
        (simp_all add: periodic_cond_defs rank_periodic_def upd_periodic_def Let_def)
  next
    case 4
    then show ?thesis
      by (cases "periodic_state (m_periodic ?P)"; cases "timeout (partner_state ?P)")
        (simp_all add: periodic_cond_defs rank_periodic_def upd_periodic_def Let_def)
  qed
qed

interpretation periodic: fsm_table "periodic_transmit_machine_base p" "wf_port p" "\<lambda>s. port_rank (port_mem s p)"
  for p :: port_ref
proof unfold_locales
  fix st :: "(lacpd_state_machine_periodic_transmission_state, 'a lacpd_lacp) state_machine_state" and s s1
  assume st: "st \<in> set (base_states (periodic_transmit_machine_base p))" and inv: "wf_port p s"
    and c: "condition st s = (True, s1)"
  note r = periodic_enter_rank [OF st c]
  obtain m n where e: "periodic_enter (st_id st) (port_mem s p) = (port_mem s p)\<lparr>ntt := n, m_periodic := m\<rparr>"
    by (rule periodic_enter_shape)
  have "port_rank (periodic_enter (st_id st) (port_mem s p)) < port_rank (port_mem s p)"
    by (rule port_rank_periodic [OF rank_receive_cong _ rank_mux_cong]) (use r e in simp_all)
  with r periodic_enter_wf [OF inv]
  show "wf_port p (fsm_change_to_state (periodic_transmit_machine_base p) (st_id st) s1) \<and>
      port_rank (port_mem (fsm_change_to_state (periodic_transmit_machine_base p) (st_id st) s1) p)
        < port_rank (port_mem s p)"
    by (simp add: periodic_change_to_state)
next
  fix st :: "(lacpd_state_machine_periodic_transmission_state, 'a lacpd_lacp) state_machine_state" and s s1
  assume "st \<in> set (base_states (periodic_transmit_machine_base p))" and "wf_port p s"
    and "condition st s = (False, s1)"
  then show "wf_port p s1 \<and> port_rank (port_mem s1 p) \<le> port_rank (port_mem s p)"
    by (auto simp: periodic_transmit_machine_base_def)
qed

end
