(* ===== verification/Lacp_Selection.thy ===== *)
theory Lacp_Selection
  imports Lacp_Inv
begin

text \<open>
  The selection logic of a port (qca/src/qca-lacpd/lacp/lacp_fsm.c): it puts the port on the
  aggregator of its link partner, or on a free one, and takes it off again.
\<close>

definition upd_select ::
    "(lacpd_state_machine_selection_logic \<Rightarrow> lacpd_state_machine_selection_logic) \<Rightarrow>
     lacpd_port \<Rightarrow> lacpd_port" where
  "upd_select f P = P\<lparr>m_select := f (m_select P)\<rparr>"

definition lacpd_fsm_select_aggregator_by_port :: "lacpd_port \<Rightarrow> lacpd_aggregator \<Rightarrow> bool" where
  "lacpd_fsm_select_aggregator_by_port P A \<longleftrightarrow>
     \<not> is_free A \<and> \<not> individual_aggregator A \<and>
     info_key (actor_port_info P) = actor_oper_aggregator_key A \<and>
     info_system_priority (partner_port_info P) = partner_system_priority A \<and>
     mac_addr_euqal (info_system (partner_port_info P)) (partner_system A) \<and>
     info_key (partner_port_info P) = partner_oper_aggregator_key A"

subsection \<open>Conditions\<close>

definition lacpd_fsm_selection_logic_cond_to_UNSELECTED :: "port_ref \<Rightarrow> 'e lacpd_lacp \<Rightarrow> bool" where
  "lacpd_fsm_selection_logic_cond_to_UNSELECTED p s \<longleftrightarrow>
     (let P = port_mem s p in
      select_state (m_select P) = LACPD_SELECT_LOGIC_ST_SELECTED \<and>
      selected P \<noteq> LACPD_SEL_STATE_SELECTED)"

definition lacpd_fsm_selection_logic_cond_to_SELECTED :: "port_ref \<Rightarrow> 'e lacpd_lacp \<Rightarrow> bool" where
  "lacpd_fsm_selection_logic_cond_to_SELECTED p s \<longleftrightarrow>
     (let P = port_mem s p in
      case lacpd_port_state_machine_get P LACPD_PORT_STATE_MACHINE_MUX of
        None \<Rightarrow> False
      | Some mux_st \<Rightarrow>
          select_state (m_select P) = LACPD_SELECT_LOGIC_ST_UNSELECTED \<and>
          mux_state (m_mux P) = LACPD_MUX_ST_DETACHED)"

subsection \<open>Entry actions\<close>

definition lacpd_fsm_selection_logic_act_remove_from_aggregator ::
    "port_ref \<Rightarrow> 'e lacpd_lacp \<Rightarrow> 'e lacpd_lacp" where
  "lacpd_fsm_selection_logic_act_remove_from_aggregator p s =
     (let i = actor_port_aggregator_identifier (port_mem s p) in
      if i = 0 then s
      else
        let s1 = (case lacpd_aggregator_lookup s (lacpd_aggregator_selector_by_id i) of
                    None \<Rightarrow> s
                  | Some selected_agg \<Rightarrow> snd (lacpd_aggregator_del_port selected_agg p s))
        in upd_port p (\<lambda>P. P\<lparr>actor_port_aggregator_identifier := 0\<rparr>) s1)"

definition aggregator_for_port :: "'e lacpd_lacp \<Rightarrow> port_ref \<Rightarrow> agg_ref option" where
  "aggregator_for_port s p =
     (let P = port_mem s p;
          selected_agg =
            (if aggregation (actor_state P) \<and> \<not> mac_addr_is_empty (info_system (partner_port_info P)) \<and>
                aggregation (partner_state P)
             then lacpd_aggregator_lookup s (lacpd_fsm_select_aggregator_by_port P) else None)
      in case selected_agg of
           Some a \<Rightarrow> Some a
         | None \<Rightarrow> lacpd_aggregator_lookup s lacpd_aggregator_selector_by_free)"

definition lacpd_fsm_selection_logic_act_add_to_aggregator ::
    "port_ref \<Rightarrow> 'e lacpd_lacp \<Rightarrow> 'e lacpd_lacp" where
  "lacpd_fsm_selection_logic_act_add_to_aggregator p s =
     (case aggregator_for_port s p of
        None \<Rightarrow> s
      | Some selected_agg \<Rightarrow>
          let (ok, s1) = lacpd_aggregator_add_port selected_agg p s in
          if ok
          then upd_port p (\<lambda>P. P\<lparr>
                 actor_port_aggregator_identifier := aggregator_identifier (agg_mem s1 selected_agg),
                 selected := LACPD_SEL_STATE_SELECTED\<rparr>) s1
          else s1)"

text \<open>The selection machine owns no timer: destroying it only frees its struct.\<close>

definition lacpd_fsm_selection_logic_destroy :: "port_ref \<Rightarrow> 'e lacpd_lacp \<Rightarrow> 'e lacpd_lacp" where
  "lacpd_fsm_selection_logic_destroy p s = s"

subsection \<open>The table\<close>

definition selection_machine_base ::
    "port_ref \<Rightarrow> (lacpd_state_machine_selection_logic_state, 'e lacpd_lacp) state_machine_base" where
  "selection_machine_base p = \<lparr>
     base_name = ''lacp selection logic state machine'',
     initial_state = LACPD_SELECT_LOGIC_ST_UNSELECTED,
     base_states = [
       \<lparr>st_id = LACPD_SELECT_LOGIC_ST_UNSELECTED, st_name = ''UNSELECTED'',
        condition = pure_condition (lacpd_fsm_selection_logic_cond_to_UNSELECTED p),
        actions = [lacpd_fsm_selection_logic_act_remove_from_aggregator p]\<rparr>,
       \<lparr>st_id = LACPD_SELECT_LOGIC_ST_SELECTED, st_name = ''SELECTED'',
        condition = pure_condition (lacpd_fsm_selection_logic_cond_to_SELECTED p),
        actions = [lacpd_fsm_selection_logic_act_add_to_aggregator p]\<rparr>],
     put_state = (\<lambda>q. upd_port p (upd_select (\<lambda>m. m\<lparr>select_state := q\<rparr>)))\<rparr>"

definition lacpd_fsm_selection_logic_new :: "'e lacp_out_api \<Rightarrow> port_ref \<Rightarrow> 'e lacpd_lacp \<Rightarrow>
    (lacpd_port_state_machines \<times>
       (lacpd_state_machine_selection_logic_state, 'e lacpd_lacp) state_machine_base) option
      \<times> 'e lacpd_lacp" where
  "lacpd_fsm_selection_logic_new api p s =
     (let (ok, s1) = call_api (os_calloc api) s in
      if \<not> ok then (None, s1)
      else (Some (LACPD_PORT_STATE_MACHINE_SELECT, selection_machine_base p),
            upd_port p (upd_select (\<lambda>_. \<lparr>select_state = LACPD_SELECT_LOGIC_ST_UNSELECTED\<rparr>)) s1))"

subsection \<open>Entering UNSELECTED\<close>

lemma selection_enter_UNSELECTED:
  "fsm_change_to_state (selection_machine_base p) LACPD_SELECT_LOGIC_ST_UNSELECTED s =
   lacpd_fsm_selection_logic_act_remove_from_aggregator p
     (upd_port p (upd_select (\<lambda>m. m\<lparr>select_state := LACPD_SELECT_LOGIC_ST_UNSELECTED\<rparr>)) s)"
  by (simp add: fsm_change_to_state_def entry_actions_def selection_machine_base_def FSM_MAX_ACTION_def)

lemma selection_enter_SELECTED:
  "fsm_change_to_state (selection_machine_base p) LACPD_SELECT_LOGIC_ST_SELECTED s =
   lacpd_fsm_selection_logic_act_add_to_aggregator p
     (upd_port p (upd_select (\<lambda>m. m\<lparr>select_state := LACPD_SELECT_LOGIC_ST_SELECTED\<rparr>)) s)"
  by (simp add: fsm_change_to_state_def entry_actions_def selection_machine_base_def FSM_MAX_ACTION_def)

text \<open>The port after it has left its aggregator, and after it has joined one.\<close>

definition port_removed :: "lacpd_port \<Rightarrow> lacpd_port" where
  "port_removed P = P\<lparr>m_select := \<lparr>select_state = LACPD_SELECT_LOGIC_ST_UNSELECTED\<rparr>,
     actor_port_aggregator_identifier := 0\<rparr>"

definition port_added :: "u32 \<Rightarrow> lacpd_port \<Rightarrow> lacpd_port" where
  "port_added i P = P\<lparr>m_select := \<lparr>select_state = LACPD_SELECT_LOGIC_ST_SELECTED\<rparr>,
     actor_port_aggregator_identifier := i, selected := LACPD_SEL_STATE_SELECTED\<rparr>"

lemma m_select_update: "(m::lacpd_state_machine_selection_logic)\<lparr>select_state := q\<rparr> = \<lparr>select_state = q\<rparr>"
  by (cases m) simp

lemma lookup_upd_port [simp]:
  "lacpd_aggregator_lookup (upd_port p f s) sel = lacpd_aggregator_lookup s sel"
  by (simp add: lacpd_aggregator_lookup_def)

lemma no_aggregator_update:
  "actor_port_aggregator_identifier P = 0 \<Longrightarrow>
   P\<lparr>m_select := m, actor_port_aggregator_identifier := 0\<rparr> = P\<lparr>m_select := m\<rparr>"
  by (cases P) simp

lemma selection_remove:
  assumes "wf_port p s" and "selected (port_mem s p) \<noteq> LACPD_SEL_STATE_SELECTED"
  defines "t \<equiv> fsm_change_to_state (selection_machine_base p) LACPD_SELECT_LOGIC_ST_UNSELECTED s"
  shows "port_mem t = (port_mem s)(p := port_removed (port_mem s p))"
    and "wf_port p t"
proof -
  let ?P = "port_mem s p"
  have ok: "port_ok ?P" using assms(1) by simp
  have ok': "port_ok (port_removed ?P)"
    using ok assms(2) by (simp add: port_ok_defs port_removed_def)
  have "port_mem t = (port_mem s)(p := port_removed ?P) \<and> wf_port p t"
  proof (cases "actor_port_aggregator_identifier ?P = 0")
    case True
    have e: "upd_select (\<lambda>m. m\<lparr>select_state := LACPD_SELECT_LOGIC_ST_UNSELECTED\<rparr>) ?P = port_removed ?P"
      using no_aggregator_update [OF True] by (simp add: upd_select_def port_removed_def m_select_update)
    have "t = upd_port p (upd_select (\<lambda>m. m\<lparr>select_state := LACPD_SELECT_LOGIC_ST_UNSELECTED\<rparr>)) s"
      using True by (simp add: t_def selection_enter_UNSELECTED upd_select_def
          lacpd_fsm_selection_logic_act_remove_from_aggregator_def)
    also have "\<dots> = upd_port p port_removed s"
      by (rule upd_port_cong) (rule e)
    finally have t: "t = upd_port p port_removed s" .
    with assms(1) ok' True show ?thesis
      by (simp add: wf_upd_port port_removed_def)
  next
    case False
    obtain a where a: "a \<in> set (aggregators s)"
      "aggregator_identifier (agg_mem s a) = actor_port_aggregator_identifier ?P"
      "lacpd_aggregator_lookup s (lacpd_aggregator_selector_by_id (actor_port_aggregator_identifier ?P)) = Some a"
      "p \<in> set (agg_ports (agg_mem s a))"
      by (rule lookup_own_aggregator [OF assms(1) False])
    let ?s1 = "upd_port p (upd_select (\<lambda>m. m\<lparr>select_state := LACPD_SELECT_LOGIC_ST_UNSELECTED\<rparr>)) s"
    have t: "t = upd_port p (\<lambda>P. P\<lparr>actor_port_aggregator_identifier := 0\<rparr>)
        (snd (lacpd_aggregator_del_port a p ?s1))"
      using False a(3) by (simp add: t_def selection_enter_UNSELECTED upd_select_def
          lacpd_fsm_selection_logic_act_remove_from_aggregator_def)
    have d: "distinct (agg_ports (agg_mem s a))"
      using a(1) assms(1) by (auto simp: lacp_wf_def agg_ok_def)
    have nf: "\<not> is_free (agg_mem s a)"
      using a(1,4) assms(1) by (auto simp: lacp_wf_def agg_ok_def)
    have last: "set (agg_ports (agg_mem s a)) \<subseteq> {p}" if "list_del p (agg_ports (agg_mem s a)) = []"
      using set_list_del [OF d, of p] that by auto
    have del: "p \<in> set (agg_ports (agg_mem ?s1 a))" using a(4) by simp
    have pm: "port_mem t = (port_mem s)(p := port_removed ?P)"
      unfolding t del_port_result [OF del] by (simp add: upd_select_def port_removed_def m_select_update)
    have "lacp_wf t"
    proof (rule wf_change_member [OF assms(1) a(1), where P' = "port_removed ?P" and A' = "agg_mem t a"])
      show "port_mem t = (port_mem s)(p := port_removed ?P)" by (rule pm)
    qed (use a d ok' nf last in \<open>simp_all add: t del_port_result [OF del] port_removed_def Let_def
          lacpd_aggregator_clear_def fun_upd_def\<close>)
    moreover have "ports t = ports s" by (simp add: t del_port_result [OF del])
    ultimately show ?thesis using pm assms(1) by simp
  qed
  then show "port_mem t = (port_mem s)(p := port_removed ?P)" "wf_port p t" by simp_all
qed

subsection \<open>Entering SELECTED\<close>

text \<open>
  Every branch of the selection finds an aggregator the port is not on yet: one of the same
  partner, or a free one.
\<close>

lemma aggregator_for_port_exists:
  assumes "wf_port p s" and "actor_port_aggregator_identifier (port_mem s p) = 0"
  obtains a where "aggregator_for_port s p = Some a" "a \<in> set (aggregators s)"
    "p \<notin> set (agg_ports (agg_mem s a))"
    "agg_ports (agg_mem s a) = [] \<or> lacpd_fsm_select_aggregator_by_port (port_mem s p) (agg_mem s a)"
proof -
  obtain b where b: "lacpd_aggregator_lookup s lacpd_aggregator_selector_by_free = Some b"
    "b \<in> set (aggregators s)" "agg_ports (agg_mem s b) = []"
    by (rule free_aggregator_exists [OF assms])
  then have "\<exists>a. aggregator_for_port s p = Some a \<and> a \<in> set (aggregators s) \<and>
      (agg_ports (agg_mem s a) = [] \<or> lacpd_fsm_select_aggregator_by_port (port_mem s p) (agg_mem s a))"
    by (auto simp: aggregator_for_port_def Let_def dest: lookup_Some split: option.splits)
  then obtain a where a: "aggregator_for_port s p = Some a" "a \<in> set (aggregators s)"
    "agg_ports (agg_mem s a) = [] \<or> lacpd_fsm_select_aggregator_by_port (port_mem s p) (agg_mem s a)"
    by blast
  moreover have "p \<notin> set (agg_ports (agg_mem s a))"
    using a(2) assms by (auto simp: lacp_wf_def agg_ok_def)
  ultimately show ?thesis using that by blast
qed

lemma aggregator_for_port_cong:
  assumes "actor_port_info (f (port_mem s p)) = actor_port_info (port_mem s p)"
    and "partner_port_info (f (port_mem s p)) = partner_port_info (port_mem s p)"
  shows "aggregator_for_port (upd_port p f s) p = aggregator_for_port s p"
proof -
  have "lacpd_fsm_select_aggregator_by_port (f (port_mem s p)) =
      lacpd_fsm_select_aggregator_by_port (port_mem s p)"
    using assms by (intro ext) (simp add: lacpd_fsm_select_aggregator_by_port_def)
  with assms show ?thesis
    unfolding aggregator_for_port_def Let_def
    by (simp only: lookup_upd_port upd_port_simps fun_upd_same)
qed

lemma selection_add:
  assumes "wf_port p s" and "select_state (m_select (port_mem s p)) = LACPD_SELECT_LOGIC_ST_UNSELECTED"
    and "mux_state (m_mux (port_mem s p)) = LACPD_MUX_ST_DETACHED"
  defines "t \<equiv> fsm_change_to_state (selection_machine_base p) LACPD_SELECT_LOGIC_ST_SELECTED s"
  obtains a where "aggregator_for_port s p = Some a" "a \<in> set (aggregators s)"
    "agg_ports (agg_mem s a) = [] \<or> lacpd_fsm_select_aggregator_by_port (port_mem s p) (agg_mem s a)"
    "port_mem t = (port_mem s)(p := port_added (aggregator_identifier (agg_mem s a)) (port_mem s p))"
    "agg_ports (agg_mem t a) = list_add_tail p (agg_ports (agg_mem s a))"
    "wf_port p t"
proof -
  let ?P = "port_mem s p"
  have ok: "port_ok ?P" using assms(1) by simp
  then have nz: "actor_port_aggregator_identifier ?P = 0"
    using assms(2) by (simp add: port_ok_defs)
  obtain a where a: "aggregator_for_port s p = Some a" "a \<in> set (aggregators s)"
    "p \<notin> set (agg_ports (agg_mem s a))"
    "agg_ports (agg_mem s a) = [] \<or> lacpd_fsm_select_aggregator_by_port ?P (agg_mem s a)"
    by (rule aggregator_for_port_exists [OF assms(1) nz])
  let ?i = "aggregator_identifier (agg_mem s a)"
  let ?s1 = "upd_port p (upd_select (\<lambda>m. m\<lparr>select_state := LACPD_SELECT_LOGIC_ST_SELECTED\<rparr>)) s"
  have agg: "agg_ok s a" using a(2) assms(1) by (simp add: lacp_wf_def)
  have ok': "port_ok (port_added ?i ?P)"
    using ok assms(3) agg by (simp add: port_ok_defs port_added_def agg_ok_def)
  have new: "p \<notin> set (agg_ports (agg_mem ?s1 a))" using a(3) by simp
  have sel: "aggregator_for_port ?s1 p = Some a"
    using a(1) by (simp add: aggregator_for_port_cong upd_select_def)
  have t: "t = upd_port p (\<lambda>P. P\<lparr>actor_port_aggregator_identifier := ?i, selected := LACPD_SEL_STATE_SELECTED\<rparr>)
      (snd (lacpd_aggregator_add_port a p ?s1))"
    using sel by (simp add: t_def selection_enter_SELECTED add_port_result [OF new] Let_def
        lacpd_fsm_selection_logic_act_add_to_aggregator_def lacpd_aggregator_init_by_port_def)
  have pm: "port_mem t = (port_mem s)(p := port_added ?i ?P)"
    unfolding t add_port_result [OF new] by (simp add: upd_select_def port_added_def m_select_update)
  have ap: "agg_ports (agg_mem t a) = list_add_tail p (agg_ports (agg_mem s a))"
    by (simp add: t add_port_result [OF new] Let_def lacpd_aggregator_init_by_port_def)
  have "lacp_wf t"
  proof (rule wf_change_member [OF assms(1) a(2), where P' = "port_added ?i ?P" and A' = "agg_mem t a"])
    show "port_mem t = (port_mem s)(p := port_added ?i ?P)" by (rule pm)
  qed (use a agg nz ok' in \<open>auto simp: t add_port_result [OF new] port_added_def Let_def agg_ok_def
        lacpd_aggregator_init_by_port_def\<close>)
  moreover have "ports t = ports s" by (simp add: t add_port_result [OF new])
  ultimately show ?thesis using that a pm ap assms(1) by simp
qed

subsection \<open>Progress\<close>

lemma port_removed_rank:
  assumes "select_state (m_select P) = LACPD_SELECT_LOGIC_ST_SELECTED"
    and "selected P \<noteq> LACPD_SEL_STATE_SELECTED"
  shows "port_rank (port_removed P) < port_rank P"
proof (rule port_rank_mux [OF rank_receive_cong rank_periodic_cong])
  show "rank_mux (port_removed P) < rank_mux P"
    using assms by (simp add: rank_mux_def port_removed_def)
qed (simp_all add: port_removed_def)

lemma port_added_rank:
  assumes "select_state (m_select P) = LACPD_SELECT_LOGIC_ST_UNSELECTED" and "port_ok P"
    and "mux_state (m_mux P) = LACPD_MUX_ST_DETACHED"
  shows "port_rank (port_added i P) < port_rank P"
proof (rule port_rank_mux [OF rank_receive_cong rank_periodic_cong])
  have "selected P \<noteq> LACPD_SEL_STATE_SELECTED" using assms by (auto simp: port_ok_defs)
  then show "rank_mux (port_added i P) < rank_mux P"
    using assms by (simp add: rank_mux_def port_added_def)
qed (simp_all add: port_added_def)

interpretation selection: fsm_table "selection_machine_base p" "wf_port p" "\<lambda>s. port_rank (port_mem s p)"
  for p :: port_ref
proof unfold_locales
  fix st :: "(lacpd_state_machine_selection_logic_state, 'a lacpd_lacp) state_machine_state" and s s1
  assume st: "st \<in> set (base_states (selection_machine_base p))" and inv: "wf_port p s"
    and c: "condition st s = (True, s1)"
  have ok: "port_ok (port_mem s p)" using inv by simp
  from st c consider
      "s1 = s" "st_id st = LACPD_SELECT_LOGIC_ST_UNSELECTED" "lacpd_fsm_selection_logic_cond_to_UNSELECTED p s"
    | "s1 = s" "st_id st = LACPD_SELECT_LOGIC_ST_SELECTED" "lacpd_fsm_selection_logic_cond_to_SELECTED p s"
    by (auto simp: selection_machine_base_def)
  then show "wf_port p (fsm_change_to_state (selection_machine_base p) (st_id st) s1) \<and>
      port_rank (port_mem (fsm_change_to_state (selection_machine_base p) (st_id st) s1) p)
        < port_rank (port_mem s p)"
  proof cases
    case 1
    then have "select_state (m_select (port_mem s p)) = LACPD_SELECT_LOGIC_ST_SELECTED"
      "selected (port_mem s p) \<noteq> LACPD_SEL_STATE_SELECTED"
      by (simp_all add: lacpd_fsm_selection_logic_cond_to_UNSELECTED_def Let_def)
    with 1 selection_remove [OF inv] port_removed_rank show ?thesis by simp
  next
    case 2
    then have d: "select_state (m_select (port_mem s p)) = LACPD_SELECT_LOGIC_ST_UNSELECTED"
      "mux_state (m_mux (port_mem s p)) = LACPD_MUX_ST_DETACHED"
      using ok by (simp_all add: lacpd_fsm_selection_logic_cond_to_SELECTED_def Let_def)
    from selection_add [OF inv d] port_added_rank [OF d(1) ok d(2)] 2 show ?thesis
      by (metis fun_upd_same)
  qed
next
  fix st :: "(lacpd_state_machine_selection_logic_state, 'a lacpd_lacp) state_machine_state" and s s1
  assume "st \<in> set (base_states (selection_machine_base p))" and "wf_port p s"
    and "condition st s = (False, s1)"
  then show "wf_port p s1 \<and> port_rank (port_mem s1 p) \<le> port_rank (port_mem s p)"
    by (auto simp: selection_machine_base_def)
qed

end
