(* ===== verification/Lacp_Mux.thy ===== *)
theory Lacp_Mux
  imports Lacp_Inv
begin

text \<open>
  The mux machine of a port (qca/src/qca-lacpd/lacp/lacp_fsm.c): it waits until the port's
  aggregator is ready, advertises that the port is in sync, and enslaves the port's device when
  the partner is in sync too.
\<close>

definition upd_mux :: "(lacpd_state_machine_mux \<Rightarrow> lacpd_state_machine_mux) \<Rightarrow> lacpd_port \<Rightarrow> lacpd_port" where
  "upd_mux f P = P\<lparr>m_mux := f (m_mux P)\<rparr>"

definition lacpd_fsm_select_aggregator_by_slave_dev ::
    "'e lacp_out_api \<Rightarrow> 'e \<Rightarrow> u32 \<Rightarrow> lacpd_aggregator \<Rightarrow> bool" where
  "lacpd_fsm_select_aggregator_by_slave_dev api e ifindex A =
     (if agg_dev_ifindex A = 0 \<or> ifindex = 0 then False else is_slave api e ifindex (agg_dev_ifindex A))"

definition lacpd_fsm_mux_wait_while_timer_cb :: "port_ref \<Rightarrow> 'e lacpd_lacp \<Rightarrow> 'e lacpd_lacp" where
  "lacpd_fsm_mux_wait_while_timer_cb p s =
     (let P = port_mem s p in
      if mux_state (m_mux P) \<noteq> LACPD_MUX_ST_WAITING then s
      else case lacpd_aggregator_lookup s
                  (lacpd_aggregator_selector_by_id (actor_port_aggregator_identifier P)) of
             None \<Rightarrow> s
           | Some selected_agg \<Rightarrow>
               lacpd_port_fsm_schedule_run p
                 (lacpd_aggregator_update_ready selected_agg (upd_port p (\<lambda>P. P\<lparr>ready_N := True\<rparr>) s)))"

subsection \<open>Conditions\<close>

definition lacpd_fsm_mux_cond_to_DETACHED :: "port_ref \<Rightarrow> 'e lacpd_lacp \<Rightarrow> bool" where
  "lacpd_fsm_mux_cond_to_DETACHED p s \<longleftrightarrow>
     (let P = port_mem s p in
      (mux_state (m_mux P) = LACPD_MUX_ST_WAITING \<or> mux_state (m_mux P) = LACPD_MUX_ST_ATTACHED) \<and>
      selected P = LACPD_SEL_STATE_UNSELECTED)"

definition lacpd_fsm_mux_cond_to_WAITING :: "port_ref \<Rightarrow> 'e lacpd_lacp \<Rightarrow> bool" where
  "lacpd_fsm_mux_cond_to_WAITING p s \<longleftrightarrow>
     (let P = port_mem s p in
      mux_state (m_mux P) = LACPD_MUX_ST_DETACHED \<and> selected P = LACPD_SEL_STATE_SELECTED)"

definition lacpd_fsm_mux_cond_to_ATTACHED :: "port_ref \<Rightarrow> 'e lacpd_lacp \<Rightarrow> bool" where
  "lacpd_fsm_mux_cond_to_ATTACHED p s \<longleftrightarrow>
     (let P = port_mem s p;
          from_WAITING_to_ATTACHED =
            (case lacpd_aggregator_lookup s
                    (lacpd_aggregator_selector_by_id (actor_port_aggregator_identifier P)) of
               None \<Rightarrow> False
             | Some selected_agg \<Rightarrow>
                 mux_state (m_mux P) = LACPD_MUX_ST_WAITING \<and>
                 selected P = LACPD_SEL_STATE_SELECTED \<and> ready (agg_mem s selected_agg));
          from_COLLECTING_DISTRIBUTING_to_ATTACHED =
            (mux_state (m_mux P) = LACPD_MUX_ST_COLLECTING_DISTRIBUTING \<and>
             (selected P = LACPD_SEL_STATE_UNSELECTED \<or> \<not> synchronization (partner_state P)))
      in from_WAITING_to_ATTACHED \<or> from_COLLECTING_DISTRIBUTING_to_ATTACHED)"

definition lacpd_fsm_mux_cond_to_COLLECTING_DISTRIBUTING :: "port_ref \<Rightarrow> 'e lacpd_lacp \<Rightarrow> bool" where
  "lacpd_fsm_mux_cond_to_COLLECTING_DISTRIBUTING p s \<longleftrightarrow>
     (let P = port_mem s p in
      mux_state (m_mux P) = LACPD_MUX_ST_ATTACHED \<and> selected P = LACPD_SEL_STATE_SELECTED \<and>
      synchronization (partner_state P))"

subsection \<open>Entry actions\<close>

definition lacpd_fsm_mux_act_detach_mux_from_aggregator :: "port_ref \<Rightarrow> 'e lacpd_lacp \<Rightarrow> 'e lacpd_lacp" where
  "lacpd_fsm_mux_act_detach_mux_from_aggregator p s = s"

definition lacpd_fsm_mux_act_disable_collecting_distributing ::
    "'e lacp_out_api \<Rightarrow> port_ref \<Rightarrow> 'e lacpd_lacp \<Rightarrow> 'e lacpd_lacp" where
  "lacpd_fsm_mux_act_disable_collecting_distributing api p s =
     (case lacpd_aggregator_lookup s
             (lacpd_fsm_select_aggregator_by_slave_dev api (env s) (dev_ifindex (port_mem s p))) of
        None \<Rightarrow> s
      | Some selected_agg \<Rightarrow> snd (lacpd_aggregator_detach_port api selected_agg p s))"

definition lacpd_fsm_mux_act_DETACHED_set :: "port_ref \<Rightarrow> 'e lacpd_lacp \<Rightarrow> 'e lacpd_lacp" where
  "lacpd_fsm_mux_act_DETACHED_set p = upd_port p (\<lambda>P.
     upd_mux (\<lambda>m. m\<lparr>wait_while_timer := timer_cancel (wait_while_timer m)\<rparr>)
       ((upd_actor_state (\<lambda>st. st\<lparr>synchronization := False, collecting := False, distributing := False\<rparr>) P)
         \<lparr>ntt := True, ready_N := False\<rparr>))"

definition lacpd_fsm_mux_act_WAITING_set :: "port_ref \<Rightarrow> 'e lacpd_lacp \<Rightarrow> 'e lacpd_lacp" where
  "lacpd_fsm_mux_act_WAITING_set p =
     upd_port p (upd_mux (\<lambda>m. m\<lparr>wait_while_timer := timer_set LACP_AGGREGATE_WAIT_TIME (wait_while_timer m)\<rparr>))"

definition lacpd_fsm_mux_act_attach_mux_to_aggregator :: "port_ref \<Rightarrow> 'e lacpd_lacp \<Rightarrow> 'e lacpd_lacp" where
  "lacpd_fsm_mux_act_attach_mux_to_aggregator p s = s"

definition lacpd_fsm_mux_act_ATTACHED_set :: "port_ref \<Rightarrow> 'e lacpd_lacp \<Rightarrow> 'e lacpd_lacp" where
  "lacpd_fsm_mux_act_ATTACHED_set p = upd_port p (\<lambda>P.
     (upd_actor_state (\<lambda>st. st\<lparr>synchronization := True, collecting := False, distributing := False\<rparr>) P)
       \<lparr>ntt := True\<rparr>)"

definition lacpd_fsm_mux_act_enable_collecting_distributing ::
    "'e lacp_out_api \<Rightarrow> port_ref \<Rightarrow> 'e lacpd_lacp \<Rightarrow> 'e lacpd_lacp" where
  "lacpd_fsm_mux_act_enable_collecting_distributing api p s =
     (case lacpd_aggregator_lookup s
             (lacpd_aggregator_selector_by_id (actor_port_aggregator_identifier (port_mem s p))) of
        None \<Rightarrow> s
      | Some selected_agg \<Rightarrow> snd (lacpd_aggregator_attach_port api selected_agg p s))"

definition lacpd_fsm_mux_act_COLLECTING_DISTRIBUTING_set :: "port_ref \<Rightarrow> 'e lacpd_lacp \<Rightarrow> 'e lacpd_lacp" where
  "lacpd_fsm_mux_act_COLLECTING_DISTRIBUTING_set p = upd_port p (\<lambda>P.
     (upd_actor_state (\<lambda>st. st\<lparr>collecting := True, distributing := True\<rparr>) P)\<lparr>ntt := True\<rparr>)"

definition lacpd_fsm_mux_destroy :: "port_ref \<Rightarrow> 'e lacpd_lacp \<Rightarrow> 'e lacpd_lacp" where
  "lacpd_fsm_mux_destroy p =
     upd_port p (upd_mux (\<lambda>m. m\<lparr>wait_while_timer := timer_cancel (wait_while_timer m)\<rparr>))"

subsection \<open>The table\<close>

definition mux_machine_base ::
    "'e lacp_out_api \<Rightarrow> port_ref \<Rightarrow> (lacpd_state_machine_mux_state, 'e lacpd_lacp) state_machine_base" where
  "mux_machine_base api p = \<lparr>
     base_name = ''lacp mux state machine'',
     initial_state = LACPD_MUX_ST_DETACHED,
     base_states = [
       \<lparr>st_id = LACPD_MUX_ST_DETACHED, st_name = ''DETACHED'',
        condition = pure_condition (lacpd_fsm_mux_cond_to_DETACHED p),
        actions = [lacpd_fsm_mux_act_detach_mux_from_aggregator p,
          lacpd_fsm_mux_act_disable_collecting_distributing api p, lacpd_fsm_mux_act_DETACHED_set p]\<rparr>,
       \<lparr>st_id = LACPD_MUX_ST_WAITING, st_name = ''WAITING'',
        condition = pure_condition (lacpd_fsm_mux_cond_to_WAITING p),
        actions = [lacpd_fsm_mux_act_WAITING_set p]\<rparr>,
       \<lparr>st_id = LACPD_MUX_ST_ATTACHED, st_name = ''ATTACHED'',
        condition = pure_condition (lacpd_fsm_mux_cond_to_ATTACHED p),
        actions = [lacpd_fsm_mux_act_attach_mux_to_aggregator p,
          lacpd_fsm_mux_act_disable_collecting_distributing api p, lacpd_fsm_mux_act_ATTACHED_set p]\<rparr>,
       \<lparr>st_id = LACPD_MUX_ST_COLLECTING_DISTRIBUTING, st_name = ''COLLECTING_DISTRIBUTING'',
        condition = pure_condition (lacpd_fsm_mux_cond_to_COLLECTING_DISTRIBUTING p),
        actions = [lacpd_fsm_mux_act_enable_collecting_distributing api p,
          lacpd_fsm_mux_act_COLLECTING_DISTRIBUTING_set p]\<rparr>],
     put_state = (\<lambda>q. upd_port p (upd_mux (\<lambda>m. m\<lparr>mux_state := q\<rparr>)))\<rparr>"

definition lacpd_fsm_mux_new :: "'e lacp_out_api \<Rightarrow> port_ref \<Rightarrow> 'e lacpd_lacp \<Rightarrow>
    (lacpd_port_state_machines \<times> (lacpd_state_machine_mux_state, 'e lacpd_lacp) state_machine_base) option
      \<times> 'e lacpd_lacp" where
  "lacpd_fsm_mux_new api p s =
     (let (ok, s1) = call_api (os_calloc api) s in
      if \<not> ok then (None, s1)
      else (Some (LACPD_PORT_STATE_MACHINE_MUX, mux_machine_base api p),
            upd_port p (upd_mux (\<lambda>_. \<lparr>mux_state = LACPD_MUX_ST_DETACHED, wait_while_timer = idle_timer\<rparr>)) s1))"

subsection \<open>Entering a state\<close>

lemmas mux_act_defs =
  lacpd_fsm_mux_act_detach_mux_from_aggregator_def lacpd_fsm_mux_act_DETACHED_set_def
  lacpd_fsm_mux_act_WAITING_set_def lacpd_fsm_mux_act_attach_mux_to_aggregator_def
  lacpd_fsm_mux_act_ATTACHED_set_def lacpd_fsm_mux_act_COLLECTING_DISTRIBUTING_set_def

lemmas mux_cond_defs =
  lacpd_fsm_mux_cond_to_DETACHED_def lacpd_fsm_mux_cond_to_WAITING_def
  lacpd_fsm_mux_cond_to_ATTACHED_def lacpd_fsm_mux_cond_to_COLLECTING_DISTRIBUTING_def

fun mux_enter :: "lacpd_state_machine_mux_state \<Rightarrow> lacpd_port \<Rightarrow> lacpd_port" where
  "mux_enter LACPD_MUX_ST_DETACHED P =
     (upd_actor_state (\<lambda>st. st\<lparr>synchronization := False, collecting := False, distributing := False\<rparr>)
       (upd_mux (\<lambda>m. m\<lparr>mux_state := LACPD_MUX_ST_DETACHED,
          wait_while_timer := timer_cancel (wait_while_timer m)\<rparr>) P))\<lparr>ntt := True, ready_N := False\<rparr>"
| "mux_enter LACPD_MUX_ST_WAITING P =
     upd_mux (\<lambda>m. m\<lparr>mux_state := LACPD_MUX_ST_WAITING,
       wait_while_timer := timer_set LACP_AGGREGATE_WAIT_TIME (wait_while_timer m)\<rparr>) P"
| "mux_enter LACPD_MUX_ST_ATTACHED P =
     (upd_actor_state (\<lambda>st. st\<lparr>synchronization := True, collecting := False, distributing := False\<rparr>)
       (upd_mux (\<lambda>m. m\<lparr>mux_state := LACPD_MUX_ST_ATTACHED\<rparr>) P))\<lparr>ntt := True\<rparr>"
| "mux_enter LACPD_MUX_ST_COLLECTING_DISTRIBUTING P =
     (upd_actor_state (\<lambda>st. st\<lparr>collecting := True, distributing := True\<rparr>)
       (upd_mux (\<lambda>m. m\<lparr>mux_state := LACPD_MUX_ST_COLLECTING_DISTRIBUTING\<rparr>) P))\<lparr>ntt := True\<rparr>"

lemma dev_frame_disable: "dev_frame s (lacpd_fsm_mux_act_disable_collecting_distributing api p s)"
  by (simp add: lacpd_fsm_mux_act_disable_collecting_distributing_def split: option.split)

lemma dev_frame_enable: "dev_frame s (lacpd_fsm_mux_act_enable_collecting_distributing api p s)"
  by (simp add: lacpd_fsm_mux_act_enable_collecting_distributing_def split: option.split)

lemma dev_frame_upd_port:
  assumes "dev_frame (upd_port p f s) t" and "g (f (port_mem s p)) = h (port_mem s p)"
  shows "dev_frame (upd_port p h s) (upd_port p g t)"
  using assms by (simp add: dev_frame_def)

lemma mux_put_state: "put_state (mux_machine_base api p) q = upd_port p (upd_mux (\<lambda>m. m\<lparr>mux_state := q\<rparr>))"
  by (simp add: mux_machine_base_def)

lemma mux_entry_actions:
  "entry_actions (mux_machine_base api p) q =
     (case q of
        LACPD_MUX_ST_DETACHED \<Rightarrow> [lacpd_fsm_mux_act_detach_mux_from_aggregator p,
          lacpd_fsm_mux_act_disable_collecting_distributing api p, lacpd_fsm_mux_act_DETACHED_set p]
      | LACPD_MUX_ST_WAITING \<Rightarrow> [lacpd_fsm_mux_act_WAITING_set p]
      | LACPD_MUX_ST_ATTACHED \<Rightarrow> [lacpd_fsm_mux_act_attach_mux_to_aggregator p,
          lacpd_fsm_mux_act_disable_collecting_distributing api p, lacpd_fsm_mux_act_ATTACHED_set p]
      | LACPD_MUX_ST_COLLECTING_DISTRIBUTING \<Rightarrow> [lacpd_fsm_mux_act_enable_collecting_distributing api p,
          lacpd_fsm_mux_act_COLLECTING_DISTRIBUTING_set p])"
  by (cases q) (simp_all add: entry_actions_def mux_machine_base_def FSM_MAX_ACTION_def)

text \<open>Entering a state changes the port as \<open>mux_enter\<close> says, and otherwise only devices.\<close>

lemma mux_change_to_state:
  "dev_frame (upd_port p (mux_enter q) s) (fsm_change_to_state (mux_machine_base api p) q s)"
proof (cases q)
  case LACPD_MUX_ST_DETACHED
  show ?thesis
    unfolding fsm_change_to_state_def mux_put_state mux_entry_actions LACPD_MUX_ST_DETACHED
    by (simp add: mux_act_defs, rule dev_frame_upd_port [OF dev_frame_disable])
      (simp add: upd_mux_def upd_state_defs)
next
  case LACPD_MUX_ST_WAITING
  have "fsm_change_to_state (mux_machine_base api p) q s = upd_port p (mux_enter q) s"
    unfolding fsm_change_to_state_def mux_put_state mux_entry_actions LACPD_MUX_ST_WAITING
    by (simp add: mux_act_defs, rule upd_port_cong) (simp add: upd_mux_def)
  then show ?thesis by simp
next
  case LACPD_MUX_ST_ATTACHED
  show ?thesis
    unfolding fsm_change_to_state_def mux_put_state mux_entry_actions LACPD_MUX_ST_ATTACHED
    by (simp add: mux_act_defs, rule dev_frame_upd_port [OF dev_frame_disable])
      (simp add: upd_mux_def upd_state_defs)
next
  case LACPD_MUX_ST_COLLECTING_DISTRIBUTING
  show ?thesis
    unfolding fsm_change_to_state_def mux_put_state mux_entry_actions LACPD_MUX_ST_COLLECTING_DISTRIBUTING
    by (simp add: mux_act_defs, rule dev_frame_upd_port [OF dev_frame_enable])
      (simp add: upd_mux_def upd_state_defs)
qed

lemma mux_change_port_mem:
  "port_mem (fsm_change_to_state (mux_machine_base api p) q s) = (port_mem s)(p := mux_enter q (port_mem s p))"
  using dev_frame_simps(1) [OF mux_change_to_state [of p q s api]] by simp

lemma mux_enter_simps [simp]:
  "mux_state (m_mux (mux_enter q P)) = q"
  "actor_port_aggregator_identifier (mux_enter q P) = actor_port_aggregator_identifier P"
  "dev_ifindex (mux_enter q P) = dev_ifindex P"
  "lacp_enabled (mux_enter q P) = lacp_enabled P" "port_enabled (mux_enter q P) = port_enabled P"
  "port_moved (mux_enter q P) = port_moved P" "selected (mux_enter q P) = selected P"
  "m_receive (mux_enter q P) = m_receive P" "m_select (mux_enter q P) = m_select P"
  "m_periodic (mux_enter q P) = m_periodic P" "m_transmit (mux_enter q P) = m_transmit P"
  "runner (mux_enter q P) = runner P" "partner_port_info (mux_enter q P) = partner_port_info P"
  "partner_admin_port_info (mux_enter q P) = partner_admin_port_info P"
  "lacpdu_indicate (mux_enter q P) = lacpdu_indicate P"
  "activity (actor_state (mux_enter q P)) = activity (actor_state P)"
  by (cases q; simp add: upd_mux_def upd_state_defs)+

text \<open>
  WAITING leaves the advertised bits alone and COLLECTING_DISTRIBUTING only adds two: they agree
  with the state because of the state they are entered from.
\<close>

lemma mux_enter_ok:
  assumes "port_ok P"
    and "q = LACPD_MUX_ST_WAITING \<Longrightarrow> mux_state (m_mux P) = LACPD_MUX_ST_DETACHED"
    and "q = LACPD_MUX_ST_COLLECTING_DISTRIBUTING \<Longrightarrow> mux_state (m_mux P) = LACPD_MUX_ST_ATTACHED"
  shows "port_ok (mux_enter q P)"
proof -
  have "mux_bits (mux_state (m_mux P)) (actor_state P)"
    using assms(1) by (simp add: port_ok_def)
  then have "mux_bits q (actor_state (mux_enter q P))"
    using assms(2,3) by (cases q) (simp_all add: upd_mux_def upd_state_defs)
  moreover have "wait_ok (mux_enter q P)"
    by (cases q) (simp_all add: wait_ok_def upd_mux_def upd_state_defs)
  ultimately show ?thesis
    using assms(1) by (simp add: port_ok_def select_ok_def partner_ok_def)
qed

lemma mux_enter_wf:
  assumes "wf_port p s" and "port_ok (mux_enter q (port_mem s p))"
  shows "wf_port p (fsm_change_to_state (mux_machine_base api p) q s)"
proof -
  have "lacp_wf (upd_port p (mux_enter q) s)"
    using assms by (simp add: wf_upd_port)
  with wf_dev_frame [OF mux_change_to_state] dev_frame_simps(2) [OF mux_change_to_state [of p q s api]]
    assms(1)
  show ?thesis by auto
qed

subsection \<open>Progress\<close>

lemma mux_enter_rank:
  assumes "port_ok (port_mem s p)" and "st \<in> set (base_states (mux_machine_base api p))"
    and "condition st s = (True, s1)"
  shows "s1 = s \<and> port_ok (mux_enter (st_id st) (port_mem s p)) \<and>
    rank_mux (mux_enter (st_id st) (port_mem s p)) < rank_mux (port_mem s p)"
proof -
  let ?P = "port_mem s p"
  from assms(2,3) consider
      "s1 = s" "st_id st = LACPD_MUX_ST_DETACHED" "lacpd_fsm_mux_cond_to_DETACHED p s"
    | "s1 = s" "st_id st = LACPD_MUX_ST_WAITING" "lacpd_fsm_mux_cond_to_WAITING p s"
    | "s1 = s" "st_id st = LACPD_MUX_ST_ATTACHED" "lacpd_fsm_mux_cond_to_ATTACHED p s"
    | "s1 = s" "st_id st = LACPD_MUX_ST_COLLECTING_DISTRIBUTING" "lacpd_fsm_mux_cond_to_COLLECTING_DISTRIBUTING p s"
    by (auto simp: mux_machine_base_def)
  then show ?thesis
  proof cases
    case 1
    then have "mux_state (m_mux ?P) = LACPD_MUX_ST_WAITING \<or> mux_state (m_mux ?P) = LACPD_MUX_ST_ATTACHED"
      "selected ?P = LACPD_SEL_STATE_UNSELECTED"
      by (simp_all add: lacpd_fsm_mux_cond_to_DETACHED_def Let_def)
    with 1 mux_enter_ok [OF assms(1), of LACPD_MUX_ST_DETACHED] show ?thesis
      by (auto simp: rank_mux_def simp del: mux_enter.simps)
  next
    case 2
    then have "mux_state (m_mux ?P) = LACPD_MUX_ST_DETACHED" "selected ?P = LACPD_SEL_STATE_SELECTED"
      by (simp_all add: lacpd_fsm_mux_cond_to_WAITING_def Let_def)
    with 2 mux_enter_ok [OF assms(1), of LACPD_MUX_ST_WAITING] show ?thesis
      by (simp add: rank_mux_def del: mux_enter.simps)
  next
    case 3
    then have "mux_state (m_mux ?P) = LACPD_MUX_ST_WAITING \<and> selected ?P = LACPD_SEL_STATE_SELECTED \<or>
      mux_state (m_mux ?P) = LACPD_MUX_ST_COLLECTING_DISTRIBUTING \<and>
      (selected ?P = LACPD_SEL_STATE_UNSELECTED \<or> \<not> synchronization (partner_state ?P))"
      by (auto simp: lacpd_fsm_mux_cond_to_ATTACHED_def Let_def split: option.splits)
    with 3 mux_enter_ok [OF assms(1), of LACPD_MUX_ST_ATTACHED] show ?thesis
      by (auto simp: rank_mux_def simp del: mux_enter.simps)
  next
    case 4
    then have "mux_state (m_mux ?P) = LACPD_MUX_ST_ATTACHED" "selected ?P = LACPD_SEL_STATE_SELECTED"
      "synchronization (partner_state ?P)"
      by (simp_all add: lacpd_fsm_mux_cond_to_COLLECTING_DISTRIBUTING_def Let_def)
    with 4 mux_enter_ok [OF assms(1), of LACPD_MUX_ST_COLLECTING_DISTRIBUTING] show ?thesis
      by (simp add: rank_mux_def del: mux_enter.simps)
  qed
qed

interpretation mux: fsm_table "mux_machine_base api p" "wf_port p" "\<lambda>s. port_rank (port_mem s p)"
  for api :: "'e lacp_out_api" and p :: port_ref
proof unfold_locales
  fix st :: "(lacpd_state_machine_mux_state, 'e lacpd_lacp) state_machine_state" and s s1
  assume st: "st \<in> set (base_states (mux_machine_base api p))" and inv: "wf_port p s"
    and c: "condition st s = (True, s1)"
  have "port_ok (port_mem s p)" using inv by simp
  note r = mux_enter_rank [OF this st c]
  have "port_rank (mux_enter (st_id st) (port_mem s p)) < port_rank (port_mem s p)"
    by (rule port_rank_mux [OF rank_receive_cong rank_periodic_cong]) (use r in simp_all)
  with r mux_enter_wf [OF inv]
  show "wf_port p (fsm_change_to_state (mux_machine_base api p) (st_id st) s1) \<and>
      port_rank (port_mem (fsm_change_to_state (mux_machine_base api p) (st_id st) s1) p)
        < port_rank (port_mem s p)"
    by (simp add: mux_change_port_mem)
next
  fix st :: "(lacpd_state_machine_mux_state, 'e lacpd_lacp) state_machine_state" and s s1
  assume "st \<in> set (base_states (mux_machine_base api p))" and "wf_port p s"
    and "condition st s = (False, s1)"
  then show "wf_port p s1 \<and> port_rank (port_mem s1 p) \<le> port_rank (port_mem s p)"
    by (auto simp: mux_machine_base_def)
qed

end
