(* ===== verification/Lacp_Transmit.thy ===== *)
theory Lacp_Transmit
  imports Lacp_Inv
begin

text \<open>
  The transmit machine of a port (the last part of qca/src/qca-lacpd/lacp/lacp_fsm.c): it sends
  a LACPDU when one is wanted, at most three between two ticks of the rate-limit timer.
\<close>

definition upd_transmit ::
    "(lacpd_state_machine_transmit \<Rightarrow> lacpd_state_machine_transmit) \<Rightarrow> lacpd_port \<Rightarrow> lacpd_port" where
  "upd_transmit f P = P\<lparr>m_transmit := f (m_transmit P)\<rparr>"

definition lacpd_fsm_transmit_rate_limit_timer_cb :: "port_ref \<Rightarrow> 'e lacpd_lacp \<Rightarrow> 'e lacpd_lacp" where
  "lacpd_fsm_transmit_rate_limit_timer_cb p s =
     lacpd_port_fsm_schedule_run p
       (upd_port p (upd_transmit (\<lambda>m. m\<lparr>pkt_sent := 0,
          rate_limit_timer := timer_set LACP_FAST_PERIODIC_TIME (rate_limit_timer m)\<rparr>)) s)"

definition lacpd_fsm_transmit_rate_limit :: "lacpd_state_machine_transmit \<Rightarrow> bool" where
  "lacpd_fsm_transmit_rate_limit m \<longleftrightarrow> pkt_sent m \<ge> 3"

subsection \<open>Conditions\<close>

definition lacpd_fsm_transmit_cond_to_NO_TX :: "port_ref \<Rightarrow> 'e lacpd_lacp \<Rightarrow> bool" where
  "lacpd_fsm_transmit_cond_to_NO_TX p s \<longleftrightarrow>
     (let P = port_mem s p in
      case lacpd_port_state_machine_get P LACPD_PORT_STATE_MACHINE_PERIODIC of
        None \<Rightarrow> False
      | Some periodic_st \<Rightarrow>
          let from_DISABLED_to_NO_TX =
            (transmit_state (m_transmit P) = LACPD_TRANSMIT_ST_DISABLED \<and>
             periodic_state (m_periodic P) \<noteq> LACPD_PERIODIC_ST_NO_PERIODIC \<and> lacp_enabled P)
          in transmit_state (m_transmit P) = LACPD_TRANSMIT_ST_TX \<or> from_DISABLED_to_NO_TX)"

definition lacpd_fsm_transmit_cond_to_TX :: "port_ref \<Rightarrow> 'e lacpd_lacp \<Rightarrow> bool" where
  "lacpd_fsm_transmit_cond_to_TX p s \<longleftrightarrow>
     (let P = port_mem s p in
      case lacpd_port_state_machine_get P LACPD_PORT_STATE_MACHINE_PERIODIC of
        None \<Rightarrow> False
      | Some periodic_st \<Rightarrow>
          transmit_state (m_transmit P) = LACPD_TRANSMIT_ST_NO_TX \<and> ntt P \<and>
          periodic_state (m_periodic P) \<noteq> LACPD_PERIODIC_ST_NO_PERIODIC \<and> lacp_enabled P \<and>
          \<not> lacpd_fsm_transmit_rate_limit (m_transmit P))"

definition lacpd_fsm_transmit_cond_to_DISABLED :: "port_ref \<Rightarrow> 'e lacpd_lacp \<Rightarrow> bool" where
  "lacpd_fsm_transmit_cond_to_DISABLED p s \<longleftrightarrow>
     (let P = port_mem s p in
      case lacpd_port_state_machine_get P LACPD_PORT_STATE_MACHINE_PERIODIC of
        None \<Rightarrow> False
      | Some periodic_st \<Rightarrow>
          transmit_state (m_transmit P) \<noteq> LACPD_TRANSMIT_ST_DISABLED \<and>
          (periodic_state (m_periodic P) = LACPD_PERIODIC_ST_NO_PERIODIC \<or> \<not> lacp_enabled P))"

subsection \<open>Entry actions\<close>

definition lacpd_fsm_transmit_act_NO_TX_set :: "port_ref \<Rightarrow> 'e lacpd_lacp \<Rightarrow> 'e lacpd_lacp" where
  "lacpd_fsm_transmit_act_NO_TX_set p s = s"

text \<open>The packet that a port sends.\<close>

definition port_lacp_pkt :: "lacpd_port \<Rightarrow> lacp_pkt" where
  "port_lacp_pkt P =
     (let pkt = lacpdu_init;
          pkt1 = pkt\<lparr>eth := (eth pkt)\<lparr>src_mac := port_mac P\<rparr>\<rparr>
      in pkt1\<lparr>lacp := lacpdu_set_port_info (partner_port_info P)
                        (lacpdu_set_port_info (actor_port_info P) (lacp pkt1) True) False\<rparr>)"

definition lacpd_fsm_transmit_act_send_lacpdu ::
    "'e lacp_out_api \<Rightarrow> port_ref \<Rightarrow> 'e lacpd_lacp \<Rightarrow> 'e lacpd_lacp" where
  "lacpd_fsm_transmit_act_send_lacpdu api p s =
     (let P = port_mem s p;
          (ok, s1) = call_api (send_lacpdu api (dev_ifindex P) (lacp_pkt_bytes (port_lacp_pkt P))) s
      in upd_port p (\<lambda>P. upd_transmit (\<lambda>m. m\<lparr>pkt_sent := pkt_sent m + 1\<rparr>)
           (if ok then P\<lparr>tx_successes := tx_successes P + 1\<rparr> else P\<lparr>tx_error := tx_error P + 1\<rparr>)) s1)"

definition lacpd_fsm_transmit_act_clear_NTT :: "port_ref \<Rightarrow> 'e lacpd_lacp \<Rightarrow> 'e lacpd_lacp" where
  "lacpd_fsm_transmit_act_clear_NTT p = upd_port p (\<lambda>P. P\<lparr>ntt := False\<rparr>)"

definition lacpd_fsm_transmit_destroy :: "port_ref \<Rightarrow> 'e lacpd_lacp \<Rightarrow> 'e lacpd_lacp" where
  "lacpd_fsm_transmit_destroy p =
     upd_port p (upd_transmit (\<lambda>m. m\<lparr>rate_limit_timer := timer_cancel (rate_limit_timer m)\<rparr>))"

subsection \<open>The table\<close>

definition transmit_machine_base ::
    "'e lacp_out_api \<Rightarrow> port_ref \<Rightarrow> (lacpd_state_machine_transmit_state, 'e lacpd_lacp) state_machine_base" where
  "transmit_machine_base api p = \<lparr>
     base_name = ''lacp transmit state machine'',
     initial_state = LACPD_TRANSMIT_ST_NO_TX,
     base_states = [
       \<lparr>st_id = LACPD_TRANSMIT_ST_NO_TX, st_name = ''NO_TX'',
        condition = pure_condition (lacpd_fsm_transmit_cond_to_NO_TX p),
        actions = [lacpd_fsm_transmit_act_NO_TX_set p]\<rparr>,
       \<lparr>st_id = LACPD_TRANSMIT_ST_TX, st_name = ''TX'',
        condition = pure_condition (lacpd_fsm_transmit_cond_to_TX p),
        actions = [lacpd_fsm_transmit_act_send_lacpdu api p, lacpd_fsm_transmit_act_clear_NTT p]\<rparr>,
       \<lparr>st_id = LACPD_TRANSMIT_ST_DISABLED, st_name = ''DISABLED'',
        condition = pure_condition (lacpd_fsm_transmit_cond_to_DISABLED p),
        actions = [lacpd_fsm_transmit_act_clear_NTT p]\<rparr>],
     put_state = (\<lambda>q. upd_port p (upd_transmit (\<lambda>m. m\<lparr>transmit_state := q\<rparr>)))\<rparr>"

definition lacpd_fsm_transmit_new :: "'e lacp_out_api \<Rightarrow> port_ref \<Rightarrow> 'e lacpd_lacp \<Rightarrow>
    (lacpd_port_state_machines \<times> (lacpd_state_machine_transmit_state, 'e lacpd_lacp) state_machine_base) option
      \<times> 'e lacpd_lacp" where
  "lacpd_fsm_transmit_new api p s =
     (let (ok, s1) = call_api (os_calloc api) s in
      if \<not> ok then (None, s1)
      else (Some (LACPD_PORT_STATE_MACHINE_TRANSMIT, transmit_machine_base api p),
            upd_port p (upd_transmit (\<lambda>_. \<lparr>transmit_state = LACPD_TRANSMIT_ST_NO_TX,
              rate_limit_timer = timer_set LACP_FAST_PERIODIC_TIME idle_timer, pkt_sent = 0\<rparr>)) s1))"

subsection \<open>The packet\<close>

lemma port_lacp_pkt_valid: "lacpdu_validate (lacp (port_lacp_pkt P))"
  by (simp add: port_lacp_pkt_def)

lemma port_lacp_pkt_infos:
  "lacpdu_get_port_info (lacp (port_lacp_pkt P)) True = actor_port_info P"
  "lacpdu_get_port_info (lacp (port_lacp_pkt P)) False = partner_port_info P"
  unfolding port_lacp_pkt_def Let_def
  by (simp_all add: lacpdu_get_set_both lacpdu_init_def lacpdu_port_info_zero_def)

lemma port_lacp_pkt_padded: "lacpdu_padded (lacp (port_lacp_pkt P))"
  by (simp add: port_lacp_pkt_def lacpdu_padded_def lacpdu_set_port_info_def fill_port_info_def
      lacpdu_init_def lacpdu_port_info_zero_def)

lemma port_lacp_pkt_length: "length (lacp_pkt_bytes (port_lacp_pkt P)) = sizeof_lacp_pkt"
  by (simp add: length_lacp_pkt_bytes port_lacp_pkt_padded)

subsection \<open>Entering a state\<close>

lemma transmit_entry_actions:
  "entry_actions (transmit_machine_base api p) q =
     (case q of
        LACPD_TRANSMIT_ST_NO_TX \<Rightarrow> [lacpd_fsm_transmit_act_NO_TX_set p]
      | LACPD_TRANSMIT_ST_TX \<Rightarrow> [lacpd_fsm_transmit_act_send_lacpdu api p, lacpd_fsm_transmit_act_clear_NTT p]
      | LACPD_TRANSMIT_ST_DISABLED \<Rightarrow> [lacpd_fsm_transmit_act_clear_NTT p])"
  by (cases q) (simp_all add: entry_actions_def transmit_machine_base_def FSM_MAX_ACTION_def)

lemma transmit_put_state:
  "put_state (transmit_machine_base api p) q = upd_port p (upd_transmit (\<lambda>m. m\<lparr>transmit_state := q\<rparr>))"
  by (simp add: transmit_machine_base_def)

text \<open>What entering a state does to the port; the state's packet goes to the device layer.\<close>

fun transmit_enter :: "bool \<Rightarrow> lacpd_state_machine_transmit_state \<Rightarrow> lacpd_port \<Rightarrow> lacpd_port" where
  "transmit_enter ok LACPD_TRANSMIT_ST_NO_TX P = upd_transmit (\<lambda>m. m\<lparr>transmit_state := LACPD_TRANSMIT_ST_NO_TX\<rparr>) P"
| "transmit_enter ok LACPD_TRANSMIT_ST_TX P =
     (upd_transmit (\<lambda>m. m\<lparr>transmit_state := LACPD_TRANSMIT_ST_TX, pkt_sent := pkt_sent m + 1\<rparr>)
       (if ok then P\<lparr>tx_successes := tx_successes P + 1\<rparr> else P\<lparr>tx_error := tx_error P + 1\<rparr>))\<lparr>ntt := False\<rparr>"
| "transmit_enter ok LACPD_TRANSMIT_ST_DISABLED P =
     (upd_transmit (\<lambda>m. m\<lparr>transmit_state := LACPD_TRANSMIT_ST_DISABLED\<rparr>) P)\<lparr>ntt := False\<rparr>"

definition transmit_env ::
    "'e lacp_out_api \<Rightarrow> lacpd_state_machine_transmit_state \<Rightarrow> lacpd_port \<Rightarrow> 'e \<Rightarrow> bool \<times> 'e" where
  "transmit_env api q P e =
     (if q = LACPD_TRANSMIT_ST_TX
      then send_lacpdu api (dev_ifindex P) (lacp_pkt_bytes (port_lacp_pkt P)) e else (True, e))"

lemma transmit_change_to_state:
  "fsm_change_to_state (transmit_machine_base api p) q s =
   upd_port p (transmit_enter (fst (transmit_env api q (port_mem s p) (env s))) q)
     (s\<lparr>env := snd (transmit_env api q (port_mem s p) (env s))\<rparr>)"
proof (cases q)
  case LACPD_TRANSMIT_ST_NO_TX
  then show ?thesis
    by (simp add: fsm_change_to_state_def transmit_put_state transmit_entry_actions transmit_env_def
        lacpd_fsm_transmit_act_NO_TX_set_def upd_port_def)
next
  case LACPD_TRANSMIT_ST_TX
  obtain ok e where se: "send_lacpdu api (dev_ifindex (port_mem s p))
      (lacp_pkt_bytes (port_lacp_pkt (port_mem s p))) (env s) = (ok, e)" by fastforce
  have pkt: "port_lacp_pkt (upd_transmit f P) = port_lacp_pkt P" for f P
    by (simp add: port_lacp_pkt_def upd_transmit_def)
  from se show ?thesis
    unfolding LACPD_TRANSMIT_ST_TX
    by (cases ok)
      (simp_all add: fsm_change_to_state_def transmit_put_state transmit_entry_actions transmit_env_def
        lacpd_fsm_transmit_act_send_lacpdu_def lacpd_fsm_transmit_act_clear_NTT_def pkt
        call_api_def upd_port_def, simp_all add: upd_transmit_def pkt [unfolded upd_transmit_def])
next
  case LACPD_TRANSMIT_ST_DISABLED
  then show ?thesis
    by (simp add: fsm_change_to_state_def transmit_put_state transmit_entry_actions transmit_env_def
        lacpd_fsm_transmit_act_clear_NTT_def upd_port_def)
qed

text \<open>Sending and going silent leave everything but the machine, the request and the counters.\<close>

lemma transmit_enter_simps [simp]:
  "transmit_state (m_transmit (transmit_enter ok q P)) = q"
  "rate_limit_timer (m_transmit (transmit_enter ok q P)) = rate_limit_timer (m_transmit P)"
  "pkt_sent (m_transmit (transmit_enter ok q P)) =
     pkt_sent (m_transmit P) + (if q = LACPD_TRANSMIT_ST_TX then 1 else 0)"
  "actor_port_aggregator_identifier (transmit_enter ok q P) = actor_port_aggregator_identifier P"
  "dev_ifindex (transmit_enter ok q P) = dev_ifindex P"
  "lacp_enabled (transmit_enter ok q P) = lacp_enabled P"
  "port_enabled (transmit_enter ok q P) = port_enabled P"
  "port_moved (transmit_enter ok q P) = port_moved P" "selected (transmit_enter ok q P) = selected P"
  "ready_N (transmit_enter ok q P) = ready_N P"
  "m_receive (transmit_enter ok q P) = m_receive P" "m_select (transmit_enter ok q P) = m_select P"
  "m_periodic (transmit_enter ok q P) = m_periodic P" "m_mux (transmit_enter ok q P) = m_mux P"
  "runner (transmit_enter ok q P) = runner P"
  "actor_port_info (transmit_enter ok q P) = actor_port_info P"
  "partner_port_info (transmit_enter ok q P) = partner_port_info P"
  "partner_admin_port_info (transmit_enter ok q P) = partner_admin_port_info P"
  "lacpdu_indicate (transmit_enter ok q P) = lacpdu_indicate P"
  by (cases q; simp add: upd_transmit_def)+

lemma pkt_sent_Suc:
  fixes n :: u32
  assumes "n < 3"
  shows "n + 1 \<le> 3" "unat (n + 1) = Suc (unat n)" "unat n < 3"
proof -
  have u: "unat n < 3" using assms by (simp add: word_less_nat_alt)
  then show "unat n < 3" .
  show s: "unat (n + 1) = Suc (unat n)"
    using u by (simp add: unat_word_ariths)
  with u show "n + 1 \<le> 3" by (simp add: word_le_nat_alt)
qed

lemma transmit_enter_wf:
  assumes "wf_port p s" and "q = LACPD_TRANSMIT_ST_TX \<Longrightarrow> pkt_sent (m_transmit (port_mem s p)) < 3"
  shows "wf_port p (fsm_change_to_state (transmit_machine_base api p) q s)"
proof -
  let ?P = "port_mem s p" and ?r = "transmit_env api q (port_mem s p) (env s)"
  have "port_ok ?P" using assms(1) by simp
  moreover from this have "pkt_sent (m_transmit ?P) + (if q = LACPD_TRANSMIT_ST_TX then 1 else 0) \<le> 3"
    using assms(2) pkt_sent_Suc(1) by (simp add: port_ok_def)
  ultimately have "port_ok (transmit_enter (fst ?r) q ?P)"
    by (simp add: port_ok_defs)
  with assms(1) show ?thesis
    by (simp add: transmit_change_to_state wf_upd_port)
qed

subsection \<open>Progress\<close>

lemma transmit_enter_rank:
  assumes "port_ok (port_mem s p)" and "st \<in> set (base_states (transmit_machine_base api p))"
    and "condition st s = (True, s1)"
  shows "s1 = s \<and> (st_id st = LACPD_TRANSMIT_ST_TX \<longrightarrow> pkt_sent (m_transmit (port_mem s p)) < 3) \<and>
    rank_transmit (transmit_enter ok (st_id st) (port_mem s p)) < rank_transmit (port_mem s p)"
proof -
  let ?P = "port_mem s p"
  have get: "lacpd_port_state_machine_get ?P LACPD_PORT_STATE_MACHINE_PERIODIC =
      Some LACPD_PORT_STATE_MACHINE_PERIODIC"
    using assms(1) by simp
  have en: "lacp_enabled ?P" using assms(1) by (simp add: port_ok_def)
  from assms(2,3) consider
      "s1 = s" "st_id st = LACPD_TRANSMIT_ST_NO_TX" "lacpd_fsm_transmit_cond_to_NO_TX p s"
    | "s1 = s" "st_id st = LACPD_TRANSMIT_ST_TX" "lacpd_fsm_transmit_cond_to_TX p s"
    | "s1 = s" "st_id st = LACPD_TRANSMIT_ST_DISABLED" "lacpd_fsm_transmit_cond_to_DISABLED p s"
    by (auto simp: transmit_machine_base_def)
  then show ?thesis
  proof cases
    case 1
    then have "transmit_state (m_transmit ?P) = LACPD_TRANSMIT_ST_TX \<or>
        transmit_state (m_transmit ?P) = LACPD_TRANSMIT_ST_DISABLED \<and> \<not> tx_disabled ?P"
      using get en by (auto simp: lacpd_fsm_transmit_cond_to_NO_TX_def Let_def tx_disabled_def)
    with 1 show ?thesis
      by (auto simp: rank_transmit_def tx_disabled_def simp del: transmit_enter.simps)
  next
    case 2
    then have c: "transmit_state (m_transmit ?P) = LACPD_TRANSMIT_ST_NO_TX" "\<not> tx_disabled ?P"
      "pkt_sent (m_transmit ?P) < 3"
      using get en by (auto simp: lacpd_fsm_transmit_cond_to_TX_def Let_def tx_disabled_def
          lacpd_fsm_transmit_rate_limit_def)
    with 2 pkt_sent_Suc [OF c(3)] show ?thesis
      by (simp add: rank_transmit_def tx_disabled_def del: transmit_enter.simps)
  next
    case 3
    then have "transmit_state (m_transmit ?P) \<noteq> LACPD_TRANSMIT_ST_DISABLED" "tx_disabled ?P"
      using get en by (auto simp: lacpd_fsm_transmit_cond_to_DISABLED_def Let_def tx_disabled_def)
    with 3 show ?thesis
      by (cases "transmit_state (m_transmit ?P)")
        (simp_all add: rank_transmit_def tx_disabled_def del: transmit_enter.simps)
  qed
qed

interpretation transmit: fsm_table "transmit_machine_base api p" "wf_port p" "\<lambda>s. port_rank (port_mem s p)"
  for api :: "'e lacp_out_api" and p :: port_ref
proof unfold_locales
  fix st :: "(lacpd_state_machine_transmit_state, 'e lacpd_lacp) state_machine_state" and s s1
  assume st: "st \<in> set (base_states (transmit_machine_base api p))" and inv: "wf_port p s"
    and c: "condition st s = (True, s1)"
  have "port_ok (port_mem s p)" using inv by simp
  note r = transmit_enter_rank [OF this st c]
  have "port_rank (transmit_enter ok (st_id st) (port_mem s p)) < port_rank (port_mem s p)" for ok
    by (rule port_rank_transmit [OF rank_receive_cong rank_periodic_cong rank_mux_cong]) (use r in simp_all)
  with r transmit_enter_wf [OF inv] inv
  show "wf_port p (fsm_change_to_state (transmit_machine_base api p) (st_id st) s1) \<and>
      port_rank (port_mem (fsm_change_to_state (transmit_machine_base api p) (st_id st) s1) p)
        < port_rank (port_mem s p)"
    by (simp add: transmit_change_to_state)
next
  fix st :: "(lacpd_state_machine_transmit_state, 'e lacpd_lacp) state_machine_state" and s s1
  assume "st \<in> set (base_states (transmit_machine_base api p))" and "wf_port p s"
    and "condition st s = (False, s1)"
  then show "wf_port p s1 \<and> port_rank (port_mem s1 p) \<le> port_rank (port_mem s p)"
    by (auto simp: transmit_machine_base_def)
qed

end
