(* ===== verification/Lacp_Runner.thy ===== *)
theory Lacp_Runner
  imports Lacp_Receive Lacp_Periodic Lacp_Selection Lacp_Mux Lacp_Transmit
begin

text \<open>
  The five machines of a port under their runner (port.h, port.c and fsm.c in
  qca/src/qca-lacpd/lacp): a run of the machines always ends, keeps the instance well-formed and
  leaves no transition enabled.
\<close>

subsection \<open>Dispatch on the machine\<close>

text \<open>\<^verbatim>\<open>st->base\<close> is the table of the machine \<^verbatim>\<open>st\<close>.\<close>

definition lacpd_check_transit_conditions ::
    "'e lacp_out_api \<Rightarrow> port_ref \<Rightarrow> lacpd_port_state_machines \<Rightarrow> 'e lacpd_lacp \<Rightarrow> bool \<times> 'e lacpd_lacp" where
  "lacpd_check_transit_conditions api p m =
     (case m of
        LACPD_PORT_STATE_MACHINE_RECEIVE \<Rightarrow> fsm_check_transit_conditions (receive_machine_base p)
      | LACPD_PORT_STATE_MACHINE_PERIODIC \<Rightarrow> fsm_check_transit_conditions (periodic_transmit_machine_base p)
      | LACPD_PORT_STATE_MACHINE_SELECT \<Rightarrow> fsm_check_transit_conditions (selection_machine_base p)
      | LACPD_PORT_STATE_MACHINE_MUX \<Rightarrow> fsm_check_transit_conditions (mux_machine_base api p)
      | LACPD_PORT_STATE_MACHINE_TRANSMIT \<Rightarrow> fsm_check_transit_conditions (transmit_machine_base api p))"

definition lacpd_enter_initial_state ::
    "'e lacp_out_api \<Rightarrow> port_ref \<Rightarrow> lacpd_port_state_machines \<Rightarrow> 'e lacpd_lacp \<Rightarrow> 'e lacpd_lacp" where
  "lacpd_enter_initial_state api p m =
     (case m of
        LACPD_PORT_STATE_MACHINE_RECEIVE \<Rightarrow>
          fsm_change_to_state (receive_machine_base p) LACPD_RECV_ST_INITIALIZE
      | LACPD_PORT_STATE_MACHINE_PERIODIC \<Rightarrow>
          fsm_change_to_state (periodic_transmit_machine_base p) LACPD_PERIODIC_ST_NO_PERIODIC
      | LACPD_PORT_STATE_MACHINE_SELECT \<Rightarrow>
          fsm_change_to_state (selection_machine_base p) LACPD_SELECT_LOGIC_ST_UNSELECTED
      | LACPD_PORT_STATE_MACHINE_MUX \<Rightarrow>
          fsm_change_to_state (mux_machine_base api p) LACPD_MUX_ST_DETACHED
      | LACPD_PORT_STATE_MACHINE_TRANSMIT \<Rightarrow>
          fsm_change_to_state (transmit_machine_base api p) LACPD_TRANSMIT_ST_NO_TX)"

definition lacpd_machine_destroy ::
    "port_ref \<Rightarrow> lacpd_port_state_machines \<Rightarrow> 'e lacpd_lacp \<Rightarrow> 'e lacpd_lacp" where
  "lacpd_machine_destroy p m =
     (case m of
        LACPD_PORT_STATE_MACHINE_RECEIVE \<Rightarrow> lacpd_fsm_receive_destroy p
      | LACPD_PORT_STATE_MACHINE_PERIODIC \<Rightarrow> lacpd_fsm_periodic_transmission_destroy p
      | LACPD_PORT_STATE_MACHINE_SELECT \<Rightarrow> lacpd_fsm_selection_logic_destroy p
      | LACPD_PORT_STATE_MACHINE_MUX \<Rightarrow> lacpd_fsm_mux_destroy p
      | LACPD_PORT_STATE_MACHINE_TRANSMIT \<Rightarrow> lacpd_fsm_transmit_destroy p)"

lemma initial_states_of_tables:
  "initial_state (receive_machine_base p) = LACPD_RECV_ST_INITIALIZE"
  "initial_state (periodic_transmit_machine_base p) = LACPD_PERIODIC_ST_NO_PERIODIC"
  "initial_state (selection_machine_base p) = LACPD_SELECT_LOGIC_ST_UNSELECTED"
  "initial_state (mux_machine_base api p) = LACPD_MUX_ST_DETACHED"
  "initial_state (transmit_machine_base api p) = LACPD_TRANSMIT_ST_NO_TX"
  by (simp_all add: receive_machine_base_def periodic_transmit_machine_base_def
      selection_machine_base_def mux_machine_base_def transmit_machine_base_def)

abbreviation port_runner :: "port_ref \<Rightarrow> 'e lacpd_lacp \<Rightarrow> lacpd_port_state_machines fsm_runner" where
  "port_runner p s \<equiv> runner (port_mem s p)"

definition upd_runner ::
    "port_ref \<Rightarrow> (lacpd_port_state_machines fsm_runner \<Rightarrow> lacpd_port_state_machines fsm_runner) \<Rightarrow>
     'e lacpd_lacp \<Rightarrow> 'e lacpd_lacp" where
  "upd_runner p f = upd_port p (\<lambda>P. P\<lparr>runner := f (runner P)\<rparr>)"

text \<open>\<^verbatim>\<open>fsm_runner_run\<close>, the callback of a port's runner timer.\<close>

definition lacpd_port_run :: "'e lacp_out_api \<Rightarrow> port_ref \<Rightarrow> 'e lacpd_lacp \<Rightarrow> 'e lacpd_lacp option" where
  "lacpd_port_run api p =
     fsm_runner_run (port_runner p) (upd_runner p (\<lambda>r. r\<lparr>initialized := True\<rparr>))
       (lacpd_enter_initial_state api p) (lacpd_check_transit_conditions api p)"

text \<open>No machine of the port can change its state.\<close>

definition quiescent :: "'e lacp_out_api \<Rightarrow> port_ref \<Rightarrow> 'e lacpd_lacp \<Rightarrow> bool" where
  "quiescent api p s \<longleftrightarrow>
     list_all (\<lambda>m. \<not> fst (lacpd_check_transit_conditions api p m s)) (machines (port_runner p s))"

subsection \<open>Machines that do not move\<close>

lemma fsm_check_states_append:
  "fsm_check_states b (xs @ ys) ch s =
   (let (c, s1) = fsm_check_states b xs ch s in fsm_check_states b ys c s1)"
  by (induction xs arbitrary: ch s) (auto split: prod.splits)

lemma receive_check_idle:
  "\<not> fst (fsm_check_transit_conditions (receive_machine_base p) s) \<Longrightarrow>
   snd (fsm_check_transit_conditions (receive_machine_base p) s) = upd_port p receive_check_message s"
  "fst (fsm_check_transit_conditions (receive_machine_base p) s) \<longleftrightarrow>
     lacpd_fsm_receive_cond_to_INITIALIZE p s \<or> lacpd_fsm_receive_cond_to_PORT_DISABLED p s \<or>
     lacpd_fsm_receive_cond_to_EXPIRED p s \<or> lacpd_fsm_receive_cond_to_LACP_DISABLED p s \<or>
     lacpd_fsm_receive_cond_to_DEFAULTED p s \<or> fst (lacpd_fsm_receive_cond_to_CURRENT p s)"
proof -
  let ?b = "receive_machine_base p"
  let ?xs = "take 5 (base_states ?b)"
  have split: "fsm_check_transit_conditions ?b s =
      (let (c, s1) = fsm_check_states ?b ?xs False s in fsm_check_states ?b (drop 5 (base_states ?b)) c s1)"
    unfolding fsm_check_transit_conditions_def
    by (subst append_take_drop_id [of 5 "base_states ?b", symmetric], subst fsm_check_states_append) simp
  have pure: "snd (condition st t) = t" if "st \<in> set ?xs" for st t
    using that by (auto simp: receive_machine_base_def)
  have last: "drop 5 (base_states ?b) = [base_states ?b ! 5]"
    by (simp add: receive_machine_base_def)
  have cur: "condition (base_states ?b ! 5) = lacpd_fsm_receive_cond_to_CURRENT p"
    by (simp add: receive_machine_base_def)
  have five: "(\<exists>st\<in>set ?xs. fst (condition st s)) \<longleftrightarrow>
      lacpd_fsm_receive_cond_to_INITIALIZE p s \<or> lacpd_fsm_receive_cond_to_PORT_DISABLED p s \<or>
      lacpd_fsm_receive_cond_to_EXPIRED p s \<or> lacpd_fsm_receive_cond_to_LACP_DISABLED p s \<or>
      lacpd_fsm_receive_cond_to_DEFAULTED p s"
    by (simp add: receive_machine_base_def)
  obtain c s1 where c: "fsm_check_states ?b ?xs False s = (c, s1)" by fastforce
  note idle = fsm_check_states_idle [of ?xs ?b s] fsm_check_states_idle_iff [of ?xs ?b s]
  show fst: "fst (fsm_check_transit_conditions ?b s) \<longleftrightarrow>
      lacpd_fsm_receive_cond_to_INITIALIZE p s \<or> lacpd_fsm_receive_cond_to_PORT_DISABLED p s \<or>
      lacpd_fsm_receive_cond_to_EXPIRED p s \<or> lacpd_fsm_receive_cond_to_LACP_DISABLED p s \<or>
      lacpd_fsm_receive_cond_to_DEFAULTED p s \<or> fst (lacpd_fsm_receive_cond_to_CURRENT p s)"
  proof (cases c)
    case True
    with c idle(2) pure five have "fst (fsm_check_transit_conditions ?b s)"
      using fsm_check_states_changed [of ?b "drop 5 (base_states ?b)" s1] by (simp add: split)
    with True c idle(2) pure five show ?thesis by auto
  next
    case False
    with c idle pure have "s1 = s" by auto
    with False c idle(2) pure five show ?thesis
      by (auto simp: split last cur split: prod.splits)
  qed
  assume "\<not> fst (fsm_check_transit_conditions ?b s)"
  with c idle pure have "\<not> c" "s1 = s" "\<not> fst (lacpd_fsm_receive_cond_to_CURRENT p s)"
    using fsm_check_states_changed [of ?b "drop 5 (base_states ?b)" s1] unfolding fst
    by (auto simp: five)
  then show "snd (fsm_check_transit_conditions ?b s) = upd_port p receive_check_message s"
    using c by (auto simp: split last cur lacpd_fsm_receive_cond_to_CURRENT_def Let_def split: prod.splits)
qed

text \<open>The four other machines have conditions without side effects.\<close>

lemma pure_tables:
  "sp \<in> set (base_states (periodic_transmit_machine_base p)) \<Longrightarrow> snd (condition sp s) = s"
  "ss \<in> set (base_states (selection_machine_base p)) \<Longrightarrow> snd (condition ss s) = s"
  "sm \<in> set (base_states (mux_machine_base api p)) \<Longrightarrow> snd (condition sm s) = s"
  "st \<in> set (base_states (transmit_machine_base api p)) \<Longrightarrow> snd (condition st s) = s"
  by (auto simp: periodic_transmit_machine_base_def selection_machine_base_def mux_machine_base_def
      transmit_machine_base_def)

lemma other_check_idle:
  assumes "m \<noteq> LACPD_PORT_STATE_MACHINE_RECEIVE"
    and "\<not> fst (lacpd_check_transit_conditions api p m s)"
  shows "snd (lacpd_check_transit_conditions api p m s) = s"
proof -
  note idle =
    fsm_check_states_idle [of "base_states (periodic_transmit_machine_base p)", OF pure_tables(1)]
    fsm_check_states_idle [of "base_states (selection_machine_base p)", OF pure_tables(2)]
    fsm_check_states_idle [of "base_states (mux_machine_base api p)", OF pure_tables(3)]
    fsm_check_states_idle [of "base_states (transmit_machine_base api p)", OF pure_tables(4)]
  show ?thesis
    using assms idle
    by (cases m) (simp_all add: lacpd_check_transit_conditions_def fsm_check_transit_conditions_def)
qed

lemma periodic_check_iff:
  "fst (fsm_check_transit_conditions (periodic_transmit_machine_base p) s) \<longleftrightarrow>
     lacpd_fsm_periodic_transmission_cond_to_NO_PERIODIC p s \<or>
     lacpd_fsm_periodic_transmission_cond_to_FAST_PERIODIC p s \<or>
     lacpd_fsm_periodic_transmission_cond_to_SLOW_PERIODIC p s \<or>
     lacpd_fsm_periodic_transmission_cond_to_PERIODIC_TX p s"
  unfolding fsm_check_transit_conditions_def
  by (subst fsm_check_states_idle_iff) (auto simp: periodic_transmit_machine_base_def)

lemma selection_check_iff:
  "fst (fsm_check_transit_conditions (selection_machine_base p) s) \<longleftrightarrow>
     lacpd_fsm_selection_logic_cond_to_UNSELECTED p s \<or> lacpd_fsm_selection_logic_cond_to_SELECTED p s"
  unfolding fsm_check_transit_conditions_def
  by (subst fsm_check_states_idle_iff) (auto simp: selection_machine_base_def)

lemma mux_check_iff:
  "fst (fsm_check_transit_conditions (mux_machine_base api p) s) \<longleftrightarrow>
     lacpd_fsm_mux_cond_to_DETACHED p s \<or> lacpd_fsm_mux_cond_to_WAITING p s \<or>
     lacpd_fsm_mux_cond_to_ATTACHED p s \<or> lacpd_fsm_mux_cond_to_COLLECTING_DISTRIBUTING p s"
  unfolding fsm_check_transit_conditions_def
  by (subst fsm_check_states_idle_iff) (auto simp: mux_machine_base_def)

lemma transmit_check_iff:
  "fst (fsm_check_transit_conditions (transmit_machine_base api p) s) \<longleftrightarrow>
     lacpd_fsm_transmit_cond_to_NO_TX p s \<or> lacpd_fsm_transmit_cond_to_TX p s \<or>
     lacpd_fsm_transmit_cond_to_DISABLED p s"
  unfolding fsm_check_transit_conditions_def
  by (subst fsm_check_states_idle_iff) (auto simp: transmit_machine_base_def)

lemmas check_iffs = receive_check_idle(2) periodic_check_iff selection_check_iff mux_check_iff
  transmit_check_iff

text \<open>Counting a packet, or dropping an invalid one, enables no transition.\<close>

lemma receive_check_message_simps [simp]:
  "ntt (receive_check_message P) = ntt P" "port_enabled (receive_check_message P) = port_enabled P"
  "lacp_enabled (receive_check_message P) = lacp_enabled P"
  "actor_port_aggregator_identifier (receive_check_message P) = actor_port_aggregator_identifier P"
  "m_periodic (receive_check_message P) = m_periodic P" "m_select (receive_check_message P) = m_select P"
  "m_mux (receive_check_message P) = m_mux P" "m_transmit (receive_check_message P) = m_transmit P"
  "runner (receive_check_message P) = runner P"
  "lacpdu_indicate (receive_check_message (receive_check_message P)) =
     lacpdu_indicate (receive_check_message P)"
  by (simp_all add: receive_check_message_def)

lemma check_after_message:
  assumes "\<not> fst (lacpd_check_transit_conditions api p LACPD_PORT_STATE_MACHINE_RECEIVE s)"
  shows "fst (lacpd_check_transit_conditions api p m (upd_port p receive_check_message s)) =
    fst (lacpd_check_transit_conditions api p m s)"
proof -
  have get: "lacpd_port_state_machine_get (receive_check_message P) m = lacpd_port_state_machine_get P m" for P m
    by (simp add: lacpd_port_state_machine_get_def)
  show ?thesis
  proof (cases m)
    case LACPD_PORT_STATE_MACHINE_RECEIVE
    from assms show ?thesis
      unfolding LACPD_PORT_STATE_MACHINE_RECEIVE lacpd_check_transit_conditions_def
      by (simp add: check_iffs receive_cond_defs Let_def)
  next
    case LACPD_PORT_STATE_MACHINE_PERIODIC
    then show ?thesis
      by (simp add: lacpd_check_transit_conditions_def check_iffs periodic_cond_defs Let_def)
  next
    case LACPD_PORT_STATE_MACHINE_SELECT
    then show ?thesis
      by (simp add: lacpd_check_transit_conditions_def check_iffs Let_def get
          lacpd_fsm_selection_logic_cond_to_UNSELECTED_def lacpd_fsm_selection_logic_cond_to_SELECTED_def
          cong: option.case_cong)
  next
    case LACPD_PORT_STATE_MACHINE_MUX
    then show ?thesis
      by (simp add: lacpd_check_transit_conditions_def check_iffs mux_cond_defs Let_def cong: option.case_cong)
  next
    case LACPD_PORT_STATE_MACHINE_TRANSMIT
    then show ?thesis
      by (simp add: lacpd_check_transit_conditions_def check_iffs Let_def get
          lacpd_fsm_transmit_cond_to_NO_TX_def lacpd_fsm_transmit_cond_to_TX_def
          lacpd_fsm_transmit_cond_to_DISABLED_def cong: option.case_cong)
  qed
qed

subsection \<open>The run\<close>

lemmas check_facts =
  receive.check_inv receive.check_rank receive.check_progress
  periodic.check_inv periodic.check_rank periodic.check_progress
  selection.check_inv selection.check_rank selection.check_progress
  mux.check_inv mux.check_rank mux.check_progress
  transmit.check_inv transmit.check_rank transmit.check_progress

interpretation port_run: fsm_progress "lacpd_check_transit_conditions api p" "wf_port p"
    "\<lambda>s. port_rank (port_mem s p)"
  for api :: "'e lacp_out_api" and p :: port_ref
proof unfold_locales
  fix s :: "'e lacpd_lacp" and m m'
  assume inv: "wf_port p s"
  show "wf_port p (snd (lacpd_check_transit_conditions api p m s))"
    using check_facts [OF inv] by (cases m) (simp_all add: lacpd_check_transit_conditions_def)
  show "port_rank (port_mem (snd (lacpd_check_transit_conditions api p m s)) p) \<le> port_rank (port_mem s p)"
    using check_facts [OF inv] by (cases m) (simp_all add: lacpd_check_transit_conditions_def)
  show "port_rank (port_mem (snd (lacpd_check_transit_conditions api p m s)) p) < port_rank (port_mem s p)"
    if "fst (lacpd_check_transit_conditions api p m s)"
    using that check_facts [OF inv] by (cases m) (simp_all add: lacpd_check_transit_conditions_def)
  assume idle: "\<not> fst (lacpd_check_transit_conditions api p m s)"
  show "fst (lacpd_check_transit_conditions api p m' (snd (lacpd_check_transit_conditions api p m s))) =
      fst (lacpd_check_transit_conditions api p m' s)"
  proof (cases "m = LACPD_PORT_STATE_MACHINE_RECEIVE")
    case True
    with idle check_after_message [of api p s m'] show ?thesis
      by (simp add: lacpd_check_transit_conditions_def [of api p LACPD_PORT_STATE_MACHINE_RECEIVE] receive_check_idle(1))
  next
    case False
    with other_check_idle [OF False idle] show ?thesis by simp
  qed
qed

lemma port_run_initialized:
  assumes "wf_port p s" and "initialized (port_runner p s)"
  shows "\<exists>t. lacpd_port_run api p s = Some t \<and> wf_port p t \<and> quiescent api p t"
proof -
  from port_run.loop [OF assms(1), of api lacp_machines] obtain t where
    t: "fsm_runner_loop (lacpd_check_transit_conditions api p) lacp_machines s = Some t" "wf_port p t"
      "\<forall>m\<in>set lacp_machines. \<not> fst (lacpd_check_transit_conditions api p m t)" by blast
  have "machines (port_runner p s) = lacp_machines" "machines (port_runner p t) = lacp_machines"
    using assms(1) t(2) wf_port_ok [of s p] wf_port_ok [of t p] by (simp_all add: port_ok_def runner_ok_def)
  with t assms(2) show ?thesis
    by (simp add: lacpd_port_run_def fsm_runner_run_def quiescent_def list_all_iff)
qed

text \<open>
  The first run after the runner was reset puts every machine into its initial state and
  returns: it does not go on to check transitions.
\<close>

lemma wf_upd_runner:
  assumes "wf_port p s" and "runner_ok (f (port_runner p s))"
  shows "wf_port p (upd_runner p f s)"
proof -
  have "port_ok (port_mem s p)" using assms(1) by simp
  with assms(2) have "port_ok ((port_mem s p)\<lparr>runner := f (port_runner p s)\<rparr>)"
    by (simp add: port_ok_defs)
  with assms(1) show ?thesis by (simp add: upd_runner_def wf_upd_port)
qed

lemma initial_run_result:
  fixes api :: "'e lacp_out_api"
  assumes "wf_port p s"
  defines "t \<equiv> fold (lacpd_enter_initial_state api p) lacp_machines s"
  shows "wf_port p t" and
    "recv_state (m_receive (port_mem t p)) = LACPD_RECV_ST_INITIALIZE"
    "periodic_state (m_periodic (port_mem t p)) = LACPD_PERIODIC_ST_NO_PERIODIC"
    "select_state (m_select (port_mem t p)) = LACPD_SELECT_LOGIC_ST_UNSELECTED"
    "mux_state (m_mux (port_mem t p)) = LACPD_MUX_ST_DETACHED"
    "transmit_state (m_transmit (port_mem t p)) = LACPD_TRANSMIT_ST_NO_TX"
    "actor_port_aggregator_identifier (port_mem t p) = 0"
    "runner (port_mem t p) = runner (port_mem s p)"
    "port_enabled (port_mem t p) = port_enabled (port_mem s p)"
proof -
  define s1 where "s1 = upd_port p (receive_enter LACPD_RECV_ST_INITIALIZE) s"
  define s2 where "s2 = upd_port p (periodic_enter LACPD_PERIODIC_ST_NO_PERIODIC) s1"
  define s3 where "s3 = fsm_change_to_state (selection_machine_base p) LACPD_SELECT_LOGIC_ST_UNSELECTED s2"
  define s4 where "s4 = fsm_change_to_state (mux_machine_base api p) LACPD_MUX_ST_DETACHED s3"
  have t: "t = fsm_change_to_state (transmit_machine_base api p) LACPD_TRANSMIT_ST_NO_TX s4"
    by (simp add: t_def lacp_machines_def lacpd_enter_initial_state_def s4_def s3_def s2_def s1_def
        receive_change_to_state periodic_change_to_state del: receive_enter.simps periodic_enter.simps)
  have w1: "wf_port p s1"
    unfolding s1_def
    by (rule receive_frame_wf [where f = "receive_enter LACPD_RECV_ST_INITIALIZE", OF assms(1) receive_frame_enter])
      (simp del: receive_enter.simps)
  have w2: "wf_port p s2" unfolding s2_def by (rule periodic_enter_wf [OF w1])
  have p2: "port_mem s2 p = periodic_enter LACPD_PERIODIC_ST_NO_PERIODIC
      (receive_enter LACPD_RECV_ST_INITIALIZE (port_mem s p))"
    by (simp add: s2_def s1_def del: receive_enter.simps periodic_enter.simps)
  have sel: "selected (port_mem s2 p) \<noteq> LACPD_SEL_STATE_SELECTED"
    by (simp add: p2 upd_periodic_def upd_receive_def upd_state_defs)
  note w3 = selection_remove(2) [OF w2 sel, folded s3_def]
  have p3: "port_mem s3 p = port_removed (port_mem s2 p)"
    using selection_remove(1) [OF w2 sel, folded s3_def] by simp
  have "port_ok (port_mem s3 p)" using w3 by simp
  then have "port_ok (mux_enter LACPD_MUX_ST_DETACHED (port_mem s3 p))"
    by (rule mux_enter_ok) simp_all
  then have w4: "wf_port p s4" unfolding s4_def by (rule mux_enter_wf [OF w3])
  have p4: "port_mem s4 p = mux_enter LACPD_MUX_ST_DETACHED (port_mem s3 p)"
    by (simp add: s4_def mux_change_port_mem del: mux_enter.simps)
  show "wf_port p t" unfolding t by (rule transmit_enter_wf [OF w4]) simp
  have pt: "port_mem t p = transmit_enter (fst (transmit_env api LACPD_TRANSMIT_ST_NO_TX (port_mem s4 p) (env s4)))
      LACPD_TRANSMIT_ST_NO_TX (port_mem s4 p)"
    by (simp add: t transmit_change_to_state del: transmit_enter.simps)
  note chain = pt p4 p3 port_removed_def p2
  show "recv_state (m_receive (port_mem t p)) = LACPD_RECV_ST_INITIALIZE"
    "periodic_state (m_periodic (port_mem t p)) = LACPD_PERIODIC_ST_NO_PERIODIC"
    "select_state (m_select (port_mem t p)) = LACPD_SELECT_LOGIC_ST_UNSELECTED"
    "mux_state (m_mux (port_mem t p)) = LACPD_MUX_ST_DETACHED"
    "transmit_state (m_transmit (port_mem t p)) = LACPD_TRANSMIT_ST_NO_TX"
    "actor_port_aggregator_identifier (port_mem t p) = 0"
    "runner (port_mem t p) = runner (port_mem s p)"
    "port_enabled (port_mem t p) = port_enabled (port_mem s p)"
    by (simp_all add: chain upd_periodic_def upd_receive_def upd_state_defs
        del: mux_enter.simps transmit_enter.simps)
qed

lemma port_run_uninitialized:
  assumes "wf_port p s" and "\<not> initialized (port_runner p s)"
  shows "\<exists>t. lacpd_port_run api p s = Some t \<and> wf_port p t \<and> initialized (port_runner p t) \<and>
    recv_state (m_receive (port_mem t p)) = LACPD_RECV_ST_INITIALIZE \<and>
    mux_state (m_mux (port_mem t p)) = LACPD_MUX_ST_DETACHED \<and>
    actor_port_aggregator_identifier (port_mem t p) = 0"
proof -
  have m: "runner_ok (port_runner p s)" using assms(1) wf_port_ok [of s p] by (simp add: port_ok_def)
  let ?t = "fold (lacpd_enter_initial_state api p) lacp_machines s"
  note r = initial_run_result [OF assms(1), of api]
  have "runner_ok ((port_runner p ?t)\<lparr>initialized := True\<rparr>)"
    using m r(8) by (simp add: runner_ok_def)
  from wf_upd_runner [OF r(1), of "\<lambda>r. r\<lparr>initialized := True\<rparr>"] this
  have w: "wf_port p (upd_runner p (\<lambda>r. r\<lparr>initialized := True\<rparr>) ?t)" by simp
  have run: "lacpd_port_run api p s = Some (upd_runner p (\<lambda>r. r\<lparr>initialized := True\<rparr>) ?t)"
    using assms(2) m by (simp add: lacpd_port_run_def fsm_runner_run_def fsm_runner_initail_run_def runner_ok_def)
  with w r show ?thesis by (simp add: upd_runner_def)
qed

end
