(* ===== verification/Lacp_Port.thy ===== *)
theory Lacp_Port
  imports Lacp_Runner
begin

text \<open>
  Creation and destruction of ports (qca/src/qca-lacpd/lacp/port.c).
\<close>

subsection \<open>Initial values\<close>

text \<open>
  The contents of a calloc'ed port: every flag false, every enumeration at its first constant
  (so \<open>selected\<close> is SELECTED until it is initialised), the runner not initialised.
\<close>

definition lacpd_port_zero :: lacpd_port where
  "lacpd_port_zero = \<lparr>
     actor_admin_port_info = port_info_zero, actor_port_info = port_info_zero,
     partner_admin_port_info = port_info_zero, partner_port_info = port_info_zero,
     actor_port_aggregator_identifier = 0, ntt = False, port_enabled = False, lacp_enabled = False,
     ready_N = False, selected = LACPD_SEL_STATE_SELECTED, port_moved = False, port_mac = mac_zero,
     dev_ifindex = 0, lacpdu_indicate = False, message = lacpdu_zero, runner = fsm_runner_zero,
     m_receive = \<lparr>recv_state = LACPD_RECV_ST_INITIALIZE, current_while_timer = idle_timer\<rparr>,
     m_periodic = \<lparr>periodic_state = LACPD_PERIODIC_ST_NO_PERIODIC, periodic_timer = idle_timer\<rparr>,
     m_select = \<lparr>select_state = LACPD_SELECT_LOGIC_ST_UNSELECTED\<rparr>,
     m_mux = \<lparr>mux_state = LACPD_MUX_ST_DETACHED, wait_while_timer = idle_timer\<rparr>,
     m_transmit = \<lparr>transmit_state = LACPD_TRANSMIT_ST_NO_TX, rate_limit_timer = idle_timer, pkt_sent = 0\<rparr>,
     tx_successes = 0, tx_error = 0, rx_successes = 0, rx_error = 0\<rparr>"

text \<open>The assignment to the one-bit field \<^verbatim>\<open>timeout\<close> keeps the lowest bit of the rate.\<close>

definition lacpd_port_initialize_manageable_variable ::
    "'e lacpd_lacp \<Rightarrow> u32 \<Rightarrow> lacp_port_parameters option \<Rightarrow> lacpd_port \<Rightarrow> lacpd_port" where
  "lacpd_port_initialize_manageable_variable s port_num prm P =
     (let ukey = (case prm of Some q \<Rightarrow> user_key q | None \<Rightarrow> LACP_PORT_USER_KEY_DEFAULT);
          A = actor_admin_port_info P;
          B = partner_admin_port_info P
      in P\<lparr>actor_admin_port_info := A\<lparr>
             info_system := actor_system s,
             info_system_priority := actor_system_priority s,
             info_key := lacp_port_key_make ukey LACP_PORT_SPEED_DEFAULT LACP_PORT_DUPLEX_DEFAULT,
             info_port_priority := DEFAULT_PORT_PRIORITY,
             info_port := ucast port_num,
             info_state := (info_state A)\<lparr>activity := True,
               timeout := (lacp_rate (param s) AND 1 = 1), aggregation := True\<rparr>\<rparr>,
           partner_admin_port_info := B\<lparr>
             info_system_priority := DEFAULT_SYSTEM_PRIORITY,
             info_port_priority := DEFAULT_PORT_PRIORITY,
             info_state := (info_state B)\<lparr>activity := True, aggregation := False\<rparr>\<rparr>\<rparr>)"

definition lacpd_port_initialize_runtime_variable ::
    "'e lacp_out_api \<Rightarrow> 'e \<Rightarrow> lacpd_port \<Rightarrow> lacpd_port" where
  "lacpd_port_initialize_runtime_variable api e P =
     (let ukey = lacp_port_key_get_user (info_key (actor_admin_port_info P));
          duplex = get_dev_duplex api e (dev_ifindex P);
          speed = get_dev_speed api e (dev_ifindex P);
          A = actor_admin_port_info P
      in P\<lparr>actor_port_info := A\<lparr>
             info_key := lacp_port_key_make ukey (ucast (lacpd_port_speed_to_key speed)) duplex,
             info_state := (info_state A)\<lparr>aggregation := duplex \<noteq> 0\<rparr>\<rparr>,
           partner_port_info := partner_admin_port_info P,
           actor_port_aggregator_identifier := 0,
           ntt := False,
           port_enabled := get_dev_link_status api e (dev_ifindex P),
           lacp_enabled := True,
           ready_N := False,
           selected := LACPD_SEL_STATE_UNSELECTED\<rparr>)"

subsection \<open>Creation\<close>

text \<open>\<^verbatim>\<open>fsm_runner_add_state_machine(&port->runner, ..._new(port))\<close>\<close>

definition add_machine ::
    "port_ref \<Rightarrow> ('e lacpd_lacp \<Rightarrow>
        (lacpd_port_state_machines \<times> ('q, 'e lacpd_lacp) state_machine_base) option \<times> 'e lacpd_lacp) \<Rightarrow>
     'e lacpd_lacp \<Rightarrow> bool \<times> 'e lacpd_lacp" where
  "add_machine p new s =
     (let (st, s1) = new s; (ok, r) = fsm_runner_add_state_machine (port_runner p s1) st
      in (ok, upd_runner p (\<lambda>_. r) s1))"

definition lacpd_port_cleanup :: "port_ref \<Rightarrow> 'e lacpd_lacp \<Rightarrow> 'e lacpd_lacp outcome" where
  "lacpd_port_cleanup p s =
     fsm_runner_cleanup (port_runner p) (\<lambda>r. upd_runner p (\<lambda>_. r)) (lacpd_machine_destroy p) s"

definition new_port_failed :: "port_ref \<Rightarrow> 'e lacpd_lacp \<Rightarrow> (port_ref option \<times> 'e lacpd_lacp) outcome" where
  "new_port_failed p s = bind_outcome (lacpd_port_cleanup p s) (\<lambda>t. Returns (None, t))"

text \<open>The five machines, in order; the first that cannot be created ends the attempt.\<close>

definition lacpd_port_add_machines :: "'e lacp_out_api \<Rightarrow> port_ref \<Rightarrow> 'e lacpd_lacp \<Rightarrow> bool \<times> 'e lacpd_lacp" where
  "lacpd_port_add_machines api p s =
     (let (ok1, s1) = add_machine p (lacpd_fsm_receive_new api p) s in
      if \<not> ok1 then (False, s1)
      else let (ok2, s2) = add_machine p (lacpd_fsm_periodic_transmission_new api p) s1 in
      if \<not> ok2 then (False, s2)
      else let (ok3, s3) = add_machine p (lacpd_fsm_selection_logic_new api p) s2 in
      if \<not> ok3 then (False, s3)
      else let (ok4, s4) = add_machine p (lacpd_fsm_mux_new api p) s3 in
      if \<not> ok4 then (False, s4)
      else add_machine p (lacpd_fsm_transmit_new api p) s4)"

definition lacpd_port_new ::
    "'e lacp_out_api \<Rightarrow> u32 \<Rightarrow> u32 \<Rightarrow> lacp_port_parameters option \<Rightarrow> 'e lacpd_lacp \<Rightarrow>
     (port_ref option \<times> 'e lacpd_lacp) outcome" where
  "lacpd_port_new api port_num ifindex prm s =
     (if port_num = 0 \<or> ifindex = 0 then Returns (None, s)
      else
        let (ok, s1) = call_api (os_calloc api) s in
        if \<not> ok then Returns (None, s1)
        else
          let p = next_ref s1;
              s2 = upd_port p (\<lambda>_. lacpd_port_zero\<lparr>dev_ifindex := ifindex\<rparr>) (s1\<lparr>next_ref := Suc p\<rparr>);
              (mac_opt, s2') = call_api (get_dev_mac_addr api ifindex) s2
          in (case mac_opt of
                None \<Rightarrow> new_port_failed p s2'
              | Some mac \<Rightarrow>
                  let s3 = upd_port p (\<lambda>P. P\<lparr>port_mac := mac, lacpdu_indicate := False\<rparr>) s2';
                      s4 = upd_port p (lacpd_port_initialize_manageable_variable s3 port_num prm) s3;
                      s5 = upd_port p (lacpd_port_initialize_runtime_variable api (env s4)) s4;
                      s6 = upd_runner p fsm_runner_init s5;
                      (ok', s7) = lacpd_port_add_machines api p s6
                  in if ok' then Returns (Some p, s7) else new_port_failed p s7))"

subsection \<open>Destruction\<close>

definition lacpd_port_destroy :: "'e lacp_out_api \<Rightarrow> port_ref \<Rightarrow> 'e lacpd_lacp \<Rightarrow> 'e lacpd_lacp outcome" where
  "lacpd_port_destroy api p s =
     bind_outcome (lacpd_port_cleanup p s) (\<lambda>s1.
       case lacpd_aggregator_lookup s1
              (lacpd_aggregator_selector_by_id (actor_port_aggregator_identifier (port_mem s1 p))) of
         None \<Rightarrow> Returns s1
       | Some agg \<Rightarrow>
           let s2 = snd (lacpd_aggregator_detach_port api agg p s1)
           in Returns (snd (lacpd_aggregator_del_port agg p s2)))"

subsection \<open>What creating a port leaves alone\<close>

text \<open>
  An operation that works on objects with references of at least \<open>n\<close> only: the rest of the
  instance is untouched.
\<close>

definition fresh_frame :: "nat \<Rightarrow> 'e lacpd_lacp \<Rightarrow> 'e lacpd_lacp \<Rightarrow> bool" where
  "fresh_frame n s t \<longleftrightarrow>
     ports t = ports s \<and> aggregators t = aggregators s \<and> next_port_agg_id t = next_port_agg_id s \<and>
     next_ref s \<le> next_ref t \<and> param t = param s \<and> lacp_name t = lacp_name s \<and>
     actor_system t = actor_system s \<and> actor_system_priority t = actor_system_priority s \<and>
     active_aggregator t = active_aggregator s \<and>
     (\<forall>q<n. port_mem t q = port_mem s q \<and> agg_mem t q = agg_mem s q)"

lemma fresh_frame_refl [simp]: "fresh_frame n s s"
  by (simp add: fresh_frame_def)

lemma fresh_frame_trans: "fresh_frame n s t \<Longrightarrow> fresh_frame n t u \<Longrightarrow> fresh_frame n s u"
  by (auto simp: fresh_frame_def)

lemma fresh_frame_env [simp]: "fresh_frame n s (t\<lparr>env := e\<rparr>) = fresh_frame n s t"
  by (simp add: fresh_frame_def)

lemma fresh_frame_upd_port [simp]: "n \<le> p \<Longrightarrow> fresh_frame n s (upd_port p f t) = fresh_frame n s t"
  by (auto simp: fresh_frame_def)

lemma fresh_frame_upd_agg [simp]: "n \<le> a \<Longrightarrow> fresh_frame n s (upd_agg a f t) = fresh_frame n s t"
  by (auto simp: fresh_frame_def)

lemma fresh_frame_upd_runner [simp]: "n \<le> p \<Longrightarrow> fresh_frame n s (upd_runner p f t) = fresh_frame n s t"
  by (simp add: upd_runner_def)

lemma fresh_frame_next_ref: "next_ref t = n \<Longrightarrow> fresh_frame n s t \<Longrightarrow> fresh_frame n s (t\<lparr>next_ref := Suc n\<rparr>)"
  by (auto simp: fresh_frame_def)

lemma fresh_frame_wf:
  assumes "fresh_frame (next_ref s) s t" and "lacp_wf s"
  shows "lacp_wf t"
proof -
  have pm: "port_mem t p = port_mem s p" if "p \<in> set (ports s)" for p
    using assms that by (simp add: fresh_frame_def lacp_wf_def)
  have am: "agg_mem t a = agg_mem s a" if "a \<in> set (aggregators s)" for a
    using assms that by (simp add: fresh_frame_def lacp_wf_def)
  have eq: "ports t = ports s" "aggregators t = aggregators s"
    "next_port_agg_id t = next_port_agg_id s" "next_ref s \<le> next_ref t"
    using assms(1) by (simp_all add: fresh_frame_def)
  have "agg_ok t a" if "a \<in> set (aggregators s)" for a
    using that assms(2) pm am by (auto simp: lacp_wf_def agg_ok_def eq)
  moreover have "inj_on (\<lambda>p. dev_ifindex (port_mem t p)) (set (ports s))"
    using assms(2) pm by (simp add: lacp_wf_def inj_on_def)
  moreover have "inj_on (\<lambda>a. aggregator_identifier (agg_mem t a)) (set (aggregators s))"
    using assms(2) am by (simp add: lacp_wf_def inj_on_def)
  moreover have "\<forall>p\<in>set (ports s). p < next_ref t" "\<forall>a\<in>set (aggregators s). a < next_ref t"
    using assms(2) eq(4) by (auto simp: lacp_wf_def)
  ultimately show ?thesis
    using assms(2) unfolding lacp_wf_def eq by (simp add: pm am)
qed

subsection \<open>The machines of a new port\<close>

text \<open>A table that the runner accepts: it is small enough and has its initial state.\<close>

definition table_ok :: "('q, 's) state_machine_base \<Rightarrow> bool" where
  "table_ok b \<longleftrightarrow> max_state b \<le> FSM_MAX_STATE \<and> initial_state b \<in> set (map st_id (base_states b))"

lemma tables_ok:
  "table_ok (receive_machine_base p)" "table_ok (periodic_transmit_machine_base p)"
  "table_ok (selection_machine_base p)" "table_ok (mux_machine_base api p)"
  "table_ok (transmit_machine_base api p)"
  by (simp_all add: table_ok_def max_state_def FSM_MAX_STATE_def receive_machine_base_def
      periodic_transmit_machine_base_def selection_machine_base_def mux_machine_base_def
      transmit_machine_base_def)

definition open_runner :: "lacpd_port_state_machines fsm_runner \<Rightarrow> bool" where
  "open_runner r \<longleftrightarrow> \<not> initialized r \<and> has_timer_cb r"

lemma runner_update_same [simp]: "P\<lparr>runner := runner P\<rparr> = P" for P :: lacpd_port
  by (cases P) simp

text \<open>The struct of a machine and its place in the runner, right after it was added.\<close>

fun machine_added :: "lacpd_port_state_machines \<Rightarrow> lacpd_port \<Rightarrow> lacpd_port" where
  "machine_added LACPD_PORT_STATE_MACHINE_RECEIVE P = P\<lparr>
     m_receive := \<lparr>recv_state = LACPD_RECV_ST_INITIALIZE, current_while_timer = idle_timer\<rparr>,
     runner := (runner P)\<lparr>machines := machines (runner P) @ [LACPD_PORT_STATE_MACHINE_RECEIVE]\<rparr>\<rparr>"
| "machine_added LACPD_PORT_STATE_MACHINE_PERIODIC P = P\<lparr>
     m_periodic := \<lparr>periodic_state = LACPD_PERIODIC_ST_NO_PERIODIC, periodic_timer = idle_timer\<rparr>,
     runner := (runner P)\<lparr>machines := machines (runner P) @ [LACPD_PORT_STATE_MACHINE_PERIODIC]\<rparr>\<rparr>"
| "machine_added LACPD_PORT_STATE_MACHINE_SELECT P = P\<lparr>
     m_select := \<lparr>select_state = LACPD_SELECT_LOGIC_ST_UNSELECTED\<rparr>,
     runner := (runner P)\<lparr>machines := machines (runner P) @ [LACPD_PORT_STATE_MACHINE_SELECT]\<rparr>\<rparr>"
| "machine_added LACPD_PORT_STATE_MACHINE_MUX P = P\<lparr>
     m_mux := \<lparr>mux_state = LACPD_MUX_ST_DETACHED, wait_while_timer = idle_timer\<rparr>,
     runner := (runner P)\<lparr>machines := machines (runner P) @ [LACPD_PORT_STATE_MACHINE_MUX]\<rparr>\<rparr>"
| "machine_added LACPD_PORT_STATE_MACHINE_TRANSMIT P = P\<lparr>
     m_transmit := \<lparr>transmit_state = LACPD_TRANSMIT_ST_NO_TX,
       rate_limit_timer = timer_set LACP_FAST_PERIODIC_TIME idle_timer, pkt_sent = 0\<rparr>,
     runner := (runner P)\<lparr>machines := machines (runner P) @ [LACPD_PORT_STATE_MACHINE_TRANSMIT]\<rparr>\<rparr>"

definition adds_machine ::
    "'e lacp_out_api \<Rightarrow> port_ref \<Rightarrow> lacpd_port_state_machines \<Rightarrow>
     ('e lacpd_lacp \<Rightarrow> bool \<times> 'e lacpd_lacp) \<Rightarrow> bool" where
  "adds_machine api p m add \<longleftrightarrow>
     (\<forall>s. open_runner (port_runner p s) \<longrightarrow> m \<notin> set (machines (port_runner p s)) \<longrightarrow>
        add s = (let (ok, e) = os_calloc api (env s) in
          (ok, if ok then upd_port p (machine_added m) (s\<lparr>env := e\<rparr>) else s\<lparr>env := e\<rparr>)))"

lemma adds_machineI:
  fixes api :: "'e lacp_out_api"
  assumes "\<And>s. new s = (let (ok, s1) = call_api (os_calloc api) s in
      if \<not> ok then (None, s1) else (Some (m, b), upd_port p f s1))"
    and "table_ok b" and "\<And>P. runner (f P) = runner P"
    and "\<And>P. machine_added m P = (f P)\<lparr>runner := (runner P)\<lparr>machines := machines (runner P) @ [m]\<rparr>\<rparr>"
  shows "adds_machine api p m (add_machine p new)"
  unfolding adds_machine_def
proof (intro allI impI)
  fix s :: "'e lacpd_lacp"
  assume open_r: "open_runner (port_runner p s)" and new_m: "m \<notin> set (machines (port_runner p s))"
  obtain ok e where c: "os_calloc api (env s) = (ok, e)" by fastforce
  show "add_machine p new s = (let (ok, e) = os_calloc api (env s) in
          (ok, if ok then upd_port p (machine_added m) (s\<lparr>env := e\<rparr>) else s\<lparr>env := e\<rparr>))"
  proof (cases ok)
    case True
    have "find (\<lambda>x. x = m) (machines (port_runner p s)) = None"
      using new_m by (auto simp: find_None_iff)
    with True c assms open_r show ?thesis
      by (simp add: add_machine_def fsm_runner_add_state_machine_def table_ok_def open_runner_def
          upd_runner_def fsm_runner_lookup_state_machine_def list_add_tail_def upd_port_def call_api_def)
  next
    case False
    with c assms open_r show ?thesis
      by (simp add: add_machine_def fsm_runner_add_state_machine_def open_runner_def
          upd_runner_def upd_port_def call_api_def)
  qed
qed

lemma adds_machines:
  "adds_machine api p LACPD_PORT_STATE_MACHINE_RECEIVE (add_machine p (lacpd_fsm_receive_new api p))"
  "adds_machine api p LACPD_PORT_STATE_MACHINE_PERIODIC (add_machine p (lacpd_fsm_periodic_transmission_new api p))"
  "adds_machine api p LACPD_PORT_STATE_MACHINE_SELECT (add_machine p (lacpd_fsm_selection_logic_new api p))"
  "adds_machine api p LACPD_PORT_STATE_MACHINE_MUX (add_machine p (lacpd_fsm_mux_new api p))"
  "adds_machine api p LACPD_PORT_STATE_MACHINE_TRANSMIT (add_machine p (lacpd_fsm_transmit_new api p))"
  by (rule adds_machineI [OF lacpd_fsm_receive_new_def tables_ok(1)], simp_all add: upd_receive_def)
    (rule adds_machineI [OF lacpd_fsm_periodic_transmission_new_def tables_ok(2)], simp_all add: upd_periodic_def,
     rule adds_machineI [OF lacpd_fsm_selection_logic_new_def tables_ok(3)], simp_all add: upd_select_def,
     rule adds_machineI [OF lacpd_fsm_mux_new_def tables_ok(4)], simp_all add: upd_mux_def,
     rule adds_machineI [OF lacpd_fsm_transmit_new_def tables_ok(5)], simp_all add: upd_transmit_def)

lemma runner_machine_added:
  "runner (fold machine_added ms P) = (runner P)\<lparr>machines := machines (runner P) @ ms\<rparr>"
proof (induction ms arbitrary: P)
  case (Cons m ms)
  have "runner (machine_added m P) = (runner P)\<lparr>machines := machines (runner P) @ [m]\<rparr>"
    by (cases m) simp_all
  with Cons show ?case by simp
qed simp

text \<open>
  The state \<open>s\<close> after the machines \<open>ms\<close> were added to the port and the device layer has moved
  on to \<open>e\<close>.
\<close>

definition built ::
    "port_ref \<Rightarrow> lacpd_port_state_machines list \<Rightarrow> 'e lacpd_lacp \<Rightarrow> 'e \<Rightarrow> 'e lacpd_lacp" where
  "built p ms s e = upd_port p (fold machine_added ms) (s\<lparr>env := e\<rparr>)"

text \<open>A number of allocations in a row, up to the first that returns NULL.\<close>

fun allocs :: "'e lacp_out_api \<Rightarrow> nat \<Rightarrow> 'e \<Rightarrow> bool \<times> 'e" where
  "allocs api 0 e = (True, e)"
| "allocs api (Suc n) e =
     (let (ok, e1) = os_calloc api e in if ok then allocs api n e1 else (False, e1))"

lemma built_start: "built p [] s (env s) = s"
  by (simp add: built_def upd_port_def)

lemma built_step:
  assumes "adds_machine api p m add" and "open_runner (port_runner p s)"
    and "m \<notin> set (machines (port_runner p s) @ ms)"
  shows "add (built p ms s e) =
    (let (ok, e') = os_calloc api e in (ok, built p (if ok then ms @ [m] else ms) s e'))"
proof -
  have "open_runner (port_runner p (built p ms s e))" "m \<notin> set (machines (port_runner p (built p ms s e)))"
    using assms(2,3) by (simp_all add: built_def runner_machine_added open_runner_def)
  moreover have "(upd_port p H u)\<lparr>env := e'\<rparr> = upd_port p H (u\<lparr>env := e'\<rparr>)" for H e' and u :: "'a lacpd_lacp"
    by (simp add: upd_port_def)
  ultimately show ?thesis
    using assms(1) by (simp add: adds_machine_def built_def comp_def split: prod.splits)
qed

lemma add_machines_built:
  assumes "open_runner (port_runner p s)" and "machines (port_runner p s) = []"
    and "lacpd_port_add_machines api p s = (ok, t)"
  shows "ok = fst (allocs api 5 (env s)) \<and>
    (\<exists>ms. t = built p ms s (snd (allocs api 5 (env s))) \<and> (ok \<longrightarrow> ms = lacp_machines))"
proof -
  note step = built_step [OF adds_machines(1) assms(1)] built_step [OF adds_machines(2) assms(1)]
    built_step [OF adds_machines(3) assms(1)] built_step [OF adds_machines(4) assms(1)]
    built_step [OF adds_machines(5) assms(1)]
  have five: "(5 :: nat) = Suc (Suc (Suc (Suc (Suc 0))))" by simp
  have "lacpd_port_add_machines api p (built p [] s (env s)) = (ok, t)"
    using assms(3) by (simp add: built_start)
  then show ?thesis
    unfolding lacpd_port_add_machines_def five
    by (auto simp: step assms(2) lacp_machines_def split: prod.splits if_splits; blast)
qed

subsection \<open>Cleaning up\<close>

text \<open>The timers that live inside a port's memory.\<close>

definition port_timers :: "lacpd_port \<Rightarrow> genl_os_service_timer list" where
  "port_timers P = [runner_timer (runner P), current_while_timer (m_receive P),
     periodic_timer (m_periodic P), wait_while_timer (m_mux P), rate_limit_timer (m_transmit P)]"

definition timers_idle :: "lacpd_port \<Rightarrow> bool" where
  "timers_idle P \<longleftrightarrow> list_all (\<lambda>t. \<not> pending t) (port_timers P)"

lemmas machine_destroy_defs = lacpd_fsm_receive_destroy_def lacpd_fsm_periodic_transmission_destroy_def
  lacpd_fsm_selection_logic_destroy_def lacpd_fsm_mux_destroy_def lacpd_fsm_transmit_destroy_def
  upd_receive_def upd_periodic_def upd_mux_def upd_transmit_def

definition keeps_identity :: "lacpd_port \<Rightarrow> lacpd_port \<Rightarrow> bool" where
  "keeps_identity P Q \<longleftrightarrow> dev_ifindex Q = dev_ifindex P \<and>
     actor_port_aggregator_identifier Q = actor_port_aggregator_identifier P"

lemma machine_destroy_port:
  "\<exists>f. lacpd_machine_destroy p m s = upd_port p f s \<and> (\<forall>P. keeps_identity P (f P))"
proof (cases m)
  case LACPD_PORT_STATE_MACHINE_SELECT
  then show ?thesis
    by (intro exI [where x = id])
      (simp add: lacpd_machine_destroy_def lacpd_fsm_selection_logic_destroy_def upd_port_def keeps_identity_def)
qed (auto simp: lacpd_machine_destroy_def machine_destroy_defs keeps_identity_def)

lemma cleanup_fold:
  "\<exists>f. fold (\<lambda>m t. lacpd_machine_destroy p m
        (upd_runner p (\<lambda>_. snd (fsm_runner_del_state_machine (port_runner p t) (Some m))) t)) ms s =
      upd_port p f s \<and> (\<forall>P. keeps_identity P (f P))"
proof (induction ms arbitrary: s)
  case Nil
  show ?case by (intro exI [where x = id]) (simp add: upd_port_def keeps_identity_def)
next
  case (Cons m ms)
  let ?r = "snd (fsm_runner_del_state_machine (port_runner p s) (Some m))"
  obtain g where g: "lacpd_machine_destroy p m (upd_runner p (\<lambda>_. ?r) s) = upd_port p g (upd_runner p (\<lambda>_. ?r) s)"
    "\<forall>P. keeps_identity P (g P)"
    using machine_destroy_port by blast
  from Cons [of "upd_port p g (upd_runner p (\<lambda>_. ?r) s)"] obtain f where
    f: "fold (\<lambda>m t. lacpd_machine_destroy p m
        (upd_runner p (\<lambda>_. snd (fsm_runner_del_state_machine (port_runner p t) (Some m))) t)) ms
        (upd_port p g (upd_runner p (\<lambda>_. ?r) s)) = upd_port p f (upd_port p g (upd_runner p (\<lambda>_. ?r) s))"
      "\<forall>P. keeps_identity P (f P)" by blast
  have "keeps_identity P ((f \<circ> (g \<circ> (\<lambda>P. P\<lparr>runner := ?r\<rparr>))) P)" for P
    using f(2) g(2) by (simp add: keeps_identity_def)
  with f(1) g(1) show ?case by (auto simp: upd_runner_def comp_assoc)
qed

lemma cleanup_returns:
  assumes "has_os_service (port_runner p s)"
  shows "\<exists>f. lacpd_port_cleanup p s = Returns (upd_port p f s) \<and> (\<forall>P. keeps_identity P (f P))"
proof -
  define r where "r = (port_runner p s)\<lparr>runner_timer := timer_cancel (runner_timer (port_runner p s))\<rparr>"
  obtain f where f: "fold (\<lambda>m t. lacpd_machine_destroy p m
        (upd_runner p (\<lambda>_. snd (fsm_runner_del_state_machine (port_runner p t) (Some m))) t))
      (machines r) (upd_runner p (\<lambda>_. r) s) = upd_port p f (upd_runner p (\<lambda>_. r) s)"
      "\<forall>P. keeps_identity P (f P)"
    using cleanup_fold by blast
  let ?t = "upd_port p f (upd_runner p (\<lambda>_. r) s)"
  have "lacpd_port_cleanup p s = Returns (upd_runner p (\<lambda>_. (port_runner p ?t)\<lparr>initialized := False\<rparr>) ?t)"
    using assms f(1) by (simp add: lacpd_port_cleanup_def fsm_runner_cleanup_def fsm_runner_stop_def r_def Let_def)
  moreover have "keeps_identity P
      (((\<lambda>P. P\<lparr>runner := (port_runner p ?t)\<lparr>initialized := False\<rparr>\<rparr>) \<circ> (f \<circ> (\<lambda>P. P\<lparr>runner := r\<rparr>))) P)" for P
    using f(2) by (simp add: keeps_identity_def)
  ultimately show ?thesis
    by (auto simp: upd_runner_def comp_assoc)
qed

lemma cleanup_no_os_service:
  "\<not> has_os_service (port_runner p s) \<Longrightarrow> lacpd_port_cleanup p s = Fault Null_Deref"
  by (simp add: lacpd_port_cleanup_def fsm_runner_cleanup_def fsm_runner_stop_def)

text \<open>A port with all its machines is left without a running timer.\<close>

lemma cleanup_timers:
  assumes "runner_ok (port_runner p s)" and "lacpd_port_cleanup p s = Returns t"
  shows "timers_idle (port_mem t p)"
proof -
  have m: "machines (port_runner p s) = lacp_machines" "has_os_service (port_runner p s)"
    using assms(1) by (simp_all add: runner_ok_def)
  show ?thesis
    using assms(2) m
    by (auto simp: lacpd_port_cleanup_def fsm_runner_cleanup_def fsm_runner_stop_def Let_def lacp_machines_def
        lacpd_machine_destroy_def machine_destroy_defs upd_runner_def fsm_runner_del_state_machine_def
        timers_idle_def port_timers_def)
qed

subsection \<open>The new port\<close>

lemma keys_zero_state [simp]:
  "synchronization port_info_state_zero = False" "collecting port_info_state_zero = False"
  "distributing port_info_state_zero = False"
  by (simp_all add: port_info_state_zero_def)

text \<open>The port as \<^verbatim>\<open>lacpd_port_new\<close> leaves it, before its machines are created.\<close>

definition port_initialized ::
    "'e lacp_out_api \<Rightarrow> 'e \<Rightarrow> 'e lacpd_lacp \<Rightarrow> u32 \<Rightarrow> u32 \<Rightarrow> lacp_port_parameters option \<Rightarrow> mac_addr \<Rightarrow> lacpd_port" where
  "port_initialized api e s port_num ifindex prm mac =
     (lacpd_port_initialize_runtime_variable api e
       (lacpd_port_initialize_manageable_variable s port_num prm
         (lacpd_port_zero\<lparr>dev_ifindex := ifindex, port_mac := mac\<rparr>)))\<lparr>runner := fsm_runner_init fsm_runner_zero\<rparr>"

lemma port_initialized_simps [simp]:
  "dev_ifindex (port_initialized api e s n i prm mac) = i"
  "actor_port_aggregator_identifier (port_initialized api e s n i prm mac) = 0"
  "runner (port_initialized api e s n i prm mac) = fsm_runner_init fsm_runner_zero"
  by (simp_all add: port_initialized_def lacpd_port_initialize_runtime_variable_def
      lacpd_port_initialize_manageable_variable_def Let_def)

lemma manageable_cong:
  "actor_system t = actor_system s \<Longrightarrow> actor_system_priority t = actor_system_priority s \<Longrightarrow>
   param t = param s \<Longrightarrow>
   lacpd_port_initialize_manageable_variable t n prm P = lacpd_port_initialize_manageable_variable s n prm P"
  by (simp add: lacpd_port_initialize_manageable_variable_def)

lemma upd_port_env: "(upd_port p f s)\<lparr>env := e\<rparr> = upd_port p f (s\<lparr>env := e\<rparr>)"
  by (simp add: upd_port_def)

lemma initialized_chain:
  assumes "actor_system t = actor_system s" "actor_system_priority t = actor_system_priority s" "param t = param s"
  shows "upd_runner p fsm_runner_init (upd_port p (lacpd_port_initialize_runtime_variable api e)
      (upd_port p (lacpd_port_initialize_manageable_variable t n prm)
        (upd_port p (\<lambda>P. P\<lparr>port_mac := mac, lacpdu_indicate := False\<rparr>)
          (upd_port p (\<lambda>_. lacpd_port_zero\<lparr>dev_ifindex := i\<rparr>) s)))) =
    upd_port p (\<lambda>_. port_initialized api e s n i prm mac) s"
proof -
  have z: "lacpd_port_zero\<lparr>dev_ifindex := i, port_mac := mac, lacpdu_indicate := False\<rparr> =
      lacpd_port_zero\<lparr>dev_ifindex := i, port_mac := mac\<rparr>"
    by (simp add: lacpd_port_zero_def)
  have r: "runner (lacpd_port_initialize_runtime_variable api e
      (lacpd_port_initialize_manageable_variable s n prm (lacpd_port_zero\<lparr>dev_ifindex := i, port_mac := mac\<rparr>))) =
      fsm_runner_zero"
    by (simp add: lacpd_port_initialize_runtime_variable_def lacpd_port_initialize_manageable_variable_def
        Let_def lacpd_port_zero_def)
  show ?thesis
    by (simp add: upd_runner_def upd_port_def port_initialized_def manageable_cong [OF assms] z r)
qed

lemma port_initialized_env [simp]:
  "port_initialized api e (s\<lparr>next_ref := k, env := e'\<rparr>) n i prm mac = port_initialized api e s n i prm mac"
  by (simp add: port_initialized_def lacpd_port_initialize_manageable_variable_def)

text \<open>A port that was set up completely is well-formed on its own.\<close>

lemma new_port_ok:
  assumes "i \<noteq> 0"
  shows "port_ok (fold machine_added lacp_machines (port_initialized api e s n i prm mac))"
  using assms
  by (simp add: lacp_machines_def port_ok_defs runner_ok_def port_initialized_def fsm_runner_init_def
      fsm_runner_zero_def lacpd_port_initialize_runtime_variable_def lacpd_port_zero_def
      lacpd_port_initialize_manageable_variable_def Let_def port_info_zero_def)

text \<open>
  Every outcome of creating a port, with the calls it makes: the struct, the MAC address of the
  device, and the structs of the five machines.
\<close>

lemma port_new_refused:
  "n = 0 \<or> i = 0 \<Longrightarrow> lacpd_port_new api n i prm s = Returns (None, s)"
  "n \<noteq> 0 \<Longrightarrow> i \<noteq> 0 \<Longrightarrow> os_calloc api (env s) = (False, e) \<Longrightarrow>
   lacpd_port_new api n i prm s = Returns (None, s\<lparr>env := e\<rparr>)"
  by (auto simp: lacpd_port_new_def call_api_def)

lemma port_new_crash:
  assumes "n \<noteq> 0" "i \<noteq> 0" and "os_calloc api (env s) = (True, e)" and "get_dev_mac_addr api i e = (None, e2)"
  shows "lacpd_port_new api n i prm s = Fault Null_Deref"
proof -
  let ?s2 = "upd_port (next_ref s) (\<lambda>_. lacpd_port_zero\<lparr>dev_ifindex := i\<rparr>)
    (s\<lparr>next_ref := Suc (next_ref s), env := e2\<rparr>)"
  have "\<not> has_os_service (port_runner (next_ref s) ?s2)"
    by (simp add: lacpd_port_zero_def fsm_runner_zero_def)
  from cleanup_no_os_service [OF this] show ?thesis
    using assms by (simp add: lacpd_port_new_def call_api_def new_port_failed_def Let_def upd_port_env)
qed

lemma port_new_machines:
  assumes "n \<noteq> 0" "i \<noteq> 0" and c: "os_calloc api (env s) = (True, e)"
    and m: "get_dev_mac_addr api i e = (Some mac, e2)"
  shows "\<exists>t. fresh_frame (next_ref s) s t \<and> env t = snd (allocs api 5 e2) \<and>
    (if fst (allocs api 5 e2)
     then lacpd_port_new api n i prm s = Returns (Some (next_ref s), t) \<and> next_ref t = Suc (next_ref s) \<and>
       port_mem t (next_ref s) = fold machine_added lacp_machines (port_initialized api e2 s n i prm mac)
     else lacpd_port_new api n i prm s = Returns (None, t))"
proof -
  let ?p = "next_ref s"
  let ?P = "port_initialized api e2 s n i prm mac"
  let ?s6 = "upd_port ?p (\<lambda>_. ?P) (s\<lparr>next_ref := Suc ?p, env := e2\<rparr>)"
  obtain ok t where a: "lacpd_port_add_machines api ?p ?s6 = (ok, t)" by fastforce
  have "open_runner (port_runner ?p ?s6)" "machines (port_runner ?p ?s6) = []"
    by (simp_all add: open_runner_def fsm_runner_init_def)
  from add_machines_built [OF this a] obtain ms where
    ok: "ok = fst (allocs api 5 e2)" and t: "t = built ?p ms ?s6 (snd (allocs api 5 e2))"
    and ms: "ok \<longrightarrow> ms = lacp_machines" by auto
  have ft: "fresh_frame ?p s t" "env t = snd (allocs api 5 e2)"
    by (simp_all add: t built_def fresh_frame_def)
  have r: "lacpd_port_new api n i prm s = (if ok then Returns (Some ?p, t) else new_port_failed ?p t)"
    using assms a
    by (cases ok) (simp_all add: lacpd_port_new_def call_api_def Let_def initialized_chain upd_port_env
        del: upd_port_upd_port)
  show ?thesis
  proof (cases ok)
    case True
    with r ms ft t ok show ?thesis by (auto simp: built_def)
  next
    case no: False
    have "has_os_service (port_runner ?p t)"
      by (simp add: t built_def runner_machine_added fsm_runner_init_def)
    from cleanup_returns [OF this] obtain f where
      "lacpd_port_cleanup ?p t = Returns (upd_port ?p f t)" by blast
    with r no ft ok show ?thesis
      by (intro exI [of _ "upd_port ?p f t"]) (simp add: new_port_failed_def)
  qed
qed

end
