(* ===== verification/Lacp.thy ===== *)
theory Lacp
  imports Lacp_Port
begin

text \<open>
  The operations of an LACP instance that its wrapper calls (qca/src/qca-lacpd/lacp/lacp.c):
  devices join and leave, link changes, received packets, creation and destruction; and that
  each keeps the instance well-formed.
\<close>

subsection \<open>The operations\<close>

definition lacpd_add_device ::
    "'e lacp_out_api \<Rightarrow> u32 \<Rightarrow> lacp_port_parameters option \<Rightarrow> 'e lacpd_lacp \<Rightarrow>
     (bool \<times> 'e lacpd_lacp) outcome" where
  "lacpd_add_device api ifindex prm s =
     (case lacpd_port_lookup s ifindex of
        Some p \<Rightarrow> Returns (False, s)
      | None \<Rightarrow>
          bind_outcome (lacpd_port_new api (next_port_agg_id s) ifindex prm s) (\<lambda>(port, s1).
            case port of
              None \<Rightarrow> Returns (False, s1)
            | Some p \<Rightarrow>
                let (agg, s2) = lacpd_aggregator_new api (next_port_agg_id s1) s1 in
                (case agg of
                   None \<Rightarrow> bind_outcome (lacpd_port_destroy api p s2) (\<lambda>s3. Returns (False, s3))
                 | Some a \<Rightarrow>
                     let s3 = s2\<lparr>ports := list_add_tail p (ports s2),
                                aggregators := list_add_tail a (aggregators s2),
                                next_port_agg_id := next_port_agg_id s2 + 1\<rparr>;
                         s4 = snd (call_api (enable_lacp api (dev_ifindex (port_mem s3 p))) s3)
                     in Returns (True, lacpd_port_fsm_schedule_run p s4))))"

definition lacpd_del_device :: "'e lacp_out_api \<Rightarrow> u32 \<Rightarrow> 'e lacpd_lacp \<Rightarrow> (bool \<times> 'e lacpd_lacp) outcome" where
  "lacpd_del_device api ifindex s =
     (case lacpd_port_lookup s ifindex of
        None \<Rightarrow> Returns (False, s)
      | Some p \<Rightarrow>
          let s1 = snd (call_api (disable_lacp api (dev_ifindex (port_mem s p))) s);
              s2 = s1\<lparr>ports := list_del p (ports s1)\<rparr>
          in bind_outcome (lacpd_port_destroy api p s2) (\<lambda>s3.
               case lacpd_aggregator_lookup s3 lacpd_aggregator_selector_by_free of
                 None \<Rightarrow> Returns (True, s3)
               | Some a \<Rightarrow>
                   let s4 = s3\<lparr>aggregators := list_del a (aggregators s3)\<rparr>
                   in Returns (True, lacpd_aggregator_destroy api a s4)))"

text \<open>\<^verbatim>\<open>list_for_each_entry_safe\<close> with a break at the first port of the device.\<close>

definition port_of_device :: "'e lacpd_lacp \<Rightarrow> u32 \<Rightarrow> port_ref option" where
  "port_of_device s ifindex = find (\<lambda>p. dev_ifindex (port_mem s p) = ifindex) (ports s)"

definition link_updated :: "'e lacp_out_api \<Rightarrow> 'e \<Rightarrow> u32 \<Rightarrow> lacpd_port \<Rightarrow> lacpd_port" where
  "link_updated api e new_status P =
     (let ukey = lacp_port_key_get_user (info_key (actor_port_info P));
          duplex = get_dev_duplex api e (dev_ifindex P);
          speed = get_dev_speed api e (dev_ifindex P);
          A = actor_port_info P
      in P\<lparr>actor_port_info := A\<lparr>
             info_key := lacp_port_key_make ukey (ucast (lacpd_port_speed_to_key speed)) duplex,
             info_state := (info_state A)\<lparr>aggregation := duplex \<noteq> 0\<rparr>\<rparr>,
           port_enabled := new_status \<noteq> 0,
           runner := (runner P)\<lparr>initialized := False\<rparr>\<rparr>)"

definition lacpd_link_status_changed ::
    "'e lacp_out_api \<Rightarrow> u32 \<Rightarrow> u32 \<Rightarrow> 'e lacpd_lacp \<Rightarrow> 'e lacpd_lacp" where
  "lacpd_link_status_changed api ifindex new_status s =
     (case port_of_device s ifindex of
        None \<Rightarrow> s
      | Some p \<Rightarrow>
          lacpd_port_fsm_schedule_run p (upd_port p (link_updated api (env s) new_status) s))"

text \<open>
  The length of the buffer is not looked at. Copying the packet out of a buffer that is
  shorter than the packet reads out of bounds.
\<close>

definition lacpd_receive_lacpdu ::
    "u8 list \<Rightarrow> u32 \<Rightarrow> u32 \<Rightarrow> 'e lacpd_lacp \<Rightarrow> (bool \<times> 'e lacpd_lacp) outcome" where
  "lacpd_receive_lacpdu buf buf_len ifindex s =
     (case port_of_device s ifindex of
        None \<Rightarrow> Returns (False, s)
      | Some p \<Rightarrow>
          bind_outcome (lacp_pkt_of_bytes buf) (\<lambda>pkt.
            Returns (True, lacpd_port_fsm_schedule_run p
              (upd_port p (\<lambda>P. P\<lparr>message := lacp pkt, lacpdu_indicate := True\<rparr>) s))))"

fun destroy_ports :: "'e lacp_out_api \<Rightarrow> port_ref list \<Rightarrow> 'e lacpd_lacp \<Rightarrow> 'e lacpd_lacp outcome" where
  "destroy_ports api [] s = Returns s"
| "destroy_ports api (p # ps) s =
     (let s1 = snd (call_api (disable_lacp api (dev_ifindex (port_mem s p))) s);
          s2 = s1\<lparr>ports := list_del p (ports s1)\<rparr>
      in bind_outcome (lacpd_port_destroy api p s2) (destroy_ports api ps))"

definition destroy_aggregators :: "'e lacp_out_api \<Rightarrow> agg_ref list \<Rightarrow> 'e lacpd_lacp \<Rightarrow> 'e lacpd_lacp" where
  "destroy_aggregators api as s =
     fold (\<lambda>a t. lacpd_aggregator_destroy api a (t\<lparr>aggregators := list_del a (aggregators t)\<rparr>)) as s"

definition lacp_destroy :: "'e lacp_out_api \<Rightarrow> 'e lacpd_lacp \<Rightarrow> 'e lacpd_lacp outcome" where
  "lacp_destroy api s =
     bind_outcome (destroy_ports api (ports s) s) (\<lambda>t.
       Returns (destroy_aggregators api (aggregators t) t))"

text \<open>
  A new instance. Its heap is empty: the references of the ports and aggregators it will
  allocate start at 0. The contents of unallocated references do not matter.
\<close>

definition lacp_new ::
    "string option \<Rightarrow> 'e lacp_out_api option \<Rightarrow> lacp_parameters \<Rightarrow> 'e \<Rightarrow> 'e lacpd_lacp option \<times> 'e" where
  "lacp_new name user prm e =
     (case (name, user) of
        (Some nm, Some api) \<Rightarrow>
          let (ok, e1) = os_calloc api e in
          if \<not> ok then (None, e1)
          else
            let (mac_opt, e2) = get_sys_mac_addr api e1 in
               (case mac_opt of
                  None \<Rightarrow> (None, e2)
                | Some mac \<Rightarrow>
                    (Some \<lparr>lacp_name = snprintf_buf LACP_NAME_SIZE nm, param = prm, actor_system = mac,
                       actor_system_priority = ucast (priority prm), next_port_agg_id = 1, ports = [],
                       aggregators = [], active_aggregator = 0, port_mem = (\<lambda>_. lacpd_port_zero),
                       agg_mem = (\<lambda>_. aggregator_zero), next_ref = 0, env = e2\<rparr>, e2))
      | _ \<Rightarrow> (None, e))"

subsection \<open>A port leaves\<close>

definition port_gone :: "port_ref \<Rightarrow> 'e lacpd_lacp \<Rightarrow> 'e lacpd_lacp \<Rightarrow> bool" where
  "port_gone p s t \<longleftrightarrow>
     ports t = list_del p (ports s) \<and> aggregators t = aggregators s \<and>
     next_ref t = next_ref s \<and> next_port_agg_id t = next_port_agg_id s \<and>
     (\<forall>q. q \<noteq> p \<longrightarrow> port_mem t q = port_mem s q) \<and>
     (\<forall>a\<in>set (aggregators s).
        aggregator_identifier (agg_mem t a) = aggregator_identifier (agg_mem s a) \<and>
        agg_ports (agg_mem t a) = list_del p (agg_ports (agg_mem s a)) \<and>
        (is_free (agg_mem t a) \<longleftrightarrow> agg_ports (agg_mem t a) = []))"

text \<open>The instance between \<^verbatim>\<open>list_del(&port->node)\<close> and \<^verbatim>\<open>lacpd_port_destroy\<close>.\<close>

definition port_unlinked :: "port_ref \<Rightarrow> 'e lacpd_lacp \<Rightarrow> 'e lacpd_lacp \<Rightarrow> bool" where
  "port_unlinked p s t \<longleftrightarrow>
     ports t = list_del p (ports s) \<and> aggregators t = aggregators s \<and> next_ref t = next_ref s \<and>
     next_port_agg_id t = next_port_agg_id s \<and> port_mem t = port_mem s \<and> agg_mem t = agg_mem s"

lemma port_unlinked_call [simp]:
  "port_unlinked p s ((snd (call_api f s))\<lparr>ports := list_del p (ports (snd (call_api f s)))\<rparr>)"
  by (simp add: port_unlinked_def call_api_def split: prod.splits)

lemma port_destroy_gone:
  assumes wf: "wf_port p s" and u: "port_unlinked p s s'"
  obtains t where "lacpd_port_destroy api p s' = Returns t" "port_gone p s t" "timers_idle (port_mem t p)"
proof -
  have rn: "runner_ok (port_runner p s')"
    using wf u by (simp add: port_unlinked_def lacp_wf_def port_ok_def)
  then obtain f where c: "lacpd_port_cleanup p s' = Returns (upd_port p f s')"
    and f: "\<And>P. keeps_identity P (f P)"
    using cleanup_returns [where p = p and s = s'] by (auto simp: runner_ok_def)
  let ?s1 = "upd_port p f s'"
  have idle: "timers_idle (port_mem ?s1 p)" by (rule cleanup_timers [OF rn c])
  have id1: "actor_port_aggregator_identifier (port_mem ?s1 p) = actor_port_aggregator_identifier (port_mem s p)"
    using f u by (simp add: keeps_identity_def port_unlinked_def)
  have lk: "lacpd_aggregator_lookup ?s1 sel = lacpd_aggregator_lookup s sel" for sel
    using u by (simp add: lacpd_aggregator_lookup_def port_unlinked_def)
  have aok: "agg_ok s a" if "a \<in> set (aggregators s)" for a
    using wf that by (simp add: lacp_wf_def)
  show ?thesis
  proof (cases "actor_port_aggregator_identifier (port_mem s p) = 0")
    case True
    have "p \<notin> set (agg_ports (agg_mem s a))" if "a \<in> set (aggregators s)" for a
      using aok [OF that] True by (auto simp: agg_ok_def)
    then have "port_gone p s ?s1"
      using u aok by (auto simp: port_gone_def port_unlinked_def agg_ok_def)
    moreover have "lacpd_port_destroy api p s' = Returns ?s1"
      by (simp only: lacpd_port_destroy_def c bind_outcome.simps id1 True lookup_by_id_0 option.simps)
    ultimately show ?thesis using that idle by blast
  next
    case False
    from lookup_own_aggregator [OF wf this] obtain a where a: "a \<in> set (aggregators s)"
      "lacpd_aggregator_lookup s (lacpd_aggregator_selector_by_id (actor_port_aggregator_identifier (port_mem s p))) = Some a"
      "aggregator_identifier (agg_mem s a) = actor_port_aggregator_identifier (port_mem s p)"
      "p \<in> set (agg_ports (agg_mem s a))" by blast
    let ?s2 = "snd (lacpd_aggregator_detach_port api a p ?s1)"
    have d: "dev_frame ?s1 ?s2" by simp
    let ?t = "snd (lacpd_aggregator_del_port a p ?s2)"
    have ps: "agg_ports (agg_mem ?s2 a) = agg_ports (agg_mem s a)"
      using dev_frame_agg(1) [OF d, of a] u by (simp add: port_unlinked_def)
    then have "p \<in> set (agg_ports (agg_mem ?s2 a))" using a by simp
    note del = del_port_result [OF this]
    have other: "p \<notin> set (agg_ports (agg_mem s b))" if "b \<in> set (aggregators s)" "b \<noteq> a" for b
      using aok [OF that(1)] a wf that by (auto simp: agg_ok_def lacp_wf_def inj_on_def)
    have eq: "agg_ports (agg_mem ?s2 b) = agg_ports (agg_mem s b)"
      "aggregator_identifier (agg_mem ?s2 b) = aggregator_identifier (agg_mem s b)"
      "is_free (agg_mem ?s2 b) = is_free (agg_mem s b)" for b
      using dev_frame_agg [OF d, of b] u by (simp_all add: port_unlinked_def)
    have "port_gone p s ?t"
      unfolding port_gone_def
    proof (intro conjI ballI allI impI)
      fix b assume b: "b \<in> set (aggregators s)"
      show "aggregator_identifier (agg_mem ?t b) = aggregator_identifier (agg_mem s b)"
        using eq by (simp add: del lacpd_aggregator_clear_def Let_def)
      show p: "agg_ports (agg_mem ?t b) = list_del p (agg_ports (agg_mem s b))"
        using eq other [OF b] by (simp add: del lacpd_aggregator_clear_def Let_def)
      show "is_free (agg_mem ?t b) \<longleftrightarrow> agg_ports (agg_mem ?t b) = []"
        using p eq aok [OF b] other [OF b] a(4)
        by (auto simp: del lacpd_aggregator_clear_def Let_def agg_ok_def)
    qed (use dev_frame_simps [OF d] u in \<open>simp_all add: del port_unlinked_def\<close>)
    moreover have "lacpd_port_destroy api p s' = Returns ?t"
      by (simp only: lacpd_port_destroy_def c bind_outcome.simps id1 lk a(2) option.simps Let_def)
    moreover have "timers_idle (port_mem ?t p)"
      using idle dev_frame_simps(1) [OF d] by (simp add: del)
    ultimately show ?thesis using that by blast
  qed
qed

lemma wf_gone:
  assumes wf: "wf_port p s" and g: "port_gone p s t"
  shows "lacp_wf t" "length (ports t) < length (aggregators t)"
proof -
  have ag: "aggregator_identifier (agg_mem t a) = aggregator_identifier (agg_mem s a)"
    "agg_ports (agg_mem t a) = list_del p (agg_ports (agg_mem s a))"
    "is_free (agg_mem t a) \<longleftrightarrow> agg_ports (agg_mem t a) = []"
    "agg_ok s a" if "a \<in> set (aggregators s)" for a
    using g wf that by (auto simp: port_gone_def lacp_wf_def)
  have eqs: "ports t = list_del p (ports s)" "aggregators t = aggregators s" "next_ref t = next_ref s"
    "next_port_agg_id t = next_port_agg_id s" "\<And>q. q \<noteq> p \<Longrightarrow> port_mem t q = port_mem s q"
    using g by (simp_all add: port_gone_def)
  have ds: "distinct (ports s)" "distinct (aggregators s)" using wf by (simp_all add: lacp_wf_def)
  have len: "length (ports s) \<le> length (aggregators s)" "length (ports s) > 0"
    using wf by (auto simp: lacp_wf_def)
  then show "length (ports t) < length (aggregators t)"
    using length_list_del [OF conjunct2 [OF wf]] unfolding eqs by linarith
  have "agg_ok t a" if "a \<in> set (aggregators s)" for a
  proof -
    have "q \<in> set (agg_ports (agg_mem t a)) \<longleftrightarrow> q \<in> set (list_del p (ports s)) \<and>
        actor_port_aggregator_identifier (port_mem t q) = aggregator_identifier (agg_mem s a)" for q
      using ag(2,4) [OF that] eqs(5) [of q] ds(1) by (cases "q = p") (simp_all add: agg_ok_def)
    moreover have "distinct (agg_ports (agg_mem t a))"
      using ag(2,4) [OF that] by (simp add: agg_ok_def)
    ultimately show ?thesis
      using ag(1,3,4) [OF that] by (simp add: agg_ok_def eqs)
  qed
  moreover have "inj_on (\<lambda>a. aggregator_identifier (agg_mem t a)) (set (aggregators s))"
    using wf ag(1) by (simp add: lacp_wf_def inj_on_def)
  moreover have "inj_on (\<lambda>q. dev_ifindex (port_mem t q)) (set (list_del p (ports s)))"
    using wf ds eqs(5) by (auto simp: lacp_wf_def inj_on_def)
  ultimately show "lacp_wf t"
    using wf ds ag(1) len by (auto simp: lacp_wf_def eqs length_list_del)
qed

lemma wf_drop_aggregator:
  assumes wf: "lacp_wf t" and len: "length (ports t) < length (aggregators t)"
    and b: "b \<in> set (aggregators t)" "agg_ports (agg_mem t b) = []"
  shows "lacp_wf (t\<lparr>aggregators := list_del b (aggregators t)\<rparr>)"
proof -
  have ds: "distinct (aggregators t)" using wf by (simp add: lacp_wf_def)
  have "agg_ok (t\<lparr>aggregators := list_del b (aggregators t)\<rparr>) a = agg_ok t a" for a
    by (simp add: agg_ok_def)
  moreover have "\<exists>a\<in>set (list_del b (aggregators t)). aggregator_identifier (agg_mem t a) =
      actor_port_aggregator_identifier (port_mem t q)"
    if q: "q \<in> set (ports t)" "actor_port_aggregator_identifier (port_mem t q) \<noteq> 0" for q
  proof -
    obtain a where a: "a \<in> set (aggregators t)" "aggregator_identifier (agg_mem t a) =
        actor_port_aggregator_identifier (port_mem t q)" "q \<in> set (agg_ports (agg_mem t a))"
      using q wf lookup_own_aggregator [of t q] by blast
    with b have "a \<noteq> b" by auto
    with a ds show ?thesis by auto
  qed
  moreover have "length (ports t) \<le> length (list_del b (aggregators t))"
    using len b(1) by (simp add: length_list_del)
  moreover have "inj_on (\<lambda>a. aggregator_identifier (agg_mem t a)) (set (list_del b (aggregators t)))"
    using wf ds by (auto simp: lacp_wf_def inj_on_def)
  ultimately show ?thesis
    using wf ds by (auto simp: lacp_wf_def)
qed

lemma spare_aggregator:
  assumes wf: "lacp_wf t" and len: "length (ports t) < length (aggregators t)"
  obtains b where "lacpd_aggregator_lookup t lacpd_aggregator_selector_by_free = Some b"
    "b \<in> set (aggregators t)" "agg_ports (agg_mem t b) = []"
proof -
  have ok: "agg_ok t a" if "a \<in> set (aggregators t)" for a using wf that by (simp add: lacp_wf_def)
  have "\<exists>a\<in>set (aggregators t). is_free (agg_mem t a)"
  proof (rule ccontr)
    assume no: "\<not> ?thesis"
    have "card (set (aggregators t)) \<le> card (set (ports t))"
    proof (rule card_used_aggregators)
      show "agg_ports (agg_mem t a) \<noteq> [] \<and> set (agg_ports (agg_mem t a)) \<subseteq> set (ports t)"
        if "a \<in> set (aggregators t)" for a
        using that no ok [OF that] by (auto simp: agg_ok_def)
    qed (use ok wf in \<open>auto simp: agg_ok_def lacp_wf_def\<close>)
    with len show False using wf by (simp add: lacp_wf_def distinct_card)
  qed
  then have "lacpd_aggregator_lookup t lacpd_aggregator_selector_by_free \<noteq> None"
    by (auto simp: lacpd_aggregator_lookup_def lacpd_aggregator_selector_by_free_def find_None_iff)
  then obtain b where b: "lacpd_aggregator_lookup t lacpd_aggregator_selector_by_free = Some b" by blast
  from lookup_Some [OF this] have "b \<in> set (aggregators t)" "is_free (agg_mem t b)"
    by (simp_all add: lacpd_aggregator_selector_by_free_def)
  with ok b that show ?thesis by (auto simp: agg_ok_def)
qed

lemma aggregator_destroy_empty [simp]:
  "agg_ports (agg_mem s a) = [] \<Longrightarrow> lacpd_aggregator_destroy api a s = s"
  by (simp add: lacpd_aggregator_destroy_def)

lemma port_lookup_Some:
  "lacpd_port_lookup s i = Some p \<Longrightarrow> p \<in> set (ports s) \<and> dev_ifindex (port_mem s p) = i"
  by (auto simp: lacpd_port_lookup_def find_Some_iff split: if_splits)

lemma del_device_result:
  assumes "lacp_wf s"
  shows "(lacpd_port_lookup s i = None \<and> lacpd_del_device api i s = Returns (False, s)) \<or>
    (\<exists>p t b. lacpd_port_lookup s i = Some p \<and> port_gone p s t \<and> timers_idle (port_mem t p) \<and>
       b \<in> set (aggregators t) \<and> lacp_wf (t\<lparr>aggregators := list_del b (aggregators t)\<rparr>) \<and>
       lacpd_del_device api i s = Returns (True, t\<lparr>aggregators := list_del b (aggregators t)\<rparr>))"
proof (cases "lacpd_port_lookup s i")
  case None
  then show ?thesis by (simp add: lacpd_del_device_def)
next
  case (Some p)
  let ?s1 = "snd (call_api (disable_lacp api (dev_ifindex (port_mem s p))) s)"
  let ?s2 = "?s1\<lparr>ports := list_del p (ports ?s1)\<rparr>"
  have wf: "wf_port p s" using assms port_lookup_Some [OF Some] by simp
  obtain t where t: "lacpd_port_destroy api p ?s2 = Returns t" "port_gone p s t" "timers_idle (port_mem t p)"
    using port_destroy_gone [OF wf port_unlinked_call] by blast
  note g = wf_gone [OF wf t(2)]
  obtain b where b: "lacpd_aggregator_lookup t lacpd_aggregator_selector_by_free = Some b"
      "agg_ports (agg_mem t b) = []" "lacp_wf (t\<lparr>aggregators := list_del b (aggregators t)\<rparr>)"
      "b \<in> set (aggregators t)"
    using spare_aggregator [OF g] wf_drop_aggregator [OF g] by metis
  have "lacpd_del_device api i s = Returns (True, t\<lparr>aggregators := list_del b (aggregators t)\<rparr>)"
    using aggregator_destroy_empty [of "t\<lparr>aggregators := list_del b (aggregators t)\<rparr>" b] b(2)
    by (simp only: lacpd_del_device_def Some option.simps Let_def t(1) bind_outcome.simps b(1)) simp
  with t b Some show ?thesis by blast
qed

subsection \<open>A port joins\<close>

lemma next_id_bound:
  fixes n :: u32
  assumes "n + 1 \<noteq> 0"
  shows "n < n + 1" and "m < n \<Longrightarrow> m < n + 1"
proof -
  show l: "n < n + 1" using unatSuc [of n] assms by (simp add: word_less_nat_alt add.commute)
  show "m < n \<Longrightarrow> m < n + 1" using l by (meson order_less_trans)
qed

lemma own_id_bound:
  assumes "wf_port p s" and "next_port_agg_id s \<noteq> 0"
  shows "actor_port_aggregator_identifier (port_mem s p) \<noteq> next_port_agg_id s"
proof
  assume e: "actor_port_aggregator_identifier (port_mem s p) = next_port_agg_id s"
  with assms obtain a where "a \<in> set (aggregators s)" "aggregator_identifier (agg_mem s a) = next_port_agg_id s"
    by (auto simp: lacp_wf_def)
  with assms show False by (auto simp: lacp_wf_def agg_ok_def)
qed

lemma wf_add:
  assumes wf: "lacp_wf s" and p: "p = next_ref s" and a: "a = Suc p"
    and P: "port_ok (port_mem s p)" "actor_port_aggregator_identifier (port_mem s p) = 0"
      "\<And>q. q \<in> set (ports s) \<Longrightarrow> dev_ifindex (port_mem s q) \<noteq> dev_ifindex (port_mem s p)"
    and n: "next_port_agg_id s \<noteq> 0"
    and A: "agg_ports A = []" "is_free A" "aggregator_identifier A = next_port_agg_id s"
    and t: "port_mem t = port_mem s" "agg_mem t = (agg_mem s)(a := A)" "ports t = list_add_tail p (ports s)"
      "aggregators t = list_add_tail a (aggregators s)" "next_port_agg_id t = next_port_agg_id s + 1"
      "next_ref t = Suc a"
  shows "lacp_wf t"
proof -
  have new: "p \<notin> set (ports s)" "a \<notin> set (aggregators s)"
    using wf p a by (auto simp: lacp_wf_def)
  have old: "agg_mem t b = agg_mem s b" if "b \<in> set (aggregators s)" for b
    using that new t(2) by auto
  have ok: "agg_ok s b" if "b \<in> set (aggregators s)" for b using wf that by (simp add: lacp_wf_def)
  have lt: "aggregator_identifier (agg_mem s b) < next_port_agg_id s" if "b \<in> set (aggregators s)" for b
    using ok [OF that] n by (simp add: agg_ok_def)
  have "agg_ok t b" if b: "b \<in> set (aggregators s)" for b
  proof -
    have nz: "aggregator_identifier (agg_mem s b) \<noteq> 0" and np: "p \<notin> set (agg_ports (agg_mem s b))"
      using ok [OF b] new(1) by (simp_all add: agg_ok_def)
    have "q \<in> set (agg_ports (agg_mem s b)) \<longleftrightarrow> q \<in> set (list_add_tail p (ports s)) \<and>
        actor_port_aggregator_identifier (port_mem s q) = aggregator_identifier (agg_mem s b)" for q
      using ok [OF b] nz np P(2) by (cases "q = p") (simp_all add: agg_ok_def)
    with ok [OF b] next_id_bound(2) [OF _ lt [OF b]] show ?thesis
      by (simp add: agg_ok_def old [OF b] t(1,3,5)) blast
  qed
  moreover have "agg_ok t a"
  proof -
    have "q \<notin> set (ports s) \<or> actor_port_aggregator_identifier (port_mem s q) \<noteq> next_port_agg_id s" for q
      using own_id_bound [of s q] wf n by blast
    with n A P(2) next_id_bound(1) [of "next_port_agg_id s"] show ?thesis
      by (auto simp: agg_ok_def t)
  qed
  moreover have "inj_on (\<lambda>q. dev_ifindex (port_mem t q)) (set (ports t))"
    using wf P(3) by (auto simp: lacp_wf_def t inj_on_def) metis
  moreover have "inj_on (\<lambda>b. aggregator_identifier (agg_mem t b)) (set (aggregators t))"
  proof -
    have "inj_on (\<lambda>b. aggregator_identifier (agg_mem t b)) (set (aggregators s))"
      using wf old by (simp add: lacp_wf_def inj_on_def)
    moreover have "aggregator_identifier (agg_mem t a) \<noteq> aggregator_identifier (agg_mem t b)"
      if "b \<in> set (aggregators s)" for b
      using lt [OF that] A(3) old [OF that] by (auto simp: t(2))
    ultimately show ?thesis using new(2) by (auto simp: t(4))
  qed
  moreover have "\<forall>q\<in>set (ports t). actor_port_aggregator_identifier (port_mem t q) \<noteq> 0 \<longrightarrow>
      (\<exists>b\<in>set (aggregators t). aggregator_identifier (agg_mem t b) = actor_port_aggregator_identifier (port_mem t q))"
  proof (intro ballI impI)
    fix q assume "q \<in> set (ports t)" "actor_port_aggregator_identifier (port_mem t q) \<noteq> 0"
    then have "q \<in> set (ports s)" "actor_port_aggregator_identifier (port_mem s q) \<noteq> 0"
      using P(2) by (auto simp: t)
    then obtain b where b: "b \<in> set (aggregators s)"
      "aggregator_identifier (agg_mem s b) = actor_port_aggregator_identifier (port_mem s q)"
      using wf by (auto simp: lacp_wf_def)
    with old [OF b(1)] show "\<exists>b\<in>set (aggregators t). aggregator_identifier (agg_mem t b) =
        actor_port_aggregator_identifier (port_mem t q)"
      by (intro bexI [where x = b]) (simp_all add: t(1,4))
  qed
  moreover have "\<forall>q\<in>set (ports t). port_ok (port_mem t q)" using wf P(1) by (auto simp: t)
  moreover have "\<forall>q\<in>set (ports t). q < next_ref t" "\<forall>b\<in>set (aggregators t). b < next_ref t"
    using wf p a by (auto simp: lacp_wf_def t less_Suc_eq)
  ultimately show ?thesis
    using wf new by (auto simp: lacp_wf_def t)
qed

lemma schedule_run_wf:
  assumes "lacp_wf s" and "p \<in> set (ports s)"
  shows "lacp_wf (lacpd_port_fsm_schedule_run p s)"
proof -
  have "port_ok ((port_mem s p)\<lparr>runner := fsm_runner_schedule (runner (port_mem s p))\<rparr>)"
    using wf_port_ok [OF assms] by (simp add: port_ok_defs runner_ok_def)
  with assms show ?thesis by (simp add: lacpd_port_fsm_schedule_run_def wf_upd_port)
qed

lemma allocs_Suc_last:
  "allocs api (Suc n) e = (let (ok, e1) = allocs api n e in if ok then os_calloc api e1 else (False, e1))"
proof (induction n arbitrary: e)
  case (Suc n)
  obtain ok e1 where c: "os_calloc api e = (ok, e1)" by fastforce
  have "allocs api (Suc (Suc n)) e = (if ok then allocs api (Suc n) e1 else (False, e1))"
    by (subst allocs.simps(2)) (simp add: c del: allocs.simps)
  with Suc.IH [of e1] show ?case by (cases ok) (simp_all add: c del: allocs.simps(2), simp_all add: c)
qed (auto split: prod.splits)

text \<open>The port and the aggregator that a new device gets.\<close>

definition device_port ::
    "'e lacp_out_api \<Rightarrow> 'e \<Rightarrow> 'e lacpd_lacp \<Rightarrow> u32 \<Rightarrow> lacp_port_parameters option \<Rightarrow> mac_addr \<Rightarrow> lacpd_port" where
  "device_port api e s i prm mac =
     (let P = fold machine_added lacp_machines (port_initialized api e s (next_port_agg_id s) i prm mac)
      in P\<lparr>runner := fsm_runner_schedule (runner P)\<rparr>)"

definition device_agg :: "'e lacpd_lacp \<Rightarrow> lacpd_aggregator" where
  "device_agg s = lacpd_aggregator_clear (aggregator_zero\<lparr>aggregator_mac_address := actor_system s,
     aggregator_identifier := next_port_agg_id s, agg_dev_ifindex := 0\<rparr>)"

text \<open>\<open>t\<close> is \<open>s\<close> with one more port and one more aggregator, both fresh.\<close>

definition device_added :: "lacpd_port \<Rightarrow> 'e lacpd_lacp \<Rightarrow> 'e lacpd_lacp \<Rightarrow> bool" where
  "device_added P s t \<longleftrightarrow>
     ports t = list_add_tail (next_ref s) (ports s) \<and>
     aggregators t = list_add_tail (Suc (next_ref s)) (aggregators s) \<and>
     next_port_agg_id t = next_port_agg_id s + 1 \<and>
     port_mem t (next_ref s) = P \<and> agg_mem t (Suc (next_ref s)) = device_agg s \<and>
     (\<forall>q<next_ref s. port_mem t q = port_mem s q \<and> agg_mem t q = agg_mem s q)"

text \<open>
  Every outcome of adding a device, by the calls it makes: refused at once, no memory for the
  port, no MAC address, and the six allocations of the machines and the aggregator.
\<close>

lemma add_device_refused:
  assumes "lacpd_port_lookup s i \<noteq> None \<or> i = 0 \<or> next_port_agg_id s = 0"
  shows "lacpd_add_device api i prm s = Returns (False, s)"
  using assms by (cases "lacpd_port_lookup s i")
    (auto simp: lacpd_add_device_def port_new_refused(1) disj_commute)

lemma add_device_no_memory:
  assumes "lacpd_port_lookup s i = None" "i \<noteq> 0" "next_port_agg_id s \<noteq> 0"
    and "os_calloc api (env s) = (False, e)"
  shows "lacpd_add_device api i prm s = Returns (False, s\<lparr>env := e\<rparr>)"
  using assms by (simp add: lacpd_add_device_def port_new_refused(2))

lemma add_device_crash:
  assumes "lacpd_port_lookup s i = None" "i \<noteq> 0" "next_port_agg_id s \<noteq> 0"
    and "os_calloc api (env s) = (True, e)" and "get_dev_mac_addr api i e = (None, e2)"
  shows "lacpd_add_device api i prm s = Fault Null_Deref"
  using port_new_crash [OF assms(3,2,4,5), of prm] assms(1) by (simp add: lacpd_add_device_def)

lemma add_device_rolled_back:
  assumes n: "lacpd_port_new api (next_port_agg_id s) i prm s = Returns (Some p, t)"
    and "lacpd_port_lookup s i = None" and "next_port_agg_id t \<noteq> 0" and c: "os_calloc api (env t) = (False, e)"
    and P: "has_os_service (port_runner p t)" "actor_port_aggregator_identifier (port_mem t p) = 0"
  shows "\<exists>f. lacpd_add_device api i prm s = Returns (False, upd_port p f (t\<lparr>env := e\<rparr>))"
proof -
  have "has_os_service (port_runner p (t\<lparr>env := e\<rparr>))" using P by simp
  from cleanup_returns [OF this] obtain g where
    "lacpd_port_cleanup p (t\<lparr>env := e\<rparr>) = Returns (upd_port p g (t\<lparr>env := e\<rparr>))"
    and g: "\<And>P. keeps_identity P (g P)" by blast
  then have "lacpd_port_destroy api p (t\<lparr>env := e\<rparr>) = Returns (upd_port p g (t\<lparr>env := e\<rparr>))"
    using g [of "port_mem t p"] P by (simp add: lacpd_port_destroy_def keeps_identity_def)
  then show ?thesis
    using assms by (auto simp: lacpd_add_device_def lacpd_aggregator_new_def call_api_def)
qed

lemma add_device_machines:
  assumes wf: "lacp_wf s" and lk: "lacpd_port_lookup s i = None" and i: "i \<noteq> 0" "next_port_agg_id s \<noteq> 0"
    and c: "os_calloc api (env s) = (True, e)" and m: "get_dev_mac_addr api i e = (Some mac, e2)"
  shows "\<exists>t. if fst (allocs api 6 e2)
     then lacpd_add_device api i prm s = Returns (True, t) \<and> lacp_wf t \<and>
       device_added (device_port api e2 s i prm mac) s t \<and>
       env t = snd (enable_lacp api i (snd (allocs api 6 e2)))
     else lacpd_add_device api i prm s = Returns (False, t) \<and> fresh_frame (next_ref s) s t \<and>
       env t = snd (allocs api 6 e2)"
proof -
  let ?p = "next_ref s"
  let ?P = "fold machine_added lacp_machines (port_initialized api e2 s (next_port_agg_id s) i prm mac)"
  obtain ok5 e5 where a5: "allocs api 5 e2 = (ok5, e5)" by fastforce
  have six: "allocs api 6 e2 = (if ok5 then os_calloc api e5 else (False, e5))"
    using allocs_Suc_last [of api 5 e2] a5 by simp
  from port_new_machines [OF i(2,1) c m, of prm] a5 obtain t where f: "fresh_frame ?p s t" and e5: "env t = e5"
    and t: "if ok5 then lacpd_port_new api (next_port_agg_id s) i prm s = Returns (Some ?p, t) \<and>
        next_ref t = Suc ?p \<and> port_mem t ?p = ?P
      else lacpd_port_new api (next_port_agg_id s) i prm s = Returns (None, t)"
    by auto
  have nid: "next_port_agg_id t = next_port_agg_id s" "actor_system t = actor_system s"
    using f by (simp_all add: fresh_frame_def)
  have ok: "port_ok ?P" by (rule new_port_ok [OF i(1)])
  have idP: "actor_port_aggregator_identifier ?P = 0" "dev_ifindex ?P = i"
    by (simp_all add: lacp_machines_def)
  obtain ok' e' where c': "os_calloc api e5 = (ok', e')" by fastforce
  consider "\<not> ok5" | "ok5" "\<not> ok'" | "ok5" "ok'" by blast
  then show ?thesis
  proof cases
    case 1
    with t f e5 lk six show ?thesis by (auto simp: lacpd_add_device_def)
  next
    case 2
    have "\<exists>g. lacpd_add_device api i prm s = Returns (False, upd_port ?p g (t\<lparr>env := e'\<rparr>))"
      using add_device_rolled_back [of api s i prm ?p t e'] t 2 lk nid i c' e5 ok idP
      by (simp add: port_ok_def runner_ok_def)
    with 2 six c' f show ?thesis by auto
  next
    case 3
    then have n: "lacpd_port_new api (next_port_agg_id s) i prm s = Returns (Some ?p, t)"
      and r: "next_ref t = Suc ?p" and P: "port_mem t ?p = ?P" using t by auto
    define e'' where "e'' = snd (enable_lacp api i e')"
    define u where "u = (upd_agg (Suc ?p) (\<lambda>_. device_agg s) (t\<lparr>env := e', next_ref := Suc (Suc ?p)\<rparr>))\<lparr>
      ports := list_add_tail ?p (ports t), aggregators := list_add_tail (Suc ?p) (aggregators t),
      next_port_agg_id := next_port_agg_id s + 1, env := e''\<rparr>"
    have res: "lacpd_add_device api i prm s = Returns (True, lacpd_port_fsm_schedule_run ?p u)"
      using lk n i c' 3 nid r P idP e5
      by (simp add: lacpd_add_device_def lacpd_aggregator_new_def call_api_def Let_def u_def e''_def
          device_agg_def split: prod.splits)
    let ?b = "t\<lparr>next_ref := ?p\<rparr>"
    have fb: "fresh_frame ?p s ?b" using f by (simp add: fresh_frame_def)
    have dev: "dev_ifindex (port_mem ?b q) \<noteq> dev_ifindex (port_mem ?b ?p)" if "q \<in> set (ports ?b)" for q
    proof -
      have "q \<in> set (ports s)" "port_mem t q = port_mem s q"
        using f that wf by (auto simp: fresh_frame_def lacp_wf_def)
      then show ?thesis
        using lk i(1) P idP by (auto simp: lacpd_port_lookup_def find_None_iff)
    qed
    have wu: "lacp_wf u"
    proof (rule wf_add [where s = ?b and p = ?p and a = "Suc ?p" and A = "device_agg s"])
      show "lacp_wf ?b" by (rule fresh_frame_wf [OF fb wf])
    qed (use dev P ok idP i(2) nid in \<open>simp_all add: u_def device_agg_def lacpd_aggregator_clear_def aggregator_zero_def\<close>)
    have added: "device_added (device_port api e2 s i prm mac) s (lacpd_port_fsm_schedule_run ?p u)"
      using f P by (simp add: device_added_def device_port_def Let_def u_def fresh_frame_def
          lacpd_port_fsm_schedule_run_def upd_port_def)
    have "lacp_wf (lacpd_port_fsm_schedule_run ?p u)"
      using schedule_run_wf [OF wu] f by (simp add: u_def fresh_frame_def)
    moreover have "env (lacpd_port_fsm_schedule_run ?p u) = snd (enable_lacp api i e')"
      by (simp add: u_def e''_def lacpd_port_fsm_schedule_run_def)
    ultimately show ?thesis using res added 3 six c' by auto
  qed
qed

text \<open>In any case the instance is well-formed, or the call has crashed.\<close>

lemma add_device_keeps_wf:
  assumes wf: "lacp_wf s" and r: "lacpd_add_device api i prm s = Returns (b, t)"
  shows "lacp_wf t"
proof (cases "lacpd_port_lookup s i \<noteq> None \<or> i = 0 \<or> next_port_agg_id s = 0")
  case True
  from add_device_refused [OF this, of api prm] wf r show ?thesis by simp
next
  case False
  then have new: "lacpd_port_lookup s i = None" "i \<noteq> 0" "next_port_agg_id s \<noteq> 0" by auto
  obtain ok e where c: "os_calloc api (env s) = (ok, e)" by fastforce
  obtain mac e2 where m: "get_dev_mac_addr api i e = (mac, e2)" by fastforce
  show ?thesis
  proof (cases ok)
    case False
    with add_device_no_memory [OF new, of api e prm] c r wf show ?thesis by auto
  next
    case ok: True
    show ?thesis
    proof (cases mac)
      case None
      with add_device_crash [OF new, of api e e2 prm] c m ok r show ?thesis by simp
    next
      case (Some mc)
      from add_device_machines [OF wf new, of api e mc e2 prm] c m ok Some r
      show ?thesis by (auto intro: fresh_frame_wf [OF _ wf] split: if_splits)
    qed
  qed
qed

subsection \<open>Events at a port\<close>

lemma port_of_device_Some:
  "port_of_device s i = Some p \<Longrightarrow> p \<in> set (ports s) \<and> dev_ifindex (port_mem s p) = i"
  by (auto simp: port_of_device_def find_Some_iff)

lemma port_of_device_in:
  assumes "wf_port p s"
  shows "port_of_device s (dev_ifindex (port_mem s p)) = Some p"
  unfolding port_of_device_def
  by (rule find_unique) (use assms in \<open>auto simp: lacp_wf_def inj_on_def\<close>)

lemma link_status_changed_wf:
  assumes "lacp_wf s"
  shows "lacp_wf (lacpd_link_status_changed api i st s)"
proof (cases "port_of_device s i")
  case None
  with assms show ?thesis by (simp add: lacpd_link_status_changed_def)
next
  case (Some p)
  then have p: "p \<in> set (ports s)" using port_of_device_Some by blast
  have "lacp_wf (upd_port p (link_updated api (env s) st) s)"
  proof (rule wf_upd_port [OF assms p])
    show "port_ok (link_updated api (env s) st (port_mem s p))"
      using wf_port_ok [OF assms p]
      by (cases "mux_state (m_mux (port_mem s p))")
        (simp_all add: link_updated_def Let_def port_ok_defs runner_ok_def)
  qed (simp_all add: link_updated_def Let_def)
  with Some p show ?thesis by (simp add: lacpd_link_status_changed_def schedule_run_wf)
qed

lemma receive_lacpdu_wf:
  assumes "lacp_wf s" and "lacpd_receive_lacpdu buf len i s = Returns (b, t)"
  shows "lacp_wf t"
proof (cases "port_of_device s i")
  case None
  with assms show ?thesis by (simp add: lacpd_receive_lacpdu_def)
next
  case (Some p)
  then have p: "p \<in> set (ports s)" using port_of_device_Some by blast
  from assms(2) Some obtain pkt :: lacp_pkt where t: "t = lacpd_port_fsm_schedule_run p
      (upd_port p (\<lambda>P. P\<lparr>message := lacp pkt, lacpdu_indicate := True\<rparr>) s)"
    by (auto simp: lacpd_receive_lacpdu_def bind_outcome_Returns_iff)
  have "lacp_wf (upd_port p (\<lambda>P. P\<lparr>message := lacp pkt, lacpdu_indicate := True\<rparr>) s)"
    using wf_port_ok [OF assms(1) p] by (intro wf_upd_port [OF assms(1) p]) (simp_all add: port_ok_defs)
  then show ?thesis unfolding t using p by (simp add: schedule_run_wf)
qed

subsection \<open>The instance goes\<close>

lemma destroy_ports_returns:
  assumes "lacp_wf s" and "ports s = ps"
  shows "\<exists>t. destroy_ports api ps s = Returns t \<and> lacp_wf t \<and> ports t = [] \<and> aggregators t = aggregators s \<and>
    (\<forall>p\<in>set ps. timers_idle (port_mem t p)) \<and> (\<forall>q. q \<notin> set ps \<longrightarrow> port_mem t q = port_mem s q)"
  using assms
proof (induction ps arbitrary: s)
  case Nil
  then show ?case by simp
next
  case (Cons p ps)
  let ?s1 = "snd (call_api (disable_lacp api (dev_ifindex (port_mem s p))) s)"
  let ?s2 = "?s1\<lparr>ports := list_del p (ports ?s1)\<rparr>"
  have "distinct (p # ps)" using Cons.prems unfolding lacp_wf_def by metis
  then have wf: "wf_port p s" and d: "p \<notin> set ps" using Cons.prems by simp_all
  obtain t where t: "lacpd_port_destroy api p ?s2 = Returns t" "port_gone p s t" "timers_idle (port_mem t p)"
    using port_destroy_gone [OF wf port_unlinked_call] by blast
  have wt: "lacp_wf t" and pt: "ports t = ps"
    using wf_gone(1) [OF wf t(2)] t(2) Cons.prems(2) by (simp_all add: port_gone_def list_del_def)
  from Cons.IH [OF this] obtain u where u: "destroy_ports api ps t = Returns u" "lacp_wf u" "ports u = []"
    "aggregators u = aggregators t" "\<forall>p\<in>set ps. timers_idle (port_mem u p)"
    "\<forall>q. q \<notin> set ps \<longrightarrow> port_mem u q = port_mem t q" by blast
  have "destroy_ports api (p # ps) s = Returns u"
    by (simp only: destroy_ports.simps Let_def t(1) bind_outcome.simps u(1))
  moreover have "timers_idle (port_mem u p)" using u(6) d t(3) by simp
  moreover have "port_mem u q = port_mem s q" if "q \<notin> set (p # ps)" for q
    using that u(6) t(2) by (simp add: port_gone_def)
  ultimately show ?case using u t(2) by (auto simp: port_gone_def)
qed

lemma destroy_aggregators_empty:
  assumes "\<forall>a\<in>set as. agg_ports (agg_mem s a) = []"
  shows "destroy_aggregators api as s = s\<lparr>aggregators := fold list_del as (aggregators s)\<rparr>"
  using assms
proof (induction as arbitrary: s)
  case Nil
  then show ?case by (simp add: destroy_aggregators_def)
next
  case (Cons a as)
  from Cons.prems Cons.IH [of "s\<lparr>aggregators := list_del a (aggregators s)\<rparr>"] show ?case
    by (simp add: destroy_aggregators_def)
qed

lemma fold_list_del_all: "fold list_del xs xs = []"
  by (induction xs) (simp_all add: list_del_def)

end
