(* ===== verification/Lacp_Daemon.thy ===== *)
theory Lacp_Daemon
  imports Lacp
begin

text \<open>
  An LACP instance in its event loop: the calls of the wrapper, the five timers of every port
  and changes of the devices, in any order; the states this can reach; and that all of them
  are well-formed, whatever the device layer answers.
\<close>

subsection \<open>Timers\<close>

datatype port_timer_id =
  Runner_Timer | Current_While_Timer | Periodic_Timer | Wait_While_Timer | Rate_Limit_Timer

fun port_timer :: "port_timer_id \<Rightarrow> lacpd_port \<Rightarrow> genl_os_service_timer" where
  "port_timer Runner_Timer P = runner_timer (runner P)"
| "port_timer Current_While_Timer P = current_while_timer (m_receive P)"
| "port_timer Periodic_Timer P = periodic_timer (m_periodic P)"
| "port_timer Wait_While_Timer P = wait_while_timer (m_mux P)"
| "port_timer Rate_Limit_Timer P = rate_limit_timer (m_transmit P)"

text \<open>The wrapper marks an expired timer before it calls back.\<close>

fun fire :: "port_timer_id \<Rightarrow> lacpd_port \<Rightarrow> lacpd_port" where
  "fire Runner_Timer P = P\<lparr>runner := (runner P)\<lparr>runner_timer := timer_fired (runner_timer (runner P))\<rparr>\<rparr>"
| "fire Current_While_Timer P = upd_receive (\<lambda>m. m\<lparr>current_while_timer := timer_fired (current_while_timer m)\<rparr>) P"
| "fire Periodic_Timer P = upd_periodic (\<lambda>m. m\<lparr>periodic_timer := timer_fired (periodic_timer m)\<rparr>) P"
| "fire Wait_While_Timer P = upd_mux (\<lambda>m. m\<lparr>wait_while_timer := timer_fired (wait_while_timer m)\<rparr>) P"
| "fire Rate_Limit_Timer P = upd_transmit (\<lambda>m. m\<lparr>rate_limit_timer := timer_fired (rate_limit_timer m)\<rparr>) P"

fun timer_callback ::
    "'e lacp_out_api \<Rightarrow> port_timer_id \<Rightarrow> port_ref \<Rightarrow> 'e lacpd_lacp \<Rightarrow> 'e lacpd_lacp option" where
  "timer_callback api Runner_Timer p s = lacpd_port_run api p s"
| "timer_callback api Current_While_Timer p s = Some (lacpd_fsm_receive_current_while_timer_cb p s)"
| "timer_callback api Periodic_Timer p s = Some (lacpd_fsm_periodic_transmission_timer_cb p s)"
| "timer_callback api Wait_While_Timer p s = Some (lacpd_fsm_mux_wait_while_timer_cb p s)"
| "timer_callback api Rate_Limit_Timer p s = Some (lacpd_fsm_transmit_rate_limit_timer_cb p s)"

definition port_timer_expired ::
    "'e lacp_out_api \<Rightarrow> port_timer_id \<Rightarrow> port_ref \<Rightarrow> 'e lacpd_lacp \<Rightarrow> 'e lacpd_lacp option" where
  "port_timer_expired api k p s = timer_callback api k p (upd_port p (fire k) s)"

subsection \<open>Steps and reachable states\<close>

inductive lacp_step :: "'e lacp_out_api \<Rightarrow> 'e lacpd_lacp \<Rightarrow> 'e lacpd_lacp \<Rightarrow> bool" for api where
  Add_Device: "lacpd_add_device api i prm s = Returns (b, t) \<Longrightarrow> lacp_step api s t"
| Del_Device: "lacpd_del_device api i s = Returns (b, t) \<Longrightarrow> lacp_step api s t"
| Link_Status: "lacp_step api s (lacpd_link_status_changed api i st s)"
| Receive: "lacpd_receive_lacpdu buf len i s = Returns (b, t) \<Longrightarrow> lacp_step api s t"
| Timer: "p \<in> set (ports s) \<Longrightarrow> pending (port_timer k (port_mem s p)) \<Longrightarrow>
    port_timer_expired api k p s = Some t \<Longrightarrow> lacp_step api s t"
| Devices_Change: "lacp_step api s (s\<lparr>env := e\<rparr>)"

inductive lacp_reachable :: "'e lacp_out_api \<Rightarrow> 'e lacpd_lacp \<Rightarrow> bool" for api where
  Created: "lacp_new name (Some api) prm e = (Some s, e') \<Longrightarrow> lacp_reachable api s"
| Next: "lacp_reachable api s \<Longrightarrow> lacp_step api s t \<Longrightarrow> lacp_reachable api t"

subsection \<open>Every step keeps the instance well-formed\<close>

lemma lacp_new_result:
  assumes "lacp_new name user prm e = (Some s, e')"
  shows "ports s = []" "aggregators s = []" "next_port_agg_id s = 1" "active_aggregator s = 0"
    "param s = prm" "env s = e'" "lacp_wf s"
proof -
  from assms obtain nm api mac where
    "s = \<lparr>lacp_name = snprintf_buf LACP_NAME_SIZE nm, param = prm, actor_system = mac,
       actor_system_priority = ucast (priority prm), next_port_agg_id = 1, ports = [],
       aggregators = [], active_aggregator = 0, port_mem = (\<lambda>_. lacpd_port_zero),
       agg_mem = (\<lambda>_. aggregator_zero), next_ref = 0, env = e'\<rparr>"
    by (auto simp: lacp_new_def split: option.splits prod.splits if_splits)
  then show "ports s = []" "aggregators s = []" "next_port_agg_id s = 1" "active_aggregator s = 0"
    "param s = prm" "env s = e'" "lacp_wf s"
    by (simp_all add: lacp_wf_def)
qed

lemma add_device_wf:
  assumes "lacp_wf s" and "lacpd_add_device api i prm s = Returns (b, t)"
  shows "lacp_wf t"
  by (rule add_device_keeps_wf [OF assms])

lemma del_device_wf:
  assumes "lacp_wf s" and "lacpd_del_device api i s = Returns (b, t)"
  shows "lacp_wf t"
  using del_device_result [OF assms(1), of i api] assms by auto

lemma schedule_run_wf_port: "wf_port p s \<Longrightarrow> wf_port p (lacpd_port_fsm_schedule_run p s)"
  using schedule_run_wf [of s p] by (simp add: lacpd_port_fsm_schedule_run_def)

lemma update_ready_simps [simp]:
  "ports (lacpd_aggregator_update_ready a s) = ports s"
  "aggregators (lacpd_aggregator_update_ready a s) = aggregators s"
  "port_mem (lacpd_aggregator_update_ready a s) = port_mem s"
  "next_ref (lacpd_aggregator_update_ready a s) = next_ref s"
  "next_port_agg_id (lacpd_aggregator_update_ready a s) = next_port_agg_id s"
  "aggregator_identifier (agg_mem (lacpd_aggregator_update_ready a s) b) = aggregator_identifier (agg_mem s b)"
  "agg_ports (agg_mem (lacpd_aggregator_update_ready a s) b) = agg_ports (agg_mem s b)"
  "is_free (agg_mem (lacpd_aggregator_update_ready a s) b) = is_free (agg_mem s b)"
  by (simp_all add: lacpd_aggregator_update_ready_def upd_agg_def)

lemma update_ready_wf [simp]: "lacp_wf (lacpd_aggregator_update_ready a s) = lacp_wf s"
  by (simp add: lacp_wf_def agg_ok_def)

text \<open>Between the expiry of a wait-while timer and its callback a waiting port may not be ready yet.\<close>

lemma wait_while_expired_wf:
  assumes "wf_port p s"
  shows "wf_port p (lacpd_fsm_mux_wait_while_timer_cb p (upd_port p (fire Wait_While_Timer) s))"
proof -
  let ?P = "port_mem s p"
  let ?Q = "(fire Wait_While_Timer ?P)\<lparr>ready_N := True\<rparr>"
  let ?s1 = "upd_port p (fire Wait_While_Timer) s"
  have ok: "port_ok ?P" using assms by simp
  have okQ: "port_ok ?Q" using ok by (simp add: port_ok_defs upd_mux_def)
  show ?thesis
  proof (cases "mux_state (m_mux ?P) = LACPD_MUX_ST_WAITING \<and> actor_port_aggregator_identifier ?P \<noteq> 0")
    case False
    have "port_ok (fire Wait_While_Timer ?P)"
      using ok False by (auto simp: port_ok_defs upd_mux_def)
    then have "wf_port p ?s1"
      using assms by (simp add: wf_upd_port upd_mux_def)
    moreover have "lacpd_fsm_mux_wait_while_timer_cb p ?s1 = ?s1"
      using False by (auto simp: lacpd_fsm_mux_wait_while_timer_cb_def upd_mux_def Let_def)
    ultimately show ?thesis by simp
  next
    case True
    then obtain a where a: "a \<in> set (aggregators s)"
      "lacpd_aggregator_lookup s (lacpd_aggregator_selector_by_id (actor_port_aggregator_identifier ?P)) = Some a"
      using lookup_own_aggregator [OF assms] by blast
    let ?s2 = "upd_port p (\<lambda>P. P\<lparr>ready_N := True\<rparr>) ?s1"
    have "lacp_wf (upd_port p ((\<lambda>P. P\<lparr>ready_N := True\<rparr>) \<circ> fire Wait_While_Timer) s)"
    proof (rule wf_upd_port)
      show "port_ok (((\<lambda>P. P\<lparr>ready_N := True\<rparr>) \<circ> fire Wait_While_Timer) ?P)"
        using okQ by (simp only: comp_def)
    qed (use assms in \<open>simp_all add: upd_mux_def\<close>)
    then have w2: "wf_port p ?s2" using assms by (simp only: upd_port_upd_port upd_port_simps)
    then have w3: "wf_port p (lacpd_aggregator_update_ready a ?s2)" by simp
    have "lacpd_aggregator_lookup ?s1 f = lacpd_aggregator_lookup s f" for f
      by (simp add: lacpd_aggregator_lookup_def)
    then have "lacpd_fsm_mux_wait_while_timer_cb p ?s1 =
        lacpd_port_fsm_schedule_run p (lacpd_aggregator_update_ready a ?s2)"
      using True a(2) by (simp add: lacpd_fsm_mux_wait_while_timer_cb_def upd_mux_def Let_def)
    then show ?thesis using schedule_run_wf_port [OF w3] by simp
  qed
qed

lemma other_timer_fired_wf:
  assumes "wf_port p s" and "k \<in> {Runner_Timer, Current_While_Timer, Periodic_Timer}"
  shows "wf_port p (upd_port p (fire k) s)"
proof -
  have "port_ok (port_mem s p)" using assms by simp
  then have "port_ok (fire k (port_mem s p))"
    using assms(2) by (elim insertE emptyE)
      (simp_all add: port_ok_defs runner_ok_def upd_receive_def upd_periodic_def)
  moreover have "dev_ifindex (fire k P) = dev_ifindex P"
    "actor_port_aggregator_identifier (fire k P) = actor_port_aggregator_identifier P" for P
    using assms(2) by (auto simp: upd_receive_def upd_periodic_def)
  ultimately show ?thesis using assms(1) by (simp add: wf_upd_port)
qed

lemma rate_limit_expired_wf:
  assumes "wf_port p s"
  shows "wf_port p (lacpd_fsm_transmit_rate_limit_timer_cb p (upd_port p (fire Rate_Limit_Timer) s))"
proof -
  let ?f = "upd_transmit (\<lambda>m. m\<lparr>pkt_sent := 0,
      rate_limit_timer := timer_set LACP_FAST_PERIODIC_TIME (rate_limit_timer m)\<rparr>) \<circ> fire Rate_Limit_Timer"
  have "port_ok (port_mem s p)" using assms by simp
  then have "port_ok (?f (port_mem s p))" by (simp add: port_ok_defs upd_transmit_def)
  then have "lacp_wf (upd_port p ?f s)"
    using assms by (intro wf_upd_port) (simp_all add: upd_transmit_def)
  with assms show ?thesis
    by (simp add: lacpd_fsm_transmit_rate_limit_timer_cb_def schedule_run_wf_port)
qed

text \<open>Every callback returns, and its instance is well-formed again.\<close>

lemma timer_expired_wf:
  assumes "wf_port p s"
  shows "\<exists>t. port_timer_expired api k p s = Some t \<and> wf_port p t"
proof (cases k)
  case Runner_Timer
  with other_timer_fired_wf [OF assms, of k] have w: "wf_port p (upd_port p (fire Runner_Timer) s)" by simp
  then show ?thesis
    using port_run_initialized [OF w, of api] port_run_uninitialized [OF w, of api] Runner_Timer
    by (auto simp: port_timer_expired_def)
next
  case Wait_While_Timer
  then show ?thesis using wait_while_expired_wf [OF assms] by (simp add: port_timer_expired_def)
next
  case Rate_Limit_Timer
  then show ?thesis using rate_limit_expired_wf [OF assms] by (simp add: port_timer_expired_def)
next
  case Current_While_Timer
  with other_timer_fired_wf [OF assms, of k] have w: "wf_port p (upd_port p (fire Current_While_Timer) s)" by simp
  with Current_While_Timer show ?thesis
    by (simp add: port_timer_expired_def lacpd_fsm_receive_current_while_timer_cb_def schedule_run_wf_port)
next
  case Periodic_Timer
  with other_timer_fired_wf [OF assms, of k] have w: "wf_port p (upd_port p (fire Periodic_Timer) s)" by simp
  with Periodic_Timer show ?thesis
    by (simp add: port_timer_expired_def lacpd_fsm_periodic_transmission_timer_cb_def schedule_run_wf_port)
qed

lemma step_wf:
  assumes "lacp_step api s t" and "lacp_wf s"
  shows "lacp_wf t"
  using assms(1)
proof cases
  case (Add_Device i prm b)
  show ?thesis by (rule add_device_wf [OF assms(2) Add_Device])
next
  case (Del_Device i b)
  show ?thesis by (rule del_device_wf [OF assms(2) Del_Device])
next
  case (Link_Status i st)
  show ?thesis unfolding Link_Status by (rule link_status_changed_wf [OF assms(2)])
next
  case (Receive buf len i b)
  show ?thesis by (rule receive_lacpdu_wf [OF assms(2) Receive])
next
  case (Timer p k)
  obtain u where "port_timer_expired api k p s = Some u" "wf_port p u"
    using timer_expired_wf Timer(1) assms(2) by blast
  with Timer(3) show ?thesis by simp
next
  case (Devices_Change e)
  show ?thesis unfolding Devices_Change using assms(2) by simp
qed

lemma reachable_wf: "lacp_reachable api s \<Longrightarrow> lacp_wf s"
  by (induction rule: lacp_reachable.induct) (auto dest: lacp_new_result(7) step_wf)

end
