(* ===== verification/Lacp_Example.thy ===== *)
theory Lacp_Example
  imports Lacp_Daemon
begin

text \<open>
  A device layer for examples: allocation never fails, every device is a 1 Gbps full-duplex link
  that is up, and the state of the layer is the list of its (slave, master) pairs.
\<close>

definition lab_api :: "(u32 \<times> u32) list lacp_out_api" where
  "lab_api = \<lparr>
     os_calloc = (\<lambda>e. (True, e)),
     get_sys_mac_addr = (\<lambda>e. (Some (Mac 2 0 0 0 0 1), e)),
     get_dev_name = (\<lambda>e d. if d = 0 then None else Some ''eth''),
     get_dev_duplex = (\<lambda>e d. 1),
     get_dev_speed = (\<lambda>e d. 1000),
     get_dev_link_status = (\<lambda>e d. d \<noteq> 0),
     get_dev_mac_addr = (\<lambda>d e. (Some (Mac 2 0 0 0 1 (ucast d)), e)),
     enable_dev = (\<lambda>d e. (True, e)),
     disable_dev = (\<lambda>d e. (True, e)),
     enable_lacp = (\<lambda>d e. (True, e)),
     disable_lacp = (\<lambda>d e. (True, e)),
     send_lacpdu = (\<lambda>d buf e. (True, e)),
     is_slave = (\<lambda>e d m. (d, m) \<in> set e),
     number_of_slaves = (\<lambda>e m. of_nat (length (filter (\<lambda>x. snd x = m) e))),
     new_aggregator = (\<lambda>nm e. (100, e)),
     destroy_aggregator = (\<lambda>d e. (True, e)),
     attach_slave = (\<lambda>m d e. (True, (d, m) # e)),
     detach_slave = (\<lambda>m d e. (True, filter (\<lambda>x. x \<noteq> (d, m)) e))\<rparr>"

definition lab_parameters :: lacp_parameters where
  "lab_parameters = \<lparr>priority = 32768, lacp_rate = 1, ad_select = LACP_AD_SELECT_ALG_BANDWIDTH\<rparr>"

definition lab_start :: "(u32 \<times> u32) list lacpd_lacp" where
  "lab_start = (case lacp_new (Some ''switch0'') (Some lab_api) lab_parameters [] of
      (Some s, _) \<Rightarrow> s | _ \<Rightarrow> undefined)"

definition lab_joined :: "(u32 \<times> u32) list lacpd_lacp" where
  "lab_joined = (case lacpd_add_device lab_api 5 None lab_start of
      Returns (_, s) \<Rightarrow> s | Fault _ \<Rightarrow> undefined)"

lemma lab_start_new: "lacp_new (Some ''switch0'') (Some lab_api) lab_parameters [] = (Some lab_start, [])"
  by (simp add: lab_start_def lacp_new_def lab_api_def)

lemma lab_start_wf: "lacp_wf lab_start"
  using lacp_new_result(7) [OF lab_start_new] .

lemma lab_allocs: "allocs lab_api n e = (True, e)"
  by (induction n arbitrary: e) (simp_all add: lab_api_def)

lemma lab_joined_result:
  "lacpd_add_device lab_api 5 None lab_start = Returns (True, lab_joined)"
  "lacp_wf lab_joined" "ports lab_joined = [0]" "aggregators lab_joined = [1]"
  "next_port_agg_id lab_joined = 2" "actor_port_aggregator_identifier (port_mem lab_joined 0) = 0"
  "select_state (m_select (port_mem lab_joined 0)) = LACPD_SELECT_LOGIC_ST_UNSELECTED"
  "mux_state (m_mux (port_mem lab_joined 0)) = LACPD_MUX_ST_DETACHED"
proof -
  note new = lacp_new_result [OF lab_start_new]
  have l: "lacpd_port_lookup lab_start 5 = None" "next_ref lab_start = 0"
    using new(1) by (simp_all add: lacpd_port_lookup_def lab_start_def lacp_new_def lab_api_def)
  have c: "os_calloc lab_api (env lab_start) = (True, [])"
    "get_dev_mac_addr lab_api 5 [] = (Some (Mac 2 0 0 0 1 5), [])"
    using new(6) by (simp_all add: lab_api_def)
  from add_device_machines [OF lab_start_wf l(1) _ _ c, of None] new l lab_allocs obtain t where
    t: "lacpd_add_device lab_api 5 None lab_start = Returns (True, t)" "lacp_wf t"
      "ports t = [0]" "aggregators t = [1]" "next_port_agg_id t = 2"
      "actor_port_aggregator_identifier (port_mem t 0) = 0"
      "select_state (m_select (port_mem t 0)) = LACPD_SELECT_LOGIC_ST_UNSELECTED"
      "mux_state (m_mux (port_mem t 0)) = LACPD_MUX_ST_DETACHED"
    by (auto simp: device_added_def device_port_def list_add_tail_def lacp_machines_def)
  then have "lab_joined = t" by (simp add: lab_joined_def)
  with t show "lacpd_add_device lab_api 5 None lab_start = Returns (True, lab_joined)"
    "lacp_wf lab_joined" "ports lab_joined = [0]" "aggregators lab_joined = [1]"
    "next_port_agg_id lab_joined = 2" "actor_port_aggregator_identifier (port_mem lab_joined 0) = 0"
    "select_state (m_select (port_mem lab_joined 0)) = LACPD_SELECT_LOGIC_ST_UNSELECTED"
    "mux_state (m_mux (port_mem lab_joined 0)) = LACPD_MUX_ST_DETACHED"
    by simp_all
qed

lemma lab_joined_reachable: "lacp_reachable lab_api lab_joined"
  by (rule lacp_reachable.Next [OF lacp_reachable.Created [OF lab_start_new]
      lacp_step.Add_Device [OF lab_joined_result(1)]])

lemma lab_joined_port: "port_ok (port_mem lab_joined 0)"
  using lab_joined_result by simp

lemma u32_between_0_2:
  fixes x :: u32
  assumes "x \<noteq> 0" and "x < 2"
  shows "x = 1"
proof -
  have "unat x < 2" "unat x \<noteq> 0" using assms by (simp_all add: word_less_nat_alt unat_eq_0)
  then have "unat x = unat (1 :: u32)" by simp
  then show ?thesis by (rule word_unat_eq_iff [THEN iffD2])
qed

lemma lab_joined_aggregator:
  "aggregator_identifier (agg_mem lab_joined 1) = 1" "agg_ports (agg_mem lab_joined 1) = []"
proof -
  have "\<forall>a\<in>set (aggregators lab_joined). agg_ok lab_joined a"
    using lab_joined_result(2) unfolding lacp_wf_def by blast
  then have ok: "agg_ok lab_joined 1" unfolding lab_joined_result(4) by simp
  then have "aggregator_identifier (agg_mem lab_joined 1) \<noteq> 0" "aggregator_identifier (agg_mem lab_joined 1) < 2"
    using lab_joined_result(5) unfolding agg_ok_def by auto
  then show "aggregator_identifier (agg_mem lab_joined 1) = 1"
    by (rule u32_between_0_2)
  show "agg_ports (agg_mem lab_joined 1) = []"
  proof (cases "agg_ports (agg_mem lab_joined 1)")
    case (Cons q qs)
    then have "q \<in> set (agg_ports (agg_mem lab_joined 1))" by simp
    then have "q \<in> set (ports lab_joined)"
      "actor_port_aggregator_identifier (port_mem lab_joined q) = aggregator_identifier (agg_mem lab_joined 1)"
      using ok unfolding agg_ok_def by blast+
    with lab_joined_result(3,6) ok show ?thesis unfolding agg_ok_def by simp
  qed simp
qed

text \<open>The same instance with its port put on its aggregator, in a state of our choice.\<close>

definition lab_with :: "(lacpd_port \<Rightarrow> lacpd_port) \<Rightarrow> (u32 \<times> u32) list lacpd_lacp" where
  "lab_with f = upd_agg 1 (\<lambda>A. A\<lparr>agg_ports := [0], is_free := False\<rparr>) (upd_port 0 f lab_joined)"

lemma lab_with_wf:
  assumes "port_ok (f (port_mem lab_joined 0))"
    and "dev_ifindex (f (port_mem lab_joined 0)) = dev_ifindex (port_mem lab_joined 0)"
    and "actor_port_aggregator_identifier (f (port_mem lab_joined 0)) = 1"
  shows "wf_port 0 (lab_with f)"
proof -
  let ?A = "(agg_mem lab_joined 1)\<lparr>agg_ports := [0], is_free := False\<rparr>"
  have "lacp_wf (lab_with f)"
    by (rule wf_change_member [where s = lab_joined and p = 0 and a = 1 and A' = ?A
          and P' = "f (port_mem lab_joined 0)"])
      (use assms lab_joined_result lab_joined_aggregator in \<open>simp_all add: lab_with_def upd_agg_def\<close>)
  then show ?thesis using lab_joined_result by (simp add: lab_with_def upd_agg_def)
qed

end
