(* ===== verification/Lacp_Sends.thy ===== *)
theory Lacp_Sends
  imports Lacp_Example
begin

text \<open>
  Runs of an instance as lists of events, and the number of LACPDUs it hands to one device in a
  run: what a port counts in \<^verbatim>\<open>pkt_sent\<close> is what its device has been given since the last tick of
  its rate-limit timer.
\<close>

subsection \<open>A second invariant for the engine\<close>

text \<open>
  What the states of a table keep in addition to the invariant under which it makes progress,
  and the same for the machines of a runner.
\<close>

locale fsm_table_keeps = fsm_table base inv rank
  for base :: "('q, 's) state_machine_base" and inv :: "'s \<Rightarrow> bool" and rank :: "'s \<Rightarrow> nat" +
  fixes kept :: "'s \<Rightarrow> bool"
  assumes kept_enter: "st \<in> set (base_states base) \<Longrightarrow> inv s \<Longrightarrow> kept s \<Longrightarrow> condition st s = (True, s1) \<Longrightarrow>
      kept (fsm_change_to_state base (st_id st) s1)"
    and kept_skip: "st \<in> set (base_states base) \<Longrightarrow> inv s \<Longrightarrow> kept s \<Longrightarrow> condition st s = (False, s1) \<Longrightarrow>
      kept s1"

sublocale fsm_table_keeps \<subseteq> with_kept: fsm_table base "\<lambda>s. inv s \<and> kept s" rank
  by unfold_locales (use enter skip kept_enter kept_skip in blast)+

locale fsm_progress_keeps = fsm_progress chk inv rank
  for chk :: "'m \<Rightarrow> 's \<Rightarrow> bool \<times> 's" and inv :: "'s \<Rightarrow> bool" and rank :: "'s \<Rightarrow> nat" +
  fixes kept :: "'s \<Rightarrow> bool"
  assumes kept_check: "inv s \<Longrightarrow> kept s \<Longrightarrow> kept (snd (chk m s))"

sublocale fsm_progress_keeps \<subseteq> with_kept: fsm_progress chk "\<lambda>s. inv s \<and> kept s" rank
  by unfold_locales (use keeps progress no_regress idle kept_check in blast)+

subsection \<open>Counting at the device layer\<close>

text \<open>
  \<open>sent\<close> counts the frames that the device layer was given for device \<open>d\<close>: only the call that
  sends a LACPDU on \<open>d\<close> adds to it, whether it succeeds or not.
\<close>

definition counts_sends :: "'e lacp_out_api \<Rightarrow> u32 \<Rightarrow> ('e \<Rightarrow> nat) \<Rightarrow> bool" where
  "counts_sends api d sent \<longleftrightarrow>
     (\<forall>i buf e. sent (snd (send_lacpdu api i buf e)) = sent e + (if i = d then 1 else 0)) \<and>
     (\<forall>e. sent (snd (os_calloc api e)) = sent e) \<and>
     (\<forall>i e. sent (snd (get_dev_mac_addr api i e)) = sent e) \<and>
     (\<forall>i e. sent (snd (enable_dev api i e)) = sent e) \<and>
     (\<forall>i e. sent (snd (disable_dev api i e)) = sent e) \<and>
     (\<forall>i e. sent (snd (enable_lacp api i e)) = sent e) \<and>
     (\<forall>i e. sent (snd (disable_lacp api i e)) = sent e) \<and>
     (\<forall>nm e. sent (snd (new_aggregator api nm e)) = sent e) \<and>
     (\<forall>i e. sent (snd (destroy_aggregator api i e)) = sent e) \<and>
     (\<forall>m i e. sent (snd (attach_slave api m i e)) = sent e) \<and>
     (\<forall>m i e. sent (snd (detach_slave api m i e)) = sent e)"

text \<open>A change of the instance that sends nothing on the device and leaves the transmitter of \<open>p\<close> alone.\<close>

definition silent :: "('e \<Rightarrow> nat) \<Rightarrow> port_ref \<Rightarrow> 'e lacpd_lacp \<Rightarrow> 'e lacpd_lacp \<Rightarrow> bool" where
  "silent sent p s t \<longleftrightarrow>
     sent (env t) = sent (env s) \<and> (p \<in> set (ports s) \<longrightarrow> p \<in> set (ports t)) \<and>
     dev_ifindex (port_mem t p) = dev_ifindex (port_mem s p) \<and>
     pkt_sent (m_transmit (port_mem t p)) = pkt_sent (m_transmit (port_mem s p))"

lemma silent_refl [simp]: "silent sent p s s"
  by (simp add: silent_def)

lemma silent_trans: "silent sent p s t \<Longrightarrow> silent sent p t u \<Longrightarrow> silent sent p s u"
  by (simp add: silent_def)

lemma silent_upd_port:
  assumes "q = p \<Longrightarrow> dev_ifindex (f (port_mem s p)) = dev_ifindex (port_mem s p) \<and>
    pkt_sent (m_transmit (f (port_mem s p))) = pkt_sent (m_transmit (port_mem s p))"
  shows "silent sent p s (upd_port q f s)"
  using assms by (auto simp: silent_def)

lemma silent_schedule [simp]: "silent sent p s (lacpd_port_fsm_schedule_run q s)"
  unfolding lacpd_port_fsm_schedule_run_def by (rule silent_upd_port) simp

text \<open>The port \<open>p\<close> with its counter: the frames given to its device are \<open>K\<close> more than it counts.\<close>

definition tallied ::
    "'e lacp_out_api \<Rightarrow> u32 \<Rightarrow> ('e \<Rightarrow> nat) \<Rightarrow> port_ref \<Rightarrow> int \<Rightarrow> 'e lacpd_lacp \<Rightarrow> bool" where
  "tallied api d sent p K s \<longleftrightarrow>
     counts_sends api d sent \<and> p \<in> set (ports s) \<and> dev_ifindex (port_mem s p) = d \<and>
     int (sent (env s)) = K + int (unat (pkt_sent (m_transmit (port_mem s p))))"

lemma counted_silent: "tallied api d sent p K s \<Longrightarrow> silent sent p s t \<Longrightarrow> tallied api d sent p K t"
  by (simp add: tallied_def silent_def)

lemma counted_law: "tallied api d sent p K s \<Longrightarrow> counts_sends api d sent"
  by (simp add: tallied_def)

subsection \<open>Operations that send nothing\<close>

lemma sent_select_active:
  assumes "counts_sends api d sent"
  shows "sent (env (lacpd_select_active_aggregator api s)) = sent (env s)"
  using assms
  by (auto simp: lacpd_select_active_aggregator_def Let_def counts_sends_def split: option.splits)

lemma sent_attach:
  assumes "counts_sends api d sent"
  shows "sent (env (snd (lacpd_aggregator_attach_port api a p s))) = sent (env s)"
  using assms
  by (auto simp: lacpd_aggregator_attach_port_def Let_def case_prod_beta sent_select_active [OF assms]
      counts_sends_def)

lemma sent_detach:
  assumes "counts_sends api d sent"
  shows "sent (env (snd (lacpd_aggregator_detach_port api a p s))) = sent (env s)"
  using assms
  by (auto simp: lacpd_aggregator_detach_port_def Let_def case_prod_beta sent_select_active [OF assms]
      counts_sends_def)

lemma sent_allocs:
  assumes "counts_sends api d sent"
  shows "sent (snd (allocs api n e)) = sent e"
  using assms
proof (induction n arbitrary: e)
  case (Suc n)
  then show ?case by (simp add: case_prod_beta Let_def counts_sends_def)
qed simp

lemma env_add_del_port [simp]:
  "env (snd (lacpd_aggregator_add_port a p s)) = env s"
  "env (snd (lacpd_aggregator_del_port a p s)) = env s"
  "port_mem (snd (lacpd_aggregator_add_port a p s)) = port_mem s"
  "port_mem (snd (lacpd_aggregator_del_port a p s)) = port_mem s"
  "ports (snd (lacpd_aggregator_add_port a p s)) = ports s"
  "ports (snd (lacpd_aggregator_del_port a p s)) = ports s"
  by (simp_all add: lacpd_aggregator_add_port_def lacpd_aggregator_del_port_def Let_def
      lacpd_aggregator_update_ready_def)

lemma env_update_ready [simp]: "env (lacpd_aggregator_update_ready a s) = env s"
  by (simp add: lacpd_aggregator_update_ready_def)

lemma silent_dev_frame:
  assumes "dev_frame s t" and "sent (env t) = sent (env s)"
  shows "silent sent p s t"
  using assms(2) dev_frame_simps(1,2) [OF assms(1)] by (simp add: silent_def)

subsection \<open>Entering a state\<close>

lemma receive_enter_silent: "silent sent p s (fsm_change_to_state (receive_machine_base q) st s)"
  unfolding receive_change_to_state
  by (rule silent_upd_port) (use receive_frame_enter [of "port_mem s p" st] in \<open>simp add: receive_frame_def\<close>)

lemma receive_check_silent: "silent sent p s (upd_port q receive_check_message s)"
  by (rule silent_upd_port) (simp add: receive_check_message_def)

lemma periodic_enter_silent: "silent sent p s (fsm_change_to_state (periodic_transmit_machine_base q) st s)"
  unfolding periodic_change_to_state
  by (rule silent_upd_port) (cases st; simp add: upd_periodic_def)

lemma selection_enter_silent: "silent sent p s (fsm_change_to_state (selection_machine_base q) st s)"
  by (cases st)
    (auto simp: selection_enter_UNSELECTED selection_enter_SELECTED silent_def upd_select_def Let_def
      lacpd_fsm_selection_logic_act_remove_from_aggregator_def case_prod_beta
      lacpd_fsm_selection_logic_act_add_to_aggregator_def split: option.splits)

lemma mux_devices_silent:
  assumes "counts_sends api d sent"
  shows "silent sent p s (lacpd_fsm_mux_act_disable_collecting_distributing api q s)"
    "silent sent p s (lacpd_fsm_mux_act_enable_collecting_distributing api q s)"
  by (rule silent_dev_frame [OF dev_frame_disable], simp add: sent_detach [OF assms]
      lacpd_fsm_mux_act_disable_collecting_distributing_def split: option.splits)
    (rule silent_dev_frame [OF dev_frame_enable], simp add: sent_attach [OF assms]
      lacpd_fsm_mux_act_enable_collecting_distributing_def split: option.splits)

lemma mux_set_silent [simp]:
  "silent sent p s (lacpd_fsm_mux_act_DETACHED_set q s)" "silent sent p s (lacpd_fsm_mux_act_WAITING_set q s)"
  "silent sent p s (lacpd_fsm_mux_act_ATTACHED_set q s)"
  "silent sent p s (lacpd_fsm_mux_act_COLLECTING_DISTRIBUTING_set q s)"
  "silent sent p s (upd_port q (upd_mux f) s)"
  unfolding mux_act_defs
  by (rule silent_upd_port; simp add: upd_mux_def upd_state_defs)+

lemma mux_enter_silent:
  assumes "counts_sends api d sent"
  shows "silent sent p s (fsm_change_to_state (mux_machine_base api q) st s)"
proof -
  let ?u = "upd_port q (upd_mux (\<lambda>m. m\<lparr>mux_state := st\<rparr>)) s"
  have "silent sent p ?u (run_actions (entry_actions (mux_machine_base api q) st) ?u)"
    unfolding mux_entry_actions
    by (cases st)
      (simp_all add: lacpd_fsm_mux_act_detach_mux_from_aggregator_def
        lacpd_fsm_mux_act_attach_mux_to_aggregator_def del: upd_port_upd_port add:
        silent_trans [OF mux_devices_silent(1) [OF assms] mux_set_silent(1)]
        silent_trans [OF mux_devices_silent(1) [OF assms] mux_set_silent(3)]
        silent_trans [OF mux_devices_silent(2) [OF assms] mux_set_silent(4)])
  then show ?thesis
    unfolding fsm_change_to_state_def mux_put_state by (rule silent_trans [OF mux_set_silent(5)])
qed

subsection \<open>Sending\<close>

lemma other_device:
  assumes "wf_port q s" and "p \<in> set (ports s)" and "q \<noteq> p"
  shows "dev_ifindex (port_mem s q) \<noteq> dev_ifindex (port_mem s p)"
  using assms by (auto simp: lacp_wf_def inj_on_def)

lemma transmit_enter_tallied:
  assumes k: "tallied api d sent p K s" and wf: "wf_port q s"
    and "st = LACPD_TRANSMIT_ST_TX \<Longrightarrow> pkt_sent (m_transmit (port_mem s q)) < 3"
  shows "tallied api d sent p K (fsm_change_to_state (transmit_machine_base api q) st s)"
proof -
  have law: "\<And>i buf e. sent (snd (send_lacpdu api i buf e)) = sent e + (if i = d then 1 else 0)"
    using counted_law [OF k] by (simp add: counts_sends_def)
  have "tallied api d sent p K s" by (rule k)
  moreover have "unat (pkt_sent (m_transmit (port_mem s q)) + 1) = Suc (unat (pkt_sent (m_transmit (port_mem s q))))"
    if "st = LACPD_TRANSMIT_ST_TX" using pkt_sent_Suc(2) [OF assms(3) [OF that]] .
  moreover have "q \<noteq> p \<Longrightarrow> dev_ifindex (port_mem s q) \<noteq> d"
    using other_device [OF wf, of p] k by (auto simp: tallied_def)
  ultimately show ?thesis
    by (cases "q = p"; cases st)
      (simp_all add: transmit_change_to_state transmit_env_def law tallied_def del: transmit_enter.simps)
qed

text \<open>The five tables keep the count.\<close>

lemma pure_condition_keeps: "snd (condition st s) = s \<Longrightarrow> condition st s = (h, s1) \<Longrightarrow> s1 = s"
  by simp

lemma receive_condition_silent:
  "st \<in> set (base_states (receive_machine_base q)) \<Longrightarrow> condition st s = (h, s1) \<Longrightarrow> silent sent p s s1"
  by (auto simp: receive_machine_base_def lacpd_fsm_receive_cond_to_CURRENT_def Let_def receive_check_silent
      split: prod.splits)

interpretation receive_sends: fsm_table_keeps "receive_machine_base q" "wf_port q"
    "\<lambda>s. port_rank (port_mem s q)" "tallied api d sent p K"
  for api :: "'e lacp_out_api" and q :: port_ref and d sent p K
  by unfold_locales
    (blast intro: counted_silent silent_trans receive_condition_silent receive_enter_silent)+

interpretation periodic_sends: fsm_table_keeps "periodic_transmit_machine_base q" "wf_port q"
    "\<lambda>s. port_rank (port_mem s q)" "tallied api d sent p K"
  for api :: "'e lacp_out_api" and q :: port_ref and d sent p K
  by unfold_locales
    (metis pure_condition_keeps pure_tables(1) counted_silent periodic_enter_silent)+

interpretation selection_sends: fsm_table_keeps "selection_machine_base q" "wf_port q"
    "\<lambda>s. port_rank (port_mem s q)" "tallied api d sent p K"
  for api :: "'e lacp_out_api" and q :: port_ref and d sent p K
  by unfold_locales
    (metis pure_condition_keeps pure_tables(2) counted_silent selection_enter_silent)+

interpretation mux_sends: fsm_table_keeps "mux_machine_base api q" "wf_port q"
    "\<lambda>s. port_rank (port_mem s q)" "tallied api d sent p K"
  for api :: "'e lacp_out_api" and q :: port_ref and d sent p K
  by unfold_locales
    (metis pure_condition_keeps pure_tables(3) counted_silent counted_law mux_enter_silent)+

interpretation transmit_sends: fsm_table_keeps "transmit_machine_base api q" "wf_port q"
    "\<lambda>s. port_rank (port_mem s q)" "tallied api d sent p K"
  for api :: "'e lacp_out_api" and q :: port_ref and d sent p K
proof unfold_locales
  fix st :: "(lacpd_state_machine_transmit_state, 'e lacpd_lacp) state_machine_state" and s s1
  assume st: "st \<in> set (base_states (transmit_machine_base api q))" and wf: "wf_port q s"
    and k: "tallied api d sent p K s"
  show "tallied api d sent p K (fsm_change_to_state (transmit_machine_base api q) (st_id st) s1)"
    if "condition st s = (True, s1)"
    using transmit_enter_rank [OF wf_port_ok st that] transmit_enter_tallied [OF k wf, of "st_id st"] wf by blast
  show "tallied api d sent p K s1" if "condition st s = (False, s1)"
    using pure_condition_keeps [OF pure_tables(4) [OF st] that] k by simp
qed

lemma check_tallied:
  assumes "wf_port q s" and "tallied api d sent p K s"
  shows "tallied api d sent p K (snd (lacpd_check_transit_conditions api q m s))"
  using receive_sends.with_kept.check_inv [where api = api and q = q and s = s and d = d and sent = sent and p = p and K = K]
    periodic_sends.with_kept.check_inv [where api = api and q = q and s = s and d = d and sent = sent and p = p and K = K]
    selection_sends.with_kept.check_inv [where api = api and q = q and s = s and d = d and sent = sent and p = p and K = K]
    mux_sends.with_kept.check_inv [where api = api and q = q and s = s and d = d and sent = sent and p = p and K = K]
    transmit_sends.with_kept.check_inv [where api = api and q = q and s = s and d = d and sent = sent and p = p and K = K] assms
  by (cases m) (simp_all add: lacpd_check_transit_conditions_def)

interpretation port_run_sends: fsm_progress_keeps "lacpd_check_transit_conditions api q" "wf_port q"
    "\<lambda>s. port_rank (port_mem s q)" "tallied api d sent p K"
  for api :: "'e lacp_out_api" and q :: port_ref and d sent p K
  by unfold_locales (rule check_tallied)

subsection \<open>A run of the machines\<close>

lemma enter_initial_tallied:
  assumes "tallied api d sent p K s"
  shows "tallied api d sent p K (lacpd_enter_initial_state api q m s)"
proof (cases m)
  case LACPD_PORT_STATE_MACHINE_TRANSMIT
  have "silent sent p s (fsm_change_to_state (transmit_machine_base api q) LACPD_TRANSMIT_ST_NO_TX s)"
    unfolding transmit_change_to_state by (auto simp: silent_def transmit_env_def upd_transmit_def)
  with LACPD_PORT_STATE_MACHINE_TRANSMIT assms show ?thesis
    by (simp add: lacpd_enter_initial_state_def counted_silent)
qed (use assms counted_law [OF assms] in \<open>auto simp: lacpd_enter_initial_state_def intro: counted_silent
      receive_enter_silent periodic_enter_silent selection_enter_silent mux_enter_silent\<close>)

lemma initial_run_tallied:
  "tallied api d sent p K s \<Longrightarrow> tallied api d sent p K (fold (lacpd_enter_initial_state api q) ms s)"
  by (induction ms arbitrary: s) (simp_all add: enter_initial_tallied)

lemma port_run_tallied:
  assumes "wf_port q s" and "tallied api d sent p K s" and "lacpd_port_run api q s = Some t"
  shows "tallied api d sent p K t"
proof (cases "initialized (port_runner q s)")
  case True
  from port_run_sends.with_kept.loop [where api = api and q = q and s = s and d = d and sent = sent
      and p = p and K = K and ms = "machines (port_runner q s)"] assms(1,2)
  show ?thesis using assms(3) True by (auto simp: lacpd_port_run_def fsm_runner_run_def)
next
  case False
  then have "t = upd_runner q (\<lambda>r. r\<lparr>initialized := True\<rparr>)
      (fold (lacpd_enter_initial_state api q) (machines (port_runner q s)) s)"
    using assms(3) by (simp add: lacpd_port_run_def fsm_runner_run_def fsm_runner_initail_run_def)
  moreover have "silent sent p u (upd_runner q f u)" for u f
    unfolding upd_runner_def by (rule silent_upd_port) simp
  ultimately show ?thesis
    using counted_silent [OF initial_run_tallied [OF assms(2)]] by blast
qed

subsection \<open>Devices join and leave\<close>

lemma add_device_silent:
  assumes law: "counts_sends api d sent" and wf: "lacp_wf s" and p: "p \<in> set (ports s)"
    and r: "lacpd_add_device api i prm s = Returns (b, t)"
  shows "silent sent p s t"
proof -
  have sent: "sent (snd (os_calloc api e)) = sent e" "sent (snd (get_dev_mac_addr api i e)) = sent e"
    "sent (snd (enable_lacp api i e)) = sent e" for e
    using law by (simp_all add: counts_sends_def)
  have old: "p < next_ref s" using wf p by (simp add: lacp_wf_def)
  obtain ok e where c: "os_calloc api (env s) = (ok, e)" by fastforce
  obtain mac e2 where m: "get_dev_mac_addr api i e = (mac, e2)" by fastforce
  have se: "sent e = sent (env s)" "sent e2 = sent (env s)" using sent(1) [of "env s"] sent(2) [of e] c m by simp_all
  consider "lacpd_port_lookup s i \<noteq> None \<or> i = 0 \<or> next_port_agg_id s = 0"
    | "lacpd_port_lookup s i = None" "i \<noteq> 0" "next_port_agg_id s \<noteq> 0" by blast
  then show ?thesis
  proof cases
    case 1
    from add_device_refused [OF this, of api prm] r show ?thesis by simp
  next
    case 2
    show ?thesis
    proof (cases ok)
      case False
      with add_device_no_memory [OF 2, of api e prm] c r se show ?thesis by (simp add: silent_def)
    next
      case ok: True
      show ?thesis
      proof (cases mac)
        case None
        with add_device_crash [OF 2, of api e e2 prm] c m ok r show ?thesis by simp
      next
        case (Some mc)
        from add_device_machines [OF wf 2, of api e mc e2 prm] c m ok Some r old se sent(3)
          sent_allocs [OF law, of 6 e2]
        show ?thesis
          by (auto simp: silent_def fresh_frame_def device_added_def split: if_splits)
      qed
    qed
  qed
qed

lemma port_destroy_sent:
  assumes law: "counts_sends api d sent" and "lacpd_port_destroy api q s = Returns t"
  shows "sent (env t) = sent (env s)"
proof (cases "has_os_service (port_runner q s)")
  case False
  with assms(2) cleanup_no_os_service [OF False] show ?thesis by (simp add: lacpd_port_destroy_def)
next
  case True
  from cleanup_returns [OF this] obtain f where "lacpd_port_cleanup q s = Returns (upd_port q f s)" by blast
  with assms(2) sent_detach [OF law] show ?thesis
    by (auto simp: lacpd_port_destroy_def Let_def split: option.splits)
qed

lemma aggregator_destroy_sent:
  assumes law: "counts_sends api d sent"
  shows "sent (env (lacpd_aggregator_destroy api a s)) = sent (env s)"
proof -
  have "sent (env (fold (\<lambda>p t. snd (lacpd_aggregator_del_port a p (snd (lacpd_aggregator_detach_port api a p t)))) ps t)) =
      sent (env t)" for ps t
    by (induction ps arbitrary: t) (simp_all add: sent_detach [OF law])
  then show ?thesis by (simp add: lacpd_aggregator_destroy_def)
qed

lemma del_device_silent:
  assumes law: "counts_sends api d sent" and wf: "lacp_wf s" and p: "p \<in> set (ports s)"
    and i: "dev_ifindex (port_mem s p) \<noteq> i" and r: "lacpd_del_device api i s = Returns (b, t)"
  shows "silent sent p s t"
proof (cases "lacpd_port_lookup s i")
  case None
  with r show ?thesis by (simp add: lacpd_del_device_def)
next
  case (Some q)
  then have q: "q \<noteq> p" using port_lookup_Some [OF Some] i by auto
  let ?s1 = "snd (call_api (disable_lacp api (dev_ifindex (port_mem s q))) s)"
  have "sent (env ?s1) = sent (env s)" using law by (simp add: counts_sends_def)
  then have e: "sent (env t) = sent (env s)"
    using r Some port_destroy_sent [OF law] aggregator_destroy_sent [OF law]
    by (auto simp: lacpd_del_device_def Let_def bind_outcome_Returns_iff split: option.splits)
  from del_device_result [OF wf, of i api] Some r obtain u as where
    "port_gone q s u" "t = u\<lparr>aggregators := as\<rparr>" by auto
  moreover have "distinct (ports s)" using wf by (simp add: lacp_wf_def)
  ultimately show ?thesis using e q p by (simp add: silent_def port_gone_def)
qed

subsection \<open>Runs\<close>

text \<open>
  What can happen to an instance: the calls of its wrapper, the expiry of a timer of a port, and
  a change of the device layer.
\<close>

datatype 'e lacp_event =
    Add_Event u32 "lacp_port_parameters option"
  | Del_Event u32
  | Link_Event u32 u32
  | Packet_Event "u8 list" u32 u32
  | Timer_Event port_timer_id port_ref
  | Devices_Event "'e \<Rightarrow> 'e"

fun returned :: "(bool \<times> 's) outcome \<Rightarrow> 's option" where
  "returned (Returns (b, t)) = Some t"
| "returned (Fault f) = None"

fun lacp_exec :: "'e lacp_out_api \<Rightarrow> 'e lacp_event \<Rightarrow> 'e lacpd_lacp \<Rightarrow> 'e lacpd_lacp option" where
  "lacp_exec api (Add_Event i prm) s = returned (lacpd_add_device api i prm s)"
| "lacp_exec api (Del_Event i) s = returned (lacpd_del_device api i s)"
| "lacp_exec api (Link_Event i st) s = Some (lacpd_link_status_changed api i st s)"
| "lacp_exec api (Packet_Event buf len i) s = returned (lacpd_receive_lacpdu buf len i s)"
| "lacp_exec api (Timer_Event k q) s =
     (if q \<in> set (ports s) \<and> pending (port_timer k (port_mem s q)) then port_timer_expired api k q s else None)"
| "lacp_exec api (Devices_Event g) s = Some (s\<lparr>env := g (env s)\<rparr>)"

fun lacp_run :: "'e lacp_out_api \<Rightarrow> 'e lacp_event list \<Rightarrow> 'e lacpd_lacp \<Rightarrow> 'e lacpd_lacp option" where
  "lacp_run api [] s = Some s"
| "lacp_run api (ev # evs) s =
     (case lacp_exec api ev s of None \<Rightarrow> None | Some t \<Rightarrow> lacp_run api evs t)"

lemma returned_Some: "returned x = Some t \<longleftrightarrow> (\<exists>b. x = Returns (b, t))"
  by (cases x rule: returned.cases) simp_all

text \<open>The events are the steps.\<close>

lemma lacp_step_iff: "lacp_step api s t \<longleftrightarrow> (\<exists>ev. lacp_exec api ev s = Some t)"
proof
  assume "lacp_step api s t"
  then show "\<exists>ev. lacp_exec api ev s = Some t"
  proof cases
    case (Add_Device i prm b)
    then show ?thesis by (intro exI [of _ "Add_Event i prm"]) simp
  next
    case (Del_Device i b)
    then show ?thesis by (intro exI [of _ "Del_Event i"]) simp
  next
    case (Link_Status i st)
    then show ?thesis by (intro exI [of _ "Link_Event i st"]) simp
  next
    case (Receive buf len i b)
    then show ?thesis by (intro exI [of _ "Packet_Event buf len i"]) simp
  next
    case (Timer p k)
    then show ?thesis by (intro exI [of _ "Timer_Event k p"]) simp
  next
    case (Devices_Change e)
    then show ?thesis by (intro exI [of _ "Devices_Event (\<lambda>_. e)"]) simp
  qed
next
  assume "\<exists>ev. lacp_exec api ev s = Some t"
  then obtain ev where ev: "lacp_exec api ev s = Some t" ..
  then show "lacp_step api s t"
  proof (cases ev)
    case (Add_Event i prm)
    with ev show ?thesis by (auto simp: returned_Some intro: Add_Device)
  next
    case (Del_Event i)
    with ev show ?thesis by (auto simp: returned_Some intro: Del_Device)
  next
    case (Link_Event i st)
    with ev Link_Status [of api s i st] show ?thesis by simp
  next
    case (Packet_Event buf len i)
    with ev show ?thesis by (auto simp: returned_Some intro: Receive)
  next
    case (Timer_Event k p)
    with ev show ?thesis by (auto intro: Timer split: if_splits)
  next
    case (Devices_Event g)
    with ev Devices_Change [of api s "g (env s)"] show ?thesis by simp
  qed
qed

text \<open>The events that leave the count of \<open>p\<close> alone or count along.\<close>

definition keeps_count :: "u32 \<Rightarrow> ('e \<Rightarrow> nat) \<Rightarrow> port_ref \<Rightarrow> 'e lacp_event \<Rightarrow> bool" where
  "keeps_count d sent p ev \<longleftrightarrow>
     (case ev of
        Del_Event i \<Rightarrow> i \<noteq> d
      | Timer_Event k q \<Rightarrow> k \<noteq> Rate_Limit_Timer \<or> q \<noteq> p
      | Devices_Event g \<Rightarrow> (\<forall>e. sent (g e) = sent e)
      | _ \<Rightarrow> True)"

lemma fire_silent:
  "silent sent p s (upd_port q (fire k) s)"
  by (rule silent_upd_port) (cases k; simp add: upd_receive_def upd_periodic_def upd_mux_def upd_transmit_def)

lemma timer_tallied:
  assumes wf: "wf_port q s" and k: "tallied api d sent p K s" and t: "port_timer_expired api k q s = Some t"
    and r: "k \<noteq> Rate_Limit_Timer \<or> q \<noteq> p"
  shows "tallied api d sent p K t"
proof -
  let ?u = "upd_port q (fire k) s"
  have u: "tallied api d sent p K ?u" by (rule counted_silent [OF k fire_silent])
  have cb: "timer_callback api k q ?u = Some t" using t by (simp add: port_timer_expired_def)
  show ?thesis
  proof (cases k)
    case Runner_Timer
    then have "wf_port q ?u" by (intro other_timer_fired_wf [OF wf]) simp
    from port_run_tallied [OF this u] cb Runner_Timer show ?thesis by simp
  next
    case Wait_While_Timer
    have "silent sent p ?u t"
      using cb unfolding Wait_While_Timer
      by (auto simp: lacpd_fsm_mux_wait_while_timer_cb_def Let_def silent_def lacpd_port_fsm_schedule_run_def
          split: option.splits if_splits)
    with u show ?thesis by (rule counted_silent)
  next
    case Rate_Limit_Timer
    with r have "silent sent p ?u t"
      using cb by (auto simp: lacpd_fsm_transmit_rate_limit_timer_cb_def silent_def lacpd_port_fsm_schedule_run_def)
    with u show ?thesis by (rule counted_silent)
  next
    case Current_While_Timer
    with cb u show ?thesis
      by (auto simp: lacpd_fsm_receive_current_while_timer_cb_def intro: counted_silent)
  next
    case Periodic_Timer
    with cb u show ?thesis
      by (auto simp: lacpd_fsm_periodic_transmission_timer_cb_def intro: counted_silent)
  qed
qed

lemma exec_tallied:
  assumes wf: "lacp_wf s" and k: "tallied api d sent p K s" and t: "lacp_exec api ev s = Some t"
    and ev: "keeps_count d sent p ev"
  shows "tallied api d sent p K t"
proof -
  have p: "p \<in> set (ports s)" "dev_ifindex (port_mem s p) = d" using k by (simp_all add: tallied_def)
  note law = counted_law [OF k]
  show ?thesis
  proof (cases ev)
    case (Add_Event i prm)
    with t obtain b where "lacpd_add_device api i prm s = Returns (b, t)" by (auto simp: returned_Some)
    from counted_silent [OF k add_device_silent [OF law wf p(1) this]] show ?thesis .
  next
    case (Del_Event i)
    with t ev p(2) obtain b where "dev_ifindex (port_mem s p) \<noteq> i" "lacpd_del_device api i s = Returns (b, t)"
      by (auto simp: returned_Some keeps_count_def)
    from counted_silent [OF k del_device_silent [OF law wf p(1) this]] show ?thesis .
  next
    case (Link_Event i st)
    with t have "silent sent p s t"
      by (auto simp: lacpd_link_status_changed_def link_updated_def Let_def silent_def
          lacpd_port_fsm_schedule_run_def split: option.splits)
    with k show ?thesis by (rule counted_silent)
  next
    case (Packet_Event buf len i)
    with t have "silent sent p s t"
      by (auto simp: lacpd_receive_lacpdu_def returned_Some silent_def bind_outcome_Returns_iff
          lacpd_port_fsm_schedule_run_def split: option.splits)
    with k show ?thesis by (rule counted_silent)
  next
    case (Timer_Event tm q)
    with t ev have "wf_port q s" "port_timer_expired api tm q s = Some t" "tm \<noteq> Rate_Limit_Timer \<or> q \<noteq> p"
      using wf by (auto simp: keeps_count_def split: if_splits)
    from timer_tallied [OF this(1) k this(2,3)] show ?thesis .
  next
    case (Devices_Event g)
    with t ev k show ?thesis by (auto simp: keeps_count_def tallied_def)
  qed
qed

lemma run_tallied:
  assumes "lacp_wf s" and "tallied api d sent p K s" and "lacp_run api evs s = Some t"
    and "list_all (keeps_count d sent p) evs"
  shows "lacp_wf t \<and> tallied api d sent p K t"
  using assms
proof (induction evs arbitrary: s)
  case (Cons ev evs)
  from Cons.prems(3) obtain u where u: "lacp_exec api ev s = Some u" "lacp_run api evs u = Some t"
    by (auto split: option.splits)
  then have "lacp_wf u" using step_wf [of api s u] lacp_step_iff Cons.prems(1) by blast
  moreover have "tallied api d sent p K u"
    using exec_tallied [OF Cons.prems(1,2) u(1)] Cons.prems(4) by simp
  ultimately show ?case using Cons.IH u(2) Cons.prems(4) by simp
qed simp

subsection \<open>An instance whose devices record what they are given\<close>

definition lab_counting_api :: "u32 list lacp_out_api" where
  "lab_counting_api = \<lparr>
     os_calloc = (\<lambda>e. (True, e)),
     get_sys_mac_addr = (\<lambda>e. (Some (Mac 2 0 0 0 0 1), e)),
     get_dev_name = (\<lambda>e d. Some ''eth''),
     get_dev_duplex = (\<lambda>e d. 1),
     get_dev_speed = (\<lambda>e d. 1000),
     get_dev_link_status = (\<lambda>e d. True),
     get_dev_mac_addr = (\<lambda>d e. (Some (Mac 2 0 0 0 1 (ucast d)), e)),
     enable_dev = (\<lambda>d e. (True, e)),
     disable_dev = (\<lambda>d e. (True, e)),
     enable_lacp = (\<lambda>d e. (True, e)),
     disable_lacp = (\<lambda>d e. (True, e)),
     send_lacpdu = (\<lambda>d buf e. (True, d # e)),
     is_slave = (\<lambda>e d m. False),
     number_of_slaves = (\<lambda>e m. 0),
     new_aggregator = (\<lambda>nm e. (100, e)),
     destroy_aggregator = (\<lambda>d e. (True, e)),
     attach_slave = (\<lambda>m d e. (True, e)),
     detach_slave = (\<lambda>m d e. (True, e))\<rparr>"

definition frames_to :: "u32 \<Rightarrow> u32 list \<Rightarrow> nat" where
  "frames_to d e = length (filter (\<lambda>i. i = d) e)"

lemma lab_counting_law: "counts_sends lab_counting_api d (frames_to d)"
  by (simp add: counts_sends_def lab_counting_api_def frames_to_def)

definition lab_counting :: "u32 list lacpd_lacp" where
  "lab_counting = (case lacp_new (Some ''switch0'') (Some lab_counting_api) lab_parameters [] of
      (Some s, _) \<Rightarrow> (case lacpd_add_device lab_counting_api 5 None s of Returns (_, t) \<Rightarrow> t | Fault _ \<Rightarrow> s)
    | _ \<Rightarrow> undefined)"

lemma lab_counting_result:
  "lacp_reachable lab_counting_api lab_counting" "ports lab_counting = [0]"
  "dev_ifindex (port_mem lab_counting 0) = 5" "env lab_counting = []"
  "pending (runner_timer (port_runner 0 lab_counting))"
proof -
  obtain s where new: "lacp_new (Some ''switch0'') (Some lab_counting_api) lab_parameters [] = (Some s, [])"
    and nr: "next_ref s = 0"
    by (simp add: lacp_new_def lab_counting_api_def)
  note n = lacp_new_result [OF new]
  have lk: "lacpd_port_lookup s 5 = None" using n(1) by (simp add: lacpd_port_lookup_def)
  have c: "os_calloc lab_counting_api (env s) = (True, [])"
    "get_dev_mac_addr lab_counting_api 5 [] = (Some (Mac 2 0 0 0 1 5), [])"
    using n(6) by (simp_all add: lab_counting_api_def)
  have al: "allocs lab_counting_api k e = (True, e)" for k e
    by (induction k arbitrary: e) (simp_all add: lab_counting_api_def)
  from add_device_machines [OF n(7) lk _ _ c, of None] n(3) al obtain t where
    t: "lacpd_add_device lab_counting_api 5 None s = Returns (True, t)"
      "device_added (device_port lab_counting_api [] s 5 None (Mac 2 0 0 0 1 5)) s t"
      "env t = snd (enable_lacp lab_counting_api 5 [])" by auto
  then have l: "lab_counting = t" by (simp add: lab_counting_def new)
  show "lacp_reachable lab_counting_api lab_counting"
    unfolding l by (rule lacp_reachable.Next [OF lacp_reachable.Created [OF new] lacp_step.Add_Device [OF t(1)]])
  show "ports lab_counting = [0]" "dev_ifindex (port_mem lab_counting 0) = 5" "env lab_counting = []"
    "pending (runner_timer (port_runner 0 lab_counting))"
    unfolding l using t(2,3) n(1) nr
    by (simp_all add: device_added_def list_add_tail_def device_port_def Let_def lab_counting_api_def
        lacp_machines_def fsm_runner_schedule_def fsm_runner_init_def)
qed

text \<open>Its port runs, receives a packet, and runs again.\<close>

definition lab_events :: "u32 list lacp_event list" where
  "lab_events = [Timer_Event Runner_Timer 0, Packet_Event (lacp_pkt_bytes lacpdu_init) 124 5,
     Timer_Event Runner_Timer 0]"

lemma lab_events_keep_count: "list_all (keeps_count 5 sent 0) lab_events"
  by (simp add: lab_events_def keeps_count_def)

lemma lab_events_run: "\<exists>t. lacp_run lab_counting_api lab_events lab_counting = Some t"
proof -
  let ?api = lab_counting_api
  have wf: "wf_port 0 lab_counting"
    using reachable_wf [OF lab_counting_result(1)] lab_counting_result(2) by simp
  from timer_expired_wf [OF this, of ?api Runner_Timer] obtain s1 where
    1: "port_timer_expired ?api Runner_Timer 0 lab_counting = Some s1" "wf_port 0 s1" by blast
  have "tallied ?api 5 (frames_to 5) 0 (- int (unat (pkt_sent (m_transmit (port_mem lab_counting 0))))) lab_counting"
    using lab_counting_result by (simp add: tallied_def lab_counting_law frames_to_def)
  from timer_tallied [OF wf this 1(1)] have "dev_ifindex (port_mem s1 0) = 5" by (simp add: tallied_def)
  then have dev: "port_of_device s1 5 = Some 0" using port_of_device_in [OF 1(2)] by simp
  have "lacpdu_padded (lacp lacpdu_init)"
    by (simp add: lacpdu_padded_def lacpdu_init_def lacpdu_port_info_zero_def)
  then have "lacp_pkt_of_bytes (lacp_pkt_bytes lacpdu_init) = Returns lacpdu_init"
    using lacp_pkt_of_lacp_pkt_bytes [of lacpdu_init "[]"] by simp
  with dev obtain s2 where 2: "lacpd_receive_lacpdu (lacp_pkt_bytes lacpdu_init) 124 5 s1 = Returns (True, s2)"
    "s2 = lacpd_port_fsm_schedule_run 0 (upd_port 0 (\<lambda>P. P\<lparr>message := lacp lacpdu_init, lacpdu_indicate := True\<rparr>) s1)"
    by (simp add: lacpd_receive_lacpdu_def)
  have w2: "wf_port 0 s2" using receive_lacpdu_wf [OF _ 2(1)] 1(2) 2(2) by (simp add: lacpd_port_fsm_schedule_run_def)
  have "machines (port_runner 0 s1) \<noteq> []" "has_timer_cb (port_runner 0 s1)"
    using wf_port_ok [of s1 0] 1(2) by (auto simp: port_ok_def runner_ok_def lacp_machines_def)
  then have p2: "pending (runner_timer (port_runner 0 s2))"
    by (simp add: 2(2) lacpd_port_fsm_schedule_run_def fsm_runner_schedule_pending)
  from timer_expired_wf [OF w2, of ?api Runner_Timer] obtain s3 where
    "port_timer_expired ?api Runner_Timer 0 s2 = Some s3" by blast
  with 1 2(1) w2 p2 lab_counting_result(2,5) show ?thesis
    by (simp add: lab_events_def)
qed

end
