(* ===== verification/Active_Aggregator.thy ===== *)
theory Active_Aggregator
  imports Lacp_Inv
begin

text \<open>
  What \<^verbatim>\<open>lacpd_select_active_aggregator\<close> (qca/src/qca-lacpd/lacp/lacp.c) chooses: a maximum of a
  lexicographic score, and when it keeps the aggregator that was active before.
\<close>

subsection \<open>The best aggregator\<close>

definition agg_score :: "'e lacpd_lacp \<Rightarrow> agg_ref \<Rightarrow> bool \<times> bool \<times> nat \<times> int" where
  "agg_score s a =
     (\<not> individual_aggregator (agg_mem s a), \<not> mac_addr_is_empty (partner_system (agg_mem s a)),
      if ad_select (param s) = LACP_AD_SELECT_ALG_COUNT then length (agg_ports (agg_mem s a)) else 0,
      sint (agg_bandwidth s a))"

lemma compare_is_max:
  assumes "ad_select (param s) \<noteq> LACP_AD_SELECT_ALG_ALL"
  shows "lacpd_aggregator_selection_compare s (Some b) c = (if agg_score s b < agg_score s c then c else b)"
  using assms
  by (cases "ad_select (param s)")
    (auto simp: lacpd_aggregator_selection_compare_def agg_score_def Let_def less_prod_def')

definition agg_usable :: "'e lacp_out_api \<Rightarrow> 'e lacpd_lacp \<Rightarrow> agg_ref \<Rightarrow> bool" where
  "agg_usable api s a \<longleftrightarrow> \<not> is_free (agg_mem s a) \<and> agg_link_up api s a"

lemma best_from:
  assumes "ad_select (param s) \<noteq> LACP_AD_SELECT_ALG_ALL"
  shows "\<exists>m. best_aggregator api s (Some b) as = Some m \<and>
    m \<in> insert b {a \<in> set as. agg_usable api s a} \<and>
    (\<forall>x\<in>insert b {a \<in> set as. agg_usable api s a}. agg_score s x \<le> agg_score s m)"
proof (induction as arbitrary: b)
  case Nil
  then show ?case by (simp add: best_aggregator_def)
next
  case (Cons a as)
  show ?case
  proof (cases "agg_usable api s a")
    case True
    let ?c = "if agg_score s b < agg_score s a then a else b"
    have step: "best_aggregator api s (Some b) (a # as) = best_aggregator api s (Some ?c) as"
      using True by (simp add: best_aggregator_def agg_usable_def compare_is_max [OF assms])
    from Cons [of ?c] obtain m where m: "best_aggregator api s (Some ?c) as = Some m"
      "m \<in> insert ?c {a \<in> set as. agg_usable api s a}"
      "\<forall>x\<in>insert ?c {a \<in> set as. agg_usable api s a}. agg_score s x \<le> agg_score s m" by blast
    have "agg_score s a \<le> agg_score s ?c" "agg_score s b \<le> agg_score s ?c" by auto
    with m True show ?thesis
      unfolding step by (auto split: if_splits intro: order_trans)
  next
    case False
    then have "best_aggregator api s (Some b) (a # as) = best_aggregator api s (Some b) as"
      by (auto simp: best_aggregator_def agg_usable_def)
    with Cons [of b] False show ?thesis by auto
  qed
qed

lemma best_from_None:
  assumes "ad_select (param s) \<noteq> LACP_AD_SELECT_ALG_ALL"
  shows "case best_aggregator api s None as of
      None \<Rightarrow> {a \<in> set as. agg_usable api s a} = {}
    | Some m \<Rightarrow> m \<in> {a \<in> set as. agg_usable api s a} \<and>
        (\<forall>x\<in>{a \<in> set as. agg_usable api s a}. agg_score s x \<le> agg_score s m)"
proof (induction as)
  case Nil
  then show ?case by (simp add: best_aggregator_def)
next
  case (Cons a as)
  show ?case
  proof (cases "agg_usable api s a")
    case True
    then have "best_aggregator api s None (a # as) = best_aggregator api s (Some a) as"
      by (simp add: best_aggregator_def agg_usable_def lacpd_aggregator_selection_compare_def)
    with best_from [OF assms, where api = api and b = a and as = as] True show ?thesis by auto
  next
    case False
    then have "best_aggregator api s None (a # as) = best_aggregator api s None as"
      by (auto simp: best_aggregator_def agg_usable_def)
    with Cons False show ?thesis by (auto split: option.splits)
  qed
qed

lemma scores_without_active [simp]:
  "agg_score (s\<lparr>active_aggregator := i\<rparr>) a = agg_score s a"
  "agg_usable api (s\<lparr>active_aggregator := i\<rparr>) a = agg_usable api s a"
  by (simp_all add: agg_score_def agg_usable_def agg_bandwidth_def)

text \<open>The aggregators the choice is between: those in use and up, and the old one if it is up.\<close>

definition agg_candidates :: "'e lacp_out_api \<Rightarrow> 'e lacpd_lacp \<Rightarrow> agg_ref set" where
  "agg_candidates api s = {a \<in> set (aggregators s). agg_usable api s a \<or>
     (aggregator_identifier (agg_mem s a) = active_aggregator s \<and> agg_link_up api s a)}"

definition first_choice :: "'e lacp_out_api \<Rightarrow> 'e lacpd_lacp \<Rightarrow> agg_ref option" where
  "first_choice api s =
     best_aggregator api (s\<lparr>active_aggregator := 0\<rparr>)
       (case lacpd_aggregator_lookup s (lacpd_aggregator_selector_by_id (active_aggregator s)) of
          None \<Rightarrow> None | Some act \<Rightarrow> if agg_link_up api s act then Some act else None)
       (aggregators s)"

lemma lookup_active:
  assumes "lacp_wf s"
  shows "(case lacpd_aggregator_lookup s (lacpd_aggregator_selector_by_id (active_aggregator s)) of
      None \<Rightarrow> \<forall>a\<in>set (aggregators s). aggregator_identifier (agg_mem s a) \<noteq> active_aggregator s
    | Some act \<Rightarrow> act \<in> set (aggregators s) \<and> aggregator_identifier (agg_mem s act) = active_aggregator s \<and>
        (\<forall>a\<in>set (aggregators s). aggregator_identifier (agg_mem s a) = active_aggregator s \<longrightarrow> a = act))"
proof (cases "lacpd_aggregator_lookup s (lacpd_aggregator_selector_by_id (active_aggregator s))")
  case None
  have "aggregator_identifier (agg_mem s a) \<noteq> active_aggregator s" if "a \<in> set (aggregators s)" for a
  proof
    assume e: "aggregator_identifier (agg_mem s a) = active_aggregator s"
    from lookup_by_id [OF assms that] None show False unfolding e by simp
  qed
  then show ?thesis unfolding None option.case by blast
next
  case (Some act)
  have a: "act \<in> set (aggregators s)" "aggregator_identifier (agg_mem s act) = active_aggregator s"
    using lookup_Some [OF Some] by (simp_all add: lacpd_aggregator_selector_by_id_def split: if_splits)
  have uniq: "b = act" if "b \<in> set (aggregators s)" "aggregator_identifier (agg_mem s b) = active_aggregator s" for b
    using lookup_by_id [OF assms that(1)] Some that(2) by simp
  show ?thesis unfolding Some option.case using a uniq by blast
qed

lemma first_choice_is_best:
  assumes "lacp_wf s" and "ad_select (param s) \<noteq> LACP_AD_SELECT_ALG_ALL"
  shows "case first_choice api s of
      None \<Rightarrow> agg_candidates api s = {}
    | Some m \<Rightarrow> m \<in> agg_candidates api s \<and> (\<forall>x\<in>agg_candidates api s. agg_score s x \<le> agg_score s m)"
proof -
  let ?s = "s\<lparr>active_aggregator := 0\<rparr>"
  have alg: "ad_select (param ?s) \<noteq> LACP_AD_SELECT_ALG_ALL" using assms(2) by simp
  note lk = lookup_active [OF assms(1)]
  show ?thesis
  proof (cases "lacpd_aggregator_lookup s (lacpd_aggregator_selector_by_id (active_aggregator s))")
    case None
    with lk have "agg_candidates api s = {a \<in> set (aggregators s). agg_usable api ?s a}"
      by (auto simp: agg_candidates_def)
    with best_from_None [OF alg, where api = api and as = "aggregators s"] None show ?thesis
      by (simp add: first_choice_def split: option.splits)
  next
    case (Some act)
    show ?thesis
    proof (cases "agg_link_up api s act")
      case True
      with Some lk have "agg_candidates api s = insert act {a \<in> set (aggregators s). agg_usable api ?s a}"
        by (auto simp: agg_candidates_def)
      with best_from [OF alg, where api = api and b = act and as = "aggregators s"] Some True show ?thesis
        by (auto simp: first_choice_def)
    next
      case False
      with Some lk have "agg_candidates api s = {a \<in> set (aggregators s). agg_usable api ?s a}"
        by (auto simp: agg_candidates_def)
      with best_from_None [OF alg, where api = api and as = "aggregators s"] Some False show ?thesis
        by (simp add: first_choice_def split: option.splits)
    qed
  qed
qed

text \<open>Without the stable policy the first choice becomes active; with it, the old one may stay.\<close>

lemma select_active_result:
  assumes "ad_select (param s) \<noteq> LACP_AD_SELECT_ALG_ALL"
  shows "active_aggregator (lacpd_select_active_aggregator api s) =
    (case first_choice api s of
       None \<Rightarrow> 0
     | Some best \<Rightarrow>
         (case lacpd_aggregator_lookup s (lacpd_aggregator_selector_by_id (active_aggregator s)) of
            Some act \<Rightarrow> if keep_stable_active api (s\<lparr>active_aggregator := 0\<rparr>) act best
              then aggregator_identifier (agg_mem s act) else aggregator_identifier (agg_mem s best)
          | None \<Rightarrow> aggregator_identifier (agg_mem s best)))"
  using assms
  by (simp add: lacpd_select_active_aggregator_def first_choice_def Let_def call_api_def
      split: option.splits prod.splits)

end
