(* ===== verification/Lacp_Properties.thy ===== *)
theory Lacp_Properties
  imports Lacp_Sends Active_Aggregator
begin

text \<open>
  What the LACP instance as a whole guarantees: its machines come to rest, its lists stay
  consistent, a port that is at rest collects and distributes only with a partner it has heard.
\<close>

subsection \<open>Ports for the witnesses\<close>

text \<open>Two ports that are at rest: one with its link down, one that carries traffic.\<close>

definition lab_port_down :: "lacpd_port \<Rightarrow> lacpd_port" where
  "lab_port_down P = P\<lparr>port_enabled := False, lacpdu_indicate := False,
     partner_port_info := partner_admin_port_info P,
     m_receive := (m_receive P)\<lparr>recv_state := LACPD_RECV_ST_PORT_DISABLED\<rparr>,
     m_periodic := (m_periodic P)\<lparr>periodic_state := LACPD_PERIODIC_ST_NO_PERIODIC\<rparr>,
     m_select := \<lparr>select_state = LACPD_SELECT_LOGIC_ST_SELECTED\<rparr>,
     selected := LACPD_SEL_STATE_SELECTED, actor_port_aggregator_identifier := 1,
     actor_port_info := (actor_port_info P)\<lparr>info_state := port_info_state_zero\<lparr>synchronization := True\<rparr>\<rparr>,
     m_mux := (m_mux P)\<lparr>mux_state := LACPD_MUX_ST_ATTACHED\<rparr>,
     m_transmit := (m_transmit P)\<lparr>transmit_state := LACPD_TRANSMIT_ST_DISABLED\<rparr>\<rparr>"

definition lab_port_up :: "lacpd_port \<Rightarrow> lacpd_port" where
  "lab_port_up P = (lab_port_down P)\<lparr>port_enabled := True, ntt := False,
     partner_port_info := (partner_admin_port_info P)\<lparr>info_state :=
       port_info_state_zero\<lparr>activity := True, synchronization := True\<rparr>\<rparr>,
     actor_port_info := (actor_port_info P)\<lparr>info_state := port_info_state_zero\<lparr>synchronization := True,
       collecting := True, distributing := True\<rparr>\<rparr>,
     m_receive := \<lparr>recv_state = LACPD_RECV_ST_CURRENT, current_while_timer = timer_set 90000 idle_timer\<rparr>,
     m_periodic := \<lparr>periodic_state = LACPD_PERIODIC_ST_SLOW_PERIODIC, periodic_timer = timer_set 30000 idle_timer\<rparr>,
     m_mux := (m_mux P)\<lparr>mux_state := LACPD_MUX_ST_COLLECTING_DISTRIBUTING\<rparr>,
     m_transmit := (m_transmit P)\<lparr>transmit_state := LACPD_TRANSMIT_ST_NO_TX\<rparr>\<rparr>"

lemma wf_port_members:
  "lacp_wf s \<Longrightarrow> a \<in> set (aggregators s) \<Longrightarrow> set (agg_ports (agg_mem s a)) \<subseteq> set (ports s)"
  unfolding lacp_wf_def agg_ok_def by blast

lemma lab_port_down_wf: "wf_port 0 (lab_with lab_port_down)"
  by (rule lab_with_wf) (use lab_joined_port in \<open>simp_all add: lab_port_down_def port_ok_defs port_info_state_zero_def\<close>)

lemma lab_port_up_wf: "wf_port 0 (lab_with lab_port_up)"
  by (rule lab_with_wf)
    (use lab_joined_port in \<open>simp_all add: lab_port_up_def lab_port_down_def port_ok_defs port_info_state_zero_def\<close>)

definition lab_port_waiting :: "lacpd_port \<Rightarrow> lacpd_port" where
  "lab_port_waiting P = (lab_port_down P)\<lparr>ready_N := False,
     actor_port_info := (actor_port_info P)\<lparr>info_state := port_info_state_zero\<rparr>,
     m_mux := \<lparr>mux_state = LACPD_MUX_ST_WAITING, wait_while_timer = timer_set 2000 idle_timer\<rparr>\<rparr>"

lemma lab_port_waiting_wf: "wf_port 0 (lab_with lab_port_waiting)"
  by (rule lab_with_wf)
    (use lab_joined_port in \<open>simp_all add: lab_port_waiting_def lab_port_down_def port_ok_defs port_info_state_zero_def\<close>)

lemma lab_with_port [simp]: "port_mem (lab_with f) 0 = f (port_mem lab_joined 0)"
  by (simp add: lab_with_def upd_agg_def)

subsection \<open>Rest\<close>

lemmas machine_cond_defs =
  receive_cond_defs
  lacpd_fsm_periodic_transmission_cond_to_NO_PERIODIC_def
  lacpd_fsm_periodic_transmission_cond_to_FAST_PERIODIC_def
  lacpd_fsm_periodic_transmission_cond_to_SLOW_PERIODIC_def
  lacpd_fsm_periodic_transmission_cond_to_PERIODIC_TX_def
  lacpd_fsm_selection_logic_cond_to_UNSELECTED_def lacpd_fsm_selection_logic_cond_to_SELECTED_def
  mux_cond_defs
  lacpd_fsm_transmit_cond_to_NO_TX_def lacpd_fsm_transmit_cond_to_TX_def
  lacpd_fsm_transmit_cond_to_DISABLED_def

lemma quiescent_iff:
  assumes "wf_port p s"
  shows "quiescent api p s \<longleftrightarrow>
    (\<forall>m. \<not> fst (lacpd_check_transit_conditions api p m s))"
proof -
  have "machines (port_runner p s) = lacp_machines"
    using assms wf_port_ok [of s p] by (simp add: port_ok_def runner_ok_def)
  moreover have "m \<in> set lacp_machines" for m by (cases m) (simp_all add: lacp_machines_def)
  ultimately show ?thesis unfolding quiescent_def list_all_iff by metis
qed

lemma idle_machines:
  assumes "wf_port p s" and "quiescent api p s"
  shows "\<not> fst (fsm_check_transit_conditions (receive_machine_base p) s)"
    "\<not> fst (fsm_check_transit_conditions (periodic_transmit_machine_base p) s)"
    "\<not> fst (fsm_check_transit_conditions (selection_machine_base p) s)"
    "\<not> fst (fsm_check_transit_conditions (mux_machine_base api p) s)"
    "\<not> fst (fsm_check_transit_conditions (transmit_machine_base api p) s)"
proof -
  have "\<not> fst (lacpd_check_transit_conditions api p m s)" for m
    using assms quiescent_iff by blast
  from this [of LACPD_PORT_STATE_MACHINE_RECEIVE] this [of LACPD_PORT_STATE_MACHINE_PERIODIC]
    this [of LACPD_PORT_STATE_MACHINE_SELECT] this [of LACPD_PORT_STATE_MACHINE_MUX]
    this [of LACPD_PORT_STATE_MACHINE_TRANSMIT]
  show "\<not> fst (fsm_check_transit_conditions (receive_machine_base p) s)"
    "\<not> fst (fsm_check_transit_conditions (periodic_transmit_machine_base p) s)"
    "\<not> fst (fsm_check_transit_conditions (selection_machine_base p) s)"
    "\<not> fst (fsm_check_transit_conditions (mux_machine_base api p) s)"
    "\<not> fst (fsm_check_transit_conditions (transmit_machine_base api p) s)"
    by (simp_all add: lacpd_check_transit_conditions_def)
qed

lemma lab_port_fields [simp]:
  "port_enabled (lab_port_up P)" "\<not> port_enabled (lab_port_down P)"
  "\<not> lacpdu_indicate (lab_port_up P)" "\<not> lacpdu_indicate (lab_port_down P)"
  "\<not> ntt (lab_port_up P)" "lacp_enabled (lab_port_up P) = lacp_enabled P"
  "lacp_enabled (lab_port_down P) = lacp_enabled P" "port_moved (lab_port_up P) = port_moved P"
  "port_moved (lab_port_down P) = port_moved P"
  "selected (lab_port_up P) = LACPD_SEL_STATE_SELECTED" "selected (lab_port_down P) = LACPD_SEL_STATE_SELECTED"
  "select_state (m_select (lab_port_up P)) = LACPD_SELECT_LOGIC_ST_SELECTED"
  "select_state (m_select (lab_port_down P)) = LACPD_SELECT_LOGIC_ST_SELECTED"
  "recv_state (m_receive (lab_port_up P)) = LACPD_RECV_ST_CURRENT"
  "recv_state (m_receive (lab_port_down P)) = LACPD_RECV_ST_PORT_DISABLED"
  "pending (current_while_timer (m_receive (lab_port_up P)))"
  "periodic_state (m_periodic (lab_port_up P)) = LACPD_PERIODIC_ST_SLOW_PERIODIC"
  "pending (periodic_timer (m_periodic (lab_port_up P)))"
  "periodic_state (m_periodic (lab_port_down P)) = LACPD_PERIODIC_ST_NO_PERIODIC"
  "mux_state (m_mux (lab_port_up P)) = LACPD_MUX_ST_COLLECTING_DISTRIBUTING"
  "mux_state (m_mux (lab_port_down P)) = LACPD_MUX_ST_ATTACHED"
  "transmit_state (m_transmit (lab_port_up P)) = LACPD_TRANSMIT_ST_NO_TX"
  "transmit_state (m_transmit (lab_port_down P)) = LACPD_TRANSMIT_ST_DISABLED"
  "synchronization (partner_state (lab_port_up P))" "activity (partner_state (lab_port_up P))"
  "\<not> timeout (partner_state (lab_port_up P))"
  "partner_state (lab_port_down P) = info_state (partner_admin_port_info P)"
  by (simp_all add: lab_port_up_def lab_port_down_def port_info_state_zero_def)

lemma lab_rest:
  "quiescent lab_api 0 (lab_with lab_port_up)" "quiescent lab_api 0 (lab_with lab_port_down)"
proof -
  have get: "lacpd_port_state_machine_get (lab_port_up (port_mem lab_joined 0)) m = Some m"
    "lacpd_port_state_machine_get (lab_port_down (port_mem lab_joined 0)) m = Some m" for m
    using lab_port_up_wf wf_port_ok [of "lab_with lab_port_up" 0]
      lab_port_down_wf wf_port_ok [of "lab_with lab_port_down" 0] by simp_all
  have P: "lacp_enabled (port_mem lab_joined 0)" "\<not> port_moved (port_mem lab_joined 0)"
    "\<not> synchronization (info_state (partner_admin_port_info (port_mem lab_joined 0)))"
    using lab_joined_port by (simp_all add: port_ok_defs)
  have "\<not> fst (lacpd_check_transit_conditions lab_api 0 m (lab_with lab_port_up))"
    "\<not> fst (lacpd_check_transit_conditions lab_api 0 m (lab_with lab_port_down))" for m
    by (cases m; simp add: lacpd_check_transit_conditions_def check_iffs machine_cond_defs Let_def get P
        receive_check_message_def split: option.splits)+
  then show "quiescent lab_api 0 (lab_with lab_port_up)" "quiescent lab_api 0 (lab_with lab_port_down)"
    using quiescent_iff [OF lab_port_up_wf] quiescent_iff [OF lab_port_down_wf] by blast+
qed

subsection \<open>The parts of a key\<close>

lemma key_parts:
  fixes u sp d :: u32
  assumes "u < 1024" and "sp < 32" and "d < 2"
  shows "lacp_port_key_get_user (lacp_port_key_make u sp d) = u"
    "lacp_port_key_get_speed (lacp_port_key_make u sp d) = sp"
    "lacp_port_key_get_duplex (lacp_port_key_make u sp d) = d"
proof -
  have t: "take_bit 10 u = u" "take_bit 5 sp = sp" "take_bit (Suc 0) d = d"
    by (rule take_bit_below; use assms in \<open>simp add: word_less_nat_alt\<close>)+
  have m: "(0x3ff :: u16) = mask 10" "(0x1f :: u16) = mask 5" "(1 :: u16) = mask 1"
    by (simp_all add: mask_eq_exp_minus_1)
  have b: "bit u n \<Longrightarrow> n < 10" "bit sp n \<Longrightarrow> n < 5" "bit d n \<Longrightarrow> n = 0" for n
    by (metis t(1) bit_take_bit_iff, metis t(2) bit_take_bit_iff, metis t(3) bit_take_bit_iff less_Suc0)
  show "lacp_port_key_get_user (lacp_port_key_make u sp d) = u"
    unfolding lacp_port_key_get_user_def lacp_port_key_make_def m
    by (rule bit_word_eqI) (auto simp: bit_simps mult.commute [of _ "2 :: u32"] bit_double_iff dest: b)
  show "lacp_port_key_get_speed (lacp_port_key_make u sp d) = sp"
    unfolding lacp_port_key_get_speed_def lacp_port_key_make_def m
    by (rule bit_word_eqI) (auto simp: bit_simps mult.commute [of _ "2 :: u32"] bit_double_iff dest: b)
  show "lacp_port_key_get_duplex (lacp_port_key_make u sp d) = d"
    unfolding lacp_port_key_get_duplex_def lacp_port_key_make_def m
    by (rule bit_word_eqI) (auto simp: bit_simps mult.commute [of _ "2 :: u32"] bit_double_iff dest: b)
qed

subsection \<open>Properties\<close>

text \<open>C1: In every reachable state, the runner of every port returns: a port that was initialised
  ends with all five of its machines at rest, a port that was not ends in its initial states,
  detached and on no aggregator. The instance is well-formed again.\<close>

theorem machines_come_to_rest:
  assumes "lacp_reachable api s" and "p \<in> set (ports s)"
  shows "\<exists>t. lacpd_port_run api p s = Some t \<and> lacp_wf t \<and>
    (if initialized (port_runner p s) then quiescent api p t
     else initialized (port_runner p t) \<and> recv_state (m_receive (port_mem t p)) = LACPD_RECV_ST_INITIALIZE \<and>
       mux_state (m_mux (port_mem t p)) = LACPD_MUX_ST_DETACHED \<and>
       actor_port_aggregator_identifier (port_mem t p) = 0)"
proof -
  have "wf_port p s" using reachable_wf [OF assms(1)] assms(2) by blast
  from port_run_initialized [OF this] port_run_uninitialized [OF this] show ?thesis
    by (cases "initialized (port_runner p s)") fastforce+
qed

theorem machines_come_to_rest_witness:
  "\<exists>t. lacpd_port_run lab_api 0 lab_joined = Some t \<and> lacp_wf t"
  using machines_come_to_rest [OF lab_joined_reachable, of 0] lab_joined_result(3) by auto

text \<open>C2: In every reachable state a port with an aggregator identifier is on the list of exactly
  one aggregator, the one with that identifier; a port without one is on none; and aggregators
  list ports of the instance only.\<close>

theorem port_on_one_aggregator:
  assumes "lacp_reachable api s" and "p \<in> set (ports s)"
  shows "(if actor_port_aggregator_identifier (port_mem s p) \<noteq> 0
          then \<exists>!a. a \<in> set (aggregators s) \<and> p \<in> set (agg_ports (agg_mem s a))
          else \<not> (\<exists>a. a \<in> set (aggregators s) \<and> p \<in> set (agg_ports (agg_mem s a))))"
proof -
  have wf: "wf_port p s" using reachable_wf [OF assms(1)] assms(2) by blast
  have ok: "agg_ok s a" if "a \<in> set (aggregators s)" for a
    using wf that unfolding lacp_wf_def by blast
  have id: "aggregator_identifier (agg_mem s a) = actor_port_aggregator_identifier (port_mem s p)"
    "aggregator_identifier (agg_mem s a) \<noteq> 0"
    if "a \<in> set (aggregators s)" "p \<in> set (agg_ports (agg_mem s a))" for a
    using ok [OF that(1)] that(2) unfolding agg_ok_def by auto
  have inj: "inj_on (\<lambda>a. aggregator_identifier (agg_mem s a)) (set (aggregators s))"
    using wf unfolding lacp_wf_def by blast
  show ?thesis
  proof (cases "actor_port_aggregator_identifier (port_mem s p) = 0")
    case True
    with id show ?thesis by force
  next
    case False
    from lookup_own_aggregator [OF wf this] obtain a where
      a: "a \<in> set (aggregators s)" "p \<in> set (agg_ports (agg_mem s a))" by blast
    have "b = a" if "b \<in> set (aggregators s)" "p \<in> set (agg_ports (agg_mem s b))" for b
      using inj_onD [OF inj _ that(1) a(1)] id(1) [OF that] id(1) [OF a] by simp
    with a False show ?thesis by auto
  qed
qed

theorem port_on_one_aggregator_witness:
  "\<not> (\<exists>a. a \<in> set (aggregators lab_joined) \<and> (0::port_ref) \<in> set (agg_ports (agg_mem lab_joined a)))"
  using port_on_one_aggregator [OF lab_joined_reachable, of 0] lab_joined_result(3,6) by simp

text \<open>C3: Traffic needs a partner. When the machines of a port are at rest and it advertises
  that it collects or distributes, then its link is up, it is on an aggregator, the partner is in
  sync, and the partner's information comes from a received LACPDU whose timer is still running.\<close>

theorem traffic_needs_current_partner:
  assumes "lacp_wf s" and "p \<in> set (ports s)" and "quiescent api p s"
    and "collecting (actor_state (port_mem s p)) \<or> distributing (actor_state (port_mem s p))"
  shows "port_enabled (port_mem s p) \<and> synchronization (partner_state (port_mem s p)) \<and>
    recv_state (m_receive (port_mem s p)) = LACPD_RECV_ST_CURRENT \<and>
    pending (current_while_timer (m_receive (port_mem s p))) \<and>
    (\<exists>a\<in>set (aggregators s). p \<in> set (agg_ports (agg_mem s a)))"
proof -
  let ?P = "port_mem s p"
  have wf: "wf_port p s" using assms by blast
  then have ok: "port_ok ?P" by simp
  note idle = idle_machines [OF wf assms(3)]
  have mux: "mux_state (m_mux ?P) = LACPD_MUX_ST_COLLECTING_DISTRIBUTING"
    using ok assms(4) by (cases "mux_state (m_mux ?P)") (auto simp: port_ok_def)
  have sync: "synchronization (partner_state ?P)" "selected ?P \<noteq> LACPD_SEL_STATE_UNSELECTED"
    using idle(4) mux by (simp_all add: mux_check_iff mux_cond_defs Let_def split: option.splits)
  have cur: "recv_state (m_receive ?P) = LACPD_RECV_ST_CURRENT"
    using ok sync(1) by (simp add: port_ok_defs)
  have rest: "port_enabled ?P" "pending (current_while_timer (m_receive ?P))"
    using idle(1) cur ok by (simp_all add: receive_check_idle(2) receive_cond_defs Let_def port_ok_def)
  have "actor_port_aggregator_identifier ?P \<noteq> 0"
    using ok sync(2) by (cases "selected ?P") (auto simp: port_ok_defs)
  from lookup_own_aggregator [OF wf this] obtain a where
    "a \<in> set (aggregators s)" "p \<in> set (agg_ports (agg_mem s a))" by blast
  with sync cur rest show ?thesis by blast
qed

theorem traffic_needs_current_partner_witness:
  "pending (current_while_timer (m_receive (port_mem (lab_with lab_port_up) 0)))"
  using traffic_needs_current_partner [of "lab_with lab_port_up" 0, OF _ _ lab_rest(1)] lab_port_up_wf
  by (simp add: lab_port_up_def)

text \<open>C4: A link that is down silences the port. At rest, such a port is in PORT_DISABLED, sends no
  periodic LACPDUs, has its transmission disabled, and neither
  collects nor distributes.\<close>

theorem link_down_silences_port:
  assumes "lacp_wf s" and "p \<in> set (ports s)" and "quiescent api p s" and "\<not> port_enabled (port_mem s p)"
  shows "recv_state (m_receive (port_mem s p)) = LACPD_RECV_ST_PORT_DISABLED \<and>
    periodic_state (m_periodic (port_mem s p)) = LACPD_PERIODIC_ST_NO_PERIODIC \<and>
    transmit_state (m_transmit (port_mem s p)) = LACPD_TRANSMIT_ST_DISABLED \<and>
    mux_state (m_mux (port_mem s p)) \<noteq> LACPD_MUX_ST_COLLECTING_DISTRIBUTING \<and>
    \<not> collecting (actor_state (port_mem s p)) \<and> \<not> distributing (actor_state (port_mem s p))"
proof -
  let ?P = "port_mem s p"
  have wf: "wf_port p s" using assms by blast
  then have ok: "port_ok ?P" by simp
  note idle = idle_machines [OF wf assms(3)]
  have r: "recv_state (m_receive ?P) = LACPD_RECV_ST_PORT_DISABLED"
    using idle(1) assms(4) ok by (auto simp: receive_check_idle(2) receive_cond_defs Let_def port_ok_def)
  have pe: "periodic_state (m_periodic ?P) = LACPD_PERIODIC_ST_NO_PERIODIC"
    using idle(2) assms(4)
    by (simp add: periodic_check_iff lacpd_fsm_periodic_transmission_cond_to_NO_PERIODIC_def Let_def)
  have t: "transmit_state (m_transmit ?P) = LACPD_TRANSMIT_ST_DISABLED"
    using idle(5) pe ok by (auto simp: transmit_check_iff lacpd_fsm_transmit_cond_to_DISABLED_def Let_def)
  have "\<not> synchronization (partner_state ?P)"
    using ok r by (auto simp: port_ok_defs)
  then have m: "mux_state (m_mux ?P) \<noteq> LACPD_MUX_ST_COLLECTING_DISTRIBUTING"
    using idle(4) by (auto simp: mux_check_iff mux_cond_defs Let_def)
  then have "\<not> collecting (actor_state ?P)" "\<not> distributing (actor_state ?P)"
    using ok by (cases "mux_state (m_mux ?P)"; simp add: port_ok_def)+
  with r pe t m show ?thesis by blast
qed

theorem link_down_silences_port_witness:
  "\<not> distributing (actor_state (port_mem (lab_with lab_port_down) 0))"
  using link_down_silences_port [of "lab_with lab_port_down" 0, OF _ _ lab_rest(2)] lab_port_down_wf
  by simp

text \<open>C9: The transmitter sends at most three LACPDUs between two ticks of its rate-limit timer. Let the
  device layer count the frames it is given for the device of a port. In any run of a reachable
  instance, with whatever events in between (calls of the wrapper, packets, link changes, timers,
  other ports), in which the rate-limit timer of that port does not fire and its device is not
  deleted, the count grows by at most three, exactly by what the port adds to its own counter. The
  port is still there with its rate-limit timer armed, and when that fires the counter starts again
  at zero and the timer is armed for a second.\<close>

theorem transmission_rate_limited:
  assumes "lacp_reachable api s" and "p \<in> set (ports s)"
    and "counts_sends api (dev_ifindex (port_mem s p)) sent"
    and "list_all (keeps_count (dev_ifindex (port_mem s p)) sent p) evs" and "lacp_run api evs s = Some t"
  shows "sent (env t) \<le> sent (env s) + 3 \<and>
    sent (env t) + unat (pkt_sent (m_transmit (port_mem s p))) =
      sent (env s) + unat (pkt_sent (m_transmit (port_mem t p))) \<and>
    p \<in> set (ports t) \<and> pending (rate_limit_timer (m_transmit (port_mem t p))) \<and>
    (\<exists>u. port_timer_expired api Rate_Limit_Timer p t = Some u \<and> env u = env t \<and>
       pkt_sent (m_transmit (port_mem u p)) = 0 \<and> pending (rate_limit_timer (m_transmit (port_mem u p))) \<and>
       delay (rate_limit_timer (m_transmit (port_mem u p))) = 1000)"
proof -
  let ?n = "\<lambda>u. unat (pkt_sent (m_transmit (port_mem u p)))"
  have "tallied api (dev_ifindex (port_mem s p)) sent p (int (sent (env s)) - int (?n s)) s"
    using assms(2,3) by (simp add: tallied_def)
  from run_tallied [OF reachable_wf [OF assms(1)] this assms(5,4)] have
    t: "lacp_wf t" "p \<in> set (ports t)" "int (sent (env t)) + int (?n s) = int (sent (env s)) + int (?n t)"
    by (simp_all add: tallied_def)
  have "port_ok (port_mem t p)" by (rule wf_port_ok [OF t(1,2)])
  then have n: "?n t \<le> 3" "pending (rate_limit_timer (m_transmit (port_mem t p)))"
    by (auto simp: port_ok_def word_le_nat_alt)
  have eq: "sent (env t) + ?n s = sent (env s) + ?n t" using t(3) by linarith
  then have "sent (env t) \<le> sent (env s) + 3" using n(1) by linarith
  moreover have "\<exists>u. port_timer_expired api Rate_Limit_Timer p t = Some u \<and> env u = env t \<and>
      pkt_sent (m_transmit (port_mem u p)) = 0 \<and> pending (rate_limit_timer (m_transmit (port_mem u p))) \<and>
      delay (rate_limit_timer (m_transmit (port_mem u p))) = 1000"
    by (simp add: port_timer_expired_def lacpd_fsm_transmit_rate_limit_timer_cb_def upd_transmit_def
        lacpd_port_fsm_schedule_run_def LACP_FAST_PERIODIC_TIME_def MSECS_PER_SEC_def)
  ultimately show ?thesis using eq t(2) n(2) by blast
qed

theorem transmission_rate_limited_witness:
  "\<exists>t. lacp_run lab_counting_api lab_events lab_counting = Some t \<and> length (filter (\<lambda>d. d = 5) (env t)) \<le> 3"
proof -
  obtain t where t: "lacp_run lab_counting_api lab_events lab_counting = Some t" using lab_events_run ..
  have "0 \<in> set (ports lab_counting)" using lab_counting_result(2) by simp
  from transmission_rate_limited [OF lab_counting_result(1) this, where sent = "frames_to 5" and evs = lab_events
      and t = t] t lab_counting_law lab_events_keep_count
  show ?thesis by (simp add: lab_counting_result(3,4) frames_to_def)
qed

text \<open>C10: A port that waits for its aggregator is never stuck. As long as it is not ready its wait-while
  timer is running. When that timer fires, the port is ready, no other port's readiness changes,
  the ready flag of its aggregator is recomputed (it is set exactly when every other port of the
  aggregator is ready as well), the machines of the port are scheduled to run, and if the port is
  still selected and the flag is set then its multiplexer may enter ATTACHED.\<close>

theorem waiting_port_makes_progress:
  assumes "lacp_wf s" and "p \<in> set (ports s)"
    and "mux_state (m_mux (port_mem s p)) = LACPD_MUX_ST_WAITING"
    and "actor_port_aggregator_identifier (port_mem s p) \<noteq> 0" and "\<not> ready_N (port_mem s p)"
  shows "pending (wait_while_timer (m_mux (port_mem s p))) \<and>
    (\<exists>t a. port_timer_expired api Wait_While_Timer p s = Some t \<and> lacp_wf t \<and>
       ready_N (port_mem t p) \<and> (\<forall>q. q \<noteq> p \<longrightarrow> port_mem t q = port_mem s q) \<and>
       a \<in> set (aggregators s) \<and> p \<in> set (agg_ports (agg_mem s a)) \<and>
       aggregators t = aggregators s \<and> agg_ports (agg_mem t a) = agg_ports (agg_mem s a) \<and>
       (ready (agg_mem t a) \<longleftrightarrow> (\<forall>q\<in>set (agg_ports (agg_mem s a)). q = p \<or> ready_N (port_mem s q))) \<and>
       pending (runner_timer (port_runner p t)) \<and>
       (lacpd_fsm_mux_cond_to_ATTACHED p t \<longleftrightarrow>
          selected (port_mem s p) = LACPD_SEL_STATE_SELECTED \<and> ready (agg_mem t a)))"
proof -
  have wf: "wf_port p s" using assms by blast
  then have ok: "port_ok (port_mem s p)" by simp
  then have pend: "pending (wait_while_timer (m_mux (port_mem s p)))"
    using assms(3-5) by (simp add: port_ok_defs)
  from lookup_own_aggregator [OF wf assms(4)] obtain a where
    a: "lacpd_aggregator_lookup s (lacpd_aggregator_selector_by_id
      (actor_port_aggregator_identifier (port_mem s p))) = Some a"
      "a \<in> set (aggregators s)" "p \<in> set (agg_ports (agg_mem s a))" by blast
  have run: "machines (port_runner p s) \<noteq> []" "has_timer_cb (port_runner p s)"
    using ok by (auto simp: port_ok_def runner_ok_def lacp_machines_def)
  let ?t = "lacpd_fsm_mux_wait_while_timer_cb p (upd_port p (fire Wait_While_Timer) s)"
  have t: "?t = lacpd_port_fsm_schedule_run p (lacpd_aggregator_update_ready a
      (upd_port p ((\<lambda>P. P\<lparr>ready_N := True\<rparr>) \<circ> fire Wait_While_Timer) s))"
    using a(1) assms(3) by (simp add: lacpd_fsm_mux_wait_while_timer_cb_def Let_def upd_mux_def)
  have P: "ready_N (port_mem ?t p)" "pending (runner_timer (port_runner p ?t))"
    "mux_state (m_mux (port_mem ?t p)) = LACPD_MUX_ST_WAITING"
    "selected (port_mem ?t p) = selected (port_mem s p)"
    "actor_port_aggregator_identifier (port_mem ?t p) = actor_port_aggregator_identifier (port_mem s p)"
    "\<And>q. q \<noteq> p \<Longrightarrow> port_mem ?t q = port_mem s q"
    unfolding t using assms(3) run
    by (simp_all add: lacpd_port_fsm_schedule_run_def fsm_runner_schedule_pending upd_mux_def)
  have A: "aggregators ?t = aggregators s" "agg_ports (agg_mem ?t b) = agg_ports (agg_mem s b)"
    "aggregator_identifier (agg_mem ?t b) = aggregator_identifier (agg_mem s b)" for b
    unfolding t by (simp_all add: lacpd_port_fsm_schedule_run_def)
  have rd: "ready (agg_mem ?t a) \<longleftrightarrow> (\<forall>q\<in>set (agg_ports (agg_mem s a)). q = p \<or> ready_N (port_mem s q))"
    unfolding t using a(3)
    by (auto simp: lacpd_port_fsm_schedule_run_def lacpd_aggregator_update_ready_def list_all_iff)
  have "lacpd_aggregator_lookup ?t (lacpd_aggregator_selector_by_id i) =
      lacpd_aggregator_lookup s (lacpd_aggregator_selector_by_id i)" for i
    by (simp add: lacpd_aggregator_lookup_def lacpd_aggregator_selector_by_id_def A)
  then have att: "lacpd_fsm_mux_cond_to_ATTACHED p ?t \<longleftrightarrow>
      selected (port_mem s p) = LACPD_SEL_STATE_SELECTED \<and> ready (agg_mem ?t a)"
    using a(1) by (simp add: lacpd_fsm_mux_cond_to_ATTACHED_def Let_def P)
  have "port_timer_expired api Wait_While_Timer p s = Some ?t" by (simp add: port_timer_expired_def)
  with P A rd att pend a(2,3) wait_while_expired_wf [OF wf] show ?thesis by blast
qed

theorem waiting_port_makes_progress_witness:
  "\<exists>t. port_timer_expired lab_api Wait_While_Timer 0 (lab_with lab_port_waiting) = Some t \<and>
    ready_N (port_mem t 0) \<and> lacpd_fsm_mux_cond_to_ATTACHED 0 t"
proof -
  let ?s = "lab_with lab_port_waiting"
  have P: "mux_state (m_mux (port_mem ?s 0)) = LACPD_MUX_ST_WAITING" "\<not> ready_N (port_mem ?s 0)"
    "actor_port_aggregator_identifier (port_mem ?s 0) \<noteq> 0" "selected (port_mem ?s 0) = LACPD_SEL_STATE_SELECTED"
    by (simp_all add: lab_port_waiting_def lab_port_down_def)
  have A: "aggregators ?s = [1]" "agg_ports (agg_mem ?s 1) = [0]"
    using lab_joined_result(4) by (simp_all add: lab_with_def)
  from waiting_port_makes_progress [of ?s 0 lab_api] lab_port_waiting_wf P A show ?thesis by auto
qed

text \<open>C11: The selection logic always finds an aggregator for a port that has none.\<close>

theorem unselected_port_finds_aggregator:
  assumes "lacp_reachable api s" and "p \<in> set (ports s)"
    and "actor_port_aggregator_identifier (port_mem s p) = 0"
  shows "\<exists>a. aggregator_for_port s p = Some a \<and> a \<in> set (aggregators s)"
  using aggregator_for_port_exists [of s p] reachable_wf [OF assms(1)] assms(2,3) by metis

theorem unselected_port_finds_aggregator_witness:
  "\<exists>a. aggregator_for_port lab_joined 0 = Some a \<and> a \<in> set (aggregators lab_joined)"
  using unselected_port_finds_aggregator [OF lab_joined_reachable, of 0] lab_joined_result(3,6) by simp

text \<open>C12: What one port sends, another one understands: the bytes that a port hands to its device are
  124 bytes long, and an instance that receives them (whatever length it is told) accepts them for
  the port of the receiving device, as a valid LACPDU that carries the sender's actor and
  partner information.\<close>

theorem sent_packet_is_understood:
  assumes "port_of_device s i = Some q"
  shows "length (lacp_pkt_bytes (port_lacp_pkt P)) = 124 \<and>
    (\<exists>t. lacpd_receive_lacpdu (lacp_pkt_bytes (port_lacp_pkt P)) n i s = Returns (True, t) \<and>
       lacpdu_indicate (port_mem t q) \<and> lacpdu_validate (message (port_mem t q)) \<and>
       lacpdu_get_port_info (message (port_mem t q)) True = actor_port_info P \<and>
       lacpdu_get_port_info (message (port_mem t q)) False = partner_port_info P)"
proof -
  have "lacp_pkt_of_bytes (lacp_pkt_bytes (port_lacp_pkt P)) = Returns (port_lacp_pkt P)"
    using lacp_pkt_of_lacp_pkt_bytes [OF port_lacp_pkt_padded, of P "[]"] by simp
  then show ?thesis
    using assms port_lacp_pkt_length [of P]
    by (simp add: lacpd_receive_lacpdu_def lacpd_port_fsm_schedule_run_def port_lacp_pkt_valid
        port_lacp_pkt_infos sizeof_lacp_pkt_def)
qed

theorem sent_packet_is_understood_witness:
  "\<exists>t. lacpd_receive_lacpdu (lacp_pkt_bytes (port_lacp_pkt (port_mem lab_joined 0))) 0
    (dev_ifindex (port_mem lab_joined 0)) lab_joined = Returns (True, t)"
  using sent_packet_is_understood [where P = "port_mem lab_joined 0" and n = 0,
      OF port_of_device_in [of lab_joined 0]] lab_joined_result(2,3) by auto

text \<open>C26: Entering CURRENT records the sender: the partner information becomes the actor information
  of the packet, except that the partner counts as in sync only if the packet says so, LACP is
  active on one side, and an aggregatable sender sees this port as it is. A LACPDU becomes due if
  one was, or if the sender's view of this port differs from the port in its identity, activity,
  timeout, aggregation or synchronization. The packet is consumed and the timer is armed with 3 or
  90 seconds, by the actor's timeout.\<close>

theorem CURRENT_records_partner:
  "let P = port_mem s p;
       Q = port_mem (fsm_change_to_state (receive_machine_base p) LACPD_RECV_ST_CURRENT s) p;
       sender = lacpdu_get_port_info (message P) True;
       view = lacpdu_get_port_info (message P) False
   in partner_port_info Q = sender\<lparr>info_state := (info_state sender)\<lparr>synchronization :=
        synchronization (info_state sender) \<and>
        (activity (info_state sender) \<or> activity (actor_state P) \<and> activity (info_state view)) \<and>
        (if aggregation (info_state sender)
         then same_identity view (actor_port_info P) \<and>
              aggregation (info_state view) = aggregation (actor_state P) else True)\<rparr>\<rparr> \<and>
      (\<not> ntt Q \<longleftrightarrow> \<not> ntt P \<and> same_identity view (actor_port_info P) \<and>
        activity (info_state view) = activity (actor_state P) \<and>
        timeout (info_state view) = timeout (actor_state P) \<and>
        aggregation (info_state view) = aggregation (actor_state P) \<and>
        synchronization (info_state view) = synchronization (actor_state P)) \<and>
      \<not> lacpdu_indicate Q \<and> \<not> expired (actor_state Q) \<and> \<not> defaulted (actor_state Q) \<and>
      pending (current_while_timer (m_receive Q)) \<and>
      delay (current_while_timer (m_receive Q)) = (if timeout (actor_state P) then 3000 else 90000)"
proof -
  have same: "i = i\<lparr>info_state := (info_state i)\<lparr>synchronization := b\<rparr>\<rparr>"
    if "synchronization (info_state i) = b" for i :: lacpd_port_info and b
    using that by (cases i; cases "info_state i") simp
  define P where "P = port_mem s p"
  have Q: "port_mem (fsm_change_to_state (receive_machine_base p) LACPD_RECV_ST_CURRENT s) p =
      receive_enter LACPD_RECV_ST_CURRENT P"
    by (simp add: P_def receive_change_to_state)
  let ?sender = "lacpdu_get_port_info (message P) True" and ?view = "lacpdu_get_port_info (message P) False"
  have "partner_port_info (record_PDU P) = ?sender\<lparr>info_state := (info_state ?sender)\<lparr>synchronization :=
      synchronization (info_state ?sender) \<and>
      (activity (info_state ?sender) \<or> activity (actor_state P) \<and> activity (info_state ?view)) \<and>
      (if aggregation (info_state ?sender)
       then same_identity ?view (actor_port_info P) \<and>
            aggregation (info_state ?view) = aggregation (actor_state P) else True)\<rparr>\<rparr>"
    by (auto simp: record_PDU_def Let_def upd_state_defs port_info_equal_except_aggregation same_identity_def
        intro!: same)
  then show ?thesis
    unfolding Let_def Q P_def [symmetric]
    by (simp add: upd_state_defs upd_receive_def LACP_SHORT_TIMEOUT_TIME_def LACP_LONG_TIMEOUT_TIME_def
        MSECS_PER_SEC_def port_info_equal_NTT conj_ac)
qed

text \<open>An instance with an aggregator that is up and has a port and a partner.\<close>

definition lab_policy :: "lacp_ad_select_alg \<Rightarrow> u32 \<Rightarrow> (u32 \<times> u32) list lacpd_lacp" where
  "lab_policy alg active = upd_agg 1 (\<lambda>A. A\<lparr>agg_dev_ifindex := 100, partner_system := Mac 2 0 0 0 0 9,
       actor_oper_aggregator_key := 17\<rparr>)
     ((lab_with lab_port_up)\<lparr>param := lab_parameters\<lparr>ad_select := alg\<rparr>, active_aggregator := active\<rparr>)"

lemma lab_policy_wf: "lacp_wf (lab_policy alg active)"
proof -
  let ?s = "lab_policy alg active"
  have "aggregator_identifier (agg_mem ?s b) = aggregator_identifier (agg_mem (lab_with lab_port_up) b)"
    "agg_ports (agg_mem ?s b) = agg_ports (agg_mem (lab_with lab_port_up) b)"
    "is_free (agg_mem ?s b) = is_free (agg_mem (lab_with lab_port_up) b)" for b
    by (simp_all add: lab_policy_def upd_agg_def)
  moreover have "port_mem ?s = port_mem (lab_with lab_port_up)" "ports ?s = ports (lab_with lab_port_up)"
    "aggregators ?s = aggregators (lab_with lab_port_up)" "next_ref ?s = next_ref (lab_with lab_port_up)"
    "next_port_agg_id ?s = next_port_agg_id (lab_with lab_port_up)"
    by (simp_all add: lab_policy_def upd_agg_def)
  ultimately have "lacp_wf ?s = lacp_wf (lab_with lab_port_up)"
    by (simp only: lacp_wf_def agg_ok_def)
  then show ?thesis using lab_port_up_wf by simp
qed

lemma lab_policy_aggregator:
  "aggregators (lab_policy alg active) = [1]" "aggregator_identifier (agg_mem (lab_policy alg active) 1) = 1"
  using lab_joined_aggregator lab_joined_result(4) by (simp_all add: lab_policy_def lab_with_def upd_agg_def)

text \<open>C14: Under the bandwidth and the count policy the choice is between the aggregators of the
  instance whose device is up and which have a port, or were the active one before (with or
  without ports). If there is no such aggregator none is active afterwards; otherwise the active
  one has the greatest score among them: aggregatable first, then with a partner, then the number
  of ports under the count policy, then the bandwidth as a signed number.\<close>

theorem active_aggregator_is_best:
  assumes "lacp_wf s" and "ad_select (param s) \<in> {LACP_AD_SELECT_ALG_BANDWIDTH, LACP_AD_SELECT_ALG_COUNT}"
  shows "let up = {a \<in> set (aggregators s).
          get_dev_link_status api (env s) (agg_dev_ifindex (agg_mem s a)) \<and>
          (agg_ports (agg_mem s a) \<noteq> [] \<or> aggregator_identifier (agg_mem s a) = active_aggregator s)};
        score = (\<lambda>a. (\<not> individual_aggregator (agg_mem s a),
          \<not> mac_addr_is_empty (partner_system (agg_mem s a)),
          if ad_select (param s) = LACP_AD_SELECT_ALG_COUNT then length (agg_ports (agg_mem s a)) else 0,
          sint (agg_bandwidth s a)));
        active = active_aggregator (lacpd_select_active_aggregator api s)
    in if up = {} then active = 0
       else \<exists>m\<in>up. active = aggregator_identifier (agg_mem s m) \<and> (\<forall>a\<in>up. score a \<le> score m)"
proof -
  have alg: "ad_select (param s) \<noteq> LACP_AD_SELECT_ALG_ALL" using assms(2) by auto
  have no_keep: "\<not> keep_stable_active api (s\<lparr>active_aggregator := 0\<rparr>) a b" for a b
    using assms(2) by (auto simp: keep_stable_active_def)
  have act: "active_aggregator (lacpd_select_active_aggregator api s) =
      (case first_choice api s of None \<Rightarrow> 0 | Some m \<Rightarrow> aggregator_identifier (agg_mem s m))"
    unfolding select_active_result [OF alg] by (simp add: no_keep split: option.splits)
  have free: "is_free (agg_mem s a) \<longleftrightarrow> agg_ports (agg_mem s a) = []" if "a \<in> set (aggregators s)" for a
    using assms(1) that by (simp add: lacp_wf_def agg_ok_def)
  have up: "{a \<in> set (aggregators s). agg_link_up api s a \<and>
      (agg_ports (agg_mem s a) \<noteq> [] \<or> aggregator_identifier (agg_mem s a) = active_aggregator s)} =
      agg_candidates api s"
    using free by (auto simp: agg_candidates_def agg_usable_def)
  show ?thesis
    unfolding Let_def up act agg_score_def [symmetric]
    using first_choice_is_best [OF assms(1) alg, of api] by (auto split: option.splits)
qed

theorem active_aggregator_is_best_witness:
  "active_aggregator (lab_policy LACP_AD_SELECT_ALG_BANDWIDTH 0) = 0 \<and>
   active_aggregator (lacpd_select_active_aggregator lab_api (lab_policy LACP_AD_SELECT_ALG_BANDWIDTH 0)) = 1"
proof -
  let ?s = "lab_policy LACP_AD_SELECT_ALG_BANDWIDTH 0"
  have "{a \<in> set (aggregators ?s). get_dev_link_status lab_api (env ?s) (agg_dev_ifindex (agg_mem ?s a)) \<and>
      (agg_ports (agg_mem ?s a) \<noteq> [] \<or> aggregator_identifier (agg_mem ?s a) = active_aggregator ?s)} = {1}"
    unfolding lab_policy_aggregator(1) by (auto simp: lab_policy_def lab_with_def upd_agg_def lab_api_def)
  note up = this
  have alg: "ad_select (param ?s) \<in> {LACP_AD_SELECT_ALG_BANDWIDTH, LACP_AD_SELECT_ALG_COUNT}"
    and act: "active_aggregator ?s = 0"
    by (simp_all add: lab_policy_def)
  from active_aggregator_is_best [OF lab_policy_wf alg, of lab_api, unfolded Let_def up] act
    lab_policy_aggregator(2)
  show ?thesis by auto
qed

text \<open>C17: Under the stable policy an active aggregator that is up, has ports and a partner and
  advertises a key stays active, whatever the others offer.\<close>

theorem stable_policy_keeps_active:
  assumes "lacp_wf s" and "ad_select (param s) = LACP_AD_SELECT_ALG_STABLE"
    and "a \<in> set (aggregators s)" and "aggregator_identifier (agg_mem s a) = active_aggregator s"
    and "agg_link_up api s a" and "agg_ports (agg_mem s a) \<noteq> []"
    and "partner_system (agg_mem s a) \<noteq> mac_zero" and "actor_oper_aggregator_key (agg_mem s a) \<noteq> 0"
  shows "active_aggregator (lacpd_select_active_aggregator api s) = active_aggregator s"
proof -
  have alg: "ad_select (param s) \<noteq> LACP_AD_SELECT_ALG_ALL" using assms(2) by simp
  have "a \<in> agg_candidates api s" using assms(3-5) by (simp add: agg_candidates_def)
  with first_choice_is_best [OF assms(1) alg, of api] obtain b where b: "first_choice api s = Some b"
    by (cases "first_choice api s") auto
  have lk: "lacpd_aggregator_lookup s (lacpd_aggregator_selector_by_id (active_aggregator s)) = Some a"
    using lookup_by_id [OF assms(1,3)] assms(4) by simp
  have "keep_stable_active api (s\<lparr>active_aggregator := 0\<rparr>) a b"
    using assms by (simp add: keep_stable_active_def)
  with b lk assms(4) show ?thesis by (simp add: select_active_result [OF alg])
qed

theorem stable_policy_keeps_active_witness:
  "active_aggregator (lacpd_select_active_aggregator lab_api (lab_policy LACP_AD_SELECT_ALG_STABLE 1)) = 1"
  using stable_policy_keeps_active [OF lab_policy_wf, of LACP_AD_SELECT_ALG_STABLE 1 1 lab_api] lab_policy_aggregator
  by (simp add: lab_policy_def lab_with_def upd_agg_def lab_api_def mac_zero_def)

text \<open>C21: Adding a device makes these calls, and its outcome follows from their answers alone. A device
  that is there already, index 0 or an exhausted identifier counter: refused, nothing changes. No
  memory for the port: refused. No MAC address of the device: the call crashes. Otherwise the
  structs of the five machines and the aggregator are allocated, up to the first that fails; if one
  fails the lists and the identifier counter are as before. If none fails, one port and one
  aggregator are appended, the aggregator has the identifier from the counter and no ports, the
  port has it as its port number (its 16 low bits) and is on no aggregator yet, the counter is one
  higher and the device is found. The instance stays well-formed.\<close>

theorem add_device_outcome:
  assumes "lacp_wf s"
  shows "let (port_ok, e) = os_calloc api (env s);
             (mac, e2) = get_dev_mac_addr api i e;
             (machines_ok, e3) = allocs api 6 e2
    in if lacpd_port_lookup s i \<noteq> None \<or> i = 0 \<or> next_port_agg_id s = 0
       then lacpd_add_device api i prm s = Returns (False, s)
       else if \<not> port_ok then lacpd_add_device api i prm s = Returns (False, s\<lparr>env := e\<rparr>)
       else if mac = None then lacpd_add_device api i prm s = Fault Null_Deref
       else \<exists>t. lacpd_add_device api i prm s = Returns (machines_ok, t) \<and> lacp_wf t \<and>
         (if \<not> machines_ok
          then ports t = ports s \<and> aggregators t = aggregators s \<and>
            next_port_agg_id t = next_port_agg_id s \<and> env t = e3
          else ports t = ports s @ [next_ref s] \<and> aggregators t = aggregators s @ [Suc (next_ref s)] \<and>
            next_port_agg_id t = next_port_agg_id s + 1 \<and> env t = snd (enable_lacp api i e3) \<and>
            lacpd_port_lookup t i = Some (next_ref s) \<and>
            aggregator_identifier (agg_mem t (Suc (next_ref s))) = next_port_agg_id s \<and>
            agg_ports (agg_mem t (Suc (next_ref s))) = [] \<and>
            info_port (actor_port_info (port_mem t (next_ref s))) = ucast (next_port_agg_id s) \<and>
            actor_port_aggregator_identifier (port_mem t (next_ref s)) = 0 \<and>
            Some (port_mac (port_mem t (next_ref s))) = mac)"
proof -
  obtain ok e where c: "os_calloc api (env s) = (ok, e)" by fastforce
  obtain mac e2 where m: "get_dev_mac_addr api i e = (mac, e2)" by fastforce
  obtain ok3 e3 where a: "allocs api 6 e2 = (ok3, e3)" by fastforce
  show ?thesis
  proof (cases "(lacpd_port_lookup s i \<noteq> None \<or> i = 0 \<or> next_port_agg_id s = 0) \<or> \<not> ok \<or> mac = None")
    case True
    with c m a add_device_refused [of s i api prm] add_device_no_memory [of s i api e prm]
      add_device_crash [of s i api e e2 prm]
    show ?thesis by (auto simp: Let_def)
  next
    case False
    then obtain mc where new: "lacpd_port_lookup s i = None" "i \<noteq> 0" "next_port_agg_id s \<noteq> 0"
      "ok" "mac = Some mc" by auto
    have c': "os_calloc api (env s) = (True, e)" "get_dev_mac_addr api i e = (Some mc, e2)"
      using c m new(4,5) by simp_all
    from add_device_machines [OF assms new(1-3) c', of prm, unfolded a fst_conv snd_conv] obtain t where
      t: "if ok3 then lacpd_add_device api i prm s = Returns (True, t) \<and> lacp_wf t \<and>
          device_added (device_port api e2 s i prm mc) s t \<and> env t = snd (enable_lacp api i e3)
        else lacpd_add_device api i prm s = Returns (False, t) \<and> fresh_frame (next_ref s) s t \<and> env t = e3"
      by blast
    show ?thesis
    proof (cases ok3)
      case True
      let ?P = "device_port api e2 s i prm mc"
      have P: "dev_ifindex ?P = i" "info_port (actor_port_info ?P) = ucast (next_port_agg_id s)"
        "actor_port_aggregator_identifier ?P = 0" "port_mac ?P = mc"
        by (simp_all add: device_port_def lacp_machines_def port_initialized_def Let_def
            lacpd_port_initialize_runtime_variable_def lacpd_port_initialize_manageable_variable_def)
      have d: "ports t = ports s @ [next_ref s]" "port_mem t (next_ref s) = ?P" "lacp_wf t"
        using t True by (simp_all add: device_added_def list_add_tail_def)
      then have "lacpd_port_lookup t i = Some (next_ref s)"
        using port_of_device_in [of t "next_ref s"] P(1) new(2)
        by (simp add: lacpd_port_lookup_def port_of_device_def)
      with t True P d new c m a show ?thesis
        by (simp add: device_added_def list_add_tail_def device_agg_def lacpd_aggregator_clear_def
            aggregator_zero_def)
    next
      case False
      with t new c m a fresh_frame_wf [OF _ assms] show ?thesis by (auto simp: fresh_frame_def)
    qed
  qed
qed

theorem add_device_outcome_witness:
  "\<exists>t. lacpd_add_device lab_api 5 None lab_start = Returns (True, t) \<and> lacpd_port_lookup t 5 = Some 0 \<and>
    aggregator_identifier (agg_mem t 1) = 1 \<and> info_port (actor_port_info (port_mem t 0)) = 1"
proof -
  have s: "lacpd_port_lookup lab_start 5 = None" "next_port_agg_id lab_start = 1" "next_ref lab_start = 0"
    "os_calloc lab_api e = (True, e)" "get_dev_mac_addr lab_api 5 e = (Some (Mac 2 0 0 0 1 5), e)" for e
    using lacp_new_result [OF lab_start_new]
    by (simp_all add: lacpd_port_lookup_def lab_start_def lacp_new_def lab_api_def)
  show ?thesis
    using add_device_outcome [OF lab_start_wf, where api = lab_api and i = 5 and prm = None]
    by (auto simp: s lab_allocs)
qed



text \<open>C22: Deleting a device never crashes. It fails only for a device that is not there; otherwise the
  port leaves the instance and its aggregator, one unused aggregator goes with it, none of the
  port's five timers is left running, and the instance is well-formed without the device.\<close>

theorem del_device_outcome:
  assumes "lacp_wf s"
  shows "case lacpd_del_device api i s of
      Fault f \<Rightarrow> False
    | Returns (ok, t) \<Rightarrow> lacp_wf t \<and> lacpd_port_lookup t i = None \<and>
        (case lacpd_port_lookup s i of
           None \<Rightarrow> \<not> ok \<and> t = s
         | Some p \<Rightarrow> ok \<and> ports t = list_del p (ports s) \<and>
             length (aggregators t) = length (aggregators s) - 1 \<and> timers_idle (port_mem t p) \<and>
             list_all (\<lambda>a. p \<notin> set (agg_ports (agg_mem t a))) (aggregators t))"
proof -
  consider (absent) "lacpd_port_lookup s i = None" "lacpd_del_device api i s = Returns (False, s)"
    | (gone) p t b where "lacpd_port_lookup s i = Some p" "port_gone p s t" "timers_idle (port_mem t p)"
      "b \<in> set (aggregators t)" "lacp_wf (t\<lparr>aggregators := list_del b (aggregators t)\<rparr>)"
      "lacpd_del_device api i s = Returns (True, t\<lparr>aggregators := list_del b (aggregators t)\<rparr>)"
    using del_device_result [OF assms, of i api] by fast
  then show ?thesis
  proof cases
    case absent
    with assms show ?thesis by simp
  next
    case gone
    let ?t = "t\<lparr>aggregators := list_del b (aggregators t)\<rparr>"
    have p: "p \<in> set (ports s)" "dev_ifindex (port_mem s p) = i" using port_lookup_Some [OF gone(1)] by auto
    have d: "distinct (ports s)" "distinct (aggregators s)" using assms by (simp_all add: lacp_wf_def)
    have pt: "ports ?t = list_del p (ports s)" using gone(2) by (simp add: port_gone_def)
    have "dev_ifindex (port_mem t q) \<noteq> i" if "q \<in> set (ports s)" "q \<noteq> p" for q
      using that p gone(2) assms by (auto simp: port_gone_def lacp_wf_def inj_on_def)
    then have lk: "lacpd_port_lookup ?t i = None"
      using pt d by (auto simp: lacpd_port_lookup_def find_None_iff)
    have "p \<notin> set (agg_ports (agg_mem ?t a))" if "a \<in> set (aggregators ?t)" for a
      using wf_port_members [OF gone(5) that] pt d by auto
    with gone pt lk show ?thesis
      by (simp add: list_all_iff length_list_del port_gone_def)
  qed
qed

theorem del_device_outcome_witness:
  "case lacpd_del_device lab_api (dev_ifindex (port_mem lab_joined 0)) lab_joined of
     Returns (ok, t) \<Rightarrow> timers_idle (port_mem t 0) | _ \<Rightarrow> False"
proof -
  have "lacpd_port_lookup lab_joined (dev_ifindex (port_mem lab_joined 0)) = Some 0"
    using port_of_device_in [of lab_joined 0] lab_joined_result(2,3) lab_joined_port
    by (simp add: port_of_device_def lacpd_port_lookup_def port_ok_def)
  with del_device_outcome [OF lab_joined_result(2), where api = lab_api and i = "dev_ifindex (port_mem lab_joined 0)"]
  show ?thesis by (auto split: outcome.splits prod.splits)
qed

text \<open>C23: Destroying a well-formed instance returns, whatever the devices answer: every port and every
  aggregator is released, and no timer of any port is left running.\<close>

theorem destroy_releases_everything:
  assumes "lacp_wf s"
  shows "\<exists>t. lacp_destroy api s = Returns t \<and> ports t = [] \<and> aggregators t = [] \<and>
    list_all (\<lambda>p. timers_idle (port_mem t p)) (ports s)"
proof -
  from destroy_ports_returns [OF assms refl, of api] obtain t where
    t: "destroy_ports api (ports s) s = Returns t" "lacp_wf t" "ports t = []"
      "\<forall>p\<in>set (ports s). timers_idle (port_mem t p)" by blast
  have "\<forall>a\<in>set (aggregators t). agg_ports (agg_mem t a) = []"
    using wf_port_members [OF t(2)] t(3) by fastforce
  from destroy_aggregators_empty [OF this, of api] t show ?thesis
    by (simp add: lacp_destroy_def fold_list_del_all list_all_iff)
qed

theorem destroy_releases_everything_witness:
  "\<exists>t. lacp_destroy lab_api lab_joined = Returns t \<and> timers_idle (port_mem t 0)"
  using destroy_releases_everything [OF lab_joined_result(2), of lab_api] lab_joined_result(3) by auto

text \<open>C24: A port without an aggregator joins one that suits it: when the selection logic enters
  SELECTED the port is on an aggregator of the instance whose keys and partner are the port's own,
  and it carries that aggregator's identifier.\<close>

theorem port_joins_matching_aggregator:
  assumes "lacp_wf s" and "p \<in> set (ports s)"
    and "select_state (m_select (port_mem s p)) = LACPD_SELECT_LOGIC_ST_UNSELECTED"
    and "mux_state (m_mux (port_mem s p)) = LACPD_MUX_ST_DETACHED"
  shows "let t = fsm_change_to_state (selection_machine_base p) LACPD_SELECT_LOGIC_ST_SELECTED s;
             P = port_mem t p in
    selected P = LACPD_SEL_STATE_SELECTED \<and>
    (\<exists>a\<in>set (aggregators t). p \<in> set (agg_ports (agg_mem t a)) \<and>
       actor_port_aggregator_identifier P = aggregator_identifier (agg_mem t a) \<and>
       actor_oper_aggregator_key (agg_mem t a) = info_key (actor_port_info P) \<and>
       partner_system (agg_mem t a) = info_system (partner_port_info P) \<and>
       partner_system_priority (agg_mem t a) = info_system_priority (partner_port_info P) \<and>
       partner_oper_aggregator_key (agg_mem t a) = info_key (partner_port_info P))"
proof -
  let ?t = "fsm_change_to_state (selection_machine_base p) LACPD_SELECT_LOGIC_ST_SELECTED s"
  have wf: "wf_port p s" using assms by blast
  from selection_add [OF wf assms(3,4)] obtain a where
    a: "aggregator_for_port s p = Some a" "a \<in> set (aggregators s)"
      "agg_ports (agg_mem s a) = [] \<or> lacpd_fsm_select_aggregator_by_port (port_mem s p) (agg_mem s a)"
      "port_mem ?t = (port_mem s)(p := port_added (aggregator_identifier (agg_mem s a)) (port_mem s p))"
      "agg_ports (agg_mem ?t a) = list_add_tail p (agg_ports (agg_mem s a))" by blast
  have id0: "actor_port_aggregator_identifier (port_mem s p) = 0"
    using wf_port_ok [of s p] wf assms(3) by (simp add: port_ok_defs)
  have "agg_ok s a" using assms(1) a(2) unfolding lacp_wf_def by blast
  then have new: "p \<notin> set (agg_ports (agg_mem s a))" using id0 by (auto simp: agg_ok_def)
  let ?s1 = "upd_port p (upd_select (\<lambda>m. m\<lparr>select_state := LACPD_SELECT_LOGIC_ST_SELECTED\<rparr>)) s"
  have sel: "aggregator_for_port ?s1 p = Some a"
    using a(1) by (simp add: aggregator_for_port_cong upd_select_def)
  have add: "lacpd_aggregator_add_port a p ?s1 = (True, snd (lacpd_aggregator_add_port a p ?s1))"
    using new by (simp add: add_port_result)
  have t: "agg_mem ?t = agg_mem (snd (lacpd_aggregator_add_port a p ?s1))" "aggregators ?t = aggregators s"
    using sel new by (simp_all add: selection_enter_SELECTED lacpd_fsm_selection_logic_act_add_to_aggregator_def
        add_port_result Let_def)
  have id: "aggregator_identifier (agg_mem ?t a) = aggregator_identifier (agg_mem s a)"
    using new by (simp add: t add_port_result Let_def lacpd_aggregator_init_by_port_def)
  have "actor_oper_aggregator_key (agg_mem ?t a) = info_key (actor_port_info (port_mem s p)) \<and>
    partner_system (agg_mem ?t a) = info_system (partner_port_info (port_mem s p)) \<and>
    partner_system_priority (agg_mem ?t a) = info_system_priority (partner_port_info (port_mem s p)) \<and>
    partner_oper_aggregator_key (agg_mem ?t a) = info_key (partner_port_info (port_mem s p))"
    using new a(3)
    by (cases "agg_ports (agg_mem s a) = []")
      (simp_all add: t add_port_result Let_def lacpd_aggregator_init_by_port_def upd_select_def
        lacpd_fsm_select_aggregator_by_port_def)
  moreover have "a \<in> set (aggregators ?t)" "p \<in> set (agg_ports (agg_mem ?t a))" using a(2,5) t(2) by simp_all
  ultimately show ?thesis
    unfolding Let_def using id by (intro conjI bexI [of _ a]) (simp_all add: a(4) port_added_def)
qed

theorem port_joins_matching_aggregator_witness:
  "selected (port_mem (fsm_change_to_state (selection_machine_base 0) LACPD_SELECT_LOGIC_ST_SELECTED lab_joined) 0)
     = LACPD_SEL_STATE_SELECTED"
  using port_joins_matching_aggregator [OF lab_joined_result(2), of 0] lab_joined_result(3,7,8)
  by (simp add: Let_def)

text \<open>The wire format of the standard (IEEE 802.3, 43.4.2.2), written out: 16-bit numbers with the
  high byte first, the state octet with the activity in bit 0 and the expiry in bit 7.\<close>

definition wire16 :: "u16 \<Rightarrow> u8 list" where
  "wire16 w = [ucast (drop_bit 8 w), ucast w]"

definition wire_state :: "lacpd_port_info_state \<Rightarrow> u8" where
  "wire_state st = of_bool (activity st) + 2 * of_bool (timeout st) + 4 * of_bool (aggregation st) +
     8 * of_bool (synchronization st) + 16 * of_bool (collecting st) + 32 * of_bool (distributing st) +
     64 * of_bool (defaulted st) + 128 * of_bool (expired st)"

definition wire_info :: "lacpd_port_info \<Rightarrow> u8 list" where
  "wire_info i = wire16 (info_system_priority i) @ mac_bytes (info_system i) @ wire16 (info_key i) @
     wire16 (info_port_priority i) @ wire16 (info_port i) @ [wire_state (info_state i), 0, 0, 0]"

lemma set_state_bits_wire: "set_state_bits st 0 = wire_state st"
  by (cases "activity st"; cases "timeout st"; cases "aggregation st"; cases "synchronization st";
      cases "collecting st"; cases "distributing st"; cases "defaulted st"; cases "expired st";
      simp add: set_state_bits_def wire_state_def lacpdu_state_defs)

text \<open>C37: The frame that a port sends, byte by byte: the slow-protocols multicast address, the port's
  MAC address, the slow-protocols type, LACP version 1, the actor's and the partner's information
  in TLVs 1 and 2 of 20 bytes, the collector TLV with delay 0, and the terminator.\<close>

theorem sent_packet_wire_format:
  "lacp_pkt_bytes (port_lacp_pkt P) =
     [0x01, 0x80, 0xC2, 0, 0, 0x02] @ mac_bytes (port_mac P) @ [0x88, 0x09] @ [1, 1] @
     [1, 20] @ wire_info (actor_port_info P) @
     [2, 20] @ wire_info (partner_port_info P) @
     [3, 16] @ replicate 14 0 @ [0, 0] @ replicate 50 0"
proof -
  have z: "bytes16 0 = [0, 0]" by (simp add: bytes16_def)
  have e: "bytes16 (htons LACPDU_ETH_TYPE) = [0x88, 0x09]" by (simp add: bytes16_htons LACPDU_ETH_TYPE_def)
  have r: "replicate 3 (0 :: u8) = [0, 0, 0]" "replicate 14 (0 :: u8) = [0, 0] @ replicate 12 0"
    by (simp_all add: eval_nat_numeral)
  have i: "port_info_bytes (fill_port_info x (lacpdu_port_info_zero\<lparr>pi_tlv_type := t, pi_tlv_length := l\<rparr>)) =
      [t, l] @ wire_info x" for x t l
    by (simp add: port_info_bytes_def fill_port_info_def lacpdu_port_info_zero_def wire_info_def wire16_def
        bytes16_htons set_state_bits_wire r(1))
  show ?thesis
    by (simp add: lacp_pkt_bytes_def port_lacp_pkt_def lacpdu_init_def lacpdu_bytes_def
        lacpdu_set_port_info_def lacpdu_zero_def Let_def i z e r(2))
      (simp add: lacpdu_consts)
qed

text \<open>C36: A valid packet that waits at a disabled port is counted again at every evaluation of the
  machine: the check changes no state, leaves the packet pending and adds one to
  \<^verbatim>\<open>rx_successes\<close> each time.\<close>

theorem waiting_packet_is_counted_every_time:
  fixes s :: "'a lacpd_lacp"
  assumes "lacpdu_indicate (port_mem s p)" and "lacpdu_validate (message (port_mem s p))"
    and "recv_state (m_receive (port_mem s p)) = LACPD_RECV_ST_PORT_DISABLED"
    and "\<not> port_enabled (port_mem s p)" and "\<not> port_moved (port_mem s p)"
  shows "\<not> fst (fsm_check_transit_conditions (receive_machine_base p) s) \<and>
    (let t = ((\<lambda>u. snd (fsm_check_transit_conditions (receive_machine_base p) u)) ^^ n) s in
       rx_successes (port_mem t p) = rx_successes (port_mem s p) + of_nat n \<and>
       lacpdu_indicate (port_mem t p) \<and> message (port_mem t p) = message (port_mem s p))"
proof -
  let ?chk = "\<lambda>u. snd (fsm_check_transit_conditions (receive_machine_base p) u)"
  define waits :: "'a lacpd_lacp \<Rightarrow> bool" where "waits u \<longleftrightarrow> lacpdu_indicate (port_mem u p) \<and> message (port_mem u p) = message (port_mem s p) \<and>
      recv_state (m_receive (port_mem u p)) = LACPD_RECV_ST_PORT_DISABLED \<and>
      \<not> port_enabled (port_mem u p) \<and> \<not> port_moved (port_mem u p)" for u
  have idle: "\<not> fst (fsm_check_transit_conditions (receive_machine_base p) u)" if "waits u" for u
    using that by (simp add: waits_def receive_check_idle(2) receive_cond_defs Let_def)
  have step: "waits (?chk u) \<and> rx_successes (port_mem (?chk u) p) = rx_successes (port_mem u p) + 1"
    if "waits u" for u
    using that assms(2) by (simp add: receive_check_idle(1) [OF idle [OF that]] waits_def receive_check_message_def)
  have s: "waits s" using assms by (simp add: waits_def)
  have "waits ((?chk ^^ n) s) \<and>
      rx_successes (port_mem ((?chk ^^ n) s) p) = rx_successes (port_mem s p) + of_nat n"
    by (induction n) (simp_all add: s step)
  with idle [OF s] show ?thesis by (simp add: Let_def waits_def)
qed

theorem waiting_packet_is_counted_every_time_witness:
  "let s = upd_port 0 (\<lambda>P. P\<lparr>lacpdu_indicate := True, message := lacp lacpdu_init\<rparr>) (lab_with lab_port_down) in
   rx_successes (port_mem (((\<lambda>u. snd (fsm_check_transit_conditions (receive_machine_base 0) u)) ^^ 2) s) 0)
     = rx_successes (port_mem s 0) + 2"
proof -
  let ?s = "upd_port 0 (\<lambda>P. P\<lparr>lacpdu_indicate := True, message := lacp lacpdu_init\<rparr>) (lab_with lab_port_down)"
  have "\<not> port_moved (port_mem lab_joined 0)" using lab_joined_port by (simp add: port_ok_def)
  then show ?thesis
    using waiting_packet_is_counted_every_time [of ?s 0 2] unfolding Let_def by simp
qed

text \<open>C38: Operation keys: a key made of a 10-bit user key, the bit of a supported speed and a duplex bit
  gives the three back, the speed in Mbps again.\<close>

theorem operation_key_roundtrip:
  assumes "ukey < 1024" and "duplex \<le> 1" and "speed \<in> {1, 10, 100, 1000, 10000}"
  shows "lacp_port_key_get_user (lacp_port_key_make ukey (ucast (lacpd_port_speed_to_key speed)) duplex) = ukey \<and>
    lacpd_port_key_to_speed (lacp_port_key_get_speed
      (lacp_port_key_make ukey (ucast (lacpd_port_speed_to_key speed)) duplex)) = speed \<and>
    lacp_port_key_get_duplex (lacp_port_key_make ukey (ucast (lacpd_port_speed_to_key speed)) duplex) = duplex"
proof -
  have five: "(5 :: nat) = Suc (Suc (Suc (Suc (Suc 0))))" by simp
  have sp: "ucast (lacpd_port_speed_to_key speed) < (32 :: u32)"
    "lacpd_port_key_to_speed (ucast (lacpd_port_speed_to_key speed)) = speed"
    using assms(3) unfolding lacpd_port_speed_to_key_def lacpd_port_key_to_speed_def LACP_PORT_BITS_OF_SPEED_def five
    by (elim insertE emptyE; simp)+
  have d: "duplex < 2" using assms(2) by (simp add: word_le_nat_alt word_less_nat_alt)
  show ?thesis using key_parts [OF assms(1) sp(1) d] sp(2) by simp
qed

theorem operation_key_roundtrip_witness:
  "lacpd_port_key_to_speed (lacp_port_key_get_speed
     (lacp_port_key_make 5 (ucast (lacpd_port_speed_to_key 100)) 1)) = 100"
  using operation_key_roundtrip [of 5 1 100] by simp

end
