(* ===== verification/Lacp_Status.thy ===== *)
theory Lacp_Status
  imports Lacp_Example
begin

text \<open>
  Reporting the state of an instance: the fields that \<^verbatim>\<open>lacpd_status_dump\<close> (lacp/lacp.c) and
  the dumps of aggregators and ports hand to a printer, and the printer of the ubus status system
  (status/status_ubus.c), which turns them into a message.
\<close>

subsection \<open>Fields\<close>

text \<open>
  \<^verbatim>\<open>enum lacpd_status_field_type\<close>, each enumerator with what the callers pass as its
  \<^verbatim>\<open>void *\<close> value; flags are the byte that holds the eight one-bit fields.
\<close>

datatype lacpd_status_field_type =
    LACP_STATUS_FIELD_LACP_START
  | LACP_STATUS_FIELD_LACP_NAME string
  | LACP_STATUS_FIELD_SYS_HW_ADDR mac_addr
  | LACP_STATUS_FIELD_LACP_RATE u32
  | LACP_STATUS_FIELD_AD_SELECT_ALG lacp_ad_select_alg
  | LACP_STATUS_FIELD_LACP_END
  | LACP_STATUS_FIELD_AGGS_START
  | LACP_STATUS_FIELD_AGG_START string
  | LACP_STATUS_FIELD_AGG_ID u32
  | LACP_STATUS_FIELD_AGG_PORTS_CNT u32
  | LACP_STATUS_FIELD_AGG_ACTOR_KEY u32
  | LACP_STATUS_FIELD_AGG_PARTNER_KEY u32
  | LACP_STATUS_FIELD_AGG_PARTNER_HW_ADDR mac_addr
  | LACP_STATUS_FIELD_AGG_END
  | LACP_STATUS_FIELD_AGGS_END
  | LACP_STATUS_FIELD_PORTS_START
  | LACP_STATUS_FIELD_PORT_START string
  | LACP_STATUS_FIELD_PORT_LINK_STATUS bool
  | LACP_STATUS_FIELD_PORT_SPEED u32
  | LACP_STATUS_FIELD_PORT_DUPLEX u32
  | LACP_STATUS_FIELD_PORT_HW_ADDR mac_addr
  | LACP_STATUS_FIELD_ACTOR_PORT u32
  | LACP_STATUS_FIELD_ACTOR_STATE u8
  | LACP_STATUS_FIELD_PARTNER_PORT u32
  | LACP_STATUS_FIELD_PARTNER_STATE u8
  | LACP_STATUS_FIELD_PORT_STATS_TX_SUCCESS u32
  | LACP_STATUS_FIELD_PORT_STATS_RX_SUCCESS u32
  | LACP_STATUS_FIELD_PORT_STATS_TX_ERROR u32
  | LACP_STATUS_FIELD_PORT_STATS_RX_ERROR u32
  | LACP_STATUS_FIELD_PORT_END
  | LACP_STATUS_FIELD_PORTS_END
  | LACP_STATUS_FIELD_DEV string
  | LACP_STATUS_FIELD_ERROR string

subsection \<open>Dumps\<close>

text \<open>A dump is the sequence of its calls \<^verbatim>\<open>p->fn(p, field, value)\<close>.\<close>

definition lacpd_port_dump_status ::
    "'e lacp_out_api \<Rightarrow> 'e lacpd_lacp \<Rightarrow> port_ref \<Rightarrow> lacpd_status_field_type list" where
  "lacpd_port_dump_status api s p =
     (let P = port_mem s p; key = info_key (actor_port_info P) in
      (case get_dev_name api (env s) (dev_ifindex P) of
         Some dev_name \<Rightarrow> [LACP_STATUS_FIELD_PORT_START dev_name, LACP_STATUS_FIELD_DEV dev_name]
       | None \<Rightarrow> [LACP_STATUS_FIELD_PORT_START ''Unknown slave'', LACP_STATUS_FIELD_DEV ''Unknown device'']) @
      [LACP_STATUS_FIELD_PORT_LINK_STATUS (port_enabled P),
       LACP_STATUS_FIELD_PORT_SPEED (lacpd_port_key_to_speed (lacp_port_key_get_speed key)),
       LACP_STATUS_FIELD_PORT_DUPLEX (lacp_port_key_get_duplex key),
       LACP_STATUS_FIELD_PORT_HW_ADDR (port_mac P),
       LACP_STATUS_FIELD_ACTOR_PORT (ucast (info_port (actor_port_info P))),
       LACP_STATUS_FIELD_ACTOR_STATE (set_state_bits (actor_state P) 0),
       LACP_STATUS_FIELD_PARTNER_PORT (ucast (info_port (partner_port_info P))),
       LACP_STATUS_FIELD_PARTNER_STATE (set_state_bits (partner_state P) 0),
       LACP_STATUS_FIELD_AGG_ID (actor_port_aggregator_identifier P),
       LACP_STATUS_FIELD_PORT_STATS_TX_SUCCESS (tx_successes P),
       LACP_STATUS_FIELD_PORT_STATS_RX_SUCCESS (rx_successes P),
       LACP_STATUS_FIELD_PORT_STATS_TX_ERROR (tx_error P),
       LACP_STATUS_FIELD_PORT_STATS_RX_ERROR (rx_error P),
       LACP_STATUS_FIELD_PORT_END])"

definition lacpd_aggregator_dump_status ::
    "'e lacp_out_api \<Rightarrow> 'e lacpd_lacp \<Rightarrow> agg_ref \<Rightarrow> lacpd_status_field_type list" where
  "lacpd_aggregator_dump_status api s a =
     (let A = agg_mem s a in
      (case get_dev_name api (env s) (agg_dev_ifindex A) of
         Some dev_name \<Rightarrow> [LACP_STATUS_FIELD_AGG_START dev_name, LACP_STATUS_FIELD_DEV dev_name]
       | None \<Rightarrow> [LACP_STATUS_FIELD_AGG_START ''Unknown aggregator'', LACP_STATUS_FIELD_DEV ''Unknown device'']) @
      [LACP_STATUS_FIELD_AGG_ID (aggregator_identifier A),
       LACP_STATUS_FIELD_AGG_PORTS_CNT (of_nat (length (agg_ports A))),
       LACP_STATUS_FIELD_AGG_ACTOR_KEY (ucast (actor_oper_aggregator_key A)),
       LACP_STATUS_FIELD_AGG_PARTNER_KEY (ucast (partner_oper_aggregator_key A)),
       LACP_STATUS_FIELD_AGG_PARTNER_HW_ADDR (partner_system A),
       LACP_STATUS_FIELD_AGG_END])"

definition lacpd_status_dump :: "'e lacp_out_api \<Rightarrow> 'e lacpd_lacp \<Rightarrow> lacpd_status_field_type list" where
  "lacpd_status_dump api s =
     [LACP_STATUS_FIELD_LACP_START,
      LACP_STATUS_FIELD_LACP_NAME (lacp_name s),
      LACP_STATUS_FIELD_SYS_HW_ADDR (actor_system s),
      LACP_STATUS_FIELD_LACP_RATE (lacp_rate (param s)),
      LACP_STATUS_FIELD_AD_SELECT_ALG (ad_select (param s)),
      LACP_STATUS_FIELD_LACP_END,
      LACP_STATUS_FIELD_AGGS_START] @
     concat (map (lacpd_aggregator_dump_status api s) (aggregators s)) @
     [LACP_STATUS_FIELD_AGGS_END, LACP_STATUS_FIELD_PORTS_START] @
     concat (map (lacpd_port_dump_status api s) (ports s)) @
     [LACP_STATUS_FIELD_PORTS_END]"

subsection \<open>The message\<close>

text \<open>
  A libubox \<^verbatim>\<open>blob_buf\<close> is the sequence of what was put into it. Opening a table or an array
  returns a cookie, here the position of the opening; closing takes the cookie.
\<close>

datatype blob_item =
    Open_Table string
  | Open_Array string
  | Close_Nested nat
  | Add_String string string
  | Add_U32 string u32

record lacpd_status_printer =
  bf :: "blob_item list"
  arg_lacp :: nat
  arg_aggs :: nat
  arg_agg :: nat
  arg_ports :: nat
  arg_port :: nat

definition LACPD_STRING_BUF_MAX_SIZE :: nat where "LACPD_STRING_BUF_MAX_SIZE = 64"

fun hex_digit :: "nat \<Rightarrow> char" where
  "hex_digit n = (if n < 10 then char_of (48 + n) else char_of (87 + n))"

definition print_02x :: "u8 \<Rightarrow> string" where
  "print_02x b = [hex_digit (unat b div 16), hex_digit (unat b mod 16)]"

definition hw_addr_string :: "mac_addr \<Rightarrow> string" where
  "hw_addr_string m = (case m of Mac a b c d e f \<Rightarrow>
     snprintf_buf LACPD_STRING_BUF_MAX_SIZE
       (print_02x a @ '':'' @ print_02x b @ '':'' @ print_02x c @ '':'' @
        print_02x d @ '':'' @ print_02x e @ '':'' @ print_02x f))"

definition lacpd_ubus_status_print_hw_addr ::
    "string \<Rightarrow> mac_addr \<Rightarrow> lacpd_status_printer \<Rightarrow> lacpd_status_printer" where
  "lacpd_ubus_status_print_hw_addr name addr p = p\<lparr>bf := bf p @ [Add_String name (hw_addr_string addr)]\<rparr>"

text \<open>
  The flags: every name is written at \<open>buf + len\<close> with \<open>64 - len\<close> as the size, and \<open>len\<close>
  grows by what would have been written. Once \<open>len\<close> is beyond the buffer, \<open>buf + len\<close> is no
  address of the buffer and the size, converted to an unsigned type, is no bound: the next call is
  out of bounds. (Some C libraries refuse a size above \<open>INT_MAX\<close> with -1 instead of writing; the
  model does not rely on it.)
\<close>

definition flag_string :: "string list" where
  "flag_string = [''activity'', ''timeout'', ''aggregation'', ''synchronization'',
     ''collecting'', ''distributing'', ''defaulted'', ''expired'']"

fun print_flags_from :: "u8 \<Rightarrow> nat \<Rightarrow> string list \<Rightarrow> nat \<Rightarrow> string \<Rightarrow> string outcome" where
  "print_flags_from flags idx [] len buf = Returns buf"
| "print_flags_from flags idx (name # names) len buf =
     (if flags AND push_bit idx 1 = 0 then print_flags_from flags (Suc idx) names len buf
      else if len > LACPD_STRING_BUF_MAX_SIZE then Fault Out_Of_Bounds
      else print_flags_from flags (Suc idx) names (len + length name + 1)
             (buf @ snprintf_buf (LACPD_STRING_BUF_MAX_SIZE - len) (name @ '' '')))"

definition lacpd_ubus_status_print_lacp_flags ::
    "string \<Rightarrow> u8 \<Rightarrow> lacpd_status_printer \<Rightarrow> lacpd_status_printer outcome" where
  "lacpd_ubus_status_print_lacp_flags name flags p =
     bind_outcome (print_flags_from flags 0 flag_string 0 [])
       (\<lambda>buf. Returns (p\<lparr>bf := bf p @ [Add_String name buf]\<rparr>))"

fun ad_select_str :: "lacp_ad_select_alg \<Rightarrow> string" where
  "ad_select_str LACP_AD_SELECT_ALG_ALL = ''all''"
| "ad_select_str LACP_AD_SELECT_ALG_STABLE = ''stable''"
| "ad_select_str LACP_AD_SELECT_ALG_BANDWIDTH = ''bandwidth''"
| "ad_select_str LACP_AD_SELECT_ALG_COUNT = ''count''"

abbreviation add_string :: "string \<Rightarrow> string \<Rightarrow> lacpd_status_printer \<Rightarrow> lacpd_status_printer" where
  "add_string name v p \<equiv> p\<lparr>bf := bf p @ [Add_String name v]\<rparr>"

abbreviation add_u32 :: "string \<Rightarrow> u32 \<Rightarrow> lacpd_status_printer \<Rightarrow> lacpd_status_printer" where
  "add_u32 name v p \<equiv> p\<lparr>bf := bf p @ [Add_U32 name v]\<rparr>"

abbreviation close_nested :: "nat \<Rightarrow> lacpd_status_printer \<Rightarrow> lacpd_status_printer" where
  "close_nested c p \<equiv> p\<lparr>bf := bf p @ [Close_Nested c]\<rparr>"

fun lacpd_ubus_status_printer ::
    "lacpd_status_printer \<Rightarrow> lacpd_status_field_type \<Rightarrow> lacpd_status_printer outcome" where
  "lacpd_ubus_status_printer p LACP_STATUS_FIELD_LACP_START =
     Returns (p\<lparr>arg_lacp := length (bf p), bf := bf p @ [Open_Table ''802.3ad instance'']\<rparr>)"
| "lacpd_ubus_status_printer p (LACP_STATUS_FIELD_LACP_NAME v) = Returns (add_string ''Name'' v p)"
| "lacpd_ubus_status_printer p (LACP_STATUS_FIELD_SYS_HW_ADDR v) =
     Returns (lacpd_ubus_status_print_hw_addr ''System HW address'' v p)"
| "lacpd_ubus_status_printer p (LACP_STATUS_FIELD_LACP_RATE v) =
     Returns (add_string ''LACP rate'' (if v \<noteq> 0 then ''fast'' else ''slow'') p)"
| "lacpd_ubus_status_printer p (LACP_STATUS_FIELD_AD_SELECT_ALG v) =
     Returns (add_string ''Active aggregator select algorithm'' (ad_select_str v) p)"
| "lacpd_ubus_status_printer p LACP_STATUS_FIELD_LACP_END = Returns (close_nested (arg_lacp p) p)"
| "lacpd_ubus_status_printer p LACP_STATUS_FIELD_AGGS_START =
     Returns (p\<lparr>arg_aggs := length (bf p), bf := bf p @ [Open_Array ''Aggregators'']\<rparr>)"
| "lacpd_ubus_status_printer p (LACP_STATUS_FIELD_AGG_START v) =
     Returns (p\<lparr>arg_agg := length (bf p), bf := bf p @ [Open_Table v]\<rparr>)"
| "lacpd_ubus_status_printer p (LACP_STATUS_FIELD_DEV v) = Returns (add_string ''Device'' v p)"
| "lacpd_ubus_status_printer p (LACP_STATUS_FIELD_AGG_ID v) = Returns (add_u32 ''Aggregator ID'' v p)"
| "lacpd_ubus_status_printer p (LACP_STATUS_FIELD_AGG_PORTS_CNT v) = Returns (add_u32 ''Number of ports'' v p)"
| "lacpd_ubus_status_printer p (LACP_STATUS_FIELD_AGG_ACTOR_KEY v) = Returns (add_u32 ''Actor key'' v p)"
| "lacpd_ubus_status_printer p (LACP_STATUS_FIELD_AGG_PARTNER_KEY v) = Returns (add_u32 ''Partner key'' v p)"
| "lacpd_ubus_status_printer p (LACP_STATUS_FIELD_AGG_PARTNER_HW_ADDR v) =
     Returns (lacpd_ubus_status_print_hw_addr ''Partner HW address'' v p)"
| "lacpd_ubus_status_printer p LACP_STATUS_FIELD_AGG_END = Returns (close_nested (arg_agg p) p)"
| "lacpd_ubus_status_printer p LACP_STATUS_FIELD_AGGS_END = Returns (close_nested (arg_aggs p) p)"
| "lacpd_ubus_status_printer p LACP_STATUS_FIELD_PORTS_START =
     Returns (p\<lparr>arg_ports := length (bf p), bf := bf p @ [Open_Array ''Ports'']\<rparr>)"
| "lacpd_ubus_status_printer p (LACP_STATUS_FIELD_PORT_START v) =
     Returns (p\<lparr>arg_port := length (bf p), bf := bf p @ [Open_Table v]\<rparr>)"
| "lacpd_ubus_status_printer p (LACP_STATUS_FIELD_PORT_LINK_STATUS v) =
     Returns (add_string ''Link status'' (if v then ''up'' else ''down'') p)"
| "lacpd_ubus_status_printer p (LACP_STATUS_FIELD_PORT_SPEED v) = Returns (add_u32 ''Speed(Mbps)'' v p)"
| "lacpd_ubus_status_printer p (LACP_STATUS_FIELD_PORT_DUPLEX v) =
     Returns (add_string ''Duplex'' (if v \<noteq> 0 then ''full'' else ''half'') p)"
| "lacpd_ubus_status_printer p (LACP_STATUS_FIELD_PORT_HW_ADDR v) =
     Returns (lacpd_ubus_status_print_hw_addr ''Permanent HW address'' v p)"
| "lacpd_ubus_status_printer p (LACP_STATUS_FIELD_ACTOR_PORT v) = Returns (add_u32 ''Actor port'' v p)"
| "lacpd_ubus_status_printer p (LACP_STATUS_FIELD_ACTOR_STATE v) =
     lacpd_ubus_status_print_lacp_flags ''Actor state'' v p"
| "lacpd_ubus_status_printer p (LACP_STATUS_FIELD_PARTNER_PORT v) = Returns (add_u32 ''Partner port'' v p)"
| "lacpd_ubus_status_printer p (LACP_STATUS_FIELD_PARTNER_STATE v) =
     lacpd_ubus_status_print_lacp_flags ''Partner state'' v p"
| "lacpd_ubus_status_printer p (LACP_STATUS_FIELD_PORT_STATS_TX_SUCCESS v) = Returns (add_u32 ''Tx successes'' v p)"
| "lacpd_ubus_status_printer p (LACP_STATUS_FIELD_PORT_STATS_RX_SUCCESS v) = Returns (add_u32 ''Rx successes'' v p)"
| "lacpd_ubus_status_printer p (LACP_STATUS_FIELD_PORT_STATS_TX_ERROR v) = Returns (add_u32 ''Tx error'' v p)"
| "lacpd_ubus_status_printer p (LACP_STATUS_FIELD_PORT_STATS_RX_ERROR v) = Returns (add_u32 ''Rx error'' v p)"
| "lacpd_ubus_status_printer p LACP_STATUS_FIELD_PORT_END = Returns (close_nested (arg_port p) p)"
| "lacpd_ubus_status_printer p LACP_STATUS_FIELD_PORTS_END = Returns (close_nested (arg_ports p) p)"
| "lacpd_ubus_status_printer p (LACP_STATUS_FIELD_ERROR v) = Returns (add_string ''Error'' v p)"

text \<open>A dump printed field by field.\<close>

fun print_fields ::
    "lacpd_status_printer \<Rightarrow> lacpd_status_field_type list \<Rightarrow> lacpd_status_printer outcome" where
  "print_fields p [] = Returns p"
| "print_fields p (f # fs) = bind_outcome (lacpd_ubus_status_printer p f) (\<lambda>q. print_fields q fs)"

subsection \<open>Printing flags\<close>

text \<open>The words of a flags byte, and when they can be printed: all but the last must fit.\<close>

fun flag_words :: "u8 \<Rightarrow> nat \<Rightarrow> string list \<Rightarrow> string list" where
  "flag_words flags idx [] = []"
| "flag_words flags idx (name # names) =
     (if flags AND push_bit idx 1 = 0 then [] else [name @ '' '']) @ flag_words flags (Suc idx) names"

definition flags_fit :: "lacpd_port_info_state \<Rightarrow> bool" where
  "flags_fit st \<longleftrightarrow>
     length (concat (butlast (flag_words (set_state_bits st 0) 0 flag_string))) \<le> LACPD_STRING_BUF_MAX_SIZE"

lemma print_flags_from_words:
  "print_flags_from w idx names (length acc) (take 63 acc) =
     (let ws = flag_words w idx names in
      if ws \<noteq> [] \<and> length (acc @ concat (butlast ws)) > 64 then Fault Out_Of_Bounds
      else Returns (take 63 (acc @ concat ws)))"
proof (induction names arbitrary: idx acc)
  case Nil
  then show ?case by simp
next
  case (Cons n ns)
  have b: "take 63 acc @ snprintf_buf (64 - length acc) (n @ '' '') = take 63 (acc @ n @ '' '')"
    by (simp add: snprintf_buf_def diff_right_commute)
  have l: "length acc + length n + 1 = length (acc @ n @ '' '')" by simp
  show ?case
  proof (cases "w AND push_bit idx 1 = 0 \<or> length acc > 64")
    case True
    then show ?thesis using Cons.IH by (auto simp: LACPD_STRING_BUF_MAX_SIZE_def Let_def)
  next
    case False
    then show ?thesis
      using Cons.IH [of "Suc idx" "acc @ n @ '' ''"] b l
      by (auto simp: LACPD_STRING_BUF_MAX_SIZE_def Let_def)
  qed
qed

lemma print_lacp_flags_result:
  "lacpd_ubus_status_print_lacp_flags name (set_state_bits st 0) p =
     (if flags_fit st
      then Returns (add_string name (take 63 (concat (flag_words (set_state_bits st 0) 0 flag_string))) p)
      else Fault Out_Of_Bounds)"
  using print_flags_from_words [of "set_state_bits st 0" 0 flag_string "[]"]
  by (auto simp: lacpd_ubus_status_print_lacp_flags_def flags_fit_def Let_def LACPD_STRING_BUF_MAX_SIZE_def)

subsection \<open>Nesting\<close>

text \<open>
  A message is well nested when every closing takes the cookie of the innermost opening and
  nothing stays open.
\<close>

fun nesting :: "nat \<times> nat list \<Rightarrow> blob_item list \<Rightarrow> (nat \<times> nat list) option" where
  "nesting st [] = Some st"
| "nesting (i, os) (Open_Table n # xs) = nesting (Suc i, i # os) xs"
| "nesting (i, os) (Open_Array n # xs) = nesting (Suc i, i # os) xs"
| "nesting (i, os) (Close_Nested c # xs) =
     (case os of [] \<Rightarrow> None | o' # os' \<Rightarrow> if c = o' then nesting (Suc i, os') xs else None)"
| "nesting (i, os) (Add_String n v # xs) = nesting (Suc i, os) xs"
| "nesting (i, os) (Add_U32 n v # xs) = nesting (Suc i, os) xs"

lemma nesting_append:
  "nesting st (xs @ ys) = (case nesting st xs of None \<Rightarrow> None | Some st' \<Rightarrow> nesting st' ys)"
  by (induction st xs rule: nesting.induct) (auto split: list.splits)

lemma print_fields_append:
  "print_fields p (fs @ gs) = bind_outcome (print_fields p fs) (\<lambda>q. print_fields q gs)"
proof (induction fs arbitrary: p)
  case (Cons f fs)
  then show ?case by (cases "lacpd_ubus_status_printer p f") simp_all
qed simp

text \<open>
  Printing a group of fields that opens and closes its own tables leaves the stack of open
  tables and the cookies of the enclosing arrays as they were.
\<close>

definition prints_group :: "lacpd_status_field_type list \<Rightarrow> bool \<Rightarrow> bool" where
  "prints_group fs ok \<longleftrightarrow> (\<forall>p os.
     nesting (0, []) (bf p) = Some (length (bf p), os) \<longrightarrow>
     (if ok then \<exists>q. print_fields p fs = Returns q \<and> nesting (0, []) (bf q) = Some (length (bf q), os) \<and>
                  arg_aggs q = arg_aggs p \<and> arg_ports q = arg_ports p
      else print_fields p fs = Fault Out_Of_Bounds))"

lemma prints_group_Nil: "prints_group [] True"
  by (simp add: prints_group_def)

lemma prints_group_append:
  assumes "prints_group fs a" and "prints_group gs b"
  shows "prints_group (fs @ gs) (a \<and> b)"
  unfolding prints_group_def
proof (intro allI impI)
  fix p :: lacpd_status_printer and os assume n: "nesting (0, []) (bf p) = Some (length (bf p), os)"
  show "if a \<and> b
    then \<exists>q. print_fields p (fs @ gs) = Returns q \<and> nesting (0, []) (bf q) = Some (length (bf q), os) \<and>
           arg_aggs q = arg_aggs p \<and> arg_ports q = arg_ports p
    else print_fields p (fs @ gs) = Fault Out_Of_Bounds"
  proof (cases a)
    case True
    with assms(1) n obtain q where q: "print_fields p fs = Returns q"
      "nesting (0, []) (bf q) = Some (length (bf q), os)" "arg_aggs q = arg_aggs p" "arg_ports q = arg_ports p"
      unfolding prints_group_def by fastforce
    with assms(2) True show ?thesis
      unfolding prints_group_def print_fields_append by (cases b) fastforce+
  next
    case False
    with assms(1) n show ?thesis unfolding prints_group_def print_fields_append by fastforce
  qed
qed

lemma prints_group_concat:
  assumes "\<And>x. x \<in> set xs \<Longrightarrow> prints_group (f x) (g x)"
  shows "prints_group (concat (map f xs)) (list_all g xs)"
  using assms by (induction xs) (simp_all add: prints_group_Nil prints_group_append)

lemma aggregator_group: "prints_group (lacpd_aggregator_dump_status api s a) True"
  by (auto simp: prints_group_def lacpd_aggregator_dump_status_def Let_def nesting_append
      lacpd_ubus_status_print_hw_addr_def split: option.splits)

lemma port_group:
  "prints_group (lacpd_port_dump_status api s p)
     (flags_fit (actor_state (port_mem s p)) \<and> flags_fit (partner_state (port_mem s p)))"
  by (auto simp: prints_group_def lacpd_port_dump_status_def Let_def nesting_append
      lacpd_ubus_status_print_hw_addr_def print_lacp_flags_result split: option.splits)

subsection \<open>Properties\<close>

definition lab_flagged :: "lacpd_port \<Rightarrow> lacpd_port" where
  "lab_flagged P = upd_partner_state (\<lambda>_. \<lparr>activity = True, timeout = True, aggregation = True,
     synchronization = True, collecting = True, distributing = True, defaulted = True, expired = True\<rparr>) P"

lemma lab_overflow:
  "\<not> flags_fit \<lparr>activity = True, timeout = True, aggregation = True, synchronization = True,
     collecting = True, distributing = True, defaulted = True, expired = True\<rparr>"
  by (simp add: flags_fit_def set_state_bits_def LACPD_STRING_BUF_MAX_SIZE_def flag_string_def
      LACPDU_STATE_activity_def LACPDU_STATE_timeout_def LACPDU_STATE_aggregation_def
      LACPDU_STATE_synchronization_def LACPDU_STATE_collecting_def LACPDU_STATE_distributing_def
      LACPDU_STATE_defaulted_def LACPDU_STATE_expired_def)

lemma status_dump_result:
  assumes "nesting (0, []) (bf p) = Some (length (bf p), [])"
  shows "if list_all (\<lambda>x. flags_fit (actor_state (port_mem s x)) \<and> flags_fit (partner_state (port_mem s x))) (ports s)
    then \<exists>q. print_fields p (lacpd_status_dump api s) = Returns q \<and>
           nesting (0, []) (bf q) = Some (length (bf q), [])
    else print_fields p (lacpd_status_dump api s) = Fault Out_Of_Bounds"
proof -
  let ?fit = "\<lambda>x. flags_fit (actor_state (port_mem s x)) \<and> flags_fit (partner_state (port_mem s x))"
  obtain q1 where q1: "print_fields p [LACP_STATUS_FIELD_LACP_START,
      LACP_STATUS_FIELD_LACP_NAME (lacp_name s), LACP_STATUS_FIELD_SYS_HW_ADDR (actor_system s),
      LACP_STATUS_FIELD_LACP_RATE (lacp_rate (param s)), LACP_STATUS_FIELD_AD_SELECT_ALG (ad_select (param s)),
      LACP_STATUS_FIELD_LACP_END, LACP_STATUS_FIELD_AGGS_START] = Returns q1"
    "nesting (0, []) (bf q1) = Some (length (bf q1), [arg_aggs q1])"
    using assms by (simp add: lacpd_ubus_status_print_hw_addr_def nesting_append)
  obtain q2 where q2: "print_fields q1 (concat (map (lacpd_aggregator_dump_status api s) (aggregators s))) = Returns q2"
    "nesting (0, []) (bf q2) = Some (length (bf q2), [arg_aggs q2])"
    using prints_group_concat [of "aggregators s" "lacpd_aggregator_dump_status api s" "\<lambda>_. True"]
      aggregator_group q1(2) unfolding prints_group_def by (fastforce simp: list_all_iff)
  obtain q3 where q3: "print_fields q2 [LACP_STATUS_FIELD_AGGS_END, LACP_STATUS_FIELD_PORTS_START] = Returns q3"
    "nesting (0, []) (bf q3) = Some (length (bf q3), [arg_ports q3])"
    using q2(2) by (simp add: nesting_append)
  have ports: "prints_group (concat (map (lacpd_port_dump_status api s) (ports s))) (list_all ?fit (ports s))"
    by (rule prints_group_concat) (rule port_group)
  have dump: "print_fields p (lacpd_status_dump api s) =
    bind_outcome (print_fields q3 (concat (map (lacpd_port_dump_status api s) (ports s))))
      (\<lambda>q. print_fields q [LACP_STATUS_FIELD_PORTS_END])"
    unfolding lacpd_status_dump_def print_fields_append q1(1) bind_outcome.simps q2(1) q3(1) ..
  show ?thesis
  proof (cases "list_all ?fit (ports s)")
    case True
    with ports q3(2) obtain q4 where
      "print_fields q3 (concat (map (lacpd_port_dump_status api s) (ports s))) = Returns q4"
      "nesting (0, []) (bf q4) = Some (length (bf q4), [arg_ports q4])"
      unfolding prints_group_def by fastforce
    with True show ?thesis unfolding dump by (simp add: nesting_append)
  next
    case False
    with ports q3(2) show ?thesis unfolding dump prints_group_def by fastforce
  qed
qed

text \<open>A status request is answered with a well-nested message, in which every table and array is
  closed by its own cookie and nothing stays open, if the flags of every port fit the printer's
  64-byte buffer; otherwise the printer writes outside of it.\<close>

theorem status_dump_outcome:
  assumes "bf p = []"
  shows "if list_all (\<lambda>x. flags_fit (actor_state (port_mem s x)) \<and> flags_fit (partner_state (port_mem s x))) (ports s)
    then \<exists>q. print_fields p (lacpd_status_dump api s) = Returns q \<and>
           nesting (0, []) (bf q) = Some (length (bf q), [])
    else print_fields p (lacpd_status_dump api s) = Fault Out_Of_Bounds"
  by (rule status_dump_result) (simp add: assms)

theorem status_dump_outcome_witness:
  "print_fields \<lparr>bf = [], arg_lacp = 0, arg_aggs = 0, arg_agg = 0, arg_ports = 0, arg_port = 0\<rparr>
     (lacpd_status_dump lab_api (lab_with lab_flagged)) = Fault Out_Of_Bounds"
proof -
  have "partner_state (port_mem (lab_with lab_flagged) 0) = \<lparr>activity = True, timeout = True,
     aggregation = True, synchronization = True, collecting = True, distributing = True, defaulted = True, expired = True\<rparr>"
    "ports (lab_with lab_flagged) = [0]"
    using lab_joined_result(3) by (simp_all add: lab_with_def upd_agg_def lab_flagged_def upd_partner_state_def)
  then show ?thesis
    using status_dump_outcome [of "\<lparr>bf = [], arg_lacp = 0, arg_aggs = 0, arg_agg = 0, arg_ports = 0, arg_port = 0\<rparr>"
        "lab_with lab_flagged" lab_api]
    by (simp add: lab_overflow)
qed

text \<open>C32: A peer can do this: when a port processes a packet whose sender sets all eight of its flags and
  describes the port as it is, the next status request writes outside the printer's buffer.\<close>

theorem peer_overflows_status:
  assumes "p \<in> set (ports s)" and "bf q = []"
    and "info_state (lacpdu_get_port_info (message (port_mem s p)) True) =
      \<lparr>activity = True, timeout = True, aggregation = True, synchronization = True,
       collecting = True, distributing = True, defaulted = True, expired = True\<rparr>"
    and "same_identity (lacpdu_get_port_info (message (port_mem s p)) False) (actor_port_info (port_mem s p))"
    and "aggregation (info_state (lacpdu_get_port_info (message (port_mem s p)) False)) =
      aggregation (actor_state (port_mem s p))"
  shows "print_fields q (lacpd_status_dump api
    (fsm_change_to_state (receive_machine_base p) LACPD_RECV_ST_CURRENT s)) = Fault Out_Of_Bounds"
proof -
  let ?P = "port_mem s p" and ?t = "fsm_change_to_state (receive_machine_base p) LACPD_RECV_ST_CURRENT s"
  have "partner_state (record_PDU ?P) = info_state (lacpdu_get_port_info (message ?P) True)"
    using assms(3-5) by (auto simp: record_PDU_def Let_def upd_state_defs port_info_equal_except_aggregation same_identity_def)
  then have "partner_state (port_mem ?t p) = info_state (lacpdu_get_port_info (message ?P) True)"
    by (simp add: receive_change_to_state upd_state_defs upd_receive_def)
  then have "\<not> flags_fit (partner_state (port_mem ?t p))"
    unfolding assms(3) by (simp add: lab_overflow)
  moreover have "ports ?t = ports s" by (simp add: receive_change_to_state)
  ultimately have "\<not> list_all (\<lambda>x. flags_fit (actor_state (port_mem ?t x)) \<and> flags_fit (partner_state (port_mem ?t x))) (ports ?t)"
    using assms(1) by (auto simp: list_all_iff)
  with status_dump_result [of q ?t api] show ?thesis by (simp add: assms(2))
qed

definition lab_message :: lacpdu where
  "lab_message = (let P = port_mem lab_joined 0 in lacp (port_lacp_pkt (P\<lparr>
     actor_port_info := (actor_port_info P)\<lparr>info_state :=
       \<lparr>activity = True, timeout = True, aggregation = True, synchronization = True,
        collecting = True, distributing = True, defaulted = True, expired = True\<rparr>\<rparr>,
     partner_port_info := actor_port_info P\<rparr>)))"

theorem peer_overflows_status_witness:
  "print_fields \<lparr>bf = [], arg_lacp = 0, arg_aggs = 0, arg_agg = 0, arg_ports = 0, arg_port = 0\<rparr>
     (lacpd_status_dump lab_api (fsm_change_to_state (receive_machine_base 0) LACPD_RECV_ST_CURRENT
       (lab_with (\<lambda>P. P\<lparr>message := lab_message\<rparr>)))) = Fault Out_Of_Bounds"
proof -
  have p: "ports (lab_with (\<lambda>P. P\<lparr>message := lab_message\<rparr>)) = [0]"
    "port_mem (lab_with (\<lambda>P. P\<lparr>message := lab_message\<rparr>)) 0 = (port_mem lab_joined 0)\<lparr>message := lab_message\<rparr>"
    using lab_joined_result(3) by (simp_all add: lab_with_def upd_agg_def)
  have "lacpdu_get_port_info lab_message True = (actor_port_info (port_mem lab_joined 0))\<lparr>info_state :=
       \<lparr>activity = True, timeout = True, aggregation = True, synchronization = True,
        collecting = True, distributing = True, defaulted = True, expired = True\<rparr>\<rparr>"
    "lacpdu_get_port_info lab_message False = actor_port_info (port_mem lab_joined 0)"
    by (simp_all add: lab_message_def Let_def port_lacp_pkt_infos)
  then show ?thesis
    by (intro peer_overflows_status) (simp_all add: p same_identity_def)
qed

end
