(* ===== verification/Hotplug.thy ===== *)
theory Hotplug
  imports Aggregator
begin

text \<open>
  The hotplug status system (qca/src/qca-lacpd/status/status_hotplug.c): it starts one hotplug
  script per event of a switch port, one at a time, and queues the events that come meanwhile.
\<close>

subsection \<open>State and operations\<close>

datatype lacpd_hotplug_event_type =
  LACPD_HOTPLUG_EVENT_PORT_CREATED | LACPD_HOTPLUG_EVENT_PORT_DESTROYED

record lacpd_hotplug_event =
  evt_sw_name :: string
  evt_port_num :: u32
  evt_event_type :: lacpd_hotplug_event_type

text \<open>
  \<open>hot_calloc\<close> and \<open>hot_fork\<close> are the C library's, over a state \<open>'e\<close>: whether memory is
  available, and the process identifier the parent sees (negative when fork fails).
  \<open>hot_task_add\<close> hands the child to the event loop (\<^verbatim>\<open>os_service->task_add\<close>). \<open>started\<close>
  is the list of the commands the children were started with, the environment of the script.
\<close>

record 'e hotplug_os =
  hot_calloc :: "'e \<Rightarrow> bool \<times> 'e"
  hot_fork :: "'e \<Rightarrow> int \<times> 'e"
  hot_task_add :: "int \<Rightarrow> 'e \<Rightarrow> bool \<times> 'e"

record 'e lacpd_hotplug_status_system =
  pending_events :: "lacpd_hotplug_event list"
  task_is_running :: bool
  task_pid :: int
  started :: "lacpd_hotplug_event list"
  hot_env :: 'e

definition LACP_STATUS_SYS_NAME_SIZE :: nat where "LACP_STATUS_SYS_NAME_SIZE = 64"

definition lacpd_hotplug_queue_event ::
    "'e hotplug_os \<Rightarrow> string \<Rightarrow> u32 \<Rightarrow> lacpd_hotplug_event_type \<Rightarrow>
     'e lacpd_hotplug_status_system \<Rightarrow> 'e lacpd_hotplug_status_system" where
  "lacpd_hotplug_queue_event os sw_name port_num event s =
     (let (ok, e) = hot_calloc os (hot_env s); s1 = s\<lparr>hot_env := e\<rparr> in
      if \<not> ok then s1
      else s1\<lparr>pending_events := list_add_tail
               \<lparr>evt_sw_name = snprintf_buf LACP_STATUS_SYS_NAME_SIZE sw_name,
                evt_port_num = port_num, evt_event_type = event\<rparr> (pending_events s1)\<rparr>)"

text \<open>Whether the event loop takes the child is not looked at.\<close>

definition lacpd_hotplug_run_cmd ::
    "'e hotplug_os \<Rightarrow> string \<Rightarrow> u32 \<Rightarrow> lacpd_hotplug_event_type \<Rightarrow>
     'e lacpd_hotplug_status_system \<Rightarrow> 'e lacpd_hotplug_status_system" where
  "lacpd_hotplug_run_cmd os sw_name port_num event s =
     (if task_is_running s then s
      else
        let (pid, e) = hot_fork os (hot_env s); s1 = s\<lparr>hot_env := e\<rparr> in
        if pid < 0 then s1
        else s1\<lparr>task_is_running := True, task_pid := pid, hot_env := snd (hot_task_add os pid e),
               started := started s1 @ [\<lparr>evt_sw_name = sw_name, evt_port_num = port_num, evt_event_type = event\<rparr>]\<rparr>)"

definition lacpd_hotplug_schedule_run ::
    "'e hotplug_os \<Rightarrow> 'e lacpd_hotplug_status_system \<Rightarrow> 'e lacpd_hotplug_status_system" where
  "lacpd_hotplug_schedule_run os s =
     (case pending_events s of
        [] \<Rightarrow> s
      | current # rest \<Rightarrow>
          if task_is_running s then s
          else lacpd_hotplug_run_cmd os (evt_sw_name current) (evt_port_num current) (evt_event_type current)
                 (s\<lparr>pending_events := rest\<rparr>))"

definition lacpd_hotplug_run ::
    "'e hotplug_os \<Rightarrow> string \<Rightarrow> u32 \<Rightarrow> lacpd_hotplug_event_type \<Rightarrow>
     'e lacpd_hotplug_status_system \<Rightarrow> 'e lacpd_hotplug_status_system" where
  "lacpd_hotplug_run os sw_name port_num event s =
     (if \<not> task_is_running s \<and> pending_events s = []
      then lacpd_hotplug_run_cmd os sw_name port_num event s
      else lacpd_hotplug_schedule_run os (lacpd_hotplug_queue_event os sw_name port_num event s))"

definition lacpd_hotplug_task_complete ::
    "'e hotplug_os \<Rightarrow> 'e lacpd_hotplug_status_system \<Rightarrow> 'e lacpd_hotplug_status_system" where
  "lacpd_hotplug_task_complete os s = lacpd_hotplug_schedule_run os (s\<lparr>task_is_running := False\<rparr>)"

definition lacpd_hotplug_notify_switch_port_created ::
    "'e hotplug_os \<Rightarrow> string \<Rightarrow> u32 \<Rightarrow> 'e lacpd_hotplug_status_system \<Rightarrow> 'e lacpd_hotplug_status_system" where
  "lacpd_hotplug_notify_switch_port_created os sw_name port_num =
     lacpd_hotplug_run os sw_name port_num LACPD_HOTPLUG_EVENT_PORT_CREATED"

definition lacpd_hotplug_notify_switch_port_destroyed ::
    "'e hotplug_os \<Rightarrow> string \<Rightarrow> u32 \<Rightarrow> 'e lacpd_hotplug_status_system \<Rightarrow> 'e lacpd_hotplug_status_system" where
  "lacpd_hotplug_notify_switch_port_destroyed os sw_name port_num =
     lacpd_hotplug_run os sw_name port_num LACPD_HOTPLUG_EVENT_PORT_DESTROYED"

definition lacpd_hotplug_status_system_init ::
    "'e lacpd_hotplug_status_system \<Rightarrow> bool \<times> 'e lacpd_hotplug_status_system" where
  "lacpd_hotplug_status_system_init s = (True, s\<lparr>pending_events := []\<rparr>)"

definition lacpd_hotplug_status_system_exit ::
    "'e lacpd_hotplug_status_system \<Rightarrow> 'e lacpd_hotplug_status_system" where
  "lacpd_hotplug_status_system_exit s = s\<lparr>pending_events := []\<rparr>"

text \<open>The zero-initialised global, initialised.\<close>

definition hotplug_start :: "'e \<Rightarrow> 'e lacpd_hotplug_status_system" where
  "hotplug_start e = snd (lacpd_hotplug_status_system_init
     \<lparr>pending_events = [], task_is_running = False, task_pid = 0, started = [], hot_env = e\<rparr>)"

subsection \<open>Runs\<close>

text \<open>
  What happens to the system: ports come and go, and a running script ends. The completion
  callback belongs to the task, so it comes only while a script is running.
\<close>

datatype hotplug_input = Created string u32 | Destroyed string u32 | Script_Ends

fun hotplug_step ::
    "'e hotplug_os \<Rightarrow> hotplug_input \<Rightarrow> 'e lacpd_hotplug_status_system \<Rightarrow> 'e lacpd_hotplug_status_system" where
  "hotplug_step os (Created n i) s = lacpd_hotplug_notify_switch_port_created os n i s"
| "hotplug_step os (Destroyed n i) s = lacpd_hotplug_notify_switch_port_destroyed os n i s"
| "hotplug_step os Script_Ends s = (if task_is_running s then lacpd_hotplug_task_complete os s else s)"

definition hotplug_trace ::
    "'e hotplug_os \<Rightarrow> hotplug_input list \<Rightarrow> 'e \<Rightarrow> 'e lacpd_hotplug_status_system" where
  "hotplug_trace os is e = fold (hotplug_step os) is (hotplug_start e)"

fun event_of :: "hotplug_input \<Rightarrow> lacpd_hotplug_event list" where
  "event_of (Created n i) = [\<lparr>evt_sw_name = n, evt_port_num = i, evt_event_type = LACPD_HOTPLUG_EVENT_PORT_CREATED\<rparr>]"
| "event_of (Destroyed n i) = [\<lparr>evt_sw_name = n, evt_port_num = i, evt_event_type = LACPD_HOTPLUG_EVENT_PORT_DESTROYED\<rparr>]"
| "event_of Script_Ends = []"

text \<open>The names of switches fit the events' buffers: a device system's name has 63 characters at most.\<close>

fun name_fits :: "hotplug_input \<Rightarrow> bool" where
  "name_fits (Created n i) = (length n < LACP_STATUS_SYS_NAME_SIZE)"
| "name_fits (Destroyed n i) = (length n < LACP_STATUS_SYS_NAME_SIZE)"
| "name_fits Script_Ends = True"

lemma snprintf_buf_fits: "length str < n \<Longrightarrow> snprintf_buf n str = str"
  by (simp add: snprintf_buf_def)

subsection \<open>The queue\<close>

lemmas hotplug_defs =
  lacpd_hotplug_run_def lacpd_hotplug_run_cmd_def lacpd_hotplug_schedule_run_def
  lacpd_hotplug_queue_event_def lacpd_hotplug_task_complete_def
  lacpd_hotplug_notify_switch_port_created_def lacpd_hotplug_notify_switch_port_destroyed_def

definition hotplug_inv ::
    "lacpd_hotplug_event list \<Rightarrow> nat \<Rightarrow> 'e lacpd_hotplug_status_system \<Rightarrow> bool" where
  "hotplug_inv submitted ended s \<longleftrightarrow>
     started s @ pending_events s = submitted \<and>
     (\<not> task_is_running s \<longrightarrow> pending_events s = []) \<and>
     length (started s) = ended + (if task_is_running s then 1 else 0)"

text \<open>How many scripts have ended in a run.\<close>

fun scripts_ended ::
    "'e hotplug_os \<Rightarrow> hotplug_input list \<Rightarrow> 'e lacpd_hotplug_status_system \<Rightarrow> nat" where
  "scripts_ended os [] s = 0"
| "scripts_ended os (i # is) s =
     (if i = Script_Ends \<and> task_is_running s then 1 else 0) + scripts_ended os is (hotplug_step os i s)"

lemma hotplug_step_inv:
  assumes "hotplug_inv sub n s" and "name_fits i"
    and "\<And>e. fst (hot_calloc os e)" and "\<And>e. fst (hot_fork os e) \<ge> 0"
  shows "hotplug_inv (sub @ event_of i) (n + (if i = Script_Ends \<and> task_is_running s then 1 else 0)) (hotplug_step os i s)"
  using assms(1,2) assms(3) [of "hot_env s"] assms(4) [of "hot_env s"]
  by (cases i)
    (auto simp: hotplug_inv_def hotplug_defs Let_def snprintf_buf_fits list_add_tail_def
      split: prod.splits list.splits if_splits)

lemma hotplug_run_inv:
  assumes "hotplug_inv sub n s" and "list_all name_fits is"
    and "\<And>e. fst (hot_calloc os e)" and "\<And>e. fst (hot_fork os e) \<ge> 0"
  shows "hotplug_inv (sub @ concat (map event_of is)) (n + scripts_ended os is s) (fold (hotplug_step os) is s)"
  using assms(1,2)
proof (induction "is" arbitrary: sub n s)
  case (Cons i rest)
  from hotplug_step_inv [OF Cons.prems(1) _ assms(3,4), of i] Cons.prems(2)
  have "hotplug_inv (sub @ event_of i) (n + (if i = Script_Ends \<and> task_is_running s then 1 else 0)) (hotplug_step os i s)"
    by simp
  from Cons.IH [OF this] Cons.prems(2) show ?case by (simp add: add.assoc)
qed simp

subsection \<open>Properties\<close>

text \<open>An operating system for the witnesses: its state counts the forks, from some point on they fail.\<close>

definition lab_os :: "nat \<Rightarrow> nat hotplug_os" where
  "lab_os k = \<lparr>hot_calloc = (\<lambda>e. (True, e)), hot_fork = (\<lambda>e. (if e < k then 1 else -1, Suc e)),
     hot_task_add = (\<lambda>pid e. (True, e))\<rparr>"

definition lab_always :: "unit hotplug_os" where
  "lab_always = \<lparr>hot_calloc = (\<lambda>e. (True, e)), hot_fork = (\<lambda>e. (7, e)), hot_task_add = (\<lambda>pid e. (True, e))\<rparr>"

text \<open>C16: Scripts are run one at a time, in the order of the events, and none is lost, as long as memory and
  processes are available: the started commands followed by the queue are the events so far, all
  started scripts but a running one have ended, and the queue is empty when none is running.\<close>

theorem hotplug_scripts_in_order:
  assumes "list_all name_fits is" and "\<And>e. fst (hot_calloc os e)" and "\<And>e. fst (hot_fork os e) \<ge> 0"
  shows "started (hotplug_trace os is e0) @ pending_events (hotplug_trace os is e0) = concat (map event_of is) \<and>
    length (started (hotplug_trace os is e0)) = scripts_ended os is (hotplug_start e0) +
      (if task_is_running (hotplug_trace os is e0) then 1 else 0) \<and>
    (task_is_running (hotplug_trace os is e0) \<or> pending_events (hotplug_trace os is e0) = [])"
proof -
  have "hotplug_inv [] 0 (hotplug_start e0)"
    by (simp add: hotplug_inv_def hotplug_start_def lacpd_hotplug_status_system_init_def)
  from hotplug_run_inv [OF this assms] show ?thesis by (auto simp: hotplug_inv_def hotplug_trace_def)
qed

theorem hotplug_scripts_in_order_witness:
  "started (hotplug_trace lab_always [Created ''sw0'' 1, Destroyed ''sw0'' 1, Script_Ends] ()) =
     event_of (Created ''sw0'' 1) @ event_of (Destroyed ''sw0'' 1)"
proof -
  have "task_is_running (hotplug_trace lab_always [Created ''sw0'' 1, Destroyed ''sw0'' 1, Script_Ends] ())"
    "pending_events (hotplug_trace lab_always [Created ''sw0'' 1, Destroyed ''sw0'' 1, Script_Ends] ()) = []"
    by (simp_all add: hotplug_trace_def hotplug_start_def hotplug_defs lacpd_hotplug_status_system_init_def
      lab_always_def list_add_tail_def)
  then show ?thesis
    using hotplug_scripts_in_order [of "[Created ''sw0'' 1, Destroyed ''sw0'' 1, Script_Ends]" lab_always "()"]
    by (simp add: lab_always_def LACP_STATUS_SYS_NAME_SIZE_def)
qed

text \<open>A failing fork stalls the queue: when a script ends and the next one cannot be started its event is
  lost, and the events behind it stay queued with no script running and no completion to come.\<close>

theorem hotplug_queue_stalls:
  assumes "pending_events s = lost # waiting" and "waiting \<noteq> []" and "fst (hot_fork os (hot_env s)) < 0"
  shows "let t = lacpd_hotplug_task_complete os s in
    started t = started s \<and> pending_events t = waiting \<and> \<not> task_is_running t \<and>
    hotplug_step os Script_Ends t = t"
  using assms by (auto simp: hotplug_defs Let_def split: prod.splits)

theorem hotplug_queue_stalls_witness:
  "let s = hotplug_trace (lab_os 1) [Created ''sw0'' 1, Created ''sw0'' 2, Created ''sw0'' 3] 0;
       t = lacpd_hotplug_task_complete (lab_os 1) s
   in pending_events t = event_of (Created ''sw0'' 3) \<and> \<not> task_is_running t"
proof -
  have "pending_events (hotplug_trace (lab_os 1) [Created ''sw0'' 1, Created ''sw0'' 2, Created ''sw0'' 3] 0) =
      \<lparr>evt_sw_name = ''sw0'', evt_port_num = 2, evt_event_type = LACPD_HOTPLUG_EVENT_PORT_CREATED\<rparr> #
      event_of (Created ''sw0'' 3)"
    "hot_env (hotplug_trace (lab_os 1) [Created ''sw0'' 1, Created ''sw0'' 2, Created ''sw0'' 3] 0) = 1"
    by (simp_all add: hotplug_trace_def hotplug_start_def hotplug_defs lacpd_hotplug_status_system_init_def
      lab_os_def list_add_tail_def snprintf_buf_def LACP_STATUS_SYS_NAME_SIZE_def)
  then show ?thesis
    using hotplug_queue_stalls [of "hotplug_trace (lab_os 1) [Created ''sw0'' 1, Created ''sw0'' 2, Created ''sw0'' 3] 0"
        _ _ "lab_os 1"]
    by (simp add: Let_def) (simp add: lab_os_def)
qed

end
