(* ===== verification/Os_Service.thy ===== *)
theory Os_Service
  imports Lacp_Prelude
begin

text \<open>
  Descriptors and tasks of the OS service of the wrapper (qca/src/qca-lacpd/main.c,
  lib_general_device/general_os_service.h): they are handed to the event loop of libubox, with the flags
  and events of one translated to those of the other.
\<close>

subsection \<open>Interfaces\<close>

text \<open>
  The two flags of libubox and its functions, over the state \<open>'w\<close> of the event loop; a result of 0
  is success.
\<close>

record 'w uloop_api =
  ULOOP_READ :: u8
  ULOOP_WRITE :: u8
  uloop_fd_add :: "int \<Rightarrow> u8 \<Rightarrow> 'w \<Rightarrow> int \<times> 'w"
  uloop_fd_delete :: "int \<Rightarrow> 'w \<Rightarrow> int \<times> 'w"
  uloop_process_add :: "int \<Rightarrow> 'w \<Rightarrow> int \<times> 'w"
  uloop_process_delete :: "int \<Rightarrow> 'w \<Rightarrow> int \<times> 'w"

definition GENL_OS_SERVICE_FD_FLAGS_READ :: u32 where "GENL_OS_SERVICE_FD_FLAGS_READ = push_bit 0 1"
definition GENL_OS_SERVICE_FD_FLAGS_WRITE :: u32 where "GENL_OS_SERVICE_FD_FLAGS_WRITE = push_bit 1 1"
definition GENL_OS_SERVICE_FD_EVENTS_READ :: u32 where "GENL_OS_SERVICE_FD_EVENTS_READ = push_bit 0 1"
definition GENL_OS_SERVICE_FD_EVENTS_WRITE :: u32 where "GENL_OS_SERVICE_FD_EVENTS_WRITE = push_bit 1 1"

text \<open>
  A descriptor and a task; the private data hold the descriptor and the process identifier that
  libubox was last given.
\<close>

record genl_os_service_fd =
  os_fd :: int
  ufd_fd :: int

record genl_os_service_task =
  os_pid :: int
  utask_pid :: int

subsection \<open>Descriptors\<close>

definition lacpd_wrapper_os_service_fd_cb ::
    "'w uloop_api \<Rightarrow> (genl_os_service_fd \<Rightarrow> u32 \<Rightarrow> 'w \<Rightarrow> 'w) \<Rightarrow> genl_os_service_fd \<Rightarrow> u32 \<Rightarrow> 'w \<Rightarrow> 'w" where
  "lacpd_wrapper_os_service_fd_cb U cb genl_os_fd events w =
     (let ev0 = 0;
          ev1 = (if events AND ucast (ULOOP_READ U) \<noteq> 0 then ev0 OR GENL_OS_SERVICE_FD_EVENTS_READ else ev0);
          ev2 = (if events AND ucast (ULOOP_WRITE U) \<noteq> 0 then ev1 OR GENL_OS_SERVICE_FD_EVENTS_WRITE else ev1)
      in cb genl_os_fd ev2 w)"

definition lacpd_wrapper_os_service_fd_add ::
    "'w uloop_api \<Rightarrow> genl_os_service_fd \<Rightarrow> u32 \<Rightarrow> 'w \<Rightarrow> bool \<times> genl_os_service_fd \<times> 'w" where
  "lacpd_wrapper_os_service_fd_add U fd flags w =
     (let fd1 = fd\<lparr>ufd_fd := os_fd fd\<rparr>;
          uflags0 = 0;
          uflags1 = (if flags AND GENL_OS_SERVICE_FD_FLAGS_READ \<noteq> 0 then uflags0 OR ULOOP_READ U else uflags0);
          uflags2 = (if flags AND GENL_OS_SERVICE_FD_FLAGS_WRITE \<noteq> 0 then uflags1 OR ULOOP_WRITE U else uflags1);
          (ret, w1) = uloop_fd_add U (ufd_fd fd1) uflags2 w
      in (0 = ret, fd1, w1))"

definition lacpd_wrapper_os_service_fd_del ::
    "'w uloop_api \<Rightarrow> genl_os_service_fd \<Rightarrow> 'w \<Rightarrow> bool \<times> genl_os_service_fd \<times> 'w" where
  "lacpd_wrapper_os_service_fd_del U fd w =
     (let fd1 = fd\<lparr>ufd_fd := os_fd fd\<rparr>; (ret, w1) = uloop_fd_delete U (ufd_fd fd1) w in (0 = ret, fd1, w1))"

subsection \<open>Tasks\<close>

definition lacpd_wrapper_os_service_task_cb ::
    "(genl_os_service_task \<Rightarrow> int \<Rightarrow> 'w \<Rightarrow> 'w) \<Rightarrow> genl_os_service_task \<Rightarrow> int \<Rightarrow> 'w \<Rightarrow> 'w" where
  "lacpd_wrapper_os_service_task_cb cb genl_os_task ret w = cb genl_os_task ret w"

definition lacpd_wrapper_os_service_task_add ::
    "'w uloop_api \<Rightarrow> genl_os_service_task \<Rightarrow> 'w \<Rightarrow> bool \<times> genl_os_service_task \<times> 'w" where
  "lacpd_wrapper_os_service_task_add U task w =
     (let task1 = task\<lparr>utask_pid := os_pid task\<rparr>; (ret, w1) = uloop_process_add U (utask_pid task1) w
      in (0 = ret, task1, w1))"

definition lacpd_wrapper_os_service_task_del ::
    "'w uloop_api \<Rightarrow> genl_os_service_task \<Rightarrow> 'w \<Rightarrow> bool \<times> 'w" where
  "lacpd_wrapper_os_service_task_del U task w =
     (let (ret, w1) = uloop_process_delete U (utask_pid task) w in (0 = ret, w1))"

subsection \<open>The translation\<close>

text \<open>
  With the values of libubox, which are those of the OS service, the two translations keep the two low bits
  and drop the others.
\<close>

lemma two_flags:
  "(if f AND 1 \<noteq> 0 then 1 else 0) OR (if f AND 2 \<noteq> 0 then 2 else 0) = f AND (3 :: u32)"
proof -
  have bits: "bit (1 :: u32) n \<longleftrightarrow> n = 0" "bit (2 :: u32) n \<longleftrightarrow> n = 1" "bit (3 :: u32) n \<longleftrightarrow> n = 0 \<or> n = 1" for n
  proof -
    have n: "(2 :: u32) = push_bit 1 1" "(3 :: u32) = mask 2" by (simp_all add: mask_eq_exp_minus_1)
    show "bit (1 :: u32) n \<longleftrightarrow> n = 0" "bit (2 :: u32) n \<longleftrightarrow> n = 1" "bit (3 :: u32) n \<longleftrightarrow> n = 0 \<or> n = 1"
      unfolding n by (auto simp: bit_simps)
  qed
  note one_bit = bit_and_iff bits if_distribR if_distrib [of bit] bit_0_eq bot_apply
  have "bit (f AND 1) n = bit (if bit f 0 then 1 else 0 :: u32) n" for n
    by (cases "n = 0") (simp_all only: one_bit, simp_all)
  moreover have "bit (f AND 2) n = bit (if bit f 1 then 2 else 0 :: u32) n" for n
    by (cases "n = 1") (simp_all only: one_bit, simp_all)
  ultimately have "f AND 1 = (if bit f 0 then 1 else 0)" "f AND 2 = (if bit f 1 then 2 else 0)"
    by (auto intro!: bit_word_eqI)
  moreover have "(if bit f 0 then 1 else 0) OR (if bit f 1 then 2 else 0) = f AND 3"
    by (rule bit_word_eqI) (auto simp only: bit_and_iff bit_or_iff bits bit_0_eq bot_apply bot_bool_def split: if_splits)
  ultimately show ?thesis by (simp split: if_splits)
qed

lemma fd_cb_translated:
  assumes "ULOOP_READ U = 1" and "ULOOP_WRITE U = 2"
  shows "lacpd_wrapper_os_service_fd_cb U cb fd events w = cb fd (events AND 3) w"
  using two_flags [of events] assms
  by (auto simp: lacpd_wrapper_os_service_fd_cb_def Let_def GENL_OS_SERVICE_FD_EVENTS_READ_def
    GENL_OS_SERVICE_FD_EVENTS_WRITE_def split: if_splits)

lemma fd_add_translated:
  assumes "ULOOP_READ U = 1" and "ULOOP_WRITE U = 2"
  shows "lacpd_wrapper_os_service_fd_add U fd flags w =
    (let (ret, w1) = uloop_fd_add U (os_fd fd) (ucast (flags AND 3)) w in (0 = ret, fd\<lparr>ufd_fd := os_fd fd\<rparr>, w1))"
  unfolding two_flags [symmetric] using assms
  by (simp add: lacpd_wrapper_os_service_fd_add_def Let_def GENL_OS_SERVICE_FD_FLAGS_READ_def
    GENL_OS_SERVICE_FD_FLAGS_WRITE_def)

end
