(* ===== verification/Genl_Device.thy ===== *)
theory Genl_Device
  imports Aggregator
begin

text \<open>
  The general device layer (qca/src/qca-lacpd/lib_general_device/general_device.c and
  general_device_api.h): the table of device systems, indexed by domain, the resolution of names
  and device objects to the system that owns them, and the events a system passes to its users.
\<close>

subsection \<open>Device systems\<close>

definition GENERAL_DEVICE_SYSTEM_MAX_DOMAIN :: nat where "GENERAL_DEVICE_SYSTEM_MAX_DOMAIN = 256"
definition GENERAL_DEVICE_SYSTEM_INIT_INTERNAL_DOMAIN :: u32 where
  "GENERAL_DEVICE_SYSTEM_INIT_INTERNAL_DOMAIN = 0x1a"
definition GENERAL_DEVICE_SYSTEM_NAME_SIZE :: nat where "GENERAL_DEVICE_SYSTEM_NAME_SIZE = 64"
definition GENERAL_DEVICE_INVALID_ID :: u32 where "GENERAL_DEVICE_INVALID_ID = 0"

definition netdev_obj_to_domain :: "u32 \<Rightarrow> u32" where
  "netdev_obj_to_domain obj = drop_bit 24 obj AND 0xff"

definition netdev_obj_is_invalid :: "u32 \<Rightarrow> bool" where
  "netdev_obj_is_invalid obj \<longleftrightarrow> obj = GENERAL_DEVICE_INVALID_ID"

text \<open>\<^verbatim>\<open>!strncmp(a, b, n)\<close> of two strings\<close>

definition strncmp_eq :: "nat \<Rightarrow> string \<Rightarrow> string \<Rightarrow> bool" where
  "strncmp_eq n a b \<longleftrightarrow> take n a = take n b"

datatype general_device_stp_state =
    GENL_DEV_STP_STATE_DISABLE
  | GENL_DEV_STP_STATE_BLOCK
  | GENL_DEV_STP_STATE_LISTEN
  | GENL_DEV_STP_STATE_LEARN
  | GENL_DEV_STP_STATE_FORWARD

datatype general_device_agg_tx_hash_policy =
    GENL_DEV_AGG_TX_HASH_POLICY_L2
  | GENL_DEV_AGG_TX_HASH_POLICY_L3
  | GENL_DEV_AGG_TX_HASH_POLICY_L2_L3
  | GENL_DEV_AGG_TX_HASH_POLICY_L4
  | GENL_DEV_AGG_TX_HASH_POLICY_L3_L4
  | GENL_DEV_AGG_TX_HASH_POLICY_L2_L3_L4

text \<open>
  The function tables of a system, over the state \<open>'w\<close> of the program. What only reads the
  state returns its result, the others return the new state as well.
\<close>

record 'w general_device_ops =
  dev_init :: "'w \<Rightarrow> (bool \<times> 'w) outcome"
  dev_exit :: "'w \<Rightarrow> bool \<times> 'w"
  dev_private :: "(u32 \<Rightarrow> u32 \<Rightarrow> 'w \<Rightarrow> bool \<times> u32 option) option"
  system_get_hw_addr :: "'w \<Rightarrow> (mac_addr option \<times> 'w) outcome"
  common_is_compatible :: "u32 \<Rightarrow> 'w \<Rightarrow> bool"
  common_name_to_netdev_obj :: "string \<Rightarrow> 'w \<Rightarrow> u32"
  common_netdev_obj_to_name :: "u32 \<Rightarrow> 'w \<Rightarrow> string option"
  common_get_link_status :: "u32 \<Rightarrow> 'w \<Rightarrow> bool"
  common_get_duplex :: "u32 \<Rightarrow> 'w \<Rightarrow> u32"
  common_get_speed :: "u32 \<Rightarrow> 'w \<Rightarrow> u32"
  common_get_hw_addr :: "u32 \<Rightarrow> 'w \<Rightarrow> (mac_addr option \<times> 'w) outcome"
  bridge_is_bridge_member :: "u32 \<Rightarrow> u32 \<Rightarrow> 'w \<Rightarrow> bool outcome"
  bridge_flush_fdb :: "u32 \<Rightarrow> 'w \<Rightarrow> bool \<times> 'w"
  stp_enable :: "u32 \<Rightarrow> 'w \<Rightarrow> bool \<times> 'w"
  stp_disable :: "u32 \<Rightarrow> 'w \<Rightarrow> bool \<times> 'w"
  stp_set_port_state :: "u32 \<Rightarrow> general_device_stp_state \<Rightarrow> 'w \<Rightarrow> bool \<times> 'w"
  stp_send_bpdu :: "u32 \<Rightarrow> u8 list \<Rightarrow> 'w \<Rightarrow> (bool \<times> 'w) outcome"
  agg_enable :: "u32 \<Rightarrow> 'w \<Rightarrow> bool \<times> 'w"
  agg_disable :: "u32 \<Rightarrow> 'w \<Rightarrow> bool \<times> 'w"
  agg_new_aggregator :: "string \<Rightarrow> 'w \<Rightarrow> u32 \<times> 'w"
  agg_destroy_aggregator :: "u32 \<Rightarrow> 'w \<Rightarrow> bool \<times> 'w"
  agg_is_aggregator :: "u32 \<Rightarrow> u32 \<Rightarrow> 'w \<Rightarrow> bool"
  agg_is_slave :: "u32 \<Rightarrow> u32 \<Rightarrow> 'w \<Rightarrow> bool"
  agg_number_of_slaves :: "u32 \<Rightarrow> 'w \<Rightarrow> u32"
  agg_attach_slave :: "u32 \<Rightarrow> u32 \<Rightarrow> 'w \<Rightarrow> bool \<times> 'w"
  agg_detach_slave :: "u32 \<Rightarrow> u32 \<Rightarrow> 'w \<Rightarrow> bool \<times> 'w"
  agg_send_lacpdu :: "u32 \<Rightarrow> u8 list \<Rightarrow> 'w \<Rightarrow> (bool \<times> 'w) outcome"
  agg_set_tx_hash_policy :: "u32 \<Rightarrow> general_device_agg_tx_hash_policy \<Rightarrow> 'w \<Rightarrow> bool \<times> 'w"

text \<open>What a user of a system can be called for; each of the pointers may be NULL.\<close>

record 'w general_device_out_api =
  out_link_status_changed :: "(u32 \<Rightarrow> u32 \<Rightarrow> 'w \<Rightarrow> 'w) option"
  out_netdev_obj_added :: "(u32 \<Rightarrow> 'w \<Rightarrow> 'w) option"
  out_netdev_obj_deleted :: "(u32 \<Rightarrow> 'w \<Rightarrow> 'w) option"
  out_receive_bpdu :: "(u8 list \<Rightarrow> u32 \<Rightarrow> u32 \<Rightarrow> 'w \<Rightarrow> bool \<times> 'w) option"
  out_receive_lacpdu :: "(u8 list \<Rightarrow> u32 \<Rightarrow> u32 \<Rightarrow> 'w \<Rightarrow> bool \<times> 'w) option"
  out_system_unregistered :: "('w \<Rightarrow> 'w) option"

type_synonym sys_ref = nat
type_synonym user_ref = nat

text \<open>
  The data of a system and of the layer. The layers above and below extend \<open>genl_state\<close> with
  their own fields; systems and users are referred to by number.
\<close>

record general_device_system =
  ds_name :: string
  users :: "user_ref list"
  ds_domain :: u32
  next_internal_domain :: u32

record genl_state =
  ndev_systems :: "sys_ref option list"
  sys_mem :: "sys_ref \<Rightarrow> general_device_system"
  current_os_service :: bool

definition upd_sys ::
    "sys_ref \<Rightarrow> (general_device_system \<Rightarrow> general_device_system) \<Rightarrow> 'a genl_state_scheme \<Rightarrow> 'a genl_state_scheme" where
  "upd_sys r f w = w\<lparr>sys_mem := (sys_mem w)(r := f (sys_mem w r))\<rparr>"

subsection \<open>The table\<close>

fun first_free :: "nat \<Rightarrow> sys_ref option list \<Rightarrow> nat option" where
  "first_free idx [] = None"
| "first_free idx (None # xs) = Some idx"
| "first_free idx (Some r # xs) = first_free (Suc idx) xs"

definition genl_dev_alloc_domain :: "sys_ref \<Rightarrow> 'a genl_state_scheme \<Rightarrow> bool \<times> 'a genl_state_scheme" where
  "genl_dev_alloc_domain r w =
     (let S = sys_mem w r;
          with_internal = (\<lambda>T. if next_internal_domain T = 0
             then T\<lparr>next_internal_domain := GENERAL_DEVICE_SYSTEM_INIT_INTERNAL_DOMAIN\<rparr> else T)
      in
      if strncmp_eq GENERAL_DEVICE_SYSTEM_NAME_SIZE (ds_name S) ''linux''
      then (True, upd_sys r (\<lambda>T. T\<lparr>ds_domain := 0, next_internal_domain := 0\<rparr>) w)
      else if 0 < ds_domain S \<and> unat (ds_domain S) < GENERAL_DEVICE_SYSTEM_MAX_DOMAIN \<and>
              ndev_systems w ! unat (ds_domain S) = None
      then (True, upd_sys r with_internal w)
      else (case first_free 0 (ndev_systems w) of
              None \<Rightarrow> (False, w)
            | Some idx \<Rightarrow> (True, upd_sys r (\<lambda>T. with_internal (T\<lparr>ds_domain := of_nat idx\<rparr>)) w)))"

definition genl_dev_sys_lookup :: "string option \<Rightarrow> 'a genl_state_scheme \<Rightarrow> sys_ref option" where
  "genl_dev_sys_lookup name w =
     (case name of
        None \<Rightarrow> None
      | Some n \<Rightarrow> find (\<lambda>r. strncmp_eq GENERAL_DEVICE_SYSTEM_NAME_SIZE n (ds_name (sys_mem w r)))
                    (map the (filter (\<lambda>x. x \<noteq> None) (ndev_systems w))))"

abbreviation registered :: "'a genl_state_scheme \<Rightarrow> sys_ref list" where
  "registered w \<equiv> map the (filter (\<lambda>x. x \<noteq> None) (ndev_systems w))"

definition genl_dev_init ::
    "(sys_ref \<Rightarrow> 'a genl_state_scheme general_device_ops) \<Rightarrow> bool \<Rightarrow> 'a genl_state_scheme \<Rightarrow>
     (bool \<times> 'a genl_state_scheme) outcome" where
  "genl_dev_init ops os_service w =
     (let w1 = w\<lparr>current_os_service := os_service\<rparr> in
      bind_outcome
        (fold (\<lambda>r m. bind_outcome m (\<lambda>v. bind_outcome (dev_init (ops r) v) (\<lambda>(_, v1). Returns v1)))
          (registered w1) (Returns w1))
        (\<lambda>v. Returns (True, v)))"

definition genl_dev_os_service_get :: "'a genl_state_scheme \<Rightarrow> bool" where
  "genl_dev_os_service_get w = current_os_service w"

subsection \<open>Resolution\<close>

fun name_in_systems :: "(sys_ref \<Rightarrow> u32) \<Rightarrow> sys_ref list \<Rightarrow> u32" where
  "name_in_systems to_obj [] = GENERAL_DEVICE_INVALID_ID"
| "name_in_systems to_obj (r # rs) =
     (if \<not> netdev_obj_is_invalid (to_obj r) then to_obj r else name_in_systems to_obj rs)"

definition genl_dev_name_to_netdev_obj ::
    "(sys_ref \<Rightarrow> 'a genl_state_scheme general_device_ops) \<Rightarrow> string option \<Rightarrow> 'a genl_state_scheme \<Rightarrow> u32" where
  "genl_dev_name_to_netdev_obj ops name w =
     (case name of
        None \<Rightarrow> GENERAL_DEVICE_INVALID_ID
      | Some n \<Rightarrow> name_in_systems (\<lambda>r. common_name_to_netdev_obj (ops r) n w) (registered w))"

definition genl_dev_sys_resolve_by_obj ::
    "(sys_ref \<Rightarrow> 'a genl_state_scheme general_device_ops) \<Rightarrow> u32 \<Rightarrow> 'a genl_state_scheme \<Rightarrow> sys_ref option outcome" where
  "genl_dev_sys_resolve_by_obj ops obj w =
     (if netdev_obj_is_invalid obj then Returns None
      else (case ndev_systems w ! unat (netdev_obj_to_domain obj) of
              None \<Rightarrow> Fault Null_Deref
            | Some r \<Rightarrow> if common_is_compatible (ops r) obj w then Returns (Some r) else Returns None))"

definition genl_dev_sys_resolve_by_name ::
    "(sys_ref \<Rightarrow> 'a genl_state_scheme general_device_ops) \<Rightarrow> string option \<Rightarrow> 'a genl_state_scheme \<Rightarrow> sys_ref option outcome" where
  "genl_dev_sys_resolve_by_name ops name w =
     genl_dev_sys_resolve_by_obj ops (genl_dev_name_to_netdev_obj ops name w) w"

text \<open>The calls that go to the system of a device: \<open>dflt\<close> when there is none.\<close>

definition with_dev_sys ::
    "(sys_ref \<Rightarrow> 'a genl_state_scheme general_device_ops) \<Rightarrow> u32 \<Rightarrow> 'a genl_state_scheme \<Rightarrow>
     'r \<Rightarrow> (sys_ref \<Rightarrow> 'r outcome) \<Rightarrow> 'r outcome" where
  "with_dev_sys ops obj w dflt f =
     bind_outcome (genl_dev_sys_resolve_by_obj ops obj w)
       (\<lambda>r_opt. case r_opt of None \<Rightarrow> Returns dflt | Some r \<Rightarrow> f r)"

definition genl_dev_netdev_obj_to_name where
  "genl_dev_netdev_obj_to_name ops obj w =
     with_dev_sys ops obj w None (\<lambda>r. Returns (common_netdev_obj_to_name (ops r) obj w))"

definition genl_dev_get_link_status where
  "genl_dev_get_link_status ops obj w =
     with_dev_sys ops obj w False (\<lambda>r. Returns (common_get_link_status (ops r) obj w))"

definition genl_dev_get_duplex where
  "genl_dev_get_duplex ops obj w = with_dev_sys ops obj w 0 (\<lambda>r. Returns (common_get_duplex (ops r) obj w))"

definition genl_dev_get_speed where
  "genl_dev_get_speed ops obj w = with_dev_sys ops obj w 0 (\<lambda>r. Returns (common_get_speed (ops r) obj w))"

definition genl_dev_get_hw_addr where
  "genl_dev_get_hw_addr ops obj w = with_dev_sys ops obj w (None, w) (\<lambda>r. common_get_hw_addr (ops r) obj w)"

definition genl_dev_is_bridge_member where
  "genl_dev_is_bridge_member ops port_obj br_obj w =
     with_dev_sys ops port_obj w False (\<lambda>r. bridge_is_bridge_member (ops r) port_obj br_obj w)"

definition genl_dev_flush_fdb where
  "genl_dev_flush_fdb ops port_obj w =
     with_dev_sys ops port_obj w (False, w) (\<lambda>r. Returns (bridge_flush_fdb (ops r) port_obj w))"

subsection \<open>Users and events\<close>

definition genl_dev_sys_add_user ::
    "string option \<Rightarrow> user_ref option \<Rightarrow> 'a genl_state_scheme \<Rightarrow> bool \<times> 'a genl_state_scheme" where
  "genl_dev_sys_add_user name user w =
     (case user of
        None \<Rightarrow> (False, w)
      | Some u \<Rightarrow>
          (case genl_dev_sys_lookup name w of
             None \<Rightarrow> (False, w)
           | Some r \<Rightarrow>
               if u \<in> set (users (sys_mem w r)) then (True, w)
               else (True, upd_sys r (\<lambda>S. S\<lparr>users := list_add_tail u (users S)\<rparr>) w)))"

definition genl_dev_sys_del_user ::
    "string option \<Rightarrow> user_ref option \<Rightarrow> 'a genl_state_scheme \<Rightarrow> 'a genl_state_scheme" where
  "genl_dev_sys_del_user name user w =
     (case user of
        None \<Rightarrow> w
      | Some u \<Rightarrow>
          (case genl_dev_sys_lookup name w of
             None \<Rightarrow> w
           | Some r \<Rightarrow>
               if u \<in> set (users (sys_mem w r))
               then upd_sys r (\<lambda>S. S\<lparr>users := list_del u (users S)\<rparr>) w else w))"

definition genl_dev_link_status_changed ::
    "(user_ref \<Rightarrow> 'a genl_state_scheme general_device_out_api) \<Rightarrow> sys_ref \<Rightarrow> u32 \<Rightarrow> u32 \<Rightarrow>
     'a genl_state_scheme \<Rightarrow> 'a genl_state_scheme" where
  "genl_dev_link_status_changed out r obj new_status w =
     fold (\<lambda>u v. case out_link_status_changed (out u) of None \<Rightarrow> v | Some f \<Rightarrow> f obj new_status v)
       (users (sys_mem w r)) w"

definition genl_dev_notify_netdev_obj_added ::
    "(user_ref \<Rightarrow> 'a genl_state_scheme general_device_out_api) \<Rightarrow> sys_ref \<Rightarrow> u32 \<Rightarrow>
     'a genl_state_scheme \<Rightarrow> 'a genl_state_scheme" where
  "genl_dev_notify_netdev_obj_added out r obj w =
     fold (\<lambda>u v. case out_netdev_obj_added (out u) of None \<Rightarrow> v | Some f \<Rightarrow> f obj v)
       (users (sys_mem w r)) w"

definition genl_dev_notify_netdev_obj_deleted ::
    "(user_ref \<Rightarrow> 'a genl_state_scheme general_device_out_api) \<Rightarrow> sys_ref \<Rightarrow> u32 \<Rightarrow>
     'a genl_state_scheme \<Rightarrow> 'a genl_state_scheme" where
  "genl_dev_notify_netdev_obj_deleted out r obj w =
     fold (\<lambda>u v. case out_netdev_obj_deleted (out u) of None \<Rightarrow> v | Some f \<Rightarrow> f obj v)
       (users (sys_mem w r)) w"

text \<open>A packet is offered to the users in turn until one consumes it; the result is true anyway.\<close>

fun offer_packet ::
    "(user_ref \<Rightarrow> ('w \<Rightarrow> bool \<times> 'w) option) \<Rightarrow> user_ref list \<Rightarrow> 'w \<Rightarrow> 'w" where
  "offer_packet recv [] w = w"
| "offer_packet recv (u # us) w =
     (case recv u of
        None \<Rightarrow> offer_packet recv us w
      | Some f \<Rightarrow> let (ret, w1) = f w in if ret then w1 else offer_packet recv us w1)"

definition genl_dev_recv_bpdu ::
    "(user_ref \<Rightarrow> 'a genl_state_scheme general_device_out_api) \<Rightarrow> sys_ref \<Rightarrow> u32 \<Rightarrow> u8 list \<Rightarrow> u32 \<Rightarrow>
     'a genl_state_scheme \<Rightarrow> bool \<times> 'a genl_state_scheme" where
  "genl_dev_recv_bpdu out r obj buf buf_len w =
     (True, offer_packet (\<lambda>u. map_option (\<lambda>f. f buf buf_len obj) (out_receive_bpdu (out u)))
              (users (sys_mem w r)) w)"

definition genl_dev_recv_lacpdu ::
    "(user_ref \<Rightarrow> 'a genl_state_scheme general_device_out_api) \<Rightarrow> sys_ref \<Rightarrow> u32 \<Rightarrow> u8 list \<Rightarrow> u32 \<Rightarrow>
     'a genl_state_scheme \<Rightarrow> bool \<times> 'a genl_state_scheme" where
  "genl_dev_recv_lacpdu out r obj buf buf_len w =
     (True, offer_packet (\<lambda>u. map_option (\<lambda>f. f buf buf_len obj) (out_receive_lacpdu (out u)))
              (users (sys_mem w r)) w)"

subsection \<open>Registration\<close>

text \<open>
  A prefix for the objects of a system: the check precedes the increment, and the result is
  computed in 32 bits.
\<close>

definition genl_dev_alloc_netdev_obj_domain ::
    "sys_ref \<Rightarrow> u32 \<Rightarrow> 'a genl_state_scheme \<Rightarrow> u32 \<times> 'a genl_state_scheme" where
  "genl_dev_alloc_netdev_obj_domain r max_devices w =
     (if max_devices > 0xffff then (GENERAL_DEVICE_INVALID_ID, w)
      else if next_internal_domain (sys_mem w r) > 0xff then (GENERAL_DEVICE_INVALID_ID, w)
      else
        let w1 = upd_sys r (\<lambda>S. S\<lparr>next_internal_domain := next_internal_domain S + 1\<rparr>) w;
            S = sys_mem w1 r
        in (push_bit 24 (ds_domain S) OR push_bit 16 (next_internal_domain S), w1))"

definition genl_dev_system_register :: "sys_ref option \<Rightarrow> 'a genl_state_scheme \<Rightarrow> bool \<times> 'a genl_state_scheme" where
  "genl_dev_system_register system_obj w =
     (case system_obj of
        None \<Rightarrow> (False, w)
      | Some r \<Rightarrow>
          if genl_dev_sys_lookup (Some (ds_name (sys_mem w r))) w \<noteq> None then (True, w)
          else
            let (ok, w1) = genl_dev_alloc_domain r w in
            if \<not> ok then (False, w1)
            else
              let w2 = upd_sys r (\<lambda>S. S\<lparr>users := []\<rparr>) w1
              in (True, w2\<lparr>ndev_systems := (ndev_systems w2)[unat (ds_domain (sys_mem w2 r)) := Some r]\<rparr>))"

definition genl_dev_system_unregister ::
    "(user_ref \<Rightarrow> 'a genl_state_scheme general_device_out_api) \<Rightarrow> sys_ref option \<Rightarrow>
     'a genl_state_scheme \<Rightarrow> 'a genl_state_scheme outcome" where
  "genl_dev_system_unregister out system_obj w =
     (case system_obj of
        None \<Rightarrow> Returns w
      | Some r \<Rightarrow>
          if genl_dev_sys_lookup (Some (ds_name (sys_mem w r))) w = None then Returns w
          else
            bind_outcome
              (fold (\<lambda>u m. bind_outcome m (\<lambda>v.
                       let v1 = upd_sys r (\<lambda>S. S\<lparr>users := list_del u (users S)\<rparr>) v in
                       case out_system_unregistered (out u) of
                         None \<Rightarrow> Fault Null_Deref
                       | Some f \<Rightarrow> Returns (f v1)))
                 (users (sys_mem w r)) (Returns w))
              (\<lambda>v. let v1 = upd_sys r (\<lambda>S. S\<lparr>users := []\<rparr>) v; d = unat (ds_domain (sys_mem v1 r)) in
                   if d < GENERAL_DEVICE_SYSTEM_MAX_DOMAIN
                   then Returns (v1\<lparr>ndev_systems := (ndev_systems v1)[d := None]\<rparr>)
                   else Fault Out_Of_Bounds))"

subsection \<open>The table as a partial map\<close>

lemma upd_sys_simps [simp]:
  "ndev_systems (upd_sys r f w) = ndev_systems w"
  "sys_mem (upd_sys r f w) = (sys_mem w)(r := f (sys_mem w r))"
  "current_os_service (upd_sys r f w) = current_os_service w"
  by (simp_all add: upd_sys_def)

lemma upd_sys_same: "f (sys_mem w r) = sys_mem w r \<Longrightarrow> upd_sys r f w = (w :: 'a genl_state_scheme)"
  by (simp add: upd_sys_def)

lemma set_registered: "set (registered w) = {r. Some r \<in> set (ndev_systems w)}"
  by force

lemma first_free_Some:
  "first_free k xs = Some i \<Longrightarrow> k \<le> i \<and> i < k + length xs \<and> xs ! (i - k) = None \<and> (\<forall>j < i - k. xs ! j \<noteq> None)"
proof (induction k xs rule: first_free.induct)
  case (3 idx r xs)
  then show ?case by (auto simp: nth_Cons' less_diff_conv Suc_le_eq)
qed auto

lemma first_free_None: "first_free k xs = None \<longleftrightarrow> None \<notin> set xs"
  by (induction k xs rule: first_free.induct) auto

definition table_ok :: "'a genl_state_scheme \<Rightarrow> bool" where
  "table_ok w \<longleftrightarrow> length (ndev_systems w) = GENERAL_DEVICE_SYSTEM_MAX_DOMAIN \<and>
     (\<forall>d r. d < length (ndev_systems w) \<and> ndev_systems w ! d = Some r \<longrightarrow> unat (ds_domain (sys_mem w r)) = d)"

lemma table_ok_slot:
  assumes "table_ok w" and "Some r \<in> set (ndev_systems w)"
  shows "unat (ds_domain (sys_mem w r)) < 256" "ndev_systems w ! unat (ds_domain (sys_mem w r)) = Some r"
proof -
  from assms(2) obtain d where d: "d < length (ndev_systems w)" "ndev_systems w ! d = Some r"
    by (auto simp: in_set_conv_nth)
  with assms(1) have "unat (ds_domain (sys_mem w r)) = d" by (simp add: table_ok_def)
  with d assms(1) show "unat (ds_domain (sys_mem w r)) < 256" "ndev_systems w ! unat (ds_domain (sys_mem w r)) = Some r"
    by (simp_all add: table_ok_def GENERAL_DEVICE_SYSTEM_MAX_DOMAIN_def)
qed

lemma find_SomeD: "find P xs = Some x \<Longrightarrow> P x \<and> x \<in> set xs"
  by (induction xs) (auto split: if_splits)

lemma genl_dev_sys_lookup_Some:
  assumes "genl_dev_sys_lookup (Some n) w = Some r"
  shows "Some r \<in> set (ndev_systems w)" "strncmp_eq GENERAL_DEVICE_SYSTEM_NAME_SIZE n (ds_name (sys_mem w r))"
proof -
  have "find (\<lambda>r. strncmp_eq GENERAL_DEVICE_SYSTEM_NAME_SIZE n (ds_name (sys_mem w r))) (registered w) = Some r"
    using assms by (simp add: genl_dev_sys_lookup_def)
  from find_SomeD [OF this] set_registered [of w] show "Some r \<in> set (ndev_systems w)"
    "strncmp_eq GENERAL_DEVICE_SYSTEM_NAME_SIZE n (ds_name (sys_mem w r))" by auto
qed

lemma genl_dev_sys_lookup_None:
  "genl_dev_sys_lookup (Some n) w = None \<longleftrightarrow>
    (\<forall>r. Some r \<in> set (ndev_systems w) \<longrightarrow> \<not> strncmp_eq GENERAL_DEVICE_SYSTEM_NAME_SIZE n (ds_name (sys_mem w r)))"
  unfolding genl_dev_sys_lookup_def using set_registered [of w] by (simp add: find_None_iff del: set_map set_filter)

lemma strncmp_eq_refl [simp]: "strncmp_eq n a a"
  by (simp add: strncmp_eq_def)

text \<open>Once a system has its domain, it is in the table with an empty list of users and found by its name.\<close>

definition enrolled :: "sys_ref \<Rightarrow> 'a genl_state_scheme \<Rightarrow> 'a genl_state_scheme \<Rightarrow> bool" where
  "enrolled r w t \<longleftrightarrow>
     (let d = unat (ds_domain (sys_mem t r)) in
      d < GENERAL_DEVICE_SYSTEM_MAX_DOMAIN \<and> ndev_systems t = (ndev_systems w)[d := Some r] \<and>
      users (sys_mem t r) = [] \<and> ds_name (sys_mem t r) = ds_name (sys_mem w r) \<and>
      (\<forall>q. q \<noteq> r \<longrightarrow> sys_mem t q = sys_mem w q))"

lemma enrolled_lookup:
  assumes "enrolled r w t" and "length (ndev_systems w) = GENERAL_DEVICE_SYSTEM_MAX_DOMAIN"
    and "genl_dev_sys_lookup (Some (ds_name (sys_mem w r))) w = None"
  shows "genl_dev_sys_lookup (Some (ds_name (sys_mem w r))) t = Some r"
proof -
  let ?n = "ds_name (sys_mem w r)" and ?d = "unat (ds_domain (sys_mem t r))"
  have d: "?d < length (ndev_systems w)" "ndev_systems t = (ndev_systems w)[?d := Some r]"
    using assms(1,2) by (auto simp: enrolled_def Let_def)
  have "Some r \<in> set (ndev_systems t)"
    unfolding d(2) using set_update_memI [OF d(1)] .
  then obtain q where q: "genl_dev_sys_lookup (Some ?n) t = Some q"
    using genl_dev_sys_lookup_None [of ?n t] assms(1) by (cases "genl_dev_sys_lookup (Some ?n) t") (auto simp: enrolled_def Let_def)
  have "q = r"
  proof (rule ccontr)
    assume "q \<noteq> r"
    with genl_dev_sys_lookup_Some [OF q] d have "Some q \<in> set (ndev_systems w)"
      "strncmp_eq GENERAL_DEVICE_SYSTEM_NAME_SIZE ?n (ds_name (sys_mem w q))"
      using set_update_subset_insert [of "ndev_systems w" ?d "Some r"] assms(1)
      by (auto simp: enrolled_def Let_def)
    with assms(3) show False by (simp add: genl_dev_sys_lookup_None)
  qed
  with q show ?thesis by simp
qed

lemma enrolled_table_ok:
  assumes "enrolled r w t" and "table_ok w" and "Some r \<notin> set (ndev_systems w)"
  shows "table_ok t"
proof -
  let ?d = "unat (ds_domain (sys_mem t r))"
  have t: "ndev_systems t = (ndev_systems w)[?d := Some r]" "q \<noteq> r \<Longrightarrow> sys_mem t q = sys_mem w q"
    "length (ndev_systems t) = GENERAL_DEVICE_SYSTEM_MAX_DOMAIN" for q
    using assms(1,2) by (simp_all add: enrolled_def table_ok_def Let_def)
  have "unat (ds_domain (sys_mem t q)) = d" if "d < length (ndev_systems t)" "ndev_systems t ! d = Some q" for d q
  proof (cases "d = ?d")
    case True
    with t that show ?thesis by simp
  next
    case False
    with t that have w: "ndev_systems w ! d = Some q" "d < length (ndev_systems w)" by auto
    then have "q \<noteq> r" using assms(3) nth_mem by metis
    with w assms(2) t(2) show ?thesis by (simp add: table_ok_def)
  qed
  with t(3) show ?thesis by (simp add: table_ok_def)
qed

text \<open>A system other than Linux goes to a free slot, and fails to register only if there is none.\<close>

lemma alloc_domain_free:
  assumes "table_ok w" and "\<not> strncmp_eq GENERAL_DEVICE_SYSTEM_NAME_SIZE (ds_name (sys_mem w r)) ''linux''"
    and "genl_dev_alloc_domain r w = (ok, t)"
  shows "if ok then \<exists>f. t = upd_sys r f w \<and> ds_name (f (sys_mem w r)) = ds_name (sys_mem w r) \<and>
           (let d = unat (ds_domain (f (sys_mem w r))) in
            d < GENERAL_DEVICE_SYSTEM_MAX_DOMAIN \<and> ndev_systems w ! d = None)
         else t = w \<and> None \<notin> set (ndev_systems w)"
proof -
  let ?S = "sys_mem w r"
  let ?int = "\<lambda>T. if next_internal_domain T = 0
             then T\<lparr>next_internal_domain := GENERAL_DEVICE_SYSTEM_INIT_INTERNAL_DOMAIN\<rparr> else T"
  show ?thesis
  proof (cases "0 < ds_domain ?S \<and> unat (ds_domain ?S) < GENERAL_DEVICE_SYSTEM_MAX_DOMAIN \<and>
              ndev_systems w ! unat (ds_domain ?S) = None")
    case True
    with assms(2,3) have "ok" "t = upd_sys r ?int w"
      by (simp_all add: genl_dev_alloc_domain_def Let_def)
    with True show ?thesis by (auto simp: Let_def intro!: exI [of _ ?int])
  next
    case False
    show ?thesis
    proof (cases "first_free 0 (ndev_systems w)")
      case None
      with False assms(2,3) have "\<not> ok" "t = w" by (auto simp: genl_dev_alloc_domain_def Let_def)
      with first_free_None [THEN iffD1, OF None] show ?thesis by simp
    next
      case (Some i)
      from first_free_Some [OF Some] assms(1)
      have i: "i < 256" "ndev_systems w ! i = None"
        by (simp_all add: table_ok_def GENERAL_DEVICE_SYSTEM_MAX_DOMAIN_def)
      have "ok" "t = upd_sys r (\<lambda>T. ?int (T\<lparr>ds_domain := of_nat i\<rparr>)) w"
        using False Some assms(2,3) by (auto simp: genl_dev_alloc_domain_def Let_def)
      moreover have "unat (of_nat i :: u32) = i" using i(1) by (simp add: unat_of_nat take_bit_nat_eq_self)
      ultimately show ?thesis
        using i by (auto simp: Let_def GENERAL_DEVICE_SYSTEM_MAX_DOMAIN_def
            intro!: exI [of _ "\<lambda>T. ?int (T\<lparr>ds_domain := of_nat i\<rparr>)"])
    qed
  qed
qed

lemma register_result:
  assumes "table_ok w" and "\<not> strncmp_eq GENERAL_DEVICE_SYSTEM_NAME_SIZE (ds_name (sys_mem w r)) ''linux''"
    and "genl_dev_sys_lookup (Some (ds_name (sys_mem w r))) w = None"
    and "genl_dev_system_register (Some r) w = (ok, t)"
  shows "if ok then enrolled r w t \<and> ndev_systems w ! unat (ds_domain (sys_mem t r)) = None
         else t = w \<and> None \<notin> set (ndev_systems w)"
proof -
  obtain ok1 t1 where a: "genl_dev_alloc_domain r w = (ok1, t1)" by fastforce
  from alloc_domain_free [OF assms(1,2) a] assms(3,4) a show ?thesis
    by (auto simp: genl_dev_system_register_def Let_def enrolled_def split: if_splits)
qed

lemma register_table_ok:
  assumes "table_ok w" and "\<not> strncmp_eq GENERAL_DEVICE_SYSTEM_NAME_SIZE (ds_name (sys_mem w r)) ''linux''"
  shows "table_ok (snd (genl_dev_system_register (Some r) w))"
proof (cases "genl_dev_sys_lookup (Some (ds_name (sys_mem w r))) w")
  case None
  obtain ok t where r: "genl_dev_system_register (Some r) w = (ok, t)" by fastforce
  have "Some r \<notin> set (ndev_systems w)"
    using None strncmp_eq_refl unfolding genl_dev_sys_lookup_None by blast
  with register_result [OF assms None r] r enrolled_table_ok assms(1) show ?thesis
    by (cases ok) auto
next
  case (Some q)
  with assms(1) show ?thesis by (simp add: genl_dev_system_register_def)
qed

subsection \<open>Resolution under a contract\<close>

text \<open>
  What the layer needs of the systems below: the object a system returns for a name lies in the
  system's own domain and is accepted by the system.
\<close>

locale device_systems =
  fixes ops :: "sys_ref \<Rightarrow> 'a genl_state_scheme general_device_ops"
    and good :: "'a genl_state_scheme \<Rightarrow> bool"
  assumes own_object: "good w \<Longrightarrow> r \<in> set (registered w) \<Longrightarrow>
      common_name_to_netdev_obj (ops r) n w \<noteq> 0 \<Longrightarrow>
      ndev_systems w ! unat (netdev_obj_to_domain (common_name_to_netdev_obj (ops r) n w)) = Some r \<and>
      common_is_compatible (ops r) (common_name_to_netdev_obj (ops r) n w) w"
begin

lemma name_in_systems_find:
  "name_in_systems to_obj rs = (case find (\<lambda>r. to_obj r \<noteq> 0) rs of None \<Rightarrow> 0 | Some r \<Rightarrow> to_obj r)"
  by (induction rs) (simp_all add: netdev_obj_is_invalid_def GENERAL_DEVICE_INVALID_ID_def)

text \<open>Resolving a name never crashes and gives the first system that knows the name.\<close>

lemma resolve_by_name:
  assumes "good w"
  shows "genl_dev_sys_resolve_by_name ops (Some n) w =
    Returns (find (\<lambda>r. common_name_to_netdev_obj (ops r) n w \<noteq> 0) (registered w))"
proof (cases "find (\<lambda>r. common_name_to_netdev_obj (ops r) n w \<noteq> 0) (registered w)")
  case None
  then show ?thesis
    by (simp add: genl_dev_sys_resolve_by_name_def genl_dev_sys_resolve_by_obj_def
        genl_dev_name_to_netdev_obj_def name_in_systems_find netdev_obj_is_invalid_def GENERAL_DEVICE_INVALID_ID_def)
next
  case (Some r)
  with own_object [OF assms, of r n] find_SomeD [OF Some] show ?thesis
    by (simp add: genl_dev_sys_resolve_by_name_def genl_dev_sys_resolve_by_obj_def
        genl_dev_name_to_netdev_obj_def name_in_systems_find netdev_obj_is_invalid_def GENERAL_DEVICE_INVALID_ID_def)
qed

end

subsection \<open>Object prefixes\<close>

lemma prefix_parts:
  fixes d k n :: u32
  assumes "unat d < 2 ^ 8" and "unat k < 2 ^ 9" and "unat n < 2 ^ 16"
  shows "(push_bit 24 d OR push_bit 16 k) + n = (push_bit 24 d OR push_bit 16 k) OR n"
    and "netdev_obj_to_domain ((push_bit 24 d OR push_bit 16 k) OR n) = d OR drop_bit 8 k"
    and "unat k < 2 ^ 8 \<Longrightarrow> drop_bit 16 ((push_bit 24 d OR push_bit 16 k) OR n) AND 0xff = k"
proof -
  note b = bit_unat_less [OF assms(1)] bit_unat_less [OF assms(2)] bit_unat_less [OF assms(3)]
  have m: "(0xff :: u32) = mask 8" by (simp add: mask_eq_exp_minus_1)
  show "(push_bit 24 d OR push_bit 16 k) + n = (push_bit 24 d OR push_bit 16 k) OR n"
    by (rule disjunctive_add_eq_or, rule bit_word_eqI) (auto simp: bit_simps dest: b)
  show "netdev_obj_to_domain ((push_bit 24 d OR push_bit 16 k) OR n) = d OR drop_bit 8 k"
    unfolding m netdev_obj_to_domain_def by (rule bit_word_eqI) (auto simp: bit_simps dest: b)
  show "drop_bit 16 ((push_bit 24 d OR push_bit 16 k) OR n) AND 0xff = k" if "unat k < 2 ^ 8"
    unfolding m by (rule bit_word_eqI) (auto simp: bit_simps dest: b bit_unat_less [OF that])
qed

lemma drop_bit_small: "unat k < 2 ^ n \<Longrightarrow> drop_bit n (k :: u32) = 0"
  by (rule bit_word_eqI) (auto simp: bit_simps dest: bit_unat_less)

subsection \<open>Properties\<close>

text \<open>A table with one system, for the witnesses.\<close>

definition lab_genl :: "string \<Rightarrow> genl_state" where
  "lab_genl name = \<lparr>ndev_systems = (replicate 256 None)[0 := Some 7],
     sys_mem = (\<lambda>r. if r = 7 then \<lparr>ds_name = ''switch0'', users = [], ds_domain = 0, next_internal_domain = 0x1a\<rparr>
       else \<lparr>ds_name = name, users = [], ds_domain = 0xf0, next_internal_domain = 0xff\<rparr>),
     current_os_service = False\<rparr>"

lemma lab_genl_ok: "table_ok (lab_genl n)"
  by (auto simp: table_ok_def lab_genl_def GENERAL_DEVICE_SYSTEM_MAX_DOMAIN_def nth_list_update split: if_splits)

lemma lab_genl_systems: "Some r \<in> set (ndev_systems (lab_genl n)) \<longleftrightarrow> r = 7"
proof -
  have "set (ndev_systems (lab_genl n)) = {Some 7, None}"
    by (simp add: lab_genl_def numeral_eq_Suc)
  then show ?thesis by auto
qed

lemma lab_genl_lookup: "strncmp_eq 64 m ''switch0'' = False \<Longrightarrow> genl_dev_sys_lookup (Some m) (lab_genl n) = None"
  unfolding genl_dev_sys_lookup_None lab_genl_systems by (simp add: lab_genl_def GENERAL_DEVICE_SYSTEM_NAME_SIZE_def)

lemma linux_enrolled:
  assumes "table_ok w" and "strncmp_eq GENERAL_DEVICE_SYSTEM_NAME_SIZE (ds_name (sys_mem w r)) ''linux''"
    and "genl_dev_sys_lookup (Some (ds_name (sys_mem w r))) w = None"
    and "genl_dev_system_register (Some r) w = (ok, t)"
  shows "ok \<and> enrolled r w t \<and> ds_domain (sys_mem t r) = 0 \<and> next_internal_domain (sys_mem t r) = 0"
  using assms by (auto simp: genl_dev_system_register_def genl_dev_alloc_domain_def enrolled_def
      GENERAL_DEVICE_SYSTEM_MAX_DOMAIN_def)

text \<open>A system has one place in the table: what takes its place drives it out.\<close>

lemma enrolled_evicts:
  assumes "table_ok w" and "enrolled r w t" and "Some r \<notin> set (ndev_systems w)"
    and "ndev_systems w ! unat (ds_domain (sys_mem t r)) = Some q"
  shows "Some q \<notin> set (ndev_systems t)"
proof
  let ?d = "unat (ds_domain (sys_mem t r))"
  assume "Some q \<in> set (ndev_systems t)"
  then obtain k where k: "k < length (ndev_systems t)" "ndev_systems t ! k = Some q"
    by (auto simp: in_set_conv_nth)
  have t: "ndev_systems t = (ndev_systems w)[?d := Some r]" "?d < length (ndev_systems w)"
    using assms(1,2) by (simp_all add: enrolled_def table_ok_def Let_def)
  have "q \<noteq> r" using assms(3,4) t(2) nth_mem by metis
  with k t have "k \<noteq> ?d" "ndev_systems w ! k = Some q" "k < length (ndev_systems w)"
    by (auto simp: nth_list_update split: if_splits)
  moreover have place: "n < length (ndev_systems w) \<Longrightarrow> ndev_systems w ! n = Some q \<Longrightarrow>
      unat (ds_domain (sys_mem w q)) = n" for n
    using assms(1) by (simp add: table_ok_def)
  ultimately show False using place [OF t(2) assms(4)] by simp
qed

text \<open>C34: Registering a device system. If its name is already registered the call succeeds and changes
  nothing. A system named Linux (in the first 64 characters) always gets domain 0, with no
  internal domain yet; if another system had that domain, it is no longer in the table. Any other
  system gets a domain that was free, and fails, without a change, exactly if all 256 are taken. A system
  that was registered has an empty list of users and is found by its name; no other system's data
  change.\<close>

theorem register_outcome:
  assumes "table_ok w"
  shows "case genl_dev_system_register (Some r) w of (ok, t) \<Rightarrow>
    let named_linux = strncmp_eq GENERAL_DEVICE_SYSTEM_NAME_SIZE (ds_name (sys_mem w r)) ''linux'';
        d = unat (ds_domain (sys_mem t r))
    in if genl_dev_sys_lookup (Some (ds_name (sys_mem w r))) w \<noteq> None then ok \<and> t = w
       else table_ok t \<and> ok = (named_linux \<or> None \<in> set (ndev_systems w)) \<and>
         (if ok then
            d < 256 \<and> ndev_systems t = (ndev_systems w)[d := Some r] \<and>
            (if named_linux
             then d = 0 \<and> next_internal_domain (sys_mem t r) = 0 \<and>
               (case ndev_systems w ! 0 of None \<Rightarrow> True | Some q \<Rightarrow> Some q \<notin> set (ndev_systems t))
             else ndev_systems w ! d = None) \<and>
            users (sys_mem t r) = [] \<and> (\<forall>q. q = r \<or> sys_mem t q = sys_mem w q) \<and>
            genl_dev_sys_lookup (Some (ds_name (sys_mem w r))) t = Some r
          else t = w)"
proof -
  obtain ok t where t: "genl_dev_system_register (Some r) w = (ok, t)" by fastforce
  have len: "length (ndev_systems w) = GENERAL_DEVICE_SYSTEM_MAX_DOMAIN" using assms by (simp add: table_ok_def)
  show ?thesis
  proof (cases "genl_dev_sys_lookup (Some (ds_name (sys_mem w r))) w")
    case (Some q)
    with t show ?thesis by (simp add: genl_dev_system_register_def)
  next
    case None
    then have new: "Some r \<notin> set (ndev_systems w)"
      using strncmp_eq_refl unfolding genl_dev_sys_lookup_None by blast
    show ?thesis
    proof (cases "strncmp_eq GENERAL_DEVICE_SYSTEM_NAME_SIZE (ds_name (sys_mem w r)) ''linux''")
      case True
      note lin = linux_enrolled [OF assms True None t]
      then have e: "enrolled r w t" by simp
      from enrolled_lookup [OF e len None] enrolled_table_ok [OF e assms new] enrolled_evicts [OF assms e new] lin t
        True None
      show ?thesis by (auto simp: enrolled_def Let_def split: option.splits)
    next
      case False
      note res = register_result [OF assms False None t]
      show ?thesis
      proof (cases ok)
        case True
        with res have e: "enrolled r w t" "ndev_systems w ! unat (ds_domain (sys_mem t r)) = None" by simp_all
        then have "None \<in> set (ndev_systems w)"
          using len nth_mem [of "unat (ds_domain (sys_mem t r))" "ndev_systems w"] by (auto simp: enrolled_def Let_def)
        with e True enrolled_lookup [OF e(1) len None] enrolled_table_ok [OF e(1) assms new] t False None
        show ?thesis by (auto simp: enrolled_def Let_def GENERAL_DEVICE_SYSTEM_MAX_DOMAIN_def)
      next
        case no: False
        with res t False None assms show ?thesis by auto
      qed
    qed
  qed
qed

theorem register_outcome_witness:
  "fst (genl_dev_system_register (Some 1) (lab_genl ''switch1'')) \<and>
   Some 7 \<notin> set (ndev_systems (snd (genl_dev_system_register (Some 1) (lab_genl ''linux''))))"
proof -
  have "None \<in> set (ndev_systems (lab_genl ''switch1''))" "ndev_systems (lab_genl ''linux'') ! 0 = Some 7"
    by (simp_all add: lab_genl_def numeral_eq_Suc)
  moreover have "ds_name (sys_mem (lab_genl n) 1) = n" for n by (simp add: lab_genl_def)
  ultimately show ?thesis
    using register_outcome [OF lab_genl_ok, of "''switch1''" 1] register_outcome [OF lab_genl_ok, of "''linux''" 1]
      lab_genl_lookup [of "''switch1''" "''switch1''"] lab_genl_lookup [of "''linux''" "''linux''"]
    by (auto simp: strncmp_eq_def GENERAL_DEVICE_SYSTEM_NAME_SIZE_def Let_def split: prod.splits)
qed

text \<open>The Linux system always takes domain 0, also when another system was given it: that system is
  thrown out of the table and cannot be found by its name any more.\<close>

theorem linux_registration_evicts:
  assumes "table_ok w" and "genl_dev_sys_lookup (Some (ds_name (sys_mem w r))) w = None"
    and "ds_name (sys_mem w r) = ''linux''" and "ndev_systems w ! 0 = Some q"
    and "genl_dev_sys_lookup (Some (ds_name (sys_mem w q))) w = Some q"
    and "\<And>x. Some x \<in> set (ndev_systems w) \<Longrightarrow> ds_name (sys_mem w x) = ds_name (sys_mem w q) \<Longrightarrow> x = q"
    and "\<And>x. Some x \<in> set (ndev_systems w) \<Longrightarrow> length (ds_name (sys_mem w x)) \<le> 63"
  shows "case genl_dev_system_register (Some r) w of (ok, t) \<Rightarrow>
    ok \<and> ndev_systems t = (ndev_systems w)[0 := Some r] \<and>
    genl_dev_sys_lookup (Some (ds_name (sys_mem w q))) t = None"
proof -
  let ?f = "\<lambda>S. S\<lparr>ds_domain := 0, next_internal_domain := 0, users := []\<rparr>"
  let ?t = "(upd_sys r ?f w)\<lparr>ndev_systems := (ndev_systems w)[0 := Some r]\<rparr>"
  have t: "genl_dev_system_register (Some r) w = (True, ?t)"
    using assms(2,3) by (simp add: genl_dev_system_register_def genl_dev_alloc_domain_def upd_sys_def)
  have q: "Some q \<in> set (ndev_systems w)" "r \<noteq> q"
    using assms(1-5) genl_dev_sys_lookup_Some [OF assms(5)] by (auto simp: table_ok_def)
  have len: "0 < length (ndev_systems w)" using assms(1) by (simp add: table_ok_def GENERAL_DEVICE_SYSTEM_MAX_DOMAIN_def)
  have lq: "length (ds_name (sys_mem w q)) \<le> 63" using assms(7) [OF q(1)] .
  have "\<not> strncmp_eq 64 (ds_name (sys_mem w q)) (ds_name (sys_mem ?t x))"
    if x: "Some x \<in> set ((ndev_systems w)[0 := Some r])" for x
  proof (cases "x = r")
    case True
    have "\<not> strncmp_eq 64 ''linux'' (ds_name (sys_mem w q))"
      using assms(2,3) q(1) unfolding genl_dev_sys_lookup_None by (auto simp: GENERAL_DEVICE_SYSTEM_NAME_SIZE_def)
    then show ?thesis using True assms(3) by (auto simp: strncmp_eq_def)
  next
    case False
    obtain i where i: "i < length (ndev_systems w)" "(ndev_systems w)[0 := Some r] ! i = Some x"
      using x by (auto simp: in_set_conv_nth)
    with False len have i0: "i \<noteq> 0" by (auto simp: nth_list_update split: if_splits)
    with i have wi: "ndev_systems w ! i = Some x" by (simp add: nth_list_update)
    with i have xw: "Some x \<in> set (ndev_systems w)" using nth_mem by metis
    have "x \<noteq> q"
      using assms(1,4) i(1) wi i0 len unfolding table_ok_def by metis
    with assms(6) [OF xw] have "ds_name (sys_mem w x) \<noteq> ds_name (sys_mem w q)" by blast
    with assms(7) [OF xw] lq False show ?thesis by (simp add: strncmp_eq_def)
  qed
  then have "genl_dev_sys_lookup (Some (ds_name (sys_mem w q))) ?t = None"
    unfolding genl_dev_sys_lookup_None by (simp add: GENERAL_DEVICE_SYSTEM_NAME_SIZE_def)
  with t show ?thesis by simp
qed

theorem linux_registration_evicts_witness:
  "genl_dev_sys_lookup (Some ''switch0'') (snd (genl_dev_system_register (Some 1) (lab_genl ''linux''))) = None"
proof -
  have n: "ds_name (sys_mem (lab_genl ''linux'') 7) = ''switch0''" "ds_name (sys_mem (lab_genl ''linux'') 1) = ''linux''"
    "ndev_systems (lab_genl ''linux'') ! 0 = Some 7"
    by (simp_all add: lab_genl_def)
  have "genl_dev_sys_lookup (Some ''switch0'') (lab_genl ''linux'') \<noteq> None"
    unfolding genl_dev_sys_lookup_None lab_genl_systems using n by auto
  then have "genl_dev_sys_lookup (Some ''switch0'') (lab_genl ''linux'') = Some 7"
    using genl_dev_sys_lookup_Some(1) [of "''switch0''" "lab_genl ''linux''"] by (auto simp: lab_genl_systems)
  then show ?thesis
    using linux_registration_evicts [OF lab_genl_ok, of "''linux''" 1 7] n lab_genl_lookup [of "''linux''" "''linux''"]
    by (auto simp: lab_genl_systems strncmp_eq_def split: prod.splits)
qed

text \<open>C35: The prefixes a system hands out stay in its domain: below the last internal domain, every
  object of the new prefix belongs to the system's domain, is valid, and carries the new internal
  domain; the last internal domain overflows into the domain byte, so that the objects of a system
  with an even domain belong to the next domain.\<close>

theorem alloc_netdev_obj_domain_prefix:
  assumes "unat (ds_domain (sys_mem w r)) < 256" and "unat (next_internal_domain (sys_mem w r)) \<le> 0xff"
    and "max_devices \<le> 0xffff" and "unat n < 2 ^ 16"
  shows "case genl_dev_alloc_netdev_obj_domain r max_devices w of (obj, t) \<Rightarrow>
    next_internal_domain (sys_mem t r) = next_internal_domain (sys_mem w r) + 1 \<and>
    (if next_internal_domain (sys_mem w r) = 0xff
     then netdev_obj_to_domain (obj + n) = ds_domain (sys_mem w r) OR 1
     else netdev_obj_to_domain (obj + n) = ds_domain (sys_mem w r) \<and> obj + n \<noteq> 0 \<and>
          drop_bit 16 (obj + n) AND 0xff = next_internal_domain (sys_mem w r) + 1)"
proof -
  define d where "d = ds_domain (sys_mem w r)"
  define k where "k = next_internal_domain (sys_mem w r)"
  obtain obj t where a: "genl_dev_alloc_netdev_obj_domain r max_devices w = (obj, t)" by fastforce
  have obj: "obj = push_bit 24 d OR push_bit 16 (k + 1)" and t: "next_internal_domain (sys_mem t r) = k + 1"
    using a assms(2,3)
    by (auto simp: genl_dev_alloc_netdev_obj_domain_def Let_def d_def k_def word_less_nat_alt word_le_nat_alt
        split: if_splits)
  have d: "unat d < 2 ^ 8" and n: "unat n < 2 ^ 16" and k: "unat k \<le> 255"
    using assms by (simp_all add: d_def k_def)
  have k1: "unat (k + 1) = unat k + 1" using k by (simp add: unat_word_ariths)
  with k have k9: "unat (k + 1) < 2 ^ 9" by simp
  note parts = prefix_parts [OF d k9 n, folded obj]
  show ?thesis
  proof (cases "k = 0xff")
    case True
    then have "drop_bit 8 (k + 1) = 1" by simp
    with True a t parts(1,2) show ?thesis by (simp add: d_def k_def)
  next
    case False
    with k have "unat k \<noteq> 255" by (simp add: word_unat_eq_iff)
    with k k1 have k8: "unat (k + 1) < 2 ^ 8" by simp
    with parts(3) have p: "drop_bit 16 (obj OR n) AND 0xff = k + 1" .
    have "k + 1 \<noteq> 0" using k1 by (metis add_eq_0_iff_both_eq_0 one_neq_zero unat_0)
    with p have "obj OR n \<noteq> 0" by (metis drop_bit_of_0 and_zero_eq bit.conj_zero_left)
    with p False a t parts(1,2) drop_bit_small [OF k8] show ?thesis by (simp add: d_def k_def)
  qed
qed

theorem alloc_netdev_obj_domain_prefix_witness:
  "netdev_obj_to_domain (fst (genl_dev_alloc_netdev_obj_domain 1 7 (lab_genl ''switch1'')) + 3) = 0xf1"
  using alloc_netdev_obj_domain_prefix [of "lab_genl ''switch1''" 1 7 3]
  by (simp add: lab_genl_def split: prod.splits)

text \<open>A device object whose domain has no system crashes every call of the layer that resolves it.\<close>

theorem unregistered_domain_crashes:
  assumes "obj \<noteq> 0" and "ndev_systems w ! unat (netdev_obj_to_domain obj) = None"
  shows "genl_dev_get_link_status ops obj w = Fault Null_Deref \<and>
    genl_dev_get_duplex ops obj w = Fault Null_Deref \<and> genl_dev_get_speed ops obj w = Fault Null_Deref \<and>
    genl_dev_netdev_obj_to_name ops obj w = Fault Null_Deref \<and>
    genl_dev_flush_fdb ops obj w = Fault Null_Deref \<and>
    genl_dev_is_bridge_member ops obj br w = Fault Null_Deref"
proof -
  have "genl_dev_sys_resolve_by_obj ops obj w = Fault Null_Deref"
    using assms by (simp add: genl_dev_sys_resolve_by_obj_def netdev_obj_is_invalid_def GENERAL_DEVICE_INVALID_ID_def)
  then show ?thesis
    by (simp add: genl_dev_get_link_status_def genl_dev_get_duplex_def genl_dev_get_speed_def with_dev_sys_def
        genl_dev_netdev_obj_to_name_def genl_dev_flush_fdb_def genl_dev_is_bridge_member_def)
qed

theorem unregistered_domain_crashes_witness:
  "\<forall>ops. genl_dev_get_speed ops 0xf0010000 (lab_genl ''switch1'') = Fault Null_Deref"
proof
  fix ops
  have "ndev_systems (lab_genl ''switch1'') ! unat (netdev_obj_to_domain 0xf0010000) = None"
    by (simp add: netdev_obj_to_domain_def lab_genl_def)
  from unregistered_domain_crashes [OF _ this, of ops]
  show "genl_dev_get_speed ops 0xf0010000 (lab_genl ''switch1'') = Fault Null_Deref" by simp
qed

text \<open>A user that is added to a system and deleted again leaves it as it was; adding it twice is adding
  it once, so that it gets every event once.\<close>

theorem add_del_user_roundtrip:
  assumes "genl_dev_sys_lookup (Some n) w = Some r" and "u \<notin> set (users (sys_mem w r))"
  shows "case genl_dev_sys_add_user (Some n) (Some u) w of (ok, t) \<Rightarrow>
    ok \<and> users (sys_mem t r) = users (sys_mem w r) @ [u] \<and>
    genl_dev_sys_add_user (Some n) (Some u) t = (True, t) \<and>
    genl_dev_sys_del_user (Some n) (Some u) t = w"
proof -
  let ?t = "upd_sys r (\<lambda>S. S\<lparr>users := list_add_tail u (users S)\<rparr>) w"
  have reg: "ds_name \<circ> sys_mem ?t = ds_name \<circ> sys_mem w" by (auto simp: fun_eq_iff)
  then have "genl_dev_sys_lookup (Some n) ?t = genl_dev_sys_lookup (Some n) w"
    by (simp add: genl_dev_sys_lookup_def fun_eq_iff)
  with assms show ?thesis
    by (simp add: genl_dev_sys_add_user_def genl_dev_sys_del_user_def upd_sys_def list_add_tail_def list_del_def
        remove1_append)
qed

theorem add_del_user_roundtrip_witness:
  "fst (genl_dev_sys_add_user (Some ''switch0'') (Some 3) (lab_genl ''switch1''))"
proof -
  have "genl_dev_sys_lookup (Some ''switch0'') (lab_genl ''switch1'') = Some 7"
    by (simp add: genl_dev_sys_lookup_def lab_genl_def numeral_eq_Suc)
  from add_del_user_roundtrip [OF this, of 3] show ?thesis by (simp add: lab_genl_def split: prod.splits)
qed

end
