(* ===== verification/Genl_Switch.thy ===== *)
theory Genl_Switch
  imports Genl_Device
begin

text \<open>
  The switch port layer (qca/src/qca-lacpd/lib_general_device/general_device_switch.c and .h): the
  ports of a switch and its aggregators, which group ports as slaves, as a device system over the
  operations of the switch hardware.
\<close>

subsection \<open>Data\<close>

datatype switch_port_type = SWITCH_PORT_TYPE_HIDDEN | SWITCH_PORT_TYPE_EXPORTED

type_synonym sp_ref = nat

text \<open>
  \<open>agg_slaves\<close> and the list of ports of a switch hold the ports linked by their \<^verbatim>\<open>node\<close>;
  a port is on one list at a time.
\<close>

record switch_port =
  agg_parent :: "sp_ref option"
  agg_slaves :: "sp_ref list"
  sp_name :: string
  switch_port_obj :: u32
  port_num :: u32
  link_status :: bool
  sp_sw_sys :: sys_ref
  hwaddr_cache_valid :: bool
  hwaddr_cache :: mac_addr
  control_channel :: string
  data_channel :: string
  sp_type :: switch_port_type

record general_device_switch_system =
  switch_ports :: "sp_ref list"
  link_status_monitor :: genl_os_service_timer
  sw_name :: string
  switch_obj :: u32
  real_agg_dev :: bool
  support_link_event :: bool
  link_status_poll_interval :: nat

text \<open>
  \<^verbatim>\<open>base\<close>, the superclass, is the system of the same number in the general device layer.
\<close>

record switch_state = genl_state +
  sw_mem :: "sys_ref \<Rightarrow> general_device_switch_system"
  sp_mem :: "sp_ref \<Rightarrow> switch_port"
  sp_next :: nat

text \<open>\<^verbatim>\<open>struct switch_ops\<close>: what the driver of a switch provides; an option is a pointer that may be NULL.\<close>

record 'w switch_ops =
  hw_init :: "sys_ref \<Rightarrow> 'w \<Rightarrow> (bool \<times> 'w) outcome"
  hw_exit :: "sys_ref \<Rightarrow> 'w \<Rightarrow> bool \<times> 'w"
  hw_private :: "(sys_ref \<Rightarrow> u32 \<Rightarrow> u32 \<Rightarrow> 'w \<Rightarrow> bool \<times> u32 option) option"
  hw_get_link_status :: "sp_ref \<Rightarrow> 'w \<Rightarrow> bool"
  hw_get_duplex :: "sp_ref \<Rightarrow> 'w \<Rightarrow> u32"
  hw_get_speed :: "sp_ref \<Rightarrow> 'w \<Rightarrow> u32"
  hw_get_hw_addr :: "(sp_ref \<Rightarrow> 'w \<Rightarrow> mac_addr option) option"
  hw_system_get_hw_addr :: "(sys_ref \<Rightarrow> 'w \<Rightarrow> mac_addr option) option"
  hw_is_bridge_member :: "sp_ref \<Rightarrow> sp_ref \<Rightarrow> 'w \<Rightarrow> bool"
  hw_flush_fdb :: "sp_ref \<Rightarrow> 'w \<Rightarrow> bool \<times> 'w"
  hw_stp_enable :: "sp_ref \<Rightarrow> 'w \<Rightarrow> bool \<times> 'w"
  hw_stp_disable :: "sp_ref \<Rightarrow> 'w \<Rightarrow> bool \<times> 'w"
  hw_set_port_state :: "sp_ref \<Rightarrow> general_device_stp_state \<Rightarrow> 'w \<Rightarrow> bool \<times> 'w"
  hw_send_bpdu :: "sp_ref \<Rightarrow> u8 list \<Rightarrow> 'w \<Rightarrow> (bool \<times> 'w) outcome"
  hw_agg_enable :: "sp_ref \<Rightarrow> 'w \<Rightarrow> bool \<times> 'w"
  hw_agg_disable :: "sp_ref \<Rightarrow> 'w \<Rightarrow> bool \<times> 'w"
  hw_new_aggregator :: "sp_ref \<Rightarrow> 'w \<Rightarrow> bool \<times> 'w"
  hw_destroy_aggregator :: "sp_ref \<Rightarrow> 'w \<Rightarrow> bool \<times> 'w"
  hw_is_aggregator :: "sp_ref \<Rightarrow> sp_ref option \<Rightarrow> 'w \<Rightarrow> bool"
  hw_is_slave :: "(sp_ref \<Rightarrow> sp_ref option \<Rightarrow> 'w \<Rightarrow> bool) option"
  hw_number_of_slaves :: "(sp_ref \<Rightarrow> 'w \<Rightarrow> u32) option"
  hw_attach_slave :: "sp_ref \<Rightarrow> sp_ref \<Rightarrow> 'w \<Rightarrow> bool \<times> 'w"
  hw_detach_slave :: "sp_ref \<Rightarrow> sp_ref \<Rightarrow> 'w \<Rightarrow> bool \<times> 'w"
  hw_send_lacpdu :: "sp_ref \<Rightarrow> u8 list \<Rightarrow> 'w \<Rightarrow> (bool \<times> 'w) outcome"
  hw_set_tx_hash_policy :: "sp_ref \<Rightarrow> general_device_agg_tx_hash_policy \<Rightarrow> 'w \<Rightarrow> bool \<times> 'w"

text \<open>
  What the layer calls: the driver of the switch, the systems of the general device layer, the
  users of the switch, and the allocator.
\<close>

record 'w switch_calls =
  hw :: "'w switch_ops"
  genl :: "sys_ref \<Rightarrow> 'w general_device_ops"
  user_api :: "user_ref \<Rightarrow> 'w general_device_out_api"
  sw_calloc :: "'w \<Rightarrow> bool \<times> 'w"

definition upd_sw ::
    "sys_ref \<Rightarrow> (general_device_switch_system \<Rightarrow> general_device_switch_system) \<Rightarrow>
     'a switch_state_scheme \<Rightarrow> 'a switch_state_scheme" where
  "upd_sw r f w = w\<lparr>sw_mem := (sw_mem w)(r := f (sw_mem w r))\<rparr>"

definition upd_sp :: "sp_ref \<Rightarrow> (switch_port \<Rightarrow> switch_port) \<Rightarrow> 'a switch_state_scheme \<Rightarrow> 'a switch_state_scheme" where
  "upd_sp p f w = w\<lparr>sp_mem := (sp_mem w)(p := f (sp_mem w p))\<rparr>"

text \<open>\<^verbatim>\<open>list_del(&port->node)\<close>: off the list it is on, of the switch or of an aggregator.\<close>

definition unlink_port :: "sys_ref \<Rightarrow> sp_ref \<Rightarrow> 'a switch_state_scheme \<Rightarrow> 'a switch_state_scheme" where
  "unlink_port r p w =
     upd_sw r (\<lambda>S. S\<lparr>switch_ports := list_del p (switch_ports S)\<rparr>)
       (w\<lparr>sp_mem := \<lambda>q. (sp_mem w q)\<lparr>agg_slaves := list_del p (agg_slaves (sp_mem w q))\<rparr>\<rparr>)"

subsection \<open>Lookups\<close>

definition switch_port_is_agg_slave :: "'a switch_state_scheme \<Rightarrow> sp_ref \<Rightarrow> bool" where
  "switch_port_is_agg_slave w p \<longleftrightarrow> agg_parent (sp_mem w p) \<noteq> None"

definition switch_port_is_aggregator ::
    "'a switch_state_scheme switch_calls \<Rightarrow> 'a switch_state_scheme \<Rightarrow> sp_ref \<Rightarrow> bool" where
  "switch_port_is_aggregator E w p \<longleftrightarrow> hw_is_aggregator (hw E) p None w"

text \<open>
  The search through the ports, going into the slaves of aggregators. The result carries the
  aggregator the port was found in.
\<close>

fun search_ports ::
    "(sp_ref \<Rightarrow> bool) \<Rightarrow> (sp_ref \<Rightarrow> bool) \<Rightarrow> (sp_ref \<Rightarrow> sp_ref list) \<Rightarrow> sp_ref list \<Rightarrow> sp_ref option" where
  "search_ports matches is_agg slaves [] = None"
| "search_ports matches is_agg slaves (port # rest) =
     (if matches port then Some port
      else case (if is_agg port then find matches (slaves port) else None) of
             Some slave \<Rightarrow> Some slave
           | None \<Rightarrow> search_ports matches is_agg slaves rest)"

abbreviation search_switch where
  "search_switch E r matches w \<equiv>
     search_ports matches (switch_port_is_aggregator E w) (\<lambda>p. agg_slaves (sp_mem w p)) (switch_ports (sw_mem w r))"

definition genl_dev_sw_port_lookup ::
    "'a switch_state_scheme switch_calls \<Rightarrow> sys_ref \<Rightarrow> u32 \<Rightarrow> 'a switch_state_scheme \<Rightarrow> sp_ref option" where
  "genl_dev_sw_port_lookup E r netdev_obj w =
     (if netdev_obj_is_invalid netdev_obj then None
      else search_switch E r (\<lambda>p. switch_port_obj (sp_mem w p) = netdev_obj) w)"

definition genl_dev_sw_port_name_to_netdev_obj ::
    "'a switch_state_scheme switch_calls \<Rightarrow> sys_ref \<Rightarrow> string \<Rightarrow> 'a switch_state_scheme \<Rightarrow> u32" where
  "genl_dev_sw_port_name_to_netdev_obj E r netdev_name w =
     (case search_switch E r (\<lambda>p. strncmp_eq GENERAL_DEVICE_SYSTEM_NAME_SIZE (sp_name (sp_mem w p)) netdev_name) w of
        None \<Rightarrow> GENERAL_DEVICE_INVALID_ID
      | Some p \<Rightarrow> switch_port_obj (sp_mem w p))"

definition genl_dev_sw_port_is_compatible ::
    "'a switch_state_scheme switch_calls \<Rightarrow> sys_ref \<Rightarrow> u32 \<Rightarrow> 'a switch_state_scheme \<Rightarrow> bool" where
  "genl_dev_sw_port_is_compatible E r netdev_obj w \<longleftrightarrow> genl_dev_sw_port_lookup E r netdev_obj w \<noteq> None"

definition genl_dev_sw_port_netdev_obj_to_name ::
    "'a switch_state_scheme switch_calls \<Rightarrow> sys_ref \<Rightarrow> u32 \<Rightarrow> 'a switch_state_scheme \<Rightarrow> string option" where
  "genl_dev_sw_port_netdev_obj_to_name E r netdev_obj w =
     map_option (\<lambda>p. snprintf_buf GENERAL_DEVICE_SYSTEM_NAME_SIZE (sp_name (sp_mem w p)))
       (genl_dev_sw_port_lookup E r netdev_obj w)"

subsection \<open>Adding and deleting ports\<close>

definition genl_dev_sw_port_del ::
    "'a switch_state_scheme switch_calls \<Rightarrow> sys_ref \<Rightarrow> sp_ref \<Rightarrow> 'a switch_state_scheme \<Rightarrow> bool \<times> 'a switch_state_scheme" where
  "genl_dev_sw_port_del E r port w =
     (let w1 = (if genl_dev_sw_port_lookup E r (switch_port_obj (sp_mem w port)) w \<noteq> None
                then unlink_port r port w else w)
      in (case agg_parent (sp_mem w1 port) of
            None \<Rightarrow> (True, w1)
          | Some m \<Rightarrow>
              let w2 = (if \<not> real_agg_dev (sw_mem w1 (sp_sw_sys (sp_mem w1 m)))
                        then upd_sp m (\<lambda>M. M\<lparr>port_num := port_num M AND NOT (push_bit (unat (port_num (sp_mem w1 port))) 1)\<rparr>) w1
                        else w1)
              in (True, upd_sp port (\<lambda>P. P\<lparr>agg_parent := None\<rparr>) w2)))"

definition genl_dev_sw_port_add ::
    "'a switch_state_scheme switch_calls \<Rightarrow> sys_ref \<Rightarrow> sp_ref \<Rightarrow> sp_ref option \<Rightarrow>
     'a switch_state_scheme \<Rightarrow> bool \<times> 'a switch_state_scheme" where
  "genl_dev_sw_port_add E r port master w =
     (let (ok, w1) = genl_dev_sw_port_del E r port w in
      if \<not> ok then (False, w1)
      else
        (case master of
           Some m \<Rightarrow>
             let w2 = upd_sp port (\<lambda>P. P\<lparr>agg_parent := Some m\<rparr>) w1;
                 w3 = (if \<not> real_agg_dev (sw_mem w2 (sp_sw_sys (sp_mem w2 m)))
                       then upd_sp m (\<lambda>M. M\<lparr>port_num := port_num M OR push_bit (unat (port_num (sp_mem w2 port))) 1\<rparr>) w2
                       else w2)
             in (True, upd_sp m (\<lambda>M. M\<lparr>agg_slaves := list_add_tail port (agg_slaves M)\<rparr>) w3)
         | None \<Rightarrow>
             (True, upd_sw r (\<lambda>S. S\<lparr>switch_ports := list_add_tail port (switch_ports S)\<rparr>)
                      (upd_sp port (\<lambda>P. P\<lparr>agg_parent := None\<rparr>) w1))))"

text \<open>A zeroed port.\<close>

definition switch_port_zero :: switch_port where
  "switch_port_zero = \<lparr>agg_parent = None, agg_slaves = [], sp_name = [], switch_port_obj = 0, port_num = 0,
     link_status = False, sp_sw_sys = 0, hwaddr_cache_valid = False, hwaddr_cache = mac_zero,
     control_channel = [], data_channel = [], sp_type = SWITCH_PORT_TYPE_HIDDEN\<rparr>"

abbreviation sw_snprintf :: "string \<Rightarrow> string" where
  "sw_snprintf \<equiv> snprintf_buf GENERAL_DEVICE_SYSTEM_NAME_SIZE"

definition genl_dev_sw_port_create ::
    "'a switch_state_scheme switch_calls \<Rightarrow> sys_ref \<Rightarrow> string \<Rightarrow> u32 \<Rightarrow> u32 \<Rightarrow> string option \<Rightarrow> string option \<Rightarrow>
     'a switch_state_scheme \<Rightarrow> sp_ref option \<times> 'a switch_state_scheme" where
  "genl_dev_sw_port_create E r name num obj ctrl_channel data_ch w =
     (if \<not> netdev_obj_is_invalid (genl_dev_sw_port_name_to_netdev_obj E r name w) then (None, w)
      else if genl_dev_sw_port_lookup E r obj w \<noteq> None then (None, w)
      else
        let (ok, w1) = sw_calloc E w in
        if \<not> ok then (None, w1)
        else
          let p = sp_next w1;
              ctrl = (case ctrl_channel of None \<Rightarrow> [] | Some c \<Rightarrow> sw_snprintf c);
              data = (case data_ch of None \<Rightarrow> [] | Some c \<Rightarrow> sw_snprintf c);
              typ = (if ctrl_channel \<noteq> None \<and> data_ch \<noteq> None
                     then if strncmp_eq GENERAL_DEVICE_SYSTEM_NAME_SIZE ctrl data
                          then SWITCH_PORT_TYPE_HIDDEN else SWITCH_PORT_TYPE_EXPORTED
                     else SWITCH_PORT_TYPE_HIDDEN);
              P = switch_port_zero\<lparr>sp_name := sw_snprintf name, port_num := num, switch_port_obj := obj,
                    sp_sw_sys := r, control_channel := ctrl, data_channel := data, sp_type := typ\<rparr>;
              w2 = upd_sp p (\<lambda>_. P) (w1\<lparr>sp_next := Suc p\<rparr>);
              w3 = snd (genl_dev_sw_port_add E r p None w2)
          in (Some p, genl_dev_notify_netdev_obj_added (user_api E) r obj w3))"

subsection \<open>Link status\<close>

definition genl_dev_sw_port_link_status_changed ::
    "'a switch_state_scheme switch_calls \<Rightarrow> sys_ref \<Rightarrow> sp_ref \<Rightarrow> bool \<Rightarrow> 'a switch_state_scheme \<Rightarrow> 'a switch_state_scheme" where
  "genl_dev_sw_port_link_status_changed E r port new_status w =
     genl_dev_link_status_changed (user_api E) r (switch_port_obj (sp_mem w port)) (if new_status then 1 else 0) w"

text \<open>Store a new status of a port and tell the users, if it differs from the old one.\<close>

definition refresh_link_status ::
    "'a switch_state_scheme switch_calls \<Rightarrow> sys_ref \<Rightarrow> sp_ref \<Rightarrow> bool \<Rightarrow> 'a switch_state_scheme \<Rightarrow> 'a switch_state_scheme" where
  "refresh_link_status E r port new w =
     (if new \<noteq> link_status (sp_mem w port)
      then genl_dev_sw_port_link_status_changed E r port new (upd_sp port (\<lambda>P. P\<lparr>link_status := new\<rparr>) w)
      else w)"

fun refresh_slaves ::
    "'a switch_state_scheme switch_calls \<Rightarrow> sys_ref \<Rightarrow> sp_ref list \<Rightarrow> bool \<Rightarrow> 'a switch_state_scheme \<Rightarrow>
     bool \<times> 'a switch_state_scheme" where
  "refresh_slaves E r [] new w = (new, w)"
| "refresh_slaves E r (slave # rest) new w =
     (let w1 = refresh_link_status E r slave (hw_get_link_status (hw E) slave w) w
      in refresh_slaves E r rest (new \<or> link_status (sp_mem w1 slave)) w1)"

definition refresh_port ::
    "'a switch_state_scheme switch_calls \<Rightarrow> sys_ref \<Rightarrow> sp_ref \<Rightarrow> 'a switch_state_scheme \<Rightarrow> 'a switch_state_scheme" where
  "refresh_port E r port w =
     (let (new, w1) =
        (if switch_port_is_aggregator E w port \<and> \<not> real_agg_dev (sw_mem w r)
         then refresh_slaves E r (agg_slaves (sp_mem w port)) False w
         else (hw_get_link_status (hw E) port w, w))
      in refresh_link_status E r port new w1)"

definition genl_dev_sw_link_status_update ::
    "'a switch_state_scheme switch_calls \<Rightarrow> sys_ref \<Rightarrow> 'a switch_state_scheme \<Rightarrow> 'a switch_state_scheme" where
  "genl_dev_sw_link_status_update E r w =
     (let w1 = fold (refresh_port E r) (switch_ports (sw_mem w r)) w
      in upd_sw r (\<lambda>S. S\<lparr>link_status_monitor := timer_set (link_status_poll_interval S) (link_status_monitor S)\<rparr>) w1)"

definition genl_dev_sw_init ::
    "'a switch_state_scheme switch_calls \<Rightarrow> sys_ref \<Rightarrow> 'a switch_state_scheme \<Rightarrow>
     (bool \<times> 'a switch_state_scheme) outcome" where
  "genl_dev_sw_init E r w =
     (let w1 = (if \<not> support_link_event (sw_mem w r)
                then upd_sw r (\<lambda>S. S\<lparr>link_status_monitor := timer_set (link_status_poll_interval S) (link_status_monitor S)\<rparr>) w
                else w)
      in hw_init (hw E) r w1)"

definition genl_dev_sw_exit ::
    "'a switch_state_scheme switch_calls \<Rightarrow> sys_ref \<Rightarrow> 'a switch_state_scheme \<Rightarrow> bool \<times> 'a switch_state_scheme" where
  "genl_dev_sw_exit E r w =
     (let w1 = (if \<not> support_link_event (sw_mem w r)
                then upd_sw r (\<lambda>S. S\<lparr>link_status_monitor := timer_cancel (link_status_monitor S)\<rparr>) w
                else w)
      in hw_exit (hw E) r w1)"

definition genl_dev_sw_private ::
    "'a switch_state_scheme switch_calls \<Rightarrow> sys_ref \<Rightarrow> u32 \<Rightarrow> u32 \<Rightarrow> 'a switch_state_scheme \<Rightarrow> bool \<times> u32 option" where
  "genl_dev_sw_private E r func_id input_arg w =
     (case hw_private (hw E) of None \<Rightarrow> (False, None) | Some f \<Rightarrow> f r func_id input_arg w)"

subsection \<open>Attributes\<close>

text \<open>The operations on an aggregator without a device of its own work on its slaves.\<close>

abbreviation virtual_agg where
  "virtual_agg E r w port \<equiv> switch_port_is_aggregator E w port \<and> \<not> real_agg_dev (sw_mem w r)"

definition genl_dev_sw_port_get_link_status ::
    "'a switch_state_scheme switch_calls \<Rightarrow> sys_ref \<Rightarrow> u32 \<Rightarrow> 'a switch_state_scheme \<Rightarrow> bool" where
  "genl_dev_sw_port_get_link_status E r netdev_obj w =
     (case genl_dev_sw_port_lookup E r netdev_obj w of
        None \<Rightarrow> False
      | Some port \<Rightarrow>
          if virtual_agg E r w port
          then list_ex (\<lambda>slave. hw_get_link_status (hw E) slave w) (agg_slaves (sp_mem w port))
          else hw_get_link_status (hw E) port w)"

definition genl_dev_sw_port_get_duplex ::
    "'a switch_state_scheme switch_calls \<Rightarrow> sys_ref \<Rightarrow> u32 \<Rightarrow> 'a switch_state_scheme \<Rightarrow> u32" where
  "genl_dev_sw_port_get_duplex E r netdev_obj w =
     (case genl_dev_sw_port_lookup E r netdev_obj w of
        None \<Rightarrow> 0
      | Some port \<Rightarrow>
          if virtual_agg E r w port
          then (case agg_slaves (sp_mem w port) of [] \<Rightarrow> 0 | slave # _ \<Rightarrow> hw_get_duplex (hw E) slave w)
          else hw_get_duplex (hw E) port w)"

definition genl_dev_sw_port_get_speed ::
    "'a switch_state_scheme switch_calls \<Rightarrow> sys_ref \<Rightarrow> u32 \<Rightarrow> 'a switch_state_scheme \<Rightarrow> u32" where
  "genl_dev_sw_port_get_speed E r netdev_obj w =
     (case genl_dev_sw_port_lookup E r netdev_obj w of
        None \<Rightarrow> 0
      | Some port \<Rightarrow>
          if virtual_agg E r w port
          then fold (\<lambda>slave speed. speed + hw_get_speed (hw E) slave w) (agg_slaves (sp_mem w port)) 0
          else hw_get_speed (hw E) port w)"

text \<open>The port of the lowest number, the first of several.\<close>

definition lower_port :: "'a switch_state_scheme \<Rightarrow> sp_ref \<Rightarrow> sp_ref option \<Rightarrow> sp_ref option" where
  "lower_port w port lowest =
     (case lowest of None \<Rightarrow> Some port
      | Some l \<Rightarrow> if port_num (sp_mem w port) < port_num (sp_mem w l) then Some port else lowest)"

definition lowest_slave :: "'a switch_state_scheme \<Rightarrow> sp_ref \<Rightarrow> sp_ref option" where
  "lowest_slave w port = fold (lower_port w) (agg_slaves (sp_mem w port)) None"

definition genl_dev_sw_get_hw_addr ::
    "'a switch_state_scheme switch_calls \<Rightarrow> sys_ref \<Rightarrow> 'a switch_state_scheme \<Rightarrow> (mac_addr option \<times> 'a switch_state_scheme) outcome" where
  "genl_dev_sw_get_hw_addr E r w =
     (case hw_system_get_hw_addr (hw E) of
        Some f \<Rightarrow> Returns (f r w, w)
      | None \<Rightarrow>
          let lowest_port = fold (\<lambda>port lowest.
                if switch_port_is_aggregator E w port
                then fold (lower_port w) (agg_slaves (sp_mem w port)) lowest
                else lower_port w port lowest) (switch_ports (sw_mem w r)) None
          in (case lowest_port of
                None \<Rightarrow> Returns (None, w)
              | Some l \<Rightarrow>
                  genl_dev_get_hw_addr (genl E)
                    (genl_dev_name_to_netdev_obj (genl E) (Some (control_channel (sp_mem w l))) w) w))"

text \<open>\<^verbatim>\<open>hw_addr[5] += port->port_num\<close>\<close>

fun mac_add :: "u32 \<Rightarrow> mac_addr \<Rightarrow> mac_addr" where
  "mac_add n (Mac a b c d e f) = Mac a b c d e (f + ucast n)"

definition cache_hw_addr ::
    "sp_ref \<Rightarrow> mac_addr option \<times> 'a switch_state_scheme \<Rightarrow> mac_addr option \<times> 'a switch_state_scheme" where
  "cache_hw_addr port res =
     (case res of
        (None, w) \<Rightarrow> (None, w)
      | (Some a, w) \<Rightarrow> (Some a, upd_sp port (\<lambda>P. P\<lparr>hwaddr_cache := a, hwaddr_cache_valid := True\<rparr>) w))"

text \<open>
  An aggregator asks for the address of its lowest slave, by its object; \<open>depth\<close> is the number
  of calls the stack has room for.
\<close>

fun genl_dev_sw_port_get_hw_addr ::
    "nat \<Rightarrow> 'a switch_state_scheme switch_calls \<Rightarrow> sys_ref \<Rightarrow> u32 \<Rightarrow> 'a switch_state_scheme \<Rightarrow>
     (mac_addr option \<times> 'a switch_state_scheme) outcome" where
  "genl_dev_sw_port_get_hw_addr 0 E r netdev_obj w = Fault Stack_Overflow"
| "genl_dev_sw_port_get_hw_addr (Suc depth) E r netdev_obj w =
     (case genl_dev_sw_port_lookup E r netdev_obj w of
        None \<Rightarrow> Returns (None, w)
      | Some port \<Rightarrow>
          if hwaddr_cache_valid (sp_mem w port) then Returns (Some (hwaddr_cache (sp_mem w port)), w)
          else if virtual_agg E r w port
          then (case lowest_slave w port of
                  None \<Rightarrow> Returns (None, w)
                | Some l \<Rightarrow> genl_dev_sw_port_get_hw_addr depth E r (switch_port_obj (sp_mem w l)) w)
          else (case hw_get_hw_addr (hw E) of
                  Some f \<Rightarrow> Returns (cache_hw_addr port (f port w, w))
                | None \<Rightarrow>
                    if switch_port_is_aggregator E w port then Returns (None, w)
                    else
                      bind_outcome
                        (genl_dev_get_hw_addr (genl E)
                          (genl_dev_name_to_netdev_obj (genl E) (Some (control_channel (sp_mem w port))) w) w)
                        (\<lambda>(a, w1). Returns (cache_hw_addr port
                          (map_option (mac_add (port_num (sp_mem w1 port))) a, w1)))))"

definition genl_dev_sw_port_is_bridge_member ::
    "'a switch_state_scheme switch_calls \<Rightarrow> sys_ref \<Rightarrow> u32 \<Rightarrow> u32 \<Rightarrow> 'a switch_state_scheme \<Rightarrow> bool outcome" where
  "genl_dev_sw_port_is_bridge_member E r port_dev_obj br_dev_obj w =
     (case genl_dev_sw_port_lookup E r port_dev_obj w of
        None \<Rightarrow> Returns False
      | Some port \<Rightarrow>
          if switch_port_is_agg_slave w port then Returns False
          else (case genl_dev_sw_port_lookup E r br_dev_obj w of
                  Some br \<Rightarrow> Returns (hw_is_bridge_member (hw E) port br w)
                | None \<Rightarrow>
                    let channel = (if sp_type (sp_mem w port) = SWITCH_PORT_TYPE_HIDDEN
                                   then control_channel (sp_mem w port) else data_channel (sp_mem w port))
                    in genl_dev_is_bridge_member (genl E)
                         (genl_dev_name_to_netdev_obj (genl E) (Some channel) w) br_dev_obj w))"

subsection \<open>Operations that reach the ports\<close>

text \<open>\<^verbatim>\<open>ret = ret && op(slave)\<close> over the slaves: after a failure the rest is left out.\<close>

fun all_slaves :: "(sp_ref \<Rightarrow> 'w \<Rightarrow> bool \<times> 'w) \<Rightarrow> sp_ref list \<Rightarrow> bool \<Rightarrow> 'w \<Rightarrow> bool \<times> 'w" where
  "all_slaves f [] ret w = (ret, w)"
| "all_slaves f (slave # rest) ret w =
     (if ret then let (ok, w1) = f slave w in all_slaves f rest ok w1 else all_slaves f rest False w)"

definition on_port_or_slaves ::
    "(sp_ref \<Rightarrow> 'a switch_state_scheme \<Rightarrow> bool \<times> 'a switch_state_scheme) \<Rightarrow>
     'a switch_state_scheme switch_calls \<Rightarrow> sys_ref \<Rightarrow> u32 \<Rightarrow> 'a switch_state_scheme \<Rightarrow> bool \<times> 'a switch_state_scheme" where
  "on_port_or_slaves f E r netdev_obj w =
     (case genl_dev_sw_port_lookup E r netdev_obj w of
        None \<Rightarrow> (False, w)
      | Some port \<Rightarrow>
          if switch_port_is_agg_slave w port then (False, w)
          else if virtual_agg E r w port then all_slaves f (agg_slaves (sp_mem w port)) True w
          else f port w)"

definition genl_dev_sw_port_flush_fdb where
  "genl_dev_sw_port_flush_fdb E = on_port_or_slaves (hw_flush_fdb (hw E)) E"

definition genl_dev_sw_port_stp_enable where
  "genl_dev_sw_port_stp_enable E = on_port_or_slaves (hw_stp_enable (hw E)) E"

definition genl_dev_sw_port_stp_disable where
  "genl_dev_sw_port_stp_disable E = on_port_or_slaves (hw_stp_disable (hw E)) E"

definition genl_dev_sw_port_set_stp_state where
  "genl_dev_sw_port_set_stp_state E r netdev_obj state =
     on_port_or_slaves (\<lambda>p. hw_set_port_state (hw E) p state) E r netdev_obj"

definition genl_dev_sw_port_send_bpdu ::
    "'a switch_state_scheme switch_calls \<Rightarrow> sys_ref \<Rightarrow> u32 \<Rightarrow> u8 list \<Rightarrow> 'a switch_state_scheme \<Rightarrow>
     (bool \<times> 'a switch_state_scheme) outcome" where
  "genl_dev_sw_port_send_bpdu E r netdev_obj buf w =
     (case genl_dev_sw_port_lookup E r netdev_obj w of
        None \<Rightarrow> Returns (False, w)
      | Some port \<Rightarrow>
          if switch_port_is_agg_slave w port then Returns (False, w)
          else if virtual_agg E r w port
          then (case lowest_slave w port of None \<Rightarrow> Returns (False, w) | Some l \<Rightarrow> hw_send_bpdu (hw E) l buf w)
          else hw_send_bpdu (hw E) port buf w)"

text \<open>LACP runs on ports, not on aggregators.\<close>

definition on_plain_port ::
    "(sp_ref \<Rightarrow> 'a switch_state_scheme \<Rightarrow> bool \<times> 'a switch_state_scheme) \<Rightarrow>
     'a switch_state_scheme switch_calls \<Rightarrow> sys_ref \<Rightarrow> u32 \<Rightarrow> 'a switch_state_scheme \<Rightarrow> bool \<times> 'a switch_state_scheme" where
  "on_plain_port f E r netdev_obj w =
     (case genl_dev_sw_port_lookup E r netdev_obj w of
        None \<Rightarrow> (False, w)
      | Some port \<Rightarrow> if switch_port_is_aggregator E w port then (False, w) else f port w)"

definition genl_dev_sw_port_lacp_enable where
  "genl_dev_sw_port_lacp_enable E = on_plain_port (hw_agg_enable (hw E)) E"

definition genl_dev_sw_port_lacp_disable where
  "genl_dev_sw_port_lacp_disable E = on_plain_port (hw_agg_disable (hw E)) E"

definition genl_dev_sw_port_send_lacpdu ::
    "'a switch_state_scheme switch_calls \<Rightarrow> sys_ref \<Rightarrow> u32 \<Rightarrow> u8 list \<Rightarrow> 'a switch_state_scheme \<Rightarrow>
     (bool \<times> 'a switch_state_scheme) outcome" where
  "genl_dev_sw_port_send_lacpdu E r netdev_obj buf w =
     (case genl_dev_sw_port_lookup E r netdev_obj w of
        None \<Rightarrow> Returns (False, w)
      | Some port \<Rightarrow>
          if switch_port_is_aggregator E w port then Returns (False, w) else hw_send_lacpdu (hw E) port buf w)"

definition genl_dev_sw_port_set_tx_hash_policy ::
    "'a switch_state_scheme switch_calls \<Rightarrow> sys_ref \<Rightarrow> u32 \<Rightarrow> general_device_agg_tx_hash_policy \<Rightarrow>
     'a switch_state_scheme \<Rightarrow> bool \<times> 'a switch_state_scheme" where
  "genl_dev_sw_port_set_tx_hash_policy E r master_dev_obj policy w =
     (case genl_dev_sw_port_lookup E r master_dev_obj w of
        None \<Rightarrow> (False, w)
      | Some port \<Rightarrow>
          if \<not> switch_port_is_aggregator E w port then (False, w)
          else hw_set_tx_hash_policy (hw E) port policy w)"

subsection \<open>Aggregators\<close>

text \<open>What the port of an aggregator without a device of its own takes over from its first slave and
  gives up with its last one.\<close>

definition take_over :: "switch_port \<Rightarrow> switch_port \<Rightarrow> switch_port" where
  "take_over S M = M\<lparr>sp_type := sp_type S, control_channel := control_channel S, data_channel := data_channel S,
     port_num := 0, hwaddr_cache_valid := False, hwaddr_cache := mac_zero\<rparr>"

definition give_up :: "switch_port \<Rightarrow> switch_port" where
  "give_up M = M\<lparr>sp_type := SWITCH_PORT_TYPE_HIDDEN, control_channel := [], data_channel := [],
     port_num := 0, hwaddr_cache_valid := False, hwaddr_cache := mac_zero\<rparr>"

definition genl_dev_sw_port_detach_slave ::
    "'a switch_state_scheme switch_calls \<Rightarrow> sys_ref \<Rightarrow> u32 \<Rightarrow> u32 \<Rightarrow> 'a switch_state_scheme \<Rightarrow> bool \<times> 'a switch_state_scheme" where
  "genl_dev_sw_port_detach_slave E r master_dev_obj slave_dev_obj w =
     (case (genl_dev_sw_port_lookup E r master_dev_obj w, genl_dev_sw_port_lookup E r slave_dev_obj w) of
        (Some master, Some slave) \<Rightarrow>
          if \<not> switch_port_is_aggregator E w master \<or> \<not> switch_port_is_agg_slave w slave then (False, w)
          else if agg_parent (sp_mem w slave) \<noteq> Some master then (False, w)
          else
            let (ok, w1) = hw_detach_slave (hw E) master slave w in
            if \<not> ok then (False, w1)
            else
              let w2 = snd (genl_dev_sw_port_add E r slave None w1);
                  w3 = (if \<not> real_agg_dev (sw_mem w2 r) \<and> agg_slaves (sp_mem w2 master) = []
                        then upd_sp master give_up w2 else w2)
              in (True, genl_dev_notify_netdev_obj_added (user_api E) r (switch_port_obj (sp_mem w3 slave)) w3)
      | _ \<Rightarrow> (False, w))"

definition genl_dev_sw_port_attach_slave ::
    "'a switch_state_scheme switch_calls \<Rightarrow> sys_ref \<Rightarrow> u32 \<Rightarrow> u32 \<Rightarrow> 'a switch_state_scheme \<Rightarrow> bool \<times> 'a switch_state_scheme" where
  "genl_dev_sw_port_attach_slave E r master_dev_obj slave_dev_obj w =
     (case (genl_dev_sw_port_lookup E r master_dev_obj w, genl_dev_sw_port_lookup E r slave_dev_obj w) of
        (Some master, Some slave) \<Rightarrow>
          if \<not> switch_port_is_aggregator E w master then (False, w)
          else if agg_parent (sp_mem w slave) = Some master then (True, w)
          else
            let (freed, w1) =
                  (case agg_parent (sp_mem w slave) of
                     None \<Rightarrow> (True, w)
                   | Some old \<Rightarrow>
                       genl_dev_sw_port_detach_slave E r (switch_port_obj (sp_mem w old)) (switch_port_obj (sp_mem w slave)) w);
                is_slave_before_attach = (agg_parent (sp_mem w slave) \<noteq> None)
            in
            if \<not> freed then (False, w1)
            else
              let (ok, w2) = hw_attach_slave (hw E) master slave w1 in
              if \<not> ok then (False, w2)
              else
                let w3 = (if \<not> real_agg_dev (sw_mem w2 r) \<and> agg_slaves (sp_mem w2 master) = []
                          then upd_sp master (take_over (sp_mem w2 slave)) w2 else w2);
                    (ret, w4) = genl_dev_sw_port_add E r slave (Some master) w3
                in (ret, if ret \<and> \<not> is_slave_before_attach
                         then genl_dev_notify_netdev_obj_deleted (user_api E) r (switch_port_obj (sp_mem w4 slave)) w4
                         else w4)
      | _ \<Rightarrow> (False, w))"

definition genl_dev_sw_new_aggregator ::
    "'a switch_state_scheme switch_calls \<Rightarrow> sys_ref \<Rightarrow> string \<Rightarrow> 'a switch_state_scheme \<Rightarrow> u32 \<times> 'a switch_state_scheme" where
  "genl_dev_sw_new_aggregator E r agg_name w =
     (if genl_dev_sw_port_name_to_netdev_obj E r agg_name w \<noteq> 0 then (GENERAL_DEVICE_INVALID_ID, w)
      else
        let (ok, w1) = sw_calloc E w in
        if \<not> ok then (GENERAL_DEVICE_INVALID_ID, w1)
        else
          let p = sp_next w1;
              w2 = upd_sp p (\<lambda>_. switch_port_zero\<lparr>sp_name := sw_snprintf agg_name, sp_sw_sys := r\<rparr>)
                     (w1\<lparr>sp_next := Suc p\<rparr>);
              (ret, w3) = hw_new_aggregator (hw E) p w2
          in if \<not> ret then (GENERAL_DEVICE_INVALID_ID, w3)
             else
               let w4 = snd (genl_dev_sw_port_add E r p None w3);
                   w5 = genl_dev_notify_netdev_obj_added (user_api E) r (switch_port_obj (sp_mem w4 p)) w4
               in (switch_port_obj (sp_mem w5 p), w5))"

definition genl_dev_sw_destroy_aggregator ::
    "'a switch_state_scheme switch_calls \<Rightarrow> sys_ref \<Rightarrow> u32 \<Rightarrow> 'a switch_state_scheme \<Rightarrow> bool \<times> 'a switch_state_scheme" where
  "genl_dev_sw_destroy_aggregator E r aggregator_dev_obj w =
     (case genl_dev_sw_port_lookup E r aggregator_dev_obj w of
        None \<Rightarrow> (False, w)
      | Some port \<Rightarrow>
          if \<not> switch_port_is_aggregator E w port then (False, w)
          else
            let w1 = genl_dev_notify_netdev_obj_deleted (user_api E) r (switch_port_obj (sp_mem w port)) w;
                w2 = fold (\<lambda>slave v. snd (genl_dev_sw_port_detach_slave E r (switch_port_obj (sp_mem v port))
                                            (switch_port_obj (sp_mem v slave)) v))
                       (agg_slaves (sp_mem w1 port)) w1
            in if agg_slaves (sp_mem w2 port) \<noteq> [] then (False, w2)
               else
                 let (ok, w3) = hw_destroy_aggregator (hw E) port w2 in
                 if \<not> ok then (False, w3) else (True, snd (genl_dev_sw_port_del E r port w3)))"

definition genl_dev_sw_port_is_aggregator ::
    "'a switch_state_scheme switch_calls \<Rightarrow> sys_ref \<Rightarrow> u32 \<Rightarrow> u32 \<Rightarrow> 'a switch_state_scheme \<Rightarrow> bool" where
  "genl_dev_sw_port_is_aggregator E r master_dev_obj slave_dev_obj w =
     (case genl_dev_sw_port_lookup E r master_dev_obj w of
        None \<Rightarrow> False
      | Some master \<Rightarrow>
          let slave = genl_dev_sw_port_lookup E r slave_dev_obj w in
          if \<not> switch_port_is_aggregator E w master then False
          else if slave_dev_obj \<noteq> 0 \<and> slave = None then False
          else if real_agg_dev (sw_mem w r) then hw_is_aggregator (hw E) master slave w
          else (case slave of None \<Rightarrow> True | Some s \<Rightarrow> agg_parent (sp_mem w s) = Some master))"

definition genl_dev_sw_port_is_slave ::
    "'a switch_state_scheme switch_calls \<Rightarrow> sys_ref \<Rightarrow> u32 \<Rightarrow> u32 \<Rightarrow> 'a switch_state_scheme \<Rightarrow> bool" where
  "genl_dev_sw_port_is_slave E r slave_dev_obj master_dev_obj w =
     (case genl_dev_sw_port_lookup E r slave_dev_obj w of
        None \<Rightarrow> False
      | Some slave \<Rightarrow>
          let master = genl_dev_sw_port_lookup E r master_dev_obj w in
          if \<not> switch_port_is_agg_slave w slave then False
          else if master_dev_obj \<noteq> 0 \<and> master = None then False
          else (case (if real_agg_dev (sw_mem w r) then hw_is_slave (hw E) else None) of
                  Some f \<Rightarrow> f slave master w
                | None \<Rightarrow> if master_dev_obj \<noteq> 0 then agg_parent (sp_mem w slave) = master else True))"

definition genl_dev_sw_port_number_of_slaves ::
    "'a switch_state_scheme switch_calls \<Rightarrow> sys_ref \<Rightarrow> u32 \<Rightarrow> 'a switch_state_scheme \<Rightarrow> u32" where
  "genl_dev_sw_port_number_of_slaves E r master_dev_obj w =
     (case genl_dev_sw_port_lookup E r master_dev_obj w of
        None \<Rightarrow> 0
      | Some port \<Rightarrow>
          if \<not> switch_port_is_aggregator E w port then 0
          else (case (if real_agg_dev (sw_mem w r) then hw_number_of_slaves (hw E) else None) of
                  Some f \<Rightarrow> f port w
                | None \<Rightarrow> fold (\<lambda>_ n. n + 1) (agg_slaves (sp_mem w port)) 0))"

subsection \<open>Packets from the switch\<close>

text \<open>
  The first port, or slave of an aggregator without a device of its own, that \<open>matches\<close>, with the
  port of the switch it belongs to.
\<close>

fun receiving_port ::
    "(sp_ref \<Rightarrow> bool) \<Rightarrow> (sp_ref \<Rightarrow> bool) \<Rightarrow> (sp_ref \<Rightarrow> sp_ref list) \<Rightarrow> sp_ref list \<Rightarrow> (sp_ref \<times> sp_ref) option" where
  "receiving_port matches virt slaves [] = None"
| "receiving_port matches virt slaves (port # rest) =
     (if virt port
      then (case find matches (slaves port) of
              Some slave \<Rightarrow> Some (port, slave)
            | None \<Rightarrow> receiving_port matches virt slaves rest)
      else if matches port then Some (port, port)
      else receiving_port matches virt slaves rest)"

abbreviation receiver where
  "receiver E r channel sw_port_num w \<equiv>
     receiving_port
       (\<lambda>p. port_num (sp_mem w p) = sw_port_num \<and>
            strncmp_eq GENERAL_DEVICE_SYSTEM_NAME_SIZE (control_channel (sp_mem w p)) channel)
       (\<lambda>p. virtual_agg E r w p) (\<lambda>p. agg_slaves (sp_mem w p)) (switch_ports (sw_mem w r))"

definition genl_dev_sw_port_recv_bpdu ::
    "'a switch_state_scheme switch_calls \<Rightarrow> sys_ref \<Rightarrow> string \<Rightarrow> u32 \<Rightarrow> u8 list \<Rightarrow> u32 \<Rightarrow>
     'a switch_state_scheme \<Rightarrow> bool \<times> 'a switch_state_scheme" where
  "genl_dev_sw_port_recv_bpdu E r channel sw_port_num buf buf_len w =
     (case receiver E r channel sw_port_num w of
        None \<Rightarrow> (False, w)
      | Some (port, slave) \<Rightarrow> genl_dev_recv_bpdu (user_api E) r (switch_port_obj (sp_mem w port)) buf buf_len w)"

definition genl_dev_sw_port_recv_lacpdu ::
    "'a switch_state_scheme switch_calls \<Rightarrow> sys_ref \<Rightarrow> string \<Rightarrow> u32 \<Rightarrow> u8 list \<Rightarrow> u32 \<Rightarrow>
     'a switch_state_scheme \<Rightarrow> bool \<times> 'a switch_state_scheme" where
  "genl_dev_sw_port_recv_lacpdu E r channel sw_port_num buf buf_len w =
     (case receiver E r channel sw_port_num w of
        None \<Rightarrow> (False, w)
      | Some (port, slave) \<Rightarrow> genl_dev_recv_lacpdu (user_api E) r (switch_port_obj (sp_mem w slave)) buf buf_len w)"

definition genl_dev_sw_alloc_netdev_obj_domain ::
    "sys_ref \<Rightarrow> u32 \<Rightarrow> 'a switch_state_scheme \<Rightarrow> u32 \<times> 'a switch_state_scheme" where
  "genl_dev_sw_alloc_netdev_obj_domain r max_devices w = genl_dev_alloc_netdev_obj_domain r max_devices w"

subsection \<open>The switch as a device system\<close>

text \<open>The function table the registration fills in.\<close>

definition switch_system_ops ::
    "nat \<Rightarrow> 'a switch_state_scheme switch_calls \<Rightarrow> sys_ref \<Rightarrow> 'a switch_state_scheme general_device_ops" where
  "switch_system_ops depth E r =
     \<lparr>dev_init = genl_dev_sw_init E r,
      dev_exit = genl_dev_sw_exit E r,
      dev_private = Some (genl_dev_sw_private E r),
      system_get_hw_addr = genl_dev_sw_get_hw_addr E r,
      common_is_compatible = genl_dev_sw_port_is_compatible E r,
      common_name_to_netdev_obj = genl_dev_sw_port_name_to_netdev_obj E r,
      common_netdev_obj_to_name = genl_dev_sw_port_netdev_obj_to_name E r,
      common_get_link_status = genl_dev_sw_port_get_link_status E r,
      common_get_duplex = genl_dev_sw_port_get_duplex E r,
      common_get_speed = genl_dev_sw_port_get_speed E r,
      common_get_hw_addr = genl_dev_sw_port_get_hw_addr depth E r,
      bridge_is_bridge_member = genl_dev_sw_port_is_bridge_member E r,
      bridge_flush_fdb = genl_dev_sw_port_flush_fdb E r,
      stp_enable = genl_dev_sw_port_stp_enable E r,
      stp_disable = genl_dev_sw_port_stp_disable E r,
      stp_set_port_state = genl_dev_sw_port_set_stp_state E r,
      stp_send_bpdu = genl_dev_sw_port_send_bpdu E r,
      agg_enable = genl_dev_sw_port_lacp_enable E r,
      agg_disable = genl_dev_sw_port_lacp_disable E r,
      agg_new_aggregator = genl_dev_sw_new_aggregator E r,
      agg_destroy_aggregator = genl_dev_sw_destroy_aggregator E r,
      agg_is_aggregator = genl_dev_sw_port_is_aggregator E r,
      agg_is_slave = genl_dev_sw_port_is_slave E r,
      agg_number_of_slaves = genl_dev_sw_port_number_of_slaves E r,
      agg_attach_slave = genl_dev_sw_port_attach_slave E r,
      agg_detach_slave = genl_dev_sw_port_detach_slave E r,
      agg_send_lacpdu = genl_dev_sw_port_send_lacpdu E r,
      agg_set_tx_hash_policy = genl_dev_sw_port_set_tx_hash_policy E r\<rparr>"

definition genl_dev_register_switch_system ::
    "sys_ref option \<Rightarrow> 'a switch_state_scheme \<Rightarrow> bool \<times> 'a switch_state_scheme" where
  "genl_dev_register_switch_system sw_sys w =
     (case sw_sys of
        None \<Rightarrow> (False, w)
      | Some r \<Rightarrow>
          genl_dev_system_register (Some r)
            (upd_sys r (\<lambda>T. T\<lparr>ds_name := sw_snprintf (sw_name (sw_mem w r))\<rparr>)
              (upd_sw r (\<lambda>S. S\<lparr>switch_ports := []\<rparr>) w)))"

end
