(* ===== verification/Qca_Shell.thy ===== *)
theory Qca_Shell
  imports Genl_Switch
begin

text \<open>
  The shell commands that describe a switch (general_device_qca_switch.c): running a command of
  /lib/functions/qca_switch_config.sh, reading its output into a buffer, and splitting it into
  words. \<open>popen\<close>, the output of a command, is a parameter. Standard C functions are modelled as
  the standard describes them, with a 32-bit \<^verbatim>\<open>long\<close>.
\<close>

definition QCA_SW_CONFIG_PATH :: string where "QCA_SW_CONFIG_PATH = ''/lib/functions/qca_switch_config.sh''"
definition QCA_SW_SHELL_CMD_SIZE :: nat where "QCA_SW_SHELL_CMD_SIZE = 128"
definition QCA_SW_SHELL_CMD_RESULT_SIZE :: nat where "QCA_SW_SHELL_CMD_RESULT_SIZE = 128"
definition QCA_SW_SHELL_CMD_WORD_SIZE :: nat where "QCA_SW_SHELL_CMD_WORD_SIZE = 16"

subsection \<open>The C library\<close>

abbreviation "NUL \<equiv> CHR 0x00"
abbreviation "LF \<equiv> CHR 0x0A"
abbreviation "CR \<equiv> CHR 0x0D"

definition isspace :: "char \<Rightarrow> bool" where
  "isspace c \<longleftrightarrow> c \<in> {CHR '' '', CHR 0x09, LF, CHR 0x0B, CHR 0x0C, CR}"

text \<open>
  \<^verbatim>\<open>fgets(buf, n, fp)\<close>: at most \<open>n - 1\<close> characters, up to and with a newline; NULL at the end of
  the output. With \<open>n = 1\<close> nothing is read and the empty string is returned.
\<close>

definition fgets :: "nat \<Rightarrow> string \<Rightarrow> (string \<times> string) option" where
  "fgets n s =
     (if n \<le> 1 then Some ([], s)
      else if s = [] then None
      else
        let line = takeWhile (\<lambda>c. c \<noteq> LF) s;
            k = min (n - 1) (if line = s then length s else Suc (length line))
        in Some (take k s, drop k s))"

definition digit_value :: "char \<Rightarrow> int option" where
  "digit_value c =
     (let n = (of_char c :: int) in
      if 48 \<le> n \<and> n \<le> 57 then Some (n - 48)
      else if 97 \<le> n \<and> n \<le> 122 then Some (n - 87)
      else if 65 \<le> n \<and> n \<le> 90 then Some (n - 55)
      else None)"

fun digits :: "int \<Rightarrow> int \<Rightarrow> string \<Rightarrow> int" where
  "digits base acc [] = acc"
| "digits base acc (c # cs) =
     (case digit_value c of
        None \<Rightarrow> acc
      | Some d \<Rightarrow> if d < base then digits base (acc * base + d) cs else acc)"

definition is_hex :: "char \<Rightarrow> bool" where
  "is_hex c \<longleftrightarrow> (case digit_value c of None \<Rightarrow> False | Some d \<Rightarrow> d < 16)"

text \<open>\<^verbatim>\<open>strtol(s, NULL, 0)\<close>\<close>

fun unsigned_number :: "string \<Rightarrow> int" where
  "unsigned_number (z # x # h # cs) =
     (if z = CHR ''0'' \<and> x \<in> {CHR ''x'', CHR ''X''} \<and> is_hex h then digits 16 0 (h # cs)
      else digits (if z = CHR ''0'' then 8 else 10) 0 (z # x # h # cs))"
| "unsigned_number (z # cs) = digits (if z = CHR ''0'' then 8 else 10) 0 (z # cs)"
| "unsigned_number [] = 0"

definition strtol :: "string \<Rightarrow> int" where
  "strtol s =
     (let t = dropWhile isspace s;
          n = (case t of
                 [] \<Rightarrow> 0
               | c # cs \<Rightarrow> if c = CHR ''-'' then - unsigned_number cs
                           else if c = CHR ''+'' then unsigned_number cs else unsigned_number t)
      in max (- (2 ^ 31)) (min (2 ^ 31 - 1) n))"

text \<open>\<^verbatim>\<open>sscanf(s, "%64s", word)\<close>\<close>

definition sscanf_word :: "string \<Rightarrow> string option" where
  "sscanf_word s =
     (let w = take 64 (takeWhile (\<lambda>c. \<not> isspace c) (dropWhile isspace s)) in if w = [] then None else Some w)"

subsection \<open>Running a command\<close>

text \<open>
  The loop over the lines of the output: \<^verbatim>\<open>max_len\<close> is the size of the buffer, \<open>got\<close> what is in
  it. The loop need not end, its value is None then. The output is text, as the commands of the
  script write it: for a line without a NUL byte \<^verbatim>\<open>strlen\<close> is the length of the line.
\<close>

partial_function (option) read_output :: "nat \<Rightarrow> string \<Rightarrow> string \<Rightarrow> string option" where
  "read_output max_len got out =
     (case fgets (max_len - length got - 1) out of
        None \<Rightarrow> Some got
      | Some (line, rest) \<Rightarrow>
          if length (got @ line) + 1 = max_len then Some (got @ line)
          else read_output max_len (got @ line) rest)"

declare read_output.simps [code]

definition qca_switch_shell_cmd :: "(string \<Rightarrow> string option) \<Rightarrow> string \<Rightarrow> nat \<Rightarrow> (nat \<times> string) outcome" where
  "qca_switch_shell_cmd popen cmd max_len =
     (case popen cmd of
        None \<Rightarrow> Returns (0, [])
      | Some out \<Rightarrow>
          (case read_output max_len [] out of
             None \<Rightarrow> Fault Diverges
           | Some res \<Rightarrow> Returns (length res, res)))"

definition shell_cmd_line :: "string option \<Rightarrow> string \<Rightarrow> string" where
  "shell_cmd_line swn cmd =
     snprintf_buf QCA_SW_SHELL_CMD_SIZE
       (QCA_SW_CONFIG_PATH @ '' '' @ cmd @ (case swn of None \<Rightarrow> [] | Some n \<Rightarrow> '' '' @ n))"

definition qca_switch_shell_cmd_get_int :: "(string \<Rightarrow> string option) \<Rightarrow> string option \<Rightarrow> string \<Rightarrow> int outcome" where
  "qca_switch_shell_cmd_get_int popen swn cmd =
     bind_outcome (qca_switch_shell_cmd popen (shell_cmd_line swn cmd) QCA_SW_SHELL_CMD_RESULT_SIZE)
       (\<lambda>(len, res). Returns (if len = 0 then - 1 else strtol res))"

subsection \<open>Lists of words\<close>

text \<open>The words of the output, at most \<open>n\<close>.\<close>

fun words :: "nat \<Rightarrow> string \<Rightarrow> string list" where
  "words 0 s = []"
| "words (Suc n) s =
     (if s = [] then []
      else
        let t = dropWhile (\<lambda>c. c \<in> {CHR '' '', CR, LF}) s in
        if t = [] then []
        else (case sscanf_word t of
                None \<Rightarrow> []
              | Some w \<Rightarrow> w # words n (drop (length w) t)))"

text \<open>
  The words go to the rows of an array of \<open>QCA_SW_SHELL_CMD_WORD_SIZE\<close> characters each; a longer word
  runs on into the rows that follow, and past the array behind the last row. Only rows that were
  written are read.
\<close>

definition write_at :: "nat \<Rightarrow> string \<Rightarrow> string \<Rightarrow> string" where
  "write_at pos s mem = take pos mem @ s @ drop (pos + length s) mem"

fun write_words :: "nat \<Rightarrow> string list \<Rightarrow> string \<Rightarrow> string outcome" where
  "write_words i [] mem = Returns mem"
| "write_words i (w # ws) mem =
     (if QCA_SW_SHELL_CMD_WORD_SIZE * i + length w + 1 > length mem then Fault Out_Of_Bounds
      else write_words (Suc i) ws (write_at (QCA_SW_SHELL_CMD_WORD_SIZE * i) (w @ [NUL]) mem))"

definition row :: "string \<Rightarrow> nat \<Rightarrow> string" where
  "row mem i = takeWhile (\<lambda>c. c \<noteq> NUL) (drop (QCA_SW_SHELL_CMD_WORD_SIZE * i) mem)"

definition qca_switch_shell_cmd_get_word_list ::
    "(string \<Rightarrow> string option) \<Rightarrow> string option \<Rightarrow> string \<Rightarrow> nat \<Rightarrow> string list outcome" where
  "qca_switch_shell_cmd_get_word_list popen swn cmd max_words =
     bind_outcome (qca_switch_shell_cmd popen (shell_cmd_line swn cmd) QCA_SW_SHELL_CMD_RESULT_SIZE)
       (\<lambda>(len, res).
          let ws = words max_words res in
          bind_outcome (write_words 0 ws (replicate (QCA_SW_SHELL_CMD_WORD_SIZE * max_words) NUL))
            (\<lambda>mem. Returns (map (row mem) [0..<length ws])))"

subsection \<open>When a command returns\<close>

lemma fgets_split:
  assumes "fgets n s = Some (line, rest)"
  shows "s = line @ rest" "length line \<le> n - 1" "1 < n \<Longrightarrow> line \<noteq> []"
proof -
  have "n \<le> 1 \<and> line = [] \<and> rest = s \<or>
      (\<exists>k. 0 < k \<and> k \<le> n - 1 \<and> s \<noteq> [] \<and> line = take k s \<and> rest = drop k s)"
  proof (cases "n \<le> 1")
    case False
    let ?l = "takeWhile (\<lambda>c. c \<noteq> LF) s"
    let ?k = "min (n - 1) (if ?l = s then length s else Suc (length ?l))"
    from False assms have "s \<noteq> []" "line = take ?k s" "rest = drop ?k s"
      unfolding fgets_def Let_def by (simp_all only: if_False split: if_splits) simp_all
    moreover from False \<open>s \<noteq> []\<close> have "0 < ?k" "?k \<le> n - 1" by simp_all
    ultimately show ?thesis by blast
  qed (use assms in \<open>simp add: fgets_def\<close>)
  then show "s = line @ rest" "length line \<le> n - 1" "1 < n \<Longrightarrow> line \<noteq> []" by auto
qed

lemma fgets_None: "fgets n s = None \<longleftrightarrow> 1 < n \<and> s = []"
  by (cases "n \<le> 1"; cases "s = []") (simp_all add: fgets_def Let_def)

lemma read_output_complete:
  assumes "length got + length out + 2 < max_len"
  shows "read_output max_len got out = Some (got @ out)"
  using assms
proof (induction "length out" arbitrary: got out rule: less_induct)
  case less
  show ?case
  proof (cases "fgets (max_len - length got - 1) out")
    case None
    then have "out = []" by (simp add: fgets_None)
    with None show ?thesis by (subst read_output.simps) simp
  next
    case (Some p)
    then obtain line rest where p: "fgets (max_len - length got - 1) out = Some (line, rest)" by (cases p) auto
    from fgets_split [OF p] less.prems have s: "out = line @ rest" "line \<noteq> []" by simp_all
    then have "read_output max_len (got @ line) rest = Some ((got @ line) @ rest)"
      using less.prems by (intro less.hyps) auto
    with p s less.prems show ?thesis by (subst read_output.simps) simp
  qed
qed

lemma read_output_short:
  assumes "read_output max_len got out = Some res" and "length got + 2 \<le> max_len"
  shows "length got + length out + 2 < max_len"
proof -
  have "length got + 2 \<le> max_len \<longrightarrow> length got + length out + 2 < max_len"
  proof (rule read_output.raw_induct [OF _ assms(1)])
    fix f :: "nat \<Rightarrow> string \<Rightarrow> string \<Rightarrow> string option" and max_len got out res
    assume IH: "\<And>max_len got out res. f max_len got out = Some res \<Longrightarrow>
        length got + 2 \<le> max_len \<longrightarrow> length got + length out + 2 < max_len"
      and f: "(case fgets (max_len - length got - 1) out of None \<Rightarrow> Some got
        | Some (line, rest) \<Rightarrow> if length (got @ line) + 1 = max_len then Some (got @ line)
            else f max_len (got @ line) rest) = Some res"
    show "length got + 2 \<le> max_len \<longrightarrow> length got + length out + 2 < max_len"
    proof
      assume len: "length got + 2 \<le> max_len"
      show "length got + length out + 2 < max_len"
      proof (cases "fgets (max_len - length got - 1) out")
        case None
        then show ?thesis by (auto simp: fgets_None)
      next
        case (Some p)
        then obtain line rest where p: "fgets (max_len - length got - 1) out = Some (line, rest)" by (cases p) auto
        from fgets_split(1,2) [OF p] len have s: "out = line @ rest" "length (got @ line) + 2 \<le> max_len" by auto
        with f p have "f max_len (got @ line) rest = Some res" by simp
        from IH [OF this] s show ?thesis by simp
      qed
    qed
  qed
  with assms(2) show ?thesis by simp
qed

text \<open>The output of the configuration as it is shipped, and with one more port.\<close>

definition default_switch_ports :: string where
  "default_switch_ports =
     ''@sw1 eth1 eth1 1 port1'' @ [LF] @ ''@sw1 eth1 eth1 2 port2'' @ [LF] @ ''@sw1 eth1 eth1 3 port3'' @ [LF] @
     ''@sw1 eth1 eth1 4 port4'' @ [LF] @ ''@sw1 eth1 eth0 5 eth0'' @ [LF]"

text \<open>C27: Running a command returns the whole output if it is at least three characters shorter than the
  buffer, and never returns for any longer output: two characters are left then, the loop asks for
  one character, gets the empty string and goes on for ever. The buffer has 128 characters: the
  five ports of the default configuration take 114, a sixth hangs the daemon.\<close>

theorem shell_cmd_outcome:
  assumes "2 \<le> max_len" and "popen cmd = Some out"
  shows "qca_switch_shell_cmd popen cmd max_len =
    (if length out + 2 < max_len then Returns (length out, out) else Fault Diverges)"
proof (cases "length out + 2 < max_len")
  case True
  with assms read_output_complete [of "[]" out max_len] show ?thesis by (simp add: qca_switch_shell_cmd_def)
next
  case False
  with assms(1) read_output_short [of max_len "[]" out] have "read_output max_len [] out = None"
    by (cases "read_output max_len [] out") auto
  with assms False show ?thesis by (simp add: qca_switch_shell_cmd_def)
qed

theorem shell_cmd_outcome_witness:
  "qca_switch_shell_cmd (\<lambda>_. Some default_switch_ports) [] 128 = Returns (114, default_switch_ports) \<and>
   qca_switch_shell_cmd (\<lambda>_. Some (default_switch_ports @ ''@sw1 eth1 eth1 6 port6'')) [] 128 = Fault Diverges"
  by (simp add: shell_cmd_outcome default_switch_ports_def)

end
