(* ===== verification/Qca_Packet.thy ===== *)
theory Qca_Packet
  imports Genl_Switch
begin

text \<open>
  Control packets between the CPU and a port of the switch (general_device_qca_switch.c): the
  private header that names the port, and the choice of a source address that makes the trunk hash
  of the switch pick a given port.
\<close>

definition QCA_SW_CONTROL_PKT_MAX_SIZE :: nat where "QCA_SW_CONTROL_PKT_MAX_SIZE = 512"
definition QCA_SW_PRIV_HDR_OFFSET :: nat where "QCA_SW_PRIV_HDR_OFFSET = 12"
definition QCA_SW_PRIV_HDR_VERSION :: u32 where "QCA_SW_PRIV_HDR_VERSION = 2"
definition QCA_SW_PORT_ID_MIN :: nat where "QCA_SW_PORT_ID_MIN = 0"
definition QCA_SW_PORT_ID_MAX :: nat where "QCA_SW_PORT_ID_MAX = 6"
definition QCA_SW_MAX_MEMBERS_IN_AGG :: nat where "QCA_SW_MAX_MEMBERS_IN_AGG = 4"

subsection \<open>The private header\<close>

text \<open>
  The headers are words with bit fields, the first field in the lowest bits; \<open>field\<close> reads the
  \<open>n\<close> bits from bit \<open>k\<close> on.
\<close>

record qca_sw_priv_hdr_rx =
  src_port :: u32
  rx_with_tag :: u32
  rx_reason :: u32
  rx_priority :: u32
  rx_version :: u32
  rx_type :: u32

record qca_sw_priv_hdr_tx =
  dst_port :: u32
  from_cpu :: u32
  action :: u32
  tx_priority :: u32
  tx_version :: u32
  tx_type :: u32

definition field :: "nat \<Rightarrow> nat \<Rightarrow> u32 \<Rightarrow> u32" where
  "field k n w = take_bit n (drop_bit k w)"

definition rx_of_word :: "u32 \<Rightarrow> qca_sw_priv_hdr_rx" where
  "rx_of_word w = \<lparr>src_port = field 0 3 w, rx_with_tag = field 3 1 w, rx_reason = field 6 5 w,
     rx_priority = field 11 3 w, rx_version = field 14 2 w, rx_type = field 16 16 w\<rparr>"

definition word_of_tx :: "qca_sw_priv_hdr_tx \<Rightarrow> u32" where
  "word_of_tx h = take_bit 7 (dst_port h) OR push_bit 7 (take_bit 1 (from_cpu h)) OR push_bit 8 (take_bit 3 (action h)) OR
     push_bit 11 (take_bit 3 (tx_priority h)) OR push_bit 14 (take_bit 2 (tx_version h)) OR push_bit 16 (take_bit 16 (tx_type h))"

text \<open>Words in network byte order.\<close>

definition word_bytes :: "u32 \<Rightarrow> u8 list" where
  "word_bytes w = [ucast (drop_bit 24 w), ucast (drop_bit 16 w), ucast (drop_bit 8 w), ucast w]"

definition word_at :: "u8 list \<Rightarrow> nat \<Rightarrow> u32" where
  "word_at buf i = push_bit 24 (ucast (buf ! i)) OR push_bit 16 (ucast (buf ! (i + 1))) OR
     push_bit 8 (ucast (buf ! (i + 2))) OR ucast (buf ! (i + 3))"

text \<open>The source port, if the packet has a header of the switch's type.\<close>

definition qca_switch_private_header_parse :: "u16 \<Rightarrow> u8 list \<Rightarrow> u32 option" where
  "qca_switch_private_header_parse hdr_type buf =
     (if length buf < QCA_SW_PRIV_HDR_OFFSET + 4 then None
      else
        let hdr = rx_of_word (word_at buf QCA_SW_PRIV_HDR_OFFSET) in
        if rx_version hdr \<noteq> QCA_SW_PRIV_HDR_VERSION \<or> rx_type hdr \<noteq> ucast hdr_type then None
        else Some (src_port hdr))"

datatype qca_sw_pkt_type = QCA_SW_PKT_TYPE_BPDU | QCA_SW_PKT_TYPE_LACPDU | QCA_SW_PKT_TYPE_UNKNOWN

definition qca_switch_pkt_type_parse :: "u8 list \<Rightarrow> qca_sw_pkt_type" where
  "qca_switch_pkt_type_parse buf =
     (if take 6 buf = [0x01, 0x80, 0xc2, 0, 0, 0] then QCA_SW_PKT_TYPE_BPDU
      else if take 6 buf = [0x01, 0x80, 0xc2, 0, 0, 2] then QCA_SW_PKT_TYPE_LACPDU
      else QCA_SW_PKT_TYPE_UNKNOWN)"

text \<open>The packet without its header: the addresses are moved over it.\<close>

definition strip_header :: "u8 list \<Rightarrow> u8 list" where
  "strip_header buf = take QCA_SW_PRIV_HDR_OFFSET buf @ drop (QCA_SW_PRIV_HDR_OFFSET + 4) buf"

definition tx_header :: "u16 \<Rightarrow> u32 \<Rightarrow> qca_sw_priv_hdr_tx" where
  "tx_header hdr_type pnum =
     \<lparr>dst_port = push_bit (unat pnum) 1, from_cpu = 1, action = 0, tx_priority = 7,
      tx_version = QCA_SW_PRIV_HDR_VERSION, tx_type = ucast hdr_type\<rparr>"

text \<open>
  The copy that is sent, with the header behind the addresses: the buffer for it has
  \<open>QCA_SW_CONTROL_PKT_MAX_SIZE\<close> bytes, and the lengths are not checked.
\<close>

definition copy_with_header :: "u16 \<Rightarrow> u32 \<Rightarrow> u8 list \<Rightarrow> u8 list outcome" where
  "copy_with_header hdr_type pnum buf =
     (if length buf < QCA_SW_PRIV_HDR_OFFSET \<or> length buf + 4 > QCA_SW_CONTROL_PKT_MAX_SIZE then Fault Out_Of_Bounds
      else Returns (take QCA_SW_PRIV_HDR_OFFSET buf @ word_bytes (word_of_tx (tx_header hdr_type pnum)) @
                    drop QCA_SW_PRIV_HDR_OFFSET buf))"

subsection \<open>The trunk hash\<close>

definition trunk_members :: "u32 \<Rightarrow> nat list" where
  "trunk_members bitmap = filter (\<lambda>idx. bit bitmap idx) [QCA_SW_PORT_ID_MIN..<Suc QCA_SW_PORT_ID_MAX]"

definition hash_byte :: "u8 \<Rightarrow> u8" where
  "hash_byte b = (b AND 3) XOR (drop_bit 2 b AND 3) XOR (drop_bit 4 b AND 3) XOR (drop_bit 6 b AND 3)"

definition mac_hash :: "u8 list \<Rightarrow> u8" where
  "mac_hash buf = fold (\<lambda>b h. h XOR hash_byte b) (take 12 buf) 0"

text \<open>
  \<open>mem\<close> are the members of the trunk; the table of seven entries is filled with -1 behind them.
\<close>

definition port_entry :: "nat list \<Rightarrow> nat \<Rightarrow> int" where
  "port_entry mem i = (if i < length mem then int (mem ! i) else - 1)"

definition qca_switch_calculate_dest_port_in_agg :: "u32 \<Rightarrow> u8 list \<Rightarrow> int" where
  "qca_switch_calculate_dest_port_in_agg bitmap buf =
     (let mem = trunk_members bitmap in
      if length mem = 0 then - 1
      else if length mem = 1 then port_entry mem 0
      else (case find (\<lambda>idx. port_entry mem (unat (mac_hash buf XOR of_nat idx)) \<noteq> - 1)
                   [0..<QCA_SW_MAX_MEMBERS_IN_AGG] of
              None \<Rightarrow> - 1
            | Some idx \<Rightarrow> port_entry mem (unat (mac_hash buf XOR of_nat idx))))"

text \<open>
  The last byte of the source address is tried with its two lowest bits changed; the packet keeps
  the last change when none helps. A port without aggregator needs none.
\<close>

definition change_byte :: "u8 list \<Rightarrow> nat \<Rightarrow> u8 list" where
  "change_byte buf idx = buf[11 := buf ! 11 XOR of_nat idx]"

definition qca_switch_change_smac_according_to_hash_alg :: "u32 option \<Rightarrow> u32 \<Rightarrow> u8 list \<Rightarrow> bool \<times> u8 list" where
  "qca_switch_change_smac_according_to_hash_alg master_ports pnum buf =
     (case master_ports of
        None \<Rightarrow> (True, buf)
      | Some bitmap \<Rightarrow>
          (case find (\<lambda>idx. word_of_int (qca_switch_calculate_dest_port_in_agg bitmap (change_byte buf idx)) = pnum)
                  [0..<QCA_SW_MAX_MEMBERS_IN_AGG] of
             Some idx \<Rightarrow> (True, change_byte buf idx)
           | None \<Rightarrow> (False, change_byte buf (QCA_SW_MAX_MEMBERS_IN_AGG - 1))))"


subsection \<open>The hash of a changed packet\<close>

lemma two_bits:
  fixes k :: u8
  assumes "unat k < 4"
  shows "take_bit 2 k = k" "\<And>n. bit k n \<Longrightarrow> n < 2" "drop_bit 2 k = 0"
proof -
  show t: "take_bit 2 k = k" and b: "bit k n \<Longrightarrow> n < 2" for n
    using assms take_bit_below [of k 2] bit_unat_less [of k 2] by simp_all
  show "drop_bit 2 k = 0"
    by (rule bit_word_eqI) (auto simp: bit_simps dest: b)
qed

lemma two_bits_less: "take_bit 2 (k :: u8) = k \<Longrightarrow> unat k < 4"
proof -
  assume "take_bit 2 k = k"
  then have "unat k = take_bit 2 (unat k)" by (metis unsigned_take_bit_eq)
  then show ?thesis using take_bit_nat_less_exp [of 2 "unat k"] by simp
qed

lemma and_three: "(b :: u8) AND 3 = take_bit 2 b"
  by (simp add: take_bit_eq_mask mask_numeral)

lemma hash_byte_two_bits: "take_bit 2 (hash_byte b) = hash_byte b"
  by (simp add: hash_byte_def and_three)

lemma hash_byte_xor:
  assumes "unat k < 4"
  shows "hash_byte (b XOR k) = hash_byte b XOR k"
proof -
  note t = two_bits(1,3) [OF assms]
  have "drop_bit 4 k = drop_bit 2 (drop_bit 2 k)" "drop_bit 6 k = drop_bit 2 (drop_bit 2 (drop_bit 2 k))"
    by (simp_all add: drop_bit_drop_bit)
  with t have "drop_bit 4 k = 0" "drop_bit 6 k = 0" by simp_all
  with t show ?thesis
    by (simp add: hash_byte_def and_three xor.assoc xor.left_commute xor.commute)
qed

lemma fold_xor_two_bits: "take_bit 2 h = h \<Longrightarrow> take_bit 2 (fold (\<lambda>b h. h XOR hash_byte b) bs h) = fold (\<lambda>b h. h XOR hash_byte b) bs h"
  by (induction bs arbitrary: h) (simp_all add: hash_byte_two_bits)

lemma mac_hash_small: "unat (mac_hash buf) < 4"
  unfolding mac_hash_def by (intro two_bits_less fold_xor_two_bits) simp

lemma mac_hash_change:
  assumes "12 \<le> length buf" and "idx < 4"
  shows "mac_hash (change_byte buf idx) = mac_hash buf XOR of_nat idx"
proof -
  have t: "take 12 buf = take 11 buf @ [buf ! 11]" "take 12 (change_byte buf idx) = take 11 buf @ [buf ! 11 XOR of_nat idx]"
    using assms(1) take_Suc_conv_app_nth [of 11 buf] take_Suc_conv_app_nth [of 11 "change_byte buf idx"]
    by (simp_all add: change_byte_def numeral_eq_Suc)
  have "unat (of_nat idx :: u8) < 4" using assms(2) by (simp add: unat_of_nat take_bit_nat_eq_self)
  from hash_byte_xor [OF this] show ?thesis by (simp add: mac_hash_def t xor.assoc)
qed

lemma port_entry_minus: "port_entry mem i = - 1 \<longleftrightarrow> length mem \<le> i"
  by (simp add: port_entry_def)

lemma find_first: "P 0 \<Longrightarrow> find P [0..<Suc n] = Some 0"
  by (simp add: upt_rec)

lemma dest_of_hash:
  assumes "length (trunk_members bitmap) \<ge> 2" and "unat (mac_hash buf) < length (trunk_members bitmap)"
  shows "qca_switch_calculate_dest_port_in_agg bitmap buf = int (trunk_members bitmap ! unat (mac_hash buf))"
proof -
  have "find (\<lambda>idx. port_entry (trunk_members bitmap) (unat (mac_hash buf XOR of_nat idx)) \<noteq> - 1)
      [0..<QCA_SW_MAX_MEMBERS_IN_AGG] = Some 0"
    unfolding QCA_SW_MAX_MEMBERS_IN_AGG_def eval_nat_numeral
    by (rule find_first) (use assms(2) in \<open>simp add: port_entry_minus\<close>)
  moreover have "trunk_members bitmap \<noteq> []" using assms(1) by auto
  ultimately show ?thesis
    using assms by (simp add: qca_switch_calculate_dest_port_in_agg_def Let_def port_entry_def)
qed

lemma dest_among_first:
  assumes "qca_switch_calculate_dest_port_in_agg bitmap buf = int p"
  shows "p \<in> set (take 4 (trunk_members bitmap))"
proof -
  let ?ports = "trunk_members bitmap"
  have entry: "p \<in> set (take 4 ?ports)" if "port_entry ?ports i = int p" "i < 4" for i
    using that by (auto simp: port_entry_def in_set_conv_nth split: if_splits)
  consider "length ?ports = 1" "port_entry ?ports 0 = int p"
    | idx where "find (\<lambda>idx. port_entry ?ports (unat (mac_hash buf XOR of_nat idx)) \<noteq> - 1)
        [0..<QCA_SW_MAX_MEMBERS_IN_AGG] = Some idx" "port_entry ?ports (unat (mac_hash buf XOR of_nat idx)) = int p"
    using assms by (auto simp: qca_switch_calculate_dest_port_in_agg_def Let_def split: if_splits option.splits)
  then show ?thesis
  proof cases
    case 1
    then show ?thesis using entry [of 0] by simp
  next
    case 2
    from find_SomeD [OF 2(1)] have "idx < 4" by (simp add: QCA_SW_MAX_MEMBERS_IN_AGG_def)
    then have "take_bit 2 (of_nat idx :: u8) = of_nat idx"
      by (intro two_bits) (simp add: unat_of_nat take_bit_nat_eq_self)
    with two_bits(1) [OF mac_hash_small] have "unat (mac_hash buf XOR of_nat idx) < 4"
      by (intro two_bits_less) simp
    with 2(2) entry show ?thesis by simp
  qed
qed

lemma trunk_members_small: "p \<in> set (trunk_members bitmap) \<Longrightarrow> p \<le> 6"
  by (auto simp: trunk_members_def QCA_SW_PORT_ID_MAX_def)

lemma dest_word:
  assumes "p \<le> 6"
  shows "word_of_int (qca_switch_calculate_dest_port_in_agg bitmap buf) = (of_nat p :: u32) \<longleftrightarrow>
    qca_switch_calculate_dest_port_in_agg bitmap buf = int p"
proof -
  let ?d = "qca_switch_calculate_dest_port_in_agg bitmap buf"
  have entry: "port_entry (trunk_members bitmap) i = - 1 \<or> (\<exists>q \<le> 6. port_entry (trunk_members bitmap) i = int q)" for i
    using trunk_members_small [of "trunk_members bitmap ! i" bitmap] by (auto simp: port_entry_def)
  have "?d = - 1 \<or> (\<exists>q \<le> 6. ?d = int q)"
    unfolding qca_switch_calculate_dest_port_in_agg_def Let_def using entry by (auto split: option.split)
  moreover have "(of_nat q :: u32) = of_nat p \<longleftrightarrow> q = p" if "q \<le> 6" for q
    using that assms by (auto dest!: arg_cong [of _ _ unat] simp: unat_of_nat take_bit_nat_eq_self)
  moreover have "(- 1 :: u32) \<noteq> of_nat p"
    using assms by (auto dest!: arg_cong [of _ _ unat] simp: unat_of_nat take_bit_nat_eq_self unsigned_minus_1_eq_mask mask_eq_exp_minus_1)
  ultimately show ?thesis by auto
qed

text \<open>Some change of the address reaches each of the first four members.\<close>

lemma change_reaches:
  assumes "12 \<le> length buf" and "p \<in> set (take 4 (trunk_members bitmap))"
  shows "\<exists>idx < 4. qca_switch_calculate_dest_port_in_agg bitmap (change_byte buf idx) = int p"
proof (cases "length (trunk_members bitmap) \<ge> 2")
  case True
  from assms(2) obtain i where i: "i < 4" "i < length (trunk_members bitmap)" "p = trunk_members bitmap ! i"
    by (auto simp: in_set_conv_nth)
  define k where "k = mac_hash buf XOR of_nat i"
  have "take_bit 2 k = k" unfolding k_def using two_bits(1) [OF mac_hash_small] i(1)
    by (simp add: two_bits(1) unat_of_nat take_bit_nat_eq_self)
  from two_bits_less [OF this] have k: "unat k < 4" .
  then have "mac_hash (change_byte buf (unat k)) = of_nat i"
    using mac_hash_change [OF assms(1), of "unat k"] by (simp add: k_def flip: xor.assoc)
  then have "unat (mac_hash (change_byte buf (unat k))) = i" using i(1) by (simp add: unat_of_nat take_bit_nat_eq_self)
  with dest_of_hash [OF True, of "change_byte buf (unat k)"] i k show ?thesis by metis
next
  case False
  moreover have "trunk_members bitmap \<noteq> []" using assms(2) by auto
  then have "length (trunk_members bitmap) \<noteq> 0" by simp
  ultimately have "length (trunk_members bitmap) = 1" by linarith
  moreover from this assms(2) have "trunk_members bitmap = [p]" by (cases "trunk_members bitmap") auto
  ultimately show ?thesis
    by (intro exI [of _ 0]) (simp add: qca_switch_calculate_dest_port_in_agg_def port_entry_def)
qed

text \<open>C20: The change of the source address succeeds exactly for the first four ports of a trunk, and then the
  hash of the switch sends the packet to the port. Only the two lowest bits of the last byte of the
  source address differ. A fifth member is never reached, although the trunk may have seven.\<close>

theorem changed_packet_reaches_port:
  assumes "12 \<le> length buf" and "p \<le> 6"
  shows "case qca_switch_change_smac_according_to_hash_alg (Some bitmap) (of_nat p) buf of (ok, buf') \<Rightarrow>
    ok = (p \<in> set (take 4 (trunk_members bitmap))) \<and>
    (if ok then qca_switch_calculate_dest_port_in_agg bitmap buf' = int p else True) \<and>
    length buf' = length buf \<and> take 11 buf' = take 11 buf \<and> drop 12 buf' = drop 12 buf \<and>
    drop_bit 2 (buf' ! 11) = drop_bit 2 (buf ! 11)"
proof -
  let ?dest = "\<lambda>idx. word_of_int (qca_switch_calculate_dest_port_in_agg bitmap (change_byte buf idx)) = (of_nat p :: u32)"
  have frame: "length (change_byte buf idx) = length buf \<and> take 11 (change_byte buf idx) = take 11 buf \<and>
      drop 12 (change_byte buf idx) = drop 12 buf \<and> drop_bit 2 (change_byte buf idx ! 11) = drop_bit 2 (buf ! 11)"
    if "idx < 4" for idx
  proof -
    have "drop_bit 2 (of_nat idx :: u8) = 0"
      by (rule two_bits(3)) (use that in \<open>simp add: unat_of_nat take_bit_nat_eq_self\<close>)
    with assms(1) show ?thesis by (simp add: change_byte_def)
  qed
  show ?thesis
  proof (cases "find ?dest [0..<QCA_SW_MAX_MEMBERS_IN_AGG]")
    case None
    then have "\<not> (\<exists>idx < 4. qca_switch_calculate_dest_port_in_agg bitmap (change_byte buf idx) = int p)"
      by (auto simp: find_None_iff QCA_SW_MAX_MEMBERS_IN_AGG_def dest_word [OF assms(2)])
    with change_reaches [OF assms(1)] have "p \<notin> set (take 4 (trunk_members bitmap))" by blast
    with None frame [of 3] show ?thesis
      by (simp add: qca_switch_change_smac_according_to_hash_alg_def QCA_SW_MAX_MEMBERS_IN_AGG_def)
  next
    case (Some idx)
    from find_SomeD [OF Some] have idx: "idx < 4" "qca_switch_calculate_dest_port_in_agg bitmap (change_byte buf idx) = int p"
      by (simp_all add: QCA_SW_MAX_MEMBERS_IN_AGG_def dest_word [OF assms(2)])
    with Some frame [OF idx(1)] dest_among_first [OF idx(2)] show ?thesis
      by (simp add: qca_switch_change_smac_according_to_hash_alg_def)
  qed
qed

theorem changed_packet_reaches_port_witness:
  "fst (qca_switch_change_smac_according_to_hash_alg (Some 0x1a) (of_nat 4) (replicate 12 0x5e)) \<and>
   \<not> fst (qca_switch_change_smac_according_to_hash_alg (Some 0x3e) (of_nat 5) (replicate 12 0x5e))"
  using changed_packet_reaches_port [of "replicate 12 0x5e" 4 "0x1a"]
    changed_packet_reaches_port [of "replicate 12 0x5e" 5 "0x3e"]
  by (auto simp: trunk_members_def QCA_SW_PORT_ID_MIN_def QCA_SW_PORT_ID_MAX_def upt_rec split: prod.splits)

subsection \<open>The header around a packet\<close>

lemma word_at_bytes: "word_at (xs @ word_bytes w @ ys) (length xs) = w"
proof -
  have "push_bit 24 (ucast (ucast (drop_bit 24 w) :: u8)) OR push_bit 16 (ucast (ucast (drop_bit 16 w) :: u8)) OR
      push_bit 8 (ucast (ucast (drop_bit 8 w) :: u8)) OR ucast (ucast w :: u8) = w"
  proof (rule bit_word_eqI)
    fix n assume "n < LENGTH(32)"
    then consider "n < 8" | "8 \<le> n" "n < 16" | "16 \<le> n" "n < 24" | "24 \<le> n" "n < 32" by fastforce
    then show "bit (push_bit 24 (ucast (ucast (drop_bit 24 w) :: u8)) OR push_bit 16 (ucast (ucast (drop_bit 16 w) :: u8)) OR
      push_bit 8 (ucast (ucast (drop_bit 8 w) :: u8)) OR ucast (ucast w :: u8) :: u32) n = bit w n"
      by cases (auto simp: bit_simps)
  qed
  then show ?thesis by (simp add: word_at_def word_bytes_def nth_append)
qed

lemma tx_fields:
  "field 0 7 (word_of_tx h) = take_bit 7 (dst_port h)"
  "field 7 1 (word_of_tx h) = take_bit 1 (from_cpu h)"
  "field 14 2 (word_of_tx h) = take_bit 2 (tx_version h)"
  "field 16 16 (word_of_tx h) = take_bit 16 (tx_type h)"
  unfolding field_def word_of_tx_def by (rule bit_word_eqI, auto simp: bit_simps simp del: take_bit_Suc_0)+

text \<open>C29: The header that is put into a packet names the port, the type and the version, and the packet comes
  out again when the header is stripped; a packet of more than 508 bytes overruns the buffer.\<close>

theorem private_header_roundtrip:
  assumes "12 \<le> length p" and "unat pnum \<le> 6"
  shows "case copy_with_header hdr_type pnum p of
      Fault e \<Rightarrow> e = Out_Of_Bounds \<and> length p > 508
    | Returns q \<Rightarrow>
        length p \<le> 508 \<and> length q = length p + 4 \<and> strip_header q = p \<and> take 12 q = take 12 p \<and>
        field 0 7 (word_at q 12) = push_bit (unat pnum) 1 \<and> field 7 1 (word_at q 12) = 1 \<and>
        field 14 2 (word_at q 12) = 2 \<and> field 16 16 (word_at q 12) = ucast hdr_type"
proof (cases "length p \<le> 508")
  case True
  define h where "h = tx_header hdr_type pnum"
  define q where "q = take 12 p @ word_bytes (word_of_tx h) @ drop 12 p"
  have c: "copy_with_header hdr_type pnum p = Returns q"
    using True assms(1) by (simp add: copy_with_header_def q_def h_def QCA_SW_PRIV_HDR_OFFSET_def QCA_SW_CONTROL_PKT_MAX_SIZE_def)
  have len: "length (take 12 p) = 12" using assms(1) by simp
  have w: "word_at q 12 = word_of_tx h" using word_at_bytes [of "take 12 p"] unfolding len q_def .
  have q: "length q = length p + 4" "strip_header q = p" "take 12 q = take 12 p"
    using assms(1) by (simp_all add: q_def strip_header_def QCA_SW_PRIV_HDR_OFFSET_def word_bytes_def)
  have "take_bit 7 (push_bit (unat pnum) 1 :: u32) = push_bit (unat pnum) 1"
    using assms(2) by (intro bit_word_eqI) (auto simp: bit_simps)
  moreover have "take_bit 16 (ucast hdr_type :: u32) = ucast hdr_type"
    by (intro bit_word_eqI) (auto simp: bit_simps dest: bit_imp_le_length)
  ultimately show ?thesis
    using True by (simp add: c q w tx_fields del: One_nat_def) (simp add: h_def tx_header_def QCA_SW_PRIV_HDR_VERSION_def)
next
  case False
  then show ?thesis
    by (simp add: copy_with_header_def QCA_SW_PRIV_HDR_OFFSET_def QCA_SW_CONTROL_PKT_MAX_SIZE_def)
qed

theorem private_header_roundtrip_witness:
  "\<exists>q. copy_with_header 0xfefe 3 (replicate 124 0) = Returns q \<and> strip_header q = replicate 124 0"
  using private_header_roundtrip [of "replicate 124 0" 3 "0xfefe"] by (auto split: outcome.splits)

end
