(* ===== verification/Qca_Switch.thy ===== *)
theory Qca_Switch
  imports Qca_Shell Qca_Packet
begin

text \<open>
  The driver of the QCA switches (general_device_qca_switch.c and .h): the calls of the switch
  layer it provides, on the switch driver in the kernel, raw sockets and the configuration script.
  What the kernel does is a parameter.
\<close>

subsection \<open>Data\<close>

definition QCA_SW_WORDS_PER_PORT :: nat where "QCA_SW_WORDS_PER_PORT = 5"
definition QCA_SW_NUM_MAX :: nat where "QCA_SW_NUM_MAX = 2"
definition QCA_SW_DOMAIN_INIT :: u32 where "QCA_SW_DOMAIN_INIT = 0xf0"
definition QCA_SW_INTERNAL_DOMAIN_INIT :: u32 where "QCA_SW_INTERNAL_DOMAIN_INIT = 0xf0"
definition QCA_SW_PORT_NUM :: nat where "QCA_SW_PORT_NUM = (QCA_SW_PORT_ID_MAX - QCA_SW_PORT_ID_MIN) + 1"
definition QCA_SW_AGG_ID_MIN :: nat where "QCA_SW_AGG_ID_MIN = 0"
definition QCA_SW_AGG_ID_MAX :: nat where "QCA_SW_AGG_ID_MAX = 3"
definition QCA_SW_AGG_NUM :: nat where "QCA_SW_AGG_NUM = (QCA_SW_AGG_ID_MAX - QCA_SW_AGG_ID_MIN) + 1"
definition QCA_SWITCH_LAYER_DEPTH :: u32 where "QCA_SWITCH_LAYER_DEPTH = 2"
definition QCA_SW_TX_HASH_DA_EN :: u32 where "QCA_SW_TX_HASH_DA_EN = push_bit 0 1"
definition QCA_SW_TX_HASH_SA_EN :: u32 where "QCA_SW_TX_HASH_SA_EN = push_bit 1 1"
definition QCA_SW_TX_HASH_DIP_EN :: u32 where "QCA_SW_TX_HASH_DIP_EN = push_bit 2 1"
definition QCA_SW_TX_HASH_SIP_EN :: u32 where "QCA_SW_TX_HASH_SIP_EN = push_bit 3 1"

datatype sw_api =
    SW_API_MIRROR_ANALY_PT_SET | SW_API_FDB_RESV_ADD | SW_API_FDB_RESV_DEL | SW_API_TRUNK_HASH_SET
  | SW_API_TRUNK_HASH_GET | SW_API_FDB_DELPORT | SW_API_PT_SPEED_GET | SW_API_PT_DUPLEX_GET
  | SW_API_PT_LINK_STATUS_GET | SW_API_HEADER_TYPE_SET | SW_API_PT_RXHDR_SET | SW_API_PT_TXHDR_SET
  | SW_API_STP_PT_STATE_SET | SW_API_TRUNK_GROUP_SET | SW_API_TRUNK_GROUP_GET | SW_API_OTHER nat

fun qca_switch_api_param_nums :: "sw_api \<Rightarrow> nat" where
  "qca_switch_api_param_nums SW_API_MIRROR_ANALY_PT_SET = 2"
| "qca_switch_api_param_nums SW_API_FDB_RESV_ADD = 2"
| "qca_switch_api_param_nums SW_API_FDB_RESV_DEL = 2"
| "qca_switch_api_param_nums SW_API_TRUNK_HASH_SET = 2"
| "qca_switch_api_param_nums SW_API_TRUNK_HASH_GET = 2"
| "qca_switch_api_param_nums SW_API_FDB_DELPORT = 3"
| "qca_switch_api_param_nums SW_API_PT_SPEED_GET = 3"
| "qca_switch_api_param_nums SW_API_PT_DUPLEX_GET = 3"
| "qca_switch_api_param_nums SW_API_PT_LINK_STATUS_GET = 3"
| "qca_switch_api_param_nums SW_API_HEADER_TYPE_SET = 3"
| "qca_switch_api_param_nums SW_API_PT_RXHDR_SET = 3"
| "qca_switch_api_param_nums SW_API_PT_TXHDR_SET = 3"
| "qca_switch_api_param_nums SW_API_STP_PT_STATE_SET = 4"
| "qca_switch_api_param_nums SW_API_TRUNK_GROUP_SET = 4"
| "qca_switch_api_param_nums SW_API_TRUNK_GROUP_GET = 4"
| "qca_switch_api_param_nums (SW_API_OTHER n) = 0"

datatype fal_fwd_cmd_t = FAL_MAC_FRWRD | FAL_MAC_DROP | FAL_MAC_CPY_TO_CPU | FAL_MAC_RDT_TO_CPU

record fal_fdb_entry_t =
  addr :: mac_addr
  fid :: u16
  dacmd :: fal_fwd_cmd_t
  sacmd :: fal_fwd_cmd_t
  port_map :: u32
  portmap_en :: bool
  is_multicast :: bool
  static_en :: bool
  leaky_en :: bool
  mirror_en :: bool
  clone_en :: bool
  cross_pt_state :: bool
  da_pri_en :: bool
  da_queue :: u8
  white_list_en :: bool

datatype qca_sw_reserved_fdb_type = QCA_SW_RESV_FDB_STP | QCA_SW_RESV_FDB_LACP | QCA_SW_RESV_FDB_MAX

definition resv_entry :: "u8 \<Rightarrow> fal_fdb_entry_t" where
  "resv_entry b = \<lparr>addr = Mac 0x01 0x80 0xc2 0 0 b, fid = 65535, dacmd = FAL_MAC_RDT_TO_CPU, sacmd = FAL_MAC_FRWRD,
     port_map = 0, portmap_en = True, is_multicast = True, static_en = True, leaky_en = False, mirror_en = True,
     clone_en = False, cross_pt_state = True, da_pri_en = False, da_queue = 0, white_list_en = False\<rparr>"

fun resv_entries :: "qca_sw_reserved_fdb_type \<Rightarrow> fal_fdb_entry_t" where
  "resv_entries QCA_SW_RESV_FDB_LACP = resv_entry 2"
| "resv_entries _ = resv_entry 0"

text \<open>An argument of an ioctl: a word, or what it points to.\<close>

datatype sw_arg = Val u32 | Fdb_Entry fal_fdb_entry_t | Result

record qca_switch_system =
  cpu_port :: int
  cpu_port_priv_hdr_enabled :: int
  mirror_port :: int
  mirror_port_priv_hdr_enabled :: int
  private_hdr_type :: u16
  private_hdr_enabled :: int
  stp_reserved_fdb_enabled :: int
  lacp_reserved_fdb_enabled :: int
  raw_socket_fd :: int
  raw_socket_enabled :: int
  port_domain :: u32
  agg_domain :: u32
  agg_id_bitmap :: u32
  support_priv_hdr_in_agg :: bool

record 'k qca_state = switch_state +
  qca_mem :: "sys_ref \<Rightarrow> qca_switch_system"
  qca_switch_driver_fd :: int
  kernel :: 'k

text \<open>
  What the driver asks of the system: \<open>k_ioctl\<close> tells whether the call and the operation
  succeeded, \<open>k_ioctl_get\<close> gives the value a query wrote to its last argument, if any.
\<close>

record 'k qca_kernel =
  k_open :: "string \<Rightarrow> 'k \<Rightarrow> int \<times> 'k"
  k_ioctl :: "sw_api \<Rightarrow> sw_arg list \<Rightarrow> 'k \<Rightarrow> bool \<times> 'k"
  k_ioctl_get :: "sw_api \<Rightarrow> sw_arg list \<Rightarrow> 'k \<Rightarrow> u32 option"
  k_popen :: "'k \<Rightarrow> string \<Rightarrow> string option"
  k_alloc :: "'k \<Rightarrow> bool \<times> 'k"
  k_socket :: "u16 \<Rightarrow> 'k \<Rightarrow> int \<times> 'k"
  k_nonblock :: "int \<Rightarrow> 'k \<Rightarrow> bool \<times> 'k"
  k_fd_add :: "int \<Rightarrow> 'k \<Rightarrow> bool \<times> 'k"
  k_fd_del :: "int \<Rightarrow> 'k \<Rightarrow> bool \<times> 'k"
  k_close :: "int \<Rightarrow> 'k \<Rightarrow> bool \<times> 'k"
  k_sendto :: "int \<Rightarrow> u32 \<Rightarrow> u16 \<Rightarrow> u8 list \<Rightarrow> 'k \<Rightarrow> int \<times> 'k"

definition upd_qca ::
    "sys_ref \<Rightarrow> (qca_switch_system \<Rightarrow> qca_switch_system) \<Rightarrow> ('k, 'z) qca_state_scheme \<Rightarrow> ('k, 'z) qca_state_scheme" where
  "upd_qca r f w = w\<lparr>qca_mem := (qca_mem w)(r := f (qca_mem w r))\<rparr>"

text \<open>A call of the system in the state of the program.\<close>

definition kcall :: "('k \<Rightarrow> 'v \<times> 'k) \<Rightarrow> ('k, 'z) qca_state_scheme \<Rightarrow> 'v \<times> ('k, 'z) qca_state_scheme" where
  "kcall f w = (let (v, k) = f (kernel w) in (v, w\<lparr>kernel := k\<rparr>))"

subsection \<open>The switch driver in the kernel\<close>

definition open_driver :: "'k qca_kernel \<Rightarrow> ('k, 'z) qca_state_scheme \<Rightarrow> ('k, 'z) qca_state_scheme" where
  "open_driver K w =
     (if qca_switch_driver_fd w < 0
      then let (fd, w1) = kcall (k_open K ''/dev/switch_ssdk'') w in w1\<lparr>qca_switch_driver_fd := fd\<rparr>
      else w)"

definition qca_switch_ioctl ::
    "'k qca_kernel \<Rightarrow> sw_api \<Rightarrow> sw_arg list \<Rightarrow> ('k, 'z) qca_state_scheme \<Rightarrow> bool \<times> ('k, 'z) qca_state_scheme" where
  "qca_switch_ioctl K api_id args w =
     (let nr_param = qca_switch_api_param_nums api_id in
      if nr_param = 0 then (False, w)
      else
        let w1 = open_driver K w in
        if qca_switch_driver_fd w1 < 0 then (False, w1)
        else kcall (k_ioctl K api_id (take nr_param args)) w1)"

text \<open>
  A query: the value it stores, or \<open>init\<close>, the value of the variable before, if it stores none. That
  a query opens the driver when it is not open yet is not kept; the next call opens it.
\<close>

definition qca_switch_query ::
    "'k qca_kernel \<Rightarrow> sw_api \<Rightarrow> sw_arg list \<Rightarrow> u32 \<Rightarrow> ('k, 'z) qca_state_scheme \<Rightarrow> u32" where
  "qca_switch_query K api_id args init w =
     (let w1 = open_driver K w in
      if qca_switch_driver_fd w1 < 0 then init
      else (case k_ioctl_get K api_id (take (qca_switch_api_param_nums api_id) args) (kernel w1) of
              None \<Rightarrow> init
            | Some v \<Rightarrow> v))"

abbreviation "sw_obj w r \<equiv> Val (switch_obj (sw_mem w r))"
abbreviation "flag enable \<equiv> Val (if enable then 1 else 0)"

subsection \<open>Counted resources\<close>

text \<open>
  A resource is switched on by the first user and off by the last: \<open>count\<close> steps a counter, and
  the hardware is told when the counter reaches the value of the flag.
\<close>

definition count :: "bool \<Rightarrow> int \<Rightarrow> int" where
  "count enable n = (if enable then n + 1 else n - 1)"

definition counted :: "bool \<Rightarrow> int \<Rightarrow> bool" where
  "counted enable n \<longleftrightarrow> n = (if enable then 1 else 0)"

definition qca_switch_enable_private_header ::
    "'k qca_kernel \<Rightarrow> sys_ref \<Rightarrow> bool \<Rightarrow> ('k, 'z) qca_state_scheme \<Rightarrow> bool \<times> ('k, 'z) qca_state_scheme" where
  "qca_switch_enable_private_header K r enable w =
     (if private_hdr_type (qca_mem w r) = 0 then (True, w)
      else
        let w1 = upd_qca r (\<lambda>q. q\<lparr>private_hdr_enabled := count enable (private_hdr_enabled q)\<rparr>) w in
        if \<not> counted enable (private_hdr_enabled (qca_mem w1 r)) then (True, w1)
        else
          let (ret, w2) = qca_switch_ioctl K SW_API_HEADER_TYPE_SET
                [sw_obj w1 r, flag enable, Val (if enable then ucast (private_hdr_type (qca_mem w1 r)) else 0)] w1
          in (ret, if ret then w2
                   else upd_qca r (\<lambda>q. q\<lparr>raw_socket_enabled := count (\<not> enable) (raw_socket_enabled q)\<rparr>) w2))"

text \<open>\<^verbatim>\<open>ret = ret && f(...)\<close>\<close>

definition and_call :: "('w \<Rightarrow> bool \<times> 'w) \<Rightarrow> bool \<times> 'w \<Rightarrow> bool \<times> 'w" where
  "and_call f res = (if fst res then f (snd res) else res)"

definition qca_switch_enable_private_header_on_cpu_port ::
    "'k qca_kernel \<Rightarrow> sys_ref \<Rightarrow> bool \<Rightarrow> ('k, 'z) qca_state_scheme \<Rightarrow> bool \<times> ('k, 'z) qca_state_scheme" where
  "qca_switch_enable_private_header_on_cpu_port K r enable w =
     (if cpu_port (qca_mem w r) < 0 then (True, w)
      else
        let w1 = upd_qca r (\<lambda>q. q\<lparr>cpu_port_priv_hdr_enabled := count enable (cpu_port_priv_hdr_enabled q)\<rparr>) w in
        if \<not> counted enable (cpu_port_priv_hdr_enabled (qca_mem w1 r)) then (True, w1)
        else
          let args = [sw_obj w1 r, Val (of_int (cpu_port (qca_mem w1 r))), flag enable];
              (ret, w2) = and_call (qca_switch_ioctl K SW_API_PT_TXHDR_SET args)
                            (qca_switch_ioctl K SW_API_PT_RXHDR_SET args w1)
          in (ret, if ret then w2
                   else upd_qca r (\<lambda>q. q\<lparr>cpu_port_priv_hdr_enabled := count (\<not> enable) (cpu_port_priv_hdr_enabled q)\<rparr>) w2))"

definition qca_switch_enable_private_header_on_mirror_port ::
    "'k qca_kernel \<Rightarrow> sys_ref \<Rightarrow> bool \<Rightarrow> ('k, 'z) qca_state_scheme \<Rightarrow> bool \<times> ('k, 'z) qca_state_scheme" where
  "qca_switch_enable_private_header_on_mirror_port K r enable w =
     (if mirror_port (qca_mem w r) < 0 then (True, w)
      else
        let w1 = upd_qca r (\<lambda>q. q\<lparr>mirror_port_priv_hdr_enabled := count enable (mirror_port_priv_hdr_enabled q)\<rparr>) w in
        if \<not> counted enable (mirror_port_priv_hdr_enabled (qca_mem w1 r)) then (True, w1)
        else
          let port = Val (of_int (mirror_port (qca_mem w1 r)));
              args = [sw_obj w1 r, port, flag enable];
              (ret, w2) = and_call (qca_switch_ioctl K SW_API_MIRROR_ANALY_PT_SET [sw_obj w1 r, port])
                            (and_call (qca_switch_ioctl K SW_API_PT_TXHDR_SET args)
                              (qca_switch_ioctl K SW_API_PT_RXHDR_SET args w1))
          in (ret, if ret then w2
                   else upd_qca r (\<lambda>q. q\<lparr>mirror_port_priv_hdr_enabled := count (\<not> enable) (mirror_port_priv_hdr_enabled q)\<rparr>) w2))"

definition resv_counter :: "qca_sw_reserved_fdb_type \<Rightarrow> qca_switch_system \<Rightarrow> int" where
  "resv_counter typ q = (if typ = QCA_SW_RESV_FDB_STP then stp_reserved_fdb_enabled q else lacp_reserved_fdb_enabled q)"

definition step_resv_counter :: "qca_sw_reserved_fdb_type \<Rightarrow> bool \<Rightarrow> qca_switch_system \<Rightarrow> qca_switch_system" where
  "step_resv_counter typ enable q =
     (if typ = QCA_SW_RESV_FDB_STP
      then q\<lparr>stp_reserved_fdb_enabled := count enable (stp_reserved_fdb_enabled q)\<rparr>
      else q\<lparr>lacp_reserved_fdb_enabled := count enable (lacp_reserved_fdb_enabled q)\<rparr>)"

definition qca_switch_enable_reserved_fdb ::
    "'k qca_kernel \<Rightarrow> sys_ref \<Rightarrow> qca_sw_reserved_fdb_type \<Rightarrow> bool \<Rightarrow>
     ('k, 'z) qca_state_scheme \<Rightarrow> bool \<times> ('k, 'z) qca_state_scheme" where
  "qca_switch_enable_reserved_fdb K r typ enable w =
     (if typ = QCA_SW_RESV_FDB_MAX then (False, w)
      else
        let w1 = upd_qca r (step_resv_counter typ enable) w in
        if \<not> counted enable (resv_counter typ (qca_mem w1 r)) then (True, w1)
        else
          let (ret, w2) = qca_switch_ioctl K (if enable then SW_API_FDB_RESV_ADD else SW_API_FDB_RESV_DEL)
                            [sw_obj w1 r, Fdb_Entry (resv_entries typ)] w1
          in (ret, if ret then w2 else upd_qca r (step_resv_counter typ (\<not> enable)) w2))"

definition open_raw_socket ::
    "'k qca_kernel \<Rightarrow> sys_ref \<Rightarrow> ('k, 'z) qca_state_scheme \<Rightarrow> bool \<times> ('k, 'z) qca_state_scheme" where
  "open_raw_socket K r w =
     (let (fd, w1) = kcall (k_socket K (htons (private_hdr_type (qca_mem w r)))) w;
          w2 = upd_qca r (\<lambda>q. q\<lparr>raw_socket_fd := fd\<rparr>) w1
      in if fd < 0 then (False, w2)
         else and_call (kcall (k_fd_add K fd)) (kcall (k_nonblock K fd) w2))"

definition close_raw_socket ::
    "'k qca_kernel \<Rightarrow> sys_ref \<Rightarrow> ('k, 'z) qca_state_scheme \<Rightarrow> bool \<times> ('k, 'z) qca_state_scheme" where
  "close_raw_socket K r w =
     (let fd = raw_socket_fd (qca_mem w r);
          (ok, w1) = and_call (kcall (k_close K fd)) (kcall (k_fd_del K fd) w)
      in (ok, if ok then upd_qca r (\<lambda>q. q\<lparr>raw_socket_fd := 0\<rparr>) w1 else w1))"

definition qca_switch_enable_raw_socket ::
    "'k qca_kernel \<Rightarrow> sys_ref \<Rightarrow> bool \<Rightarrow> ('k, 'z) qca_state_scheme \<Rightarrow> bool \<times> ('k, 'z) qca_state_scheme" where
  "qca_switch_enable_raw_socket K r enable w =
     (if \<not> genl_dev_os_service_get w then (False, w)
      else if private_hdr_type (qca_mem w r) = 0 then (False, w)
      else
        let w1 = upd_qca r (\<lambda>q. q\<lparr>raw_socket_enabled := count enable (raw_socket_enabled q)\<rparr>) w in
        if \<not> counted enable (raw_socket_enabled (qca_mem w1 r)) then (True, w1)
        else
          let (ret, w2) = (if enable then open_raw_socket K r w1 else close_raw_socket K r w1)
          in (ret, if ret then w2
                   else upd_qca r (\<lambda>q. q\<lparr>raw_socket_enabled := count (\<not> enable) (raw_socket_enabled q)\<rparr>) w2))"

text \<open>
  Several resources in turn; when one fails, those before it are switched back in reverse order
  (the \<^verbatim>\<open>goto\<close> chain).
\<close>

fun with_undo :: "(bool \<Rightarrow> 'w \<Rightarrow> bool \<times> 'w) list \<Rightarrow> bool \<Rightarrow> 'w \<Rightarrow> bool \<times> 'w" where
  "with_undo [] enable w = (True, w)"
| "with_undo (f # fs) enable w =
     (let (ok, w1) = f enable w in
      if \<not> ok then (False, w1)
      else
        let (ok, w2) = with_undo fs enable w1 in
        if ok then (True, w2) else (False, snd (f (\<not> enable) w2)))"

definition protocol_steps ::
    "'k qca_kernel \<Rightarrow> sys_ref \<Rightarrow> qca_sw_reserved_fdb_type \<Rightarrow>
     (bool \<Rightarrow> ('k, 'z) qca_state_scheme \<Rightarrow> bool \<times> ('k, 'z) qca_state_scheme) list" where
  "protocol_steps K r typ =
     [qca_switch_enable_private_header K r, qca_switch_enable_private_header_on_cpu_port K r,
      qca_switch_enable_private_header_on_mirror_port K r, qca_switch_enable_reserved_fdb K r typ,
      qca_switch_enable_raw_socket K r]"

definition qca_switch_port_stp_enable where
  "qca_switch_port_stp_enable K p w = with_undo (protocol_steps K (sp_sw_sys (sp_mem w p)) QCA_SW_RESV_FDB_STP) True w"

definition qca_switch_port_stp_disable where
  "qca_switch_port_stp_disable K p w = with_undo (protocol_steps K (sp_sw_sys (sp_mem w p)) QCA_SW_RESV_FDB_STP) False w"

definition qca_switch_port_enable_lacp where
  "qca_switch_port_enable_lacp K p w = with_undo (protocol_steps K (sp_sw_sys (sp_mem w p)) QCA_SW_RESV_FDB_LACP) True w"

definition qca_switch_port_disable_lacp where
  "qca_switch_port_disable_lacp K p w = with_undo (protocol_steps K (sp_sw_sys (sp_mem w p)) QCA_SW_RESV_FDB_LACP) False w"

subsection \<open>Attributes of ports\<close>

definition qca_switch_port_get_link_status :: "'k qca_kernel \<Rightarrow> sp_ref \<Rightarrow> ('k, 'z) qca_state_scheme \<Rightarrow> bool" where
  "qca_switch_port_get_link_status K p w \<longleftrightarrow>
     qca_switch_query K SW_API_PT_LINK_STATUS_GET
       [sw_obj w (sp_sw_sys (sp_mem w p)), Val (port_num (sp_mem w p)), Result] 0 w \<noteq> 0"

definition qca_switch_port_get_duplex :: "'k qca_kernel \<Rightarrow> sp_ref \<Rightarrow> ('k, 'z) qca_state_scheme \<Rightarrow> u32" where
  "qca_switch_port_get_duplex K p w =
     qca_switch_query K SW_API_PT_DUPLEX_GET
       [sw_obj w (sp_sw_sys (sp_mem w p)), Val (port_num (sp_mem w p)), Result] 0 w"

definition qca_switch_port_get_speed :: "'k qca_kernel \<Rightarrow> sp_ref \<Rightarrow> ('k, 'z) qca_state_scheme \<Rightarrow> u32" where
  "qca_switch_port_get_speed K p w =
     qca_switch_query K SW_API_PT_SPEED_GET
       [sw_obj w (sp_sw_sys (sp_mem w p)), Val (port_num (sp_mem w p)), Result] 0 w"

definition qca_switch_port_is_bridge_member :: "sp_ref \<Rightarrow> sp_ref \<Rightarrow> ('k, 'z) qca_state_scheme \<Rightarrow> bool" where
  "qca_switch_port_is_bridge_member p br w = False"

definition qca_switch_port_flush_fdb ::
    "'k qca_kernel \<Rightarrow> sp_ref \<Rightarrow> ('k, 'z) qca_state_scheme \<Rightarrow> bool \<times> ('k, 'z) qca_state_scheme" where
  "qca_switch_port_flush_fdb K p w =
     qca_switch_ioctl K SW_API_FDB_DELPORT
       [sw_obj w (sp_sw_sys (sp_mem w p)), Val (port_num (sp_mem w p)), Val 0] w"

fun stp_state_value :: "general_device_stp_state \<Rightarrow> u32" where
  "stp_state_value GENL_DEV_STP_STATE_DISABLE = 0"
| "stp_state_value GENL_DEV_STP_STATE_BLOCK = 1"
| "stp_state_value GENL_DEV_STP_STATE_LISTEN = 2"
| "stp_state_value GENL_DEV_STP_STATE_LEARN = 3"
| "stp_state_value GENL_DEV_STP_STATE_FORWARD = 4"

definition qca_switch_port_set_stp_state ::
    "'k qca_kernel \<Rightarrow> sp_ref \<Rightarrow> general_device_stp_state \<Rightarrow> ('k, 'z) qca_state_scheme \<Rightarrow> bool \<times> ('k, 'z) qca_state_scheme" where
  "qca_switch_port_set_stp_state K p state w =
     qca_switch_ioctl K SW_API_STP_PT_STATE_SET
       [sw_obj w (sp_sw_sys (sp_mem w p)), Val 0, Val (port_num (sp_mem w p)), Val (stp_state_value state)] w"

subsection \<open>Aggregators\<close>

definition qca_sw_agg_id_is_valid :: "u32 \<Rightarrow> bool" where
  "qca_sw_agg_id_is_valid agg_id \<longleftrightarrow> unat agg_id \<le> QCA_SW_AGG_ID_MAX \<and> unat agg_id \<ge> QCA_SW_AGG_ID_MIN"

definition qca_switch_allocate_agg_id :: "sys_ref \<Rightarrow> ('k, 'z) qca_state_scheme \<Rightarrow> u32 \<times> ('k, 'z) qca_state_scheme" where
  "qca_switch_allocate_agg_id r w =
     (case find (\<lambda>idx. agg_id_bitmap (qca_mem w r) AND push_bit idx 1 = 0) [QCA_SW_AGG_ID_MIN..<Suc QCA_SW_AGG_ID_MAX] of
        None \<Rightarrow> (of_nat (QCA_SW_AGG_ID_MAX + 1), w)
      | Some idx \<Rightarrow> (of_nat idx, upd_qca r (\<lambda>q. q\<lparr>agg_id_bitmap := agg_id_bitmap q OR push_bit idx 1\<rparr>) w))"

definition qca_switch_free_agg_id :: "sys_ref \<Rightarrow> u32 \<Rightarrow> ('k, 'z) qca_state_scheme \<Rightarrow> ('k, 'z) qca_state_scheme" where
  "qca_switch_free_agg_id r agg_id w =
     (if \<not> qca_sw_agg_id_is_valid agg_id then w
      else upd_qca r (\<lambda>q. q\<lparr>agg_id_bitmap := agg_id_bitmap q AND NOT (push_bit (unat agg_id) 1)\<rparr>) w)"

definition qca_sw_agg_id_is_active :: "sys_ref \<Rightarrow> u32 \<Rightarrow> ('k, 'z) qca_state_scheme \<Rightarrow> bool" where
  "qca_sw_agg_id_is_active r agg_id w \<longleftrightarrow>
     qca_sw_agg_id_is_valid agg_id \<and> agg_id_bitmap (qca_mem w r) AND push_bit (unat agg_id) 1 \<noteq> 0"

text \<open>The index of an aggregator in the hardware.\<close>

abbreviation agg_index where
  "agg_index w p \<equiv> switch_port_obj (sp_mem w p) - agg_domain (qca_mem w (sp_sw_sys (sp_mem w p)))"

definition qca_switch_new_aggregator :: "sp_ref \<Rightarrow> ('k, 'z) qca_state_scheme \<Rightarrow> bool \<times> ('k, 'z) qca_state_scheme" where
  "qca_switch_new_aggregator p w =
     (let r = sp_sw_sys (sp_mem w p);
          (agg_id, w1) = qca_switch_allocate_agg_id r w
      in if \<not> qca_sw_agg_id_is_valid agg_id then (False, w1)
         else (True, upd_sp p (\<lambda>P. P\<lparr>switch_port_obj := agg_domain (qca_mem w1 r) + agg_id\<rparr>) w1))"

definition qca_switch_destroy_aggregator ::
    "'k qca_kernel \<Rightarrow> sp_ref \<Rightarrow> ('k, 'z) qca_state_scheme \<Rightarrow> bool \<times> ('k, 'z) qca_state_scheme" where
  "qca_switch_destroy_aggregator K p w =
     (let r = sp_sw_sys (sp_mem w p); agg_id = agg_index w p in
      if \<not> qca_sw_agg_id_is_active r agg_id w then (False, w)
      else
        let (ok, w1) = qca_switch_ioctl K SW_API_TRUNK_GROUP_SET
              [sw_obj w r, Val agg_id, Val 0, Val (port_num (sp_mem w p))] w
        in if \<not> ok then (False, w1) else (True, qca_switch_free_agg_id r agg_id w1))"

definition qca_switch_port_is_aggregator :: "sp_ref \<Rightarrow> sp_ref option \<Rightarrow> ('k, 'z) qca_state_scheme \<Rightarrow> bool" where
  "qca_switch_port_is_aggregator m s w = qca_sw_agg_id_is_active (sp_sw_sys (sp_mem w m)) (agg_index w m) w"

definition qca_switch_port_attach_slave ::
    "'k qca_kernel \<Rightarrow> sp_ref \<Rightarrow> sp_ref \<Rightarrow> ('k, 'z) qca_state_scheme \<Rightarrow> bool \<times> ('k, 'z) qca_state_scheme" where
  "qca_switch_port_attach_slave K m s w =
     (let r = sp_sw_sys (sp_mem w m); agg_id = agg_index w m in
      if \<not> qca_sw_agg_id_is_active r agg_id w then (False, w)
      else qca_switch_ioctl K SW_API_TRUNK_GROUP_SET
             [sw_obj w r, Val agg_id, Val 1,
              Val (port_num (sp_mem w m) OR push_bit (unat (port_num (sp_mem w s))) 1)] w)"

definition qca_switch_port_detach_slave ::
    "'k qca_kernel \<Rightarrow> sp_ref \<Rightarrow> sp_ref \<Rightarrow> ('k, 'z) qca_state_scheme \<Rightarrow> bool \<times> ('k, 'z) qca_state_scheme" where
  "qca_switch_port_detach_slave K m s w =
     (let r = sp_sw_sys (sp_mem w m); agg_id = agg_index w m in
      if \<not> qca_sw_agg_id_is_active r agg_id w then (False, w)
      else qca_switch_ioctl K SW_API_TRUNK_GROUP_SET
             [sw_obj w r, Val agg_id, Val 1,
              Val (port_num (sp_mem w m) AND NOT (push_bit (unat (port_num (sp_mem w s))) 1))] w)"

fun policy_bitmap :: "general_device_agg_tx_hash_policy \<Rightarrow> u32 option" where
  "policy_bitmap GENL_DEV_AGG_TX_HASH_POLICY_L2 = Some (QCA_SW_TX_HASH_DA_EN OR QCA_SW_TX_HASH_SA_EN)"
| "policy_bitmap GENL_DEV_AGG_TX_HASH_POLICY_L3 = Some (QCA_SW_TX_HASH_DIP_EN OR QCA_SW_TX_HASH_SIP_EN)"
| "policy_bitmap GENL_DEV_AGG_TX_HASH_POLICY_L2_L3 =
     Some (QCA_SW_TX_HASH_DA_EN OR QCA_SW_TX_HASH_SA_EN OR QCA_SW_TX_HASH_DIP_EN OR QCA_SW_TX_HASH_SIP_EN)"
| "policy_bitmap _ = None"

definition qca_switch_port_set_tx_hash_policy ::
    "'k qca_kernel \<Rightarrow> sp_ref \<Rightarrow> general_device_agg_tx_hash_policy \<Rightarrow>
     ('k, 'z) qca_state_scheme \<Rightarrow> bool \<times> ('k, 'z) qca_state_scheme" where
  "qca_switch_port_set_tx_hash_policy K p policy w =
     (case policy_bitmap policy of
        None \<Rightarrow> (False, w)
      | Some bits \<Rightarrow> qca_switch_ioctl K SW_API_TRUNK_HASH_SET [sw_obj w (sp_sw_sys (sp_mem w p)), Val bits] w)"

end
