(* ===== verification/Qca_Driver.thy ===== *)
theory Qca_Driver
  imports Qca_Switch
begin

text \<open>
  The rest of the QCA switch driver (general_device_qca_switch.c): packets on the raw socket, the
  ports described by the configuration, the queries of the wrapper, and the driver as a set of
  operations of the switch layer.
\<close>

subsection \<open>Packets\<close>

text \<open>\<open>sysops\<close> are the device systems of the general device layer, where names are resolved.\<close>

definition qca_switch_send_packet ::
    "'k qca_kernel \<Rightarrow> (sys_ref \<Rightarrow> ('k, 'z) qca_state_scheme general_device_ops) \<Rightarrow> sys_ref \<Rightarrow> sp_ref \<Rightarrow> u8 list \<Rightarrow>
     ('k, 'z) qca_state_scheme \<Rightarrow> (bool \<times> ('k, 'z) qca_state_scheme) outcome" where
  "qca_switch_send_packet K sysops r p buf w =
     (let netdev_obj = genl_dev_name_to_netdev_obj sysops (Some (control_channel (sp_mem w p))) w;
          q = qca_mem w r
      in
      if netdev_obj_is_invalid netdev_obj then Returns (False, w)
      else
        let (ok, w1) = kcall (k_alloc K) w in
        if \<not> ok then Returns (False, w1)
        else
          bind_outcome (copy_with_header (private_hdr_type q) (port_num (sp_mem w1 p)) buf)
            (\<lambda>copied.
               let copied =
                     (if switch_port_is_agg_slave w1 p \<and> \<not> support_priv_hdr_in_agg q
                      then snd (qca_switch_change_smac_according_to_hash_alg
                                  (map_option (\<lambda>m. port_num (sp_mem w1 m)) (agg_parent (sp_mem w1 p)))
                                  (port_num (sp_mem w1 p)) copied)
                      else copied);
                   (sent_len, w2) = kcall (k_sendto K (raw_socket_fd q) netdev_obj (htons (private_hdr_type q)) copied) w1
               in Returns (sent_len = int (length copied), w2)))"

definition qca_switch_port_send_bpdu where
  "qca_switch_port_send_bpdu K sysops p buf w = qca_switch_send_packet K sysops (sp_sw_sys (sp_mem w p)) p buf w"

definition qca_switch_port_send_lacpdu where
  "qca_switch_port_send_lacpdu K sysops p buf w = qca_switch_send_packet K sysops (sp_sw_sys (sp_mem w p)) p buf w"

text \<open>
  A packet on the raw socket: \<open>frame\<close> is what \<^verbatim>\<open>recvfrom\<close> returns, with the index of the device
  it came from, and None when it fails.
\<close>

definition qca_switch_recv_packet ::
    "('k, 'z) qca_state_scheme switch_calls \<Rightarrow> sys_ref \<Rightarrow> bool \<Rightarrow> (u8 list \<times> u32) option \<Rightarrow>
     ('k, 'z) qca_state_scheme \<Rightarrow> ('k, 'z) qca_state_scheme outcome" where
  "qca_switch_recv_packet E r read_event frame w =
     (if \<not> read_event then Returns w
      else (case frame of
          None \<Rightarrow> Returns w
        | Some (buf, ifindex) \<Rightarrow>
            if buf = [] then Returns w
            else bind_outcome (genl_dev_netdev_obj_to_name (genl E) ifindex w)
              (\<lambda>name. case (name, qca_switch_private_header_parse (private_hdr_type (qca_mem w r)) buf) of
                 (Some channel, Some src) \<Rightarrow>
                   let adjusted_buf = strip_header buf; len = of_nat (length adjusted_buf) in
                   Returns (case qca_switch_pkt_type_parse adjusted_buf of
                       QCA_SW_PKT_TYPE_BPDU \<Rightarrow> snd (genl_dev_sw_port_recv_bpdu E r channel src adjusted_buf len w)
                     | QCA_SW_PKT_TYPE_LACPDU \<Rightarrow> snd (genl_dev_sw_port_recv_lacpdu E r channel src adjusted_buf len w)
                     | QCA_SW_PKT_TYPE_UNKNOWN \<Rightarrow> w)
               | _ \<Rightarrow> Returns w)))"

subsection \<open>Queries\<close>

definition qca_switch_get_agg_id_of_port ::
    "('k, 'z) qca_state_scheme switch_calls \<Rightarrow> sys_ref \<Rightarrow> u32 \<Rightarrow> ('k, 'z) qca_state_scheme \<Rightarrow> u32" where
  "qca_switch_get_agg_id_of_port E r num w =
     (case genl_dev_sw_port_lookup E r (port_domain (qca_mem w r) + num) w of
        None \<Rightarrow> 0xffff
      | Some port \<Rightarrow>
          (case agg_parent (sp_mem w port) of
             None \<Rightarrow> 0xffff
           | Some m \<Rightarrow> switch_port_obj (sp_mem w m) - agg_domain (qca_mem w r)))"

definition qca_switch_get_ports_of_agg ::
    "('k, 'z) qca_state_scheme switch_calls \<Rightarrow> sys_ref \<Rightarrow> u32 \<Rightarrow> ('k, 'z) qca_state_scheme \<Rightarrow> u32" where
  "qca_switch_get_ports_of_agg E r agg_id w =
     (case genl_dev_sw_port_lookup E r (agg_domain (qca_mem w r) + agg_id) w of
        None \<Rightarrow> 0 | Some agg \<Rightarrow> port_num (sp_mem w agg))"

definition qca_switch_get_port_hw_id ::
    "('k, 'z) qca_state_scheme switch_calls \<Rightarrow> sys_ref \<Rightarrow> u32 \<Rightarrow> ('k, 'z) qca_state_scheme \<Rightarrow> u32" where
  "qca_switch_get_port_hw_id E r netdev_obj w =
     (case genl_dev_sw_port_lookup E r netdev_obj w of
        None \<Rightarrow> 0xffff
      | Some port \<Rightarrow>
          switch_port_obj (sp_mem w port) -
            (if switch_port_is_aggregator E w port then agg_domain (qca_mem w r) else port_domain (qca_mem w r)))"

datatype qca_sw_private_functions =
    QCA_SW_PRIVATE_FUNC_get_agg_id_of_port
  | QCA_SW_PRIVATE_FUNC_get_ports_of_agg
  | QCA_SW_PRIVATE_FUNC_get_port_hw_id

definition private_function :: "u32 \<Rightarrow> qca_sw_private_functions option" where
  "private_function n =
     (if n = 0 then Some QCA_SW_PRIVATE_FUNC_get_agg_id_of_port
      else if n = 1 then Some QCA_SW_PRIVATE_FUNC_get_ports_of_agg
      else if n = 2 then Some QCA_SW_PRIVATE_FUNC_get_port_hw_id
      else None)"

text \<open>The result and what is written to \<^verbatim>\<open>output_arg\<close>, if anything.\<close>

definition qca_switch_private ::
    "('k, 'z) qca_state_scheme switch_calls \<Rightarrow> sys_ref \<Rightarrow> u32 \<Rightarrow> u32 \<Rightarrow> ('k, 'z) qca_state_scheme \<Rightarrow> bool \<times> u32 option" where
  "qca_switch_private E r func_id input_arg w =
     (if drop_bit 16 func_id \<noteq> QCA_SWITCH_LAYER_DEPTH then (False, None)
      else (case private_function (func_id AND 0xff) of
              None \<Rightarrow> (False, None)
            | Some QCA_SW_PRIVATE_FUNC_get_agg_id_of_port \<Rightarrow>
                (let v = qca_switch_get_agg_id_of_port E r input_arg w in (v \<noteq> 0xffff, Some v))
            | Some QCA_SW_PRIVATE_FUNC_get_ports_of_agg \<Rightarrow> (True, Some (qca_switch_get_ports_of_agg E r input_arg w))
            | Some QCA_SW_PRIVATE_FUNC_get_port_hw_id \<Rightarrow>
                (let v = qca_switch_get_port_hw_id E r input_arg w in (v \<noteq> 0xffff, Some v))))"

subsection \<open>The ports of the configuration\<close>

definition qca_switch_load_runtime_ports :: "sys_ref \<Rightarrow> ('k, 'z) qca_state_scheme \<Rightarrow> bool" where
  "qca_switch_load_runtime_ports r w = False"

text \<open>Five words describe a port; the first is the name of the switch behind a character.\<close>

fun load_port_list ::
    "('k, 'z) qca_state_scheme switch_calls \<Rightarrow> sys_ref \<Rightarrow> string list \<Rightarrow> ('k, 'z) qca_state_scheme \<Rightarrow>
     bool \<times> ('k, 'z) qca_state_scheme" where
  "load_port_list E r (name # ctrl_ch # data_ch # num # port_name # rest) w =
     (let pnum = (of_int (strtol num) :: u32) in
      if \<not> strncmp_eq GENERAL_DEVICE_SYSTEM_NAME_SIZE (drop 1 name) (sw_name (sw_mem w r)) then load_port_list E r rest w
      else if netdev_obj_is_invalid (genl_dev_name_to_netdev_obj (genl E) (Some ctrl_ch) w) then load_port_list E r rest w
      else if netdev_obj_is_invalid (genl_dev_name_to_netdev_obj (genl E) (Some data_ch) w) then load_port_list E r rest w
      else if pnum < of_nat QCA_SW_PORT_ID_MIN \<or> pnum > of_nat QCA_SW_PORT_ID_MAX then load_port_list E r rest w
      else
        (case genl_dev_sw_port_create E r (sw_snprintf (ctrl_ch @ ''.'' @ port_name)) pnum
                (port_domain (qca_mem w r) + pnum) (Some ctrl_ch) (Some data_ch) w of
           (None, w1) \<Rightarrow> (False, w1)
         | (Some p, w1) \<Rightarrow> load_port_list E r rest w1))"
| "load_port_list E r _ w = (True, w)"

definition qca_switch_load_ports ::
    "'k qca_kernel \<Rightarrow> ('k, 'z) qca_state_scheme switch_calls \<Rightarrow> sys_ref \<Rightarrow> ('k, 'z) qca_state_scheme \<Rightarrow>
     (bool \<times> ('k, 'z) qca_state_scheme) outcome" where
  "qca_switch_load_ports K E r w =
     bind_outcome
       (qca_switch_shell_cmd_get_word_list (k_popen K (kernel w)) (Some (sw_name (sw_mem w r))) ''get_switch_ports''
          (QCA_SW_WORDS_PER_PORT * QCA_SW_PORT_NUM))
       (\<lambda>ports_desc. Returns (load_port_list E r ports_desc w))"

definition qca_switch_init ::
    "'k qca_kernel \<Rightarrow> ('k, 'z) qca_state_scheme switch_calls \<Rightarrow> sys_ref \<Rightarrow> ('k, 'z) qca_state_scheme \<Rightarrow>
     (bool \<times> ('k, 'z) qca_state_scheme) outcome" where
  "qca_switch_init K E r w =
     (let (pd, w1) = genl_dev_sw_alloc_netdev_obj_domain r (of_nat QCA_SW_PORT_NUM) w;
          w2 = upd_qca r (\<lambda>q. q\<lparr>port_domain := pd\<rparr>) w1;
          (ad, w3) = genl_dev_sw_alloc_netdev_obj_domain r (of_nat QCA_SW_AGG_NUM) w2;
          w4 = upd_qca r (\<lambda>q. q\<lparr>agg_domain := ad\<rparr>) w3;
          get_int = qca_switch_shell_cmd_get_int (k_popen K (kernel w4)) (Some (sw_name (sw_mem w4 r)))
      in
      bind_outcome (get_int ''get_cpu_port'') (\<lambda>cpu.
      bind_outcome (get_int ''get_mirror_port'') (\<lambda>mirror.
      bind_outcome (get_int ''get_private_header_type'') (\<lambda>typ.
        let w5 = upd_qca r (\<lambda>q. q\<lparr>cpu_port := cpu, mirror_port := mirror, private_hdr_type := of_int typ\<rparr>) w4 in
        if qca_switch_load_runtime_ports r w5 then Returns (True, w5) else qca_switch_load_ports K E r w5))))"

definition qca_switch_exit :: "sys_ref \<Rightarrow> ('k, 'z) qca_state_scheme \<Rightarrow> bool \<times> ('k, 'z) qca_state_scheme" where
  "qca_switch_exit r w = (True, w)"

subsection \<open>The operations of the driver\<close>

text \<open>
  The function table of the driver. Its \<^verbatim>\<open>init\<close> and \<^verbatim>\<open>private\<close> call the switch layer, which calls the
  table: the lookups only use \<^verbatim>\<open>is_aggregator\<close>, so that they go through \<open>base_ops\<close>, the table
  without the two.
\<close>

definition base_ops ::
    "'k qca_kernel \<Rightarrow> (sys_ref \<Rightarrow> ('k, 'z) qca_state_scheme general_device_ops) \<Rightarrow> ('k, 'z) qca_state_scheme switch_ops" where
  "base_ops K sysops =
     \<lparr>hw_init = (\<lambda>r w. Returns (False, w)),
      hw_exit = qca_switch_exit,
      hw_private = None,
      hw_get_link_status = qca_switch_port_get_link_status K,
      hw_get_duplex = qca_switch_port_get_duplex K,
      hw_get_speed = qca_switch_port_get_speed K,
      hw_get_hw_addr = None,
      hw_system_get_hw_addr = None,
      hw_is_bridge_member = qca_switch_port_is_bridge_member,
      hw_flush_fdb = qca_switch_port_flush_fdb K,
      hw_stp_enable = qca_switch_port_stp_enable K,
      hw_stp_disable = qca_switch_port_stp_disable K,
      hw_set_port_state = qca_switch_port_set_stp_state K,
      hw_send_bpdu = qca_switch_port_send_bpdu K sysops,
      hw_agg_enable = qca_switch_port_enable_lacp K,
      hw_agg_disable = qca_switch_port_disable_lacp K,
      hw_new_aggregator = qca_switch_new_aggregator,
      hw_destroy_aggregator = qca_switch_destroy_aggregator K,
      hw_is_aggregator = qca_switch_port_is_aggregator,
      hw_is_slave = None,
      hw_number_of_slaves = None,
      hw_attach_slave = qca_switch_port_attach_slave K,
      hw_detach_slave = qca_switch_port_detach_slave K,
      hw_send_lacpdu = qca_switch_port_send_lacpdu K sysops,
      hw_set_tx_hash_policy = qca_switch_port_set_tx_hash_policy K\<rparr>"

definition base_calls ::
    "'k qca_kernel \<Rightarrow> (sys_ref \<Rightarrow> ('k, 'z) qca_state_scheme general_device_ops) \<Rightarrow>
     (user_ref \<Rightarrow> ('k, 'z) qca_state_scheme general_device_out_api) \<Rightarrow> ('k, 'z) qca_state_scheme switch_calls" where
  "base_calls K sysops out =
     \<lparr>hw = base_ops K sysops, genl = sysops, user_api = out, sw_calloc = kcall (k_alloc K)\<rparr>"

definition qca_calls ::
    "'k qca_kernel \<Rightarrow> (sys_ref \<Rightarrow> ('k, 'z) qca_state_scheme general_device_ops) \<Rightarrow>
     (user_ref \<Rightarrow> ('k, 'z) qca_state_scheme general_device_out_api) \<Rightarrow> ('k, 'z) qca_state_scheme switch_calls" where
  "qca_calls K sysops out =
     (base_calls K sysops out)\<lparr>hw := (base_ops K sysops)
        \<lparr>hw_init := qca_switch_init K (base_calls K sysops out),
         hw_private := Some (qca_switch_private (base_calls K sysops out))\<rparr>\<rparr>"

definition qca_system_zero :: qca_switch_system where
  "qca_system_zero = \<lparr>cpu_port = 0, cpu_port_priv_hdr_enabled = 0, mirror_port = 0, mirror_port_priv_hdr_enabled = 0,
     private_hdr_type = 0, private_hdr_enabled = 0, stp_reserved_fdb_enabled = 0, lacp_reserved_fdb_enabled = 0,
     raw_socket_fd = 0, raw_socket_enabled = 0, port_domain = 0, agg_domain = 0, agg_id_bitmap = 0,
     support_priv_hdr_in_agg = False\<rparr>"

text \<open>
  The registration of the switches: \<open>refs\<close> are the systems \<^verbatim>\<open>calloc\<close> returns for them, as long as
  it does.
\<close>

fun probe_switches ::
    "'k qca_kernel \<Rightarrow> nat \<Rightarrow> string list \<Rightarrow> sys_ref list \<Rightarrow> ('k, 'z) qca_state_scheme \<Rightarrow> ('k, 'z) qca_state_scheme outcome" where
  "probe_switches K idx (name # names) (r # refs) w =
     (let swname = sw_snprintf name in
      bind_outcome (qca_switch_shell_cmd_get_int (k_popen K (kernel w)) (Some swname) ''get_linkstatus_poll_interval'')
        (\<lambda>interval.
           let w1 = upd_qca r (\<lambda>_. qca_system_zero) w;
               w2 = upd_sw r (\<lambda>_. \<lparr>switch_ports = [], link_status_monitor = idle_timer, sw_name = swname,
                      switch_obj = of_nat idx, real_agg_dev = False, support_link_event = False,
                      link_status_poll_interval = unat (of_int interval :: u32)\<rparr>) w1;
               w3 = upd_sys r (\<lambda>_. \<lparr>ds_name = [], users = [], ds_domain = QCA_SW_DOMAIN_INIT + of_nat idx,
                      next_internal_domain = QCA_SW_INTERNAL_DOMAIN_INIT\<rparr>) w2;
               (ok, w4) = genl_dev_register_switch_system (Some r) w3
           in if ok then probe_switches K (Suc idx) names refs w4 else Returns w4))"
| "probe_switches K idx _ _ w = Returns w"

definition qca_switch_probe ::
    "'k qca_kernel \<Rightarrow> sys_ref list \<Rightarrow> ('k, 'z) qca_state_scheme \<Rightarrow> ('k, 'z) qca_state_scheme outcome" where
  "qca_switch_probe K refs w =
     bind_outcome (qca_switch_shell_cmd_get_word_list (k_popen K (kernel w)) None ''get_switch_list'' QCA_SW_NUM_MAX)
       (\<lambda>names. probe_switches K 0 names refs w)"

end
