(* ===== verification/Wrapper_Hub.thy ===== *)
theory Wrapper_Hub
  imports Lacp_Status Hotplug Qca_Driver
begin

text \<open>
  The side of the daemon's wrapper (qca/src/qca-lacpd/main.c, wrapper.h) that faces the devices:
  what LACP asks of the device system of an instance, and what the device systems report about
  ports that come and go. The state is the one of the device layer with the fields of the wrapper
  that these calls read or write.
\<close>

subsection \<open>State\<close>

datatype lacpd_cfg_tx_hash_policy =
    LACPD_CFG_TX_HASH_POLICY_L2
  | LACPD_CFG_TX_HASH_POLICY_L3
  | LACPD_CFG_TX_HASH_POLICY_L2_L3

datatype lacpd_cfg_ad_select_alg =
    AD_SELECT_ALG_ALL
  | AD_SELECT_ALG_STABLE
  | AD_SELECT_ALG_BANDWIDTH
  | AD_SELECT_ALG_COUNT

record lacpd_cfg_lacp_parameters =
  cfg_priority :: u32
  cfg_tx_hash_policy :: lacpd_cfg_tx_hash_policy
  cfg_lacp_rate :: bool
  cfg_ad_select :: lacpd_cfg_ad_select_alg

record lacpd_cfg_lacp_port_parameters =
  cfg_user_key :: u32

text \<open>Enumerators are passed on by value from one enumeration to the other.\<close>

fun tx_hash_policy_value :: "lacpd_cfg_tx_hash_policy \<Rightarrow> general_device_agg_tx_hash_policy" where
  "tx_hash_policy_value LACPD_CFG_TX_HASH_POLICY_L2 = GENL_DEV_AGG_TX_HASH_POLICY_L2"
| "tx_hash_policy_value LACPD_CFG_TX_HASH_POLICY_L3 = GENL_DEV_AGG_TX_HASH_POLICY_L3"
| "tx_hash_policy_value LACPD_CFG_TX_HASH_POLICY_L2_L3 = GENL_DEV_AGG_TX_HASH_POLICY_L2_L3"

fun ad_select_value :: "lacpd_cfg_ad_select_alg \<Rightarrow> lacp_ad_select_alg" where
  "ad_select_value AD_SELECT_ALG_ALL = LACP_AD_SELECT_ALG_ALL"
| "ad_select_value AD_SELECT_ALG_STABLE = LACP_AD_SELECT_ALG_STABLE"
| "ad_select_value AD_SELECT_ALG_BANDWIDTH = LACP_AD_SELECT_ALG_BANDWIDTH"
| "ad_select_value AD_SELECT_ALG_COUNT = LACP_AD_SELECT_ALG_COUNT"

text \<open>
  The fields of \<^verbatim>\<open>struct lacpd_wrapper_instance\<close> and \<^verbatim>\<open>struct lacpd_wrapper\<close> that calls from LACP
  and from the device systems need. An instance is also a user of its device system, so instances
  are numbered like users. The status systems are there once they have been initialised; what is
  handed to ubusd is recorded in \<open>ubus_notified\<close>. \<open>crashed\<close> is the first invalid access of the
  program: what happens after it has no meaning.
\<close>

record ('k, 'h) hub_state = "'k qca_state" +
  inst_dev_sys :: "user_ref \<Rightarrow> sys_ref option"
  inst_lacp_param :: "user_ref \<Rightarrow> lacpd_cfg_lacp_parameters"
  ubus_st_sys :: bool
  hotplug_st_sys :: bool
  ubus_notified :: "lacpd_hotplug_event list"
  hotplug :: "'h lacpd_hotplug_status_system"
  crashed :: "fault option"

definition crash :: "fault \<Rightarrow> ('k, 'h, 'z) hub_state_scheme \<Rightarrow> ('k, 'h, 'z) hub_state_scheme" where
  "crash e w = (if crashed w = None then w\<lparr>crashed := Some e\<rparr> else w)"

definition absorb ::
    "'r \<Rightarrow> (('k, 'h, 'z) hub_state_scheme \<Rightarrow> ('r \<times> ('k, 'h, 'z) hub_state_scheme) outcome) \<Rightarrow>
     ('k, 'h, 'z) hub_state_scheme \<Rightarrow> 'r \<times> ('k, 'h, 'z) hub_state_scheme" where
  "absorb dflt f w = (case f w of Fault e \<Rightarrow> (dflt, crash e w) | Returns res \<Rightarrow> res)"

subsection \<open>What LACP asks of the device system\<close>

text \<open>
  Each call goes to the device system of the instance \<open>u\<close>, if it has one; \<open>D\<close> gives the function
  table of a system.
\<close>

definition lacpd_wrapper_get_sys_hw_addr where
  "lacpd_wrapper_get_sys_hw_addr D u w =
     (case inst_dev_sys w u of None \<Rightarrow> (None, w) | Some r \<Rightarrow> absorb None (system_get_hw_addr (D r)) w)"

definition lacpd_wrapper_get_dev_name where
  "lacpd_wrapper_get_dev_name D u w dev_obj =
     (case inst_dev_sys w u of None \<Rightarrow> None | Some r \<Rightarrow> common_netdev_obj_to_name (D r) dev_obj w)"

definition lacpd_wrapper_get_dev_duplex where
  "lacpd_wrapper_get_dev_duplex D u w dev_obj =
     (case inst_dev_sys w u of None \<Rightarrow> 0 | Some r \<Rightarrow> common_get_duplex (D r) dev_obj w)"

definition lacpd_wrapper_get_dev_speed where
  "lacpd_wrapper_get_dev_speed D u w dev_obj =
     (case inst_dev_sys w u of None \<Rightarrow> 0 | Some r \<Rightarrow> common_get_speed (D r) dev_obj w)"

definition lacpd_wrapper_get_dev_link_status where
  "lacpd_wrapper_get_dev_link_status D u w dev_obj =
     (case inst_dev_sys w u of None \<Rightarrow> False | Some r \<Rightarrow> common_get_link_status (D r) dev_obj w)"

definition lacpd_wrapper_get_dev_hw_addr where
  "lacpd_wrapper_get_dev_hw_addr D u dev_obj w =
     (case inst_dev_sys w u of None \<Rightarrow> (None, w) | Some r \<Rightarrow> absorb None (common_get_hw_addr (D r) dev_obj) w)"

definition lacpd_wrapper_enable_dev where
  "lacpd_wrapper_enable_dev D u dev_obj w =
     (case inst_dev_sys w u of
        None \<Rightarrow> (False, w) | Some r \<Rightarrow> stp_set_port_state (D r) dev_obj GENL_DEV_STP_STATE_FORWARD w)"

definition lacpd_wrapper_disable_dev where
  "lacpd_wrapper_disable_dev D u dev_obj w =
     (case inst_dev_sys w u of
        None \<Rightarrow> (False, w) | Some r \<Rightarrow> stp_set_port_state (D r) dev_obj GENL_DEV_STP_STATE_DISABLE w)"

definition lacpd_wrapper_dev_enable_lacp where
  "lacpd_wrapper_dev_enable_lacp D u dev_obj w =
     (case inst_dev_sys w u of None \<Rightarrow> (False, w) | Some r \<Rightarrow> agg_enable (D r) dev_obj w)"

definition lacpd_wrapper_dev_disable_lacp where
  "lacpd_wrapper_dev_disable_lacp D u dev_obj w =
     (case inst_dev_sys w u of None \<Rightarrow> (False, w) | Some r \<Rightarrow> agg_disable (D r) dev_obj w)"

definition lacpd_wrapper_dev_send_lacpdu where
  "lacpd_wrapper_dev_send_lacpdu D u dev_obj buf w =
     (case inst_dev_sys w u of None \<Rightarrow> (False, w) | Some r \<Rightarrow> absorb False (agg_send_lacpdu (D r) dev_obj buf) w)"

definition lacpd_wrapper_dev_is_slave where
  "lacpd_wrapper_dev_is_slave D u w slave_dev_obj master_dev_obj =
     (case inst_dev_sys w u of None \<Rightarrow> False | Some r \<Rightarrow> agg_is_slave (D r) slave_dev_obj master_dev_obj w)"

definition lacpd_wrapper_dev_number_of_slaves where
  "lacpd_wrapper_dev_number_of_slaves D u w master_dev_obj =
     (case inst_dev_sys w u of None \<Rightarrow> 0 | Some r \<Rightarrow> agg_number_of_slaves (D r) master_dev_obj w)"

definition lacpd_wrapper_sys_new_aggregator where
  "lacpd_wrapper_sys_new_aggregator D u name w =
     (case inst_dev_sys w u of
        None \<Rightarrow> (0, w)
      | Some r \<Rightarrow>
          let (netdev_obj, w1) = agg_new_aggregator (D r) name w in
          (netdev_obj,
           if netdev_obj_is_invalid netdev_obj then w1
           else snd (agg_set_tx_hash_policy (D r) netdev_obj
                       (tx_hash_policy_value (cfg_tx_hash_policy (inst_lacp_param w1 u))) w1)))"

definition lacpd_wrapper_sys_destroy_aggregator where
  "lacpd_wrapper_sys_destroy_aggregator D u aggregator_dev_obj w =
     (case inst_dev_sys w u of None \<Rightarrow> (False, w) | Some r \<Rightarrow> agg_destroy_aggregator (D r) aggregator_dev_obj w)"

definition lacpd_wrapper_dev_attach_slave where
  "lacpd_wrapper_dev_attach_slave D u master_dev_obj slave_dev_obj w =
     (case inst_dev_sys w u of None \<Rightarrow> (False, w) | Some r \<Rightarrow> agg_attach_slave (D r) master_dev_obj slave_dev_obj w)"

definition lacpd_wrapper_dev_detach_slave where
  "lacpd_wrapper_dev_detach_slave D u master_dev_obj slave_dev_obj w =
     (case inst_dev_sys w u of None \<Rightarrow> (False, w) | Some r \<Rightarrow> agg_detach_slave (D r) master_dev_obj slave_dev_obj w)"

text \<open>\<^verbatim>\<open>inst->lacp_user\<close>, as it is filled in before the instance of LACP is created\<close>

definition lacp_user ::
    "'k qca_kernel \<Rightarrow> (sys_ref \<Rightarrow> ('k, 'h, 'z) hub_state_scheme general_device_ops) \<Rightarrow> user_ref \<Rightarrow>
     ('k, 'h, 'z) hub_state_scheme lacp_out_api" where
  "lacp_user K D u = \<lparr>
     os_calloc = kcall (k_alloc K),
     get_sys_mac_addr = lacpd_wrapper_get_sys_hw_addr D u,
     get_dev_name = lacpd_wrapper_get_dev_name D u,
     get_dev_duplex = lacpd_wrapper_get_dev_duplex D u,
     get_dev_speed = lacpd_wrapper_get_dev_speed D u,
     get_dev_link_status = lacpd_wrapper_get_dev_link_status D u,
     get_dev_mac_addr = lacpd_wrapper_get_dev_hw_addr D u,
     enable_dev = lacpd_wrapper_enable_dev D u,
     disable_dev = lacpd_wrapper_disable_dev D u,
     enable_lacp = lacpd_wrapper_dev_enable_lacp D u,
     disable_lacp = lacpd_wrapper_dev_disable_lacp D u,
     send_lacpdu = lacpd_wrapper_dev_send_lacpdu D u,
     is_slave = lacpd_wrapper_dev_is_slave D u,
     number_of_slaves = lacpd_wrapper_dev_number_of_slaves D u,
     new_aggregator = lacpd_wrapper_sys_new_aggregator D u,
     destroy_aggregator = lacpd_wrapper_sys_destroy_aggregator D u,
     attach_slave = lacpd_wrapper_dev_attach_slave D u,
     detach_slave = lacpd_wrapper_dev_detach_slave D u\<rparr>"

subsection \<open>Ports that come and go\<close>

definition QCA_SW_PRIVATE_FUNC_ID_GET_PORT_HW_ID :: u32 where
  "QCA_SW_PRIVATE_FUNC_ID_GET_PORT_HW_ID = push_bit 16 0x2 OR 0x2"

definition lacpd_ubus_notify_switch_port_created ::
    "string \<Rightarrow> u32 \<Rightarrow> ('k, 'h, 'z) hub_state_scheme \<Rightarrow> ('k, 'h, 'z) hub_state_scheme" where
  "lacpd_ubus_notify_switch_port_created name num w =
     w\<lparr>ubus_notified := list_add_tail
         \<lparr>evt_sw_name = name, evt_port_num = num, evt_event_type = LACPD_HOTPLUG_EVENT_PORT_CREATED\<rparr> (ubus_notified w)\<rparr>"

definition lacpd_ubus_notify_switch_port_destroyed ::
    "string \<Rightarrow> u32 \<Rightarrow> ('k, 'h, 'z) hub_state_scheme \<Rightarrow> ('k, 'h, 'z) hub_state_scheme" where
  "lacpd_ubus_notify_switch_port_destroyed name num w =
     w\<lparr>ubus_notified := list_add_tail
         \<lparr>evt_sw_name = name, evt_port_num = num, evt_event_type = LACPD_HOTPLUG_EVENT_PORT_DESTROYED\<rparr> (ubus_notified w)\<rparr>"

text \<open>\<^verbatim>\<open>__lacpd_wrapper.ubus_st_sys->notify.f(...)\<close>, then the same for the hotplug system\<close>

definition notify_status_systems ::
    "(string \<Rightarrow> u32 \<Rightarrow> ('k, 'h, 'z) hub_state_scheme \<Rightarrow> ('k, 'h, 'z) hub_state_scheme) \<Rightarrow>
     (string \<Rightarrow> u32 \<Rightarrow> 'h lacpd_hotplug_status_system \<Rightarrow> 'h lacpd_hotplug_status_system) \<Rightarrow>
     string \<Rightarrow> u32 \<Rightarrow> ('k, 'h, 'z) hub_state_scheme \<Rightarrow> ('k, 'h, 'z) hub_state_scheme" where
  "notify_status_systems ubus_fn hotplug_fn name num w =
     (if \<not> ubus_st_sys w then crash Null_Deref w
      else
        let w1 = ubus_fn name num w in
        if \<not> hotplug_st_sys w1 then crash Null_Deref w1
        else w1\<lparr>hotplug := hotplug_fn name num (hotplug w1)\<rparr>)"

text \<open>
  The body of both callbacks: the hardware identifier of the object is asked for, 0xffff stands
  for none, and the status systems hear of it under the number the users know.
\<close>

definition switch_port_event where
  "switch_port_event D ubus_fn hotplug_fn u netdev_obj w =
     (case inst_dev_sys w u of
        None \<Rightarrow> w
      | Some r \<Rightarrow>
          if netdev_obj_is_invalid netdev_obj then w
          else
            (case dev_private (D r) of
               None \<Rightarrow> crash Null_Deref w
             | Some private_fn \<Rightarrow>
                 let port_hw_id = (case snd (private_fn QCA_SW_PRIVATE_FUNC_ID_GET_PORT_HW_ID netdev_obj w) of
                       None \<Rightarrow> 0xffff | Some v \<Rightarrow> v)
                 in if port_hw_id = 0xffff then w
                    else notify_status_systems ubus_fn hotplug_fn (ds_name (sys_mem w r))
                           (if agg_is_aggregator (D r) netdev_obj 0 w then port_hw_id + push_bit 8 1 else port_hw_id) w))"

definition lacpd_wrapper_netdev_obj_added ::
    "'h hotplug_os \<Rightarrow> (sys_ref \<Rightarrow> ('k, 'h, 'z) hub_state_scheme general_device_ops) \<Rightarrow> user_ref \<Rightarrow> u32 \<Rightarrow>
     ('k, 'h, 'z) hub_state_scheme \<Rightarrow> ('k, 'h, 'z) hub_state_scheme" where
  "lacpd_wrapper_netdev_obj_added os D =
     switch_port_event D lacpd_ubus_notify_switch_port_created (lacpd_hotplug_notify_switch_port_created os)"

definition lacpd_wrapper_netdev_obj_deleted ::
    "'h hotplug_os \<Rightarrow> (sys_ref \<Rightarrow> ('k, 'h, 'z) hub_state_scheme general_device_ops) \<Rightarrow> user_ref \<Rightarrow> u32 \<Rightarrow>
     ('k, 'h, 'z) hub_state_scheme \<Rightarrow> ('k, 'h, 'z) hub_state_scheme" where
  "lacpd_wrapper_netdev_obj_deleted os D =
     switch_port_event D lacpd_ubus_notify_switch_port_destroyed (lacpd_hotplug_notify_switch_port_destroyed os)"

end
