(* ===== verification/Wrapper.thy ===== *)
theory Wrapper
  imports Wrapper_Hub
begin

text \<open>
  The rest of the wrapper (qca/src/qca-lacpd/main.c): the list of instances, what the configuration
  asks for, the events of the device systems that go to LACP, the timers, and the queries of the
  status systems.
\<close>

subsection \<open>Instances\<close>

definition LACPD_CONFIG_SYS_NAME_SIZE :: nat where "LACPD_CONFIG_SYS_NAME_SIZE = 64"

text \<open>
  The fields of the instances that the device layer does not see: their names and their LACP
  protocol objects. An object carries the state of the devices of its last call in \<open>env\<close>; each
  call starts from the present one.
\<close>

record ('k, 'h) daemon_state = "('k, 'h) hub_state" +
  wrappers :: "user_ref list"
  inst_name :: "user_ref \<Rightarrow> string"
  lacp_obj :: "user_ref \<Rightarrow> ('k, 'h) hub_state lacpd_lacp option"
  inst_next :: user_ref

type_synonym ('k, 'h) hub_ops = "sys_ref \<Rightarrow> ('k, 'h) hub_state general_device_ops"

text \<open>The part of the state that LACP works on.\<close>

abbreviation hub :: "('k, 'h) daemon_state \<Rightarrow> ('k, 'h) hub_state" where
  "hub w \<equiv> hub_state.truncate w"

definition set_hub :: "('k, 'h) hub_state \<Rightarrow> ('k, 'h) daemon_state \<Rightarrow> ('k, 'h) daemon_state" where
  "set_hub e w = hub_state.extend e (hub_state.more w)"

text \<open>A call of the protocol object of an instance; \<open>dflt\<close> is the result when there is none or it crashes.\<close>

definition call_lacp ::
    "user_ref \<Rightarrow> 'r \<Rightarrow> (('k, 'h) hub_state lacpd_lacp \<Rightarrow> ('r \<times> ('k, 'h) hub_state lacpd_lacp) outcome) \<Rightarrow>
     ('k, 'h) daemon_state \<Rightarrow> 'r \<times> ('k, 'h) daemon_state" where
  "call_lacp u dflt f w =
     (case lacp_obj w u of
        None \<Rightarrow> (dflt, w)
      | Some L \<Rightarrow>
          (case f (L\<lparr>env := hub w\<rparr>) of
             Fault e \<Rightarrow> (dflt, crash e w)
           | Returns (ret, t) \<Rightarrow> (ret, (set_hub (env t) w)\<lparr>lacp_obj := (lacp_obj w)(u := Some t)\<rparr>)))"

definition lacpd_wrapper_lookup :: "string option \<Rightarrow> ('k, 'h) daemon_state \<Rightarrow> user_ref option" where
  "lacpd_wrapper_lookup name w =
     (case name of
        None \<Rightarrow> None
      | Some n \<Rightarrow> find (\<lambda>u. strncmp_eq LACPD_CONFIG_SYS_NAME_SIZE n (inst_name w u)) (wrappers w))"

definition lacpd_wrapper_add :: "user_ref option \<Rightarrow> ('k, 'h) daemon_state \<Rightarrow> bool \<times> ('k, 'h) daemon_state" where
  "lacpd_wrapper_add inst w =
     (case inst of
        None \<Rightarrow> (False, w)
      | Some u \<Rightarrow>
          if lacpd_wrapper_lookup (Some (inst_name w u)) w \<noteq> None then (True, w)
          else (True, w\<lparr>wrappers := list_add_tail u (wrappers w)\<rparr>))"

definition lacpd_wrapper_del :: "user_ref option \<Rightarrow> ('k, 'h) daemon_state \<Rightarrow> ('k, 'h) daemon_state" where
  "lacpd_wrapper_del inst w =
     (case inst of
        None \<Rightarrow> w
      | Some u \<Rightarrow>
          if lacpd_wrapper_lookup (Some (inst_name w u)) w = None then w
          else w\<lparr>wrappers := list_del u (wrappers w)\<rparr>)"

text \<open>\<^verbatim>\<open>inst->lacp_obj->destroy(inst->lacp_obj)\<close> and leaving the device system\<close>

definition destroy_lacp ::
    "'k qca_kernel \<Rightarrow> ('k, 'h) hub_ops \<Rightarrow> user_ref \<Rightarrow> ('k, 'h) daemon_state \<Rightarrow> ('k, 'h) daemon_state" where
  "destroy_lacp K D u w =
     (let w1 = snd (call_lacp u () (\<lambda>s. bind_outcome (lacp_destroy (lacp_user K D u) s) (\<lambda>t. Returns ((), t))) w)
      in w1\<lparr>lacp_obj := (lacp_obj w1)(u := None)\<rparr>)"

definition leave_dev_sys :: "user_ref \<Rightarrow> ('k, 'h) daemon_state \<Rightarrow> ('k, 'h) daemon_state" where
  "leave_dev_sys u w =
     (case inst_dev_sys w u of
        None \<Rightarrow> w
      | Some r \<Rightarrow>
          let w1 = genl_dev_sys_del_user (Some (ds_name (sys_mem w r))) (Some u) w
          in w1\<lparr>inst_dev_sys := (inst_dev_sys w1)(u := None)\<rparr>)"

fun cleanup_instances ::
    "'k qca_kernel \<Rightarrow> ('k, 'h) hub_ops \<Rightarrow> user_ref list \<Rightarrow> ('k, 'h) daemon_state \<Rightarrow> ('k, 'h) daemon_state" where
  "cleanup_instances K D [] w = w"
| "cleanup_instances K D (u # us) w =
     cleanup_instances K D us
       (leave_dev_sys u (destroy_lacp K D u (w\<lparr>wrappers := list_del u (wrappers w)\<rparr>)))"

definition lacpd_wrapper_cleanup ::
    "'k qca_kernel \<Rightarrow> ('k, 'h) hub_ops \<Rightarrow> ('k, 'h) daemon_state \<Rightarrow> ('k, 'h) daemon_state" where
  "lacpd_wrapper_cleanup K D w = cleanup_instances K D (wrappers w) w"

subsection \<open>Configuration\<close>

definition lacpd_cfg_lacp_new ::
    "'k qca_kernel \<Rightarrow> string \<Rightarrow> lacpd_cfg_lacp_parameters \<Rightarrow> ('k, 'h) daemon_state \<Rightarrow> bool \<times> ('k, 'h) daemon_state" where
  "lacpd_cfg_lacp_new K name prm w =
     (case lacpd_wrapper_lookup (Some name) w of
        Some _ \<Rightarrow> (False, w)
      | None \<Rightarrow>
          let (ok, w1) = kcall (k_alloc K) w in
          if \<not> ok then (False, w1)
          else
            let u = inst_next w1;
                w2 = w1\<lparr>inst_next := Suc u, inst_name := (inst_name w1)(u := snprintf_buf LACPD_CONFIG_SYS_NAME_SIZE name),
                        inst_lacp_param := (inst_lacp_param w1)(u := prm), inst_dev_sys := (inst_dev_sys w1)(u := None),
                        lacp_obj := (lacp_obj w1)(u := None)\<rparr>
            in lacpd_wrapper_add (Some u) w2)"

definition lacpd_cfg_lacp_destroy ::
    "'k qca_kernel \<Rightarrow> ('k, 'h) hub_ops \<Rightarrow> string option \<Rightarrow> ('k, 'h) daemon_state \<Rightarrow> bool \<times> ('k, 'h) daemon_state" where
  "lacpd_cfg_lacp_destroy K D name w =
     (case lacpd_wrapper_lookup name w of
        None \<Rightarrow> (False, w)
      | Some u \<Rightarrow> (True, lacpd_wrapper_del (Some u) (leave_dev_sys u (destroy_lacp K D u w))))"

text \<open>
  \<^verbatim>\<open>inst->lacp_obj = lacp_new(...)\<close>, and \<^verbatim>\<open>inst->dev_sys = dev_sys\<close> with the user added. The device
  system stays set when adding the user fails.
\<close>

definition create_lacp ::
    "'k qca_kernel \<Rightarrow> ('k, 'h) hub_ops \<Rightarrow> user_ref \<Rightarrow> ('k, 'h) daemon_state \<Rightarrow> bool \<times> ('k, 'h) daemon_state" where
  "create_lacp K D u w =
     (let prm = inst_lacp_param w u;
          (obj, e) = lacp_new (Some (inst_name w u)) (Some (lacp_user K D u))
            \<lparr>priority = cfg_priority prm, lacp_rate = (if cfg_lacp_rate prm then 1 else 0),
             ad_select = ad_select_value (cfg_ad_select prm)\<rparr> (hub w)
      in (obj \<noteq> None, (set_hub e w)\<lparr>lacp_obj := (lacp_obj w)(u := obj)\<rparr>))"

definition use_dev_sys :: "user_ref \<Rightarrow> sys_ref \<Rightarrow> ('k, 'h) daemon_state \<Rightarrow> bool \<times> ('k, 'h) daemon_state" where
  "use_dev_sys u r w =
     genl_dev_sys_add_user (Some (ds_name (sys_mem w r))) (Some u) (w\<lparr>inst_dev_sys := (inst_dev_sys w)(u := Some r)\<rparr>)"

definition lacpd_cfg_add_dev ::
    "'k qca_kernel \<Rightarrow> ('k, 'h) hub_ops \<Rightarrow> string option \<Rightarrow> string \<Rightarrow> lacpd_cfg_lacp_port_parameters \<Rightarrow>
     ('k, 'h) daemon_state \<Rightarrow> bool \<times> ('k, 'h) daemon_state" where
  "lacpd_cfg_add_dev K D name dev_name prm w =
     (case genl_dev_sys_resolve_by_name D (Some dev_name) (hub w) of
        Fault e \<Rightarrow> (False, crash e w)
      | Returns dev_sys \<Rightarrow>
          (case (lacpd_wrapper_lookup name w, dev_sys) of
             (None, _) \<Rightarrow> (False, w)
           | (Some u, None) \<Rightarrow> (False, w)
           | (Some u, Some r) \<Rightarrow>
               let dev_obj = common_name_to_netdev_obj (D r) dev_name (hub w) in
               if dev_obj = 0 then (False, w)
               else if inst_dev_sys w u \<noteq> None \<and> inst_dev_sys w u \<noteq> Some r then (False, w)
               else
                 let (ok, w1) = (if inst_dev_sys w u = None then use_dev_sys u r w else (True, w)) in
                 if \<not> ok then (False, w1)
                 else
                   let (ok, w2) = (if lacp_obj w1 u = None then create_lacp K D u w1 else (True, w1)) in
                   if \<not> ok then (False, w2)
                   else call_lacp u False
                          (lacpd_add_device (lacp_user K D u) dev_obj (Some \<lparr>user_key = cfg_user_key prm\<rparr>)) w2))"

definition lacpd_cfg_del_dev ::
    "'k qca_kernel \<Rightarrow> ('k, 'h) hub_ops \<Rightarrow> string option \<Rightarrow> string \<Rightarrow> ('k, 'h) daemon_state \<Rightarrow>
     bool \<times> ('k, 'h) daemon_state" where
  "lacpd_cfg_del_dev K D name dev_name w =
     (case lacpd_wrapper_lookup name w of
        None \<Rightarrow> (False, w)
      | Some u \<Rightarrow>
          if lacp_obj w u = None then (False, w)
          else
            (case inst_dev_sys w u of
               None \<Rightarrow> (False, w)
             | Some r \<Rightarrow>
                 let dev_obj = common_name_to_netdev_obj (D r) dev_name (hub w) in
                 if dev_obj = 0 then (False, w)
                 else call_lacp u False (lacpd_del_device (lacp_user K D u) dev_obj) w))"

subsection \<open>Events\<close>

definition lacpd_wrapper_dev_link_status_changed ::
    "'k qca_kernel \<Rightarrow> ('k, 'h) hub_ops \<Rightarrow> user_ref \<Rightarrow> u32 \<Rightarrow> u32 \<Rightarrow> ('k, 'h) daemon_state \<Rightarrow> ('k, 'h) daemon_state" where
  "lacpd_wrapper_dev_link_status_changed K D u netdev_obj new_status w =
     snd (call_lacp u () (\<lambda>s. Returns ((), lacpd_link_status_changed (lacp_user K D u) netdev_obj new_status s)) w)"

definition lacpd_wrapper_dev_receive_lacpdu ::
    "user_ref \<Rightarrow> u8 list \<Rightarrow> u32 \<Rightarrow> u32 \<Rightarrow> ('k, 'h) daemon_state \<Rightarrow> bool \<times> ('k, 'h) daemon_state" where
  "lacpd_wrapper_dev_receive_lacpdu u buf buf_len netdev_obj w =
     call_lacp u False (lacpd_receive_lacpdu buf buf_len netdev_obj) w"

definition lacpd_wrapper_dev_sys_unregistered ::
    "'k qca_kernel \<Rightarrow> ('k, 'h) hub_ops \<Rightarrow> user_ref \<Rightarrow> ('k, 'h) daemon_state \<Rightarrow> ('k, 'h) daemon_state" where
  "lacpd_wrapper_dev_sys_unregistered K D u w = snd (lacpd_cfg_lacp_destroy K D (Some (inst_name w u)) w)"

text \<open>\<^verbatim>\<open>inst->dev_sys_user\<close>: what the device systems can call the instance for.\<close>

definition dev_sys_user ::
    "'h hotplug_os \<Rightarrow> 'k qca_kernel \<Rightarrow> ('k, 'h) hub_ops \<Rightarrow> (sys_ref \<Rightarrow> ('k, 'h) daemon_state general_device_ops) \<Rightarrow>
     user_ref \<Rightarrow> ('k, 'h) daemon_state general_device_out_api" where
  "dev_sys_user os K D E u = \<lparr>
     out_link_status_changed = Some (lacpd_wrapper_dev_link_status_changed K D u),
     out_netdev_obj_added = Some (lacpd_wrapper_netdev_obj_added os E u),
     out_netdev_obj_deleted = Some (lacpd_wrapper_netdev_obj_deleted os E u),
     out_receive_bpdu = None,
     out_receive_lacpdu = Some (lacpd_wrapper_dev_receive_lacpdu u),
     out_system_unregistered = Some (lacpd_wrapper_dev_sys_unregistered K D u)\<rparr>"

text \<open>
  The part of it that a device system uses while LACP calls it: ports are added and deleted then,
  but links are polled and packets received only from the event loop.
\<close>

definition dev_sys_user_in_call ::
    "'h hotplug_os \<Rightarrow> (sys_ref \<Rightarrow> ('k, 'h, 'z) hub_state_scheme general_device_ops) \<Rightarrow>
     user_ref \<Rightarrow> ('k, 'h, 'z) hub_state_scheme general_device_out_api" where
  "dev_sys_user_in_call os E u = \<lparr>
     out_link_status_changed = None,
     out_netdev_obj_added = Some (lacpd_wrapper_netdev_obj_added os E u),
     out_netdev_obj_deleted = Some (lacpd_wrapper_netdev_obj_deleted os E u),
     out_receive_bpdu = None,
     out_receive_lacpdu = None,
     out_system_unregistered = None\<rparr>"

text \<open>A timer of a port that expires; the state machines run from one of them.\<close>

definition port_timer_cb ::
    "'k qca_kernel \<Rightarrow> ('k, 'h) hub_ops \<Rightarrow> user_ref \<Rightarrow> port_timer_id \<Rightarrow> port_ref \<Rightarrow>
     ('k, 'h) daemon_state \<Rightarrow> ('k, 'h) daemon_state" where
  "port_timer_cb K D u k p w =
     snd (call_lacp u () (\<lambda>s. if p \<in> set (ports s) \<and> pending (port_timer k (port_mem s p))
       then (case port_timer_expired (lacp_user K D u) k p s of None \<Rightarrow> Fault Diverges | Some t \<Rightarrow> Returns ((), t))
       else Returns ((), s)) w)"

subsection \<open>Status\<close>

definition lacpd_wrapper_dump_status ::
    "'k qca_kernel \<Rightarrow> ('k, 'h) hub_ops \<Rightarrow> string option \<Rightarrow> ('k, 'h) daemon_state \<Rightarrow> lacpd_status_field_type list" where
  "lacpd_wrapper_dump_status K D lacp_inst_name w =
     (let dumped = filter (\<lambda>u. lacp_obj w u \<noteq> None \<and>
            (case lacp_inst_name of
               None \<Rightarrow> True | Some n \<Rightarrow> strncmp_eq LACPD_CONFIG_SYS_NAME_SIZE n (inst_name w u))) (wrappers w)
      in concat (map (\<lambda>u. lacpd_status_dump (lacp_user K D u) ((the (lacp_obj w u))\<lparr>env := hub w\<rparr>)) dumped) @
         (if dumped = [] then [LACP_STATUS_FIELD_ERROR ''No such a LACP instance''] else []))"

text \<open>The device system of the first instance on a system of the name.\<close>

definition find_dev_sys :: "string \<Rightarrow> ('k, 'h) daemon_state \<Rightarrow> sys_ref option" where
  "find_dev_sys name w =
     (case find (\<lambda>u. case inst_dev_sys w u of
                       None \<Rightarrow> False
                     | Some r \<Rightarrow> strncmp_eq GENERAL_DEVICE_SYSTEM_NAME_SIZE name (ds_name (sys_mem w r))) (wrappers w) of
        None \<Rightarrow> None
      | Some u \<Rightarrow> inst_dev_sys w u)"

definition QCA_SW_PRIVATE_FUNC_ID_GET_AGG_ID_OF_PORT :: u32 where
  "QCA_SW_PRIVATE_FUNC_ID_GET_AGG_ID_OF_PORT = push_bit 16 0x2 OR 0x0"

definition QCA_SW_PRIVATE_FUNC_ID_GET_PORTS_OF_AGG :: u32 where
  "QCA_SW_PRIVATE_FUNC_ID_GET_PORTS_OF_AGG = push_bit 16 0x2 OR 0x1"

definition lacpd_wrapper_get_aggregator_of_port ::
    "(sys_ref \<Rightarrow> ('k, 'h) daemon_state general_device_ops) \<Rightarrow> string \<Rightarrow> u32 \<Rightarrow> ('k, 'h) daemon_state \<Rightarrow> u32" where
  "lacpd_wrapper_get_aggregator_of_port E name num w =
     (case find_dev_sys name w of
        None \<Rightarrow> 0
      | Some r \<Rightarrow>
          (case dev_private (E r) of
             None \<Rightarrow> 0
           | Some private_fn \<Rightarrow>
               let (ret, res) = private_fn QCA_SW_PRIVATE_FUNC_ID_GET_AGG_ID_OF_PORT num w;
                   agg_id = (case res of None \<Rightarrow> 0xffff | Some v \<Rightarrow> v)
               in if ret then agg_id + push_bit 8 1 else agg_id))"

definition lacpd_wrapper_get_ports_of_aggregator ::
    "(sys_ref \<Rightarrow> ('k, 'h) daemon_state general_device_ops) \<Rightarrow> string \<Rightarrow> u32 \<Rightarrow> ('k, 'h) daemon_state \<Rightarrow> u32" where
  "lacpd_wrapper_get_ports_of_aggregator E name agg_num w =
     (case find_dev_sys name w of
        None \<Rightarrow> 0
      | Some r \<Rightarrow>
          (case dev_private (E r) of
             None \<Rightarrow> 0
           | Some private_fn \<Rightarrow>
               (case snd (private_fn QCA_SW_PRIVATE_FUNC_ID_GET_PORTS_OF_AGG (agg_num - push_bit 8 1) w) of
                  None \<Rightarrow> 0 | Some v \<Rightarrow> v)))"

end
