(* ===== verification/Config_Uci.thy ===== *)
theory Config_Uci
  imports Wrapper
begin

text \<open>
  The configuration system of the daemon (qca/src/qca-lacpd/config/config_uci.c, config_uci.h): it
  reads the sections of a UCI package into lists of switches, LACP instances and ports, and then
  asks the wrapper for the instances and their devices. The package and the options of its
  sections come from libuci and libubox.
\<close>

subsection \<open>The package\<close>

text \<open>
  \<open>uci_package_load\<close> is what \<^verbatim>\<open>uci_load\<close> gives for a package name: the sections of the package, or
  None. Of a section the code uses its type, its name, and the options that \<^verbatim>\<open>uci_to_blob\<close> and
  \<^verbatim>\<open>blobmsg_parse\<close> find in it under a policy, that is, by name and type; None is a NULL in the
  table of the attributes.
\<close>

record 's uci_api =
  uci_package_load :: "string \<Rightarrow> 's list option"
  section_type :: "'s \<Rightarrow> string"
  section_ename :: "'s \<Rightarrow> string"
  blob_bool :: "'s \<Rightarrow> string \<Rightarrow> bool option"
  blob_string :: "'s \<Rightarrow> string \<Rightarrow> string option"
  blob_int32 :: "'s \<Rightarrow> string \<Rightarrow> u32 option"

definition LACPD_UCI_PKG_NAME_DEFAULT :: string where "LACPD_UCI_PKG_NAME_DEFAULT = ''lacpd''"
definition LACPD_TX_HASH_POLICY_DEFAULT :: string where "LACPD_TX_HASH_POLICY_DEFAULT = ''L2_L3''"
definition LACPDU_RATE_DEFAULT :: bool where "LACPDU_RATE_DEFAULT = False"
definition LACPD_SELECT_ALG_DEFAULT :: string where "LACPD_SELECT_ALG_DEFAULT = ''all''"
definition LACPD_INSTANCE_ENABLE_DEFAULT :: bool where "LACPD_INSTANCE_ENABLE_DEFAULT = True"
definition LACPD_INSTANCE_PRIORITY_DEFAULT :: u32 where "LACPD_INSTANCE_PRIORITY_DEFAULT = 0xffff"
definition LACPD_PORT_ENABLE_DEFAULT :: bool where "LACPD_PORT_ENABLE_DEFAULT = True"
definition LACPD_USER_KEY_DEFAULT :: u32 where "LACPD_USER_KEY_DEFAULT = 0"

text \<open>The attributes of the three kinds of sections and the names of their options.\<close>

datatype lacp_switch_attr = LACP_SWITCH_ATTR_IFNAME

datatype lacp_attr =
    LACP_ATTR_ENABLE | LACP_ATTR_NAME | LACP_ATTR_PRIORITY | LACP_ATTR_TX_HASH_POLICY
  | LACP_ATTR_LACPDU_RATE | LACP_ATTR_AD_SELECT

datatype lacp_port_attr =
    LACP_PORT_ATTR_ENABLE | LACP_PORT_ATTR_IFNAME | LACP_PORT_ATTR_LACP | LACP_PORT_ATTR_SWITCH
  | LACP_PORT_ATTR_SWITCH_PORT_ID | LACP_PORT_ATTR_USER_KEY

fun lacp_switch_attrs :: "lacp_switch_attr \<Rightarrow> string" where
  "lacp_switch_attrs LACP_SWITCH_ATTR_IFNAME = ''ifname''"

fun lacp_attrs :: "lacp_attr \<Rightarrow> string" where
  "lacp_attrs LACP_ATTR_ENABLE = ''enable''"
| "lacp_attrs LACP_ATTR_NAME = ''name''"
| "lacp_attrs LACP_ATTR_PRIORITY = ''priority''"
| "lacp_attrs LACP_ATTR_TX_HASH_POLICY = ''txHashPolicy''"
| "lacp_attrs LACP_ATTR_LACPDU_RATE = ''lacpRate''"
| "lacp_attrs LACP_ATTR_AD_SELECT = ''adSelect''"

fun lacp_port_attrs :: "lacp_port_attr \<Rightarrow> string" where
  "lacp_port_attrs LACP_PORT_ATTR_ENABLE = ''enable''"
| "lacp_port_attrs LACP_PORT_ATTR_IFNAME = ''ifname''"
| "lacp_port_attrs LACP_PORT_ATTR_LACP = ''lacp''"
| "lacp_port_attrs LACP_PORT_ATTR_SWITCH = ''switch''"
| "lacp_port_attrs LACP_PORT_ATTR_SWITCH_PORT_ID = ''switchPortId''"
| "lacp_port_attrs LACP_PORT_ATTR_USER_KEY = ''userKey''"

definition blobmsg_get_bool_default :: "bool option \<Rightarrow> bool \<Rightarrow> bool" where
  "blobmsg_get_bool_default attr v = (case attr of Some b \<Rightarrow> b | None \<Rightarrow> v)"

subsection \<open>The configuration\<close>

text \<open>
  A port refers to its switch by a pointer; as the switches do not change after they have been
  read, the port carries the values.
\<close>

record lacpd_uci_configuration_switch =
  sw_section_name :: string
  sw_ifname :: string

record lacpd_uci_configuration_port =
  pt_sw :: lacpd_uci_configuration_switch
  pt_ifname :: string
  pt_port_num :: u32
  pt_user_key :: u32

record lacpd_uci_configuration_lacp =
  lc_ports :: "lacpd_uci_configuration_port list"
  lc_section_name :: string
  lc_name :: string
  lc_priority :: u32
  lc_tx_hash_policy :: lacpd_cfg_tx_hash_policy
  lc_lacpdu_rate :: bool
  lc_ad_select :: lacpd_cfg_ad_select_alg

record 's lacpd_uci_configuration =
  uci_ctx :: bool
  uci_lacp :: "'s list option"
  cfg_switches :: "lacpd_uci_configuration_switch list"
  cfg_lacp_instances :: "lacpd_uci_configuration_lacp list"

fun select_from :: "string \<Rightarrow> string list \<Rightarrow> nat \<Rightarrow> nat" where
  "select_from v [] idx = idx"
| "select_from v (opt # opts) idx = (if v = opt then idx else select_from v opts (Suc idx))"

definition lacpd_uci_cfg_select_str_option :: "string \<Rightarrow> string list \<Rightarrow> nat" where
  "lacpd_uci_cfg_select_str_option v opts = select_from v opts 0"

definition lacpd_uci_cfg_lookup_switch ::
    "string \<Rightarrow> 's lacpd_uci_configuration \<Rightarrow> lacpd_uci_configuration_switch option" where
  "lacpd_uci_cfg_lookup_switch section_name cfg =
     find (\<lambda>sw. strncmp_eq LACPD_CONFIG_SYS_NAME_SIZE section_name (sw_section_name sw)) (cfg_switches cfg)"

text \<open>The position of the first instance of a section name; the code has a pointer to it.\<close>

fun position_of :: "('a \<Rightarrow> bool) \<Rightarrow> 'a list \<Rightarrow> nat option" where
  "position_of P [] = None"
| "position_of P (x # xs) = (if P x then Some 0 else map_option Suc (position_of P xs))"

definition lacpd_uci_cfg_lookup_lacp_instance :: "string \<Rightarrow> 's lacpd_uci_configuration \<Rightarrow> nat option" where
  "lacpd_uci_cfg_lookup_lacp_instance section_name cfg =
     position_of (\<lambda>lc. strncmp_eq LACPD_CONFIG_SYS_NAME_SIZE section_name (lc_section_name lc)) (cfg_lacp_instances cfg)"

subsection \<open>Sections\<close>

text \<open>
  Each parser gives whether it succeeded and the configuration; a \<^verbatim>\<open>calloc\<close> goes to the system by
  way of the state \<open>w\<close> of the daemon.
\<close>

definition lacpd_uci_cfg_parse_port_section ::
    "'s uci_api \<Rightarrow> 'k qca_kernel \<Rightarrow> 's \<Rightarrow> 's lacpd_uci_configuration \<Rightarrow> ('k, 'z) qca_state_scheme \<Rightarrow>
     bool \<times> 's lacpd_uci_configuration \<times> ('k, 'z) qca_state_scheme" where
  "lacpd_uci_cfg_parse_port_section U K s cfg w =
     (case (blob_string U s (lacp_port_attrs LACP_PORT_ATTR_LACP), blob_string U s (lacp_port_attrs LACP_PORT_ATTR_SWITCH),
            blob_int32 U s (lacp_port_attrs LACP_PORT_ATTR_SWITCH_PORT_ID)) of
        (Some lacp_sec, Some sw_sec, Some port_id) \<Rightarrow>
          if \<not> blobmsg_get_bool_default (blob_bool U s (lacp_port_attrs LACP_PORT_ATTR_ENABLE)) LACPD_PORT_ENABLE_DEFAULT
          then (True, cfg, w)
          else
            (case lacpd_uci_cfg_lookup_lacp_instance lacp_sec cfg of
               None \<Rightarrow> (False, cfg, w)
             | Some i \<Rightarrow>
                 (case lacpd_uci_cfg_lookup_switch sw_sec cfg of
                    None \<Rightarrow> (False, cfg, w)
                  | Some sw_cfg \<Rightarrow>
                      let (ok, w1) = kcall (k_alloc K) w in
                      if \<not> ok then (False, cfg, w1)
                      else
                        let sw_port_cfg = \<lparr>pt_sw = sw_cfg,
                              pt_ifname = (case blob_string U s (lacp_port_attrs LACP_PORT_ATTR_IFNAME) of
                                 None \<Rightarrow> [] | Some n \<Rightarrow> snprintf_buf LACPD_CONFIG_SYS_NAME_SIZE n),
                              pt_port_num = port_id,
                              pt_user_key = (case blob_int32 U s (lacp_port_attrs LACP_PORT_ATTR_USER_KEY) of
                                 None \<Rightarrow> LACPD_USER_KEY_DEFAULT | Some v \<Rightarrow> v)\<rparr>;
                            lcs = cfg_lacp_instances cfg
                        in (True, cfg\<lparr>cfg_lacp_instances :=
                              lcs[i := (lcs ! i)\<lparr>lc_ports := list_add_tail sw_port_cfg (lc_ports (lcs ! i))\<rparr>]\<rparr>, w1)))
      | _ \<Rightarrow> (False, cfg, w))"

definition tx_hash_policy_options :: "string list" where
  "tx_hash_policy_options = [''L2'', ''L3'', ''L2_L3'']"

definition ad_select_options :: "string list" where
  "ad_select_options = [''all'', ''stable'', ''bandwidth'', ''count'']"

text \<open>The index of an option as an enumerator, None for the \<^verbatim>\<open>_MAX\<close> of the enumeration\<close>

definition tx_hash_policy_of :: "string \<Rightarrow> lacpd_cfg_tx_hash_policy option" where
  "tx_hash_policy_of v =
     (let idx = lacpd_uci_cfg_select_str_option v tx_hash_policy_options in
      if idx = 3 then None
      else Some ([LACPD_CFG_TX_HASH_POLICY_L2, LACPD_CFG_TX_HASH_POLICY_L3, LACPD_CFG_TX_HASH_POLICY_L2_L3] ! idx))"

definition ad_select_of :: "string \<Rightarrow> lacpd_cfg_ad_select_alg option" where
  "ad_select_of v =
     (let idx = lacpd_uci_cfg_select_str_option v ad_select_options in
      if idx = 4 then None
      else Some ([AD_SELECT_ALG_ALL, AD_SELECT_ALG_STABLE, AD_SELECT_ALG_BANDWIDTH, AD_SELECT_ALG_COUNT] ! idx))"

definition lacpd_uci_cfg_parse_lacp_section ::
    "'s uci_api \<Rightarrow> 'k qca_kernel \<Rightarrow> 's \<Rightarrow> 's lacpd_uci_configuration \<Rightarrow> ('k, 'z) qca_state_scheme \<Rightarrow>
     bool \<times> 's lacpd_uci_configuration \<times> ('k, 'z) qca_state_scheme" where
  "lacpd_uci_cfg_parse_lacp_section U K s cfg w =
     (if \<not> blobmsg_get_bool_default (blob_bool U s (lacp_attrs LACP_ATTR_ENABLE)) LACPD_INSTANCE_ENABLE_DEFAULT
      then (True, cfg, w)
      else
        (case tx_hash_policy_of (case blob_string U s (lacp_attrs LACP_ATTR_TX_HASH_POLICY) of
                None \<Rightarrow> LACPD_TX_HASH_POLICY_DEFAULT | Some v \<Rightarrow> v) of
           None \<Rightarrow> (False, cfg, w)
         | Some tx_hash_policy \<Rightarrow>
             (case ad_select_of (case blob_string U s (lacp_attrs LACP_ATTR_AD_SELECT) of
                     None \<Rightarrow> LACPD_SELECT_ALG_DEFAULT | Some v \<Rightarrow> v) of
                None \<Rightarrow> (False, cfg, w)
              | Some ad_alg \<Rightarrow>
                  let (ok, w1) = kcall (k_alloc K) w in
                  if \<not> ok then (False, cfg, w1)
                  else
                    let section_name = snprintf_buf LACPD_CONFIG_SYS_NAME_SIZE (section_ename U s);
                        lacp_cfg = \<lparr>lc_ports = [], lc_section_name = section_name,
                          lc_name = snprintf_buf LACPD_CONFIG_SYS_NAME_SIZE
                             (case blob_string U s (lacp_attrs LACP_ATTR_NAME) of None \<Rightarrow> section_name | Some n \<Rightarrow> n),
                          lc_priority = (case blob_int32 U s (lacp_attrs LACP_ATTR_PRIORITY) of
                             None \<Rightarrow> LACPD_INSTANCE_PRIORITY_DEFAULT | Some v \<Rightarrow> v),
                          lc_tx_hash_policy = tx_hash_policy,
                          lc_lacpdu_rate = blobmsg_get_bool_default (blob_bool U s (lacp_attrs LACP_ATTR_LACPDU_RATE)) LACPDU_RATE_DEFAULT,
                          lc_ad_select = ad_alg\<rparr>
                    in (True, cfg\<lparr>cfg_lacp_instances := list_add_tail lacp_cfg (cfg_lacp_instances cfg)\<rparr>, w1))))"

definition lacpd_uci_cfg_parse_switch_section ::
    "'s uci_api \<Rightarrow> 'k qca_kernel \<Rightarrow> 's \<Rightarrow> 's lacpd_uci_configuration \<Rightarrow> ('k, 'z) qca_state_scheme \<Rightarrow>
     bool \<times> 's lacpd_uci_configuration \<times> ('k, 'z) qca_state_scheme" where
  "lacpd_uci_cfg_parse_switch_section U K s cfg w =
     (case blob_string U s (lacp_switch_attrs LACP_SWITCH_ATTR_IFNAME) of
        None \<Rightarrow> (False, cfg, w)
      | Some ifname \<Rightarrow>
          let (ok, w1) = kcall (k_alloc K) w in
          if \<not> ok then (False, cfg, w1)
          else (True, cfg\<lparr>cfg_switches := list_add_tail
                  \<lparr>sw_section_name = snprintf_buf LACPD_CONFIG_SYS_NAME_SIZE (section_ename U s),
                   sw_ifname = snprintf_buf LACPD_CONFIG_SYS_NAME_SIZE ifname\<rparr> (cfg_switches cfg)\<rparr>, w1))"

text \<open>The loop over the sections of a type; the first that cannot be parsed ends it.\<close>

fun parse_sections ::
    "('s \<Rightarrow> 'c \<Rightarrow> 'w \<Rightarrow> bool \<times> 'c \<times> 'w) \<Rightarrow> ('s \<Rightarrow> bool) \<Rightarrow> 's list \<Rightarrow> 'c \<Rightarrow> 'w \<Rightarrow> bool \<times> 'c \<times> 'w" where
  "parse_sections parse sel [] cfg w = (True, cfg, w)"
| "parse_sections parse sel (s # ss) cfg w =
     (if sel s
      then let (ok, cfg1, w1) = parse s cfg w in
           if ok then parse_sections parse sel ss cfg1 w1 else (False, cfg1, w1)
      else parse_sections parse sel ss cfg w)"

definition lacpd_uci_cfg_parse_lacp ::
    "'s uci_api \<Rightarrow> 'k qca_kernel \<Rightarrow> 's list \<Rightarrow> 's lacpd_uci_configuration \<Rightarrow> ('k, 'z) qca_state_scheme \<Rightarrow>
     bool \<times> 's lacpd_uci_configuration \<times> ('k, 'z) qca_state_scheme" where
  "lacpd_uci_cfg_parse_lacp U K =
     parse_sections (lacpd_uci_cfg_parse_lacp_section U K) (\<lambda>s. section_type U s = ''lacp'')"

definition lacpd_uci_cfg_parse_switch ::
    "'s uci_api \<Rightarrow> 'k qca_kernel \<Rightarrow> 's list \<Rightarrow> 's lacpd_uci_configuration \<Rightarrow> ('k, 'z) qca_state_scheme \<Rightarrow>
     bool \<times> 's lacpd_uci_configuration \<times> ('k, 'z) qca_state_scheme" where
  "lacpd_uci_cfg_parse_switch U K =
     parse_sections (lacpd_uci_cfg_parse_switch_section U K) (\<lambda>s. section_type U s = ''switch'')"

definition lacpd_uci_cfg_parse_port ::
    "'s uci_api \<Rightarrow> 'k qca_kernel \<Rightarrow> 's list \<Rightarrow> 's lacpd_uci_configuration \<Rightarrow> ('k, 'z) qca_state_scheme \<Rightarrow>
     bool \<times> 's lacpd_uci_configuration \<times> ('k, 'z) qca_state_scheme" where
  "lacpd_uci_cfg_parse_port U K =
     parse_sections (lacpd_uci_cfg_parse_port_section U K) (\<lambda>s. section_type U s = ''port'')"

subsection \<open>The package is read and applied\<close>

text \<open>What a configuration system can ask the wrapper for\<close>

record 'w lacpd_cfg_user =
  user_os_service :: bool
  user_lacp_new :: "string \<Rightarrow> lacpd_cfg_lacp_parameters \<Rightarrow> 'w \<Rightarrow> bool \<times> 'w"
  user_lacp_destroy :: "string option \<Rightarrow> 'w \<Rightarrow> bool \<times> 'w"
  user_add_dev :: "string option \<Rightarrow> string \<Rightarrow> lacpd_cfg_lacp_port_parameters \<Rightarrow> 'w \<Rightarrow> bool \<times> 'w"
  user_del_dev :: "string option \<Rightarrow> string \<Rightarrow> 'w \<Rightarrow> bool \<times> 'w"

text \<open>
  \<^verbatim>\<open>uci_alloc_context\<close> allocates the context with one \<^verbatim>\<open>calloc\<close>; a failure is not checked for.
\<close>

definition lacpd_uci_cfg_init_package ::
    "'s uci_api \<Rightarrow> 'k qca_kernel \<Rightarrow> string \<Rightarrow> 's lacpd_uci_configuration \<Rightarrow> ('k, 'h, 'z) hub_state_scheme \<Rightarrow>
     's list option \<times> 's lacpd_uci_configuration \<times> ('k, 'h, 'z) hub_state_scheme" where
  "lacpd_uci_cfg_init_package U K pkg_name cfg w =
     (if uci_ctx cfg then (uci_package_load U pkg_name, cfg, w)
      else
        let (ok, w1) = kcall (k_alloc K) w in
        if \<not> ok then (None, cfg, crash Null_Deref w1)
        else (uci_package_load U pkg_name, cfg\<lparr>uci_ctx := True\<rparr>, w1))"

definition uci_port_name :: "lacpd_uci_configuration_port \<Rightarrow> string" where
  "uci_port_name p =
     snprintf_buf (LACPD_CONFIG_SYS_NAME_SIZE + LACPD_CONFIG_SYS_NAME_SIZE + 1)
       (if length (pt_ifname p) \<noteq> 0 then sw_ifname (pt_sw p) @ ''.'' @ pt_ifname p
        else sw_ifname (pt_sw p) @ ''.port'' @ print_d (pt_port_num p))"

fun add_ports ::
    "'w lacpd_cfg_user \<Rightarrow> string \<Rightarrow> lacpd_uci_configuration_port list \<Rightarrow> 'w \<Rightarrow> bool \<times> 'w" where
  "add_ports user name [] w = (True, w)"
| "add_ports user name (p # ps) w =
     (let (ok, w1) = user_add_dev user (Some name) (uci_port_name p) \<lparr>cfg_user_key = pt_user_key p\<rparr> w in
      if ok then add_ports user name ps w1 else (False, w1))"

fun create_instances ::
    "'w lacpd_cfg_user \<Rightarrow> lacpd_uci_configuration_lacp list \<Rightarrow> 'w \<Rightarrow> bool \<times> 'w" where
  "create_instances user [] w = (True, w)"
| "create_instances user (lc # lcs) w =
     (let (ok, w1) = user_lacp_new user (lc_name lc)
            \<lparr>cfg_priority = lc_priority lc, cfg_tx_hash_policy = lc_tx_hash_policy lc,
             cfg_lacp_rate = lc_lacpdu_rate lc, cfg_ad_select = lc_ad_select lc\<rparr> w in
      if \<not> ok then (False, w1)
      else
        let (ok, w2) = add_ports user (lc_name lc) (lc_ports lc) w1 in
        if \<not> ok then (False, w2) else create_instances user lcs w2)"

definition lacpd_uci_cfg_init ::
    "'s uci_api \<Rightarrow> 'k qca_kernel \<Rightarrow> ('k, 'h, 'z) hub_state_scheme lacpd_cfg_user \<Rightarrow> string option \<Rightarrow>
     's lacpd_uci_configuration \<Rightarrow> ('k, 'h, 'z) hub_state_scheme \<Rightarrow>
     bool \<times> 's lacpd_uci_configuration \<times> ('k, 'h, 'z) hub_state_scheme" where
  "lacpd_uci_cfg_init U K user uci_cfg_pkg_name cfg w =
     (let cfg0 = cfg\<lparr>cfg_switches := [], cfg_lacp_instances := []\<rparr>;
          (pkg, cfg1, w1) = lacpd_uci_cfg_init_package U K
             (case uci_cfg_pkg_name of Some n \<Rightarrow> n | None \<Rightarrow> LACPD_UCI_PKG_NAME_DEFAULT) cfg0 w;
          cfg2 = cfg1\<lparr>uci_lacp := pkg\<rparr>
      in case pkg of
           None \<Rightarrow> (False, cfg2, w1)
         | Some secs \<Rightarrow>
             let (ok, cfg3, w3) = lacpd_uci_cfg_parse_lacp U K secs cfg2 w1 in
             if \<not> ok then (False, cfg3, w3)
             else
               let (ok, cfg4, w4) = lacpd_uci_cfg_parse_switch U K secs cfg3 w3 in
               if \<not> ok then (False, cfg4, w4)
               else
                 let (ok, cfg5, w5) = lacpd_uci_cfg_parse_port U K secs cfg4 w4 in
                 if \<not> ok then (False, cfg5, w5)
                 else
                   let (ok, w6) = create_instances user (cfg_lacp_instances cfg5) w5 in (ok, cfg5, w6))"

definition lacpd_uci_cfg_exit :: "'s lacpd_uci_configuration \<Rightarrow> 's lacpd_uci_configuration" where
  "lacpd_uci_cfg_exit cfg = cfg\<lparr>cfg_lacp_instances := [], cfg_switches := []\<rparr>"

subsection \<open>The interface of the wrapper\<close>

text \<open>
  What the configuration relies on: whatever holds of the state after each of its requests, and
  after an allocation, holds after it has been read and applied.
\<close>

locale configuration_user =
  fixes user :: "('k, 'h, 'z) hub_state_scheme lacpd_cfg_user"
    and good :: "('k, 'h, 'z) hub_state_scheme \<Rightarrow> bool"
  assumes alloc_good: "good w \<Longrightarrow> good (snd (kcall (k_alloc (K :: 'k qca_kernel)) w))"
    and crash_good: "good w \<Longrightarrow> good (crash e w)"
    and new_good: "good w \<Longrightarrow> good (snd (user_lacp_new user name prm w))"
    and add_good: "good w \<Longrightarrow> good (snd (user_add_dev user lname dev pprm w))"
begin

lemma add_ports_good: "good w \<Longrightarrow> good (snd (add_ports user name ps w))"
  by (induction ps arbitrary: w) (auto simp: split_beta add_good)

lemma create_instances_good: "good w \<Longrightarrow> good (snd (create_instances user lcs w))"
  by (induction lcs arbitrary: w) (auto simp: split_beta Let_def new_good add_ports_good)

lemma parse_sections_good:
  assumes "\<And>s c v. good v \<Longrightarrow> good (snd (snd (parse s c v)))" and "good w"
  shows "good (snd (snd (parse_sections parse sel ss c w)))"
  using assms(2) by (induction ss arbitrary: c w) (auto simp: split_beta assms(1))

lemma lacp_section_good: "good w \<Longrightarrow> good (snd (snd (lacpd_uci_cfg_parse_lacp_section U K s c w)))"
  by (auto simp: lacpd_uci_cfg_parse_lacp_section_def split_beta Let_def alloc_good split: option.split)

lemma switch_section_good: "good w \<Longrightarrow> good (snd (snd (lacpd_uci_cfg_parse_switch_section U K s c w)))"
  by (auto simp: lacpd_uci_cfg_parse_switch_section_def split_beta Let_def alloc_good split: option.split)

lemma port_section_good: "good w \<Longrightarrow> good (snd (snd (lacpd_uci_cfg_parse_port_section U K s c w)))"
  by (auto simp: lacpd_uci_cfg_parse_port_section_def split_beta Let_def alloc_good split: option.split)

lemma package_good: "good w \<Longrightarrow> good (snd (snd (lacpd_uci_cfg_init_package U K n c w)))"
  by (auto simp: lacpd_uci_cfg_init_package_def split_beta Let_def alloc_good crash_good)

lemmas parse_good = parse_sections_good [OF lacp_section_good] parse_sections_good [OF switch_section_good]
  parse_sections_good [OF port_section_good]

lemma init_good: "good w \<Longrightarrow> good (snd (snd (lacpd_uci_cfg_init U K user n c w)))"
  unfolding lacpd_uci_cfg_init_def lacpd_uci_cfg_parse_lacp_def lacpd_uci_cfg_parse_switch_def lacpd_uci_cfg_parse_port_def
  by (simp add: split_beta Let_def package_good parse_good create_instances_good split: option.split)

end

end
