(* ===== verification/Switch_Inv.thy ===== *)
theory Switch_Inv
  imports Genl_Switch
begin

text \<open>
  What the switch port layer keeps: the ports of a switch and the slaves of its aggregators are
  disjoint lists, every slave knows its aggregator, objects are unique, and the bitmap of an
  aggregator is the set of its slaves. The layer relies on the driver of the switch: what it needs
  is the locale \<open>virtual_switch\<close>, for switches whose aggregators have no device of their own.
\<close>

subsection \<open>The invariant\<close>

abbreviation ports_of :: "'a switch_state_scheme \<Rightarrow> sys_ref \<Rightarrow> sp_ref list" where
  "ports_of w r \<equiv> switch_ports (sw_mem w r)"

abbreviation slaves_of :: "'a switch_state_scheme \<Rightarrow> sp_ref \<Rightarrow> sp_ref list" where
  "slaves_of w p \<equiv> agg_slaves (sp_mem w p)"

abbreviation obj_of :: "'a switch_state_scheme \<Rightarrow> sp_ref \<Rightarrow> u32" where
  "obj_of w p \<equiv> switch_port_obj (sp_mem w p)"

abbreviation num_of :: "'a switch_state_scheme \<Rightarrow> sp_ref \<Rightarrow> nat" where
  "num_of w p \<equiv> unat (port_num (sp_mem w p))"

definition members :: "'a switch_state_scheme \<Rightarrow> sys_ref \<Rightarrow> sp_ref set" where
  "members w r = set (ports_of w r) \<union> (\<Union>p \<in> set (ports_of w r). set (slaves_of w p))"

text \<open>\<open>ag\<close> tells which objects are aggregators.\<close>

definition sw_shape :: "(u32 \<Rightarrow> bool) \<Rightarrow> sys_ref \<Rightarrow> 'a switch_state_scheme \<Rightarrow> bool" where
  "sw_shape ag r w \<longleftrightarrow> distinct (ports_of w r) \<and>
     (\<forall>p \<in> set (ports_of w r).
        agg_parent (sp_mem w p) = None \<and> distinct (slaves_of w p) \<and> (slaves_of w p \<noteq> [] \<longrightarrow> ag (obj_of w p)) \<and>
        (\<forall>s \<in> set (slaves_of w p). agg_parent (sp_mem w s) = Some p \<and> slaves_of w s = [] \<and> \<not> ag (obj_of w s)))"

definition sw_data :: "(u32 \<Rightarrow> bool) \<Rightarrow> sys_ref \<Rightarrow> 'a switch_state_scheme \<Rightarrow> bool" where
  "sw_data ag r w \<longleftrightarrow>
     (\<forall>p \<in> members w r. p < sp_next w \<and> sp_sw_sys (sp_mem w p) = r \<and> obj_of w p \<noteq> 0) \<and>
     inj_on (obj_of w) (members w r) \<and>
     (\<forall>p \<in> members w r. \<not> ag (obj_of w p) \<longrightarrow> num_of w p < 32) \<and>
     inj_on (num_of w) {p \<in> members w r. \<not> ag (obj_of w p)}"

definition sw_bits :: "(u32 \<Rightarrow> bool) \<Rightarrow> sys_ref \<Rightarrow> 'a switch_state_scheme \<Rightarrow> bool" where
  "sw_bits ag r w \<longleftrightarrow>
     (\<forall>p \<in> set (ports_of w r). ag (obj_of w p) \<longrightarrow>
        (\<forall>b. bit (port_num (sp_mem w p)) b \<longleftrightarrow> (\<exists>s \<in> set (slaves_of w p). num_of w s = b)))"

definition sw_wf :: "(u32 \<Rightarrow> bool) \<Rightarrow> sys_ref \<Rightarrow> 'a switch_state_scheme \<Rightarrow> bool" where
  "sw_wf ag r w \<longleftrightarrow> \<not> real_agg_dev (sw_mem w r) \<and> sw_shape ag r w \<and> sw_data ag r w \<and> sw_bits ag r w"

text \<open>The invariant is about the data of the layer only.\<close>

definition layer_same :: "'a switch_state_scheme \<Rightarrow> 'a switch_state_scheme \<Rightarrow> bool" where
  "layer_same w t \<longleftrightarrow> sw_mem t = sw_mem w \<and> sp_mem t = sp_mem w \<and> sp_next t = sp_next w"

lemma layer_same_refl [simp]: "layer_same w w"
  by (simp add: layer_same_def)

lemma layer_same_trans: "layer_same w t \<Longrightarrow> layer_same t u \<Longrightarrow> layer_same w u"
  by (simp add: layer_same_def)

lemma layer_same_wf: "layer_same w t \<Longrightarrow> sw_wf ag r t = sw_wf ag r w"
  by (simp add: layer_same_def sw_wf_def sw_shape_def sw_data_def sw_bits_def members_def)

lemma upd_sw_simps [simp]:
  "sw_mem (upd_sw r f w) = (sw_mem w)(r := f (sw_mem w r))"
  "sp_mem (upd_sw r f w) = sp_mem w" "sp_next (upd_sw r f w) = sp_next w"
  "ndev_systems (upd_sw r f w) = ndev_systems w" "sys_mem (upd_sw r f w) = sys_mem w"
  by (simp_all add: upd_sw_def)

lemma upd_sp_simps [simp]:
  "sp_mem (upd_sp p g w) = (sp_mem w)(p := g (sp_mem w p))"
  "sw_mem (upd_sp p g w) = sw_mem w" "sp_next (upd_sp p g w) = sp_next w"
  "ndev_systems (upd_sp p g w) = ndev_systems w" "sys_mem (upd_sp p g w) = sys_mem w"
  by (simp_all add: upd_sp_def)

subsection \<open>Lookups\<close>

lemma search_ports_Some:
  "search_ports P is_agg slaves ps = Some x \<Longrightarrow>
     P x \<and> (x \<in> set ps \<or> (\<exists>p \<in> set ps. is_agg p \<and> x \<in> set (slaves p)))"
  by (induction P is_agg slaves ps rule: search_ports.induct) (auto split: if_splits option.splits dest: find_SomeD)

lemma search_ports_None:
  "search_ports P is_agg slaves ps = None \<longleftrightarrow>
     (\<forall>p \<in> set ps. \<not> P p \<and> (is_agg p \<longrightarrow> (\<forall>x \<in> set (slaves p). \<not> P x)))"
  by (induction P is_agg slaves ps rule: search_ports.induct) (auto simp: find_None_iff split: option.splits dest: find_SomeD)

lemma wf_D:
  assumes "sw_wf ag r w"
  shows "\<not> real_agg_dev (sw_mem w r)" "distinct (ports_of w r)"
    "p \<in> set (ports_of w r) \<Longrightarrow> agg_parent (sp_mem w p) = None"
    "p \<in> set (ports_of w r) \<Longrightarrow> distinct (slaves_of w p)"
    "p \<in> set (ports_of w r) \<Longrightarrow> slaves_of w p \<noteq> [] \<Longrightarrow> ag (obj_of w p)"
    "p \<in> set (ports_of w r) \<Longrightarrow> s \<in> set (slaves_of w p) \<Longrightarrow> agg_parent (sp_mem w s) = Some p"
    "p \<in> set (ports_of w r) \<Longrightarrow> s \<in> set (slaves_of w p) \<Longrightarrow> slaves_of w s = []"
    "p \<in> set (ports_of w r) \<Longrightarrow> s \<in> set (slaves_of w p) \<Longrightarrow> \<not> ag (obj_of w s)"
    "q \<in> members w r \<Longrightarrow> q < sp_next w" "q \<in> members w r \<Longrightarrow> sp_sw_sys (sp_mem w q) = r"
    "q \<in> members w r \<Longrightarrow> obj_of w q \<noteq> 0"
  using assms by (auto simp: sw_wf_def sw_shape_def sw_data_def)

lemma member_port: "p \<in> set (ports_of w r) \<Longrightarrow> p \<in> members w r"
  by (simp add: members_def)

lemma member_slave: "p \<in> set (ports_of w r) \<Longrightarrow> s \<in> set (slaves_of w p) \<Longrightarrow> s \<in> members w r"
  by (auto simp: members_def)

text \<open>A member is a port of the switch or the slave of the aggregator it names.\<close>

lemma member_cases:
  assumes "sw_wf ag r w" and "p \<in> members w r"
  obtains "agg_parent (sp_mem w p) = None" "p \<in> set (ports_of w r)"
  | m where "agg_parent (sp_mem w p) = Some m" "m \<in> set (ports_of w r)" "p \<in> set (slaves_of w m)" "p \<notin> set (ports_of w r)"
proof (cases "p \<in> set (ports_of w r)")
  case True
  from that(1) [OF wf_D(3) [OF assms(1) True] True] show ?thesis .
next
  case False
  with assms(2) obtain m where m: "m \<in> set (ports_of w r)" "p \<in> set (slaves_of w m)" by (auto simp: members_def)
  from that(2) [OF wf_D(6) [OF assms(1) m] m False] show ?thesis .
qed

subsection \<open>Moving a port\<close>

text \<open>The state after a slave has left its aggregator, and after a port has joined one.\<close>

definition moved_out :: "sys_ref \<Rightarrow> sp_ref \<Rightarrow> sp_ref \<Rightarrow> 'a switch_state_scheme \<Rightarrow> 'a switch_state_scheme \<Rightarrow> bool" where
  "moved_out r m s w t \<longleftrightarrow>
     ports_of t r = ports_of w r @ [s] \<and> real_agg_dev (sw_mem t r) = real_agg_dev (sw_mem w r) \<and> sp_next t = sp_next w \<and>
     (\<forall>q. switch_port_obj (sp_mem t q) = obj_of w q \<and> sp_sw_sys (sp_mem t q) = sp_sw_sys (sp_mem w q) \<and>
        slaves_of t q = list_del s (slaves_of w q) \<and>
        agg_parent (sp_mem t q) = (if q = s then None else agg_parent (sp_mem w q)) \<and>
        (q \<noteq> m \<longrightarrow> port_num (sp_mem t q) = port_num (sp_mem w q))) \<and>
     (\<forall>b. bit (port_num (sp_mem t m)) b \<longleftrightarrow>
        slaves_of t m \<noteq> [] \<and> bit (port_num (sp_mem w m)) b \<and> b \<noteq> num_of w s)"

definition moved_in :: "sys_ref \<Rightarrow> sp_ref \<Rightarrow> sp_ref \<Rightarrow> 'a switch_state_scheme \<Rightarrow> 'a switch_state_scheme \<Rightarrow> bool" where
  "moved_in r m s w t \<longleftrightarrow>
     ports_of t r = list_del s (ports_of w r) \<and> real_agg_dev (sw_mem t r) = real_agg_dev (sw_mem w r) \<and> sp_next t = sp_next w \<and>
     (\<forall>q. switch_port_obj (sp_mem t q) = obj_of w q \<and> sp_sw_sys (sp_mem t q) = sp_sw_sys (sp_mem w q) \<and>
        slaves_of t q = (if q = m then slaves_of w m @ [s] else list_del s (slaves_of w q)) \<and>
        agg_parent (sp_mem t q) = (if q = s then Some m else agg_parent (sp_mem w q)) \<and>
        (q \<noteq> m \<longrightarrow> port_num (sp_mem t q) = port_num (sp_mem w q))) \<and>
     (\<forall>b. bit (port_num (sp_mem t m)) b \<longleftrightarrow> bit (port_num (sp_mem w m)) b \<or> b = num_of w s)"

lemma sw_data_cong:
  assumes "members t r = members w r" "sp_next t = sp_next w"
    and "\<And>q. q \<in> members w r \<Longrightarrow> obj_of t q = obj_of w q \<and> sp_sw_sys (sp_mem t q) = sp_sw_sys (sp_mem w q)"
    and "\<And>q. q \<in> members w r \<Longrightarrow> \<not> ag (obj_of w q) \<Longrightarrow> num_of t q = num_of w q"
  shows "sw_data ag r t = sw_data ag r w"
proof -
  have "inj_on (obj_of t) (members w r) = inj_on (obj_of w) (members w r)"
    by (rule inj_on_cong) (use assms in simp)
  moreover have "{p \<in> members t r. \<not> ag (obj_of t p)} = {p \<in> members w r. \<not> ag (obj_of w p)}"
    using assms by auto
  moreover have "inj_on (num_of t) {p \<in> members w r. \<not> ag (obj_of w p)} = inj_on (num_of w) {p \<in> members w r. \<not> ag (obj_of w p)}"
    by (rule inj_on_cong) (use assms in auto)
  ultimately show ?thesis unfolding sw_data_def using assms by simp
qed

lemma num_inj:
  assumes "sw_wf ag r w" and "p \<in> members w r" "q \<in> members w r" and "\<not> ag (obj_of w p)" "\<not> ag (obj_of w q)"
    and "num_of w p = num_of w q"
  shows "p = q"
proof -
  have "inj_on (num_of w) {p \<in> members w r. \<not> ag (obj_of w p)}" using assms(1) by (simp add: sw_wf_def sw_data_def)
  from inj_onD [OF this assms(6)] assms(2-5) show ?thesis by simp
qed

lemma wf_moved_out:
  assumes wf: "sw_wf ag r w" and m: "m \<in> set (ports_of w r)" and s: "s \<in> set (slaves_of w m)"
    and t: "moved_out r m s w t"
  shows "sw_wf ag r t" and "members t r = members w r"
proof -
  note D = wf_D [OF wf]
  have t': "ports_of t r = ports_of w r @ [s]" "\<And>q. obj_of t q = obj_of w q" "\<And>q. slaves_of t q = list_del s (slaves_of w q)"
    "\<And>q. agg_parent (sp_mem t q) = (if q = s then None else agg_parent (sp_mem w q))"
    "\<And>q. q \<noteq> m \<Longrightarrow> port_num (sp_mem t q) = port_num (sp_mem w q)"
    "\<And>b. bit (port_num (sp_mem t m)) b \<longleftrightarrow> slaves_of t m \<noteq> [] \<and> bit (port_num (sp_mem w m)) b \<and> b \<noteq> num_of w s"
    "sp_next t = sp_next w" "\<And>q. sp_sw_sys (sp_mem t q) = sp_sw_sys (sp_mem w q)" "\<not> real_agg_dev (sw_mem t r)"
    using t D(1) by (simp_all add: moved_out_def)
  have "slaves_of w m \<noteq> []" using s by (metis empty_iff empty_set)
  with D(5) [OF m] D(6-8) [OF m s]
  have sm: "agg_parent (sp_mem w s) = Some m" "slaves_of w s = []" "\<not> ag (obj_of w s)" "ag (obj_of w m)"
    by blast+
  have sp: "s \<notin> set (ports_of w r)" using D(3) sm(1) by force
  have other: "s \<notin> set (slaves_of w p)" if "p \<in> set (ports_of w r)" "p \<noteq> m" for p
    using D(6) [OF that(1)] sm(1) that(2) by force
  have sl: "set (slaves_of t p) = set (slaves_of w p) - {s}" if "p \<in> set (ports_of w r)" for p
    using D(4) [OF that] t'(3) by simp
  show mem: "members t r = members w r"
    using sl sm(2) m s by (auto simp: members_def t'(1) t'(3) [of s])
  have ps: "slaves_of w p = [] \<Longrightarrow> slaves_of t p = []" for p by (simp add: t'(3))
  have "sw_shape ag r t"
  proof -
    have "agg_parent (sp_mem t p) = None \<and> distinct (slaves_of t p) \<and> (slaves_of t p \<noteq> [] \<longrightarrow> ag (obj_of t p)) \<and>
        (\<forall>x \<in> set (slaves_of t p). agg_parent (sp_mem t x) = Some p \<and> slaves_of t x = [] \<and> \<not> ag (obj_of t x))"
      if "p \<in> set (ports_of t r)" for p
    proof (cases "p = s")
      case True
      then show ?thesis using sm(2) t'(4) ps by simp
    next
      case False
      with that have p: "p \<in> set (ports_of w r)" by (simp add: t'(1))
      have "slaves_of t p \<noteq> [] \<longrightarrow> ag (obj_of t p)" using D(5) [OF p] ps [of p] t'(2) by metis
      moreover have "distinct (slaves_of t p)" using D(4) [OF p] t'(3) by simp
      ultimately show ?thesis
        using D(3,6-8) [OF p] sl [OF p] ps sp False by (auto simp: t'(2) t'(4))
    qed
    with D(2) sp show ?thesis by (simp add: sw_shape_def t'(1))
  qed
  moreover have "num_of t q = num_of w q" if "\<not> ag (obj_of w q)" for q
    using that sm(4) t'(5) [of q] by (cases "q = m") simp_all
  then have "sw_data ag r t = sw_data ag r w"
    using mem t'(2,7,8) by (intro sw_data_cong) simp_all
  moreover have "sw_bits ag r t"
  proof -
    have "bit (port_num (sp_mem t p)) b \<longleftrightarrow> (\<exists>x \<in> set (slaves_of t p). num_of t x = b)"
      if p: "p \<in> set (ports_of t r)" "ag (obj_of t p)" for p b
    proof -
      from p sm(3) have pw: "p \<in> set (ports_of w r)" by (auto simp: t'(1,2))
      have num: "num_of t x = num_of w x" if "x \<in> set (slaves_of w p)" for x
        using D(8) [OF pw that] sm(4) t'(5) by metis
      have wb: "bit (port_num (sp_mem w p)) b \<longleftrightarrow> (\<exists>x \<in> set (slaves_of w p). num_of w x = b)"
        using wf pw p(2) by (simp add: sw_wf_def sw_bits_def t'(2))
      show ?thesis
      proof (cases "p = m")
        case True
        have "num_of w x \<noteq> num_of w s" if "x \<in> set (slaves_of w m)" "x \<noteq> s" for x
          using num_inj [OF wf member_slave [OF m that(1)] member_slave [OF m s] D(8) [OF m that(1)] sm(3)] that(2) by blast
        with True wb num sl [OF m] t'(6) show ?thesis by (cases "slaves_of t m = []") fastforce+
      next
        case False
        with other [OF pw] sl [OF pw] num wb t'(5) show ?thesis by auto
      qed
    qed
    then show ?thesis by (simp add: sw_bits_def)
  qed
  ultimately show "sw_wf ag r t" using wf t'(9) by (simp add: sw_wf_def)
qed

lemma wf_moved_in:
  assumes wf: "sw_wf ag r w" and m: "m \<in> set (ports_of w r)" "ag (obj_of w m)"
    and s: "s \<in> set (ports_of w r)" "\<not> ag (obj_of w s)" and t: "moved_in r m s w t"
  shows "sw_wf ag r t" and "members t r = members w r"
proof -
  note D = wf_D [OF wf]
  have t': "ports_of t r = list_del s (ports_of w r)" "\<And>q. obj_of t q = obj_of w q"
    "\<And>q. slaves_of t q = (if q = m then slaves_of w m @ [s] else list_del s (slaves_of w q))"
    "\<And>q. agg_parent (sp_mem t q) = (if q = s then Some m else agg_parent (sp_mem w q))"
    "\<And>q. q \<noteq> m \<Longrightarrow> port_num (sp_mem t q) = port_num (sp_mem w q)"
    "\<And>b. bit (port_num (sp_mem t m)) b \<longleftrightarrow> bit (port_num (sp_mem w m)) b \<or> b = num_of w s"
    "sp_next t = sp_next w" "\<And>q. sp_sw_sys (sp_mem t q) = sp_sw_sys (sp_mem w q)" "\<not> real_agg_dev (sw_mem t r)"
    using t D(1) by (simp_all add: moved_in_def)
  have ms: "m \<noteq> s" using m(2) s(2) by auto
  have none: "s \<notin> set (slaves_of w p)" if "p \<in> set (ports_of w r)" for p
    using D(6) [OF that] D(3) [OF s(1)] by force
  have ss: "slaves_of w s = []" using D(5) [OF s(1)] s(2) by blast
  have pt: "set (ports_of t r) = set (ports_of w r) - {s}" using D(2) by (simp add: t'(1))
  have sl: "slaves_of t p = (if p = m then slaves_of w m @ [s] else slaves_of w p)" if "p \<in> set (ports_of w r)" for p
    using none [OF that] t'(3) by simp
  show mem: "members t r = members w r"
    using sl m(1) s(1) ss ms none by (auto simp: members_def pt split: if_splits)
  have "sw_shape ag r t"
  proof -
    have "agg_parent (sp_mem t p) = None \<and> distinct (slaves_of t p) \<and> (slaves_of t p \<noteq> [] \<longrightarrow> ag (obj_of t p)) \<and>
        (\<forall>x \<in> set (slaves_of t p). agg_parent (sp_mem t x) = Some p \<and> slaves_of t x = [] \<and> \<not> ag (obj_of t x))"
      if "p \<in> set (ports_of t r)" for p
    proof -
      from that have p: "p \<in> set (ports_of w r)" "p \<noteq> s" by (auto simp: pt)
      have old: "agg_parent (sp_mem t x) = Some p \<and> slaves_of t x = [] \<and> \<not> ag (obj_of t x)" if "x \<in> set (slaves_of w p)" for x
        using D(6-8) [OF p(1) that] that none [OF p(1)] m(2) t'(2,4) by (auto simp: t'(3))
      have new: "slaves_of t s = []" using ss ms by (simp add: t'(3))
      show ?thesis
        using D(3-5) [OF p(1)] none [OF p(1)] old new m(2) s(2) p(2) sl [OF p(1)] t'(2,4) by auto
    qed
    with D(2) show ?thesis by (simp add: sw_shape_def t'(1))
  qed
  moreover have "num_of t q = num_of w q" if "\<not> ag (obj_of w q)" for q
    using that m(2) t'(5) [of q] by (cases "q = m") simp_all
  then have "sw_data ag r t = sw_data ag r w"
    using mem t'(2,7,8) by (intro sw_data_cong) simp_all
  moreover have "sw_bits ag r t"
  proof -
    have "bit (port_num (sp_mem t p)) b \<longleftrightarrow> (\<exists>x \<in> set (slaves_of t p). num_of t x = b)"
      if p: "p \<in> set (ports_of t r)" "ag (obj_of t p)" for p b
    proof -
      from p have pw: "p \<in> set (ports_of w r)" by (simp add: pt)
      have num: "num_of t x = num_of w x" if "x = s \<or> x \<in> set (slaves_of w p)" for x
        using D(8) [OF pw] m(2) ms t'(5) that by metis
      have wb: "bit (port_num (sp_mem w p)) b \<longleftrightarrow> (\<exists>x \<in> set (slaves_of w p). num_of w x = b)"
        using wf pw p(2) by (simp add: sw_wf_def sw_bits_def t'(2))
      show ?thesis
        using wb num sl [OF pw] t'(5) [of p] t'(6) by (cases "p = m") auto
    qed
    then show ?thesis by (simp add: sw_bits_def)
  qed
  ultimately show "sw_wf ag r t" using wf t'(9) by (simp add: sw_wf_def)
qed

end
