(* ===== verification/Switch_Contract.thy ===== *)
theory Switch_Contract
  imports Switch_Inv
begin

text \<open>
  The contract between the switch port layer and the driver of a switch whose aggregators have no
  device of their own, and what the layer keeps under it: every operation of the layer preserves
  the invariant, whether the hardware follows or fails.
\<close>

subsection \<open>Adding and removing members\<close>

lemma wf_added:
  assumes wf: "sw_wf ag r w" and p: "p \<notin> members w r" "p < sp_next t" "sp_next w \<le> sp_next t"
    and t: "ports_of t r = ports_of w r @ [p]" "\<not> real_agg_dev (sw_mem t r)" "\<And>q. q \<noteq> p \<Longrightarrow> sp_mem t q = sp_mem w q"
    and P: "slaves_of t p = []" "agg_parent (sp_mem t p) = None" "sp_sw_sys (sp_mem t p) = r" "obj_of t p \<noteq> 0"
    and fresh: "\<And>q. q \<in> members w r \<Longrightarrow> obj_of w q \<noteq> obj_of t p \<and> ag' (obj_of w q) = ag (obj_of w q)"
    and agg: "ag' (obj_of t p) \<Longrightarrow> port_num (sp_mem t p) = 0"
    and plain: "\<not> ag' (obj_of t p) \<Longrightarrow> num_of t p < 32 \<and>
        (\<forall>q \<in> members w r. \<not> ag (obj_of w q) \<longrightarrow> num_of w q \<noteq> num_of t p)"
  shows "sw_wf ag' r t" and "members t r = insert p (members w r)"
proof -
  note D = wf_D [OF wf]
  have np: "p \<notin> set (ports_of w r)" using p(1) member_port by blast
  have same: "sp_mem t q = sp_mem w q" if "q \<in> members w r" for q using t(3) p(1) that by metis
  have psame: "sp_mem t q = sp_mem w q" if "q \<in> set (ports_of w r)" for q using same member_port that by blast
  show mem: "members t r = insert p (members w r)"
    using psame by (auto simp: members_def t(1) P(1))
  have "sw_shape ag' r t"
  proof -
    have "agg_parent (sp_mem t q) = None \<and> distinct (slaves_of t q) \<and> (slaves_of t q \<noteq> [] \<longrightarrow> ag' (obj_of t q)) \<and>
        (\<forall>s \<in> set (slaves_of t q). agg_parent (sp_mem t s) = Some q \<and> slaves_of t s = [] \<and> \<not> ag' (obj_of t s))"
      if "q \<in> set (ports_of t r)" for q
    proof (cases "q = p")
      case False
      with that have q: "q \<in> set (ports_of w r)" by (simp add: t(1))
      have s: "sp_mem t s = sp_mem w s" "ag' (obj_of w s) = ag (obj_of w s)" if "s \<in> set (slaves_of w q)" for s
        using same fresh member_slave [OF q that] by blast+
      from D(3-8) [OF q] psame [OF q] fresh [OF member_port [OF q]] s show ?thesis by simp
    qed (simp add: P)
    with D(2) np show ?thesis by (simp add: sw_shape_def t(1))
  qed
  moreover have "sw_data ag' r t"
  proof -
    have d: "inj_on (obj_of w) (members w r)" "inj_on (num_of w) {q \<in> members w r. \<not> ag (obj_of w q)}"
      "\<And>q. q \<in> members w r \<Longrightarrow> \<not> ag (obj_of w q) \<Longrightarrow> num_of w q < 32"
      using wf by (simp_all add: sw_wf_def sw_data_def)
    have "inj_on (obj_of t) (insert p (members w r))"
      using d(1) same fresh p(1) unfolding inj_on_def by (metis insert_iff)
    moreover have "inj_on (num_of t) {q \<in> insert p (members w r). \<not> ag' (obj_of t q)}"
      using d(2) same fresh p(1) plain unfolding inj_on_def by (simp add: imp_conjL) metis
    moreover have "q < sp_next t \<and> sp_sw_sys (sp_mem t q) = r \<and> obj_of t q \<noteq> 0" if "q \<in> insert p (members w r)" for q
      using that D(9-11) [of q] same [of q] p P by (cases "q = p") auto
    moreover have "num_of t q < 32" if "q \<in> insert p (members w r)" "\<not> ag' (obj_of t q)" for q
      using that d(3) [of q] same [of q] fresh [of q] plain by (cases "q = p") auto
    ultimately show ?thesis by (simp add: sw_data_def mem)
  qed
  moreover have "sw_bits ag' r t"
  proof -
    have "bit (port_num (sp_mem t q)) b \<longleftrightarrow> (\<exists>s \<in> set (slaves_of t q). num_of t s = b)"
      if q: "q \<in> set (ports_of t r)" "ag' (obj_of t q)" for q b
    proof (cases "q = p")
      case True
      with q(2) agg show ?thesis by (simp add: P(1))
    next
      case False
      with q(1) have qw: "q \<in> set (ports_of w r)" by (simp add: t(1))
      have "num_of t s = num_of w s" if "s \<in> set (slaves_of w q)" for s
        using same member_slave [OF qw that] by simp
      with wf qw q(2) psame [OF qw] fresh [OF member_port [OF qw]] show ?thesis
        by (simp add: sw_wf_def sw_bits_def)
    qed
    then show ?thesis by (simp add: sw_bits_def)
  qed
  ultimately show "sw_wf ag' r t" using t(2) by (simp add: sw_wf_def)
qed

lemma wf_removed:
  assumes wf: "sw_wf ag r w" and p: "p \<in> set (ports_of w r)" "slaves_of w p = []" and nxt: "sp_next t = sp_next w"
    and t: "ports_of t r = list_del p (ports_of w r)" "\<not> real_agg_dev (sw_mem t r)" "\<And>q. q \<in> members w r \<Longrightarrow> sp_mem t q = sp_mem w q"
    and same: "\<And>q. q \<in> members w r \<Longrightarrow> q \<noteq> p \<Longrightarrow> ag' (obj_of w q) = ag (obj_of w q)"
  shows "sw_wf ag' r t" and "members t r = members w r - {p}"
proof -
  note D = wf_D [OF wf]
  have pt: "set (ports_of t r) = set (ports_of w r) - {p}" using D(2) by (simp add: t(1))
  have ns: "p \<notin> set (slaves_of w q)" if "q \<in> set (ports_of w r)" for q
    using D(6) [OF that] D(3) [OF p(1)] by force
  have psame: "sp_mem t q = sp_mem w q" if "q \<in> set (ports_of w r)" for q using t(3) member_port that by blast
  show mem: "members t r = members w r - {p}"
    using psame ns p(2) by (auto simp: members_def pt)
  have sl: "sp_mem t s = sp_mem w s" "ag' (obj_of w s) = ag (obj_of w s)"
    if "q \<in> set (ports_of w r)" "s \<in> set (slaves_of w q)" for q s
    using t(3) same member_slave [OF that] ns [OF that(1)] that(2) by metis+
  have "sw_shape ag' r t"
  proof -
    have "agg_parent (sp_mem t q) = None \<and> distinct (slaves_of t q) \<and> (slaves_of t q \<noteq> [] \<longrightarrow> ag' (obj_of t q)) \<and>
        (\<forall>s \<in> set (slaves_of t q). agg_parent (sp_mem t s) = Some q \<and> slaves_of t s = [] \<and> \<not> ag' (obj_of t s))"
      if "q \<in> set (ports_of t r)" for q
    proof -
      from that have q: "q \<in> set (ports_of w r)" "q \<noteq> p" by (auto simp: pt)
      from D(3-8) [OF q(1)] psame [OF q(1)] same [OF member_port [OF q(1)] q(2)] sl [OF q(1)] show ?thesis by simp
    qed
    with D(2) show ?thesis by (simp add: sw_shape_def t(1))
  qed
  moreover have "sw_data ag' r t"
  proof -
    have d: "inj_on (obj_of w) (members w r)" "inj_on (num_of w) {q \<in> members w r. \<not> ag (obj_of w q)}"
      "\<And>q. q \<in> members w r \<Longrightarrow> \<not> ag (obj_of w q) \<Longrightarrow> num_of w q < 32"
      using wf by (simp_all add: sw_wf_def sw_data_def)
    have "inj_on (obj_of t) (members w r - {p})"
      using d(1) t(3) by (auto simp: inj_on_def)
    moreover have "inj_on (num_of t) {q \<in> members w r - {p}. \<not> ag' (obj_of t q)}"
      using d(2) t(3) same by (auto simp: inj_on_def)
    ultimately show ?thesis using D(9-11) d(3) t(3) same nxt by (simp add: sw_data_def mem)
  qed
  moreover have "sw_bits ag' r t"
  proof -
    have "bit (port_num (sp_mem t q)) b \<longleftrightarrow> (\<exists>s \<in> set (slaves_of t q). num_of t s = b)"
      if q: "q \<in> set (ports_of t r)" "ag' (obj_of t q)" for q b
    proof -
      from q(1) have qw: "q \<in> set (ports_of w r)" "q \<noteq> p" by (auto simp: pt)
      with wf q(2) psame [OF qw(1)] same [OF member_port [OF qw(1)] qw(2)] sl [OF qw(1)] show ?thesis
        by (simp add: sw_wf_def sw_bits_def)
    qed
    then show ?thesis by (simp add: sw_bits_def)
  qed
  ultimately show "sw_wf ag' r t" using t(2) by (simp add: sw_wf_def)
qed

subsection \<open>The contract\<close>

text \<open>
  What the layer sees of the driver: the objects of its aggregators, the objects aggregators may
  have, and the object of port 0.
\<close>

record switch_view =
  v_agg :: "u32 \<Rightarrow> bool"
  v_dom :: "u32 set"
  v_base :: u32

definition hw_frame ::
    "('a switch_state_scheme \<Rightarrow> bool) \<Rightarrow> ('a switch_state_scheme \<Rightarrow> switch_view) \<Rightarrow>
     'a switch_state_scheme \<Rightarrow> 'a switch_state_scheme \<Rightarrow> bool" where
  "hw_frame good view w t \<longleftrightarrow> good t \<and> view t = view w \<and> layer_same w t"

definition layer_only :: "'a switch_state_scheme \<Rightarrow> 'a switch_state_scheme \<Rightarrow> bool" where
  "layer_only w t \<longleftrightarrow> (\<exists>a b c. t = w\<lparr>sw_mem := a, sp_mem := b, sp_next := c\<rparr>)"

lemma layer_only_refl [simp]: "layer_only w w"
  unfolding layer_only_def by (intro exI [of _ "sw_mem w"] exI [of _ "sp_mem w"] exI [of _ "sp_next w"]) simp

lemma layer_only_upd [simp]:
  assumes "layer_only w t"
  shows "layer_only w (upd_sw r f t)" "layer_only w (upd_sp p g t)" "layer_only w (unlink_port r p t)"
    "layer_only w (t\<lparr>sp_next := n\<rparr>)"
proof -
  from assms obtain a b c where t: "t = w\<lparr>sw_mem := a, sp_mem := b, sp_next := c\<rparr>" by (auto simp: layer_only_def)
  have sw: "layer_only w (upd_sw r f (w\<lparr>sw_mem := a, sp_mem := b, sp_next := c\<rparr>))" for f b
    unfolding layer_only_def upd_sw_def by (intro exI [of _ "a(r := f (a r))"] exI [of _ b] exI [of _ c]) simp
  then show "layer_only w (upd_sw r f t)" unfolding t .
  show "layer_only w (upd_sp p g t)"
    unfolding layer_only_def upd_sp_def t by (intro exI [of _ a] exI [of _ "b(p := g (b p))"] exI [of _ c]) simp
  show "layer_only w (t\<lparr>sp_next := n\<rparr>)"
    unfolding layer_only_def t by (intro exI [of _ a] exI [of _ b] exI [of _ n]) simp
  have eq: "(w\<lparr>sw_mem := a, sp_mem := b, sp_next := c\<rparr>)\<lparr>sp_mem := g\<rparr> = w\<lparr>sw_mem := a, sp_mem := g, sp_next := c\<rparr>" for g
    by simp
  show "layer_only w (unlink_port r p t)"
    unfolding unlink_port_def t eq by (rule sw)
qed

definition sw_inv ::
    "('a switch_state_scheme \<Rightarrow> bool) \<Rightarrow> ('a switch_state_scheme \<Rightarrow> switch_view) \<Rightarrow> sys_ref \<Rightarrow>
     'a switch_state_scheme \<Rightarrow> bool" where
  "sw_inv good view r w \<longleftrightarrow> good w \<and> sw_wf (v_agg (view w)) r w \<and>
     (\<forall>p \<in> members w r. \<not> v_agg (view w) (obj_of w p) \<longrightarrow>
        obj_of w p \<notin> v_dom (view w) \<and> obj_of w p = v_base (view w) + port_num (sp_mem w p))"

locale virtual_switch =
  fixes E :: "'a switch_state_scheme switch_calls" and r :: sys_ref
    and good :: "'a switch_state_scheme \<Rightarrow> bool" and view :: "'a switch_state_scheme \<Rightarrow> switch_view"
  assumes is_agg: "good w \<Longrightarrow> sp_sw_sys (sp_mem w p) = r \<Longrightarrow>
      hw_is_aggregator (hw E) p None w = v_agg (view w) (obj_of w p)"
    and agg_in_dom: "good w \<Longrightarrow> v_agg (view w) obj \<Longrightarrow> obj \<in> v_dom (view w)"
    and dom_valid: "good w \<Longrightarrow> obj \<in> v_dom (view w) \<Longrightarrow> obj \<noteq> 0"
    and good_layer: "good (w\<lparr>sw_mem := a, sp_mem := b, sp_next := c\<rparr>) = good w"
    and view_layer: "view (w\<lparr>sw_mem := a, sp_mem := b, sp_next := c\<rparr>) = view w"
    and attach_frame: "good w \<Longrightarrow> hw_attach_slave (hw E) m s w = (ok, t) \<Longrightarrow> hw_frame good view w t"
    and detach_frame: "good w \<Longrightarrow> hw_detach_slave (hw E) m s w = (ok, t) \<Longrightarrow> hw_frame good view w t"
    and calloc_frame: "good w \<Longrightarrow> sw_calloc E w = (ok, t) \<Longrightarrow> hw_frame good view w t"
    and destroy_effect: "good w \<Longrightarrow> sp_sw_sys (sp_mem w p) = r \<Longrightarrow> hw_destroy_aggregator (hw E) p w = (ok, t) \<Longrightarrow>
      good t \<and> layer_same w t \<and>
      view t = (if ok then (view w)\<lparr>v_agg := (v_agg (view w))(obj_of w p := False)\<rparr> else view w)"
    and new_effect: "good w \<Longrightarrow> sp_sw_sys (sp_mem w p) = r \<Longrightarrow> hw_new_aggregator (hw E) p w = (ok, t) \<Longrightarrow>
      (if ok then \<exists>obj \<in> v_dom (view w). \<not> v_agg (view w) obj \<and> good t \<and>
           layer_same (upd_sp p (\<lambda>P. P\<lparr>switch_port_obj := obj\<rparr>) w) t \<and>
           view t = (view w)\<lparr>v_agg := (v_agg (view w))(obj := True)\<rparr>
       else hw_frame good view w t)"
    and added_frame: "good w \<Longrightarrow> out_netdev_obj_added (user_api E u) = Some f \<Longrightarrow> hw_frame good view w (f obj w)"
    and deleted_frame: "good w \<Longrightarrow> out_netdev_obj_deleted (user_api E u) = Some f \<Longrightarrow> hw_frame good view w (f obj w)"

end
