(* ===== verification/Switch_Ops.thy ===== *)
theory Switch_Ops
  imports Switch_Contract
begin

text \<open>
  The operations of the switch port layer under the contract of \<open>virtual_switch\<close>: lookups find
  exactly the members, a slave leaves and a port joins an aggregator as the lists and bitmaps say,
  and every operation preserves the invariant.
\<close>

lemma wf_fields_cong:
  assumes "\<And>q. obj_of t q = obj_of w q \<and> slaves_of t q = slaves_of w q \<and> agg_parent (sp_mem t q) = agg_parent (sp_mem w q) \<and>
      sp_sw_sys (sp_mem t q) = sp_sw_sys (sp_mem w q) \<and> port_num (sp_mem t q) = port_num (sp_mem w q)"
    and "ports_of t r = ports_of w r" "real_agg_dev (sw_mem t r) = real_agg_dev (sw_mem w r)" "sp_next t = sp_next w"
  shows "sw_wf ag r t = sw_wf ag r w" "members t r = members w r"
proof -
  show m: "members t r = members w r" using assms by (simp add: members_def)
  have "obj_of t = obj_of w" "num_of t = num_of w" using assms(1) by auto
  with m assms show "sw_wf ag r t = sw_wf ag r w"
    by (simp add: sw_wf_def sw_shape_def sw_data_def sw_bits_def)
qed

lemma wf_ag_cong:
  assumes "\<And>p. p \<in> members w r \<Longrightarrow> ag' (obj_of w p) = ag (obj_of w p)"
  shows "sw_wf ag' r w = sw_wf ag r w"
proof -
  have p: "ag' (obj_of w p) = ag (obj_of w p)" if "p \<in> set (ports_of w r)" for p
    using assms [OF member_port [OF that]] .
  have sl: "ag' (obj_of w s) = ag (obj_of w s)" if "p \<in> set (ports_of w r)" "s \<in> set (slaves_of w p)" for p s
    using assms [OF member_slave [OF that]] .
  have "{p \<in> members w r. \<not> ag' (obj_of w p)} = {p \<in> members w r. \<not> ag (obj_of w p)}" using assms by auto
  moreover have "sw_shape ag' r w = sw_shape ag r w"
    using p sl by (auto simp: sw_shape_def)
  moreover have "sw_bits ag' r w = sw_bits ag r w"
    using p by (auto simp: sw_bits_def)
  ultimately show ?thesis using assms by (simp add: sw_wf_def sw_data_def cong: conj_cong)
qed

lemma moved_out_same: "layer_same v t \<Longrightarrow> moved_out r m s w t = moved_out r m s w v"
  by (simp add: layer_same_def moved_out_def)

lemma moved_in_same: "layer_same v t \<Longrightarrow> moved_in r m s w t = moved_in r m s w v"
  by (simp add: layer_same_def moved_in_def)

lemma moved_out_from: "layer_same w v \<Longrightarrow> moved_out r m s v t = moved_out r m s w t"
  by (simp add: layer_same_def moved_out_def)

lemma moved_in_from: "layer_same w v \<Longrightarrow> moved_in r m s v t = moved_in r m s w t"
  by (simp add: layer_same_def moved_in_def)

lemma unlink_simps [simp]:
  "sp_mem (unlink_port r s w) = (\<lambda>q. (sp_mem w q)\<lparr>agg_slaves := list_del s (slaves_of w q)\<rparr>)"
  "sw_mem (unlink_port r s w) = (sw_mem w)(r := (sw_mem w r)\<lparr>switch_ports := list_del s (ports_of w r)\<rparr>)"
  "sp_next (unlink_port r s w) = sp_next w"
  by (simp_all add: unlink_port_def)

lemma give_up_simps [simp]:
  "switch_port_obj (give_up M) = switch_port_obj M" "sp_sw_sys (give_up M) = sp_sw_sys M"
  "agg_slaves (give_up M) = agg_slaves M" "agg_parent (give_up M) = agg_parent M" "port_num (give_up M) = 0"
  "switch_port_obj (take_over S M) = switch_port_obj M" "sp_sw_sys (take_over S M) = sp_sw_sys M"
  "agg_slaves (take_over S M) = agg_slaves M" "agg_parent (take_over S M) = agg_parent M" "port_num (take_over S M) = 0"
  by (simp_all add: give_up_def take_over_def)

lemma bit_cleared: "bit ((x :: u32) AND NOT (push_bit k 1)) b \<longleftrightarrow> bit x b \<and> b \<noteq> k"
  "bit ((x :: u32) AND NOT (2 ^ k)) b \<longleftrightarrow> bit x b \<and> b \<noteq> k"
  by (auto simp: bit_simps dest: bit_imp_le_length)

lemma bit_added: "k < 32 \<Longrightarrow> bit ((x :: u32) OR push_bit k 1) b \<longleftrightarrow> bit x b \<or> b = k"
  "k < 32 \<Longrightarrow> bit ((x :: u32) OR 2 ^ k) b \<longleftrightarrow> bit x b \<or> b = k"
  by (auto simp: bit_simps)

text \<open>The outcome of attaching a port that is not an aggregator itself.\<close>

definition attach_result :: "sys_ref \<Rightarrow> u32 \<Rightarrow> u32 \<Rightarrow> 'a switch_state_scheme \<Rightarrow> bool \<Rightarrow> 'a switch_state_scheme \<Rightarrow> bool" where
  "attach_result q mo so w ok t \<longleftrightarrow>
     members t q = members w q \<and> (\<forall>p. obj_of t p = obj_of w p) \<and>
     (if ok then \<exists>m s. m \<in> set (ports_of t q) \<and> s \<in> set (slaves_of t m) \<and> obj_of w m = mo \<and> obj_of w s = so
      else layer_same w t \<or>
        (\<exists>m s. m \<in> set (ports_of w q) \<and> s \<in> set (slaves_of w m) \<and> obj_of w s = so \<and> moved_out q m s w t))"

context virtual_switch
begin

lemma layer_only_frame: "layer_only w t \<Longrightarrow> good t = good w \<and> view t = view w"
  using good_layer view_layer by (auto simp: layer_only_def)

lemma inv_D:
  assumes "sw_inv good view r w"
  shows "good w" "sw_wf (v_agg (view w)) r w"
    "\<And>p. p \<in> members w r \<Longrightarrow> \<not> v_agg (view w) (obj_of w p) \<Longrightarrow> obj_of w p \<notin> v_dom (view w)"
    "\<And>p. p \<in> members w r \<Longrightarrow> \<not> v_agg (view w) (obj_of w p) \<Longrightarrow> obj_of w p = v_base (view w) + port_num (sp_mem w p)"
  using assms by (auto simp: sw_inv_def)

lemma inv_frame:
  assumes "sw_inv good view r w" and "hw_frame good view w t"
  shows "sw_inv good view r t" and "members t r = members w r"
proof -
  have "layer_same w t" using assms(2) by (simp add: hw_frame_def)
  then show m: "members t r = members w r" by (simp add: layer_same_def members_def)
  from assms m layer_same_wf [of w t] show "sw_inv good view r t"
    by (simp add: sw_inv_def hw_frame_def) (simp add: layer_same_def)
qed

lemma member_is_agg:
  assumes "sw_inv good view r w" and "p \<in> members w r"
  shows "switch_port_is_aggregator E w p = v_agg (view w) (obj_of w p)"
  using is_agg [OF inv_D(1) [OF assms(1)]] wf_D(10) [OF inv_D(2) [OF assms(1)] assms(2)]
  by (simp add: switch_port_is_aggregator_def)

lemma inv_no_zero: "sw_inv good view r w \<Longrightarrow> p \<in> members w r \<Longrightarrow> obj_of w p \<noteq> 0"
  using wf_D(11) inv_D(2) by blast

text \<open>A lookup finds the member of the switch with the object.\<close>

lemma lookup_iff:
  assumes inv: "sw_inv good view r w"
  shows "genl_dev_sw_port_lookup E r obj w = Some p \<longleftrightarrow> p \<in> members w r \<and> obj_of w p = obj"
proof -
  note wf = inv_D(2) [OF inv]
  have found: "q \<in> members w r \<and> obj_of w q = obj" if "genl_dev_sw_port_lookup E r obj w = Some q" for q
    using that by (auto simp: genl_dev_sw_port_lookup_def members_def split: if_splits dest!: search_ports_Some)
  have "genl_dev_sw_port_lookup E r obj w \<noteq> None" if q: "q \<in> members w r" "obj_of w q = obj" for q
  proof
    assume none: "genl_dev_sw_port_lookup E r obj w = None"
    have "obj \<noteq> 0" using inv_no_zero [OF inv q(1)] q(2) by simp
    with none have *: "\<forall>p \<in> set (ports_of w r). obj_of w p \<noteq> obj \<and>
        (switch_port_is_aggregator E w p \<longrightarrow> (\<forall>x \<in> set (slaves_of w p). obj_of w x \<noteq> obj))"
      by (auto simp: genl_dev_sw_port_lookup_def netdev_obj_is_invalid_def GENERAL_DEVICE_INVALID_ID_def search_ports_None)
    show False
      using wf q(1)
    proof (cases rule: member_cases)
      case 1
      with * q(2) show False by blast
    next
      case (2 m)
      then have "slaves_of w m \<noteq> []" by (metis empty_iff empty_set)
      then have "switch_port_is_aggregator E w m"
        using wf_D(5) [OF wf 2(2)] member_is_agg [OF inv member_port [OF 2(2)]] by simp
      with * 2 q(2) show False by blast
    qed
  qed
  moreover have "q = p" if "p \<in> members w r" "q \<in> members w r" "obj_of w p = obj_of w q" for q
    using wf that by (auto simp: sw_wf_def sw_data_def dest: inj_onD)
  ultimately show ?thesis using found by (metis option.exhaust)
qed

lemma lookup_None:
  assumes "sw_inv good view r w"
  shows "genl_dev_sw_port_lookup E r obj w = None \<longleftrightarrow> (\<forall>p \<in> members w r. obj_of w p \<noteq> obj)"
  using lookup_iff [OF assms] by (metis not_None_eq)

lemma lookup_member:
  assumes "sw_inv good view r w" and "p \<in> members w r"
  shows "genl_dev_sw_port_lookup E r (obj_of w p) w = Some p"
  using assms by (simp add: lookup_iff)

text \<open>The users of the switch leave the layer alone.\<close>

lemma frame_refl: "good w \<Longrightarrow> hw_frame good view w w"
  by (simp add: hw_frame_def)

lemma frame_trans: "hw_frame good view w t \<Longrightarrow> hw_frame good view t u \<Longrightarrow> hw_frame good view w u"
  by (auto simp: hw_frame_def intro: layer_same_trans)

lemma fold_frame:
  assumes "\<And>u v. good v \<Longrightarrow> hw_frame good view v (g u v)" and "good w"
  shows "hw_frame good view w (fold g us w)"
  using assms(2)
proof (induction us arbitrary: w)
  case (Cons u us)
  from assms(1) [OF Cons.prems, of u] have f: "hw_frame good view w (g u w)" .
  then have "good (g u w)" by (simp add: hw_frame_def)
  from frame_trans [OF f Cons.IH [OF this]] show ?case by simp
qed (simp add: frame_refl)

lemma notify_added: "good w \<Longrightarrow> hw_frame good view w (genl_dev_notify_netdev_obj_added (user_api E) r obj w)"
  unfolding genl_dev_notify_netdev_obj_added_def
  by (rule fold_frame) (auto split: option.split intro: frame_refl added_frame)

lemma notify_deleted: "good w \<Longrightarrow> hw_frame good view w (genl_dev_notify_netdev_obj_deleted (user_api E) r obj w)"
  unfolding genl_dev_notify_netdev_obj_deleted_def
  by (rule fold_frame) (auto split: option.split intro: frame_refl deleted_frame)

subsection \<open>Leaving an aggregator\<close>

lemma port_add_out:
  assumes inv: "sw_inv good view r w" and m: "m \<in> set (ports_of w r)" and s: "s \<in> set (slaves_of w m)"
  obtains t where "genl_dev_sw_port_add E r s None w = (True, t)" "layer_only w t"
    "moved_out r m s w (if slaves_of t m = [] then upd_sp m give_up t else t)"
proof -
  note wf = inv_D(2) [OF inv]
  have sm: "agg_parent (sp_mem w s) = Some m" "s \<notin> set (ports_of w r)"
    using wf_D(6) [OF wf m s] wf_D(3) [OF wf] by force+
  have ms: "m \<noteq> s" using sm m by blast
  have look: "genl_dev_sw_port_lookup E r (obj_of w s) w = Some s"
    using lookup_member [OF inv member_slave [OF m s]] .
  have sys: "sp_sw_sys (sp_mem w m) = r" "\<not> real_agg_dev (sw_mem w r)"
    using wf_D(10) [OF wf member_port [OF m]] wf_D(1) [OF wf] by simp_all
  let ?w1 = "unlink_port r s w"
  let ?w2 = "upd_sp m (\<lambda>M. M\<lparr>port_num := port_num M AND NOT (push_bit (unat (port_num (sp_mem ?w1 s))) 1)\<rparr>) ?w1"
  let ?w3 = "upd_sp s (\<lambda>P. P\<lparr>agg_parent := None\<rparr>) ?w2"
  let ?t = "upd_sw r (\<lambda>S. S\<lparr>switch_ports := list_add_tail s (switch_ports S)\<rparr>) (upd_sp s (\<lambda>P. P\<lparr>agg_parent := None\<rparr>) ?w3)"
  have "genl_dev_sw_port_del E r s w = (True, ?w3)"
    using look sm(1) sys by (simp add: genl_dev_sw_port_del_def Let_def)
  then have add: "genl_dev_sw_port_add E r s None w = (True, ?t)"
    by (simp add: genl_dev_sw_port_add_def)
  have lay: "layer_only w ?t" by simp
  have "moved_out r m s w (if slaves_of ?t m = [] then upd_sp m give_up ?t else ?t)"
    using sm ms by (auto simp: moved_out_def list_add_tail_def bit_cleared)
  with that add lay show thesis by blast
qed

text \<open>
  The outcome of detaching: on success the slave is a port of the switch again, on failure the
  layer is as before.
\<close>

lemma detach_outcome:
  assumes inv: "sw_inv good view r w" and d: "genl_dev_sw_port_detach_slave E r mo so w = (ok, t)"
  shows "good t \<and> view t = view w \<and>
    (if ok then \<exists>m s. m \<in> set (ports_of w r) \<and> s \<in> set (slaves_of w m) \<and> obj_of w m = mo \<and> obj_of w s = so \<and>
        moved_out r m s w t
     else layer_same w t)"
proof (cases "\<exists>m s. genl_dev_sw_port_lookup E r mo w = Some m \<and> genl_dev_sw_port_lookup E r so w = Some s \<and>
    switch_port_is_aggregator E w m \<and> agg_parent (sp_mem w s) = Some m")
  case False
  with d have "ok = False \<and> t = w"
    by (auto simp: genl_dev_sw_port_detach_slave_def switch_port_is_agg_slave_def split: option.splits if_splits)
  with inv_D(1) [OF inv] show ?thesis by simp
next
  case True
  then obtain m s where look: "genl_dev_sw_port_lookup E r mo w = Some m" "genl_dev_sw_port_lookup E r so w = Some s"
    and agg: "switch_port_is_aggregator E w m" and sm: "agg_parent (sp_mem w s) = Some m" by blast
  from look lookup_iff [OF inv] have mem: "m \<in> members w r" "s \<in> members w r" and obj: "obj_of w m = mo" "obj_of w s = so"
    by simp_all
  have ms: "m \<in> set (ports_of w r)" "s \<in> set (slaves_of w m)"
    using member_cases [OF inv_D(2) [OF inv] mem(2)] sm by force+
  obtain b w1 where h: "hw_detach_slave (hw E) m s w = (b, w1)" by fastforce
  from detach_frame [OF inv_D(1) [OF inv] h] have f1: "hw_frame good view w w1" .
  then have g1: "good w1" "view w1 = view w" and l1: "layer_same w w1" by (simp_all add: hw_frame_def)
  show ?thesis
  proof (cases b)
    case False
    with d look agg sm h have "ok = False \<and> t = w1"
      by (simp add: genl_dev_sw_port_detach_slave_def switch_port_is_agg_slave_def)
    with g1 l1 show ?thesis by simp
  next
    case True
    from inv_frame [OF inv f1] have inv1: "sw_inv good view r w1" by blast
    have ms1: "m \<in> set (ports_of w1 r)" "s \<in> set (slaves_of w1 m)" using ms l1 by (simp_all add: layer_same_def)
    obtain w2 where w2: "genl_dev_sw_port_add E r s None w1 = (True, w2)" "layer_only w1 w2"
      "moved_out r m s w1 (if slaves_of w2 m = [] then upd_sp m give_up w2 else w2)"
      using port_add_out [OF inv1 ms1] .
    let ?w3 = "if slaves_of w2 m = [] then upd_sp m give_up w2 else w2"
    have "\<not> real_agg_dev (sw_mem w2 r)"
      using w2(3) wf_D(1) [OF inv_D(2) [OF inv1]] by (simp add: moved_out_def split: if_splits)
    with d True
    have t: "ok \<and> t = genl_dev_notify_netdev_obj_added (user_api E) r (switch_port_obj (sp_mem ?w3 s)) ?w3"
      by (auto simp: genl_dev_sw_port_detach_slave_def switch_port_is_agg_slave_def Let_def look agg sm h w2(1) split: if_splits)
    have g3: "good ?w3 \<and> view ?w3 = view w1"
      using layer_only_frame [of w1 ?w3] w2(2) g1 by simp
    from notify_added [of ?w3] g3 have "hw_frame good view ?w3 t" using t by blast
    with g3 g1 have "good t" "view t = view w" "layer_same ?w3 t" by (simp_all add: hw_frame_def)
    moreover have "moved_out r m s w t"
      using w2(3) moved_out_same [OF \<open>layer_same ?w3 t\<close>] moved_out_from [OF l1] by metis
    ultimately show ?thesis using conjunct1 [OF t] ms obj by auto
  qed
qed

lemma inv_moved_out:
  assumes inv: "sw_inv good view r w" and "good t" "view t = view w"
    and ms: "m \<in> set (ports_of w r)" "s \<in> set (slaves_of w m)" and mv: "moved_out r m s w t"
  shows "sw_inv good view r t" and "members t r = members w r"
proof -
  note wf = wf_moved_out [OF inv_D(2) [OF inv] ms mv]
  show "members t r = members w r" by (rule wf(2))
  have am: "v_agg (view w) (obj_of w m)" using wf_D(5) [OF inv_D(2) [OF inv] ms(1)] ms(2) by (metis empty_iff empty_set)
  have "port_num (sp_mem t p) = port_num (sp_mem w p)" "obj_of t p = obj_of w p"
    if "\<not> v_agg (view w) (obj_of w p)" for p
    using mv am that by (auto simp: moved_out_def)
  moreover have "obj_of t p = obj_of w p" for p using mv by (simp add: moved_out_def)
  ultimately show "sw_inv good view r t"
    using inv wf assms(2,3) by (simp add: sw_inv_def)
qed

lemma detach_inv:
  assumes inv: "sw_inv good view r w" and d: "genl_dev_sw_port_detach_slave E r mo so w = (ok, t)"
  shows "sw_inv good view r t" "members t r = members w r" "view t = view w"
    "\<And>p. p \<in> set (ports_of w r) \<Longrightarrow> p \<in> set (ports_of t r)" "\<And>p. obj_of t p = obj_of w p"
proof -
  note o = detach_outcome [OF inv d]
  have "sw_inv good view r t \<and> members t r = members w r \<and> view t = view w \<and>
    (\<forall>p. p \<in> set (ports_of w r) \<longrightarrow> p \<in> set (ports_of t r)) \<and> (\<forall>p. obj_of t p = obj_of w p)"
  proof (cases ok)
    case True
    with o obtain m s where ms: "m \<in> set (ports_of w r)" "s \<in> set (slaves_of w m)" and mv: "moved_out r m s w t"
      and g: "good t" "view t = view w" by auto
    from inv_moved_out [OF inv g ms mv] g mv show ?thesis by (simp add: moved_out_def)
  next
    case False
    with o have f: "hw_frame good view w t" by (simp add: hw_frame_def)
    from inv_frame [OF inv f] f show ?thesis by (simp add: hw_frame_def layer_same_def)
  qed
  then show "sw_inv good view r t" "members t r = members w r" "view t = view w"
    "\<And>p. p \<in> set (ports_of w r) \<Longrightarrow> p \<in> set (ports_of t r)" "\<And>p. obj_of t p = obj_of w p" by blast+
qed

subsection \<open>Joining an aggregator\<close>

lemma no_slaves_no_bits:
  assumes "sw_inv good view r w" and "m \<in> set (ports_of w r)" "v_agg (view w) (obj_of w m)" "slaves_of w m = []"
  shows "port_num (sp_mem w m) = 0"
proof (rule bit_word_eqI)
  fix b
  have "sw_bits (v_agg (view w)) r w" using inv_D(2) [OF assms(1)] by (simp add: sw_wf_def)
  with assms(2-4) show "bit (port_num (sp_mem w m)) b = bit 0 b" by (simp add: sw_bits_def)
qed

lemma port_add_in:
  assumes inv: "sw_inv good view r w" and m: "m \<in> set (ports_of w r)" "v_agg (view w) (obj_of w m)"
    and s: "s \<in> set (ports_of w r)" "\<not> v_agg (view w) (obj_of w s)"
    and w': "w' = (if slaves_of w m = [] then upd_sp m (take_over (sp_mem w s)) w else w)"
  obtains t where "genl_dev_sw_port_add E r s (Some m) w' = (True, t)" "layer_only w t" "moved_in r m s w t"
proof -
  note wf = inv_D(2) [OF inv]
  have ms: "m \<noteq> s" using m(2) s(2) by blast
  have num: "slaves_of w m = [] \<Longrightarrow> port_num (sp_mem w m) = 0" using no_slaves_no_bits [OF inv m] .
  have fields: "obj_of w' q = obj_of w q \<and> slaves_of w' q = slaves_of w q \<and> agg_parent (sp_mem w' q) = agg_parent (sp_mem w q) \<and>
      sp_sw_sys (sp_mem w' q) = sp_sw_sys (sp_mem w q) \<and> port_num (sp_mem w' q) = port_num (sp_mem w q)" for q
    using num by (simp add: w')
  have mems: "sw_mem w' = sw_mem w" "sp_next w' = sp_next w" by (simp_all add: w')
  have lay: "layer_only w w'" by (simp add: w')
  have "sw_inv good view r w'"
    using inv wf_fields_cong [of w' w r] fields mems layer_only_frame [OF lay] by (simp add: sw_inv_def)
  from lookup_member [OF this, of s] have look: "genl_dev_sw_port_lookup E r (obj_of w' s) w' = Some s"
    using wf_fields_cong(2) [of w' w r] fields mems member_port [OF s(1)] by simp
  have par: "agg_parent (sp_mem w s) = None" using wf_D(3) [OF wf s(1)] .
  have sys: "sp_sw_sys (sp_mem w m) = r" "\<not> real_agg_dev (sw_mem w r)"
    using wf_D(10) [OF wf member_port [OF m(1)]] wf_D(1) [OF wf] by simp_all
  have sn: "s \<notin> set (slaves_of w m)" using wf_D(6) [OF wf m(1)] par by force
  have lt: "num_of w s < 32" using wf s member_port [OF s(1)] by (simp add: sw_wf_def sw_data_def)
  let ?w1 = "unlink_port r s w'"
  have del: "genl_dev_sw_port_del E r s w' = (True, ?w1)"
    using look par fields by (simp add: genl_dev_sw_port_del_def Let_def)
  let ?w2 = "upd_sp s (\<lambda>P. P\<lparr>agg_parent := Some m\<rparr>) ?w1"
  let ?w3 = "upd_sp m (\<lambda>M. M\<lparr>port_num := port_num M OR push_bit (unat (port_num (sp_mem ?w2 s))) 1\<rparr>) ?w2"
  let ?t = "upd_sp m (\<lambda>M. M\<lparr>agg_slaves := list_add_tail s (agg_slaves M)\<rparr>) ?w3"
  have add: "genl_dev_sw_port_add E r s (Some m) w' = (True, ?t)"
    using sys fields mems ms by (simp add: genl_dev_sw_port_add_def del)
  have "layer_only w ?t" using lay by simp
  moreover have "moved_in r m s w ?t"
    using fields mems ms sn bit_added [OF lt] by (auto simp: moved_in_def list_add_tail_def)
  ultimately show thesis using that [OF add] by blast
qed

lemma inv_moved_in:
  assumes inv: "sw_inv good view r w" and "good t" "view t = view w"
    and m: "m \<in> set (ports_of w r)" "v_agg (view w) (obj_of w m)"
    and s: "s \<in> set (ports_of w r)" "\<not> v_agg (view w) (obj_of w s)" and mv: "moved_in r m s w t"
  shows "sw_inv good view r t" and "members t r = members w r"
proof -
  note wf = wf_moved_in [OF inv_D(2) [OF inv] m s mv]
  show "members t r = members w r" by (rule wf(2))
  have "port_num (sp_mem t p) = port_num (sp_mem w p)" if "\<not> v_agg (view w) (obj_of w p)" for p
    using mv m(2) that by (auto simp: moved_in_def)
  moreover have "obj_of t p = obj_of w p" for p using mv by (simp add: moved_in_def)
  ultimately show "sw_inv good view r t"
    using inv wf assms(2,3) by (simp add: sw_inv_def)
qed

end

end
