(* ===== verification/Switch_Keeps.thy ===== *)
theory Switch_Keeps
  imports Switch_Ops
begin

text \<open>
  The operations that change the membership of a switch preserve its invariant: attaching, also
  when the slave has to leave another aggregator first, creating ports and aggregators, and
  destroying aggregators.
\<close>

text \<open>An aggregator that is about to be destroyed: the users were told, and its slaves detached.\<close>

definition without_slaves ::
    "'a switch_state_scheme switch_calls \<Rightarrow> sys_ref \<Rightarrow> sp_ref \<Rightarrow> u32 \<Rightarrow> 'a switch_state_scheme \<Rightarrow> 'a switch_state_scheme" where
  "without_slaves E r p obj w =
     (let w1 = genl_dev_notify_netdev_obj_deleted (user_api E) r obj w
      in fold (\<lambda>s v. snd (genl_dev_sw_port_detach_slave E r (obj_of v p) (obj_of v s) v)) (slaves_of w1 p) w1)"

context virtual_switch
begin

subsection \<open>Attaching\<close>

text \<open>The last part of attaching, from a state where the slave is a port of the switch.\<close>

lemma attach_free:
  assumes inv: "sw_inv good view r v" and m: "m \<in> set (ports_of v r)" "v_agg (view v) (obj_of v m)"
    and s: "s \<in> set (ports_of v r)" "\<not> v_agg (view v) (obj_of v s)"
    and h: "hw_attach_slave (hw E) m s v = (True, w2)"
    and w3: "w3 = (if slaves_of w2 m = [] then upd_sp m (take_over (sp_mem w2 s)) w2 else w2)"
  obtains t where "genl_dev_sw_port_add E r s (Some m) w3 = (True, t)" "good t" "view t = view v" "moved_in r m s v t"
proof -
  have f: "hw_frame good view v w2" using attach_frame [OF inv_D(1) [OF inv] h] .
  then have l: "layer_same v w2" and g: "good w2" "view w2 = view v" by (simp_all add: hw_frame_def)
  have e: "sw_mem w2 = sw_mem v" "sp_mem w2 = sp_mem v" using l by (simp_all add: layer_same_def)
  from inv_frame(1) [OF inv f] have inv2: "sw_inv good view r w2" .
  from port_add_in [OF inv2, of m s w3] m s w3 e g
  obtain t where t: "genl_dev_sw_port_add E r s (Some m) w3 = (True, t)" "layer_only w2 t" "moved_in r m s w2 t"
    by auto
  from layer_only_frame [OF t(2)] g have "good t" "view t = view v" by simp_all
  with that t moved_in_from [OF l] show thesis by blast
qed

lemma attach_from_port:
  assumes inv: "sw_inv good view r v" and m: "m \<in> set (ports_of v r)" "v_agg (view v) (obj_of v m)"
    and s: "s \<in> set (ports_of v r)" "\<not> v_agg (view v) (obj_of v s)"
    and t: "(let (ok, w2) = hw_attach_slave (hw E) m s v in
          if \<not> ok then (False, w2)
          else
            let w3 = (if \<not> real_agg_dev (sw_mem w2 r) \<and> slaves_of w2 m = [] then upd_sp m (take_over (sp_mem w2 s)) w2 else w2);
                (ret, w4) = genl_dev_sw_port_add E r s (Some m) w3
            in (ret, if ret \<and> silent
                     then genl_dev_notify_netdev_obj_deleted (user_api E) r (switch_port_obj (sp_mem w4 s)) w4
                     else w4)) = (ok, t)"
  shows "good t \<and> view t = view v \<and> (if ok then moved_in r m s v t else layer_same v t)"
proof -
  obtain b w2 where h: "hw_attach_slave (hw E) m s v = (b, w2)" by fastforce
  from attach_frame [OF inv_D(1) [OF inv] h] have f: "good w2" "view w2 = view v" "layer_same v w2"
    by (simp_all add: hw_frame_def)
  show ?thesis
  proof (cases b)
    case False
    with t h f show ?thesis by simp
  next
    case True
    have real: "\<not> real_agg_dev (sw_mem w2 r)"
      using wf_D(1) [OF inv_D(2) [OF inv]] f(3) by (simp add: layer_same_def)
    from h True have h': "hw_attach_slave (hw E) m s v = (True, w2)" by simp
    obtain w4 where w4: "genl_dev_sw_port_add E r s (Some m)
          (if slaves_of w2 m = [] then upd_sp m (take_over (sp_mem w2 s)) w2 else w2) = (True, w4)"
      "good w4" "view w4 = view v" "moved_in r m s v w4"
      using attach_free [OF inv m s h' refl] .
    from t h True real w4(1)
    have ok: ok and tt: "t = (if silent then genl_dev_notify_netdev_obj_deleted (user_api E) r (obj_of w4 s) w4 else w4)"
      by (auto simp: Let_def split: if_splits)
    have "hw_frame good view w4 t"
      using tt notify_deleted [OF w4(2)] frame_refl [OF w4(2)] by (cases silent) simp_all
    then have "good t" "view t = view v" "layer_same w4 t" using w4(3) by (simp_all add: hw_frame_def)
    with ok w4(4) moved_in_same [of w4 t r m s v] show ?thesis by simp
  qed
qed

lemma moved_in_result:
  assumes "sw_inv good view r v" and "m \<in> set (ports_of v r)" "v_agg (view v) (obj_of v m)"
    and "s \<in> set (ports_of v r)" "\<not> v_agg (view v) (obj_of v s)" and "moved_in r m s v t"
  shows "m \<in> set (ports_of t r)" "s \<in> set (slaves_of t m)" "\<And>p. obj_of t p = obj_of v p"
proof -
  have "m \<noteq> s" using assms(3,5) by blast
  with assms(2,6) wf_D(2) [OF inv_D(2) [OF assms(1)]]
  show "m \<in> set (ports_of t r)" "s \<in> set (slaves_of t m)" "\<And>p. obj_of t p = obj_of v p"
    by (simp_all add: moved_in_def)
qed

lemma attach_outcome:
  assumes inv: "sw_inv good view r w" and plain: "\<And>s. s \<in> members w r \<Longrightarrow> obj_of w s = so \<Longrightarrow> \<not> v_agg (view w) so"
    and a: "genl_dev_sw_port_attach_slave E r mo so w = (ok, t)"
  shows "sw_inv good view r t \<and> view t = view w \<and> attach_result r mo so w ok t"
proof (cases "\<exists>m s. genl_dev_sw_port_lookup E r mo w = Some m \<and> genl_dev_sw_port_lookup E r so w = Some s \<and>
    switch_port_is_aggregator E w m")
  case False
  with a have "\<not> ok \<and> t = w"
    by (auto simp: genl_dev_sw_port_attach_slave_def split: option.splits if_splits)
  with inv show ?thesis by (simp add: attach_result_def)
next
  case True
  then obtain m s where look: "genl_dev_sw_port_lookup E r mo w = Some m" "genl_dev_sw_port_lookup E r so w = Some s"
    and agg: "switch_port_is_aggregator E w m" by blast
  from look lookup_iff [OF inv] have mem: "m \<in> members w r" "s \<in> members w r" and obj: "obj_of w m = mo" "obj_of w s = so"
    by simp_all
  have am: "v_agg (view w) (obj_of w m)" using agg member_is_agg [OF inv mem(1)] by simp
  have as: "\<not> v_agg (view w) (obj_of w s)" using plain [OF mem(2) obj(2)] obj(2) by simp
  note wf = inv_D(2) [OF inv]
  have mp: "m \<in> set (ports_of w r)"
    using wf mem(1)
  proof (cases rule: member_cases)
    case (2 x)
    from wf_D(8) [OF wf 2(2,3)] am show ?thesis by blast
  qed
  from wf mem(2) show ?thesis
  proof (cases rule: member_cases)
    case 1
    have "good t \<and> view t = view w \<and> (if ok then moved_in r m s w t else layer_same w t)"
      by (rule attach_from_port [OF inv mp am 1(2) as, where silent = "\<not> False"])
        (use a look agg 1 in \<open>simp add: genl_dev_sw_port_attach_slave_def Let_def\<close>)
    then have t: "good t" "view t = view w" "if ok then moved_in r m s w t else layer_same w t" by simp_all
    show ?thesis
    proof (cases ok)
      case True
      with t have mv: "moved_in r m s w t" by simp
      from inv_moved_in [OF inv t(1,2) mp am 1(2) as mv] moved_in_result [OF inv mp am 1(2) as mv] t(2) obj True
      show ?thesis by (auto simp: attach_result_def)
    next
      case False
      with t have f: "hw_frame good view w t" "layer_same w t" by (simp_all add: hw_frame_def)
      from inv_frame [OF inv f(1)] f(2) t(2) False show ?thesis by (simp add: attach_result_def layer_same_def)
    qed
  next
    case (2 old)
    show ?thesis
    proof (cases "old = m")
      case True
      with a look agg 2 have "ok \<and> t = w" by (simp add: genl_dev_sw_port_attach_slave_def)
      with inv 2 True obj show ?thesis by (auto simp: attach_result_def)
    next
      case False
      obtain freed v where d: "genl_dev_sw_port_detach_slave E r (obj_of w old) (obj_of w s) w = (freed, v)" by fastforce
      note dv = detach_inv [OF inv d] and do = detach_outcome [OF inv d]
      show ?thesis
      proof (cases freed)
        case False
        with a look agg 2 \<open>old \<noteq> m\<close> d have "\<not> ok \<and> t = v" by (simp add: genl_dev_sw_port_attach_slave_def)
        with do False have "layer_same w t" by simp
        with \<open>\<not> ok \<and> t = v\<close> dv(1,2,3,5) show ?thesis by (simp add: attach_result_def)
      next
        case True
        with do obtain m' s' where ms': "m' \<in> set (ports_of w r)" "s' \<in> set (slaves_of w m')" "obj_of w s' = obj_of w s"
          "moved_out r m' s' w v" by auto
        have "genl_dev_sw_port_lookup E r (obj_of w s) w = Some s'"
          using lookup_member [OF inv member_slave [OF ms'(1,2)]] unfolding ms'(3) .
        then have "s' = s" unfolding lookup_member [OF inv mem(2)] by simp
        have pv: "m \<in> set (ports_of v r)" "s \<in> set (ports_of v r)"
          using dv(4) mp ms'(4) \<open>s' = s\<close> by (simp_all add: moved_out_def)
        have av: "v_agg (view v) (obj_of v m)" "\<not> v_agg (view v) (obj_of v s)" using dv(3,5) am as by simp_all
        have "good t \<and> view t = view v \<and> (if ok then moved_in r m s v t else layer_same v t)"
          by (rule attach_from_port [OF dv(1) pv(1) av(1) pv(2) av(2), where silent = "\<not> True"])
            (use a look agg 2 \<open>old \<noteq> m\<close> d True in \<open>simp add: genl_dev_sw_port_attach_slave_def Let_def\<close>)
        then show ?thesis
        proof (cases ok)
          case True
          with \<open>good t \<and> _\<close> have t: "good t" "view t = view v" "moved_in r m s v t" by simp_all
          from inv_moved_in [OF dv(1) t(1,2) pv(1) av(1) pv(2) av(2) t(3)] t(2)
            moved_in_result [OF dv(1) pv(1) av(1) pv(2) av(2) t(3)] dv(2,3,5) obj True
          show ?thesis unfolding attach_result_def by (metis (no_types))
        next
          case False
          with \<open>good t \<and> _\<close> have t: "good t" "view t = view v" "layer_same v t" by simp_all
          then have "hw_frame good view v t" by (simp add: hw_frame_def)
          from inv_frame [OF dv(1) this] have "sw_inv good view r t" "members t r = members v r" .
          moreover have "moved_out r m' s w t" using ms'(4) moved_out_same [OF t(3)] \<open>s' = s\<close> by simp
          moreover have "obj_of t p = obj_of w p" for p using t(3) dv(5) by (simp add: layer_same_def)
          ultimately show ?thesis
            using t(2) dv(2,3) ms'(1,2) \<open>s' = s\<close> False obj unfolding attach_result_def by auto
        qed
      qed
    qed
  qed
qed

subsection \<open>New ports\<close>

lemma inv_outside:
  assumes inv: "sw_inv good view r w" and "good t" "view t = view w"
    and t: "ports_of t r = ports_of w r" "real_agg_dev (sw_mem t r) = real_agg_dev (sw_mem w r)" "sp_next w \<le> sp_next t"
      "\<And>q. q \<in> members w r \<Longrightarrow> sp_mem t q = sp_mem w q"
  shows "sw_inv good view r t" "members t r = members w r"
proof -
  note wf = inv_D(2) [OF inv]
  have p: "sp_mem t q = sp_mem w q" if "q \<in> set (ports_of w r)" for q using t(4) member_port that by blast
  have sl: "sp_mem t s = sp_mem w s" if "q \<in> set (ports_of w r)" "s \<in> set (slaves_of w q)" for q s
    using t(4) member_slave that by blast
  show m: "members t r = members w r" using p by (simp add: members_def t(1))
  let ?ag = "v_agg (view w)"
  have "sw_shape ?ag r t"
    using wf p sl by (simp add: sw_wf_def sw_shape_def t(1))
  moreover have "inj_on (obj_of t) (members w r) = inj_on (obj_of w) (members w r)"
    "inj_on (num_of t) {q \<in> members w r. \<not> ?ag (obj_of w q)} = inj_on (num_of w) {q \<in> members w r. \<not> ?ag (obj_of w q)}"
    by (rule inj_on_cong, use t(4) in simp)+
  moreover have "{q \<in> members w r. \<not> ?ag (obj_of t q)} = {q \<in> members w r. \<not> ?ag (obj_of w q)}" using t(4) by auto
  ultimately have "sw_wf ?ag r t"
    using wf p sl t m by (auto simp: sw_wf_def sw_data_def sw_bits_def less_le_trans)
  with assms m show "sw_inv good view r t" by (simp add: sw_inv_def)
qed

text \<open>A port that is no member yet, and whose object is free, becomes one.\<close>

lemma add_port:
  assumes inv: "sw_inv good view r v" and p: "p \<notin> members v r" "p < sp_next v"
    and P: "slaves_of v p = []" "agg_parent (sp_mem v p) = None" "sp_sw_sys (sp_mem v p) = r" "obj_of v p \<noteq> 0"
    and free: "\<And>q. q \<in> members v r \<Longrightarrow> obj_of v q \<noteq> obj_of v p"
    and agg: "v_agg (view v) (obj_of v p) \<Longrightarrow> port_num (sp_mem v p) = 0"
    and plain: "\<not> v_agg (view v) (obj_of v p) \<Longrightarrow> num_of v p < 32 \<and> obj_of v p \<notin> v_dom (view v) \<and>
        obj_of v p = v_base (view v) + port_num (sp_mem v p)"
  obtains t where "genl_dev_sw_port_add E r p None v = (True, t)" "sw_inv good view r t" "view t = view v"
    "members t r = insert p (members v r)" "p \<in> set (ports_of t r)" "sp_mem t = sp_mem v"
proof -
  let ?t = "upd_sw r (\<lambda>S. S\<lparr>switch_ports := list_add_tail p (switch_ports S)\<rparr>) (upd_sp p (\<lambda>P. P\<lparr>agg_parent := None\<rparr>) v)"
  have "genl_dev_sw_port_lookup E r (obj_of v p) v = None" using lookup_None [OF inv] free by blast
  then have add: "genl_dev_sw_port_add E r p None v = (True, ?t)"
    using P(2) by (simp add: genl_dev_sw_port_add_def genl_dev_sw_port_del_def Let_def)
  have mem: "sp_mem ?t = sp_mem v" using P(2) by (simp add: fun_eq_iff)
  have ports: "ports_of ?t r = ports_of v r @ [p]" by (simp add: list_add_tail_def)
  have "layer_only v ?t" by simp
  from layer_only_frame [OF this] inv_D(1) [OF inv] have g: "good ?t" "view ?t = view v" by simp_all
  have other: "num_of v q \<noteq> num_of v p"
    if "\<not> v_agg (view v) (obj_of v p)" "q \<in> members v r" "\<not> v_agg (view v) (obj_of v q)" for q
    using inv_D(4) [OF inv that(2,3)] plain [OF that(1)] free [OF that(2)] by (metis word_unat_eq_iff)
  have "sw_wf (v_agg (view v)) r ?t" "members ?t r = insert p (members v r)"
    using wf_added [OF inv_D(2) [OF inv] p(1), of ?t "v_agg (view v)"] p(2) ports P free agg plain other mem
      wf_D(1) [OF inv_D(2) [OF inv]] by simp_all
  moreover from this g mem inv_D(3,4) [OF inv] plain have "sw_inv good view r ?t" by (simp add: sw_inv_def)
  ultimately show thesis using that [OF add] g(2) mem ports by simp
qed

text \<open>The state after a zeroed port was allocated.\<close>

lemma fresh_inv:
  assumes inv: "sw_inv good view r w" and t: "t = upd_sp (sp_next w) (\<lambda>_. P) (w\<lparr>sp_next := Suc (sp_next w)\<rparr>)"
  shows "sw_inv good view r t" "members t r = members w r" "view t = view w" "sp_next w \<notin> members w r"
proof -
  show n: "sp_next w \<notin> members w r" using wf_D(9) [OF inv_D(2) [OF inv]] by blast
  have "layer_only w t" unfolding t by simp
  from layer_only_frame [OF this] inv_D(1) [OF inv] have g: "good t" "view t = view w" by simp_all
  have "sp_mem t q = sp_mem w q" if "q \<in> members w r" for q using n that t by auto
  with inv_outside [OF inv g] t show "sw_inv good view r t" "members t r = members w r" by simp_all
  show "view t = view w" by (rule g(2))
qed

lemma new_aggregator_outcome:
  assumes inv: "sw_inv good view r w" and n: "genl_dev_sw_new_aggregator E r name w = (obj, t)"
  shows "sw_inv good view r t \<and> (\<forall>q \<in> members w r. sp_mem t q = sp_mem w q) \<and>
    (if obj = 0 then members t r = members w r \<and> view t = view w
     else \<exists>p. p \<notin> members w r \<and> members t r = insert p (members w r) \<and> p \<in> set (ports_of t r) \<and> obj_of t p = obj \<and>
       slaves_of t p = [] \<and> \<not> v_agg (view w) obj \<and> view t = (view w)\<lparr>v_agg := (v_agg (view w))(obj := True)\<rparr>)"
proof (cases "genl_dev_sw_port_name_to_netdev_obj E r name w \<noteq> 0")
  case True
  with n inv show ?thesis by (auto simp: genl_dev_sw_new_aggregator_def GENERAL_DEVICE_INVALID_ID_def)
next
  case False
  obtain ok w1 where c: "sw_calloc E w = (ok, w1)" by fastforce
  from calloc_frame [OF inv_D(1) [OF inv] c] have f: "hw_frame good view w w1" .
  from inv_frame [OF inv f] f have w1: "sw_inv good view r w1" "members w1 r = members w r" "view w1 = view w"
    by (simp_all add: hw_frame_def)
  define p where "p = sp_next w1"
  let ?P = "switch_port_zero\<lparr>sp_name := sw_snprintf name, sp_sw_sys := r\<rparr>"
  define w2 where "w2 = upd_sp p (\<lambda>_. ?P) (w1\<lparr>sp_next := Suc p\<rparr>)"
  from fresh_inv [OF w1(1), of w2 ?P] have w2: "sw_inv good view r w2" "members w2 r = members w r" "view w2 = view w"
    "p \<notin> members w r" by (simp_all add: w2_def p_def w1)
  have P: "sp_mem w2 p = ?P" by (simp add: w2_def)
  have mw: "sp_mem w1 = sp_mem w" "\<And>q. q \<in> members w r \<Longrightarrow> sp_mem w2 q = sp_mem w q"
    using f w2(4) by (auto simp: hw_frame_def layer_same_def w2_def)
  obtain ret w3 where h: "hw_new_aggregator (hw E) p w2 = (ret, w3)" by fastforce
  from new_effect [OF inv_D(1) [OF w2(1)] _ h] P
  have eff: "if ret then \<exists>obj \<in> v_dom (view w2). \<not> v_agg (view w2) obj \<and> good w3 \<and>
      layer_same (upd_sp p (\<lambda>P. P\<lparr>switch_port_obj := obj\<rparr>) w2) w3 \<and>
      view w3 = (view w2)\<lparr>v_agg := (v_agg (view w2))(obj := True)\<rparr> else hw_frame good view w2 w3" by simp
  show ?thesis
  proof (cases "ok \<and> ret")
    case False
    have "obj = 0 \<and> (t = w1 \<or> hw_frame good view w2 w3 \<and> t = w3)"
      using n c h eff False \<open>\<not> _ \<noteq> 0\<close> [unfolded not_not]
      by (auto simp: genl_dev_sw_new_aggregator_def GENERAL_DEVICE_INVALID_ID_def Let_def p_def w2_def split: if_splits)
    with w1 w2 mw inv_frame [OF w2(1), of w3] show ?thesis by (auto simp: hw_frame_def layer_same_def)
  next
    case True
    with eff obtain ob where ob: "ob \<in> v_dom (view w2)" "\<not> v_agg (view w2) ob" "good w3"
      and l3: "layer_same (upd_sp p (\<lambda>P. P\<lparr>switch_port_obj := ob\<rparr>) w2) w3"
      and v3: "view w3 = (view w2)\<lparr>v_agg := (v_agg (view w2))(ob := True)\<rparr>" by auto
    define w2' where "w2' = upd_sp p (\<lambda>P. P\<lparr>switch_port_obj := ob\<rparr>) w2"
    have "layer_only w2 w2'" by (simp add: w2'_def)
    from layer_only_frame [OF this] inv_D(1) [OF w2(1)] have g: "good w2'" "view w2' = view w2" by simp_all
    have "sp_mem w2' q = sp_mem w2 q" if "q \<in> members w2 r" for q using that w2(2,4) by (auto simp: w2'_def)
    from inv_outside [OF w2(1) g _ _ _ this] have w2': "sw_inv good view r w2'" "members w2' r = members w r"
      by (simp_all add: w2'_def w2(2))
    have eq3: "sp_mem w3 = sp_mem w2'" "sw_mem w3 = sw_mem w2'" "sp_next w3 = sp_next w2'"
      using l3 by (simp_all add: layer_same_def w2'_def)
    have m3: "members w3 r = members w r" using w2'(2) eq3 by (simp add: members_def)
    have free: "obj_of w3 q \<noteq> ob" if "q \<in> members w r" for q
      using inv_D(3) [OF w2'(1), of q] ob that w2'(2) g(2) eq3(1) by force
    have "sw_wf (v_agg (view w3)) r w3"
    proof -
      have "sw_wf (v_agg (view w3)) r w3 = sw_wf (v_agg (view w2)) r w3"
        by (rule wf_ag_cong) (use free m3 in \<open>simp add: v3\<close>)
      also have "\<dots> = sw_wf (v_agg (view w2)) r w2'"
        using l3 layer_same_wf unfolding w2'_def by blast
      finally show ?thesis using inv_D(2) [OF w2'(1)] g(2) by simp
    qed
    then have w3: "sw_inv good view r w3"
      using inv_D(3,4) [OF w2'(1)] ob(3) g(2) free w2'(2) m3 eq3(1) by (simp add: sw_inv_def v3)
    have P3: "obj_of w3 p = ob" "slaves_of w3 p = []" "agg_parent (sp_mem w3 p) = None" "sp_sw_sys (sp_mem w3 p) = r"
      "port_num (sp_mem w3 p) = 0" "p < sp_next w3"
      using P by (simp_all add: eq3 w2'_def switch_port_zero_def) (simp_all add: w2_def)
    have o0: "ob \<noteq> 0" using dom_valid [OF inv_D(1) [OF w2(1)] ob(1)] .
    obtain w4 where w4: "genl_dev_sw_port_add E r p None w3 = (True, w4)" "sw_inv good view r w4" "view w4 = view w3"
      "members w4 r = insert p (members w3 r)" "p \<in> set (ports_of w4 r)" "sp_mem w4 = sp_mem w3"
      using add_port [OF w3, of p] P3 o0 free w2(4) m3 v3 by auto
    have t: "t = genl_dev_notify_netdev_obj_added (user_api E) r (obj_of w4 p) w4" "obj = obj_of t p"
      using n c h True \<open>\<not> _ \<noteq> 0\<close> [unfolded not_not] w4(1)
      by (auto simp: genl_dev_sw_new_aggregator_def Let_def p_def w2_def)
    have f: "hw_frame good view w4 t" unfolding t(1) by (rule notify_added [OF inv_D(1) [OF w4(2)]])
    then have l: "layer_same w4 t" "view t = view w4" by (simp_all add: hw_frame_def)
    from inv_frame [OF w4(2) f] have "sw_inv good view r t" "members t r = members w4 r" .
    moreover have "obj_of t p = ob" "slaves_of t p = []" "p \<in> set (ports_of t r)"
      using l(1) w4(5,6) P3 by (simp_all add: layer_same_def)
    moreover have "\<forall>q \<in> members w r. sp_mem t q = sp_mem w q"
      using l(1) w4(6) mw(2) w2(4) by (auto simp: layer_same_def eq3 w2'_def)
    ultimately show ?thesis using t(2) o0 ob(2) w2(3,4) w4(4) m3 l(2) w4(3) v3 by auto
  qed
qed

text \<open>
  Creating a port: the object is checked by the code, and with the numbering of the driver the
  number is free when the object is.
\<close>

lemma port_create_outcome:
  assumes inv: "sw_inv good view r w" and obj: "obj = v_base (view w) + num" "obj \<notin> v_dom (view w)" "obj \<noteq> 0" "unat num < 32"
    and c: "genl_dev_sw_port_create E r name num obj ctrl data w = (res, t)"
  shows "sw_inv good view r t \<and> view t = view w \<and>
    (case res of None \<Rightarrow> members t r = members w r
     | Some p \<Rightarrow> p \<notin> members w r \<and> members t r = insert p (members w r) \<and> p \<in> set (ports_of t r) \<and> obj_of t p = obj)"
proof (cases "\<not> netdev_obj_is_invalid (genl_dev_sw_port_name_to_netdev_obj E r name w) \<or> genl_dev_sw_port_lookup E r obj w \<noteq> None")
  case True
  with c inv show ?thesis by (auto simp: genl_dev_sw_port_create_def split: if_splits)
next
  case False
  obtain ok w1 where a: "sw_calloc E w = (ok, w1)" by fastforce
  from calloc_frame [OF inv_D(1) [OF inv] a] have f: "hw_frame good view w w1" .
  from inv_frame [OF inv f] f have w1: "sw_inv good view r w1" "members w1 r = members w r" "view w1 = view w" "sp_mem w1 = sp_mem w"
    by (simp_all add: hw_frame_def layer_same_def)
  show ?thesis
  proof (cases ok)
    case False
    with c a w1 \<open>\<not> (_ \<or> _)\<close> show ?thesis by (auto simp: genl_dev_sw_port_create_def)
  next
    case True
    define p where "p = sp_next w1"
    obtain P where w2: "genl_dev_sw_port_create E r name num obj ctrl data w =
        (Some p, genl_dev_notify_netdev_obj_added (user_api E) r obj
          (snd (genl_dev_sw_port_add E r p None (upd_sp p (\<lambda>_. P) (w1\<lparr>sp_next := Suc p\<rparr>)))))"
      and P: "agg_slaves P = []" "agg_parent P = None" "sp_sw_sys P = r" "switch_port_obj P = obj" "port_num P = num"
    proof
      let ?ctrl = "case ctrl of None \<Rightarrow> [] | Some c \<Rightarrow> sw_snprintf c"
      let ?data = "case data of None \<Rightarrow> [] | Some c \<Rightarrow> sw_snprintf c"
      let ?kind = "if ctrl \<noteq> None \<and> data \<noteq> None
          then if strncmp_eq GENERAL_DEVICE_SYSTEM_NAME_SIZE ?ctrl ?data then SWITCH_PORT_TYPE_HIDDEN else SWITCH_PORT_TYPE_EXPORTED
          else SWITCH_PORT_TYPE_HIDDEN"
      let ?P = "switch_port_zero\<lparr>sp_name := sw_snprintf name, port_num := num, switch_port_obj := obj,
          sp_sw_sys := r, control_channel := ?ctrl, data_channel := ?data, sp_type := ?kind\<rparr>"
      show "genl_dev_sw_port_create E r name num obj ctrl data w =
        (Some p, genl_dev_notify_netdev_obj_added (user_api E) r obj
          (snd (genl_dev_sw_port_add E r p None (upd_sp p (\<lambda>_. ?P) (w1\<lparr>sp_next := Suc p\<rparr>)))))"
        using \<open>\<not> (_ \<or> _)\<close> True a by (simp add: genl_dev_sw_port_create_def Let_def p_def)
      show "agg_slaves ?P = []" "agg_parent ?P = None" "sp_sw_sys ?P = r" "switch_port_obj ?P = obj" "port_num ?P = num"
        by (simp_all add: switch_port_zero_def)
    qed
    let ?w2 = "upd_sp p (\<lambda>_. P) (w1\<lparr>sp_next := Suc p\<rparr>)"
    have i2: "sw_inv good view r ?w2" "members ?w2 r = members w r" "view ?w2 = view w" "p \<notin> members w r"
      using fresh_inv [OF w1(1), of ?w2 P] w1(2,3) by (simp_all add: p_def)
    have "obj_of ?w2 q \<noteq> obj" if "q \<in> members w r" for q
    proof -
      have "q \<noteq> p" using that i2(4) by blast
      with that False lookup_None [OF inv] w1(4) show ?thesis by simp
    qed
    moreover have "\<not> v_agg (view w) obj" using agg_in_dom [OF inv_D(1) [OF inv]] obj(2) by blast
    ultimately obtain w3 where w3: "genl_dev_sw_port_add E r p None ?w2 = (True, w3)" "sw_inv good view r w3"
      "view w3 = view ?w2" "members w3 r = insert p (members ?w2 r)" "p \<in> set (ports_of w3 r)" "sp_mem w3 = sp_mem ?w2"
      using add_port [OF i2(1), of p] i2 P obj by auto
    have t: "res = Some p" "t = genl_dev_notify_netdev_obj_added (user_api E) r obj w3"
      using c w2 w3(1) by simp_all
    have f: "hw_frame good view w3 t" unfolding t(2) by (rule notify_added [OF inv_D(1) [OF w3(2)]])
    then have "layer_same w3 t" "view t = view w3" by (simp_all add: hw_frame_def)
    with inv_frame [OF w3(2) f] t(1) w3 i2 P(4) show ?thesis by (simp add: layer_same_def)
  qed
qed

subsection \<open>Destroying an aggregator\<close>

lemma detach_all:
  assumes "sw_inv good view r w" and "p \<in> set (ports_of w r)"
    and "t = fold (\<lambda>s v. snd (genl_dev_sw_port_detach_slave E r (obj_of v p) (obj_of v s) v)) ss w"
  shows "sw_inv good view r t \<and> members t r = members w r \<and> view t = view w \<and> p \<in> set (ports_of t r) \<and>
    (\<forall>q. obj_of t q = obj_of w q)"
  using assms
proof (induction ss arbitrary: w)
  case (Cons s ss)
  obtain ok v where v: "genl_dev_sw_port_detach_slave E r (obj_of w p) (obj_of w s) w = (ok, v)" by fastforce
  note d = detach_inv [OF Cons.prems(1) v]
  from Cons.IH [OF d(1) d(4) [OF Cons.prems(2)]] Cons.prems(3) v d(2,3,5) show ?case by simp
qed simp

lemma destroy_outcome:
  assumes inv: "sw_inv good view r w" and d: "genl_dev_sw_destroy_aggregator E r obj w = (ok, t)"
  shows "sw_inv good view r t \<and>
    (if ok then \<exists>p. p \<in> set (ports_of w r) \<and> obj_of w p = obj \<and> v_agg (view w) obj \<and>
       members t r = members w r - {p} \<and> view t = (view w)\<lparr>v_agg := (v_agg (view w))(obj := False)\<rparr> \<and>
       (\<exists>w3. hw_destroy_aggregator (hw E) p (without_slaves E r p obj w) = (True, w3) \<and> t = unlink_port r p w3)
     else members t r = members w r \<and> view t = view w \<and>
       (t = w \<or> (\<exists>p. p \<in> set (ports_of w r) \<and> obj_of w p = obj \<and>
          (t = without_slaves E r p obj w \<or> hw_destroy_aggregator (hw E) p (without_slaves E r p obj w) = (False, t)))))"
proof (cases "\<exists>p. genl_dev_sw_port_lookup E r obj w = Some p \<and> switch_port_is_aggregator E w p")
  case False
  with d inv show ?thesis by (auto simp: genl_dev_sw_destroy_aggregator_def split: option.splits if_splits)
next
  case True
  then obtain p where look: "genl_dev_sw_port_lookup E r obj w = Some p" and agg: "switch_port_is_aggregator E w p" by blast
  from look lookup_iff [OF inv] have mem: "p \<in> members w r" and obj: "obj_of w p = obj" by simp_all
  have va: "v_agg (view w) obj" using agg member_is_agg [OF inv mem] obj by simp
  have port: "p \<in> set (ports_of w r)"
    using inv_D(2) [OF inv] mem
  proof (cases rule: member_cases)
    case (2 m)
    from wf_D(8) [OF inv_D(2) [OF inv] 2(2,3)] va obj show ?thesis by simp
  qed
  define w1 where "w1 = genl_dev_notify_netdev_obj_deleted (user_api E) r obj w"
  have f: "hw_frame good view w w1" unfolding w1_def by (rule notify_deleted [OF inv_D(1) [OF inv]])
  then have l: "layer_same w w1" "view w1 = view w" by (simp_all add: hw_frame_def)
  from inv_frame [OF inv f] have i1: "sw_inv good view r w1" "members w1 r = members w r" by simp_all
  define w2 where "w2 = fold (\<lambda>s v. snd (genl_dev_sw_port_detach_slave E r (obj_of v p) (obj_of v s) v)) (slaves_of w1 p) w1"
  have "p \<in> set (ports_of w1 r)" using port l(1) by (simp add: layer_same_def)
  from detach_all [OF i1(1) this w2_def] l i1(2)
  have i2: "sw_inv good view r w2" "members w2 r = members w r" "view w2 = view w" "p \<in> set (ports_of w2 r)"
    "\<And>q. obj_of w2 q = obj_of w q" by (simp_all add: layer_same_def)
  note dd = d [unfolded genl_dev_sw_destroy_aggregator_def, simplified look agg obj Let_def option.case not_True_eq_False if_False,
      folded w1_def, folded w2_def]
  have ws: "without_slaves E r p obj w = w2" by (simp add: without_slaves_def Let_def w1_def w2_def)
  show ?thesis
  proof (cases "slaves_of w2 p = []")
    case False
    with dd i2 port obj ws show ?thesis by auto
  next
    case True
    obtain b w3 where h: "hw_destroy_aggregator (hw E) p w2 = (b, w3)" by fastforce
    have sys: "sp_sw_sys (sp_mem w2 p) = r" using wf_D(10) [OF inv_D(2) [OF i2(1)] member_port [OF i2(4)]] .
    from destroy_effect [OF inv_D(1) [OF i2(1)] sys h]
    have e: "good w3" "layer_same w2 w3" "view w3 = (if b then (view w2)\<lparr>v_agg := (v_agg (view w2))(obj := False)\<rparr> else view w2)"
      using i2(5) obj by simp_all
    show ?thesis
    proof (cases b)
      case False
      with e have "hw_frame good view w2 w3" by (simp add: hw_frame_def)
      from inv_frame [OF i2(1) this] e(3) False dd h True i2 port obj ws show ?thesis by auto
    next
      case b: True
      have eq3: "sp_mem w3 = sp_mem w2" "sw_mem w3 = sw_mem w2" "sp_next w3 = sp_next w2" using e(2) by (simp_all add: layer_same_def)
      note wf2 = inv_D(2) [OF i2(1)]
      have "genl_dev_sw_port_lookup E r (obj_of w3 p) w3 \<noteq> None"
      proof -
        have "obj_of w3 p \<noteq> 0" using inv_no_zero [OF i2(1) member_port [OF i2(4)]] eq3 by simp
        moreover have "search_switch E r (\<lambda>q. obj_of w3 q = obj_of w3 p) w3 \<noteq> None"
          unfolding search_ports_None using i2(4) eq3(2) by auto
        ultimately show ?thesis by (simp add: genl_dev_sw_port_lookup_def netdev_obj_is_invalid_def GENERAL_DEVICE_INVALID_ID_def)
      qed
      moreover have "agg_parent (sp_mem w3 p) = None" using wf_D(3) [OF wf2 i2(4)] eq3 by simp
      ultimately have del: "genl_dev_sw_port_del E r p w3 = (True, unlink_port r p w3)"
        by (simp add: genl_dev_sw_port_del_def Let_def)
      with dd h True b have t: "ok" "t = unlink_port r p w3" by simp_all
      have "layer_only w3 t" unfolding t(2) by simp
      from layer_only_frame [OF this] e have g: "good t" "view t = view w3" by simp_all
      have none: "p \<notin> set (slaves_of w2 q)" if "q \<in> members w2 r" for q
      proof (cases "q \<in> set (ports_of w2 r)")
        case True
        then show ?thesis using wf_D(6) [OF wf2 True] wf_D(3) [OF wf2 i2(4)] by force
      next
        case False
        with that obtain m where "m \<in> set (ports_of w2 r)" "q \<in> set (slaves_of w2 m)" by (auto simp: members_def)
        from wf_D(7) [OF wf2 this] show ?thesis by simp
      qed
      have same: "sp_mem t q = sp_mem w2 q" if "q \<in> members w2 r" for q
        using none [OF that] by (simp add: t(2) eq3)
      have objs: "obj_of w2 q \<noteq> obj" if "q \<in> members w2 r" "q \<noteq> p" for q
        using lookup_iff [OF i2(1), of obj] that member_port [OF i2(4)] i2(5) obj by (metis option.inject)
      have wf: "sw_wf (v_agg (view t)) r t" "members t r = members w2 r - {p}"
        using wf_removed [OF wf2 i2(4) True, of t "v_agg (view t)"] same objs g e b wf_D(1) [OF wf2]
        by (simp_all add: t(2) eq3)
      with g e(3) b same objs inv_D(3,4) [OF i2(1)] have "sw_inv good view r t" by (simp add: sw_inv_def)
      moreover have "hw_destroy_aggregator (hw E) p (without_slaves E r p obj w) = (True, w3)"
        using h b by (simp add: ws)
      ultimately show ?thesis using t wf(2) g e(3) b i2(2,3) port obj va by auto
    qed
  qed
qed

end

end
