(* ===== verification/Qca_System.thy ===== *)
theory Qca_System
  imports Qca_Driver Switch_Keeps
begin

text \<open>
  The QCA switch under the switch port layer: the driver meets the contract of
  \<open>virtual_switch\<close>, so that the layer keeps its invariant on it, from the ports the configuration
  describes through every sequence of operations on aggregators.
\<close>

subsection \<open>The view of the driver\<close>

definition qca_agg :: "sys_ref \<Rightarrow> ('k, 'z) qca_state_scheme \<Rightarrow> u32 \<Rightarrow> bool" where
  "qca_agg r w obj = qca_sw_agg_id_is_active r (obj - agg_domain (qca_mem w r)) w"

definition qca_view :: "sys_ref \<Rightarrow> ('k, 'z) qca_state_scheme \<Rightarrow> switch_view" where
  "qca_view r w = \<lparr>v_agg = qca_agg r w, v_dom = {obj. qca_sw_agg_id_is_valid (obj - agg_domain (qca_mem w r))},
     v_base = port_domain (qca_mem w r)\<rparr>"

text \<open>The objects of ports and of aggregators have different prefixes of 16 bits.\<close>

definition domains_ok :: "qca_switch_system \<Rightarrow> bool" where
  "domains_ok q \<longleftrightarrow> take_bit 16 (port_domain q) = 0 \<and> take_bit 16 (agg_domain q) = 0 \<and>
     port_domain q \<noteq> 0 \<and> agg_domain q \<noteq> 0 \<and> port_domain q \<noteq> agg_domain q"

text \<open>Users that hear of a new or a deleted port do not touch the switch.\<close>

definition users_quiet :: "(user_ref \<Rightarrow> ('k, 'z) qca_state_scheme general_device_out_api) \<Rightarrow> bool" where
  "users_quiet out \<longleftrightarrow>
     (\<forall>u f obj w. out_netdev_obj_added (out u) = Some f \<or> out_netdev_obj_deleted (out u) = Some f \<longrightarrow>
        layer_same w (f obj w) \<and> qca_mem (f obj w) = qca_mem w)"

definition qca_good ::
    "(user_ref \<Rightarrow> ('k, 'z) qca_state_scheme general_device_out_api) \<Rightarrow> sys_ref \<Rightarrow> ('k, 'z) qca_state_scheme \<Rightarrow> bool" where
  "qca_good out r w \<longleftrightarrow> users_quiet out \<and> domains_ok (qca_mem w r)"

subsection \<open>Prefixes\<close>

lemma prefix_plus:
  fixes x k :: u32
  assumes "take_bit 16 x = 0" and "unat k < 2 ^ 16"
  shows "drop_bit 16 (x + k) = drop_bit 16 x" "take_bit 16 (x + k) = k"
proof -
  have x: "16 \<le> n" if "bit x n" for n
    using assms(1) that by (metis bit_0_eq bit_take_bit_iff bot_apply bot_bool_def linorder_not_less)
  note k = bit_unat_less [OF assms(2)]
  have no: "\<not> (bit x n \<and> bit k n)" for n using x [of n] k [of n] by auto
  have "x + k = x OR k"
    by (rule disjunctive_add_eq_or, rule bit_word_eqI) (use no in \<open>auto simp: bit_simps\<close>)
  moreover have "\<not> bit k (16 + n)" for n using k [of "16 + n"] by auto
  moreover have "n < 16 \<Longrightarrow> \<not> bit x n" for n using x [of n] by auto
  ultimately show "drop_bit 16 (x + k) = drop_bit 16 x" "take_bit 16 (x + k) = k"
    using k by (auto intro!: bit_word_eqI simp: bit_simps)
qed

lemma prefix_nonzero:
  fixes x :: u32
  assumes "take_bit 16 x = 0" and "x \<noteq> 0"
  shows "drop_bit 16 x \<noteq> 0"
proof
  assume "drop_bit 16 x = 0"
  then have "x = 0" using assms(1) bits_ident [of 16 x] by simp
  with assms(2) show False by simp
qed

lemma prefix_inj:
  fixes x y :: u32
  assumes "take_bit 16 x = 0" "take_bit 16 y = 0" and "drop_bit 16 x = drop_bit 16 y"
  shows "x = y"
  using assms bits_ident [of 16 x] bits_ident [of 16 y] by simp

lemma valid_id: "qca_sw_agg_id_is_valid i \<longleftrightarrow> unat i \<le> 3"
  by (simp add: qca_sw_agg_id_is_valid_def QCA_SW_AGG_ID_MAX_def QCA_SW_AGG_ID_MIN_def)

lemma agg_obj_prefix:
  assumes "domains_ok q" and "qca_sw_agg_id_is_valid (obj - agg_domain q)"
  shows "drop_bit 16 obj = drop_bit 16 (agg_domain q)"
  using prefix_plus(1) [of "agg_domain q" "obj - agg_domain q"] assms by (simp add: domains_ok_def valid_id)

lemma agg_obj_nonzero:
  assumes "domains_ok q" and "qca_sw_agg_id_is_valid (obj - agg_domain q)"
  shows "obj \<noteq> 0"
  using agg_obj_prefix [OF assms] prefix_nonzero [of "agg_domain q"] assms(1) by (auto simp: domains_ok_def)

lemma port_obj_free:
  assumes "domains_ok q" and "unat num < 2 ^ 16"
  shows "port_domain q + num \<noteq> 0" "\<not> qca_sw_agg_id_is_valid (port_domain q + num - agg_domain q)"
proof -
  have p: "drop_bit 16 (port_domain q + num) = drop_bit 16 (port_domain q)"
    using prefix_plus(1) assms by (auto simp: domains_ok_def)
  then show "port_domain q + num \<noteq> 0"
    using prefix_nonzero [of "port_domain q"] assms(1) by (auto simp: domains_ok_def)
  show "\<not> qca_sw_agg_id_is_valid (port_domain q + num - agg_domain q)"
    using agg_obj_prefix [OF assms(1), of "port_domain q + num"] p prefix_inj [of "port_domain q" "agg_domain q"] assms(1)
    by (auto simp: domains_ok_def)
qed

subsection \<open>What the calls of the driver leave unchanged\<close>

definition qca_same :: "('k, 'z) qca_state_scheme \<Rightarrow> ('k, 'z) qca_state_scheme \<Rightarrow> bool" where
  "qca_same w t \<longleftrightarrow> layer_same w t \<and> qca_mem t = qca_mem w"

lemma qca_same_refl [simp]: "qca_same w w" by (simp add: qca_same_def)

lemma kcall_same: "qca_same w (snd (kcall f w))"
  by (simp add: kcall_def qca_same_def layer_same_def split: prod.split)

lemma open_driver_same: "qca_same w (open_driver K w)"
  by (simp add: open_driver_def kcall_def qca_same_def layer_same_def split: prod.split)

lemma ioctl_same: "qca_same w (snd (qca_switch_ioctl K api args w))"
  using open_driver_same [of w K] kcall_same [of "open_driver K w"]
  by (auto simp: qca_switch_ioctl_def Let_def qca_same_def intro: layer_same_trans)

lemma ioctl_sameD: "qca_switch_ioctl K api args w = (ok, t) \<Longrightarrow> qca_same w t"
  using ioctl_same [of w K api args] by simp

lemma qca_same_frame: "qca_good out r w \<Longrightarrow> qca_same w t \<Longrightarrow> hw_frame (qca_good out r) (qca_view r) w t"
  by (simp add: qca_same_def qca_good_def hw_frame_def qca_view_def qca_agg_def qca_sw_agg_id_is_active_def fun_eq_iff)

lemma bit_test: "(x :: u32) AND push_bit i 1 \<noteq> 0 \<longleftrightarrow> bit x i"
  by (simp only: bit_iff_and_push_bit_not_eq_0)

lemma bit_test2: "(x :: u32) AND 2 ^ i = 0 \<longleftrightarrow> \<not> bit x i"
  using bit_test [of x i] by auto

lemma active_iff: "qca_sw_agg_id_is_active r i w \<longleftrightarrow> unat i \<le> 3 \<and> bit (agg_id_bitmap (qca_mem w r)) (unat i)"
  by (simp add: qca_sw_agg_id_is_active_def valid_id bit_test2)

lemma upd_qca_simps [simp]:
  "qca_mem (upd_qca r f w) = (qca_mem w)(r := f (qca_mem w r))" "sp_mem (upd_qca r f w) = sp_mem w"
  "sw_mem (upd_qca r f w) = sw_mem w" "sp_next (upd_qca r f w) = sp_next w" "kernel (upd_qca r f w) = kernel w"
  "sys_mem (upd_qca r f w) = sys_mem w" "ndev_systems (upd_qca r f w) = ndev_systems w"
  "current_os_service (upd_qca r f w) = current_os_service w"
  "qca_switch_driver_fd (upd_qca r f w) = qca_switch_driver_fd w"
  by (simp_all add: upd_qca_def)

lemma upd_sp_qca [simp]: "qca_mem (upd_sp p f w) = qca_mem w" "kernel (upd_sp p f w) = kernel w"
  by (simp_all add: upd_sp_def)

lemma upd_sw_qca [simp]: "qca_mem (upd_sw r f w) = qca_mem w" "kernel (upd_sw r f w) = kernel w"
  by (simp_all add: upd_sw_def)

subsection \<open>Aggregators of the driver\<close>

lemma new_aggregator_effect:
  assumes good: "qca_good out r w" and sys: "sp_sw_sys (sp_mem w p) = r"
    and n: "qca_switch_new_aggregator p w = (ok, t)"
  shows "if ok then \<exists>obj \<in> v_dom (qca_view r w). \<not> v_agg (qca_view r w) obj \<and> qca_good out r t \<and>
       layer_same (upd_sp p (\<lambda>P. P\<lparr>switch_port_obj := obj\<rparr>) w) t \<and>
       qca_view r t = (qca_view r w)\<lparr>v_agg := (v_agg (qca_view r w))(obj := True)\<rparr>
     else hw_frame (qca_good out r) (qca_view r) w t"
proof (cases "find (\<lambda>idx. agg_id_bitmap (qca_mem w r) AND push_bit idx 1 = 0) [QCA_SW_AGG_ID_MIN..<Suc QCA_SW_AGG_ID_MAX]")
  case None
  with n sys have "\<not> ok \<and> t = w"
    by (simp add: qca_switch_new_aggregator_def qca_switch_allocate_agg_id_def valid_id QCA_SW_AGG_ID_MAX_def)
  with good qca_same_frame [OF good qca_same_refl] show ?thesis by simp
next
  case (Some i)
  from find_SomeD [OF Some] have i: "i \<le> 3" and free: "\<not> bit (agg_id_bitmap (qca_mem w r)) i"
    using bit_test [of "agg_id_bitmap (qca_mem w r)" i] by (auto simp: QCA_SW_AGG_ID_MIN_def QCA_SW_AGG_ID_MAX_def)
  then have ui: "unat (of_nat i :: u32) = i" by (simp add: unat_of_nat take_bit_nat_eq_self)
  let ?q = "qca_mem w r"
  let ?obj = "agg_domain ?q + of_nat i"
  let ?w1 = "upd_qca r (\<lambda>q. q\<lparr>agg_id_bitmap := agg_id_bitmap q OR push_bit i 1\<rparr>) w"
  have t: "ok" "t = upd_sp p (\<lambda>P. P\<lparr>switch_port_obj := ?obj\<rparr>) ?w1"
    using n sys Some i by (simp_all add: qca_switch_new_aggregator_def qca_switch_allocate_agg_id_def valid_id ui)
  have act: "qca_agg r t x \<longleftrightarrow> qca_agg r w x \<or> x = ?obj" for x
  proof -
    have "x = ?obj \<longleftrightarrow> unat (x - agg_domain ?q) = i"
      using ui by (metis add_diff_cancel_left' diff_add_cancel add.commute word_unat_eq_iff)
    with i show ?thesis
      by (auto simp: qca_agg_def active_iff t(2) bit_simps)
  qed
  have "?obj \<in> v_dom (qca_view r w)" by (simp add: qca_view_def valid_id ui i)
  moreover have "\<not> v_agg (qca_view r w) ?obj" using free by (simp add: qca_view_def qca_agg_def active_iff ui)
  moreover have "qca_good out r t" using good by (simp add: qca_good_def t(2) domains_ok_def)
  moreover have "layer_same (upd_sp p (\<lambda>P. P\<lparr>switch_port_obj := ?obj\<rparr>) w) t" by (simp add: layer_same_def t(2))
  moreover have "qca_view r t = (qca_view r w)\<lparr>v_agg := (v_agg (qca_view r w))(?obj := True)\<rparr>"
    using act by (auto simp: qca_view_def t(2) fun_eq_iff)
  ultimately show ?thesis using t(1) by auto
qed

lemma destroy_aggregator_effect:
  assumes good: "qca_good out r w" and sys: "sp_sw_sys (sp_mem w p) = r"
    and d: "qca_switch_destroy_aggregator K p w = (ok, t)"
  shows "qca_good out r t \<and> layer_same w t \<and>
    qca_view r t = (if ok then (qca_view r w)\<lparr>v_agg := (v_agg (qca_view r w))(obj_of w p := False)\<rparr> else qca_view r w)"
proof (cases "qca_sw_agg_id_is_active r (agg_index w p) w")
  case False
  with d sys good show ?thesis by (simp add: qca_switch_destroy_aggregator_def)
next
  case True
  obtain b w1 where c: "qca_switch_ioctl K SW_API_TRUNK_GROUP_SET
      [sw_obj w r, Val (agg_index w p), Val 0, Val (port_num (sp_mem w p))] w = (b, w1)" by fastforce
  from ioctl_sameD [OF c] have s: "layer_same w w1" "qca_mem w1 = qca_mem w" by (simp_all add: qca_same_def)
  show ?thesis
  proof (cases b)
    case False
    with d sys True c have "\<not> ok \<and> t = w1" by (simp add: qca_switch_destroy_aggregator_def Let_def)
    with qca_same_frame [OF good ioctl_sameD [OF c]] show ?thesis by (simp add: hw_frame_def)
  next
    case b: True
    let ?i = "agg_index w p"
    have t: "ok" "t = upd_qca r (\<lambda>q. q\<lparr>agg_id_bitmap := agg_id_bitmap q AND NOT (push_bit (unat ?i) 1)\<rparr>) w1"
      using d sys True c b by (simp_all add: qca_switch_destroy_aggregator_def Let_def qca_switch_free_agg_id_def
          qca_sw_agg_id_is_active_def)
    have act: "qca_agg r t x \<longleftrightarrow> qca_agg r w x \<and> x \<noteq> obj_of w p" for x
    proof -
      have "x = obj_of w p \<longleftrightarrow> unat (x - agg_domain (qca_mem w r)) = unat ?i"
        using sys by (metis diff_add_cancel word_unat_eq_iff)
      then show ?thesis by (auto simp: qca_agg_def active_iff t(2) s(2) bit_cleared)
    qed
    have "qca_good out r t" using good by (simp add: qca_good_def t(2) s(2) domains_ok_def)
    moreover have "layer_same w t" using s(1) by (simp add: layer_same_def t(2))
    moreover have "qca_view r t = (qca_view r w)\<lparr>v_agg := (v_agg (qca_view r w))(obj_of w p := False)\<rparr>"
      using act by (auto simp: qca_view_def t(2) s(2) fun_eq_iff)
    ultimately show ?thesis using t(1) by simp
  qed
qed

lemma attach_same: "qca_same w (snd (qca_switch_port_attach_slave K m s w))"
  by (simp add: qca_switch_port_attach_slave_def Let_def ioctl_same)

lemma detach_same: "qca_same w (snd (qca_switch_port_detach_slave K m s w))"
  by (simp add: qca_switch_port_detach_slave_def Let_def ioctl_same)

subsection \<open>The contract is met\<close>

lemma qca_contract:
  assumes "hw E = (base_ops K sysops)\<lparr>hw_init := i, hw_private := v\<rparr>" and "user_api E = out" and "sw_calloc E = kcall (k_alloc K)"
  shows "virtual_switch E r (qca_good out r) (qca_view r)"
proof
  fix w p m s ok t a b c obj u f
  show "qca_good out r w \<Longrightarrow> sp_sw_sys (sp_mem w p) = r \<Longrightarrow>
      hw_is_aggregator (hw E) p None w = v_agg (qca_view r w) (obj_of w p)"
    by (simp add: assms base_ops_def qca_switch_port_is_aggregator_def qca_view_def qca_agg_def)
  show "qca_good out r w \<Longrightarrow> v_agg (qca_view r w) obj \<Longrightarrow> obj \<in> v_dom (qca_view r w)"
    by (simp add: qca_view_def qca_agg_def qca_sw_agg_id_is_active_def)
  show "qca_good out r w \<Longrightarrow> obj \<in> v_dom (qca_view r w) \<Longrightarrow> obj \<noteq> 0"
    using agg_obj_nonzero by (auto simp: qca_good_def qca_view_def)
  show "qca_good out r (w\<lparr>sw_mem := a, sp_mem := b, sp_next := c\<rparr>) = qca_good out r w"
    "qca_view r (w\<lparr>sw_mem := a, sp_mem := b, sp_next := c\<rparr>) = qca_view r w"
    by (simp_all add: qca_good_def qca_view_def qca_agg_def qca_sw_agg_id_is_active_def fun_eq_iff)
  show "qca_good out r w \<Longrightarrow> hw_attach_slave (hw E) m s w = (ok, t) \<Longrightarrow> hw_frame (qca_good out r) (qca_view r) w t"
    using attach_same [of w K m s] qca_same_frame by (simp add: assms base_ops_def)
  show "qca_good out r w \<Longrightarrow> hw_detach_slave (hw E) m s w = (ok, t) \<Longrightarrow> hw_frame (qca_good out r) (qca_view r) w t"
    using detach_same [of w K m s] qca_same_frame by (simp add: assms base_ops_def)
  show "qca_good out r w \<Longrightarrow> sw_calloc E w = (ok, t) \<Longrightarrow> hw_frame (qca_good out r) (qca_view r) w t"
    using kcall_same [of w "k_alloc K"] qca_same_frame by (simp add: assms)
  show "qca_good out r w \<Longrightarrow> sp_sw_sys (sp_mem w p) = r \<Longrightarrow> hw_destroy_aggregator (hw E) p w = (ok, t) \<Longrightarrow>
      qca_good out r t \<and> layer_same w t \<and>
      qca_view r t = (if ok then (qca_view r w)\<lparr>v_agg := (v_agg (qca_view r w))(obj_of w p := False)\<rparr> else qca_view r w)"
    using destroy_aggregator_effect [of out r w p K ok t] by (simp add: assms base_ops_def)
  show "qca_good out r w \<Longrightarrow> sp_sw_sys (sp_mem w p) = r \<Longrightarrow> hw_new_aggregator (hw E) p w = (ok, t) \<Longrightarrow>
      (if ok then \<exists>obj \<in> v_dom (qca_view r w). \<not> v_agg (qca_view r w) obj \<and> qca_good out r t \<and>
           layer_same (upd_sp p (\<lambda>P. P\<lparr>switch_port_obj := obj\<rparr>) w) t \<and>
           qca_view r t = (qca_view r w)\<lparr>v_agg := (v_agg (qca_view r w))(obj := True)\<rparr>
       else hw_frame (qca_good out r) (qca_view r) w t)"
    using new_aggregator_effect [of out r w p ok t] by (simp add: assms base_ops_def)
  show "qca_good out r w \<Longrightarrow> out_netdev_obj_added (user_api E u) = Some f \<Longrightarrow> hw_frame (qca_good out r) (qca_view r) w (f obj w)"
    by (rule qca_same_frame) (auto simp: assms qca_good_def users_quiet_def qca_same_def)
  show "qca_good out r w \<Longrightarrow> out_netdev_obj_deleted (user_api E u) = Some f \<Longrightarrow> hw_frame (qca_good out r) (qca_view r) w (f obj w)"
    by (rule qca_same_frame) (auto simp: assms qca_good_def users_quiet_def qca_same_def)
qed

interpretation qsw: virtual_switch "qca_calls K sysops out" r "qca_good out r" "qca_view r" for K sysops out r
  by (rule qca_contract) (simp_all add: qca_calls_def base_calls_def)

interpretation bsw: virtual_switch "base_calls K sysops out" r "qca_good out r" "qca_view r" for K sysops out r
  by (rule qca_contract [where i = "\<lambda>r w. Returns (False, w)" and v = None]) (simp_all add: base_calls_def base_ops_def)

end
