(* ===== verification/Qca_Runs.thy ===== *)
theory Qca_Runs
  imports Qca_System
begin

text \<open>
  Runs of the QCA switch: its initialisation from the configuration, then any sequence of the
  operations the wrapper and the bridge ask for. The invariant of the switch layer holds in every
  state of a run.
\<close>

subsection \<open>Operations that leave ports and aggregators alone\<close>

text \<open>
  What the layer and the identifiers of the driver consist of, and what \<open>g\<close> observes of the kernel.
  \<open>quiet_kernel\<close> tells that nothing but the trunk groups of the hardware is observed.
\<close>

definition ids where
  "ids g r w = (sw_mem w, sp_mem w, sp_next w, port_domain (qca_mem w r), agg_domain (qca_mem w r),
     agg_id_bitmap (qca_mem w r), g (kernel w))"

definition quiet_kernel :: "'k qca_kernel \<Rightarrow> ('k \<Rightarrow> 'g) \<Rightarrow> bool" where
  "quiet_kernel K g \<longleftrightarrow> (\<forall>k.
     (\<forall>path. g (snd (k_open K path k)) = g k) \<and>
     (\<forall>api args. api \<noteq> SW_API_TRUNK_GROUP_SET \<longrightarrow> g (snd (k_ioctl K api args k)) = g k) \<and>
     g (snd (k_alloc K k)) = g k \<and> (\<forall>prot. g (snd (k_socket K prot k)) = g k) \<and>
     (\<forall>fd. g (snd (k_nonblock K fd k)) = g k \<and> g (snd (k_fd_add K fd k)) = g k \<and>
        g (snd (k_fd_del K fd k)) = g k \<and> g (snd (k_close K fd k)) = g k))"

lemma quiet_kernel_unit [simp]: "quiet_kernel K (\<lambda>_. ())"
  by (simp add: quiet_kernel_def)

lemma ids_frame: "qca_good out r w \<Longrightarrow> ids g r t = ids g r w \<Longrightarrow> hw_frame (qca_good out r) (qca_view r) w t"
  by (simp add: ids_def hw_frame_def qca_good_def domains_ok_def qca_view_def qca_agg_def qca_sw_agg_id_is_active_def
      layer_same_def fun_eq_iff)

lemma ids_kcall: "(\<And>k. g (snd (f k)) = g k) \<Longrightarrow> ids g r (snd (kcall f w)) = ids g r w"
  by (simp add: ids_def kcall_def split_beta)

lemma ids_open [simp]: "quiet_kernel K g \<Longrightarrow> ids g r (open_driver K w) = ids g r w"
  by (simp add: open_driver_def kcall_def split_beta Let_def ids_def quiet_kernel_def)

lemma ids_ioctl [simp]:
  fixes w :: "('k, 'z) qca_state_scheme"
  assumes "quiet_kernel K g" and "api \<noteq> SW_API_TRUNK_GROUP_SET"
  shows "ids g r (snd (qca_switch_ioctl K api args w)) = ids g r w"
proof -
  have "ids g r (snd (kcall (k_ioctl K api args) v)) = ids g r v" for args and v :: "('k, 'z) qca_state_scheme"
    by (rule ids_kcall) (use assms in \<open>simp add: quiet_kernel_def\<close>)
  with assms(1) show ?thesis by (simp add: qca_switch_ioctl_def Let_def)
qed

lemma ids_upd_qca:
  "(\<And>q. port_domain (f q) = port_domain q \<and> agg_domain (f q) = agg_domain q \<and> agg_id_bitmap (f q) = agg_id_bitmap q) \<Longrightarrow>
    ids g r (upd_qca r f w) = ids g r w"
  by (simp add: ids_def)

lemma ids_and_call: "(\<And>w. ids g r (snd (f w)) = ids g r w) \<Longrightarrow> ids g r (snd (and_call f res)) = ids g r (snd res)"
  by (simp add: and_call_def)

lemma ids_with_undo:
  "(\<And>f b w. f \<in> set fs \<Longrightarrow> ids g r (snd (f b w)) = ids g r w) \<Longrightarrow> ids g r (snd (with_undo fs b w)) = ids g r w"
  by (induction fs arbitrary: w) (simp_all add: split_beta Let_def)

lemma ids_raw_socket:
  assumes "quiet_kernel K g"
  shows "ids g r (snd (open_raw_socket K r w)) = ids g r w" "ids g r (snd (close_raw_socket K r w)) = ids g r w"
proof -
  have "ids g r (snd (kcall (k_socket K n) v)) = ids g r v" "ids g r (snd (kcall (k_fd_add K i) v)) = ids g r v"
    "ids g r (snd (kcall (k_nonblock K i) v)) = ids g r v" "ids g r (snd (kcall (k_close K i) v)) = ids g r v"
    "ids g r (snd (kcall (k_fd_del K i) v)) = ids g r v" for n i v
    by (rule ids_kcall; use assms in \<open>simp add: quiet_kernel_def\<close>)+
  note [simp] = this ids_upd_qca ids_and_call
  show "ids g r (snd (open_raw_socket K r w)) = ids g r w" by (simp add: open_raw_socket_def Let_def split_beta)
  show "ids g r (snd (close_raw_socket K r w)) = ids g r w" by (simp add: close_raw_socket_def Let_def split_beta)
qed

lemma ids_protocol_steps:
  assumes "f \<in> set (protocol_steps K r kind)" and quiet: "quiet_kernel K g"
  shows "ids g r (snd (f b w)) = ids g r w"
proof -
  note [simp] = ids_upd_qca ids_and_call ids_raw_socket quiet
  have "ids g r (snd (qca_switch_enable_private_header K r b w)) = ids g r w"
    by (simp add: qca_switch_enable_private_header_def Let_def split_beta)
  moreover have "ids g r (snd (qca_switch_enable_private_header_on_cpu_port K r b w)) = ids g r w"
    by (simp add: qca_switch_enable_private_header_on_cpu_port_def Let_def split_beta)
  moreover have "ids g r (snd (qca_switch_enable_private_header_on_mirror_port K r b w)) = ids g r w"
    by (simp add: qca_switch_enable_private_header_on_mirror_port_def Let_def split_beta)
  moreover have "ids g r (snd (qca_switch_enable_reserved_fdb K r kind b w)) = ids g r w"
    by (simp add: qca_switch_enable_reserved_fdb_def step_resv_counter_def Let_def split_beta)
  moreover have "ids g r (snd (qca_switch_enable_raw_socket K r b w)) = ids g r w"
    by (simp add: qca_switch_enable_raw_socket_def Let_def split_beta)
  ultimately show ?thesis using assms by (auto simp: protocol_steps_def)
qed

lemma ids_protocol [simp]: "quiet_kernel K g \<Longrightarrow> ids g r (snd (with_undo (protocol_steps K r kind) b w)) = ids g r w"
  by (rule ids_with_undo) (rule ids_protocol_steps)

lemma ids_all_slaves:
  "(\<And>p w. p \<in> set ps \<Longrightarrow> P w \<Longrightarrow> ids g r (snd (f p w)) = ids g r w \<and> P (snd (f p w))) \<Longrightarrow> P w \<Longrightarrow>
    ids g r (snd (all_slaves f ps b w)) = ids g r w"
  by (induction f ps b w rule: all_slaves.induct) (simp_all add: split_beta Let_def)

subsection \<open>Runs\<close>

datatype sw_op =
    New_Aggregator string | Destroy_Aggregator u32 | Attach_Slave u32 u32 | Detach_Slave u32 u32
  | Lacp_Enable u32 | Lacp_Disable u32 | Stp_Enable u32 | Stp_Disable u32 | Flush_Fdb u32
  | Set_Port_State u32 general_device_stp_state | Set_Tx_Hash u32 general_device_agg_tx_hash_policy

fun sw_exec :: "'a switch_state_scheme switch_calls \<Rightarrow> sys_ref \<Rightarrow> sw_op \<Rightarrow> 'a switch_state_scheme \<Rightarrow> 'a switch_state_scheme" where
  "sw_exec E r (New_Aggregator name) w = snd (genl_dev_sw_new_aggregator E r name w)"
| "sw_exec E r (Destroy_Aggregator obj) w = snd (genl_dev_sw_destroy_aggregator E r obj w)"
| "sw_exec E r (Attach_Slave m s) w = snd (genl_dev_sw_port_attach_slave E r m s w)"
| "sw_exec E r (Detach_Slave m s) w = snd (genl_dev_sw_port_detach_slave E r m s w)"
| "sw_exec E r (Lacp_Enable obj) w = snd (genl_dev_sw_port_lacp_enable E r obj w)"
| "sw_exec E r (Lacp_Disable obj) w = snd (genl_dev_sw_port_lacp_disable E r obj w)"
| "sw_exec E r (Stp_Enable obj) w = snd (genl_dev_sw_port_stp_enable E r obj w)"
| "sw_exec E r (Stp_Disable obj) w = snd (genl_dev_sw_port_stp_disable E r obj w)"
| "sw_exec E r (Flush_Fdb obj) w = snd (genl_dev_sw_port_flush_fdb E r obj w)"
| "sw_exec E r (Set_Port_State obj st) w = snd (genl_dev_sw_port_set_stp_state E r obj st w)"
| "sw_exec E r (Set_Tx_Hash obj pol) w = snd (genl_dev_sw_port_set_tx_hash_policy E r obj pol w)"

text \<open>Aggregators are not attached to aggregators.\<close>

definition sw_legal :: "sys_ref \<Rightarrow> sw_op \<Rightarrow> ('k, 'z) qca_state_scheme \<Rightarrow> bool" where
  "sw_legal r cmd w \<longleftrightarrow> (case cmd of Attach_Slave m s \<Rightarrow> \<not> qca_agg r w s | _ \<Rightarrow> True)"

text \<open>A switch as the registration leaves it.\<close>

definition registered_switch :: "sys_ref \<Rightarrow> ('k, 'z) qca_state_scheme \<Rightarrow> bool" where
  "registered_switch r w \<longleftrightarrow> ports_of w r = [] \<and> \<not> real_agg_dev (sw_mem w r) \<and> agg_id_bitmap (qca_mem w r) = 0 \<and>
     unat (ds_domain (sys_mem w r)) < 256 \<and> next_internal_domain (sys_mem w r) = QCA_SW_INTERNAL_DOMAIN_INIT"

text \<open>From a registered switch \<open>w\<^sub>0\<close>: the initialisation and then the operations.\<close>

inductive switch_run ::
    "'k qca_kernel \<Rightarrow> (sys_ref \<Rightarrow> ('k, 'z) qca_state_scheme general_device_ops) \<Rightarrow>
     (user_ref \<Rightarrow> ('k, 'z) qca_state_scheme general_device_out_api) \<Rightarrow> sys_ref \<Rightarrow>
     ('k, 'z) qca_state_scheme \<Rightarrow> ('k, 'z) qca_state_scheme \<Rightarrow> bool"
  for K sysops out r w0 where
  Init: "registered_switch r w0 \<Longrightarrow> genl_dev_sw_init (qca_calls K sysops out) r w0 = Returns (ok, t) \<Longrightarrow>
    switch_run K sysops out r w0 t"
| Op: "switch_run K sysops out r w0 w \<Longrightarrow> sw_legal r cmd w \<Longrightarrow>
    switch_run K sysops out r w0 (sw_exec (qca_calls K sysops out) r cmd w)"

subsection \<open>Initialisation\<close>

lemma domain_parts:
  fixes d k :: u32
  assumes "unat d < 2 ^ 8" and "unat k < 2 ^ 8"
  shows "take_bit 16 (push_bit 24 d OR push_bit 16 k) = 0" "drop_bit 16 (push_bit 24 d OR push_bit 16 k) AND 0xff = k"
proof -
  show "take_bit 16 (push_bit 24 d OR push_bit 16 k) = 0" by (auto intro!: bit_word_eqI simp: bit_simps)
  have "unat k < 2 ^ 9" using assms(2) by simp
  from prefix_parts(3) [OF assms(1) this, of 0] assms(2)
  show "drop_bit 16 (push_bit 24 d OR push_bit 16 k) AND 0xff = k" by simp
qed

lemma load_port_list_keeps:
  fixes K sysops out
  defines "E \<equiv> base_calls K sysops out"
  assumes "sw_inv (qca_good out r) (qca_view r) r w"
  shows "sw_inv (qca_good out r) (qca_view r) r (snd (load_port_list E r ws w)) \<and>
    qca_view r (snd (load_port_list E r ws w)) = qca_view r w"
  using assms(2)
proof (induction ws arbitrary: w rule: length_induct)
  case (1 ws)
  show ?case
  proof (cases "\<exists>name ctrl_ch data_ch num port_name rest. ws = name # ctrl_ch # data_ch # num # port_name # rest")
    case False
    then have "load_port_list E r ws w = (True, w)" by (cases "(E, r, ws, w)" rule: load_port_list.cases) auto
    with 1(2) show ?thesis by simp
  next
    case True
    then obtain name ctrl_ch data_ch num port_name rest where
      ws: "ws = name # ctrl_ch # data_ch # num # port_name # rest" by blast
    with 1(1) have IH: "sw_inv (qca_good out r) (qca_view r) r v \<Longrightarrow>
        sw_inv (qca_good out r) (qca_view r) r (snd (load_port_list E r rest v)) \<and>
        qca_view r (snd (load_port_list E r rest v)) = qca_view r v" for v
      by simp
    define pnum where "pnum = (of_int (strtol num) :: u32)"
    obtain res t where c: "genl_dev_sw_port_create E r (sw_snprintf (ctrl_ch @ ''.'' @ port_name)) pnum
        (port_domain (qca_mem w r) + pnum) (Some ctrl_ch) (Some data_ch) w = (res, t)" by fastforce
    have t: "sw_inv (qca_good out r) (qca_view r) r t" "qca_view r t = qca_view r w" if "\<not> of_nat QCA_SW_PORT_ID_MAX < pnum"
    proof -
      have dom: "domains_ok (qca_mem w r)" using 1(2) by (simp add: sw_inv_def qca_good_def)
      have "pnum \<le> 6" using that by (simp add: QCA_SW_PORT_ID_MAX_def)
      then have "unat pnum \<le> 6" by (simp add: word_le_nat_alt)
      then have n: "unat pnum < 32" "unat pnum < 2 ^ 16" by simp_all
      show "sw_inv (qca_good out r) (qca_view r) r t" "qca_view r t = qca_view r w"
        using bsw.port_create_outcome [OF 1(2) _ _ _ n(1) c [unfolded E_def]] port_obj_free [OF dom n(2)]
        by (simp_all add: qca_view_def)
    qed
    show ?thesis
      using IH 1(2) c t unfolding ws load_port_list.simps Let_def pnum_def [symmetric]
      by (auto split: option.split)
  qed
qed

lemma upd_sys_qca [simp]:
  "qca_mem (upd_sys r f w) = qca_mem w" "sw_mem (upd_sys r f w) = sw_mem w" "sp_mem (upd_sys r f w) = sp_mem w"
  "kernel (upd_sys r f w) = kernel w"
  by (simp_all add: upd_sys_def)

lemma inv_no_ports:
  assumes "qca_good out r w" and "ports_of w r = []" and "\<not> real_agg_dev (sw_mem w r)"
  shows "sw_inv (qca_good out r) (qca_view r) r w"
  using assms by (simp add: sw_inv_def sw_wf_def sw_shape_def sw_data_def sw_bits_def members_def)

lemma prefix_not_zero: "drop_bit 16 (x :: u32) AND 0xff = k \<Longrightarrow> k \<noteq> 0 \<Longrightarrow> x \<noteq> 0"
  by auto

text \<open>The ports are loaded into a switch without ports and aggregators.\<close>

lemma init_loads:
  assumes reg: "registered_switch r w" and quiet: "users_quiet out"
    and i: "genl_dev_sw_init (qca_calls K sysops out) r w = Returns (ok, t)"
  obtains v ws where "load_port_list (base_calls K sysops out) r ws v = (ok, t)"
    "sw_inv (qca_good out r) (qca_view r) r v" "kernel v = kernel w" "switch_obj (sw_mem v r) = switch_obj (sw_mem w r)"
    "qca_agg r v = (\<lambda>_. False)"
proof -
  define d where "d = ds_domain (sys_mem w r)"
  have d: "unat d < 2 ^ 8" using reg by (simp add: registered_switch_def d_def)
  let ?pd = "push_bit 24 d OR push_bit 16 0xf1" and ?ad = "push_bit 24 d OR push_bit 16 0xf2"
  have pp: "take_bit 16 ?pd = 0" "drop_bit 16 ?pd AND 0xff = 0xf1" and ap: "take_bit 16 ?ad = 0" "drop_bit 16 ?ad AND 0xff = 0xf2"
    by (rule domain_parts [OF d], simp)+
  have dom: "domains_ok q" if "port_domain q = ?pd" "agg_domain q = ?ad" for q
  proof -
    have "?pd \<noteq> 0" by (rule prefix_not_zero [OF pp(2)]) simp
    moreover have "?ad \<noteq> 0" by (rule prefix_not_zero [OF ap(2)]) simp
    moreover have "?pd \<noteq> ?ad"
    proof
      assume e: "?pd = ?ad"
      have "(0xf2 :: u32) = 0xf1" using pp(2) unfolding e ap(2) .
      then show False by simp
    qed
    ultimately show ?thesis using pp(1) ap(1) that by (simp add: domains_ok_def)
  qed
  define w0 where "w0 = (if \<not> support_link_event (sw_mem w r)
    then upd_sw r (\<lambda>S. S\<lparr>link_status_monitor := timer_set (link_status_poll_interval S) (link_status_monitor S)\<rparr>) w else w)"
  have w0: "ports_of w0 r = []" "\<not> real_agg_dev (sw_mem w0 r)" "sys_mem w0 = sys_mem w" "kernel w0 = kernel w"
    "switch_obj (sw_mem w0 r) = switch_obj (sw_mem w r)" "agg_id_bitmap (qca_mem w0 r) = 0"
    using reg by (simp_all add: w0_def registered_switch_def)
  have next_dom: "next_internal_domain (sys_mem w r) = 0xf0"
    using reg by (simp add: registered_switch_def QCA_SW_INTERNAL_DOMAIN_INIT_def)
  from i have q: "qca_switch_init K (base_calls K sysops out) r w0 = Returns (ok, t)"
    by (simp add: genl_dev_sw_init_def Let_def w0_def qca_calls_def split del: if_split)
  define w4 where "w4 = upd_qca r (\<lambda>q. q\<lparr>agg_domain := ?ad\<rparr>) (upd_sys r (\<lambda>S. S\<lparr>next_internal_domain := 0xf2\<rparr>)
      (upd_qca r (\<lambda>q. q\<lparr>port_domain := ?pd\<rparr>) (upd_sys r (\<lambda>S. S\<lparr>next_internal_domain := 0xf1\<rparr>) w0)))"
  have inv: "sw_inv (qca_good out r) (qca_view r) r (upd_qca r (\<lambda>q. q\<lparr>cpu_port := a, mirror_port := b, private_hdr_type := c\<rparr>) w4)"
    for a b c
  proof (rule inv_no_ports)
    have "domains_ok (qca_mem w4 r\<lparr>cpu_port := a, mirror_port := b, private_hdr_type := c\<rparr>)"
      by (rule dom) (simp_all add: w4_def)
    with quiet show "qca_good out r (upd_qca r (\<lambda>q. q\<lparr>cpu_port := a, mirror_port := b, private_hdr_type := c\<rparr>) w4)"
      by (simp add: qca_good_def)
  qed (simp_all add: w0 w4_def)
  have c1: "genl_dev_sw_alloc_netdev_obj_domain r (of_nat QCA_SW_PORT_NUM) w0 =
      (?pd, upd_sys r (\<lambda>S. S\<lparr>next_internal_domain := 0xf1\<rparr>) w0)"
    using w0 next_dom by (simp add: genl_dev_sw_alloc_netdev_obj_domain_def genl_dev_alloc_netdev_obj_domain_def
      QCA_SW_PORT_NUM_def QCA_SW_PORT_ID_MAX_def QCA_SW_PORT_ID_MIN_def d_def upd_sys_def Let_def)
  have c2: "genl_dev_sw_alloc_netdev_obj_domain r (of_nat QCA_SW_AGG_NUM)
        (upd_qca r (\<lambda>q. q\<lparr>port_domain := ?pd\<rparr>) (upd_sys r (\<lambda>S. S\<lparr>next_internal_domain := 0xf1\<rparr>) w0)) =
        (?ad, upd_sys r (\<lambda>S. S\<lparr>next_internal_domain := 0xf2\<rparr>)
          (upd_qca r (\<lambda>q. q\<lparr>port_domain := ?pd\<rparr>) (upd_sys r (\<lambda>S. S\<lparr>next_internal_domain := 0xf1\<rparr>) w0)))"
    using w0 next_dom by (simp add: genl_dev_sw_alloc_netdev_obj_domain_def genl_dev_alloc_netdev_obj_domain_def
      QCA_SW_AGG_NUM_def QCA_SW_AGG_ID_MAX_def QCA_SW_AGG_ID_MIN_def d_def upd_sys_def upd_qca_def Let_def)
  obtain x y z ws where l: "load_port_list (base_calls K sysops out) r ws
        (upd_qca r (\<lambda>q. q\<lparr>cpu_port := x, mirror_port := y, private_hdr_type := z\<rparr>) w4) = (ok, t)"
      using q unfolding qca_switch_init_def Let_def c1 c2 prod.case w4_def [symmetric]
      by (auto simp: bind_outcome_Returns_iff qca_switch_load_runtime_ports_def qca_switch_load_ports_def)
  show thesis
    by (rule that [OF l inv]) (use w0 in \<open>simp_all add: w4_def qca_agg_def qca_sw_agg_id_is_active_def fun_eq_iff\<close>)
qed

lemma runtime_init:
  assumes "registered_switch r w" and "users_quiet out" and "genl_dev_sw_init (qca_calls K sysops out) r w = Returns (ok, t)"
  shows "sw_inv (qca_good out r) (qca_view r) r t" "qca_agg r t = (\<lambda>_. False)"
proof -
  obtain v ws where l: "load_port_list (base_calls K sysops out) r ws v = (ok, t)"
    "sw_inv (qca_good out r) (qca_view r) r v" "qca_agg r v = (\<lambda>_. False)"
    using init_loads [OF assms] .
  from load_port_list_keeps [OF l(2), of K sysops ws] l(1,3)
  show "sw_inv (qca_good out r) (qca_view r) r t" "qca_agg r t = (\<lambda>_. False)"
    by (simp_all add: qca_view_def)
qed

subsection \<open>Every operation keeps the invariant\<close>

text \<open>What the driver does to a port of the switch, and what the layer does with it.\<close>

lemma ids_inv:
  assumes "sw_inv (qca_good out r) (qca_view r) r w" and "ids g r t = ids g r w"
  shows "sw_inv (qca_good out r) (qca_view r) r t"
  using qsw.inv_frame(1) [OF assms(1) ids_frame] assms by (simp add: sw_inv_def)

lemma ids_on_port_or_slaves:
  assumes inv: "sw_inv (qca_good out r) (qca_view r) r w"
    and f: "\<And>p v. sp_sw_sys (sp_mem v p) = r \<Longrightarrow> ids g r (snd (f p v)) = ids g r v"
  shows "ids g r (snd (on_port_or_slaves f (qca_calls K sysops out) r obj w)) = ids g r w"
proof (cases "genl_dev_sw_port_lookup (qca_calls K sysops out) r obj w")
  case (Some p)
  with qsw.lookup_iff [OF inv] have p: "p \<in> members w r" by simp
  note sys = wf_D(10) [OF qsw.inv_D(2) [OF inv]]
  have slave: "sp_sw_sys (sp_mem w s) = r" if "s \<in> set (slaves_of w p)" for s
  proof -
    have "p \<in> set (ports_of w r)"
      using qsw.inv_D(2) [OF inv] p
    proof (cases rule: member_cases)
      case (2 m)
      with wf_D(7) [OF qsw.inv_D(2) [OF inv] 2(2,3)] that show ?thesis by simp
    qed
    from sys [OF member_slave [OF this that]] show ?thesis .
  qed
  have "ids g r (snd (all_slaves f (slaves_of w p) True w)) = ids g r w"
    by (rule ids_all_slaves [where P = "\<lambda>v. sp_mem v = sp_mem w"]) (use f slave in \<open>auto simp: ids_def\<close>)
  with Some f [OF sys [OF p]] show ?thesis by (simp add: on_port_or_slaves_def)
qed (simp add: on_port_or_slaves_def)

lemma ids_on_plain_port:
  assumes inv: "sw_inv (qca_good out r) (qca_view r) r w"
    and f: "\<And>p v. sp_sw_sys (sp_mem v p) = r \<Longrightarrow> ids g r (snd (f p v)) = ids g r v"
  shows "ids g r (snd (on_plain_port f (qca_calls K sysops out) r obj w)) = ids g r w"
proof (cases "genl_dev_sw_port_lookup (qca_calls K sysops out) r obj w")
  case (Some p)
  with qsw.lookup_iff [OF inv] have p: "p \<in> members w r" by simp
  from Some f [OF wf_D(10) [OF qsw.inv_D(2) [OF inv] p]] show ?thesis by (simp add: on_plain_port_def)
qed (simp add: on_plain_port_def)

lemma hw_qca_calls [simp]:
  "hw_agg_enable (hw (qca_calls K sysops out)) = qca_switch_port_enable_lacp K"
  "hw_agg_disable (hw (qca_calls K sysops out)) = qca_switch_port_disable_lacp K"
  "hw_stp_enable (hw (qca_calls K sysops out)) = qca_switch_port_stp_enable K"
  "hw_stp_disable (hw (qca_calls K sysops out)) = qca_switch_port_stp_disable K"
  "hw_flush_fdb (hw (qca_calls K sysops out)) = qca_switch_port_flush_fdb K"
  "hw_set_port_state (hw (qca_calls K sysops out)) = qca_switch_port_set_stp_state K"
  "hw_set_tx_hash_policy (hw (qca_calls K sysops out)) = qca_switch_port_set_tx_hash_policy K"
  "hw_is_aggregator (hw (qca_calls K sysops out)) = qca_switch_port_is_aggregator"
  "hw_new_aggregator (hw (qca_calls K sysops out)) = qca_switch_new_aggregator"
  "hw_destroy_aggregator (hw (qca_calls K sysops out)) = qca_switch_destroy_aggregator K"
  "hw_attach_slave (hw (qca_calls K sysops out)) = qca_switch_port_attach_slave K"
  "hw_detach_slave (hw (qca_calls K sysops out)) = qca_switch_port_detach_slave K"
  "user_api (qca_calls K sysops out) = out" "sw_calloc (qca_calls K sysops out) = kcall (k_alloc K)"
  by (simp_all add: qca_calls_def base_calls_def base_ops_def)

lemmas port_ops = genl_dev_sw_port_lacp_enable_def genl_dev_sw_port_lacp_disable_def genl_dev_sw_port_stp_enable_def
  genl_dev_sw_port_stp_disable_def genl_dev_sw_port_flush_fdb_def genl_dev_sw_port_set_stp_state_def

lemmas driver_ops = qca_switch_port_stp_enable_def qca_switch_port_stp_disable_def qca_switch_port_enable_lacp_def
  qca_switch_port_disable_lacp_def qca_switch_port_flush_fdb_def qca_switch_port_set_stp_state_def

text \<open>The operations that do not change the members.\<close>

fun member_op :: "sw_op \<Rightarrow> bool" where
  "member_op (New_Aggregator name) = True"
| "member_op (Destroy_Aggregator obj) = True"
| "member_op (Attach_Slave m s) = True"
| "member_op (Detach_Slave m s) = True"
| "member_op _ = False"

lemma ids_other_op:
  assumes inv: "sw_inv (qca_good out r) (qca_view r) r w" and quiet: "quiet_kernel K g" and "\<not> member_op cmd"
  shows "ids g r (sw_exec (qca_calls K sysops out) r cmd w) = ids g r w"
proof -
  note on_port = ids_on_port_or_slaves [OF inv] and on_plain = ids_on_plain_port [OF inv]
  show ?thesis
  proof (cases cmd)
    case (Set_Tx_Hash obj pol)
    with quiet show ?thesis
      by (simp add: genl_dev_sw_port_set_tx_hash_policy_def qca_switch_port_set_tx_hash_policy_def split: option.split)
  qed (use assms in \<open>auto simp: port_ops driver_ops intro!: on_port on_plain\<close>)
qed

lemma sw_exec_inv:
  assumes inv: "sw_inv (qca_good out r) (qca_view r) r w" and legal: "sw_legal r cmd w"
  shows "sw_inv (qca_good out r) (qca_view r) r (sw_exec (qca_calls K sysops out) r cmd w)"
proof (cases "member_op cmd")
  case False
  from ids_inv [OF inv ids_other_op [OF inv quiet_kernel_unit this]] show ?thesis .
next
  case True
  let ?E = "qca_calls K sysops out"
  show ?thesis
  proof (cases cmd)
    case (New_Aggregator name)
    obtain obj t where "genl_dev_sw_new_aggregator ?E r name w = (obj, t)" by fastforce
    with qsw.new_aggregator_outcome [OF inv this] New_Aggregator show ?thesis by simp
  next
    case (Destroy_Aggregator obj)
    obtain ok t where "genl_dev_sw_destroy_aggregator ?E r obj w = (ok, t)" by fastforce
    with qsw.destroy_outcome [OF inv this] Destroy_Aggregator show ?thesis by simp
  next
    case (Attach_Slave m s)
    obtain ok t where "genl_dev_sw_port_attach_slave ?E r m s w = (ok, t)" by fastforce
    with qsw.attach_outcome [OF inv _ this] Attach_Slave legal show ?thesis
      by (auto simp: sw_legal_def qca_view_def)
  next
    case (Detach_Slave m s)
    obtain ok t where "genl_dev_sw_port_detach_slave ?E r m s w = (ok, t)" by fastforce
    with qsw.detach_inv(1) [OF inv this] Detach_Slave show ?thesis by simp
  qed (use True in simp_all)
qed

lemma switch_run_inv:
  assumes "switch_run K sysops out r w0 w" and "users_quiet out"
  shows "sw_inv (qca_good out r) (qca_view r) r w"
  using assms
  by (induction rule: switch_run.induct) (simp_all add: runtime_init sw_exec_inv)

end
