(* ===== verification/Qca_Trunk.thy ===== *)
theory Qca_Trunk
  imports Qca_Runs
begin

text \<open>
  The trunk groups of the hardware: in every state of a run the group of an aggregator is the set
  of its slaves, and the groups of the other identifiers are empty.
\<close>

subsection \<open>The hardware\<close>

text \<open>
  \<open>tr k (sw, id)\<close> is the bitmap of the ports of trunk group \<open>id\<close> of switch \<open>sw\<close>: the call that sets
  a group replaces it when it succeeds and keeps it when it fails, and no other call changes one.
\<close>

definition trunk_law :: "'k qca_kernel \<Rightarrow> ('k \<Rightarrow> u32 \<times> u32 \<Rightarrow> u32) \<Rightarrow> bool" where
  "trunk_law K tr \<longleftrightarrow> quiet_kernel K tr \<and>
     (\<forall>k sw i en bm. tr (snd (k_ioctl K SW_API_TRUNK_GROUP_SET [Val sw, Val i, Val en, Val bm] k)) =
        (if fst (k_ioctl K SW_API_TRUNK_GROUP_SET [Val sw, Val i, Val en, Val bm] k)
         then (tr k)((sw, i) := if en = 0 then 0 else bm) else tr k))"

definition users_silent ::
    "('k \<Rightarrow> 'g) \<Rightarrow> (user_ref \<Rightarrow> ('k, 'z) qca_state_scheme general_device_out_api) \<Rightarrow> bool" where
  "users_silent tr out \<longleftrightarrow> users_quiet out \<and>
     (\<forall>u f obj w. out_netdev_obj_added (out u) = Some f \<or> out_netdev_obj_deleted (out u) = Some f \<longrightarrow>
        tr (kernel (f obj w)) = tr (kernel w))"

definition group_of :: "('k \<Rightarrow> u32 \<times> u32 \<Rightarrow> u32) \<Rightarrow> sys_ref \<Rightarrow> ('k, 'z) qca_state_scheme \<Rightarrow> u32 \<Rightarrow> u32" where
  "group_of tr r w i = tr (kernel w) (switch_obj (sw_mem w r), i)"

definition trunks_ok :: "('k \<Rightarrow> u32 \<times> u32 \<Rightarrow> u32) \<Rightarrow> sys_ref \<Rightarrow> ('k, 'z) qca_state_scheme \<Rightarrow> bool" where
  "trunks_ok tr r w \<longleftrightarrow>
     (\<forall>p \<in> members w r. qca_agg r w (obj_of w p) \<longrightarrow>
        group_of tr r w (obj_of w p - agg_domain (qca_mem w r)) = port_num (sp_mem w p)) \<and>
     (\<forall>i. unat i \<le> 3 \<longrightarrow> \<not> qca_agg r w (agg_domain (qca_mem w r) + i) \<longrightarrow> group_of tr r w i = 0)"

subsection \<open>What the layer leaves unchanged\<close>

definition hw_state where
  "hw_state tr r w = (switch_obj (sw_mem w r), agg_domain (qca_mem w r), tr (kernel w))"

lemma hw_state_upd [simp]:
  "hw_state tr r (upd_sp p f w) = hw_state tr r w" "hw_state tr r (unlink_port r p w) = hw_state tr r w"
  "hw_state tr r (w\<lparr>sp_next := n\<rparr>) = hw_state tr r w"
  "hw_state tr r (upd_sw r (\<lambda>S. S\<lparr>switch_ports := h S\<rparr>) w) = hw_state tr r w"
  by (simp_all add: hw_state_def unlink_port_def upd_sw_def upd_sp_def)

lemma hw_state_port_del [simp]: "hw_state tr r (snd (genl_dev_sw_port_del E r p w)) = hw_state tr r w"
  by (simp add: genl_dev_sw_port_del_def Let_def split: option.split)

lemma hw_state_port_add [simp]: "hw_state tr r (snd (genl_dev_sw_port_add E r p m w)) = hw_state tr r w"
  by (simp add: genl_dev_sw_port_add_def Let_def split_beta split: option.split)

lemma hw_state_user:
  assumes "users_silent tr out" and "out_netdev_obj_added (out u) = Some f \<or> out_netdev_obj_deleted (out u) = Some f"
  shows "hw_state tr r (f obj w) = hw_state tr r w"
  using assms by (auto simp: users_silent_def users_quiet_def hw_state_def layer_same_def)

lemma hw_state_fold:
  "(\<And>u v. h (g u v) = h v) \<Longrightarrow> h (fold g us w) = h w"
  by (induction us arbitrary: w) simp_all

lemma hw_state_notify:
  assumes "users_silent tr out"
  shows "hw_state tr r (genl_dev_notify_netdev_obj_added out q obj w) = hw_state tr r w"
    "hw_state tr r (genl_dev_notify_netdev_obj_deleted out q obj w) = hw_state tr r w"
proof -
  have "hw_state tr r (case out_netdev_obj_added (out u) of None \<Rightarrow> v | Some f \<Rightarrow> f obj v) = hw_state tr r v"
    "hw_state tr r (case out_netdev_obj_deleted (out u) of None \<Rightarrow> v | Some f \<Rightarrow> f obj v) = hw_state tr r v" for u v
    using hw_state_user [OF assms, of u] by (simp_all split: option.split)
  then show "hw_state tr r (genl_dev_notify_netdev_obj_added out q obj w) = hw_state tr r w"
    "hw_state tr r (genl_dev_notify_netdev_obj_deleted out q obj w) = hw_state tr r w"
    unfolding genl_dev_notify_netdev_obj_added_def genl_dev_notify_netdev_obj_deleted_def
    by (simp_all add: hw_state_fold [where h = "hw_state tr r"])
qed

lemma hw_state_ids: "ids tr r t = ids tr r w \<Longrightarrow> hw_state tr r t = hw_state tr r w"
  by (simp add: ids_def hw_state_def)

subsection \<open>Setting a trunk group\<close>

lemma set_group:
  assumes law: "trunk_law K tr"
    and c: "qca_switch_ioctl K SW_API_TRUNK_GROUP_SET [sw_obj w r, Val i, Val en, Val bm] w = (ok, t)"
  shows "hw_state tr r t =
    (if ok then (switch_obj (sw_mem w r), agg_domain (qca_mem w r),
       (tr (kernel w))((switch_obj (sw_mem w r), i) := if en = 0 then 0 else bm))
     else hw_state tr r w)"
proof -
  have opened: "ids tr r (open_driver K w) = ids tr r w" using law by (simp add: trunk_law_def)
  show ?thesis
  proof (cases "qca_switch_driver_fd (open_driver K w) < 0")
    case True
    with c have "\<not> ok \<and> t = open_driver K w" by (auto simp: qca_switch_ioctl_def Let_def)
    with hw_state_ids [OF opened] show ?thesis by simp
  next
    case False
    let ?v = "open_driver K w" and ?so = "switch_obj (sw_mem w r)"
    let ?k = "k_ioctl K SW_API_TRUNK_GROUP_SET [Val ?so, Val i, Val en, Val bm] (kernel ?v)"
    from False c have t: "ok = fst ?k" "t = ?v\<lparr>kernel := snd ?k\<rparr>"
      by (simp_all add: qca_switch_ioctl_def Let_def kcall_def split_beta)
    have v: "sw_mem ?v = sw_mem w" "agg_domain (qca_mem ?v r) = agg_domain (qca_mem w r)" "tr (kernel ?v) = tr (kernel w)"
      using opened by (simp_all add: ids_def)
    have "tr (snd ?k) = (if fst ?k then (tr (kernel ?v))((?so, i) := if en = 0 then 0 else bm) else tr (kernel ?v))"
      using law by (simp add: trunk_law_def)
    then show ?thesis unfolding t hw_state_def v by (simp add: v)
  qed
qed

lemma attach_group:
  assumes law: "trunk_law K tr" and c: "qca_switch_port_attach_slave K m s w = (ok, t)" and sys: "sp_sw_sys (sp_mem w m) = r"
  shows "hw_state tr r t =
    (if ok then (switch_obj (sw_mem w r), agg_domain (qca_mem w r),
       (tr (kernel w))((switch_obj (sw_mem w r), obj_of w m - agg_domain (qca_mem w r)) :=
          port_num (sp_mem w m) OR push_bit (num_of w s) 1))
     else hw_state tr r w)"
  using c sys set_group [OF law, of w r _ 1 _ ok t]
  by (auto simp: qca_switch_port_attach_slave_def Let_def split: if_splits)

lemma detach_group:
  assumes law: "trunk_law K tr" and c: "qca_switch_port_detach_slave K m s w = (ok, t)" and sys: "sp_sw_sys (sp_mem w m) = r"
  shows "hw_state tr r t =
    (if ok then (switch_obj (sw_mem w r), agg_domain (qca_mem w r),
       (tr (kernel w))((switch_obj (sw_mem w r), obj_of w m - agg_domain (qca_mem w r)) :=
          port_num (sp_mem w m) AND NOT (push_bit (num_of w s) 1)))
     else hw_state tr r w)"
  using c sys set_group [OF law, of w r _ 1 _ ok t]
  by (auto simp: qca_switch_port_detach_slave_def Let_def split: if_splits)

subsection \<open>Keeping trunks and slaves together\<close>

lemma trunks_cong:
  assumes "trunks_ok tr r w" and "hw_state tr r t = hw_state tr r w" and "qca_view r t = qca_view r w" and "members t r = members w r"
    and "\<And>p. p \<in> members w r \<Longrightarrow> obj_of t p = obj_of w p"
    and "\<And>p. p \<in> members w r \<Longrightarrow> qca_agg r w (obj_of w p) \<Longrightarrow> port_num (sp_mem t p) = port_num (sp_mem w p)"
  shows "trunks_ok tr r t"
proof -
  have "qca_agg r t = qca_agg r w" using assms(3) by (simp add: qca_view_def)
  with assms show ?thesis by (simp add: trunks_ok_def hw_state_def group_of_def)
qed

lemma trunks_change:
  assumes ok: "trunks_ok tr r w" and inv: "sw_inv (qca_good out r) (qca_view r) r w"
    and m: "m \<in> members w r" "qca_agg r w (obj_of w m)"
    and t: "hw_state tr r t = (switch_obj (sw_mem w r), agg_domain (qca_mem w r),
        (tr (kernel w))((switch_obj (sw_mem w r), obj_of w m - agg_domain (qca_mem w r)) := port_num (sp_mem t m)))"
      "qca_view r t = qca_view r w" "members t r = members w r" "\<And>p. p \<in> members w r \<Longrightarrow> obj_of t p = obj_of w p"
      "\<And>p. p \<in> members w r \<Longrightarrow> p \<noteq> m \<Longrightarrow> port_num (sp_mem t p) = port_num (sp_mem w p)"
  shows "trunks_ok tr r t"
proof -
  have ag: "qca_agg r t = qca_agg r w" using t(2) by (simp add: qca_view_def)
  have inj: "obj_of w p \<noteq> obj_of w m" if "p \<in> members w r" "p \<noteq> m" for p
    using qsw.lookup_iff [OF inv] that m(1) by (metis option.inject)
  have grp: "group_of tr r t i = (if i = obj_of w m - agg_domain (qca_mem w r) then port_num (sp_mem t m) else group_of tr r w i)" for i
    using t(1) by (simp add: group_of_def hw_state_def)
  have ad: "agg_domain (qca_mem t r) = agg_domain (qca_mem w r)" using t(1) by (simp add: hw_state_def)
  have "group_of tr r t (obj_of t p - agg_domain (qca_mem w r)) = port_num (sp_mem t p)"
    if "p \<in> members w r" "qca_agg r w (obj_of w p)" for p
    using that ok t(4,5) inj by (cases "p = m") (auto simp: grp trunks_ok_def)
  moreover have "group_of tr r t i = 0" if "unat i \<le> 3" "\<not> qca_agg r w (agg_domain (qca_mem w r) + i)" for i
    using that ok m(2) by (auto simp: grp trunks_ok_def)
  ultimately show ?thesis using t(3,4) by (simp add: trunks_ok_def ag ad)
qed

lemma detach_hw_state:
  assumes law: "trunk_law K tr" and silent: "users_silent tr out" and sys: "sp_sw_sys (sp_mem w m) = r"
    and look: "genl_dev_sw_port_lookup (qca_calls K sysops out) r mo w = Some m"
      "genl_dev_sw_port_lookup (qca_calls K sysops out) r so w = Some s"
    and d: "genl_dev_sw_port_detach_slave (qca_calls K sysops out) r mo so w = (res, t)"
  shows "hw_state tr r t = (if res then (switch_obj (sw_mem w r), agg_domain (qca_mem w r),
       (tr (kernel w))((switch_obj (sw_mem w r), obj_of w m - agg_domain (qca_mem w r)) :=
          port_num (sp_mem w m) AND NOT (push_bit (num_of w s) 1)))
     else hw_state tr r w)"
proof -
  obtain b w1 where h: "qca_switch_port_detach_slave K m s w = (b, w1)" by fastforce
  from d look h have "res \<longrightarrow> b" and t: "hw_state tr r t = hw_state tr r (if b \<and> res then w1 else if \<not> res \<and> t = w then w else w1)"
    by (auto simp: genl_dev_sw_port_detach_slave_def Let_def hw_state_notify [OF silent] split: if_splits)
  with detach_group [OF law h sys] d look h show ?thesis
    by (auto simp: genl_dev_sw_port_detach_slave_def Let_def split: if_splits)
qed

lemma trunks_detach:
  assumes law: "trunk_law K tr" and silent: "users_silent tr out"
    and inv: "sw_inv (qca_good out r) (qca_view r) r w" and ok: "trunks_ok tr r w"
    and d: "genl_dev_sw_port_detach_slave (qca_calls K sysops out) r mo so w = (res, t)"
  shows "trunks_ok tr r t"
proof -
  let ?E = "qca_calls K sysops out"
  note out = qsw.detach_outcome [OF inv d] and keep = qsw.detach_inv [OF inv d]
  obtain m s where look: "res \<Longrightarrow> genl_dev_sw_port_lookup ?E r mo w = Some m \<and> genl_dev_sw_port_lookup ?E r so w = Some s \<and>
      m \<in> set (ports_of w r) \<and> s \<in> set (slaves_of w m) \<and> moved_out r m s w t"
    using out qsw.lookup_iff [OF inv] member_port member_slave by (metis (no_types))
  have hw: "hw_state tr r t = (if res then (switch_obj (sw_mem w r), agg_domain (qca_mem w r),
       (tr (kernel w))((switch_obj (sw_mem w r), obj_of w m - agg_domain (qca_mem w r)) :=
          port_num (sp_mem w m) AND NOT (push_bit (num_of w s) 1)))
     else hw_state tr r w)"
  proof (cases res)
    case True
    with look have l: "genl_dev_sw_port_lookup ?E r mo w = Some m" "genl_dev_sw_port_lookup ?E r so w = Some s" by simp_all
    then have "sp_sw_sys (sp_mem w m) = r" using qsw.lookup_iff [OF inv] wf_D(10) [OF qsw.inv_D(2) [OF inv]] by simp
    from detach_hw_state [OF law silent this l d] show ?thesis .
  next
    case False
    show ?thesis
    proof (cases "genl_dev_sw_port_lookup ?E r mo w")
      case None
      with d have "t = w" by (simp add: genl_dev_sw_port_detach_slave_def)
      with False show ?thesis by simp
    next
      case m': (Some m')
      show ?thesis
      proof (cases "genl_dev_sw_port_lookup ?E r so w")
        case None
        with d m' have "t = w" by (simp add: genl_dev_sw_port_detach_slave_def)
        with False show ?thesis by simp
      next
        case (Some s')
        have "sp_sw_sys (sp_mem w m') = r" using m' qsw.lookup_iff [OF inv] wf_D(10) [OF qsw.inv_D(2) [OF inv]] by simp
        from detach_hw_state [OF law silent this m' Some d] False show ?thesis by simp
      qed
    qed
  qed
  show ?thesis
  proof (cases res)
    case False
    with out have "layer_same w t" by simp
    with hw False keep show ?thesis by (intro trunks_cong [OF ok]) (simp_all add: layer_same_def)
  next
    case True
    with look have ms: "m \<in> set (ports_of w r)" "s \<in> set (slaves_of w m)" and mv: "moved_out r m s w t" by simp_all
    note wf = qsw.inv_D(2) [OF inv]
    have am: "qca_agg r w (obj_of w m)"
      using wf_D(5) [OF wf ms(1)] ms(2) by (cases "slaves_of w m") (simp_all add: qca_view_def)
    have "port_num (sp_mem t m) = port_num (sp_mem w m) AND NOT (push_bit (num_of w s) 1)"
    proof (rule bit_word_eqI)
      fix b
      have bits: "bit (port_num (sp_mem w m)) b \<longleftrightarrow> (\<exists>x \<in> set (slaves_of w m). num_of w x = b)"
        using wf ms(1) am by (simp add: sw_wf_def sw_bits_def qca_view_def)
      have "set (slaves_of t m) = set (slaves_of w m) - {s}"
        using mv wf_D(4) [OF wf ms(1)] by (simp add: moved_out_def list_del_def set_remove1_eq)
      then have "slaves_of t m = [] \<Longrightarrow> set (slaves_of w m) = {s}" using ms(2) by auto
      with mv bits show "bit (port_num (sp_mem t m)) b = bit (port_num (sp_mem w m) AND NOT (push_bit (num_of w s) 1)) b"
        by (auto simp: moved_out_def bit_cleared)
    qed
    with hw True mv keep(2,3,5) show ?thesis
      by (intro trunks_change [OF ok inv member_port [OF ms(1)] am]) (simp_all add: moved_out_def)
  qed
qed

lemma port_add_True [simp]: "fst (genl_dev_sw_port_add E r p m w)"
  by (simp add: genl_dev_sw_port_add_def genl_dev_sw_port_del_def Let_def split: option.split)

text \<open>The last part of attaching, from a state where the slave is a port of the switch.\<close>

lemma trunks_attach_port:
  fixes K sysops out
  defines "E \<equiv> qca_calls K sysops out"
  assumes law: "trunk_law K tr" and silent: "users_silent tr out"
    and inv: "sw_inv (qca_good out r) (qca_view r) r v" and ok: "trunks_ok tr r v"
    and m: "m \<in> set (ports_of v r)" "qca_agg r v (obj_of v m)"
    and s: "s \<in> set (ports_of v r)" "\<not> qca_agg r v (obj_of v s)"
    and t: "(let (ok, w2) = hw_attach_slave (hw E) m s v in
          if \<not> ok then (False, w2)
          else
            let w3 = (if \<not> real_agg_dev (sw_mem w2 r) \<and> slaves_of w2 m = [] then upd_sp m (take_over (sp_mem w2 s)) w2 else w2);
                (ret, w4) = genl_dev_sw_port_add E r s (Some m) w3
            in (ret, if ret \<and> quiet
                     then genl_dev_notify_netdev_obj_deleted (user_api E) r (switch_port_obj (sp_mem w4 s)) w4
                     else w4)) = (res, t)"
  shows "trunks_ok tr r t"
proof -
  have mv: "v_agg (qca_view r v) (obj_of v m)" "\<not> v_agg (qca_view r v) (obj_of v s)" using m(2) s(2) by (simp_all add: qca_view_def)
  from qsw.attach_from_port [OF inv m(1) mv(1) s(1) mv(2) t [unfolded E_def]]
  have out: "qca_good out r t" "qca_view r t = qca_view r v" "if res then moved_in r m s v t else layer_same v t" by simp_all
  note wf = qsw.inv_D(2) [OF inv]
  have sys: "sp_sw_sys (sp_mem v m) = r" using wf_D(10) [OF wf member_port [OF m(1)]] .
  obtain b w2 where h: "qca_switch_port_attach_slave K m s v = (b, w2)" by fastforce
  have "hw_state tr r t = hw_state tr r w2" "res = b"
    using t h by (auto simp: E_def Let_def split_beta hw_state_notify [OF silent] split: if_splits)
  with attach_group [OF law h sys]
  have hw: "hw_state tr r t = (if res then (switch_obj (sw_mem v r), agg_domain (qca_mem v r),
       (tr (kernel v))((switch_obj (sw_mem v r), obj_of v m - agg_domain (qca_mem v r)) :=
          port_num (sp_mem v m) OR push_bit (num_of v s) 1))
     else hw_state tr r v)" by simp
  show ?thesis
  proof (cases res)
    case False
    with out hw show ?thesis by (intro trunks_cong [OF ok]) (simp_all add: layer_same_def members_def)
  next
    case True
    with out(3) have mi: "moved_in r m s v t" by simp
    from qsw.inv_moved_in(2) [OF inv out(1,2) m(1) mv(1) s(1) mv(2) mi] have mem: "members t r = members v r" .
    have lt: "num_of v s < 32" using wf s member_port [OF s(1)] by (simp add: sw_wf_def sw_data_def qca_view_def)
    have "port_num (sp_mem t m) = port_num (sp_mem v m) OR push_bit (num_of v s) 1"
      by (rule bit_word_eqI) (use mi bit_added [OF lt] in \<open>simp add: moved_in_def\<close>)
    with hw True mi mem out(2) show ?thesis
      by (intro trunks_change [OF ok inv member_port [OF m(1)] m(2)]) (simp_all add: moved_in_def)
  qed
qed

lemma trunks_attach:
  fixes K sysops out
  defines "E \<equiv> qca_calls K sysops out"
  assumes law: "trunk_law K tr" and silent: "users_silent tr out"
    and inv: "sw_inv (qca_good out r) (qca_view r) r w" and ok: "trunks_ok tr r w"
    and plain: "\<not> qca_agg r w so"
    and a: "genl_dev_sw_port_attach_slave E r mo so w = (res, t)"
  shows "trunks_ok tr r t"
proof (cases "\<exists>m s. genl_dev_sw_port_lookup E r mo w = Some m \<and> genl_dev_sw_port_lookup E r so w = Some s \<and>
    switch_port_is_aggregator E w m")
  case False
  with a have "t = w" by (auto simp: genl_dev_sw_port_attach_slave_def split: option.splits if_splits)
  with ok show ?thesis by simp
next
  case True
  then obtain m s where look: "genl_dev_sw_port_lookup E r mo w = Some m" "genl_dev_sw_port_lookup E r so w = Some s"
    and agg: "switch_port_is_aggregator E w m" by blast
  note wf = qsw.inv_D(2) [OF inv]
  from look qsw.lookup_iff [OF inv] have mem: "m \<in> members w r" "s \<in> members w r" and obj: "obj_of w m = mo" "obj_of w s = so"
    by (simp_all add: E_def)
  have am: "qca_agg r w (obj_of w m)" using agg qsw.member_is_agg [OF inv mem(1)] by (simp add: E_def qca_view_def)
  have mp: "m \<in> set (ports_of w r)"
    using wf mem(1)
  proof (cases rule: member_cases)
    case (2 x)
    from wf_D(8) [OF wf 2(2,3)] am show ?thesis by (simp add: qca_view_def)
  qed
  from wf mem(2) show ?thesis
  proof (cases rule: member_cases)
    case 1
    show ?thesis
      by (rule trunks_attach_port [OF law silent inv ok mp am 1(2), where quiet = "\<not> False" and sysops = sysops and res = res])
        (use a look agg 1 plain obj in \<open>simp_all add: genl_dev_sw_port_attach_slave_def Let_def E_def\<close>)
  next
    case (2 old)
    show ?thesis
    proof (cases "old = m")
      case True
      with a look agg 2 ok show ?thesis by (simp add: genl_dev_sw_port_attach_slave_def)
    next
      case False
      obtain freed v where d: "genl_dev_sw_port_detach_slave E r (obj_of w old) (obj_of w s) w = (freed, v)" by fastforce
      note d' = d [unfolded E_def]
      have ok_v: "trunks_ok tr r v" by (rule trunks_detach [OF law silent inv ok d'])
      show ?thesis
      proof (cases freed)
        case False
        with a look agg 2 \<open>old \<noteq> m\<close> d ok_v show ?thesis by (simp add: genl_dev_sw_port_attach_slave_def)
      next
        case True
        note dv = qsw.detach_inv [OF inv d']
        have view: "qca_agg r v = qca_agg r w" using dv(3) by (simp add: qca_view_def)
        have sp: "s \<in> set (ports_of v r)"
        proof -
          from qsw.detach_outcome [OF inv d'] True obtain m' s' where
            "s' \<in> members w r" "obj_of w s' = obj_of w s" "moved_out r m' s' w v" by (auto dest: member_slave)
          moreover from this have "s' = s"
            using qsw.lookup_iff [OF inv] mem(2) by (metis option.inject)
          ultimately show ?thesis by (simp add: moved_out_def)
        qed
        show ?thesis
          by (rule trunks_attach_port [OF law silent dv(1) ok_v dv(4) [OF mp] _ sp, where quiet = "\<not> True" and sysops = sysops and res = res])
            (use a look agg 2 \<open>old \<noteq> m\<close> d True plain obj dv(5) am in
              \<open>simp_all add: genl_dev_sw_port_attach_slave_def Let_def E_def view\<close>)
      qed
    qed
  qed
qed

subsection \<open>New and destroyed aggregators\<close>

lemma hw_state_new:
  assumes law: "trunk_law K tr" and silent: "users_silent tr out"
    and n: "genl_dev_sw_new_aggregator (qca_calls K sysops out) r name w = (obj, t)"
  shows "hw_state tr r t = hw_state tr r w"
proof -
  have c: "hw_state tr r (snd (kcall (k_alloc K) v)) = hw_state tr r v" for v :: "('a, 'b) qca_state_scheme"
    by (rule hw_state_ids, rule ids_kcall) (use law in \<open>simp add: trunk_law_def quiet_kernel_def\<close>)
  have a: "hw_state tr r (snd (qca_switch_new_aggregator p v)) = hw_state tr r v" for p and v :: "('a, 'b) qca_state_scheme"
    by (auto simp: qca_switch_new_aggregator_def qca_switch_allocate_agg_id_def Let_def hw_state_def split: option.split)
  have "hw_state tr r (snd (genl_dev_sw_new_aggregator (qca_calls K sysops out) r name w)) = hw_state tr r w"
    by (simp add: genl_dev_sw_new_aggregator_def Let_def split_beta a c hw_state_notify [OF silent])
  with n show ?thesis by simp
qed

lemma trunks_new:
  assumes law: "trunk_law K tr" and silent: "users_silent tr out"
    and inv: "sw_inv (qca_good out r) (qca_view r) r w" and ok: "trunks_ok tr r w"
    and n: "genl_dev_sw_new_aggregator (qca_calls K sysops out) r name w = (obj, t)"
  shows "trunks_ok tr r t"
proof -
  note hw = hw_state_new [OF law silent n]
  from qsw.new_aggregator_outcome [OF inv n]
  have it: "sw_inv (qca_good out r) (qca_view r) r t" and same: "\<forall>q \<in> members w r. sp_mem t q = sp_mem w q"
    and o: "if obj = 0 then members t r = members w r \<and> qca_view r t = qca_view r w
     else \<exists>p. p \<notin> members w r \<and> members t r = insert p (members w r) \<and> p \<in> set (ports_of t r) \<and> obj_of t p = obj \<and>
       slaves_of t p = [] \<and> \<not> v_agg (qca_view r w) obj \<and>
       qca_view r t = (qca_view r w)\<lparr>v_agg := (v_agg (qca_view r w))(obj := True)\<rparr>"
    by simp_all
  show ?thesis
  proof (cases "obj = 0")
    case True
    with o same hw show ?thesis by (intro trunks_cong [OF ok]) simp_all
  next
    case False
    with o obtain p where p: "p \<notin> members w r" "members t r = insert p (members w r)" "p \<in> set (ports_of t r)" "obj_of t p = obj"
        "slaves_of t p = []" "\<not> v_agg (qca_view r w) obj"
      and view: "qca_view r t = (qca_view r w)\<lparr>v_agg := (v_agg (qca_view r w))(obj := True)\<rparr>" by auto
    have free: "\<not> qca_agg r w obj" using p(6) by (simp add: qca_view_def)
    have ag: "qca_agg r t = (qca_agg r w)(obj := True)" using view by (simp add: qca_view_def)
    have grp: "group_of tr r t = group_of tr r w" and ad: "agg_domain (qca_mem t r) = agg_domain (qca_mem w r)"
      using hw by (simp_all add: hw_state_def group_of_def fun_eq_iff)
    have "v_agg (qca_view r t) obj" by (simp add: view)
    then have "unat (obj - agg_domain (qca_mem w r)) \<le> 3"
      using qsw.agg_in_dom [OF qsw.inv_D(1) [OF it]] by (simp add: qca_view_def valid_id ad)
    with ok free have gp: "group_of tr r w (obj - agg_domain (qca_mem w r)) = 0" by (simp add: trunks_ok_def)
    have np: "port_num (sp_mem t p) = 0"
      using qsw.no_slaves_no_bits [OF it p(3) _ p(5)] by (simp add: qca_view_def ag p(4))
    have "obj_of w q \<noteq> obj" if "q \<in> members w r" for q
      using qsw.lookup_iff [OF it] p same that by (metis insert_iff option.inject)
    with ok same gp np p(4) show ?thesis
      unfolding trunks_ok_def p(2) ag grp ad by auto
  qed
qed

lemma trunks_without:
  assumes law: "trunk_law K tr" and silent: "users_silent tr out"
    and inv: "sw_inv (qca_good out r) (qca_view r) r w" and ok: "trunks_ok tr r w" and p: "p \<in> set (ports_of w r)"
    and t: "t = without_slaves (qca_calls K sysops out) r p obj w"
  shows "trunks_ok tr r t" "sw_inv (qca_good out r) (qca_view r) r t" "members t r = members w r" "qca_view r t = qca_view r w"
    "\<And>q. obj_of t q = obj_of w q"
proof -
  let ?E = "qca_calls K sysops out"
  define w1 where "w1 = genl_dev_notify_netdev_obj_deleted (user_api ?E) r obj w"
  have f: "hw_frame (qca_good out r) (qca_view r) w w1"
    unfolding w1_def by (rule qsw.notify_deleted [OF qsw.inv_D(1) [OF inv]])
  note i1 = qsw.inv_frame [OF inv f]
  have hw: "hw_state tr r w1 = hw_state tr r w" unfolding w1_def by (simp add: hw_state_notify [OF silent])
  have ok1: "trunks_ok tr r w1" using f hw i1(2) by (intro trunks_cong [OF ok]) (simp_all add: hw_frame_def layer_same_def)
  have p1: "p \<in> set (ports_of w1 r)" using p f by (simp add: hw_frame_def layer_same_def)
  have fold_ok: "trunks_ok tr r (fold (\<lambda>s v. snd (genl_dev_sw_port_detach_slave ?E r (obj_of v p) (obj_of v s) v)) ss v)"
    if "trunks_ok tr r v" "sw_inv (qca_good out r) (qca_view r) r v" for ss v
    using that
  proof (induction ss arbitrary: v)
    case (Cons s ss)
    obtain b u where d: "genl_dev_sw_port_detach_slave ?E r (obj_of v p) (obj_of v s) v = (b, u)" by fastforce
    from Cons.IH [OF trunks_detach [OF law silent Cons.prems(2,1) d] qsw.detach_inv(1) [OF Cons.prems(2) d]] d
    show ?case by simp
  qed simp
  have tt: "t = fold (\<lambda>s v. snd (genl_dev_sw_port_detach_slave ?E r (obj_of v p) (obj_of v s) v)) (slaves_of w1 p) w1"
    using t by (simp add: without_slaves_def Let_def w1_def)
  from fold_ok [OF ok1 i1(1)] show "trunks_ok tr r t" unfolding tt .
  from qsw.detach_all [OF i1(1) p1 tt] f i1(2)
  show "sw_inv (qca_good out r) (qca_view r) r t" "members t r = members w r" "qca_view r t = qca_view r w"
    "\<And>q. obj_of t q = obj_of w q"
    by (simp_all add: hw_frame_def layer_same_def)
qed

lemma destroy_group:
  assumes law: "trunk_law K tr" and sys: "sp_sw_sys (sp_mem w p) = r" and good: "qca_good out r w"
    and d: "qca_switch_destroy_aggregator K p w = (ok, t)"
  shows "layer_same w t" "hw_state tr r t =
    (if ok then (switch_obj (sw_mem w r), agg_domain (qca_mem w r),
       (tr (kernel w))((switch_obj (sw_mem w r), obj_of w p - agg_domain (qca_mem w r)) := 0))
     else hw_state tr r w)"
proof -
  show "layer_same w t" using destroy_aggregator_effect [OF good sys d] by simp
  have free: "hw_state tr r (qca_switch_free_agg_id r i v) = hw_state tr r v" for i and v :: "('a, 'b) qca_state_scheme"
    by (simp add: qca_switch_free_agg_id_def hw_state_def)
  obtain b w1 where c: "qca_switch_ioctl K SW_API_TRUNK_GROUP_SET
      [sw_obj w r, Val (agg_index w p), Val 0, Val (port_num (sp_mem w p))] w = (b, w1)" by fastforce
  from set_group [OF law c] c d sys free
  show "hw_state tr r t =
    (if ok then (switch_obj (sw_mem w r), agg_domain (qca_mem w r),
       (tr (kernel w))((switch_obj (sw_mem w r), obj_of w p - agg_domain (qca_mem w r)) := 0))
     else hw_state tr r w)"
    by (auto simp: qca_switch_destroy_aggregator_def Let_def split: if_splits)
qed

lemma trunks_destroy:
  fixes K sysops out
  defines "E \<equiv> qca_calls K sysops out"
  assumes law: "trunk_law K tr" and silent: "users_silent tr out"
    and inv: "sw_inv (qca_good out r) (qca_view r) r w" and ok: "trunks_ok tr r w"
    and d: "genl_dev_sw_destroy_aggregator E r obj w = (res, t)"
  shows "trunks_ok tr r t"
proof -
  note o = qsw.destroy_outcome [OF inv d [unfolded E_def]]
  show ?thesis
  proof (cases res)
    case False
    show ?thesis
    proof (cases "t = w")
      case False
      have "members t r = members w r \<and> qca_view r t = qca_view r w \<and> (t = w \<or> (\<exists>p. p \<in> set (ports_of w r) \<and> obj_of w p = obj \<and>
          (t = without_slaves E r p obj w \<or> hw_destroy_aggregator (hw E) p (without_slaves E r p obj w) = (False, t))))"
        using conjunct2 [OF o] unfolding if_not_P [OF \<open>\<not> res\<close>] E_def .
      with False obtain p where p: "p \<in> set (ports_of w r)"
        and t: "t = without_slaves E r p obj w \<or> hw_destroy_aggregator (hw E) p (without_slaves E r p obj w) = (False, t)"
        by blast
      define w2 where "w2 = without_slaves E r p obj w"
      note w2 = trunks_without [OF law silent inv ok p w2_def [unfolded E_def]]
      have sys: "sp_sw_sys (sp_mem w2 p) = r" using wf_D(10) [OF qsw.inv_D(2) [OF w2(2)]] w2(3) member_port [OF p] by blast
      from t [folded w2_def] show ?thesis
      proof
        assume "hw_destroy_aggregator (hw E) p w2 = (False, t)"
        then have h: "qca_switch_destroy_aggregator K p w2 = (False, t)" by (simp add: E_def)
        note g = destroy_group [OF law sys qsw.inv_D(1) [OF w2(2)] h] destroy_aggregator_effect [OF qsw.inv_D(1) [OF w2(2)] sys h]
        show ?thesis
          using g by (intro trunks_cong [OF w2(1)]) (simp_all add: layer_same_def members_def)
      qed (use w2(1) in simp)
    qed (use ok in simp)
  next
    case True
    with o obtain p w3 where p: "p \<in> set (ports_of w r)" "obj_of w p = obj" and mem: "members t r = members w r - {p}"
      and view: "qca_view r t = (qca_view r w)\<lparr>v_agg := (v_agg (qca_view r w))(obj := False)\<rparr>"
      and h: "hw_destroy_aggregator (hw E) p (without_slaves E r p obj w) = (True, w3)" and t: "t = unlink_port r p w3"
      by (auto simp: E_def)
    define w2 where "w2 = without_slaves E r p obj w"
    note w2 = trunks_without [OF law silent inv ok p(1) w2_def [unfolded E_def]]
    have sys: "sp_sw_sys (sp_mem w2 p) = r" using wf_D(10) [OF qsw.inv_D(2) [OF w2(2)]] w2(3) member_port [OF p(1)] by blast
    have "qca_switch_destroy_aggregator K p w2 = (True, w3)" using h by (simp add: E_def w2_def)
    note g = destroy_group [OF law sys qsw.inv_D(1) [OF w2(2)] this]
    have sm: "obj_of t q = obj_of w2 q \<and> port_num (sp_mem t q) = port_num (sp_mem w2 q)" for q
      using g(1) by (simp add: t layer_same_def unlink_port_def)
    have ad: "agg_domain (qca_mem t r) = agg_domain (qca_mem w2 r)"
      and grp: "group_of tr r t i = (if i = obj - agg_domain (qca_mem w2 r) then 0 else group_of tr r w2 i)" for i
      using g(2) p(2) w2(5) hw_state_upd(2) [of tr r p w3] unfolding t [symmetric] by (simp_all add: hw_state_def group_of_def)
    have ag: "qca_agg r t = (qca_agg r w2)(obj := False)" using view w2(4) by (simp add: qca_view_def)
    have other: "obj_of w2 q \<noteq> obj" if "q \<in> members w r" "q \<noteq> p" for q
      using qsw.lookup_iff [OF inv, where obj = obj] that member_port [OF p(1)] p(2) w2(5) by (metis option.inject)
    have "group_of tr r t (obj_of t q - agg_domain (qca_mem t r)) = port_num (sp_mem t q)"
      if "q \<in> members t r" "qca_agg r t (obj_of t q)" for q
      using w2(1,3) that mem other [of q] sm [of q] by (auto simp: trunks_ok_def grp ad ag)
    moreover have "group_of tr r t i = 0" if "unat i \<le> 3" "\<not> qca_agg r t (agg_domain (qca_mem t r) + i)" for i
      using w2(1) that by (auto simp: trunks_ok_def grp ad ag split: if_splits)
    ultimately show ?thesis by (simp add: trunks_ok_def)
  qed
qed

subsection \<open>Runs\<close>

lemma hw_state_create:
  assumes law: "trunk_law K tr" and silent: "users_silent tr out"
  shows "hw_state tr r (snd (genl_dev_sw_port_create (base_calls K sysops out) r name num obj c d w)) = hw_state tr r w"
proof -
  have k: "hw_state tr r (snd (kcall (k_alloc K) v)) = hw_state tr r v" for v :: "('a, 'b) qca_state_scheme"
    by (rule hw_state_ids, rule ids_kcall) (use law in \<open>simp add: trunk_law_def quiet_kernel_def\<close>)
  show ?thesis
    by (simp add: genl_dev_sw_port_create_def base_calls_def Let_def split_beta k hw_state_notify [OF silent])
qed

lemma hw_state_load:
  assumes "trunk_law K tr" and "users_silent tr out"
  shows "hw_state tr r (snd (load_port_list (base_calls K sysops out) r ws w)) = hw_state tr r w"
proof (induction ws arbitrary: w rule: length_induct)
  case (1 ws)
  show ?case
  proof (cases "(base_calls K sysops out, r, ws, w)" rule: load_port_list.cases)
    case (1 E r' name ctrl data num port rest w')
    then have ws: "ws = name # ctrl # data # num # port # rest" by simp
    with \<open>\<forall>ys. _\<close> have IH: "hw_state tr r (snd (load_port_list (base_calls K sysops out) r rest v)) = hw_state tr r v" for v
      by simp
    let ?create = "\<lambda>n. genl_dev_sw_port_create (base_calls K sysops out) r (sw_snprintf (ctrl @ ''.'' @ port)) n
      (port_domain (qca_mem w r) + n) (Some ctrl) (Some data) w"
    have "hw_state tr r (snd (?create n)) = hw_state tr r w" for n by (rule hw_state_create [OF assms])
    then have "\<And>n res t. ?create n = (res, t) \<Longrightarrow> hw_state tr r t = hw_state tr r w" by (metis snd_conv)
    with IH show ?thesis unfolding ws by (simp add: Let_def split: prod.split option.split)
  qed simp_all
qed

lemma legal_attach: "sw_legal r (Attach_Slave m s) w \<Longrightarrow> \<not> qca_agg r w s"
  by (simp add: sw_legal_def)

theorem trunks_run:
  assumes run: "switch_run K sysops out r w0 w" and law: "trunk_law K tr" and silent: "users_silent tr out"
    and empty: "\<And>i. group_of tr r w0 i = 0"
  shows "trunks_ok tr r w"
  using run
proof (induction rule: switch_run.induct)
  case (Init ok t)
  have quiet: "users_quiet out" using silent by (simp add: users_silent_def)
  obtain v ws where l: "load_port_list (base_calls K sysops out) r ws v = (ok, t)"
    "kernel v = kernel w0" "switch_obj (sw_mem v r) = switch_obj (sw_mem w0 r)"
    using init_loads [OF Init(1) quiet Init(2)] .
  have "hw_state tr r t = hw_state tr r v" using hw_state_load [OF law silent, of r sysops ws v] l(1) by simp
  with l(2,3) empty have "group_of tr r t i = 0" for i by (simp add: hw_state_def group_of_def)
  with runtime_init(2) [OF Init(1) quiet Init(2)] show ?case by (simp add: trunks_ok_def)
next
  case (Op w cmd)
  let ?E = "qca_calls K sysops out"
  have quiet: "users_quiet out" using silent by (simp add: users_silent_def)
  note inv = switch_run_inv [OF Op(1) quiet]
  show ?case
  proof (cases "member_op cmd")
    case False
    have "ids tr r (sw_exec ?E r cmd w) = ids tr r w" by (rule ids_other_op [OF inv _ False]) (use law in \<open>simp add: trunk_law_def\<close>)
    then have "layer_same w (sw_exec ?E r cmd w)" "hw_state tr r (sw_exec ?E r cmd w) = hw_state tr r w"
      "qca_view r (sw_exec ?E r cmd w) = qca_view r w"
      by (simp_all add: ids_def layer_same_def hw_state_def qca_view_def qca_agg_def qca_sw_agg_id_is_active_def fun_eq_iff)
    then show ?thesis by (intro trunks_cong [OF Op(3)]) (simp_all add: layer_same_def members_def)
  next
    case True
    then show ?thesis
    proof (cases cmd)
      case (New_Aggregator name)
      with trunks_new [OF law silent inv Op(3)] show ?thesis by (metis prod.collapse sw_exec.simps(1))
    next
      case (Destroy_Aggregator obj)
      with trunks_destroy [OF law silent inv Op(3)] show ?thesis by (metis prod.collapse sw_exec.simps(2))
    next
      case (Attach_Slave m s)
      with trunks_attach [OF law silent inv Op(3)] Op(2) show ?thesis
        by (metis prod.collapse sw_exec.simps(3) legal_attach)
    next
      case (Detach_Slave m s)
      with trunks_detach [OF law silent inv Op(3)] show ?thesis by (metis prod.collapse sw_exec.simps(4))
    qed simp_all
  qed
qed

end
