(* ===== verification/Qca_Example.thy ===== *)
theory Qca_Example
  imports Qca_Trunk
begin

text \<open>
  A run of a QCA switch with two ports, from its configuration to an aggregator with one of them as
  a slave.
\<close>

subsection \<open>The switch\<close>

text \<open>
  The kernel keeps the trunk groups and accepts every call; the configuration script names two
  ports and nothing else. Nobody listens.
\<close>

definition lab_ports :: string where
  "lab_ports = ''@sw1 eth1 eth1 1 port1'' @ [LF] @ ''@sw1 eth1 eth1 3 port3'' @ [LF]"

definition lab_kernel :: "(u32 \<times> u32 \<Rightarrow> u32) qca_kernel" where
  "lab_kernel = \<lparr>k_open = (\<lambda>path k. (3, k)),
     k_ioctl = (\<lambda>api args k. (True,
        case (api, args) of
          (SW_API_TRUNK_GROUP_SET, [Val sw, Val i, Val en, Val bm]) \<Rightarrow> k((sw, i) := if en = 0 then 0 else bm)
        | _ \<Rightarrow> k)),
     k_ioctl_get = (\<lambda>api args k. None), k_popen = (\<lambda>k cmd. if cmd = shell_cmd_line (Some ''sw1'') ''get_switch_ports'' then Some lab_ports else None), k_alloc = (\<lambda>k. (True, k)),
     k_socket = (\<lambda>prot k. (4, k)), k_nonblock = (\<lambda>fd k. (True, k)), k_fd_add = (\<lambda>fd k. (True, k)),
     k_fd_del = (\<lambda>fd k. (True, k)), k_close = (\<lambda>fd k. (True, k)),
     k_sendto = (\<lambda>fd ifindex prot buf k. (int (length buf), k))\<rparr>"

definition lab_users :: "user_ref \<Rightarrow> 'w general_device_out_api" where
  "lab_users u = \<lparr>out_link_status_changed = None, out_netdev_obj_added = None, out_netdev_obj_deleted = None,
     out_receive_bpdu = None, out_receive_lacpdu = None, out_system_unregistered = None\<rparr>"

lemma lab_law: "trunk_law lab_kernel (\<lambda>k. k)"
  by (auto simp: trunk_law_def quiet_kernel_def lab_kernel_def split: sw_api.split list.split sw_arg.split)

lemma lab_silent: "users_silent tr lab_users"
  by (simp add: users_silent_def users_quiet_def lab_users_def)

text \<open>The devices \<^verbatim>\<open>eth0\<close> and \<^verbatim>\<open>eth1\<close> are known to the system in domain 0.\<close>

definition lab_system :: "'w general_device_ops" where
  "lab_system = \<lparr>dev_init = (\<lambda>w. Returns (True, w)), dev_exit = (\<lambda>w. (True, w)), dev_private = None,
     system_get_hw_addr = (\<lambda>w. Returns (None, w)), common_is_compatible = (\<lambda>obj w. False),
     common_name_to_netdev_obj = (\<lambda>n w. if n = ''eth0'' then 2 else if n = ''eth1'' then 3 else 0),
     common_netdev_obj_to_name = (\<lambda>obj w. None), common_get_link_status = (\<lambda>obj w. False),
     common_get_duplex = (\<lambda>obj w. 0), common_get_speed = (\<lambda>obj w. 0),
     common_get_hw_addr = (\<lambda>obj w. Returns (None, w)), bridge_is_bridge_member = (\<lambda>obj br w. Returns False),
     bridge_flush_fdb = (\<lambda>obj w. (False, w)), stp_enable = (\<lambda>obj w. (False, w)), stp_disable = (\<lambda>obj w. (False, w)),
     stp_set_port_state = (\<lambda>obj st w. (False, w)), stp_send_bpdu = (\<lambda>obj buf w. Returns (False, w)),
     agg_enable = (\<lambda>obj w. (False, w)), agg_disable = (\<lambda>obj w. (False, w)), agg_new_aggregator = (\<lambda>n w. (0, w)),
     agg_destroy_aggregator = (\<lambda>obj w. (False, w)), agg_is_aggregator = (\<lambda>m s w. False), agg_is_slave = (\<lambda>s m w. False),
     agg_number_of_slaves = (\<lambda>obj w. 0), agg_attach_slave = (\<lambda>m s w. (False, w)), agg_detach_slave = (\<lambda>m s w. (False, w)),
     agg_send_lacpdu = (\<lambda>obj buf w. Returns (False, w)), agg_set_tx_hash_policy = (\<lambda>obj pol w. (False, w))\<rparr>"

definition lab_switch :: "'z \<Rightarrow> (u32 \<times> u32 \<Rightarrow> u32, 'z) qca_state_scheme" where
  "lab_switch z = \<lparr>ndev_systems = [Some 0, Some 7],
     sys_mem = (\<lambda>r. \<lparr>ds_name = (if r = 0 then ''linux'' else ''sw1''), users = [], ds_domain = if r = 0 then 0 else 0xf0,
       next_internal_domain = QCA_SW_INTERNAL_DOMAIN_INIT\<rparr>),
     current_os_service = True,
     sw_mem = (\<lambda>_. \<lparr>switch_ports = [], link_status_monitor = idle_timer, sw_name = ''sw1'', switch_obj = 0,
       real_agg_dev = False, support_link_event = False, link_status_poll_interval = 0\<rparr>),
     sp_mem = (\<lambda>_. switch_port_zero), sp_next = 20, qca_mem = (\<lambda>_. qca_system_zero),
     qca_switch_driver_fd = -1, kernel = (\<lambda>_. 0), \<dots> = z\<rparr>"

lemma lab_words:
  "qca_switch_shell_cmd_get_word_list (k_popen lab_kernel k) (Some ''sw1'') ''get_switch_ports'' n =
     bind_outcome (write_words 0 (words n lab_ports) (replicate (16 * n) NUL))
       (\<lambda>mem. Returns (map (row mem) [0..<length (words n lab_ports)]))"
proof -
  have "read_output 128 [] lab_ports = Some lab_ports"
    using read_output_complete [of "[]" lab_ports 128] by (simp add: lab_ports_def)
  then show ?thesis
    by (simp add: qca_switch_shell_cmd_get_word_list_def qca_switch_shell_cmd_def lab_kernel_def Let_def
      QCA_SW_SHELL_CMD_RESULT_SIZE_def QCA_SW_SHELL_CMD_WORD_SIZE_def)
qed

lemma lab_word_list:
  "qca_switch_shell_cmd_get_word_list (k_popen lab_kernel k) (Some ''sw1'') ''get_switch_ports''
      (QCA_SW_WORDS_PER_PORT * QCA_SW_PORT_NUM) =
    Returns [''@sw1'', ''eth1'', ''eth1'', ''1'', ''port1'', ''@sw1'', ''eth1'', ''eth1'', ''3'', ''port3'']"
  unfolding lab_words by code_simp

definition lab_port :: "string \<Rightarrow> u32 \<Rightarrow> switch_port" where
  "lab_port n i = switch_port_zero\<lparr>sp_name := n, port_num := i, switch_port_obj := 0xf0f10000 + i, sp_sw_sys := 7,
     control_channel := ''eth1'', data_channel := ''eth1''\<rparr>"

lemma lab_port_simps [simp]:
  "switch_port_obj (lab_port n i) = 0xf0f10000 + i" "agg_parent (lab_port n i) = None" "agg_slaves (lab_port n i) = []"
  "sp_sw_sys (lab_port n i) = 7" "port_num (lab_port n i) = i" "sp_name (lab_port n i) = n"
  "(lab_port n i)\<lparr>agg_parent := None\<rparr> = lab_port n i"
  by (simp_all add: lab_port_def switch_port_zero_def)

text \<open>The switch, system 7, with the ports \<open>ps\<close>, after it has read its configuration.\<close>

definition lab_state ::
    "'z \<Rightarrow> u32 \<Rightarrow> int \<Rightarrow> (u32 \<times> u32 \<Rightarrow> u32) \<Rightarrow> sp_ref list \<Rightarrow> (sp_ref \<Rightarrow> switch_port) \<Rightarrow> nat \<Rightarrow>
     (u32 \<times> u32 \<Rightarrow> u32, 'z) qca_state_scheme" where
  "lab_state z bm fd groups ps mem n = \<lparr>ndev_systems = [Some 0, Some 7],
     sys_mem = (sys_mem (lab_switch z))(7 := (sys_mem (lab_switch z) 7)\<lparr>next_internal_domain := 0xf2\<rparr>),
     current_os_service = True,
     sw_mem = (sw_mem (lab_switch z))(7 := (sw_mem (lab_switch z) 7)
        \<lparr>switch_ports := ps, link_status_monitor := timer_set 0 idle_timer\<rparr>),
     sp_mem = mem, sp_next = n,
     qca_mem = (\<lambda>_. qca_system_zero)(7 := qca_system_zero
        \<lparr>port_domain := 0xf0f10000, agg_domain := 0xf0f20000, cpu_port := -1, mirror_port := -1, private_hdr_type := -1, agg_id_bitmap := bm\<rparr>),
     qca_switch_driver_fd = fd, kernel = groups, \<dots> = z\<rparr>"

lemma lab_state_simps [simp]:
  "ports_of (lab_state z bm fd groups ps mem n) 7 = ps" "sp_mem (lab_state z bm fd groups ps mem n) = mem" "sp_next (lab_state z bm fd groups ps mem n) = n"
  "sw_name (sw_mem (lab_state z bm fd groups ps mem n) 7) = ''sw1''" "ndev_systems (lab_state z bm fd groups ps mem n) = [Some 0, Some 7]"
  "port_domain (qca_mem (lab_state z bm fd groups ps mem n) 7) = 0xf0f10000" "agg_domain (qca_mem (lab_state z bm fd groups ps mem n) 7) = 0xf0f20000"
  "agg_id_bitmap (qca_mem (lab_state z bm fd groups ps mem n) 7) = bm" "kernel (lab_state z bm fd groups ps mem n) = groups"
  "switch_obj (sw_mem (lab_state z bm fd groups ps mem n) 7) = 0" "\<not> real_agg_dev (sw_mem (lab_state z bm fd groups ps mem n) 7)"
  "qca_switch_driver_fd (lab_state z bm fd groups ps mem n) = fd"
  by (simp_all add: lab_state_def lab_switch_def qca_system_zero_def)

lemma lab_state_upd [simp]:
  "upd_sw 7 (\<lambda>S. S\<lparr>switch_ports := switch_ports S @ [p]\<rparr>) (lab_state z bm fd groups ps mem n) = lab_state z bm fd groups (ps @ [p]) mem n"
  "unlink_port 7 p (lab_state z bm fd groups ps mem n) =
     lab_state z bm fd groups (remove1 p ps) (\<lambda>q. (mem q)\<lparr>agg_slaves := remove1 p (agg_slaves (mem q))\<rparr>) n"
  "upd_qca 7 (\<lambda>q. q\<lparr>agg_id_bitmap := agg_id_bitmap q OR b\<rparr>) (lab_state z bm fd groups ps mem n) =
     lab_state z (bm OR b) fd groups ps mem n"
  "(lab_state z bm fd groups ps mem n)\<lparr>qca_switch_driver_fd := fd'\<rparr> = lab_state z bm fd' groups ps mem n"
  "(lab_state z bm fd groups ps mem n)\<lparr>kernel := groups'\<rparr> = lab_state z bm fd groups' ps mem n"
  "upd_sp p h (lab_state z bm fd groups ps mem n) = lab_state z bm fd groups ps (mem(p := h (mem p))) n"
  "(lab_state z bm fd groups ps mem n)\<lparr>sp_next := k\<rparr> = lab_state z bm fd groups ps mem k"
  by (simp_all add: lab_state_def upd_sw_def upd_sp_def upd_qca_def unlink_port_def list_del_def lab_switch_def)

lemma base_calls_simps [simp]:
  "genl (base_calls K sysops out) = sysops" "user_api (base_calls K sysops out) = out"
  "sw_calloc (base_calls K sysops out) = kcall (k_alloc K)"
  "hw_is_aggregator (hw (base_calls K sysops out)) = qca_switch_port_is_aggregator"
  by (simp_all add: base_calls_def base_ops_def)

lemma lab_simps [simp]:
  "kcall (k_alloc lab_kernel) w = (True, w)"
  "genl_dev_notify_netdev_obj_added lab_users q obj w = w" "genl_dev_notify_netdev_obj_deleted lab_users q obj w = w"
proof -
  have "fold (\<lambda>u v. v) us w = w" for us by (induction us) simp_all
  then show "genl_dev_notify_netdev_obj_added lab_users q obj w = w" "genl_dev_notify_netdev_obj_deleted lab_users q obj w = w"
    by (simp_all add: genl_dev_notify_netdev_obj_added_def genl_dev_notify_netdev_obj_deleted_def lab_users_def)
qed (simp add: kcall_def lab_kernel_def)

abbreviation "lab_with z \<equiv> lab_state z 0 (-1) (\<lambda>_. 0)"

abbreviation "lab_base \<equiv> base_calls lab_kernel (\<lambda>_. lab_system) lab_users"

lemma lab_name: "genl_dev_name_to_netdev_obj (\<lambda>_. lab_system) (Some ''eth1'') (lab_with z ps mem n) = 3"
  by (simp add: genl_dev_name_to_netdev_obj_def lab_system_def netdev_obj_is_invalid_def GENERAL_DEVICE_INVALID_ID_def)

lemma lab_create:
  assumes fresh: "n \<notin> set ps" and "\<And>p. p \<in> set ps \<Longrightarrow> agg_slaves (mem p) = [] \<and> take 64 (sp_name (mem p)) \<noteq> take 64 name \<and>
      switch_port_obj (mem p) \<noteq> 0xf0f10000 + i"
    and "length name < 64" and "0xf0f10000 + i \<noteq> 0"
  shows "genl_dev_sw_port_create lab_base 7 name i (0xf0f10000 + i) (Some ''eth1'') (Some ''eth1'') (lab_with z ps mem n) =
    (Some n, lab_with z (ps @ [n]) (mem(n := lab_port name i)) (Suc n))"
proof -
  have none: "search_switch lab_base 7 P (lab_with z ps mem' k) = None"
    if "\<And>p. p \<in> set ps \<Longrightarrow> \<not> P p \<and> mem' p = mem p" for P mem' k
    unfolding search_ports_None using that assms(2) by simp
  have "genl_dev_sw_port_name_to_netdev_obj lab_base 7 name (lab_with z ps mem n) = 0"
    unfolding genl_dev_sw_port_name_to_netdev_obj_def
    by (subst none) (use assms(2) in \<open>simp_all add: strncmp_eq_def GENERAL_DEVICE_SYSTEM_NAME_SIZE_def GENERAL_DEVICE_INVALID_ID_def\<close>)
  moreover have look: "genl_dev_sw_port_lookup lab_base 7 (0xf0f10000 + i) (lab_with z ps mem' k) = None"
    if "\<And>p. p \<in> set ps \<Longrightarrow> mem' p = mem p" for mem' k
    unfolding genl_dev_sw_port_lookup_def
    by (subst none) (use assms(2) that in simp_all)
  moreover have "sw_snprintf name = name" "sw_snprintf ''eth1'' = ''eth1''"
    using assms(3) by (simp_all add: snprintf_buf_def GENERAL_DEVICE_SYSTEM_NAME_SIZE_def)
  moreover have "genl_dev_sw_port_add lab_base 7 n None (lab_with z ps (mem(n := lab_port name i)) (Suc n)) =
      (True, lab_with z (ps @ [n]) (mem(n := lab_port name i)) (Suc n))"
  proof -
    have "genl_dev_sw_port_lookup lab_base 7 (0xf0f10000 + i) (lab_with z ps (mem(n := lab_port name i)) (Suc n)) = None"
      by (rule look) (use fresh in auto)
    then show ?thesis by (simp add: genl_dev_sw_port_add_def genl_dev_sw_port_del_def Let_def list_add_tail_def)
  qed
  ultimately show ?thesis
    by (simp add: genl_dev_sw_port_create_def netdev_obj_is_invalid_def GENERAL_DEVICE_INVALID_ID_def Let_def
      lab_port_def switch_port_zero_def strncmp_eq_def)
qed

lemma lab_strtol: "strtol ''1'' = 1" "strtol ''3'' = 3" by code_simp+

definition lab_ports_mem :: "sp_ref \<Rightarrow> switch_port" where
  "lab_ports_mem = (\<lambda>_. switch_port_zero)(20 := lab_port ''eth1.port1'' 1, 21 := lab_port ''eth1.port3'' 3)"

lemma lab_ports_mem_simps [simp]:
  "lab_ports_mem 20 = lab_port ''eth1.port1'' 1" "lab_ports_mem 21 = lab_port ''eth1.port3'' 3"
  by (simp_all add: lab_ports_mem_def)

definition lab_ready :: "'z \<Rightarrow> (u32 \<times> u32 \<Rightarrow> u32, 'z) qca_state_scheme" where
  "lab_ready z = lab_with z [20, 21] lab_ports_mem 22"

lemma lab_load:
  "load_port_list lab_base 7
     [''@sw1'', ''eth1'', ''eth1'', ''1'', ''port1'', ''@sw1'', ''eth1'', ''eth1'', ''3'', ''port3'']
     (lab_with z [] (\<lambda>_. switch_port_zero) 20) = (True, (lab_ready z))"
proof -
  have c: "sw_snprintf ''eth1.port1'' = ''eth1.port1''" "sw_snprintf ''eth1.port3'' = ''eth1.port3''"
    "strncmp_eq GENERAL_DEVICE_SYSTEM_NAME_SIZE ''sw1'' ''sw1''"
    by (simp_all add: snprintf_buf_def strncmp_eq_def GENERAL_DEVICE_SYSTEM_NAME_SIZE_def)
  from lab_create [where z = z and ps = "[]" and mem = "\<lambda>_. switch_port_zero" and name = "''eth1.port1''" and i = 1 and n = 20]
    lab_create [where z = z and ps = "[20]" and mem = "(\<lambda>_. switch_port_zero)(20 := lab_port ''eth1.port1'' 1)"
      and name = "''eth1.port3''" and i = 3 and n = 21]
  show ?thesis
    by (simp add: c lab_name lab_strtol netdev_obj_is_invalid_def GENERAL_DEVICE_INVALID_ID_def
      QCA_SW_PORT_ID_MIN_def QCA_SW_PORT_ID_MAX_def lab_ready_def lab_ports_mem_def)
qed

lemma lab_get_int:
  assumes "cmd \<in> {''get_cpu_port'', ''get_mirror_port'', ''get_private_header_type''}"
  shows "qca_switch_shell_cmd_get_int (k_popen lab_kernel k) (Some ''sw1'') cmd = Returns (- 1)"
proof -
  have "shell_cmd_line (Some ''sw1'') cmd \<noteq> shell_cmd_line (Some ''sw1'') ''get_switch_ports''"
    using assms by (auto simp: shell_cmd_line_def QCA_SW_CONFIG_PATH_def QCA_SW_SHELL_CMD_SIZE_def snprintf_buf_def)
  then show ?thesis by (simp add: qca_switch_shell_cmd_get_int_def qca_switch_shell_cmd_def lab_kernel_def)
qed

abbreviation "lab_calls \<equiv> qca_calls lab_kernel (\<lambda>_. lab_system) lab_users"

lemma lab_init: "genl_dev_sw_init lab_calls 7 (lab_switch z) = Returns (True, (lab_ready z))"
proof -
  define w where "w = upd_sw 7 (\<lambda>S. S\<lparr>link_status_monitor := timer_set (link_status_poll_interval S) (link_status_monitor S)\<rparr>) (lab_switch z)"
  have "genl_dev_sw_init lab_calls 7 (lab_switch z) = qca_switch_init lab_kernel lab_base 7 w"
    by (simp add: genl_dev_sw_init_def w_def qca_calls_def lab_switch_def)
  also have "\<dots> = qca_switch_load_ports lab_kernel lab_base 7 (lab_with z [] (\<lambda>_. switch_port_zero) 20)"
    by (simp add: qca_switch_init_def w_def lab_switch_def lab_state_def genl_dev_sw_alloc_netdev_obj_domain_def
      genl_dev_alloc_netdev_obj_domain_def QCA_SW_PORT_NUM_def QCA_SW_PORT_ID_MAX_def QCA_SW_PORT_ID_MIN_def
      QCA_SW_AGG_NUM_def QCA_SW_AGG_ID_MAX_def QCA_SW_AGG_ID_MIN_def QCA_SW_INTERNAL_DOMAIN_INIT_def
      upd_sys_def upd_qca_def upd_sw_def lab_get_int qca_switch_load_runtime_ports_def qca_system_zero_def)
  also have "\<dots> = Returns (True, (lab_ready z))"
    by (simp add: qca_switch_load_ports_def lab_word_list lab_load del: load_port_list.simps)
  finally show ?thesis .
qed

lemma lab_run0: "switch_run lab_kernel (\<lambda>_. lab_system) lab_users 7 (lab_switch z) (lab_ready z)"
  by (rule switch_run.Init [OF _ lab_init]) (simp add: registered_switch_def lab_switch_def qca_system_zero_def)

text \<open>An aggregator with both ports as slaves.\<close>

definition lab_agg :: "sp_ref list \<Rightarrow> u32 \<Rightarrow> switch_port" where
  "lab_agg ps bits = switch_port_zero\<lparr>sp_name := ''trunk0'', switch_port_obj := 0xf0f20000, sp_sw_sys := 7,
     agg_slaves := ps, port_num := bits\<rparr>"

definition lab_trunk :: "'z \<Rightarrow> (u32 \<times> u32 \<Rightarrow> u32, 'z) qca_state_scheme" where
  "lab_trunk z = lab_state z 1 (-1) (\<lambda>_. 0) [20, 21, 22] (lab_ports_mem(22 := lab_agg [] 0)) 23"

lemma lab_agg_simps [simp]:
  "switch_port_obj (lab_agg ps n) = 0xf0f20000" "agg_parent (lab_agg ps n) = None" "agg_slaves (lab_agg ps n) = ps"
  "sp_sw_sys (lab_agg ps n) = 7" "port_num (lab_agg ps n) = n" "sp_name (lab_agg ps n) = ''trunk0''"
  "(lab_agg ps n)\<lparr>agg_parent := None\<rparr> = lab_agg ps n"
  by (simp_all add: lab_agg_def switch_port_zero_def)

lemma lab_new: "genl_dev_sw_new_aggregator lab_calls 7 ''trunk0'' (lab_ready z) = (0xf0f20000, (lab_trunk z))"
proof -
  have none: "search_switch lab_calls 7 P (lab_state z bm fd g ps mem n) = None"
    if "\<And>p. p \<in> set ps \<Longrightarrow> \<not> P p \<and> agg_slaves (mem p) = []" for P bm fd g ps mem n
    unfolding search_ports_None using that by simp
  have name: "genl_dev_sw_port_name_to_netdev_obj lab_calls 7 ''trunk0'' (lab_ready z) = 0"
    unfolding genl_dev_sw_port_name_to_netdev_obj_def lab_ready_def
    by (subst none) (auto simp: strncmp_eq_def GENERAL_DEVICE_SYSTEM_NAME_SIZE_def GENERAL_DEVICE_INVALID_ID_def)
  let ?P = "switch_port_zero\<lparr>sp_name := ''trunk0'', sp_sw_sys := 7\<rparr>"
  have new: "qca_switch_new_aggregator 22 (lab_state z 0 (-1) (\<lambda>_. 0) [20, 21] (lab_ports_mem(22 := ?P)) 23) =
      (True, lab_state z 1 (-1) (\<lambda>_. 0) [20, 21] (lab_ports_mem(22 := lab_agg [] 0)) 23)"
    by (simp add: qca_switch_new_aggregator_def qca_switch_allocate_agg_id_def QCA_SW_AGG_ID_MIN_def QCA_SW_AGG_ID_MAX_def
      upt_rec valid_id lab_agg_def switch_port_zero_def)
  have look: "genl_dev_sw_port_lookup lab_calls 7 0xf0f20000 (lab_state z 1 (-1) (\<lambda>_. 0) [20, 21] (lab_ports_mem(22 := lab_agg [] 0)) 23) = None"
    unfolding genl_dev_sw_port_lookup_def by (subst none) auto
  have lay: "((lab_ready z)\<lparr>sp_next := 23\<rparr>) = lab_state z 0 (-1) (\<lambda>_. 0) [20, 21] lab_ports_mem 23"
    "sp_next (lab_ready z) = 22" by (simp_all add: lab_ready_def)
  have add: "genl_dev_sw_port_add lab_calls 7 22 None (lab_state z 1 (-1) (\<lambda>_. 0) [20, 21] (lab_ports_mem(22 := lab_agg [] 0)) 23) = (True, (lab_trunk z))"
    using look by (simp add: genl_dev_sw_port_add_def genl_dev_sw_port_del_def Let_def list_add_tail_def lab_trunk_def)
  have "sw_snprintf ''trunk0'' = ''trunk0''" by (simp add: snprintf_buf_def GENERAL_DEVICE_SYSTEM_NAME_SIZE_def)
  then show ?thesis
    unfolding genl_dev_sw_new_aggregator_def
    using name new add by (simp add: lay) (simp add: lab_trunk_def)
qed

definition lab_joined :: "'z \<Rightarrow> (u32 \<times> u32 \<Rightarrow> u32, 'z) qca_state_scheme" where
  "lab_joined z = lab_state z 1 3 ((\<lambda>_. 0)((0, 0) := 2)) [21, 22] (lab_ports_mem(20 := (lab_port ''eth1.port1'' 1)\<lparr>agg_parent := Some 22\<rparr>,
     22 := (take_over (lab_port ''eth1.port1'' 1) (lab_agg [20] 0))\<lparr>port_num := 2\<rparr>)) 23"

lemma unlink_unlinked:
  assumes "\<And>q. p \<notin> set (agg_slaves (mem q))"
  shows "(\<lambda>q. (mem q)\<lparr>agg_slaves := remove1 p (agg_slaves (mem q))\<rparr>) = mem"
  using assms by (simp add: remove1_idem)

lemma lab_attach:
  "genl_dev_sw_port_attach_slave lab_calls 7 0xf0f20000 0xf0f10001 (lab_trunk z) = (True, (lab_joined z))"
proof -
  have l1: "genl_dev_sw_port_lookup lab_calls 7 0xf0f20000 (lab_trunk z) = Some 22"
    by (simp add: genl_dev_sw_port_lookup_def lab_trunk_def netdev_obj_is_invalid_def GENERAL_DEVICE_INVALID_ID_def)
  have l2: "genl_dev_sw_port_lookup lab_calls 7 0xf0f10001 (lab_trunk z) = Some 20"
    by (simp add: genl_dev_sw_port_lookup_def lab_trunk_def netdev_obj_is_invalid_def GENERAL_DEVICE_INVALID_ID_def)
  have ag: "switch_port_is_aggregator lab_calls (lab_trunk z) 22"
    by (simp add: switch_port_is_aggregator_def qca_switch_port_is_aggregator_def active_iff lab_trunk_def)
  let ?g = "(\<lambda>_. 0)((0, 0) := 2) :: u32 \<times> u32 \<Rightarrow> u32"
  have hw: "qca_switch_port_attach_slave lab_kernel 22 20 (lab_trunk z) =
      (True, lab_state z 1 3 ?g [20, 21, 22] (lab_ports_mem(22 := lab_agg [] 0)) 23)"
    by (simp add: qca_switch_port_attach_slave_def lab_trunk_def active_iff qca_switch_ioctl_def open_driver_def kcall_def)
      (simp add: lab_kernel_def kcall_def)
  define mem where "mem = lab_ports_mem(22 := take_over (lab_port ''eth1.port1'' 1) (lab_agg [] 0))"
  have mem: "mem 20 = lab_port ''eth1.port1'' 1" "mem 22 = take_over (lab_port ''eth1.port1'' 1) (lab_agg [] 0)"
    "mem 21 = lab_port ''eth1.port3'' 3" by (simp_all add: mem_def)
  have l3: "genl_dev_sw_port_lookup lab_calls 7 0xf0f10001 (lab_state z 1 3 ?g [20, 21, 22] mem 23) = Some 20"
    by (simp add: genl_dev_sw_port_lookup_def netdev_obj_is_invalid_def GENERAL_DEVICE_INVALID_ID_def mem)
  have "(\<lambda>q. (mem q)\<lparr>agg_slaves := remove1 20 (agg_slaves (mem q))\<rparr>) = mem"
    by (rule unlink_unlinked) (simp add: mem_def lab_ports_mem_def take_over_def switch_port_zero_def)
  then have un: "unlink_port 7 20 (lab_state z 1 3 ?g [20, 21, 22] mem 23) = lab_state z 1 3 ?g [21, 22] mem 23" by simp
  have t: "sp_sw_sys (take_over S M) = sp_sw_sys M" "port_num (take_over S M) = 0" "agg_slaves (take_over S M) = agg_slaves M" for S M
    by (simp_all add: take_over_def)
  have agg: "(take_over P (lab_agg [] 0))\<lparr>port_num := 2, agg_slaves := [20]\<rparr> = (take_over P (lab_agg [20] 0))\<lparr>port_num := 2\<rparr>" for P
    by (simp add: take_over_def lab_agg_def switch_port_zero_def)
  have joined: "lab_joined z = lab_state z 1 3 ?g [21, 22] (mem(20 := (lab_port ''eth1.port1'' 1)\<lparr>agg_parent := Some 22\<rparr>,
      22 := (take_over (lab_port ''eth1.port1'' 1) (lab_agg [] 0))\<lparr>port_num := 2, agg_slaves := [20]\<rparr>)) 23"
    unfolding lab_joined_def agg by (simp add: mem_def fun_upd_twist)
  have "genl_dev_sw_port_add lab_calls 7 20 (Some 22) (lab_state z 1 3 ?g [20, 21, 22] mem 23) = (True, (lab_joined z))"
    unfolding joined
    using l3 un by (simp add: genl_dev_sw_port_add_def genl_dev_sw_port_del_def Let_def mem t list_add_tail_def del: lab_state_upd(2))
  with l1 l2 ag hw show ?thesis
    by (simp add: genl_dev_sw_port_attach_slave_def lab_trunk_def Let_def mem_def)
qed

lemma lab_run: "switch_run lab_kernel (\<lambda>_. lab_system) lab_users 7 (lab_switch z) (lab_joined z)"
proof -
  have "sw_exec lab_calls 7 (New_Aggregator ''trunk0'') (lab_ready z) = (lab_trunk z)" by (simp add: lab_new)
  with switch_run.Op [OF lab_run0 [of z], of "New_Aggregator ''trunk0''"]
  have r: "switch_run lab_kernel (\<lambda>_. lab_system) lab_users 7 (lab_switch z) (lab_trunk z)" by (simp add: sw_legal_def)
  have "\<not> qca_agg 7 (lab_trunk z) 0xf0f10001"
    by (simp add: qca_agg_def active_iff lab_trunk_def)
  with switch_run.Op [OF r, of "Attach_Slave 0xf0f20000 0xf0f10001"] lab_attach [of z] show ?thesis by (simp add: sw_legal_def)
qed

end
