(* ===== verification/Daemon.thy ===== *)
theory Daemon
  imports Wrapper Qca_Example
begin

text \<open>
  The daemon as a whole: the device systems that are registered, with the wrapper as their user, and
  the runs of the wrapper under configuration, packets, links, timers and changes of the devices.
\<close>

subsection \<open>The device systems\<close>

text \<open>
  The function table of each system: \<open>l\<close> is the Linux system with the table \<open>lin\<close>, the others are
  QCA switches. A switch asks the other systems for the address of a control channel; \<open>d\<close> bounds how
  deep such requests nest. Control channels are devices of Linux, so that 1 is enough. An address of
  an aggregator is the one of a slave, which has no slaves: a depth of 2 calls is enough.
\<close>

fun dev_systems ::
    "nat \<Rightarrow> 'k qca_kernel \<Rightarrow> sys_ref \<Rightarrow> ('k, 'z) qca_state_scheme general_device_ops \<Rightarrow>
     (user_ref \<Rightarrow> ('k, 'z) qca_state_scheme general_device_out_api) \<Rightarrow> sys_ref \<Rightarrow> ('k, 'z) qca_state_scheme general_device_ops" where
  "dev_systems 0 K l lin out r = lin"
| "dev_systems (Suc d) K l lin out r =
     (if r = l then lin else switch_system_ops 2 (qca_calls K (dev_systems d K l lin out) out) r)"

text \<open>
  A user that hears nothing, the systems with it, and the systems as LACP and as the event loop
  see them.
\<close>

definition no_user :: "user_ref \<Rightarrow> 'w general_device_out_api" where
  "no_user u = \<lparr>out_link_status_changed = None, out_netdev_obj_added = None, out_netdev_obj_deleted = None,
     out_receive_bpdu = None, out_receive_lacpdu = None, out_system_unregistered = None\<rparr>"

abbreviation silent_systems where
  "silent_systems K l lin \<equiv> dev_systems 2 K l lin no_user"

definition systems_in_call ::
    "'h hotplug_os \<Rightarrow> 'k qca_kernel \<Rightarrow> sys_ref \<Rightarrow> ('k, 'h) hub_state general_device_ops \<Rightarrow> ('k, 'h) hub_ops" where
  "systems_in_call os K l lin = dev_systems 2 K l lin (dev_sys_user_in_call os (silent_systems K l lin))"

definition daemon_users ::
    "'h hotplug_os \<Rightarrow> 'k qca_kernel \<Rightarrow> ('k, 'h) hub_ops \<Rightarrow> sys_ref \<Rightarrow>
     ('k, 'h) daemon_state general_device_ops \<Rightarrow> user_ref \<Rightarrow> ('k, 'h) daemon_state general_device_out_api" where
  "daemon_users os K D l lin = dev_sys_user os K D (silent_systems K l lin)"

definition daemon_systems where
  "daemon_systems os K D l lin = dev_systems 2 K l lin (daemon_users os K D l lin)"

text \<open>What the event loop calls: the poll of the links of a switch, and a packet on its raw socket.\<close>

definition poll_links where
  "poll_links os K D l lin r =
     genl_dev_sw_link_status_update (qca_calls K (daemon_systems os K D l lin) (daemon_users os K D l lin)) r"

definition receive_packet where
  "receive_packet os K D l lin r =
     qca_switch_recv_packet (qca_calls K (daemon_systems os K D l lin) (daemon_users os K D l lin)) r"

subsection \<open>The wrapper is a quiet user\<close>

lemma crash_simps [simp]:
  "sys_mem (crash e w) = sys_mem w" "ndev_systems (crash e w) = ndev_systems w" "sw_mem (crash e w) = sw_mem w"
  "sp_mem (crash e w) = sp_mem w" "sp_next (crash e w) = sp_next w" "qca_mem (crash e w) = qca_mem w"
  "kernel (crash e w) = kernel w" "hub_state.more (crash e w) = hub_state.more w"
  by (simp_all add: crash_def)

lemma ubus_notify_simps [simp]:
  "sw_mem (lacpd_ubus_notify_switch_port_created n i w) = sw_mem w" "sp_mem (lacpd_ubus_notify_switch_port_created n i w) = sp_mem w"
  "sp_next (lacpd_ubus_notify_switch_port_created n i w) = sp_next w" "qca_mem (lacpd_ubus_notify_switch_port_created n i w) = qca_mem w"
  "kernel (lacpd_ubus_notify_switch_port_created n i w) = kernel w"
  "sw_mem (lacpd_ubus_notify_switch_port_destroyed n i w) = sw_mem w" "sp_mem (lacpd_ubus_notify_switch_port_destroyed n i w) = sp_mem w"
  "sp_next (lacpd_ubus_notify_switch_port_destroyed n i w) = sp_next w" "qca_mem (lacpd_ubus_notify_switch_port_destroyed n i w) = qca_mem w"
  "kernel (lacpd_ubus_notify_switch_port_destroyed n i w) = kernel w"
  by (simp_all add: lacpd_ubus_notify_switch_port_created_def lacpd_ubus_notify_switch_port_destroyed_def)

text \<open>Hearing of a port that comes or goes, the wrapper changes nothing below it.\<close>

lemma port_event_quiet:
  "layer_same w (lacpd_wrapper_netdev_obj_added os E u obj w) \<and> qca_mem (lacpd_wrapper_netdev_obj_added os E u obj w) = qca_mem w \<and>
     kernel (lacpd_wrapper_netdev_obj_added os E u obj w) = kernel w"
  "layer_same w (lacpd_wrapper_netdev_obj_deleted os E u obj w) \<and> qca_mem (lacpd_wrapper_netdev_obj_deleted os E u obj w) = qca_mem w \<and>
     kernel (lacpd_wrapper_netdev_obj_deleted os E u obj w) = kernel w"
  unfolding lacpd_wrapper_netdev_obj_added_def lacpd_wrapper_netdev_obj_deleted_def switch_port_event_def notify_status_systems_def
  by (simp_all add: layer_same_def Let_def split: option.split)

lemma wrapper_silent:
  "users_silent tr (dev_sys_user_in_call os E)" "users_silent tr (daemon_users os K D l lin)"
  by (auto simp: users_silent_def users_quiet_def dev_sys_user_in_call_def daemon_users_def dev_sys_user_def port_event_quiet)

lemma wrapper_quiet: "users_quiet (dev_sys_user_in_call os E)" "users_quiet (daemon_users os K D l lin)"
  using wrapper_silent [of "\<lambda>_. undefined"] by (auto simp: users_silent_def)

subsection \<open>Names of devices\<close>

text \<open>
  Every registered system keeps its objects in its own domain: the Linux system by assumption, a
  switch because the prefixes it was given carry its domain.
\<close>

definition own_domain :: "sys_ref \<Rightarrow> ('k, 'z) qca_state_scheme \<Rightarrow> bool" where
  "own_domain r w \<longleftrightarrow>
     (\<forall>x \<in> {port_domain (qca_mem w r), agg_domain (qca_mem w r)}. drop_bit 24 x = ds_domain (sys_mem w r))"

definition systems_good where
  "systems_good l lin out w \<longleftrightarrow> table_ok w \<and>
     (\<forall>n. common_name_to_netdev_obj lin n w \<noteq> 0 \<longrightarrow>
        netdev_obj_to_domain (common_name_to_netdev_obj lin n w) = ds_domain (sys_mem w l) \<and>
        common_is_compatible lin (common_name_to_netdev_obj lin n w) w) \<and>
     (\<forall>r \<in> set (registered w). r \<noteq> l \<longrightarrow> sw_inv (qca_good out r) (qca_view r) r w \<and> own_domain r w)"

lemma member_domain:
  assumes inv: "sw_inv (qca_good out r) (qca_view r) r w" and own: "own_domain r w" and p: "p \<in> members w r"
  shows "netdev_obj_to_domain (obj_of w p) = ds_domain (sys_mem w r)"
proof -
  have dom: "domains_ok (qca_mem w r)" using inv by (simp add: sw_inv_def qca_good_def)
  obtain x where x: "x \<in> {port_domain (qca_mem w r), agg_domain (qca_mem w r)}" "drop_bit 16 (obj_of w p) = drop_bit 16 x"
  proof (cases "qca_agg r w (obj_of w p)")
    case True
    then have "qca_sw_agg_id_is_valid (obj_of w p - agg_domain (qca_mem w r))"
      by (simp add: qca_agg_def qca_sw_agg_id_is_active_def)
    from agg_obj_prefix [OF dom this] that show ?thesis by blast
  next
    case False
    have o: "obj_of w p = port_domain (qca_mem w r) + port_num (sp_mem w p)"
      using qsw.inv_D(4) [OF inv p] False by (simp add: qca_view_def)
    have n: "num_of w p < 32"
      using qsw.inv_D(2) [OF inv] p False by (simp add: sw_wf_def sw_data_def qca_view_def)
    have "drop_bit 16 (port_domain (qca_mem w r) + port_num (sp_mem w p)) = drop_bit 16 (port_domain (qca_mem w r))"
      by (rule prefix_plus(1)) (use dom n in \<open>simp_all add: domains_ok_def\<close>)
    then show ?thesis by (intro that [of "port_domain (qca_mem w r)"]) (simp_all add: o)
  qed
  have "drop_bit 24 (obj_of w p) = drop_bit 8 (drop_bit 16 (obj_of w p))" by simp
  also have "\<dots> = drop_bit 24 x" unfolding x(2) by simp
  finally have d: "drop_bit 24 (obj_of w p) = ds_domain (sys_mem w r)" using x(1) own by (auto simp: own_domain_def)
  have m: "(0xff :: u32) = mask 8" by (simp add: mask_eq_exp_minus_1)
  have "drop_bit 24 (obj_of w p) AND 0xff = drop_bit 24 (obj_of w p)"
    unfolding m by (rule bit_word_eqI) (auto simp: bit_simps dest: bit_imp_le_length)
  with d show ?thesis by (simp add: netdev_obj_to_domain_def)
qed

lemma switch_own_object:
  assumes inv: "sw_inv (qca_good out r) (qca_view r) r w" and own: "own_domain r w"
    and obj: "genl_dev_sw_port_name_to_netdev_obj (qca_calls K sysops out) r n w = obj" "obj \<noteq> 0"
  shows "netdev_obj_to_domain obj = ds_domain (sys_mem w r)" "genl_dev_sw_port_lookup (qca_calls K sysops out) r obj w \<noteq> None"
proof -
  from obj obtain p where p: "p \<in> members w r" "obj_of w p = obj"
    by (auto simp: genl_dev_sw_port_name_to_netdev_obj_def GENERAL_DEVICE_INVALID_ID_def members_def
        split: option.splits dest!: search_ports_Some)
  from member_domain [OF inv own p(1)] p(2) show "netdev_obj_to_domain obj = ds_domain (sys_mem w r)" by simp
  show "genl_dev_sw_port_lookup (qca_calls K sysops out) r obj w \<noteq> None"
    using qsw.lookup_member [OF inv p(1)] p(2) by simp
qed

interpretation qds: device_systems "dev_systems (Suc d) K l lin out" "systems_good l lin out"
proof
  fix w :: "('a, 'b) qca_state_scheme" and r n
  let ?obj = "common_name_to_netdev_obj (dev_systems (Suc d) K l lin out r) n w"
  assume good: "systems_good l lin out w" and r: "r \<in> set (registered w)" and obj: "?obj \<noteq> 0"
  have t: "table_ok w" using good by (simp add: systems_good_def)
  have slot: "ndev_systems w ! unat (ds_domain (sys_mem w r)) = Some r"
    using table_ok_slot(2) [OF t] r unfolding set_registered by blast
  show "ndev_systems w ! unat (netdev_obj_to_domain ?obj) = Some r \<and>
      common_is_compatible (dev_systems (Suc d) K l lin out r) ?obj w"
  proof (cases "r = l")
    case True
    with good obj slot show ?thesis by (simp add: systems_good_def)
  next
    case False
    with good r have inv: "sw_inv (qca_good out r) (qca_view r) r w" "own_domain r w" by (auto simp: systems_good_def)
    from False switch_own_object [OF inv refl] obj slot show ?thesis
      by (simp add: switch_system_ops_def genl_dev_sw_port_is_compatible_def)
  qed
qed

end
