(* ===== verification/Daemon_Runs.thy ===== *)
theory Daemon_Runs
  imports Daemon
begin

text \<open>
  Runs of the wrapper: whatever the configuration asks for, whatever the devices report, and
  whatever else happens to the devices, in any order. The instances keep unique names, and each
  LACP object is a reachable instance of LACP over the calls of the wrapper.
\<close>

subsection \<open>Steps\<close>

datatype daemon_op =
    Cfg_New string lacpd_cfg_lacp_parameters
  | Cfg_Destroy "string option"
  | Cfg_Add_Dev "string option" string lacpd_cfg_lacp_port_parameters
  | Cfg_Del_Dev "string option" string
  | Link_Changed user_ref u32 u32
  | Packet user_ref "u8 list" u32 u32
  | Unregistered user_ref
  | Port_Timer user_ref port_timer_id port_ref
  | Cleanup

fun daemon_exec ::
    "'k qca_kernel \<Rightarrow> ('k, 'h) hub_ops \<Rightarrow> daemon_op \<Rightarrow> ('k, 'h) daemon_state \<Rightarrow> ('k, 'h) daemon_state" where
  "daemon_exec K D (Cfg_New name prm) w = snd (lacpd_cfg_lacp_new K name prm w)"
| "daemon_exec K D (Cfg_Destroy name) w = snd (lacpd_cfg_lacp_destroy K D name w)"
| "daemon_exec K D (Cfg_Add_Dev name dev prm) w = snd (lacpd_cfg_add_dev K D name dev prm w)"
| "daemon_exec K D (Cfg_Del_Dev name dev) w = snd (lacpd_cfg_del_dev K D name dev w)"
| "daemon_exec K D (Link_Changed u obj st) w = lacpd_wrapper_dev_link_status_changed K D u obj st w"
| "daemon_exec K D (Packet u buf len obj) w = snd (lacpd_wrapper_dev_receive_lacpdu u buf len obj w)"
| "daemon_exec K D (Unregistered u) w = lacpd_wrapper_dev_sys_unregistered K D u w"
| "daemon_exec K D (Port_Timer u k p) w = port_timer_cb K D u k p w"
| "daemon_exec K D Cleanup w = lacpd_wrapper_cleanup K D w"

inductive daemon_run :: "'k qca_kernel \<Rightarrow> ('k, 'h) hub_ops \<Rightarrow> ('k, 'h) daemon_state \<Rightarrow> bool" for K D where
  Start: "wrappers w = [] \<Longrightarrow> \<forall>u. lacp_obj w u = None \<Longrightarrow> daemon_run K D w"
| Op: "daemon_run K D w \<Longrightarrow> daemon_run K D (daemon_exec K D cmd w)"
| Devices: "daemon_run K D w \<Longrightarrow> daemon_run K D (set_hub e w)"

subsection \<open>Fields\<close>

lemma set_hub_simps [simp]:
  "wrappers (set_hub e w) = wrappers w" "inst_name (set_hub e w) = inst_name w"
  "lacp_obj (set_hub e w) = lacp_obj w" "inst_next (set_hub e w) = inst_next w" "hub (set_hub e w) = e"
  by (cases w; cases e; simp add: set_hub_def hub_state.extend_def hub_state.truncate_def)+

lemma kcall_daemon [simp]:
  "wrappers (snd (kcall f w)) = wrappers w" "inst_name (snd (kcall f w)) = inst_name w"
  "lacp_obj (snd (kcall f w)) = lacp_obj w" "inst_next (snd (kcall f w)) = inst_next w"
  by (simp_all add: kcall_def split_beta)

lemma crash_daemon [simp]:
  "wrappers (crash e w) = wrappers w" "inst_name (crash e w) = inst_name w"
  "lacp_obj (crash e w) = lacp_obj w" "inst_next (crash e w) = inst_next w"
  by (simp_all add: crash_def)

lemma users_daemon [simp]:
  "wrappers (snd (genl_dev_sys_add_user n u w)) = wrappers w" "inst_name (snd (genl_dev_sys_add_user n u w)) = inst_name w"
  "lacp_obj (snd (genl_dev_sys_add_user n u w)) = lacp_obj w" "inst_next (snd (genl_dev_sys_add_user n u w)) = inst_next w"
  "wrappers (genl_dev_sys_del_user n u w) = wrappers w" "inst_name (genl_dev_sys_del_user n u w) = inst_name w"
  "lacp_obj (genl_dev_sys_del_user n u w) = lacp_obj w" "inst_next (genl_dev_sys_del_user n u w) = inst_next w"
  by (simp_all add: genl_dev_sys_add_user_def genl_dev_sys_del_user_def upd_sys_def split: option.split)

lemma leave_dev_sys_simps [simp]:
  "wrappers (leave_dev_sys u w) = wrappers w" "inst_name (leave_dev_sys u w) = inst_name w"
  "lacp_obj (leave_dev_sys u w) = lacp_obj w" "inst_next (leave_dev_sys u w) = inst_next w"
  by (simp_all add: leave_dev_sys_def Let_def split: option.split)

lemma use_dev_sys_simps [simp]:
  "wrappers (snd (use_dev_sys u r w)) = wrappers w" "inst_name (snd (use_dev_sys u r w)) = inst_name w"
  "lacp_obj (snd (use_dev_sys u r w)) = lacp_obj w" "inst_next (snd (use_dev_sys u r w)) = inst_next w"
  by (simp_all add: use_dev_sys_def)

lemma call_lacp_simps [simp]:
  "wrappers (snd (call_lacp u d f w)) = wrappers w" "inst_name (snd (call_lacp u d f w)) = inst_name w"
  "inst_next (snd (call_lacp u d f w)) = inst_next w"
  by (simp_all add: call_lacp_def split: option.split outcome.split prod.split)

lemma destroy_lacp_simps [simp]:
  "wrappers (destroy_lacp K D u w) = wrappers w" "inst_name (destroy_lacp K D u w) = inst_name w"
  "inst_next (destroy_lacp K D u w) = inst_next w"
  by (simp_all add: destroy_lacp_def Let_def)

lemma destroy_lacp_obj [simp]: "lacp_obj (destroy_lacp K D u w) = (lacp_obj w)(u := None)"
  by (simp add: destroy_lacp_def Let_def call_lacp_def split: option.split outcome.split prod.split)

subsection \<open>The invariant\<close>

text \<open>
  The names of the instances on the list are unique and fit their buffers, only instances on the
  list have an object, and an object is in a reachable state of LACP.
\<close>

definition instances_ok :: "'k qca_kernel \<Rightarrow> ('k, 'h) hub_ops \<Rightarrow> ('k, 'h) daemon_state \<Rightarrow> bool" where
  "instances_ok K D w \<longleftrightarrow> distinct (wrappers w) \<and>
     (\<forall>u \<in> set (wrappers w). u < inst_next w \<and> length (inst_name w u) < LACPD_CONFIG_SYS_NAME_SIZE) \<and>
     inj_on (inst_name w) (set (wrappers w)) \<and>
     (\<forall>u L. lacp_obj w u = Some L \<longrightarrow> u \<in> set (wrappers w) \<and> lacp_reachable (lacp_user K D u) L)"

lemma instances_fields:
  "wrappers t = wrappers w \<Longrightarrow> inst_name t = inst_name w \<Longrightarrow> inst_next t = inst_next w \<Longrightarrow> lacp_obj t = lacp_obj w \<Longrightarrow>
    instances_ok K D w \<Longrightarrow> instances_ok K D t"
  by (simp add: instances_ok_def)

lemma instances_call:
  assumes "instances_ok K D w"
    and "\<And>L ret t. lacp_reachable (lacp_user K D u) L \<Longrightarrow> f L = Returns (ret, t) \<Longrightarrow> lacp_reachable (lacp_user K D u) t"
  shows "instances_ok K D (snd (call_lacp u d f w))"
proof (cases "lacp_obj w u")
  case (Some L)
  then have u: "u \<in> set (wrappers w)" and L: "lacp_reachable (lacp_user K D u) L" using assms(1) by (auto simp: instances_ok_def)
  have e: "lacp_reachable (lacp_user K D u) (L\<lparr>env := hub w\<rparr>)" by (rule lacp_reachable.Next [OF L Devices_Change])
  show ?thesis
  proof (cases "f (L\<lparr>env := hub w\<rparr>)")
    case (Fault x)
    have "instances_ok K D (crash x w)" by (rule instances_fields [OF _ _ _ _ assms(1)]) simp_all
    with Fault Some show ?thesis by (simp add: call_lacp_def)
  next
    case (Returns res)
    obtain ret t where res: "res = (ret, t)" by fastforce
    from assms(2) [OF e, of ret t] Returns res have "lacp_reachable (lacp_user K D u) t" by simp
    with assms(1) Some u Returns res show ?thesis by (simp add: instances_ok_def call_lacp_def)
  qed
qed (use assms in \<open>simp add: call_lacp_def\<close>)

lemma instance_found:
  assumes "lacpd_wrapper_lookup name w = Some u"
  shows "u \<in> set (wrappers w)"
  using assms by (auto simp: lacpd_wrapper_lookup_def split: option.splits dest: find_SomeD)

lemma lookup_name:
  assumes "instances_ok K D w" and "u \<in> set (wrappers w)"
  shows "lacpd_wrapper_lookup (Some (inst_name w u)) w = Some u"
proof -
  let ?P = "\<lambda>v. strncmp_eq LACPD_CONFIG_SYS_NAME_SIZE (inst_name w u) (inst_name w v)"
  have "find ?P (wrappers w) \<noteq> None" using assms(2) by (auto simp: find_None_iff)
  then obtain v where v: "find ?P (wrappers w) = Some v" by auto
  from find_SomeD [OF v] assms have "inst_name w v = inst_name w u" "v \<in> set (wrappers w)"
    by (auto simp: strncmp_eq_def instances_ok_def)
  with assms have "v = u" by (auto simp: instances_ok_def dest: inj_onD)
  with v show ?thesis by (simp add: lacpd_wrapper_lookup_def)
qed

lemma instance_not_found:
  assumes "lacpd_wrapper_lookup (Some n) w = None" and "length n < LACPD_CONFIG_SYS_NAME_SIZE"
  shows "n \<notin> inst_name w ` set (wrappers w)"
  using assms by (auto simp: lacpd_wrapper_lookup_def find_None_iff)

lemma instances_new:
  assumes ok: "instances_ok K D w"
  shows "instances_ok K D (snd (lacpd_cfg_lacp_new K name prm w))"
proof (cases "lacpd_wrapper_lookup (Some name) w")
  case None
  obtain a w1 where k: "kcall (k_alloc K) w = (a, w1)" by fastforce
  have w1: "wrappers w1 = wrappers w" "inst_name w1 = inst_name w" "inst_next w1 = inst_next w" "lacp_obj w1 = lacp_obj w"
    unfolding arg_cong [OF k, of snd, symmetric, unfolded snd_conv] by simp_all
  have ok1: "instances_ok K D w1" by (rule instances_fields [OF w1(1-4) ok])
  let ?u = "inst_next w1" and ?n = "snprintf_buf LACPD_CONFIG_SYS_NAME_SIZE name"
  let ?w2 = "w1\<lparr>inst_next := Suc ?u, inst_name := (inst_name w1)(?u := ?n), inst_lacp_param := (inst_lacp_param w1)(?u := prm),
      inst_dev_sys := (inst_dev_sys w1)(?u := None), lacp_obj := (lacp_obj w1)(?u := None)\<rparr>"
  have fresh: "?u \<notin> set (wrappers w1)" using ok1 by (auto simp: instances_ok_def)
  have name: "inst_name ?w2 v = inst_name w1 v" if "v \<in> set (wrappers w1)" for v using that fresh by auto
  have len: "length ?n < LACPD_CONFIG_SYS_NAME_SIZE" by (simp add: snprintf_buf_def LACPD_CONFIG_SYS_NAME_SIZE_def)
  have inj: "inj_on (inst_name ?w2) (set (wrappers w1))"
    using ok1 name by (simp add: instances_ok_def inj_on_def)
  have ok2: "instances_ok K D ?w2"
    using ok1 inj fresh unfolding instances_ok_def by (auto simp: less_Suc_eq simp del: inj_on_fun_updI)
  show ?thesis
  proof (cases "lacpd_wrapper_lookup (Some ?n) ?w2")
    case None
    from instance_not_found [OF None len] have "?n \<notin> inst_name ?w2 ` set (wrappers w1)" by simp
    with ok2 inj fresh len have "instances_ok K D (?w2\<lparr>wrappers := list_add_tail ?u (wrappers ?w2)\<rparr>)"
      by (auto simp: instances_ok_def list_add_tail_def)
    with None ok1 \<open>lacpd_wrapper_lookup (Some name) w = None\<close> k show ?thesis
      by (simp add: lacpd_cfg_lacp_new_def lacpd_wrapper_add_def Let_def)
  next
    case (Some v)
    with ok1 ok2 None k show ?thesis by (simp add: lacpd_cfg_lacp_new_def lacpd_wrapper_add_def Let_def)
  qed
qed (use ok in \<open>simp add: lacpd_cfg_lacp_new_def\<close>)

lemma instances_destroy:
  assumes ok: "instances_ok K D w"
  shows "instances_ok K D (snd (lacpd_cfg_lacp_destroy K D name w))"
proof (cases "lacpd_wrapper_lookup name w")
  case (Some u)
  let ?t = "leave_dev_sys u (destroy_lacp K D u w)"
  have ok1: "instances_ok K D ?t" using ok by (auto simp: instances_ok_def)
  moreover have "u \<in> set (wrappers ?t)" using instance_found [OF Some] by simp
  ultimately have "lacpd_wrapper_lookup (Some (inst_name ?t u)) ?t \<noteq> None" using lookup_name by fastforce
  with ok Some show ?thesis
    by (auto simp: lacpd_cfg_lacp_destroy_def lacpd_wrapper_del_def instances_ok_def list_del_def inj_on_def)
qed (use ok in \<open>simp add: lacpd_cfg_lacp_destroy_def\<close>)

lemma instances_create:
  assumes ok: "instances_ok K D w" and u: "u \<in> set (wrappers w)"
  shows "instances_ok K D (snd (create_lacp K D u w))"
proof -
  obtain obj e where c: "lacp_new (Some (inst_name w u)) (Some (lacp_user K D u))
      \<lparr>priority = cfg_priority (inst_lacp_param w u), lacp_rate = (if cfg_lacp_rate (inst_lacp_param w u) then 1 else 0),
       ad_select = ad_select_value (cfg_ad_select (inst_lacp_param w u))\<rparr> (hub w) = (obj, e)" by fastforce
  have "lacp_reachable (lacp_user K D u) L" if "obj = Some L" for L
    by (rule lacp_reachable.Created [OF c [unfolded that]])
  with ok u c show ?thesis by (auto simp: create_lacp_def Let_def instances_ok_def)
qed

lemma instances_add_dev:
  assumes ok: "instances_ok K D w"
  shows "instances_ok K D (snd (lacpd_cfg_add_dev K D name dev prm w))"
proof (cases "genl_dev_sys_resolve_by_name D (Some dev) (hub w)")
  case (Fault e)
  have "instances_ok K D (crash e w)" by (rule instances_fields [OF _ _ _ _ ok]) simp_all
  with Fault show ?thesis by (simp add: lacpd_cfg_add_dev_def)
next
  case (Returns sys)
  show ?thesis
  proof (cases "lacpd_wrapper_lookup name w = None \<or> sys = None")
    case True
    with Returns ok show ?thesis by (auto simp: lacpd_cfg_add_dev_def split: option.split)
  next
    case False
    then obtain u r where ur: "lacpd_wrapper_lookup name w = Some u" "sys = Some r" by auto
    obtain b w1 where 1: "(if inst_dev_sys w u = None then use_dev_sys u r w else (True, w)) = (b, w1)" by fastforce
    have f1: "wrappers w1 = wrappers w" "inst_name w1 = inst_name w" "inst_next w1 = inst_next w" "lacp_obj w1 = lacp_obj w"
      unfolding arg_cong [OF 1, of snd, symmetric, unfolded snd_conv] by simp_all
    have ok1: "instances_ok K D w1" by (rule instances_fields [OF f1 ok])
    obtain c w2 where 2: "(if lacp_obj w1 u = None then create_lacp K D u w1 else (True, w1)) = (c, w2)" by fastforce
    have "u \<in> set (wrappers w1)" using instance_found [OF ur(1)] f1(1) by simp
    from instances_create [OF ok1 this] ok1 2 have ok2: "instances_ok K D w2" by (auto split: if_splits)
    have "instances_ok K D (snd (call_lacp u False (lacpd_add_device (lacp_user K D u) obj q) w2))" for obj q
      by (rule instances_call [OF ok2]) (rule lacp_reachable.Next [OF _ Add_Device])
    with Returns ur ok ok1 ok2 1 2 show ?thesis by (simp add: lacpd_cfg_add_dev_def Let_def)
  qed
qed

lemma instances_cleanup:
  "instances_ok K D w \<Longrightarrow> instances_ok K D (cleanup_instances K D us w)"
proof (induction us arbitrary: w)
  case (Cons u us)
  have "instances_ok K D (leave_dev_sys u (destroy_lacp K D u (w\<lparr>wrappers := list_del u (wrappers w)\<rparr>)))"
    using Cons.prems by (auto simp: instances_ok_def list_del_def inj_on_def)
  from Cons.IH [OF this] show ?case by simp
qed simp

lemma instances_exec:
  assumes "instances_ok K D w"
  shows "instances_ok K D (daemon_exec K D cmd w)"
proof (cases cmd)
  case (Cfg_Del_Dev name dev)
  have "instances_ok K D (snd (call_lacp u False (lacpd_del_device (lacp_user K D u) obj) w))" for u obj
    by (rule instances_call [OF assms]) (rule lacp_reachable.Next [OF _ Del_Device])
  with Cfg_Del_Dev assms show ?thesis by (simp add: lacpd_cfg_del_dev_def Let_def split: option.split)
next
  case (Link_Changed u obj st)
  show ?thesis unfolding Link_Changed daemon_exec.simps lacpd_wrapper_dev_link_status_changed_def
    by (rule instances_call [OF assms]) (auto intro: lacp_reachable.Next [OF _ Link_Status])
next
  case (Packet u buf len obj)
  show ?thesis unfolding Packet daemon_exec.simps lacpd_wrapper_dev_receive_lacpdu_def
    by (rule instances_call [OF assms]) (rule lacp_reachable.Next [OF _ Receive])
next
  case (Port_Timer u k p)
  show ?thesis unfolding Port_Timer daemon_exec.simps port_timer_cb_def
    by (rule instances_call [OF assms])
      (auto split: if_splits option.splits intro: lacp_reachable.Next [OF _ Timer])
qed (use assms in \<open>simp_all add: instances_new instances_destroy instances_add_dev instances_cleanup
       lacpd_wrapper_dev_sys_unregistered_def lacpd_wrapper_cleanup_def\<close>)

lemma daemon_run_ok: "daemon_run K D w \<Longrightarrow> instances_ok K D w"
proof (induction rule: daemon_run.induct)
  case (Devices w e)
  then show ?case by (intro instances_fields [of "set_hub e w" w]) simp_all
next
  case (Op w cmd)
  from instances_exec [OF Op.IH] show ?case .
qed (simp add: instances_ok_def)

end
