(* ===== verification/Config_Plan.thy ===== *)
theory Config_Plan
  imports Config_Uci Daemon_Runs
begin

text \<open>
  What the configuration of a package means: the list of requests that its sections stand for, and
  the proof that reading and applying the package makes exactly these requests.
\<close>

subsection \<open>What the sections say\<close>

definition lacp_enabled_section :: "'s uci_api \<Rightarrow> 's \<Rightarrow> bool" where
  "lacp_enabled_section U s \<longleftrightarrow>
     blobmsg_get_bool_default (blob_bool U s (lacp_attrs LACP_ATTR_ENABLE)) LACPD_INSTANCE_ENABLE_DEFAULT"

definition port_enabled_section :: "'s uci_api \<Rightarrow> 's \<Rightarrow> bool" where
  "port_enabled_section U s \<longleftrightarrow>
     blobmsg_get_bool_default (blob_bool U s (lacp_port_attrs LACP_PORT_ATTR_ENABLE)) LACPD_PORT_ENABLE_DEFAULT"

definition configured_lacp :: "'s uci_api \<Rightarrow> 's \<Rightarrow> lacpd_uci_configuration_lacp option" where
  "configured_lacp U s =
     (case (tx_hash_policy_of (case blob_string U s ''txHashPolicy'' of None \<Rightarrow> ''L2_L3'' | Some v \<Rightarrow> v),
            ad_select_of (case blob_string U s ''adSelect'' of None \<Rightarrow> ''all'' | Some v \<Rightarrow> v)) of
        (Some tx, Some ad) \<Rightarrow> Some
          \<lparr>lc_ports = [], lc_section_name = take 63 (section_ename U s),
           lc_name = take 63 (case blob_string U s ''name'' of None \<Rightarrow> take 63 (section_ename U s) | Some n \<Rightarrow> n),
           lc_priority = (case blob_int32 U s ''priority'' of None \<Rightarrow> 0xffff | Some v \<Rightarrow> v),
           lc_tx_hash_policy = tx, lc_lacpdu_rate = (blob_bool U s ''lacpRate'' = Some True), lc_ad_select = ad\<rparr>
      | _ \<Rightarrow> None)"

definition configured_switch :: "'s uci_api \<Rightarrow> 's \<Rightarrow> lacpd_uci_configuration_switch option" where
  "configured_switch U s =
     map_option (\<lambda>n. \<lparr>sw_section_name = take 63 (section_ename U s), sw_ifname = take 63 n\<rparr>) (blob_string U s ''ifname'')"

text \<open>The instance of a port section, by position, and its port.\<close>

definition port_instance :: "'s uci_api \<Rightarrow> string list \<Rightarrow> 's \<Rightarrow> nat option" where
  "port_instance U names s =
     (case blob_string U s ''lacp'' of None \<Rightarrow> None | Some n \<Rightarrow> position_of (strncmp_eq 64 n) names)"

definition configured_port ::
    "'s uci_api \<Rightarrow> lacpd_uci_configuration_switch list \<Rightarrow> 's \<Rightarrow> lacpd_uci_configuration_port option" where
  "configured_port U sws s =
     (case (blob_string U s ''switch'', blob_int32 U s ''switchPortId'') of
        (Some n, Some i) \<Rightarrow> map_option (\<lambda>sw. \<lparr>pt_sw = sw, pt_ifname = (case blob_string U s ''ifname'' of None \<Rightarrow> [] | Some m \<Rightarrow> take 63 m),
            pt_port_num = i, pt_user_key = (case blob_int32 U s ''userKey'' of None \<Rightarrow> 0 | Some v \<Rightarrow> v)\<rparr>)
          (find (\<lambda>sw. strncmp_eq 64 n (sw_section_name sw)) sws)
      | _ \<Rightarrow> None)"

definition port_complete :: "'s uci_api \<Rightarrow> 's \<Rightarrow> bool" where
  "port_complete U s \<longleftrightarrow> blob_string U s ''lacp'' \<noteq> None \<and> blob_string U s ''switch'' \<noteq> None \<and> blob_int32 U s ''switchPortId'' \<noteq> None"

definition port_valid :: "'s uci_api \<Rightarrow> string list \<Rightarrow> lacpd_uci_configuration_switch list \<Rightarrow> 's \<Rightarrow> bool" where
  "port_valid U names sws s \<longleftrightarrow> port_complete U s \<and>
     (port_enabled_section U s \<longrightarrow> port_instance U names s \<noteq> None \<and> configured_port U sws s \<noteq> None)"

text \<open>
  The ports of the instance at a position, in the order of their sections, and what the package asks
  for; None if one of its sections cannot be used.
\<close>

definition ports_at ::
    "'s uci_api \<Rightarrow> string list \<Rightarrow> lacpd_uci_configuration_switch list \<Rightarrow> 's list \<Rightarrow> nat \<Rightarrow> lacpd_uci_configuration_port list" where
  "ports_at U names sws pts i =
     map (\<lambda>s. the (configured_port U sws s)) (filter (\<lambda>s. port_enabled_section U s \<and> port_instance U names s = Some i) pts)"

definition instance_requests :: "lacpd_uci_configuration_lacp \<Rightarrow> daemon_op list" where
  "instance_requests lc =
     Cfg_New (lc_name lc)
       \<lparr>cfg_priority = lc_priority lc, cfg_tx_hash_policy = lc_tx_hash_policy lc,
        cfg_lacp_rate = lc_lacpdu_rate lc, cfg_ad_select = lc_ad_select lc\<rparr> #
     map (\<lambda>p. Cfg_Add_Dev (Some (lc_name lc)) (uci_port_name p) \<lparr>cfg_user_key = pt_user_key p\<rparr>) (lc_ports lc)"

definition uci_plan :: "'s uci_api \<Rightarrow> 's list \<Rightarrow> daemon_op list option" where
  "uci_plan U secs =
     (let lss = filter (\<lambda>s. section_type U s = ''lacp'' \<and> lacp_enabled_section U s) secs;
          sss = filter (\<lambda>s. section_type U s = ''switch'') secs;
          pts = filter (\<lambda>s. section_type U s = ''port'') secs
      in if (\<forall>s \<in> set lss. configured_lacp U s \<noteq> None) \<and> (\<forall>s \<in> set sss. configured_switch U s \<noteq> None)
         then
           let lcs = map (\<lambda>s. the (configured_lacp U s)) lss;
               sws = map (\<lambda>s. the (configured_switch U s)) sss;
               names = map lc_section_name lcs
           in if \<forall>s \<in> set pts. port_valid U names sws s
              then Some (concat (map (\<lambda>i. instance_requests ((lcs ! i)\<lparr>lc_ports := ports_at U names sws pts i\<rparr>)) [0..<length lcs]))
              else None
         else None)"

text \<open>Requests to the wrapper, up to the first that is refused.\<close>

fun request :: "'w lacpd_cfg_user \<Rightarrow> daemon_op \<Rightarrow> 'w \<Rightarrow> bool \<times> 'w" where
  "request user (Cfg_New name prm) w = user_lacp_new user name prm w"
| "request user (Cfg_Destroy name) w = user_lacp_destroy user name w"
| "request user (Cfg_Add_Dev name dev prm) w = user_add_dev user name dev prm w"
| "request user (Cfg_Del_Dev name dev) w = user_del_dev user name dev w"
| "request user _ w = (True, w)"

fun requests :: "'w lacpd_cfg_user \<Rightarrow> daemon_op list \<Rightarrow> 'w \<Rightarrow> bool \<times> 'w" where
  "requests user [] w = (True, w)"
| "requests user (cmd # cmds) w =
     (let (ok, w1) = request user cmd w in if ok then requests user cmds w1 else (False, w1))"

lemma requests_append:
  "requests user (xs @ ys) w = (let (ok, w1) = requests user xs w in if ok then requests user ys w1 else (False, w1))"
  by (induction xs arbitrary: w) (auto simp: split_beta Let_def)

lemma requests_ports:
  "requests user (map (\<lambda>p. Cfg_Add_Dev (Some name) (uci_port_name p) \<lparr>cfg_user_key = pt_user_key p\<rparr>) ps) w =
     add_ports user name ps w"
  by (induction ps arbitrary: w) (auto simp: split_beta Let_def)

lemma requests_instances: "requests user (concat (map instance_requests lcs)) w = create_instances user lcs w"
  by (induction lcs arbitrary: w) (auto simp: instance_requests_def requests_append requests_ports split_beta Let_def)

subsection \<open>Reading the sections\<close>

text \<open>
  With enough memory each parser is a pure step on the configuration, except for what allocating
  changes in the system.
\<close>

definition parses :: "'c option \<Rightarrow> ('k, 'z) qca_state_scheme \<Rightarrow> bool \<times> 'c \<times> ('k, 'z) qca_state_scheme \<Rightarrow> bool" where
  "parses f w res \<longleftrightarrow> (\<exists>c k. res = (f \<noteq> None, c, w\<lparr>kernel := k\<rparr>) \<and> (\<forall>d. f = Some d \<longrightarrow> c = d))"

fun steps :: "('s \<Rightarrow> 'c \<Rightarrow> 'c option) \<Rightarrow> 's list \<Rightarrow> 'c \<Rightarrow> 'c option" where
  "steps f [] c = Some c"
| "steps f (s # ss) c = (case f s c of None \<Rightarrow> None | Some d \<Rightarrow> steps f ss d)"

lemma parses_None: "parses None w (False, c, w)" "parses None w (False, c, w\<lparr>kernel := k\<rparr>)"
  by (auto simp: parses_def intro: exI [of _ "kernel w"])

lemma parses_Some: "parses (Some c) w (True, c, w)" "parses (Some c) w (True, c, w\<lparr>kernel := k\<rparr>)"
  by (auto simp: parses_def intro: exI [of _ "kernel w"])

lemma parse_sections_steps:
  assumes "\<And>s c v. parses (f s c) v (parse s c v)"
  shows "parses (steps f (filter sel ss) c) w (parse_sections parse sel ss c w)"
proof (induction ss arbitrary: c w)
  case (Cons s ss)
  show ?case
  proof (cases "sel s")
    case True
    obtain d k where p: "parse s c w = (f s c \<noteq> None, d, w\<lparr>kernel := k\<rparr>)" "\<forall>e. f s c = Some e \<longrightarrow> d = e"
      using assms [of s c w] by (auto simp: parses_def)
    show ?thesis
    proof (cases "f s c")
      case None
      with True p show ?thesis by (simp add: parses_None)
    next
      case (Some e)
      with True p Cons.IH [of d "w\<lparr>kernel := k\<rparr>"] show ?thesis by (auto simp: parses_def)
    qed
  next
    case False
    with Cons.IH show ?thesis by simp
  qed
qed (simp add: parses_Some)

lemma alloc_always:
  assumes "\<forall>k. fst (k_alloc K k)"
  obtains k where "kcall (k_alloc K) w = (True, w\<lparr>kernel := k\<rparr>)"
  using assms by (auto simp: kcall_def split_beta)

definition uci_lacp_step where
  "uci_lacp_step U s cfg =
     (if \<not> lacp_enabled_section U s then Some cfg
      else map_option (\<lambda>lc. cfg\<lparr>cfg_lacp_instances := cfg_lacp_instances cfg @ [lc]\<rparr>) (configured_lacp U s))"

lemma lacp_section_step:
  assumes "\<forall>k. fst (k_alloc K k)"
  shows "parses (uci_lacp_step U s cfg) w (lacpd_uci_cfg_parse_lacp_section U K s cfg w)"
proof -
  obtain k where k: "kcall (k_alloc K) w = (True, w\<lparr>kernel := k\<rparr>)" using alloc_always [OF assms] .
  have rate: "(b = Some True) = blobmsg_get_bool_default b LACPDU_RATE_DEFAULT" for b
    by (auto simp: blobmsg_get_bool_default_def LACPDU_RATE_DEFAULT_def split: option.split)
  show ?thesis
    unfolding uci_lacp_step_def configured_lacp_def lacpd_uci_cfg_parse_lacp_section_def lacp_enabled_section_def rate
      LACPD_TX_HASH_POLICY_DEFAULT_def [symmetric] LACPD_SELECT_ALG_DEFAULT_def [symmetric]
    by (simp add: k parses_None parses_Some snprintf_buf_def LACPD_CONFIG_SYS_NAME_SIZE_def list_add_tail_def
        LACPD_INSTANCE_PRIORITY_DEFAULT_def Let_def split: option.split)
qed

definition uci_switch_step where
  "uci_switch_step U s cfg = map_option (\<lambda>sw. cfg\<lparr>cfg_switches := cfg_switches cfg @ [sw]\<rparr>) (configured_switch U s)"

lemma switch_section_step:
  assumes "\<forall>k. fst (k_alloc K k)"
  shows "parses (uci_switch_step U s cfg) w (lacpd_uci_cfg_parse_switch_section U K s cfg w)"
proof -
  obtain k where k: "kcall (k_alloc K) w = (True, w\<lparr>kernel := k\<rparr>)" using alloc_always [OF assms] .
  show ?thesis
    by (simp add: uci_switch_step_def configured_switch_def lacpd_uci_cfg_parse_switch_section_def k parses_None parses_Some
        snprintf_buf_def LACPD_CONFIG_SYS_NAME_SIZE_def list_add_tail_def Let_def split: option.split)
qed

definition uci_port_step where
  "uci_port_step U s cfg =
     (if \<not> port_complete U s then None
      else if \<not> port_enabled_section U s then Some cfg
      else case (port_instance U (map lc_section_name (cfg_lacp_instances cfg)) s, configured_port U (cfg_switches cfg) s) of
        (Some i, Some p) \<Rightarrow> Some (cfg\<lparr>cfg_lacp_instances := (cfg_lacp_instances cfg)
            [i := (cfg_lacp_instances cfg ! i)\<lparr>lc_ports := lc_ports (cfg_lacp_instances cfg ! i) @ [p]\<rparr>]\<rparr>)
      | _ \<Rightarrow> None)"

lemma position_of_map: "position_of P (map f xs) = position_of (\<lambda>x. P (f x)) xs"
  by (induction xs) auto

lemma position_of_less: "position_of P xs = Some i \<Longrightarrow> i < length xs"
  by (induction xs arbitrary: i) (auto split: if_splits)

lemma port_section_step:
  assumes "\<forall>k. fst (k_alloc K k)"
  shows "parses (uci_port_step U s cfg) w (lacpd_uci_cfg_parse_port_section U K s cfg w)"
proof -
  obtain k where k: "kcall (k_alloc K) w = (True, w\<lparr>kernel := k\<rparr>)" using alloc_always [OF assms] .
  show ?thesis
    unfolding uci_port_step_def lacpd_uci_cfg_parse_port_section_def port_enabled_section_def port_complete_def
      configured_port_def port_instance_def position_of_map lacpd_uci_cfg_lookup_lacp_instance_def lacpd_uci_cfg_lookup_switch_def
      LACPD_CONFIG_SYS_NAME_SIZE_def lacp_port_attrs.simps snprintf_buf_def LACPD_USER_KEY_DEFAULT_def list_add_tail_def
    by (simp add: k parses_None parses_Some Let_def split: option.split)
qed

subsection \<open>All sections\<close>

lemma steps_lacp:
  "steps (uci_lacp_step U) ss cfg =
     (let es = filter (lacp_enabled_section U) ss in
      if \<forall>s \<in> set es. configured_lacp U s \<noteq> None
      then Some (cfg\<lparr>cfg_lacp_instances := cfg_lacp_instances cfg @ map (\<lambda>s. the (configured_lacp U s)) es\<rparr>) else None)"
  by (induction ss arbitrary: cfg) (auto simp: uci_lacp_step_def Let_def split: option.split)

lemma steps_switch:
  "steps (uci_switch_step U) ss cfg =
     (if \<forall>s \<in> set ss. configured_switch U s \<noteq> None
      then Some (cfg\<lparr>cfg_switches := cfg_switches cfg @ map (\<lambda>s. the (configured_switch U s)) ss\<rparr>) else None)"
  by (induction ss arbitrary: cfg) (auto simp: uci_switch_step_def split: option.split)

text \<open>The instances with the ports of the sections \<open>pts\<close>.\<close>

definition with_ports where
  "with_ports U sws pts lcs =
     map (\<lambda>i. (lcs ! i)\<lparr>lc_ports := lc_ports (lcs ! i) @ ports_at U (map lc_section_name lcs) sws pts i\<rparr>) [0..<length lcs]"

lemma with_ports_Nil [simp]: "with_ports U sws [] lcs = lcs"
  by (simp add: with_ports_def ports_at_def map_nth)

lemma steps_ports:
  "steps (uci_port_step U) pts cfg =
     (if \<forall>s \<in> set pts. port_valid U (map lc_section_name (cfg_lacp_instances cfg)) (cfg_switches cfg) s
      then Some (cfg\<lparr>cfg_lacp_instances := with_ports U (cfg_switches cfg) pts (cfg_lacp_instances cfg)\<rparr>) else None)"
proof (induction pts arbitrary: cfg)
  case (Cons s pts)
  let ?lcs = "cfg_lacp_instances cfg" and ?sws = "cfg_switches cfg"
  let ?names = "map lc_section_name ?lcs"
  show ?case
  proof (cases "port_valid U ?names ?sws s \<and> port_enabled_section U s")
    case True
    then obtain i q where q: "port_instance U ?names s = Some i" "configured_port U ?sws s = Some q"
      by (auto simp: port_valid_def)
    define lcs1 where "lcs1 = ?lcs[i := (?lcs ! i)\<lparr>lc_ports := lc_ports (?lcs ! i) @ [q]\<rparr>]"
    have i: "i < length ?lcs" using q(1) position_of_less by (fastforce simp: port_instance_def split: option.splits)
    have step: "uci_port_step U s cfg = Some (cfg\<lparr>cfg_lacp_instances := lcs1\<rparr>)"
      using True q by (simp add: uci_port_step_def port_valid_def lcs1_def)
    have names: "map lc_section_name lcs1 = ?names" by (simp add: lcs1_def map_update list_update_same_conv i)
    have "with_ports U ?sws pts lcs1 = with_ports U ?sws (s # pts) ?lcs"
      unfolding with_ports_def names ports_at_def
      by (rule nth_equalityI) (use True q i in \<open>auto simp: lcs1_def nth_list_update\<close>)
    with step True show ?thesis by (simp add: Cons.IH names)
  next
    case False
    show ?thesis
    proof (cases "port_valid U ?names ?sws s")
      case True
      then have "uci_port_step U s cfg = Some cfg" "with_ports U ?sws (s # pts) ?lcs = with_ports U ?sws pts ?lcs"
        using False by (simp_all add: uci_port_step_def port_valid_def with_ports_def ports_at_def)
      with True show ?thesis by (simp add: Cons.IH)
    next
      case invalid: False
      then have "uci_port_step U s cfg = None" by (auto simp: uci_port_step_def port_valid_def split: option.split)
      with invalid show ?thesis by simp
    qed
  qed
qed simp

subsection \<open>The package as a whole\<close>

lemma no_ports: "configured_lacp U s = Some lc \<Longrightarrow> lc_ports lc = []"
  by (auto simp: configured_lacp_def split: option.splits)

text \<open>The plan in terms of the steps\<close>

lemma uci_plan_steps:
  assumes "cfg_lacp_instances c = []" and "cfg_switches c = []"
  shows "uci_plan U secs =
    (case steps (uci_lacp_step U) (filter (\<lambda>s. section_type U s = ''lacp'') secs) c of None \<Rightarrow> None
     | Some c1 \<Rightarrow>
        (case steps (uci_switch_step U) (filter (\<lambda>s. section_type U s = ''switch'') secs) c1 of None \<Rightarrow> None
         | Some c2 \<Rightarrow> map_option (\<lambda>c3. concat (map instance_requests (cfg_lacp_instances c3)))
             (steps (uci_port_step U) (filter (\<lambda>s. section_type U s = ''port'') secs) c2)))"
proof -
  define lss where "lss = filter (\<lambda>s. section_type U s = ''lacp'' \<and> lacp_enabled_section U s) secs"
  have lss: "filter (lacp_enabled_section U) (filter (\<lambda>s. section_type U s = ''lacp'') secs) = lss"
    by (simp add: lss_def conj_commute)
  define lcs where "lcs = map (\<lambda>s. the (configured_lacp U s)) lss"
  have plan: "map (\<lambda>i. instance_requests ((lcs ! i)\<lparr>lc_ports := ports_at U (map lc_section_name lcs) sws pts i\<rparr>)) [0..<length lcs] =
      map instance_requests (with_ports U sws pts lcs)" if "\<forall>s \<in> set lss. configured_lacp U s \<noteq> None" for sws pts
  proof -
    have "lc_ports (lcs ! i) = []" if i: "i < length lcs" for i
    proof -
      have "configured_lacp U (lss ! i) \<noteq> None" using \<open>\<forall>s \<in> set lss. _\<close> i by (simp add: lcs_def)
      with i show ?thesis by (auto simp: lcs_def no_ports)
    qed
    then show ?thesis unfolding with_ports_def map_map o_def by (intro map_cong) simp_all
  qed
  show ?thesis
  proof (cases "\<forall>s \<in> set lss. configured_lacp U s \<noteq> None")
    case True
    show ?thesis
      unfolding uci_plan_def lss_def [symmetric] steps_lacp lss Let_def lcs_def [symmetric] plan [OF True]
      by (simp add: steps_switch steps_ports assms True Let_def lcs_def [symmetric]) blast
  next
    case False
    then show ?thesis unfolding uci_plan_def lss_def [symmetric] steps_lacp lss Let_def by auto
  qed
qed

lemma package_loaded:
  assumes "\<forall>k. fst (k_alloc K k)" and "uci_package_load U pkg = Some secs"
  obtains c k where "lacpd_uci_cfg_init_package U K pkg (cfg\<lparr>cfg_switches := [], cfg_lacp_instances := []\<rparr>) w =
      (Some secs, c, w\<lparr>kernel := k\<rparr>)" "cfg_lacp_instances c = []" "cfg_switches c = []"
proof (cases "uci_ctx cfg")
  case True
  then show ?thesis using that [of "cfg\<lparr>cfg_switches := [], cfg_lacp_instances := []\<rparr>" "kernel w"] assms(2)
    by (simp add: lacpd_uci_cfg_init_package_def)
next
  case False
  obtain k where "kcall (k_alloc K) w = (True, w\<lparr>kernel := k\<rparr>)" using alloc_always [OF assms(1)] .
  with False assms(2) that show ?thesis by (simp add: lacpd_uci_cfg_init_package_def)
qed

text \<open>Each of the three passes over the sections, started in any state that differs from \<open>w\<close> in the system only\<close>

lemma pass:
  assumes "\<And>s c v. parses (f s c) v (parse s c v)"
  obtains c' k' where "parse_sections parse sel ss c (w\<lparr>kernel := k\<rparr>) = (steps f (filter sel ss) c \<noteq> None, c', w\<lparr>kernel := k'\<rparr>)"
    "\<forall>d. steps f (filter sel ss) c = Some d \<longrightarrow> c' = d"
  using parse_sections_steps [where f = f and parse = parse, OF assms, of sel ss c "w\<lparr>kernel := k\<rparr>"]
  unfolding parses_def by fastforce

lemma uci_init_plan:
  assumes alloc: "\<forall>k. fst (k_alloc K k)" and load: "uci_package_load U pkg = Some secs"
  shows "\<exists>k. case uci_plan U secs of
      None \<Rightarrow> \<not> fst (lacpd_uci_cfg_init U K user (Some pkg) cfg w) \<and>
        snd (snd (lacpd_uci_cfg_init U K user (Some pkg) cfg w)) = w\<lparr>kernel := k\<rparr>
    | Some cmds \<Rightarrow> (fst (lacpd_uci_cfg_init U K user (Some pkg) cfg w),
        snd (snd (lacpd_uci_cfg_init U K user (Some pkg) cfg w))) = requests user cmds (w\<lparr>kernel := k\<rparr>)"
proof -
  obtain k1 c where p: "lacpd_uci_cfg_init_package U K pkg (cfg\<lparr>cfg_switches := [], cfg_lacp_instances := []\<rparr>) w =
      (Some secs, c, w\<lparr>kernel := k1\<rparr>)" "cfg_lacp_instances c = []" "cfg_switches c = []"
    by (rule package_loaded [OF alloc load])
  define c0 where "c0 = c\<lparr>uci_lacp := Some secs\<rparr>"
  have c0: "cfg_lacp_instances c0 = []" "cfg_switches c0 = []" using p by (simp_all add: c0_def)
  define f1 where "f1 = steps (uci_lacp_step U) (filter (\<lambda>s. section_type U s = ''lacp'') secs) c0"
  obtain c1 k2 where 1: "lacpd_uci_cfg_parse_lacp U K secs c0 (w\<lparr>kernel := k1\<rparr>) = (f1 \<noteq> None, c1, w\<lparr>kernel := k2\<rparr>)"
      "\<forall>d. f1 = Some d \<longrightarrow> c1 = d"
    unfolding lacpd_uci_cfg_parse_lacp_def f1_def by (rule pass [OF lacp_section_step [OF alloc]])
  define f2 where "f2 = steps (uci_switch_step U) (filter (\<lambda>s. section_type U s = ''switch'') secs) c1"
  obtain c2 k3 where 2: "lacpd_uci_cfg_parse_switch U K secs c1 (w\<lparr>kernel := k2\<rparr>) = (f2 \<noteq> None, c2, w\<lparr>kernel := k3\<rparr>)"
      "\<forall>d. f2 = Some d \<longrightarrow> c2 = d"
    unfolding lacpd_uci_cfg_parse_switch_def f2_def by (rule pass [OF switch_section_step [OF alloc]])
  define f3 where "f3 = steps (uci_port_step U) (filter (\<lambda>s. section_type U s = ''port'') secs) c2"
  obtain c3 k4 where 3: "lacpd_uci_cfg_parse_port U K secs c2 (w\<lparr>kernel := k3\<rparr>) = (f3 \<noteq> None, c3, w\<lparr>kernel := k4\<rparr>)"
      "\<forall>d. f3 = Some d \<longrightarrow> c3 = d"
    unfolding lacpd_uci_cfg_parse_port_def f3_def by (rule pass [OF port_section_step [OF alloc]])
  have plan: "uci_plan U secs = (if f1 = None \<or> f2 = None then None
      else map_option (\<lambda>c. concat (map instance_requests (cfg_lacp_instances c))) f3)"
    using 1(2) 2(2) unfolding uci_plan_steps [OF c0] f1_def f2_def f3_def by (auto split: option.split)
  let ?r = "lacpd_uci_cfg_init U K user (Some pkg) cfg w"
  have r: "?r = (if f1 = None then (False, c1, w\<lparr>kernel := k2\<rparr>) else if f2 = None then (False, c2, w\<lparr>kernel := k3\<rparr>)
      else if f3 = None then (False, c3, w\<lparr>kernel := k4\<rparr>)
      else (case create_instances user (cfg_lacp_instances c3) (w\<lparr>kernel := k4\<rparr>) of (ok, v) \<Rightarrow> (ok, c3, v)))"
    by (simp add: lacpd_uci_cfg_init_def p(1) c0_def [symmetric] 1(1) 2(1) 3(1) split_beta)
  show ?thesis
  proof (cases "f1 = None \<or> f2 = None \<or> f3 = None")
    case True
    then show ?thesis by (auto simp: plan r)
  next
    case False
    with 3(2) show ?thesis by (auto simp: plan r requests_instances split_beta intro!: exI [of _ k4])
  qed
qed

end
