(* ===== verification/Ubus_Methods.thy ===== *)
theory Ubus_Methods
  imports Wrapper
begin

text \<open>
  The methods of the daemon on ubus (qca/src/qca-lacpd/status/status_ubus.c, status_ubus.h): the
  status of the instances and the two queries about aggregators. Messages are taken apart by
  libubox's \<^verbatim>\<open>blobmsg_parse\<close> and sent by libubus.
\<close>

subsection \<open>Requests and replies\<close>

text \<open>
  What \<^verbatim>\<open>blobmsg_parse\<close> finds in the message of a request, by the name and the type of an argument,
  and what a method gives: its status and the reply it has sent, if any.
\<close>

record ubus_request =
  msg_string :: "string \<Rightarrow> string option"
  msg_int32 :: "string \<Rightarrow> u32 option"

datatype ubus_status = UBUS_STATUS_OK | UBUS_STATUS_INVALID_ARGUMENT

type_synonym ubus_answer = "ubus_status \<times> blob_item list option"

text \<open>What a status system can ask the wrapper for\<close>

record 'w lacpd_status_user =
  st_os_service :: bool
  user_status_dump :: "string option \<Rightarrow> 'w \<Rightarrow> lacpd_status_field_type list"
  user_get_aggregator_of_port :: "string \<Rightarrow> u32 \<Rightarrow> 'w \<Rightarrow> u32"
  user_get_ports_of_aggregator :: "string \<Rightarrow> u32 \<Rightarrow> 'w \<Rightarrow> u32"

datatype status_dump_arg = LACPD_STATUS_DUMP_ARG_LACP_NAME
datatype get_agg_of_port_arg = LACPD_GET_AGG_OF_PORT_ARG_SW_NAME | LACPD_GET_AGG_OF_PORT_ARG_PORT_ID
datatype get_ports_of_agg_arg = LACPD_GET_PORTS_OF_AGG_ARG_SW_NAME | LACPD_GET_PORTS_OF_AGG_ARG_AGG_ID

fun lacpd_ubus_status_dump_policy :: "status_dump_arg \<Rightarrow> string" where
  "lacpd_ubus_status_dump_policy LACPD_STATUS_DUMP_ARG_LACP_NAME = ''lacp_name''"

fun lacpd_ubus_get_aggregator_of_port_policy :: "get_agg_of_port_arg \<Rightarrow> string" where
  "lacpd_ubus_get_aggregator_of_port_policy LACPD_GET_AGG_OF_PORT_ARG_SW_NAME = ''sw_name''"
| "lacpd_ubus_get_aggregator_of_port_policy LACPD_GET_AGG_OF_PORT_ARG_PORT_ID = ''port_num''"

fun lacpd_ubus_get_ports_of_aggregator_policy :: "get_ports_of_agg_arg \<Rightarrow> string" where
  "lacpd_ubus_get_ports_of_aggregator_policy LACPD_GET_PORTS_OF_AGG_ARG_SW_NAME = ''sw_name''"
| "lacpd_ubus_get_ports_of_aggregator_policy LACPD_GET_PORTS_OF_AGG_ARG_AGG_ID = ''agg_num''"

subsection \<open>Methods\<close>

text \<open>The cookies of the printer are on the stack and not initialised: \<open>p\<close> is what is there.\<close>

definition lacpd_ubus_status_dump ::
    "'w lacpd_status_user \<Rightarrow> lacpd_status_printer \<Rightarrow> ubus_request \<Rightarrow> 'w \<Rightarrow> ubus_answer outcome" where
  "lacpd_ubus_status_dump user p msg w =
     (let name = msg_string msg (lacpd_ubus_status_dump_policy LACPD_STATUS_DUMP_ARG_LACP_NAME) in
      bind_outcome (print_fields (p\<lparr>bf := []\<rparr>) (user_status_dump user name w))
        (\<lambda>q. Returns (UBUS_STATUS_OK, Some (bf q))))"

definition lacpd_ubus_get_aggregator_of_port :: "'w lacpd_status_user \<Rightarrow> ubus_request \<Rightarrow> 'w \<Rightarrow> ubus_answer" where
  "lacpd_ubus_get_aggregator_of_port user msg w =
     (case (msg_string msg (lacpd_ubus_get_aggregator_of_port_policy LACPD_GET_AGG_OF_PORT_ARG_SW_NAME),
            msg_int32 msg (lacpd_ubus_get_aggregator_of_port_policy LACPD_GET_AGG_OF_PORT_ARG_PORT_ID)) of
        (Some name, Some port_id) \<Rightarrow>
          (UBUS_STATUS_OK, Some [Add_U32 ''aggregator_id'' (user_get_aggregator_of_port user name port_id w)])
      | _ \<Rightarrow> (UBUS_STATUS_INVALID_ARGUMENT, None))"

definition lacpd_ubus_get_ports_of_aggregator :: "'w lacpd_status_user \<Rightarrow> ubus_request \<Rightarrow> 'w \<Rightarrow> ubus_answer" where
  "lacpd_ubus_get_ports_of_aggregator user msg w =
     (case (msg_string msg (lacpd_ubus_get_ports_of_aggregator_policy LACPD_GET_PORTS_OF_AGG_ARG_SW_NAME),
            msg_int32 msg (lacpd_ubus_get_ports_of_aggregator_policy LACPD_GET_PORTS_OF_AGG_ARG_AGG_ID)) of
        (Some name, Some agg_id) \<Rightarrow>
          (UBUS_STATUS_OK, Some [Add_U32 ''bitmap_of_ports'' (user_get_ports_of_aggregator user name agg_id w)])
      | _ \<Rightarrow> (UBUS_STATUS_INVALID_ARGUMENT, None))"

text \<open>The methods of the ubus object by name; libubus answers other names itself.\<close>

definition lacpd_ubus_object_methods ::
    "'w lacpd_status_user \<Rightarrow> lacpd_status_printer \<Rightarrow> string \<Rightarrow> (ubus_request \<Rightarrow> 'w \<Rightarrow> ubus_answer outcome) option" where
  "lacpd_ubus_object_methods user p method =
     (if method = ''status'' then Some (lacpd_ubus_status_dump user p)
      else if method = ''get_aggregator_of_port''
      then Some (\<lambda>msg w. Returns (lacpd_ubus_get_aggregator_of_port user msg w))
      else if method = ''get_ports_of_aggregator''
      then Some (\<lambda>msg w. Returns (lacpd_ubus_get_ports_of_aggregator user msg w))
      else None)"

text \<open>\<^verbatim>\<open>__lacpd_wrapper.status_user\<close>\<close>

definition wrapper_status_user ::
    "'k qca_kernel \<Rightarrow> ('k, 'h) hub_ops \<Rightarrow> (sys_ref \<Rightarrow> ('k, 'h) daemon_state general_device_ops) \<Rightarrow>
     ('k, 'h) daemon_state lacpd_status_user" where
  "wrapper_status_user K D E = \<lparr>
     st_os_service = True,
     user_status_dump = lacpd_wrapper_dump_status K D,
     user_get_aggregator_of_port = lacpd_wrapper_get_aggregator_of_port E,
     user_get_ports_of_aggregator = lacpd_wrapper_get_ports_of_aggregator E\<rparr>"

subsection \<open>The status of all instances\<close>

text \<open>Fields that keep a message well nested, or overrun the string buffer.\<close>

definition prints_nested :: "lacpd_status_field_type list \<Rightarrow> bool \<Rightarrow> bool" where
  "prints_nested fs ok \<longleftrightarrow> (\<forall>p. nesting (0, []) (bf p) = Some (length (bf p), []) \<longrightarrow>
     (if ok then \<exists>q. print_fields p fs = Returns q \<and> nesting (0, []) (bf q) = Some (length (bf q), [])
      else print_fields p fs = Fault Out_Of_Bounds))"

lemma prints_nested_append: "prints_nested fs a \<Longrightarrow> prints_nested gs b \<Longrightarrow> prints_nested (fs @ gs) (a \<and> b)"
  unfolding prints_nested_def print_fields_append by (fastforce split: if_splits)

lemma prints_nested_concat:
  "(\<And>x. x \<in> set xs \<Longrightarrow> prints_nested (f x) (ok x)) \<Longrightarrow> prints_nested (concat (map f xs)) (\<forall>x \<in> set xs. ok x)"
proof (induction xs)
  case Nil
  then show ?case by (simp add: prints_nested_def)
next
  case (Cons x xs)
  have "prints_nested (f x @ concat (map f xs)) (ok x \<and> (\<forall>x \<in> set xs. ok x))"
    by (rule prints_nested_append) (use Cons in auto)
  then show ?case by simp
qed

abbreviation flags_of_ports_fit :: "'e lacpd_lacp \<Rightarrow> bool" where
  "flags_of_ports_fit s \<equiv>
     list_all (\<lambda>x. flags_fit (actor_state (port_mem s x)) \<and> flags_fit (partner_state (port_mem s x))) (ports s)"

lemma dump_nested: "prints_nested (lacpd_status_dump api s) (flags_of_ports_fit s)"
  unfolding prints_nested_def using status_dump_result [of _ s api] by blast

text \<open>The instances that a request for a name, or for all of them, is about.\<close>

definition dumped_instances :: "string option \<Rightarrow> ('k, 'h) daemon_state \<Rightarrow> user_ref list" where
  "dumped_instances name w = filter (\<lambda>u. lacp_obj w u \<noteq> None \<and>
     (case name of None \<Rightarrow> True | Some n \<Rightarrow> strncmp_eq LACPD_CONFIG_SYS_NAME_SIZE n (inst_name w u))) (wrappers w)"

lemma dump_status_nested:
  "prints_nested (lacpd_wrapper_dump_status K D name w)
     (\<forall>u \<in> set (dumped_instances name w). flags_of_ports_fit (the (lacp_obj w u)))"
proof -
  have "prints_nested (concat (map (\<lambda>u. lacpd_status_dump (lacp_user K D u) ((the (lacp_obj w u))\<lparr>env := hub w\<rparr>)) (dumped_instances name w)))
      (\<forall>u \<in> set (dumped_instances name w). flags_of_ports_fit (the (lacp_obj w u)))"
    by (rule prints_nested_concat)
      (use dump_nested [of "lacp_user K D _" "(the (lacp_obj w _))\<lparr>env := hub w\<rparr>"] in simp)
  moreover have "prints_nested [LACP_STATUS_FIELD_ERROR e] True" for e
    by (simp add: prints_nested_def nesting_append)
  ultimately show ?thesis
    unfolding lacpd_wrapper_dump_status_def Let_def dumped_instances_def [symmetric]
    using prints_nested_append [of "concat (map (\<lambda>u. lacpd_status_dump (lacp_user K D u) ((the (lacp_obj w u))\<lparr>env := hub w\<rparr>)) (dumped_instances name w))"
      _ "[LACP_STATUS_FIELD_ERROR _]" True] by (cases "dumped_instances name w = []") simp_all
qed

end
