(* ===== verification/Genl_Linux.thy ===== *)
theory Genl_Linux
  imports Qca_Driver
begin

text \<open>
  The system of the network devices of Linux
  (qca/src/qca-lacpd/lib_general_device/general_device_linux.c and .h). Names and indices, the
  ioctls on a socket and the files of sysfs are a parameter; aggregation is not implemented there.
\<close>

subsection \<open>What the system is asked for\<close>

text \<open>
  \<open>l_indextoname\<close> and \<open>l_nametoindex\<close> are \<^verbatim>\<open>if_indextoname\<close> (None for NULL) and
  \<^verbatim>\<open>if_nametoindex\<close> (0 if there is no such device). \<open>l_socket\<close> is the descriptor that
  \<^verbatim>\<open>socket(AF_INET, SOCK_DGRAM, 0)\<close> would give now; as every function closes it again, a call leaves
  the system as it was. The three ioctls give None when they fail. \<open>l_fopen\<close> opens a file for writing,
  \<open>l_fwrite\<close> writes one byte to it, closes it, and gives the count of \<^verbatim>\<open>fwrite\<close>.
\<close>

record 'k linux_kernel =
  l_indextoname :: "'k \<Rightarrow> u32 \<Rightarrow> string option"
  l_nametoindex :: "'k \<Rightarrow> string \<Rightarrow> u32"
  l_socket :: "'k \<Rightarrow> int"
  l_siocgifflags :: "'k \<Rightarrow> string \<Rightarrow> u16 option"
  l_ethtool_gset :: "'k \<Rightarrow> string \<Rightarrow> (u8 \<times> u16) option"
  l_siocgifhwaddr :: "'k \<Rightarrow> string \<Rightarrow> mac_addr option"
  l_readable :: "'k \<Rightarrow> string \<Rightarrow> bool"
  l_fopen :: "string \<Rightarrow> 'k \<Rightarrow> bool \<times> 'k"
  l_fwrite :: "string \<Rightarrow> 'k \<Rightarrow> nat \<times> 'k"

definition GENL_LINUX_NETDEV_DOMAIN :: u32 where "GENL_LINUX_NETDEV_DOMAIN = 0"

text \<open>Sizes and flags of \<^verbatim>\<open>linux/if.h\<close>\<close>

definition IFNAMSIZ :: nat where "IFNAMSIZ = 16"
definition IFF_UP :: u16 where "IFF_UP = 0x1"
definition IFF_RUNNING :: u16 where "IFF_RUNNING = 0x40"

subsection \<open>Operations\<close>

definition genl_dev_linux_init :: "'w \<Rightarrow> bool \<times> 'w" where
  "genl_dev_linux_init w = (True, w)"

definition genl_dev_linux_exit :: "'w \<Rightarrow> bool \<times> 'w" where
  "genl_dev_linux_exit w = (True, w)"

definition genl_dev_linux_get_hw_addr :: "'w \<Rightarrow> mac_addr option \<times> 'w" where
  "genl_dev_linux_get_hw_addr w = (None, w)"

definition genl_dev_linux_ndev_is_compatible :: "'k linux_kernel \<Rightarrow> u32 \<Rightarrow> ('k, 'z) qca_state_scheme \<Rightarrow> bool" where
  "genl_dev_linux_ndev_is_compatible N netdev_obj w =
     (if netdev_obj_to_domain netdev_obj \<noteq> GENL_LINUX_NETDEV_DOMAIN then False
      else l_indextoname N (kernel w) netdev_obj \<noteq> None)"

definition genl_dev_linux_ndev_name_to_netdev_obj ::
    "'k linux_kernel \<Rightarrow> string option \<Rightarrow> ('k, 'z) qca_state_scheme \<Rightarrow> u32" where
  "genl_dev_linux_ndev_name_to_netdev_obj N netdev_name w =
     (case netdev_name of None \<Rightarrow> GENERAL_DEVICE_INVALID_ID | Some n \<Rightarrow> l_nametoindex N (kernel w) n)"

definition genl_dev_linux_netdev_obj_to_name ::
    "'k linux_kernel \<Rightarrow> u32 \<Rightarrow> ('k, 'z) qca_state_scheme \<Rightarrow> string option" where
  "genl_dev_linux_netdev_obj_to_name N netdev_obj w =
     (if netdev_obj_to_domain netdev_obj \<noteq> GENL_LINUX_NETDEV_DOMAIN then None
      else l_indextoname N (kernel w) netdev_obj)"

definition genl_dev_linux_ndev_get_link_status :: "'k linux_kernel \<Rightarrow> u32 \<Rightarrow> ('k, 'z) qca_state_scheme \<Rightarrow> bool" where
  "genl_dev_linux_ndev_get_link_status N netdev_obj w =
     (if netdev_obj_to_domain netdev_obj \<noteq> GENL_LINUX_NETDEV_DOMAIN then False
      else case l_indextoname N (kernel w) netdev_obj of
        None \<Rightarrow> False
      | Some ifname \<Rightarrow>
          if l_socket N (kernel w) \<le> 0 then False
          else (case l_siocgifflags N (kernel w) (snprintf_buf IFNAMSIZ ifname) of
                  None \<Rightarrow> False
                | Some ifr_flags \<Rightarrow> ifr_flags AND (IFF_UP OR IFF_RUNNING) = (IFF_UP OR IFF_RUNNING)))"

definition genl_dev_linux_ndev_get_duplex :: "'k linux_kernel \<Rightarrow> u32 \<Rightarrow> ('k, 'z) qca_state_scheme \<Rightarrow> u32" where
  "genl_dev_linux_ndev_get_duplex N netdev_obj w =
     (if netdev_obj_to_domain netdev_obj \<noteq> GENL_LINUX_NETDEV_DOMAIN then 0
      else case l_indextoname N (kernel w) netdev_obj of
        None \<Rightarrow> 0
      | Some ifname \<Rightarrow>
          if l_socket N (kernel w) < 0 then 0
          else (case l_ethtool_gset N (kernel w) (snprintf_buf IFNAMSIZ ifname) of
                  None \<Rightarrow> 0
                | Some (ecmd_duplex, ecmd_speed) \<Rightarrow> ucast ecmd_duplex))"

definition genl_dev_linux_ndev_get_speed :: "'k linux_kernel \<Rightarrow> u32 \<Rightarrow> ('k, 'z) qca_state_scheme \<Rightarrow> u32" where
  "genl_dev_linux_ndev_get_speed N netdev_obj w =
     (if netdev_obj_to_domain netdev_obj \<noteq> GENL_LINUX_NETDEV_DOMAIN then 0
      else case l_indextoname N (kernel w) netdev_obj of
        None \<Rightarrow> 0
      | Some ifname \<Rightarrow>
          if l_socket N (kernel w) < 0 then 0
          else (case l_ethtool_gset N (kernel w) (snprintf_buf IFNAMSIZ ifname) of
                  None \<Rightarrow> 0
                | Some (ecmd_duplex, ecmd_speed) \<Rightarrow> ucast ecmd_speed))"

definition genl_dev_linux_ndev_get_hw_addr ::
    "'k linux_kernel \<Rightarrow> u32 \<Rightarrow> ('k, 'z) qca_state_scheme \<Rightarrow> mac_addr option \<times> ('k, 'z) qca_state_scheme" where
  "genl_dev_linux_ndev_get_hw_addr N netdev_obj w =
     (if netdev_obj_to_domain netdev_obj \<noteq> GENL_LINUX_NETDEV_DOMAIN then (None, w)
      else case l_indextoname N (kernel w) netdev_obj of
        None \<Rightarrow> (None, w)
      | Some ifname \<Rightarrow>
          if l_socket N (kernel w) \<le> 0 then (None, w)
          else (l_siocgifhwaddr N (kernel w) (snprintf_buf IFNAMSIZ ifname), w))"

definition genl_dev_linux_ndev_is_bridge_member ::
    "'k linux_kernel \<Rightarrow> u32 \<Rightarrow> u32 \<Rightarrow> ('k, 'z) qca_state_scheme \<Rightarrow> bool" where
  "genl_dev_linux_ndev_is_bridge_member N port_dev_obj br_dev_obj w =
     (if \<not> genl_dev_linux_ndev_is_compatible N br_dev_obj w then False
      else case (genl_dev_linux_netdev_obj_to_name N port_dev_obj w, genl_dev_linux_netdev_obj_to_name N br_dev_obj w) of
        (Some port_name, Some br_name) \<Rightarrow>
          l_readable N (kernel w) (snprintf_buf (32 + 2 * IFNAMSIZ) (''/sys/class/net/'' @ br_name @ ''/brif/'' @ port_name))
      | _ \<Rightarrow> False)"

text \<open>Writing a 1 to a file of sysfs: whether it could be opened and written.\<close>

definition write_one :: "'k linux_kernel \<Rightarrow> string \<Rightarrow> ('k, 'z) qca_state_scheme \<Rightarrow> bool \<times> ('k, 'z) qca_state_scheme" where
  "write_one N path w =
     (let (opened, w1) = kcall (l_fopen N path) w in
      if \<not> opened then (False, w1)
      else let (ret, w2) = kcall (l_fwrite N path) w1 in (ret = 1, w2))"

definition genl_dev_linux_ndev_flush_fdb ::
    "'k linux_kernel \<Rightarrow> u32 \<Rightarrow> ('k, 'z) qca_state_scheme \<Rightarrow> bool \<times> ('k, 'z) qca_state_scheme" where
  "genl_dev_linux_ndev_flush_fdb N port_dev_obj w =
     (case genl_dev_linux_netdev_obj_to_name N port_dev_obj w of
        None \<Rightarrow> (False, w)
      | Some port_name \<Rightarrow>
          let (ok, w1) = write_one N (snprintf_buf (32 + 2 * IFNAMSIZ)
                (''/sys/class/net/'' @ port_name @ ''/master/brif/'' @ port_name @ ''/flush'')) w
          in if ok then (True, w1)
             else write_one N (snprintf_buf (32 + 2 * IFNAMSIZ) (''/sys/class/net/'' @ port_name @ ''/bridge/flush'')) w1)"

text \<open>What is left to be done in the code fails.\<close>

definition genl_dev_linux_ndev_stp_enable :: "u32 \<Rightarrow> 'w \<Rightarrow> bool \<times> 'w" where
  "genl_dev_linux_ndev_stp_enable netdev_obj w = (False, w)"

definition genl_dev_linux_ndev_stp_disable :: "u32 \<Rightarrow> 'w \<Rightarrow> bool \<times> 'w" where
  "genl_dev_linux_ndev_stp_disable netdev_obj w = (False, w)"

definition genl_dev_linux_ndev_set_stp_state :: "u32 \<Rightarrow> general_device_stp_state \<Rightarrow> 'w \<Rightarrow> bool \<times> 'w" where
  "genl_dev_linux_ndev_set_stp_state netdev_obj state w = (False, w)"

definition genl_dev_linux_ndev_send_bpdu :: "u32 \<Rightarrow> u8 list \<Rightarrow> 'w \<Rightarrow> bool \<times> 'w" where
  "genl_dev_linux_ndev_send_bpdu netdev_obj buf w = (False, w)"

definition genl_dev_linux_ndev_lacp_enable :: "u32 \<Rightarrow> 'w \<Rightarrow> bool \<times> 'w" where
  "genl_dev_linux_ndev_lacp_enable netdev_obj w = (False, w)"

definition genl_dev_linux_ndev_lacp_disable :: "u32 \<Rightarrow> 'w \<Rightarrow> bool \<times> 'w" where
  "genl_dev_linux_ndev_lacp_disable netdev_obj w = (False, w)"

definition genl_dev_linux_new_aggregator :: "string \<Rightarrow> 'w \<Rightarrow> u32 \<times> 'w" where
  "genl_dev_linux_new_aggregator agg_name w = (GENERAL_DEVICE_INVALID_ID, w)"

definition genl_dev_linux_destroy_aggregator :: "u32 \<Rightarrow> 'w \<Rightarrow> bool \<times> 'w" where
  "genl_dev_linux_destroy_aggregator aggregator_dev_obj w = (False, w)"

definition genl_dev_linux_ndev_is_aggregator :: "u32 \<Rightarrow> u32 \<Rightarrow> 'w \<Rightarrow> bool" where
  "genl_dev_linux_ndev_is_aggregator master_dev_obj slave_dev_obj w = False"

definition genl_dev_linux_ndev_is_slave :: "u32 \<Rightarrow> u32 \<Rightarrow> 'w \<Rightarrow> bool" where
  "genl_dev_linux_ndev_is_slave slave_dev_obj master_dev_obj w = False"

definition genl_dev_linux_ndev_number_of_slaves :: "u32 \<Rightarrow> 'w \<Rightarrow> u32" where
  "genl_dev_linux_ndev_number_of_slaves master_dev_obj w = 0"

definition genl_dev_linux_ndev_attach_slave :: "u32 \<Rightarrow> u32 \<Rightarrow> 'w \<Rightarrow> bool \<times> 'w" where
  "genl_dev_linux_ndev_attach_slave master_dev_obj slave_dev_obj w = (False, w)"

definition genl_dev_linux_ndev_detach_slave :: "u32 \<Rightarrow> u32 \<Rightarrow> 'w \<Rightarrow> bool \<times> 'w" where
  "genl_dev_linux_ndev_detach_slave master_dev_obj slave_dev_obj w = (False, w)"

definition genl_dev_linux_ndev_send_lacpdu :: "u32 \<Rightarrow> u8 list \<Rightarrow> 'w \<Rightarrow> bool \<times> 'w" where
  "genl_dev_linux_ndev_send_lacpdu netdev_obj buf w = (False, w)"

subsection \<open>Registration\<close>

text \<open>
  The function table. \<^verbatim>\<open>agg.set_tx_hash_policy\<close> is not set there: \<open>genl_dev_linux_probe\<close> leaves it
  NULL. It is only called for an aggregator that \<^verbatim>\<open>new_aggregator\<close> has returned, of which there is
  none, so that its entry has no meaning.
\<close>

definition linux_system_ops :: "'k linux_kernel \<Rightarrow> ('k, 'z) qca_state_scheme general_device_ops" where
  "linux_system_ops N = \<lparr>
     dev_init = (\<lambda>w. Returns (genl_dev_linux_init w)),
     dev_exit = genl_dev_linux_exit,
     dev_private = None,
     system_get_hw_addr = (\<lambda>w. Returns (genl_dev_linux_get_hw_addr w)),
     common_is_compatible = genl_dev_linux_ndev_is_compatible N,
     common_name_to_netdev_obj = (\<lambda>n. genl_dev_linux_ndev_name_to_netdev_obj N (Some n)),
     common_netdev_obj_to_name = genl_dev_linux_netdev_obj_to_name N,
     common_get_link_status = genl_dev_linux_ndev_get_link_status N,
     common_get_duplex = genl_dev_linux_ndev_get_duplex N,
     common_get_speed = genl_dev_linux_ndev_get_speed N,
     common_get_hw_addr = (\<lambda>obj w. Returns (genl_dev_linux_ndev_get_hw_addr N obj w)),
     bridge_is_bridge_member = (\<lambda>obj br w. Returns (genl_dev_linux_ndev_is_bridge_member N obj br w)),
     bridge_flush_fdb = genl_dev_linux_ndev_flush_fdb N,
     stp_enable = genl_dev_linux_ndev_stp_enable,
     stp_disable = genl_dev_linux_ndev_stp_disable,
     stp_set_port_state = genl_dev_linux_ndev_set_stp_state,
     stp_send_bpdu = (\<lambda>obj buf w. Returns (genl_dev_linux_ndev_send_bpdu obj buf w)),
     agg_enable = genl_dev_linux_ndev_lacp_enable,
     agg_disable = genl_dev_linux_ndev_lacp_disable,
     agg_new_aggregator = genl_dev_linux_new_aggregator,
     agg_destroy_aggregator = genl_dev_linux_destroy_aggregator,
     agg_is_aggregator = genl_dev_linux_ndev_is_aggregator,
     agg_is_slave = genl_dev_linux_ndev_is_slave,
     agg_number_of_slaves = genl_dev_linux_ndev_number_of_slaves,
     agg_attach_slave = genl_dev_linux_ndev_attach_slave,
     agg_detach_slave = genl_dev_linux_ndev_detach_slave,
     agg_send_lacpdu = (\<lambda>obj buf w. Returns (genl_dev_linux_ndev_send_lacpdu obj buf w)),
     agg_set_tx_hash_policy = (\<lambda>obj policy w. (False, w))\<rparr>"

definition genl_dev_linux_probe :: "sys_ref \<Rightarrow> ('k, 'z) qca_state_scheme \<Rightarrow> ('k, 'z) qca_state_scheme" where
  "genl_dev_linux_probe l w =
     snd (genl_dev_system_register (Some l) (upd_sys l (\<lambda>S. S\<lparr>ds_name := ''linux''\<rparr>) w))"

subsection \<open>What holds of it\<close>

text \<open>
  What is relied on of the names of devices: an index fits below the domain byte, and a device that
  has an index has a name.
\<close>

definition names_law :: "'k linux_kernel \<Rightarrow> bool" where
  "names_law N \<longleftrightarrow> (\<forall>k n. l_nametoindex N k n \<noteq> 0 \<longrightarrow>
     unat (l_nametoindex N k n) < 2 ^ 24 \<and> l_indextoname N k (l_nametoindex N k n) \<noteq> None)"

lemma index_domain:
  assumes "unat (i :: u32) < 2 ^ 24"
  shows "netdev_obj_to_domain i = 0"
proof -
  have "\<not> bit i (24 + n)" for n using bit_unat_less [OF assms, of "24 + n"] by auto
  then show ?thesis
    unfolding netdev_obj_to_domain_def by (intro bit_word_eqI) (auto simp: bit_and_iff bit_drop_bit_eq)
qed

lemma linux_own_objects:
  assumes "names_law N" and "common_name_to_netdev_obj (linux_system_ops N) n w \<noteq> 0"
  shows "netdev_obj_to_domain (common_name_to_netdev_obj (linux_system_ops N) n w) = 0 \<and>
    common_is_compatible (linux_system_ops N) (common_name_to_netdev_obj (linux_system_ops N) n w) w"
  using assms index_domain
  by (simp add: names_law_def linux_system_ops_def genl_dev_linux_ndev_name_to_netdev_obj_def
    genl_dev_linux_ndev_is_compatible_def GENL_LINUX_NETDEV_DOMAIN_def)

lemma linux_system_simps [simp]:
  "system_get_hw_addr (linux_system_ops N) w = Returns (None, w)"
  "agg_new_aggregator (linux_system_ops N) name w = (0, w)"
  "dev_private (linux_system_ops N) = None"
  "agg_send_lacpdu (linux_system_ops N) obj buf w = Returns (False, w)"
  by (simp_all add: linux_system_ops_def genl_dev_linux_get_hw_addr_def genl_dev_linux_new_aggregator_def
    genl_dev_linux_ndev_send_lacpdu_def GENERAL_DEVICE_INVALID_ID_def)

text \<open>A link counts as up only if the device is known, up and running.\<close>

lemma linux_link_up:
  "genl_dev_linux_ndev_get_link_status N obj w \<longleftrightarrow> netdev_obj_to_domain obj = 0 \<and> l_socket N (kernel w) > 0 \<and>
     (\<exists>n fl. l_indextoname N (kernel w) obj = Some n \<and> l_siocgifflags N (kernel w) (take 15 n) = Some fl \<and> bit fl 0 \<and> bit fl 6)"
proof -
  have "IFF_UP OR IFF_RUNNING = push_bit 0 1 OR push_bit 6 1" by (simp add: IFF_UP_def IFF_RUNNING_def)
  then have m: "bit (IFF_UP OR IFF_RUNNING) n \<longleftrightarrow> n = 0 \<or> n = 6" for n
    by (simp only: bit_or_iff bit_push_bit_iff bit_1_iff) auto
  have "fl AND (IFF_UP OR IFF_RUNNING) = (IFF_UP OR IFF_RUNNING) \<longleftrightarrow> bit fl 0 \<and> bit fl 6" for fl :: u16
    unfolding bit_eq_iff by (auto simp: bit_and_iff m dest: spec [of _ 0] spec [of _ 6])
  then show ?thesis
    by (auto simp: genl_dev_linux_ndev_get_link_status_def GENL_LINUX_NETDEV_DOMAIN_def snprintf_buf_def IFNAMSIZ_def
      split: option.split)
qed

end
