(* ===== verification/Startup.thy ===== *)
theory Startup
  imports Config_Plan Ubus_Methods Daemon Genl_Linux
begin

text \<open>
  The lists of configuration and status systems (qca/src/qca-lacpd/config/config.c,
  status/status.c) and the start and end of the daemon (main.c).
\<close>

subsection \<open>Registered systems\<close>

text \<open>
  The functions of a system are over the state \<open>'p\<close> of the program; those of a configuration system
  are called with the user that has been set for it.
\<close>

datatype lacpd_cfg_sys_type = LACPD_CFG_SYS_TYPE_ACTIVE | LACPD_CFG_SYS_TYPE_PASSIVE

record ('u, 'p) lacpd_configuration_system =
  cs_name :: string
  cs_type :: lacpd_cfg_sys_type
  cs_init :: "'u option \<Rightarrow> string option \<Rightarrow> 'p \<Rightarrow> bool \<times> 'p"
  cs_exit :: "'p \<Rightarrow> 'p"
  cs_user :: "'u option"

record ('u, 'p) lacpd_status_system =
  ss_name :: string
  ss_init :: "'p \<Rightarrow> bool \<times> 'p"
  ss_exit :: "'p \<Rightarrow> 'p"
  ss_user :: "'u option"

text \<open>A system that is found is referred to by its position in the list.\<close>

definition lacpd_cfg_sys_use ::
    "string option \<Rightarrow> 'w lacpd_cfg_user option \<Rightarrow> ('w lacpd_cfg_user, 'p) lacpd_configuration_system list \<Rightarrow>
     nat option \<times> ('w lacpd_cfg_user, 'p) lacpd_configuration_system list" where
  "lacpd_cfg_sys_use name user systems =
     (case (name, user) of
        (Some n, Some u) \<Rightarrow>
          if \<not> user_os_service u then (None, systems)
          else (case position_of (\<lambda>cfg_sys. strncmp_eq LACPD_CONFIG_SYS_NAME_SIZE n (cs_name cfg_sys)) systems of
                  None \<Rightarrow> (None, systems)
                | Some i \<Rightarrow> (Some i, systems[i := (systems ! i)\<lparr>cs_user := Some u\<rparr>]))
      | _ \<Rightarrow> (None, systems))"

definition lacpd_cfg_sys_register ::
    "('u, 'p) lacpd_configuration_system \<Rightarrow> ('u, 'p) lacpd_configuration_system list \<Rightarrow>
     ('u, 'p) lacpd_configuration_system list" where
  "lacpd_cfg_sys_register cfg_sys systems = list_add_tail cfg_sys systems"

definition lacpd_status_sys_use ::
    "string option \<Rightarrow> 'w lacpd_status_user option \<Rightarrow> ('w lacpd_status_user, 'p) lacpd_status_system list \<Rightarrow>
     nat option \<times> ('w lacpd_status_user, 'p) lacpd_status_system list" where
  "lacpd_status_sys_use name user systems =
     (case (name, user) of
        (Some n, Some u) \<Rightarrow>
          if \<not> st_os_service u then (None, systems)
          else (case position_of (\<lambda>status_sys. strncmp_eq LACP_STATUS_SYS_NAME_SIZE n (ss_name status_sys)) systems of
                  None \<Rightarrow> (None, systems)
                | Some i \<Rightarrow> (Some i, systems[i := (systems ! i)\<lparr>ss_user := Some u\<rparr>]))
      | _ \<Rightarrow> (None, systems))"

definition lacpd_status_sys_register ::
    "('u, 'p) lacpd_status_system \<Rightarrow> ('u, 'p) lacpd_status_system list \<Rightarrow> ('u, 'p) lacpd_status_system list" where
  "lacpd_status_sys_register status_sys systems = list_add_tail status_sys systems"

subsection \<open>The program\<close>

text \<open>
  The globals: the wrapper with what is below it, the UCI configuration, whether ubusd is connected,
  and the systems in use. The pointers to the status systems are also known to the wrapper's state,
  as flags.
\<close>

record ('k, 'h, 's) program =
  prg_daemon :: "('k, 'h) daemon_state"
  prg_uci :: "'s lacpd_uci_configuration"
  prg_ubus_ctx :: bool
  prg_cfg_sys :: "nat option"
  prg_ubus_st_sys :: "nat option"
  prg_hotplug_st_sys :: "nat option"

definition on_daemon ::
    "(('k, 'h) daemon_state \<Rightarrow> ('k, 'h) daemon_state) \<Rightarrow> ('k, 'h, 's) program \<Rightarrow> ('k, 'h, 's) program" where
  "on_daemon f P = P\<lparr>prg_daemon := f (prg_daemon P)\<rparr>"

definition set_ubus_st_sys :: "nat option \<Rightarrow> ('k, 'h, 's) program \<Rightarrow> ('k, 'h, 's) program" where
  "set_ubus_st_sys i P = on_daemon (\<lambda>w. w\<lparr>ubus_st_sys := i \<noteq> None\<rparr>) (P\<lparr>prg_ubus_st_sys := i\<rparr>)"

definition set_hotplug_st_sys :: "nat option \<Rightarrow> ('k, 'h, 's) program \<Rightarrow> ('k, 'h, 's) program" where
  "set_hotplug_st_sys i P = on_daemon (\<lambda>w. w\<lparr>hotplug_st_sys := i \<noteq> None\<rparr>) (P\<lparr>prg_hotplug_st_sys := i\<rparr>)"

type_synonym ('k, 'h, 's) cfg_systems =
  "(('k, 'h) daemon_state lacpd_cfg_user, ('k, 'h, 's) program) lacpd_configuration_system list"
type_synonym ('k, 'h, 's) st_systems =
  "(('k, 'h) daemon_state lacpd_status_user, ('k, 'h, 's) program) lacpd_status_system list"

subsection \<open>Probes\<close>

definition lacpd_uci_cfg_probe ::
    "'s uci_api \<Rightarrow> 'k qca_kernel \<Rightarrow> ('k, 'h, 's) cfg_systems \<Rightarrow> ('k, 'h, 's) cfg_systems" where
  "lacpd_uci_cfg_probe U K systems =
     lacpd_cfg_sys_register
       \<lparr>cs_name = snprintf_buf LACPD_CONFIG_SYS_NAME_SIZE ''uci'', cs_type = LACPD_CFG_SYS_TYPE_ACTIVE,
        cs_init = (\<lambda>user prm P.
          case user of
            None \<Rightarrow> (False, on_daemon (crash Null_Deref) P)
          | Some u \<Rightarrow>
              let (ok, cfg, w) = lacpd_uci_cfg_init U K u prm (prg_uci P) (prg_daemon P)
              in (ok, P\<lparr>prg_uci := cfg, prg_daemon := w\<rparr>)),
        cs_exit = (\<lambda>P. P\<lparr>prg_uci := lacpd_uci_cfg_exit (prg_uci P)\<rparr>), cs_user = None\<rparr> systems"

text \<open>
  \<open>connect\<close> is \<^verbatim>\<open>ubus_connect\<close>: whether there is a connection. Freeing a connection that there is
  not, or not any more, is an invalid access.
\<close>

definition lacpd_ubus_status_system_init ::
    "('k \<Rightarrow> bool \<times> 'k) \<Rightarrow> ('k, 'h, 's) program \<Rightarrow> bool \<times> ('k, 'h, 's) program" where
  "lacpd_ubus_status_system_init connect P =
     (let (ok, w) = kcall connect (prg_daemon P) in (ok, P\<lparr>prg_daemon := w, prg_ubus_ctx := ok\<rparr>))"

definition lacpd_ubus_status_system_exit :: "('k, 'h, 's) program \<Rightarrow> ('k, 'h, 's) program" where
  "lacpd_ubus_status_system_exit P =
     (if prg_ubus_ctx P then P\<lparr>prg_ubus_ctx := False\<rparr> else on_daemon (crash Null_Deref) P)"

definition lacpd_ubus_status_system_probe ::
    "('k \<Rightarrow> bool \<times> 'k) \<Rightarrow> ('k, 'h, 's) st_systems \<Rightarrow> ('k, 'h, 's) st_systems" where
  "lacpd_ubus_status_system_probe connect systems =
     lacpd_status_sys_register
       \<lparr>ss_name = snprintf_buf LACP_STATUS_SYS_NAME_SIZE ''ubus'', ss_init = lacpd_ubus_status_system_init connect,
        ss_exit = lacpd_ubus_status_system_exit, ss_user = None\<rparr> systems"

definition lacpd_hotplug_status_system_probe :: "('k, 'h, 's) st_systems \<Rightarrow> ('k, 'h, 's) st_systems" where
  "lacpd_hotplug_status_system_probe systems =
     lacpd_status_sys_register
       \<lparr>ss_name = snprintf_buf LACP_STATUS_SYS_NAME_SIZE ''hotplug'',
        ss_init = (\<lambda>P. let (ok, h) = lacpd_hotplug_status_system_init (hotplug (prg_daemon P))
                       in (ok, on_daemon (\<lambda>w. w\<lparr>hotplug := h\<rparr>) P)),
        ss_exit = on_daemon (\<lambda>w. w\<lparr>hotplug := lacpd_hotplug_status_system_exit (hotplug w)\<rparr>), ss_user = None\<rparr> systems"

subsection \<open>Start and end of the systems\<close>

text \<open>\<^verbatim>\<open>__lacpd_wrapper.cfg_user\<close>\<close>

definition wrapper_cfg_user :: "'k qca_kernel \<Rightarrow> ('k, 'h) hub_ops \<Rightarrow> ('k, 'h) daemon_state lacpd_cfg_user" where
  "wrapper_cfg_user K D = \<lparr>
     user_os_service = True,
     user_lacp_new = lacpd_cfg_lacp_new K,
     user_lacp_destroy = lacpd_cfg_lacp_destroy K D,
     user_add_dev = lacpd_cfg_add_dev K D,
     user_del_dev = lacpd_cfg_del_dev K D\<rparr>"

definition lacpd_config_init ::
    "('k, 'h) daemon_state lacpd_cfg_user \<Rightarrow> ('k, 'h, 's) cfg_systems \<Rightarrow> ('k, 'h, 's) program \<Rightarrow>
     bool \<times> ('k, 'h, 's) cfg_systems \<times> ('k, 'h, 's) program" where
  "lacpd_config_init user systems P =
     (case lacpd_cfg_sys_use (Some ''uci'') (Some user) systems of
        (None, systems1) \<Rightarrow> (False, systems1, P)
      | (Some i, systems1) \<Rightarrow>
          let (ok, P1) = cs_init (systems1 ! i) (cs_user (systems1 ! i)) None P in
          if \<not> ok then (False, systems1, P1) else (True, systems1, P1\<lparr>prg_cfg_sys := Some i\<rparr>))"

definition lacpd_config_exit :: "('k, 'h, 's) cfg_systems \<Rightarrow> ('k, 'h, 's) program \<Rightarrow> ('k, 'h, 's) program" where
  "lacpd_config_exit systems P = (case prg_cfg_sys P of None \<Rightarrow> P | Some i \<Rightarrow> cs_exit (systems ! i) P)"

definition lacpd_status_init ::
    "('k, 'h) daemon_state lacpd_status_user \<Rightarrow> ('k, 'h, 's) st_systems \<Rightarrow> ('k, 'h, 's) program \<Rightarrow>
     bool \<times> ('k, 'h, 's) st_systems \<times> ('k, 'h, 's) program" where
  "lacpd_status_init user systems P =
     (case lacpd_status_sys_use (Some ''ubus'') (Some user) systems of
        (None, systems1) \<Rightarrow> (False, systems1, P)
      | (Some i, systems1) \<Rightarrow>
          let (ok, P1) = ss_init (systems1 ! i) P in
          if \<not> ok then (False, systems1, P1)
          else
            let P2 = set_ubus_st_sys (Some i) P1;
                hotplug_failed = (\<lambda>systems2 Q. (False, systems2, set_ubus_st_sys None (ss_exit (systems2 ! i) Q)))
            in (case lacpd_status_sys_use (Some ''hotplug'') (Some user) systems1 of
                  (None, systems2) \<Rightarrow> hotplug_failed systems2 P2
                | (Some j, systems2) \<Rightarrow>
                    let (ok, P3) = ss_init (systems2 ! j) P2 in
                    if \<not> ok then hotplug_failed systems2 P3
                    else (True, systems2, set_hotplug_st_sys (Some j) P3)))"

definition lacpd_status_exit :: "('k, 'h, 's) st_systems \<Rightarrow> ('k, 'h, 's) program \<Rightarrow> ('k, 'h, 's) program" where
  "lacpd_status_exit systems P =
     (let P1 = (case prg_ubus_st_sys P of None \<Rightarrow> P | Some i \<Rightarrow> ss_exit (systems ! i) P)
      in case prg_hotplug_st_sys P1 of None \<Rightarrow> P1 | Some j \<Rightarrow> ss_exit (systems ! j) P1)"

text \<open>The sizes of libubox's structures decide whether they fit the memory set aside for them.\<close>

definition GENL_OS_SERVICE_PRIVATE_DATA_SIZE :: nat where "GENL_OS_SERVICE_PRIVATE_DATA_SIZE = 64"

record uloop_sizes =
  sizeof_uloop_fd :: nat
  sizeof_uloop_timeout :: nat
  sizeof_uloop_process :: nat

definition lacpd_os_service_init :: "uloop_sizes \<Rightarrow> bool" where
  "lacpd_os_service_init z \<longleftrightarrow>
     \<not> (GENL_OS_SERVICE_PRIVATE_DATA_SIZE < sizeof_uloop_fd z \<or>
        GENL_OS_SERVICE_PRIVATE_DATA_SIZE < sizeof_uloop_timeout z \<or>
        GENL_OS_SERVICE_PRIVATE_DATA_SIZE < sizeof_uloop_process z)"

subsection \<open>The event loop\<close>

text \<open>
  \<^verbatim>\<open>uloop_run\<close> is a finite sequence of events: what the device systems and the timers call the wrapper
  for, and whatever else happens to the devices and the status systems, in any order.
\<close>

datatype ('k, 'h) loop_event =
    Ev_Link user_ref u32 u32
  | Ev_Packet user_ref "u8 list" u32 u32
  | Ev_Unregistered user_ref
  | Ev_Timer user_ref port_timer_id port_ref
  | Ev_Devices "('k, 'h) hub_state"

fun loop_step ::
    "'k qca_kernel \<Rightarrow> ('k, 'h) hub_ops \<Rightarrow> ('k, 'h) loop_event \<Rightarrow> ('k, 'h) daemon_state \<Rightarrow> ('k, 'h) daemon_state" where
  "loop_step K D (Ev_Link u obj st) w = daemon_exec K D (Link_Changed u obj st) w"
| "loop_step K D (Ev_Packet u buf len obj) w = daemon_exec K D (Packet u buf len obj) w"
| "loop_step K D (Ev_Unregistered u) w = daemon_exec K D (Unregistered u) w"
| "loop_step K D (Ev_Timer u k p) w = daemon_exec K D (Port_Timer u k p) w"
| "loop_step K D (Ev_Devices e) w = set_hub e w"

definition uloop_run ::
    "'k qca_kernel \<Rightarrow> ('k, 'h) hub_ops \<Rightarrow> ('k, 'h) loop_event list \<Rightarrow> ('k, 'h) daemon_state \<Rightarrow> ('k, 'h) daemon_state" where
  "uloop_run K D evs w = fold (loop_step K D) evs w"

text \<open>The loop once more, until the timer expires; it does not run if the timer cannot be started.\<close>

definition lacpd_shutdown_delay ::
    "'k qca_kernel \<Rightarrow> ('k, 'h) hub_ops \<Rightarrow> bool \<Rightarrow> ('k, 'h) loop_event list \<Rightarrow> ('k, 'h, 's) program \<Rightarrow> ('k, 'h, 's) program" where
  "lacpd_shutdown_delay K D timer_ok evs P = (if timer_ok then on_daemon (uloop_run K D evs) P else P)"

subsection \<open>The main function\<close>

text \<open>
  What surrounds the program: the kernel for the switches and for Linux, the processes of hotplug,
  UCI and ubusd, the memory \<open>calloc\<close> gives to the switches, the system \<open>l\<close> that is the global of the
  Linux system, and what happens in the event loop.
\<close>

record ('k, 'h, 's) surroundings =
  env_kernel :: "'k qca_kernel"
  env_linux :: "'k linux_kernel"
  env_hotplug :: "'h hotplug_os"
  env_uci :: "'s uci_api"
  env_ubus_connect :: "'k \<Rightarrow> bool \<times> 'k"
  env_switches :: "sys_ref list"
  env_linux_sys :: sys_ref
  env_sizes :: uloop_sizes
  env_events :: "('k, 'h) loop_event list"
  env_timer_ok :: bool
  env_shutdown_events :: "('k, 'h) loop_event list"

definition env_systems :: "('k, 'h, 's) surroundings \<Rightarrow> ('k, 'h) hub_ops" where
  "env_systems X = systems_in_call (env_hotplug X) (env_kernel X) (env_linux_sys X) (linux_system_ops (env_linux X))"

definition env_loop_systems :: "('k, 'h, 's) surroundings \<Rightarrow> sys_ref \<Rightarrow> ('k, 'h) daemon_state general_device_ops" where
  "env_loop_systems X =
     daemon_systems (env_hotplug X) (env_kernel X) (env_systems X) (env_linux_sys X) (linux_system_ops (env_linux X))"

text \<open>The globals at the start of the program\<close>

definition program_zero :: "'k \<Rightarrow> 'h \<Rightarrow> ('k, 'h, 's) program" where
  "program_zero k h = \<lparr>
     prg_daemon = \<lparr>ndev_systems = replicate GENERAL_DEVICE_SYSTEM_MAX_DOMAIN None,
       sys_mem = (\<lambda>_. \<lparr>ds_name = [], users = [], ds_domain = 0, next_internal_domain = 0\<rparr>), current_os_service = False,
       sw_mem = (\<lambda>_. \<lparr>switch_ports = [], link_status_monitor = idle_timer, sw_name = [], switch_obj = 0,
         real_agg_dev = False, support_link_event = False, link_status_poll_interval = 0\<rparr>),
       sp_mem = (\<lambda>_. switch_port_zero), sp_next = 0, qca_mem = (\<lambda>_. qca_system_zero), qca_switch_driver_fd = -1, kernel = k,
       inst_dev_sys = (\<lambda>_. None), inst_lacp_param = (\<lambda>_. \<lparr>cfg_priority = 0,
         cfg_tx_hash_policy = LACPD_CFG_TX_HASH_POLICY_L2, cfg_lacp_rate = False, cfg_ad_select = AD_SELECT_ALG_ALL\<rparr>),
       ubus_st_sys = False, hotplug_st_sys = False, ubus_notified = [],
       hotplug = \<lparr>pending_events = [], task_is_running = False, task_pid = 0, started = [], hot_env = h\<rparr>, crashed = None,
       wrappers = [], inst_name = (\<lambda>_. []), lacp_obj = (\<lambda>_. None), inst_next = 0\<rparr>,
     prg_uci = \<lparr>uci_ctx = False, uci_lacp = None, cfg_switches = [], cfg_lacp_instances = []\<rparr>,
     prg_ubus_ctx = False, prg_cfg_sys = None, prg_ubus_st_sys = None, prg_hotplug_st_sys = None\<rparr>"

text \<open>
  The device layer before the event loop: nobody is a user of a system yet, so that only the part of
  the state below the wrapper is concerned.
\<close>

definition probe_devices :: "('k, 'h, 's) surroundings \<Rightarrow> ('k, 'h) daemon_state \<Rightarrow> ('k, 'h) daemon_state outcome" where
  "probe_devices X w =
     bind_outcome (qca_switch_probe (env_kernel X) (env_switches X) (hub w))
       (\<lambda>e. Returns (set_hub (genl_dev_linux_probe (env_linux_sys X) e) w))"

definition init_devices :: "('k, 'h, 's) surroundings \<Rightarrow> ('k, 'h) daemon_state \<Rightarrow> ('k, 'h) daemon_state outcome" where
  "init_devices X w =
     bind_outcome (genl_dev_init (env_systems X) True (hub w)) (\<lambda>(_, e). Returns (set_hub e w))"

text \<open>What follows the initialisation of the devices: configuration, status, the event loop, and the end.\<close>

definition main_loop ::
    "('k, 'h, 's) surroundings \<Rightarrow> ('k, 'h, 's) cfg_systems \<Rightarrow> ('k, 'h, 's) st_systems \<Rightarrow> ('k, 'h, 's) program \<Rightarrow>
     ('k, 'h, 's) cfg_systems \<times> ('k, 'h, 's) st_systems \<times> ('k, 'h, 's) program" where
  "main_loop X cfgs sts P =
     (let K = env_kernel X; D = env_systems X;
          (ok, cfgs1, P1) = lacpd_config_init (wrapper_cfg_user K D) cfgs P
      in if \<not> ok then (cfgs1, sts, P1)
         else
           let (ok, sts1, P2) = lacpd_status_init (wrapper_status_user K D (env_loop_systems X)) sts P1
           in if \<not> ok then (cfgs1, sts1, P2)
              else (cfgs1, sts1, on_daemon (uloop_run K D (env_events X)) P2))"

definition main_exit ::
    "('k, 'h, 's) surroundings \<Rightarrow> ('k, 'h, 's) cfg_systems \<Rightarrow> ('k, 'h, 's) st_systems \<Rightarrow> ('k, 'h, 's) program \<Rightarrow>
     ('k, 'h, 's) program" where
  "main_exit X cfgs sts P =
     (let K = env_kernel X; D = env_systems X;
          P1 = on_daemon (lacpd_wrapper_cleanup K D) P;
          P2 = lacpd_shutdown_delay K D (env_timer_ok X) (env_shutdown_events X) P1;
          P3 = lacpd_config_exit cfgs P2
      in lacpd_status_exit sts P3)"

definition lacpd_main :: "('k, 'h, 's) surroundings \<Rightarrow> ('k, 'h, 's) program \<Rightarrow> (int \<times> ('k, 'h, 's) program) outcome" where
  "lacpd_main X P =
     bind_outcome (probe_devices X (prg_daemon P)) (\<lambda>w.
       let cfgs = lacpd_uci_cfg_probe (env_uci X) (env_kernel X) [];
           sts = lacpd_hotplug_status_system_probe (lacpd_ubus_status_system_probe (env_ubus_connect X) [])
       in if \<not> lacpd_os_service_init (env_sizes X) then Returns (-1, P\<lparr>prg_daemon := w\<rparr>)
          else
            bind_outcome (init_devices X (w\<lparr>wrappers := []\<rparr>)) (\<lambda>w1.
              let (cfgs1, sts1, P1) = main_loop X cfgs sts (P\<lparr>prg_daemon := w1\<rparr>)
              in Returns (0, main_exit X cfgs1 sts1 P1)))"

end
