(* ===== verification/Qca_Properties.thy ===== *)
theory Qca_Properties
  imports Qca_Example
begin

text \<open>
  The properties of the QCA switch in every run: the invariant of its ports and aggregators, what
  their objects are, the lookup, and the trunk groups of the hardware; and a counter that a failed
  call leaves wrong.
\<close>

text \<open>C7: From the ports of the configuration on, whatever is asked of the switch and whatever the hardware
  answers: the ports of the switch and the slaves of its aggregators are disjoint lists, every slave
  names its aggregator and has no slaves itself, objects and port numbers are unique, and the bitmap
  of an aggregator is the set of the numbers of its slaves. Aggregators are not attached to
  aggregators.\<close>

theorem switch_invariant:
  assumes "switch_run K sysops out r w0 w" and "users_quiet out"
  shows "sw_wf (qca_agg r w) r w"
  using switch_run_inv [OF assms] by (simp add: sw_inv_def qca_view_def)

theorem switch_invariant_witness: "sw_wf (qca_agg 7 (lab_joined ())) 7 (lab_joined ())"
  by (rule switch_invariant [OF lab_run]) (use lab_silent in \<open>auto simp: users_silent_def\<close>)

text \<open>C19: The object of a member of the switch tells what it is: an aggregator has the prefix of the
  aggregators and a hardware identifier from 0 to 3, every other member has the prefix of the ports
  and its port number, and no object is both.\<close>

theorem object_types:
  assumes "switch_run K sysops out r w0 w" and "users_quiet out" and "p \<in> members w r"
  shows "if qca_agg r w (obj_of w p)
     then unat (obj_of w p - agg_domain (qca_mem w r)) \<le> 3 \<and> drop_bit 16 (obj_of w p) = drop_bit 16 (agg_domain (qca_mem w r))
     else obj_of w p = port_domain (qca_mem w r) + port_num (sp_mem w p) \<and> num_of w p < 32 \<and>
       drop_bit 16 (obj_of w p) = drop_bit 16 (port_domain (qca_mem w r)) \<and>
       drop_bit 16 (obj_of w p) \<noteq> drop_bit 16 (agg_domain (qca_mem w r))"
proof -
  note inv = switch_run_inv [OF assms(1,2)]
  have dom: "domains_ok (qca_mem w r)" using inv by (simp add: sw_inv_def qca_good_def)
  have ne: "drop_bit 16 (port_domain (qca_mem w r)) \<noteq> drop_bit 16 (agg_domain (qca_mem w r))"
    using dom prefix_inj [of "port_domain (qca_mem w r)" "agg_domain (qca_mem w r)"] by (auto simp: domains_ok_def)
  show ?thesis
  proof (cases "qca_agg r w (obj_of w p)")
    case True
    then have v: "qca_sw_agg_id_is_valid (obj_of w p - agg_domain (qca_mem w r))"
      by (simp add: qca_agg_def qca_sw_agg_id_is_active_def)
    from True v agg_obj_prefix [OF dom v] show ?thesis by (simp add: valid_id)
  next
    case False
    have o: "obj_of w p = port_domain (qca_mem w r) + port_num (sp_mem w p)"
      using qsw.inv_D(4) [OF inv assms(3)] False by (simp add: qca_view_def)
    have n: "num_of w p < 32"
      using qsw.inv_D(2) [OF inv] assms(3) False by (simp add: sw_wf_def sw_data_def qca_view_def)
    have "drop_bit 16 (port_domain (qca_mem w r) + port_num (sp_mem w p)) = drop_bit 16 (port_domain (qca_mem w r))"
      by (rule prefix_plus(1)) (use dom n in \<open>simp_all add: domains_ok_def\<close>)
    with False o n ne show ?thesis by simp
  qed
qed

theorem object_types_witness: "switch_port_obj (sp_mem (lab_joined ()) 21) = port_domain (qca_mem (lab_joined ()) 7) + 3"
proof -
  have quiet: "users_quiet (lab_users :: user_ref \<Rightarrow> (u32 \<times> u32 \<Rightarrow> u32) qca_state general_device_out_api)"
    using lab_silent by (auto simp: users_silent_def)
  have "21 \<in> members (lab_joined ()) 7" by (simp add: members_def lab_joined_def)
  from object_types [OF lab_run quiet this] show ?thesis
    by (simp add: qca_agg_def active_iff lab_joined_def split: if_splits)
qed

text \<open>C18: The lookup walks the ports and goes into the slaves of the aggregators only; it finds what a
  search through all members, each port followed by its slaves, finds.\<close>

theorem lookup_is_search:
  assumes "switch_run K sysops out r w0 w" and "users_quiet out"
  shows "genl_dev_sw_port_lookup (qca_calls K sysops out) r obj w =
    find (\<lambda>p. obj_of w p = obj) (concat (map (\<lambda>p. p # slaves_of w p) (ports_of w r)))"
proof -
  note inv = switch_run_inv [OF assms]
  let ?all = "concat (map (\<lambda>p. p # slaves_of w p) (ports_of w r))"
  have all: "set ?all = members w r" by (auto simp: members_def)
  show ?thesis
  proof (cases "find (\<lambda>p. obj_of w p = obj) ?all")
    case None
    then have "\<forall>p \<in> members w r. obj_of w p \<noteq> obj" unfolding find_None_iff all by blast
    with qsw.lookup_None [OF inv] None show ?thesis by simp
  next
    case (Some p)
    from find_SomeD [OF this] have "p \<in> members w r \<and> obj_of w p = obj" using all by auto
    with qsw.lookup_iff [OF inv] Some show ?thesis by simp
  qed
qed

theorem lookup_is_search_witness: "genl_dev_sw_port_lookup lab_calls 7 0xf0f10001 (lab_joined ()) = Some 20"
proof -
  have "users_quiet (lab_users :: user_ref \<Rightarrow> (u32 \<times> u32 \<Rightarrow> u32) qca_state general_device_out_api)"
    using lab_silent by (auto simp: users_silent_def)
  from lookup_is_search [OF lab_run this] show ?thesis by (simp add: lab_joined_def take_over_def)
qed

text \<open>C5: What the driver of the switch promises to LACP: in every state of a run the trunk group of the
  hardware of an aggregator holds the ports that are its slaves, also after calls the hardware
  refused, and the group of an identifier that no aggregator has is empty.\<close>

theorem trunk_groups_are_slaves:
  assumes "switch_run K sysops out r w0 w" and "trunk_law K tr" and "users_silent tr out" and "\<forall>i. group_of tr r w0 i = 0"
  shows "(\<forall>p \<in> members w r. qca_agg r w (obj_of w p) \<longrightarrow>
      (\<forall>b. bit (group_of tr r w (obj_of w p - agg_domain (qca_mem w r))) b \<longleftrightarrow> (\<exists>s \<in> set (slaves_of w p). num_of w s = b))) \<and>
    (\<forall>i. unat i \<le> 3 \<longrightarrow> \<not> qca_agg r w (agg_domain (qca_mem w r) + i) \<longrightarrow> group_of tr r w i = 0)"
proof -
  have quiet: "users_quiet out" using assms(3) by (simp add: users_silent_def)
  note inv = switch_run_inv [OF assms(1) quiet]
  have ok: "trunks_ok tr r w" using trunks_run [OF assms(1-3)] assms(4) by blast
  have "p \<in> set (ports_of w r)" if "p \<in> members w r" "qca_agg r w (obj_of w p)" for p
    using qsw.inv_D(2) [OF inv] that(1)
  proof (cases rule: member_cases)
    case (2 m)
    from wf_D(8) [OF qsw.inv_D(2) [OF inv] 2(2,3)] that(2) show ?thesis by (simp add: qca_view_def)
  qed
  with qsw.inv_D(2) [OF inv] ok show ?thesis by (simp add: sw_wf_def sw_bits_def trunks_ok_def qca_view_def)
qed

theorem trunk_groups_are_slaves_witness:
  "\<forall>b. bit (group_of (\<lambda>k. k) 7 (lab_joined ()) 0) b \<longleftrightarrow> b = 1"
proof -
  have p: "22 \<in> members (lab_joined ()) 7" "qca_agg 7 (lab_joined ()) (obj_of (lab_joined ()) 22)" "slaves_of (lab_joined ()) 22 = [20]"
    "obj_of (lab_joined ()) 22 - agg_domain (qca_mem (lab_joined ()) 7) = 0" "num_of (lab_joined ()) 20 = 1"
    by (simp_all add: members_def lab_joined_def qca_agg_def active_iff take_over_def)
  have "\<forall>i. group_of (\<lambda>k. k) 7 (lab_switch ()) i = 0" by (simp add: group_of_def lab_switch_def)
  from trunk_groups_are_slaves [OF lab_run lab_law lab_silent this] p show ?thesis by force
qed

lemma ioctl_os: "qca_switch_ioctl K api args w = (ok, t) \<Longrightarrow> current_os_service t = current_os_service w"
  by (auto simp: qca_switch_ioctl_def Let_def open_driver_def kcall_def split_beta split: if_splits)

text \<open>What the calls between the private header and the raw socket leave alone.\<close>

definition socket_same ::
    "sys_ref \<Rightarrow> ('k, 'z) qca_state_scheme \<Rightarrow> ('k, 'z) qca_state_scheme \<Rightarrow> bool" where
  "socket_same r w t \<longleftrightarrow>
     private_hdr_type (qca_mem t r) = private_hdr_type (qca_mem w r) \<and>
     private_hdr_enabled (qca_mem t r) = private_hdr_enabled (qca_mem w r) \<and>
     raw_socket_enabled (qca_mem t r) = raw_socket_enabled (qca_mem w r) \<and>
     raw_socket_fd (qca_mem t r) = raw_socket_fd (qca_mem w r) \<and>
     sp_mem t = sp_mem w \<and> genl_dev_os_service_get t = genl_dev_os_service_get w"

lemma socket_same_trans: "socket_same r w t \<Longrightarrow> socket_same r t u \<Longrightarrow> socket_same r w u"
  by (simp add: socket_same_def)

text \<open>A call that succeeds and leaves them alone.\<close>

definition accepting ::
    "sys_ref \<Rightarrow> (('k, 'z) qca_state_scheme \<Rightarrow> bool \<times> ('k, 'z) qca_state_scheme) \<Rightarrow> bool" where
  "accepting r f \<longleftrightarrow> (\<forall>v. fst (f v) \<and> socket_same r v (snd (f v)))"

lemma accepting_ioctl:
  assumes "\<And>v :: ('k, 'z) qca_state_scheme. fst (qca_switch_ioctl K api args v)"
  shows "accepting r (qca_switch_ioctl K api args :: ('k, 'z) qca_state_scheme \<Rightarrow> _)"
proof -
  have "socket_same r v (snd (qca_switch_ioctl K api args v))" for v :: "('k, 'z) qca_state_scheme"
    using ioctl_sameD [of K api args v] ioctl_os [of K api args v]
    by (cases "qca_switch_ioctl K api args v")
      (simp add: socket_same_def qca_same_def layer_same_def genl_dev_os_service_get_def)
  with assms show ?thesis by (simp add: accepting_def)
qed

lemma accepting_run:
  assumes "accepting r f"
  obtains t where "f v = (True, t)" "socket_same r v t"
proof (cases "f v")
  case (Pair ok t)
  have "fst (f v) \<and> socket_same r v (snd (f v))" using assms unfolding accepting_def by (rule spec)
  with Pair that show ?thesis by simp
qed

lemma accepting_and:
  "accepting r f \<Longrightarrow> accepting r g \<Longrightarrow> accepting r (\<lambda>v. and_call f (g v))"
  by (auto simp: accepting_def and_call_def intro: socket_same_trans)

lemma accepting_upd:
  assumes "\<And>q. private_hdr_type (h q) = private_hdr_type q \<and> private_hdr_enabled (h q) = private_hdr_enabled q \<and>
      raw_socket_enabled (h q) = raw_socket_enabled q \<and> raw_socket_fd (h q) = raw_socket_fd q"
  shows "socket_same r v (upd_qca r h v)"
  using assms by (simp add: socket_same_def genl_dev_os_service_get_def)

text \<open>With a hardware that accepts everything but the header's type, the other steps succeed.\<close>

lemma accepting_steps:
  fixes K :: "'k qca_kernel"
  assumes io: "\<And>api args. api \<in> {SW_API_PT_RXHDR_SET, SW_API_PT_TXHDR_SET, SW_API_MIRROR_ANALY_PT_SET, SW_API_FDB_RESV_ADD} \<Longrightarrow>
      accepting r (qca_switch_ioctl K api args :: ('k, 'z) qca_state_scheme \<Rightarrow> _)"
  shows "accepting r (qca_switch_enable_private_header_on_cpu_port K r True :: ('k, 'z) qca_state_scheme \<Rightarrow> _)"
    "accepting r (qca_switch_enable_private_header_on_mirror_port K r True :: ('k, 'z) qca_state_scheme \<Rightarrow> _)"
    "accepting r (qca_switch_enable_reserved_fdb K r QCA_SW_RESV_FDB_LACP True :: ('k, 'z) qca_state_scheme \<Rightarrow> _)"
proof -
  have hdr: "accepting r (\<lambda>v :: ('k, 'z) qca_state_scheme. and_call (qca_switch_ioctl K SW_API_PT_TXHDR_SET args)
      (qca_switch_ioctl K SW_API_PT_RXHDR_SET args v))" for args
    by (rule accepting_and [OF io io]) simp_all
  have mir: "accepting r (\<lambda>v :: ('k, 'z) qca_state_scheme. and_call (qca_switch_ioctl K SW_API_MIRROR_ANALY_PT_SET a)
      (and_call (qca_switch_ioctl K SW_API_PT_TXHDR_SET args) (qca_switch_ioctl K SW_API_PT_RXHDR_SET args v)))" for a args
    by (rule accepting_and [OF io hdr]) simp
  have refl: "socket_same r v v" for v :: "('k, 'z) qca_state_scheme" by (simp add: socket_same_def)
  show "accepting r (qca_switch_enable_private_header_on_cpu_port K r True :: ('k, 'z) qca_state_scheme \<Rightarrow> _)"
    unfolding accepting_def
  proof
    fix v :: "('k, 'z) qca_state_scheme"
    let ?v = "upd_qca r (\<lambda>q. q\<lparr>cpu_port_priv_hdr_enabled := count True (cpu_port_priv_hdr_enabled q)\<rparr>) v"
    have "socket_same r v ?v" by (rule accepting_upd) simp
    then show "fst (qca_switch_enable_private_header_on_cpu_port K r True v) \<and>
        socket_same r v (snd (qca_switch_enable_private_header_on_cpu_port K r True v))"
      using hdr [unfolded accepting_def, rule_format] socket_same_trans [of r v ?v] refl
      by (simp add: qca_switch_enable_private_header_on_cpu_port_def Let_def split_beta)
  qed
  show "accepting r (qca_switch_enable_private_header_on_mirror_port K r True :: ('k, 'z) qca_state_scheme \<Rightarrow> _)"
    unfolding accepting_def
  proof
    fix v :: "('k, 'z) qca_state_scheme"
    let ?v = "upd_qca r (\<lambda>q. q\<lparr>mirror_port_priv_hdr_enabled := count True (mirror_port_priv_hdr_enabled q)\<rparr>) v"
    have "socket_same r v ?v" by (rule accepting_upd) simp
    then show "fst (qca_switch_enable_private_header_on_mirror_port K r True v) \<and>
        socket_same r v (snd (qca_switch_enable_private_header_on_mirror_port K r True v))"
      using mir [unfolded accepting_def, rule_format] socket_same_trans [of r v ?v] refl
      by (simp add: qca_switch_enable_private_header_on_mirror_port_def Let_def split_beta)
  qed
  show "accepting r (qca_switch_enable_reserved_fdb K r QCA_SW_RESV_FDB_LACP True :: ('k, 'z) qca_state_scheme \<Rightarrow> _)"
    unfolding accepting_def
  proof
    fix v :: "('k, 'z) qca_state_scheme"
    let ?v = "upd_qca r (step_resv_counter QCA_SW_RESV_FDB_LACP True) v"
    have "socket_same r v ?v" by (rule accepting_upd) (simp add: step_resv_counter_def)
    then show "fst (qca_switch_enable_reserved_fdb K r QCA_SW_RESV_FDB_LACP True v) \<and>
        socket_same r v (snd (qca_switch_enable_reserved_fdb K r QCA_SW_RESV_FDB_LACP True v))"
      using io [of SW_API_FDB_RESV_ADD, unfolded accepting_def, rule_format] socket_same_trans [of r v ?v]
      by (simp add: qca_switch_enable_reserved_fdb_def Let_def split_beta)
  qed
qed

text \<open>C28: When the hardware refuses the private header, enabling LACP on a port fails, but the counter that is
  stepped back is the one of the raw socket: the header counts as switched on and the socket as
  switched off once more than on. Enabling LACP again then succeeds without the header and without
  the socket: the socket is not opened and counts as unused, so no LACPDU is received. This holds
  whatever the CPU and the mirror port of the switch are, on a switch with a private header on
  which neither the header nor the socket is in use, under an event loop, whose hardware refuses
  the header's type every time and accepts the headers of the ports, the mirror port and the
  reserved address.\<close>

theorem header_failure_is_forgotten:
  fixes w :: "('k, 'z) qca_state_scheme"
  assumes sys: "sp_sw_sys (sp_mem w p) = r" and header: "private_hdr_type (qca_mem w r) \<noteq> 0"
    and off: "private_hdr_enabled (qca_mem w r) = 0" "raw_socket_enabled (qca_mem w r) = 0"
    and os: "genl_dev_os_service_get w"
    and refuses: "\<And>args (v :: ('k, 'z) qca_state_scheme). \<not> fst (qca_switch_ioctl K SW_API_HEADER_TYPE_SET args v)"
    and accepts: "\<And>api args (v :: ('k, 'z) qca_state_scheme).
      api \<in> {SW_API_PT_RXHDR_SET, SW_API_PT_TXHDR_SET, SW_API_MIRROR_ANALY_PT_SET, SW_API_FDB_RESV_ADD} \<Longrightarrow>
      fst (qca_switch_ioctl K api args v)"
  shows "case qca_switch_port_enable_lacp K p w of (ok, t) \<Rightarrow> \<not> ok \<and>
    private_hdr_enabled (qca_mem t r) = 1 \<and> raw_socket_enabled (qca_mem t r) = - 1 \<and>
    (case qca_switch_port_enable_lacp K p t of (again, u) \<Rightarrow> again \<and>
      private_hdr_enabled (qca_mem u r) = 2 \<and> raw_socket_enabled (qca_mem u r) = 0 \<and>
      raw_socket_fd (qca_mem u r) = raw_socket_fd (qca_mem w r))"
proof -
  define w1 where "w1 = upd_qca r (\<lambda>q. q\<lparr>private_hdr_enabled := count True (private_hdr_enabled q)\<rparr>) w"
  obtain b v where c: "qca_switch_ioctl K SW_API_HEADER_TYPE_SET
      [sw_obj w1 r, Val 1, Val (ucast (private_hdr_type (qca_mem w1 r)))] w1 = (b, v)" by fastforce
  have b: "\<not> b" using refuses c by (metis fst_conv)
  have v: "qca_mem v = qca_mem w1" "sp_mem v = sp_mem w" "genl_dev_os_service_get v"
    using ioctl_sameD [OF c] os ioctl_os [OF c]
    by (simp_all add: qca_same_def layer_same_def w1_def genl_dev_os_service_get_def)
  define t where "t = upd_qca r (\<lambda>q. q\<lparr>raw_socket_enabled := count False (raw_socket_enabled q)\<rparr>) v"
  have "qca_switch_enable_private_header K r True w = (False, t)"
    using header off c b by (simp add: qca_switch_enable_private_header_def w1_def [symmetric] t_def)
      (simp add: w1_def counted_def count_def)
  then have first: "qca_switch_port_enable_lacp K p w = (False, t)"
    using sys by (simp add: qca_switch_port_enable_lacp_def protocol_steps_def)
  have t: "qca_mem t r = (qca_mem w r)\<lparr>private_hdr_enabled := 1, raw_socket_enabled := - 1\<rparr>" "sp_mem t = sp_mem w"
    "genl_dev_os_service_get t"
    using v off by (simp_all add: t_def w1_def count_def genl_dev_os_service_get_def)
  define x where "x = upd_qca r (\<lambda>q. q\<lparr>private_hdr_enabled := count True (private_hdr_enabled q)\<rparr>) t"
  have x: "qca_mem x r = (qca_mem w r)\<lparr>private_hdr_enabled := 2, raw_socket_enabled := - 1\<rparr>"
    "genl_dev_os_service_get x" using t by (simp_all add: x_def count_def genl_dev_os_service_get_def)
  have acc: "accepting r (qca_switch_enable_private_header_on_cpu_port K r True :: ('k, 'z) qca_state_scheme \<Rightarrow> _)"
    "accepting r (qca_switch_enable_private_header_on_mirror_port K r True :: ('k, 'z) qca_state_scheme \<Rightarrow> _)"
    "accepting r (qca_switch_enable_reserved_fdb K r QCA_SW_RESV_FDB_LACP True :: ('k, 'z) qca_state_scheme \<Rightarrow> _)"
    by (rule accepting_steps; rule accepting_ioctl; rule accepts; assumption)+
  have "qca_switch_enable_private_header K r True t = (True, x)"
    using header t by (simp add: qca_switch_enable_private_header_def x_def [symmetric]) (simp add: x counted_def)
  moreover obtain x1 where x1: "qca_switch_enable_private_header_on_cpu_port K r True x = (True, x1)" "socket_same r x x1"
    by (rule accepting_run [OF acc(1)])
  moreover obtain x2 where x2: "qca_switch_enable_private_header_on_mirror_port K r True x1 = (True, x2)" "socket_same r x1 x2"
    by (rule accepting_run [OF acc(2)])
  moreover obtain z where x3: "qca_switch_enable_reserved_fdb K r QCA_SW_RESV_FDB_LACP True x2 = (True, z)" "socket_same r x2 z"
    by (rule accepting_run [OF acc(3)])
  moreover have z: "socket_same r x z" using x1(2) x2(2) x3(2) by (simp add: socket_same_def)
  moreover have "qca_switch_enable_raw_socket K r True z =
      (True, upd_qca r (\<lambda>q. q\<lparr>raw_socket_enabled := count True (raw_socket_enabled q)\<rparr>) z)"
    using z x header by (simp add: qca_switch_enable_raw_socket_def counted_def count_def socket_same_def)
  ultimately have second: "qca_switch_port_enable_lacp K p t =
      (True, upd_qca r (\<lambda>q. q\<lparr>raw_socket_enabled := count True (raw_socket_enabled q)\<rparr>) z)"
    using sys t(2) by (simp add: qca_switch_port_enable_lacp_def protocol_steps_def)
  show ?thesis using z x t(1) by (simp add: first second count_def socket_same_def)
qed

definition lab_refusing :: "(u32 \<times> u32 \<Rightarrow> u32) qca_kernel" where
  "lab_refusing = lab_kernel\<lparr>k_ioctl := \<lambda>api args k. (api \<noteq> SW_API_HEADER_TYPE_SET, k)\<rparr>"

text \<open>With the CPU port, the mirror port and the header of the configuration as it is shipped.\<close>

definition lab_shipped :: "(u32 \<times> u32 \<Rightarrow> u32) qca_state" where
  "lab_shipped = upd_qca 7 (\<lambda>q. q\<lparr>cpu_port := 0, mirror_port := 6, private_hdr_type := 0xfefe\<rparr>) (lab_ready ())"

theorem header_failure_is_forgotten_witness:
  "\<not> fst (qca_switch_port_enable_lacp lab_refusing 20 lab_shipped) \<and>
   fst (qca_switch_port_enable_lacp lab_refusing 20 (snd (qca_switch_port_enable_lacp lab_refusing 20 lab_shipped)))"
proof -
  have "\<not> fst (qca_switch_ioctl lab_refusing SW_API_HEADER_TYPE_SET args v)"
    "api \<in> {SW_API_PT_RXHDR_SET, SW_API_PT_TXHDR_SET, SW_API_MIRROR_ANALY_PT_SET, SW_API_FDB_RESV_ADD} \<Longrightarrow>
     fst (qca_switch_ioctl lab_refusing api args v)"
    for api args and v :: "(u32 \<times> u32 \<Rightarrow> u32) qca_state"
    by (auto simp: qca_switch_ioctl_def Let_def open_driver_def kcall_def lab_refusing_def lab_kernel_def)
  moreover have "sp_sw_sys (sp_mem lab_shipped 20) = 7" "genl_dev_os_service_get lab_shipped"
    "private_hdr_type (qca_mem lab_shipped 7) \<noteq> 0" "private_hdr_enabled (qca_mem lab_shipped 7) = 0"
    "raw_socket_enabled (qca_mem lab_shipped 7) = 0"
    by (simp_all add: lab_shipped_def lab_ready_def lab_state_def genl_dev_os_service_get_def qca_system_zero_def)
  ultimately show ?thesis
    using header_failure_is_forgotten [of lab_shipped 20 7 lab_refusing] by (simp add: split_beta)
qed

end
