(* ===== verification/Daemon_Properties.thy ===== *)
theory Daemon_Properties
  imports Daemon_Runs Qca_Properties
begin

text \<open>
  The properties of the daemon as a whole: what its instances are in every run, and that the two
  queries about aggregators agree with each other and with the switch.
\<close>

subsection \<open>Instances\<close>

text \<open>An instance with an object keeps one while it is called.\<close>

lemma call_lacp_keeps: "lacp_obj (snd (call_lacp u d f w)) v = None \<longleftrightarrow> lacp_obj w v = None"
  by (simp add: call_lacp_def split: option.split outcome.split prod.split)

text \<open>
  A daemon with one system in the table, in domain 0, that gives an address, and what the configuration
  asks for.
\<close>

definition lab_linux :: "'w general_device_ops" where
  "lab_linux = lab_system\<lparr>system_get_hw_addr := \<lambda>w. Returns (Some (Mac 2 0 0 0 0 1), w), common_is_compatible := \<lambda>obj w. obj < 16\<rparr>"

definition lab_daemon :: "((u32 \<times> u32 \<Rightarrow> u32), unit) daemon_state" where
  "lab_daemon = \<lparr>ndev_systems = Some 0 # replicate 255 None,
     sys_mem = (\<lambda>r. \<lparr>ds_name = ''linux'', users = [], ds_domain = 0, next_internal_domain = 0\<rparr>), current_os_service = True,
     sw_mem = (\<lambda>_. undefined), sp_mem = (\<lambda>_. undefined), sp_next = 0, qca_mem = (\<lambda>_. qca_system_zero),
     qca_switch_driver_fd = -1, kernel = (\<lambda>_. 0),
     inst_dev_sys = (\<lambda>_. None), inst_lacp_param = (\<lambda>_. \<lparr>cfg_priority = 0xffff,
       cfg_tx_hash_policy = LACPD_CFG_TX_HASH_POLICY_L2, cfg_lacp_rate = False, cfg_ad_select = AD_SELECT_ALG_ALL\<rparr>),
     ubus_st_sys = False, hotplug_st_sys = False, ubus_notified = [], hotplug = hotplug_start (), crashed = None,
     wrappers = [], inst_name = (\<lambda>_. []), lacp_obj = (\<lambda>_. None), inst_next = 0\<rparr>"

definition lab_configured :: "((u32 \<times> u32 \<Rightarrow> u32), unit) daemon_state" where
  "lab_configured =
     daemon_exec lab_kernel (\<lambda>_. lab_linux) (Cfg_Add_Dev (Some ''lag0'') ''eth1'' \<lparr>cfg_user_key = 0\<rparr>)
       (daemon_exec lab_kernel (\<lambda>_. lab_linux) (Cfg_New ''lag0'' (inst_lacp_param lab_daemon 0)) lab_daemon)"

lemma lab_configured_run: "daemon_run lab_kernel (\<lambda>_. lab_linux) lab_configured"
  unfolding lab_configured_def by (intro daemon_run.Op daemon_run.Start) (simp_all add: lab_daemon_def)

lemma lab_new_instance:
  "lacpd_cfg_lacp_new lab_kernel ''lag0'' prm lab_daemon =
     (True, lab_daemon\<lparr>inst_next := 1, inst_name := (\<lambda>_. [])(0 := ''lag0''), inst_lacp_param := (inst_lacp_param lab_daemon)(0 := prm),
        inst_dev_sys := (\<lambda>_. None), lacp_obj := (\<lambda>_. None), wrappers := [0]\<rparr>)"
  by (simp add: lacpd_cfg_lacp_new_def lacpd_wrapper_lookup_def lacpd_wrapper_add_def lab_daemon_def Let_def
    list_add_tail_def snprintf_buf_def LACPD_CONFIG_SYS_NAME_SIZE_def fun_eq_iff)

lemma lab_configured_obj: "lacp_obj lab_configured 0 \<noteq> None"
proof -
  define prm where "prm = inst_lacp_param lab_daemon 0"
  define w where "w = snd (lacpd_cfg_lacp_new lab_kernel ''lag0'' prm lab_daemon)"
  have w: "w = lab_daemon\<lparr>inst_next := 1, inst_name := (\<lambda>_. [])(0 := ''lag0''), inst_lacp_param := (inst_lacp_param lab_daemon)(0 := prm),
        inst_dev_sys := (\<lambda>_. None), lacp_obj := (\<lambda>_. None), wrappers := [0]\<rparr>"
    unfolding w_def lab_new_instance by simp
  have tab: "ndev_systems w = Some 0 # replicate 255 None" "ndev_systems (hub w) = Some 0 # replicate 255 None"
    "sys_mem w = (\<lambda>r. \<lparr>ds_name = ''linux'', users = [], ds_domain = 0, next_internal_domain = 0\<rparr>)"
    by (simp_all add: w lab_daemon_def hub_state.truncate_def del: replicate.simps)
  have obj: "common_name_to_netdev_obj lab_linux ''eth1'' v = 3" "common_is_compatible lab_linux 3 v" for v :: "'w"
    by (simp_all add: lab_linux_def lab_system_def)
  have res: "genl_dev_sys_resolve_by_name (\<lambda>_. lab_linux) (Some ''eth1'') (hub w) = Returns (Some 0)"
    by (simp add: genl_dev_sys_resolve_by_name_def genl_dev_name_to_netdev_obj_def genl_dev_sys_resolve_by_obj_def
      netdev_obj_is_invalid_def GENERAL_DEVICE_INVALID_ID_def netdev_obj_to_domain_def obj tab del: replicate.simps)
  have look: "lacpd_wrapper_lookup (Some ''lag0'') w = Some 0" "inst_dev_sys w 0 = None"
    by (simp_all add: w lacpd_wrapper_lookup_def)
  obtain w1 where 1: "use_dev_sys 0 0 w = (True, w1)"
    by (simp add: use_dev_sys_def genl_dev_sys_add_user_def genl_dev_sys_lookup_def tab del: replicate.simps)
  have w1: "w1 = snd (use_dev_sys 0 0 w)" "lacp_obj w1 0 = None"
    unfolding arg_cong [OF 1, of snd, symmetric, unfolded snd_conv] by (simp_all add: w)
  have "inst_dev_sys w1 0 = Some 0"
    unfolding w1(1) by (simp add: use_dev_sys_def genl_dev_sys_add_user_def upd_sys_def split: option.split)
  then have "inst_dev_sys (hub w1) 0 = Some 0" by (cases w1) (simp add: hub_state.truncate_def)
  then obtain w2 where 2: "create_lacp lab_kernel (\<lambda>_. lab_linux) 0 w1 = (True, w2)" "lacp_obj w2 0 \<noteq> None"
    by (auto simp: create_lacp_def lacp_new_def lacp_user_def lacpd_wrapper_get_sys_hw_addr_def absorb_def lab_linux_def Let_def
        split: prod.splits)
  have "lab_configured = snd (call_lacp 0 False (lacpd_add_device (lacp_user lab_kernel (\<lambda>_. lab_linux) 0) 3 (Some \<lparr>user_key = 0\<rparr>)) w2)"
    by (simp add: lab_configured_def lacpd_cfg_add_dev_def w_def [symmetric] prm_def [symmetric] res look obj 1 2 w1(2) Let_def)
  with 2(2) call_lacp_keeps show ?thesis by metis
qed

text \<open>C6: Whatever the configuration asks for and whatever happens to the devices, in any order: the instances on the
  list are different and each is the one its name finds, only they have a LACP object, and the
  object is in a reachable state of LACP over the calls of the wrapper. What is proved of the
  reachable states of LACP holds of every instance in the daemon.\<close>

theorem daemon_instances:
  assumes "daemon_run K D w"
  shows "distinct (wrappers w) \<and>
    (\<forall>u \<in> set (wrappers w). lacpd_wrapper_lookup (Some (inst_name w u)) w = Some u) \<and>
    (\<forall>u. lacp_obj w u = None \<or>
       u \<in> set (wrappers w) \<and> lacp_reachable (lacp_user K D u) (the (lacp_obj w u)) \<and> lacp_wf (the (lacp_obj w u)))"
proof -
  have ok: "instances_ok K D w" by (rule daemon_run_ok [OF assms])
  then have "u \<in> set (wrappers w) \<and> lacp_reachable (lacp_user K D u) L" if "lacp_obj w u = Some L" for u L
    using that by (simp add: instances_ok_def)
  with reachable_wf lookup_name [OF ok] ok show ?thesis by (fastforce simp: instances_ok_def)
qed

theorem daemon_instances_witness:
  "0 \<in> set (wrappers lab_configured) \<and> lacp_wf (the (lacp_obj lab_configured 0))"
  using daemon_instances [OF lab_configured_run, THEN conjunct2, THEN conjunct2, THEN spec, of 0] lab_configured_obj by simp

text \<open>
  A name of 64 characters and more is cut off: the instance is reported as created, but the name
  does not find it. A second one of the same first 63 characters is not even put on the list.
\<close>

lemma long_name_not_found:
  assumes "instances_ok K D w" and "LACPD_CONFIG_SYS_NAME_SIZE \<le> length name"
  shows "lacpd_wrapper_lookup (Some name) (snd (lacpd_cfg_lacp_new K name prm w)) = None"
proof -
  have no: "lacpd_wrapper_lookup (Some name) t = None" if ok: "instances_ok K D t" for t
  proof -
    have "take LACPD_CONFIG_SYS_NAME_SIZE name \<noteq> take LACPD_CONFIG_SYS_NAME_SIZE (inst_name t u)" if "u \<in> set (wrappers t)" for u
    proof -
      have "length (inst_name t u) < LACPD_CONFIG_SYS_NAME_SIZE" using ok that by (simp add: instances_ok_def)
      then have "length (take LACPD_CONFIG_SYS_NAME_SIZE name) \<noteq> length (take LACPD_CONFIG_SYS_NAME_SIZE (inst_name t u))"
        using assms(2) by simp
      then show ?thesis by metis
    qed
    then show ?thesis by (simp add: lacpd_wrapper_lookup_def find_None_iff strncmp_eq_def)
  qed
  show ?thesis by (rule no [OF instances_new [OF assms(1)]])
qed

subsection \<open>Queries\<close>

lemma agg_of_port_iff:
  assumes inv: "sw_inv (qca_good out r) (qca_view r) r w" and n: "n < 32" and i: "unat i \<le> 3"
  shows "qca_switch_get_agg_id_of_port (base_calls K sysops out) r (of_nat n) w = i \<longleftrightarrow>
    (\<exists>m \<in> set (ports_of w r). obj_of w m = agg_domain (qca_mem w r) + i \<and> (\<exists>s \<in> set (slaves_of w m). num_of w s = n))"
    (is "?id = i \<longleftrightarrow> ?rel")
proof -
  let ?q = "qca_mem w r"
  note wf = bsw.inv_D(2) [OF inv]
  have un: "unat (of_nat n :: u32) = n" using n by (simp add: unat_of_nat take_bit_nat_eq_self)
  have slave: "obj_of w s = port_domain ?q + port_num (sp_mem w s)"
    if "m \<in> set (ports_of w r)" "s \<in> set (slaves_of w m)" for m s
    using bsw.inv_D(4) [OF inv member_slave [OF that]] wf_D(8) [OF wf that] by (simp add: qca_view_def)
  show ?thesis
  proof
    assume id: "?id = i"
    have "i \<noteq> 0xffff" using i by auto
    with id obtain p m where p: "genl_dev_sw_port_lookup (base_calls K sysops out) r (port_domain ?q + of_nat n) w = Some p"
        "agg_parent (sp_mem w p) = Some m" "obj_of w m - agg_domain ?q = i"
      by (auto simp: qca_switch_get_agg_id_of_port_def split: option.splits)
    then have mem: "p \<in> members w r" "obj_of w p = port_domain ?q + of_nat n" by (simp_all add: bsw.lookup_iff [OF inv])
    from wf mem(1) p(2) have m: "m \<in> set (ports_of w r)" "p \<in> set (slaves_of w m)" by (auto elim: member_cases)
    from slave [OF m] mem(2) have "port_num (sp_mem w p) = of_nat n" by simp
    then have "num_of w p = n" using un by simp
    moreover have "obj_of w m = agg_domain ?q + i" using p(3) by (simp add: diff_eq_eq add.commute)
    ultimately show ?rel using m by blast
  next
    assume ?rel
    then obtain m s where m: "m \<in> set (ports_of w r)" "obj_of w m = agg_domain ?q + i" and s: "s \<in> set (slaves_of w m)" "num_of w s = n"
      by blast
    have "port_num (sp_mem w s) = of_nat n" using s(2) un by (simp add: word_unat_eq_iff)
    with slave [OF m(1) s(1)] have "genl_dev_sw_port_lookup (base_calls K sysops out) r (port_domain ?q + of_nat n) w = Some s"
      using member_slave [OF m(1) s(1)] by (simp add: bsw.lookup_iff [OF inv])
    with wf_D(6) [OF wf m(1) s(1)] m(2) show "?id = i" by (simp add: qca_switch_get_agg_id_of_port_def)
  qed
qed

lemma ports_of_agg_iff:
  assumes inv: "sw_inv (qca_good out r) (qca_view r) r w" and i: "unat i \<le> 3"
  shows "bit (qca_switch_get_ports_of_agg (base_calls K sysops out) r i w) n \<longleftrightarrow>
    (\<exists>m \<in> set (ports_of w r). obj_of w m = agg_domain (qca_mem w r) + i \<and> (\<exists>s \<in> set (slaves_of w m). num_of w s = n))"
proof -
  let ?q = "qca_mem w r"
  note wf = bsw.inv_D(2) [OF inv]
  have dom: "domains_ok ?q" using inv by (simp add: sw_inv_def qca_good_def)
  have agg: "qca_agg r w (obj_of w m)" if m: "m \<in> members w r" "obj_of w m = agg_domain ?q + i" for m
  proof (rule ccontr)
    assume no: "\<not> qca_agg r w (obj_of w m)"
    have o: "obj_of w m = port_domain ?q + port_num (sp_mem w m)"
      using bsw.inv_D(4) [OF inv m(1)] no by (simp add: qca_view_def)
    have "num_of w m < 2 ^ 16" using wf m(1) no by (auto simp: sw_wf_def sw_data_def qca_view_def)
    from port_obj_free(2) [OF dom this] have "\<not> qca_sw_agg_id_is_valid (obj_of w m - agg_domain ?q)" by (simp add: o)
    with m(2) i show False by (simp add: valid_id)
  qed
  have port: "m \<in> set (ports_of w r)" if m: "m \<in> members w r" "obj_of w m = agg_domain ?q + i" for m
    using wf m(1)
  proof (cases rule: member_cases)
    case (2 k)
    from wf_D(8) [OF wf 2(2,3)] agg [OF m] show ?thesis by (simp add: qca_view_def)
  qed
  show ?thesis
  proof (cases "genl_dev_sw_port_lookup (base_calls K sysops out) r (agg_domain ?q + i) w")
    case None
    then have "\<forall>m \<in> members w r. obj_of w m \<noteq> agg_domain ?q + i" by (simp add: bsw.lookup_None [OF inv])
    with None show ?thesis by (auto simp: qca_switch_get_ports_of_agg_def dest: member_port)
  next
    case (Some m)
    then have m: "m \<in> members w r" "obj_of w m = agg_domain ?q + i" by (simp_all add: bsw.lookup_iff [OF inv])
    have uniq: "k = m" if "k \<in> set (ports_of w r)" "obj_of w k = agg_domain ?q + i" for k
    proof -
      have "genl_dev_sw_port_lookup (base_calls K sysops out) r (agg_domain ?q + i) w = Some k"
        using member_port [OF that(1)] that(2) by (simp add: bsw.lookup_iff [OF inv])
      with Some show ?thesis by simp
    qed
    have bits: "bit (port_num (sp_mem w m)) n \<longleftrightarrow> (\<exists>s \<in> set (slaves_of w m). num_of w s = n)"
      using wf port [OF m] agg [OF m] by (simp add: sw_wf_def sw_bits_def qca_view_def)
    have "qca_switch_get_ports_of_agg (base_calls K sysops out) r i w = port_num (sp_mem w m)"
      using Some by (simp add: qca_switch_get_ports_of_agg_def)
    with bits uniq port [OF m] m(2) show ?thesis by metis
  qed
qed

text \<open>What the two queries ask the switch.\<close>

lemma private_calls:
  "qca_switch_private E r QCA_SW_PRIVATE_FUNC_ID_GET_AGG_ID_OF_PORT num w =
     (qca_switch_get_agg_id_of_port E r num w \<noteq> 0xffff, Some (qca_switch_get_agg_id_of_port E r num w))"
  "qca_switch_private E r QCA_SW_PRIVATE_FUNC_ID_GET_PORTS_OF_AGG num w = (True, Some (qca_switch_get_ports_of_agg E r num w))"
  by (simp_all add: qca_switch_private_def private_function_def QCA_SWITCH_LAYER_DEPTH_def Let_def
    QCA_SW_PRIVATE_FUNC_ID_GET_AGG_ID_OF_PORT_def QCA_SW_PRIVATE_FUNC_ID_GET_PORTS_OF_AGG_def)

lemma switch_private:
  assumes "r \<noteq> l"
  obtains sysops where "dev_private (daemon_systems os K D l lin r) =
    Some (qca_switch_private (base_calls K sysops (daemon_users os K D l lin)) r)"
proof
  show "dev_private (daemon_systems os K D l lin r) =
      Some (qca_switch_private (base_calls K (dev_systems 1 K l lin (daemon_users os K D l lin)) (daemon_users os K D l lin)) r)"
    using assms by (simp add: daemon_systems_def numeral_2_eq_2 switch_system_ops_def genl_dev_sw_private_def qca_calls_def fun_eq_iff)
qed

lemma small_id: "unat (i :: u32) \<le> 3 \<Longrightarrow> i = 0 \<or> i = 1 \<or> i = 2 \<or> i = 3"
proof -
  assume "unat i \<le> 3"
  then have "unat i = unat (0 :: u32) \<or> unat i = unat (1 :: u32) \<or> unat i = unat (2 :: u32) \<or> unat i = unat (3 :: u32)"
    by (simp del: unat_eq_zero) linarith
  then show ?thesis by (simp only: word_unat_eq_iff)
qed

text \<open>C15: The two queries of the status systems agree with each other and with the switch, in every state of a run of
  the switch: a port is reported to be in aggregator 256 + i exactly if it is among the ports
  reported for that aggregator, and that is so exactly if it is one of its slaves.\<close>

theorem status_queries_agree:
  assumes "switch_run K sysops out r w0 w" and "users_quiet out" and "find_dev_sys name w = Some r" and "r \<noteq> l"
    and "n < 32" and "unat i \<le> 3"
  shows "(lacpd_wrapper_get_aggregator_of_port (daemon_systems os K D l lin) name (of_nat n) w = 256 + i \<longleftrightarrow>
      bit (lacpd_wrapper_get_ports_of_aggregator (daemon_systems os K D l lin) name (256 + i) w) n) \<and>
    (bit (lacpd_wrapper_get_ports_of_aggregator (daemon_systems os K D l lin) name (256 + i) w) n \<longleftrightarrow>
      (\<exists>m \<in> set (ports_of w r). obj_of w m = agg_domain (qca_mem w r) + i \<and> (\<exists>s \<in> set (slaves_of w m). num_of w s = n)))"
proof -
  let ?us = "daemon_users os K D l lin"
  have inv: "sw_inv (qca_good ?us r) (qca_view r) r w"
    using switch_run_inv [OF assms(1,2)] wrapper_quiet(2) by (simp add: sw_inv_def qca_good_def)
  from switch_private [OF assms(4)] obtain so where
    p: "dev_private (daemon_systems os K D l lin r) = Some (qca_switch_private (base_calls K so ?us) r)" by blast
  define v where "v = qca_switch_get_agg_id_of_port (base_calls K so ?us) r (of_nat n) w"
  have "lacpd_wrapper_get_aggregator_of_port (daemon_systems os K D l lin) name (of_nat n) w = (if v = 0xffff then v else v + 256)"
    using assms(3) p by (simp add: lacpd_wrapper_get_aggregator_of_port_def private_calls v_def)
  moreover have "i \<noteq> 0xffff" "256 + i \<noteq> 0xffff" using small_id [OF assms(6)] by auto
  ultimately have "lacpd_wrapper_get_aggregator_of_port (daemon_systems os K D l lin) name (of_nat n) w = 256 + i \<longleftrightarrow> v = i"
    by (auto simp: add.commute)
  moreover have "lacpd_wrapper_get_ports_of_aggregator (daemon_systems os K D l lin) name (256 + i) w =
      qca_switch_get_ports_of_agg (base_calls K so ?us) r i w"
    using assms(3) p by (simp add: lacpd_wrapper_get_ports_of_aggregator_def private_calls)
  ultimately show ?thesis
    using agg_of_port_iff [OF inv assms(5,6), of K so] ports_of_agg_iff [OF inv assms(6), of K so n] by (simp add: v_def)
qed

definition lab_full :: "((u32 \<times> u32 \<Rightarrow> u32), unit) daemon_state" where
  "lab_full = lab_joined (qca_state.more (lab_daemon\<lparr>inst_dev_sys := (\<lambda>_. None)(0 := Some 7), wrappers := [0]\<rparr>))"

theorem status_queries_agree_witness:
  "lacpd_wrapper_get_aggregator_of_port (daemon_systems lab_always lab_kernel (\<lambda>_. lab_linux) 0 lab_linux) ''sw1'' 1 lab_full = 256 \<and>
   bit (lacpd_wrapper_get_ports_of_aggregator (daemon_systems lab_always lab_kernel (\<lambda>_. lab_linux) 0 lab_linux) ''sw1'' 256 lab_full) 1"
proof -
  define z where "z = qca_state.more (lab_daemon\<lparr>inst_dev_sys := (\<lambda>_. None)(0 := Some 7), wrappers := [0]\<rparr>)"
  have full: "lab_full = lab_joined z" by (simp add: lab_full_def z_def)
  have quiet: "users_quiet (lab_users :: user_ref \<Rightarrow> ((u32 \<times> u32 \<Rightarrow> u32), unit) daemon_state general_device_out_api)"
    using lab_silent by (auto simp: users_silent_def)
  have find: "find_dev_sys ''sw1'' (lab_joined z) = Some 7"
    by (simp add: find_dev_sys_def z_def lab_daemon_def lab_joined_def lab_state_def lab_switch_def)
  have p: "22 \<in> set (ports_of (lab_joined z) 7)" "slaves_of (lab_joined z) 22 = [20]"
    "obj_of (lab_joined z) 22 = agg_domain (qca_mem (lab_joined z) 7) + 0" "num_of (lab_joined z) 20 = 1"
    by (simp_all add: lab_joined_def take_over_def)
  have "\<exists>m \<in> set (ports_of (lab_joined z) 7). obj_of (lab_joined z) m = agg_domain (qca_mem (lab_joined z) 7) + 0 \<and>
      (\<exists>s \<in> set (slaves_of (lab_joined z) m). num_of (lab_joined z) s = 1)"
    by (rule bexI [OF _ p(1)]) (use p in simp)
  then show ?thesis
    using status_queries_agree [OF lab_run quiet find, where l = 0 and n = 1 and i = 0 and os = lab_always
      and D = "\<lambda>_. lab_linux" and lin = lab_linux]
    by (simp add: full)
qed

end
