(* ===== verification/Startup_Properties.thy ===== *)
theory Startup_Properties
  imports Startup Daemon_Properties
begin

text \<open>
  The properties of the daemon from its start to its end: the configuration is applied as it is
  written, Linux devices cannot be aggregated, status requests are answered, and nothing is left
  when the program has ended.
\<close>

subsection \<open>Requests of the configuration are steps of a run\<close>

lemma hub_fields:
  "w\<lparr>kernel := k\<rparr> = set_hub ((hub w)\<lparr>kernel := k\<rparr>) w"
  "w\<lparr>ubus_st_sys := b\<rparr> = set_hub ((hub w)\<lparr>ubus_st_sys := b\<rparr>) w"
  "w\<lparr>hotplug_st_sys := b\<rparr> = set_hub ((hub w)\<lparr>hotplug_st_sys := b\<rparr>) w"
  "w\<lparr>hotplug := h\<rparr> = set_hub ((hub w)\<lparr>hotplug := h\<rparr>) w"
  "w\<lparr>crashed := c\<rparr> = set_hub ((hub w)\<lparr>crashed := c\<rparr>) w"
  by (cases w; simp add: set_hub_def hub_state.truncate_def hub_state.extend_def)+

lemma run_fields:
  assumes "daemon_run K D w"
  shows "daemon_run K D (w\<lparr>kernel := k\<rparr>)" "daemon_run K D (w\<lparr>ubus_st_sys := b\<rparr>)" "daemon_run K D (w\<lparr>hotplug_st_sys := b\<rparr>)"
    "daemon_run K D (w\<lparr>hotplug := h\<rparr>)" "daemon_run K D (w\<lparr>crashed := c\<rparr>)"
  unfolding hub_fields by (rule daemon_run.Devices [OF assms])+

interpretation wcu: configuration_user "wrapper_cfg_user K D" "daemon_run K D"
proof
  fix w :: "('a, 'b) daemon_state" and K' :: "'a qca_kernel" and e name prm lname dev pprm
  assume run: "daemon_run K D w"
  show "daemon_run K D (snd (kcall (k_alloc K') w))" using run_fields(1) [OF run] by (simp add: kcall_def split_beta)
  show "daemon_run K D (crash e w)" using run run_fields(5) [OF run] by (simp add: crash_def)
  show "daemon_run K D (snd (user_lacp_new (wrapper_cfg_user K D) name prm w))"
    using daemon_run.Op [OF run, of "Cfg_New name prm"] by (simp add: wrapper_cfg_user_def)
  show "daemon_run K D (snd (user_add_dev (wrapper_cfg_user K D) lname dev pprm w))"
    using daemon_run.Op [OF run, of "Cfg_Add_Dev lname dev pprm"] by (simp add: wrapper_cfg_user_def)
qed

subsection \<open>The configuration\<close>

text \<open>C8: When memory suffices, reading and applying a package does exactly what its sections say: an instance
  for every enabled section of type \<^verbatim>\<open>lacp\<close>, in order, each followed by the devices of the enabled
  port sections that name it, with the defaults of the code for what is not given; up to the
  first request that the wrapper refuses. If a section cannot be used, nothing is asked for at all.\<close>

theorem configuration_follows_plan:
  assumes "\<forall>k. fst (k_alloc K k)" and "uci_package_load U pkg = Some secs"
  shows "\<exists>k. case uci_plan U secs of
      None \<Rightarrow> \<not> fst (lacpd_uci_cfg_init U K (wrapper_cfg_user K D) (Some pkg) cfg w) \<and>
        snd (snd (lacpd_uci_cfg_init U K (wrapper_cfg_user K D) (Some pkg) cfg w)) = w\<lparr>kernel := k\<rparr>
    | Some cmds \<Rightarrow> (fst (lacpd_uci_cfg_init U K (wrapper_cfg_user K D) (Some pkg) cfg w),
        snd (snd (lacpd_uci_cfg_init U K (wrapper_cfg_user K D) (Some pkg) cfg w))) =
          requests (wrapper_cfg_user K D) cmds (w\<lparr>kernel := k\<rparr>)"
  by (rule uci_init_plan [OF assms])

definition lab_uci :: "(string \<times> string \<times> (string \<times> bool) list \<times> (string \<times> string) list \<times> (string \<times> u32) list) uci_api" where
  "lab_uci = \<lparr>uci_package_load = (\<lambda>n. if n = ''lacpd'' then Some
       [(''switch'', ''sw'', [], [(''ifname'', ''eth0'')], []),
        (''lacp'', ''lag0'', [], [(''name'', ''trunk'')], []),
        (''lacp'', ''lag1'', [(''enable'', False)], [], []),
        (''port'', ''p1'', [], [(''lacp'', ''lag0''), (''switch'', ''sw'')], [(''switchPortId'', 2)])] else None),
     section_type = (\<lambda>(t, n, b, s, i). t), section_ename = (\<lambda>(t, n, b, s, i). n),
     blob_bool = (\<lambda>(t, n, b, s, i). map_of b), blob_string = (\<lambda>(t, n, b, s, i). map_of s),
     blob_int32 = (\<lambda>(t, n, b, s, i). map_of i)\<rparr>"

definition lab_cfg :: "(string \<times> string \<times> (string \<times> bool) list \<times> (string \<times> string) list \<times> (string \<times> u32) list) lacpd_uci_configuration" where
  "lab_cfg = \<lparr>uci_ctx = False, uci_lacp = None, cfg_switches = [], cfg_lacp_instances = []\<rparr>"

lemma lab_plan:
  "uci_plan lab_uci (the (uci_package_load lab_uci ''lacpd'')) = Some
    [Cfg_New ''trunk'' \<lparr>cfg_priority = 0xffff, cfg_tx_hash_policy = LACPD_CFG_TX_HASH_POLICY_L2_L3,
       cfg_lacp_rate = False, cfg_ad_select = AD_SELECT_ALG_ALL\<rparr>,
     Cfg_Add_Dev (Some ''trunk'') ''eth0.port2'' \<lparr>cfg_user_key = 0\<rparr>]"
  by code_simp

theorem configuration_follows_plan_witness:
  "\<exists>k. (fst (lacpd_uci_cfg_init lab_uci lab_kernel (wrapper_cfg_user lab_kernel (\<lambda>_. lab_linux)) (Some ''lacpd'') lab_cfg lab_daemon),
      snd (snd (lacpd_uci_cfg_init lab_uci lab_kernel (wrapper_cfg_user lab_kernel (\<lambda>_. lab_linux)) (Some ''lacpd'') lab_cfg lab_daemon))) =
    requests (wrapper_cfg_user lab_kernel (\<lambda>_. lab_linux))
      [Cfg_New ''trunk'' \<lparr>cfg_priority = 0xffff, cfg_tx_hash_policy = LACPD_CFG_TX_HASH_POLICY_L2_L3,
         cfg_lacp_rate = False, cfg_ad_select = AD_SELECT_ALG_ALL\<rparr>,
       Cfg_Add_Dev (Some ''trunk'') ''eth0.port2'' \<lparr>cfg_user_key = 0\<rparr>] (lab_daemon\<lparr>kernel := k\<rparr>)"
proof -
  have a: "\<forall>k. fst (k_alloc lab_kernel k)" by (simp add: lab_kernel_def)
  have l: "uci_package_load lab_uci ''lacpd'' = Some (the (uci_package_load lab_uci ''lacpd''))" by (simp add: lab_uci_def)
  show ?thesis using configuration_follows_plan [OF a l, where w = lab_daemon and cfg = lab_cfg] unfolding lab_plan by simp
qed

text \<open>A port that names no configured instance has no place in a plan.\<close>

lemma port_without_instance:
  assumes "s \<in> set secs" and "section_type U s = ''port''" and "port_enabled_section U s"
    and "blob_string U s ''lacp'' = Some n"
    and "\<forall>x \<in> set secs. section_type U x = ''lacp'' \<and> lacp_enabled_section U x \<longrightarrow> \<not> strncmp_eq 64 n (take 63 (section_ename U x))"
  shows "uci_plan U secs = None"
proof -
  let ?lss = "filter (\<lambda>x. section_type U x = ''lacp'' \<and> lacp_enabled_section U x) secs"
  have none: "position_of P xs = None" if "\<forall>x \<in> set xs. \<not> P x" for P and xs :: "string list"
    using that by (induction xs) auto
  have "lc_section_name (the (configured_lacp U x)) = take 63 (section_ename U x)" if "configured_lacp U x \<noteq> None" for x
    using that by (auto simp: configured_lacp_def split: option.splits)
  then have "port_instance U (map lc_section_name (map (\<lambda>x. the (configured_lacp U x)) ?lss)) s = None"
    if "\<forall>x \<in> set ?lss. configured_lacp U x \<noteq> None"
    unfolding port_instance_def using assms(4,5) that by (auto intro!: none)
  then have "\<not> port_valid U (map lc_section_name (map (\<lambda>x. the (configured_lacp U x)) ?lss)) sws s"
    if "\<forall>x \<in> set ?lss. configured_lacp U x \<noteq> None" for sws
    using assms(3) that by (simp add: port_valid_def)
  note invalid = this
  show ?thesis
  proof (cases "\<forall>x \<in> set ?lss. configured_lacp U x \<noteq> None")
    case True
    from invalid [OF True] assms(1,2) show ?thesis unfolding uci_plan_def Let_def by (auto simp del: map_map)
  next
    case False
    then show ?thesis unfolding uci_plan_def Let_def by auto
  qed
qed

text \<open>C31: A port section that is enabled and names an instance that is not, because its section is disabled
  or missing, makes the configuration as a whole fail, and nothing at all is asked of the wrapper:
  not the instances that are enabled either.\<close>

theorem port_of_disabled_instance:
  assumes "\<forall>k. fst (k_alloc K k)" and "uci_package_load U pkg = Some secs"
    and "s \<in> set secs" and "section_type U s = ''port''" and "port_enabled_section U s" and "blob_string U s ''lacp'' = Some n"
    and "\<forall>x \<in> set secs. section_type U x = ''lacp'' \<and> lacp_enabled_section U x \<longrightarrow> \<not> strncmp_eq 64 n (take 63 (section_ename U x))"
  shows "\<exists>k. \<not> fst (lacpd_uci_cfg_init U K (wrapper_cfg_user K D) (Some pkg) cfg w) \<and>
    snd (snd (lacpd_uci_cfg_init U K (wrapper_cfg_user K D) (Some pkg) cfg w)) = w\<lparr>kernel := k\<rparr>"
  using uci_init_plan [OF assms(1,2), of "wrapper_cfg_user K D" cfg w] by (simp add: port_without_instance [OF assms(3-7)])

definition lab_disabled :: "(string \<times> string \<times> (string \<times> bool) list \<times> (string \<times> string) list \<times> (string \<times> u32) list) list" where
  "lab_disabled = [(''switch'', ''sw'', [], [(''ifname'', ''eth0'')], []), (''lacp'', ''lag0'', [], [], []),
     (''lacp'', ''lag1'', [(''enable'', False)], [], []),
     (''port'', ''p1'', [], [(''lacp'', ''lag1''), (''switch'', ''sw'')], [(''switchPortId'', 2)])]"

theorem port_of_disabled_instance_witness:
  "\<not> fst (lacpd_uci_cfg_init (lab_uci\<lparr>uci_package_load := \<lambda>_. Some lab_disabled\<rparr>) lab_kernel
     (wrapper_cfg_user lab_kernel (\<lambda>_. lab_linux)) (Some ''lacpd'') lab_cfg lab_daemon)"
proof -
  let ?U = "lab_uci\<lparr>uci_package_load := \<lambda>_. Some lab_disabled\<rparr>"
  let ?s = "(''port'', ''p1'', [], [(''lacp'', ''lag1''), (''switch'', ''sw'')], [(''switchPortId'', 2)])"
  have a: "\<forall>k. fst (k_alloc lab_kernel k)" by (simp add: lab_kernel_def)
  have s: "?s \<in> set lab_disabled" "section_type ?U ?s = ''port''" "port_enabled_section ?U ?s" "blob_string ?U ?s ''lacp'' = Some ''lag1''"
    "\<forall>x \<in> set lab_disabled. section_type ?U x = ''lacp'' \<and> lacp_enabled_section ?U x \<longrightarrow> \<not> strncmp_eq 64 ''lag1'' (take 63 (section_ename ?U x))"
    by (simp_all add: lab_disabled_def lab_uci_def port_enabled_section_def lacp_enabled_section_def blobmsg_get_bool_default_def
      LACPD_PORT_ENABLE_DEFAULT_def strncmp_eq_def)
  have l: "uci_package_load ?U ''lacpd'' = Some lab_disabled" by simp
  from port_of_disabled_instance [OF a l s, of "\<lambda>_. lab_linux" lab_cfg lab_daemon] show ?thesis by blast
qed

subsection \<open>Devices of Linux\<close>

lemma lookup_fields:
  "wrappers t = wrappers w \<Longrightarrow> inst_name t = inst_name w \<Longrightarrow> lacpd_wrapper_lookup name t = lacpd_wrapper_lookup name w"
  by (cases name) (simp_all add: lacpd_wrapper_lookup_def)

lemma set_hub_dev_sys: "inst_dev_sys (set_hub e w) = inst_dev_sys e"
  by (simp add: set_hub_def hub_state.extend_def)

text \<open>C30: A device of Linux cannot be added to an instance: the Linux system gives no address, so that no LACP
  object can be created. The instance stays bound to the Linux system, and from then on refuses
  the devices of every other one.\<close>

theorem linux_device_refused:
  assumes "lacpd_wrapper_lookup name w = Some u" and "lacp_obj w u = None"
    and "genl_dev_sys_resolve_by_name D (Some dev) (hub w) = Returns (Some l)" and "D l = linux_system_ops N"
    and "common_name_to_netdev_obj (D l) dev (hub w) \<noteq> 0" and "inst_dev_sys w u = None"
  shows "case lacpd_cfg_add_dev K D name dev prm w of (ok, t) \<Rightarrow>
    \<not> ok \<and> lacp_obj t u = None \<and> inst_dev_sys t u = Some l \<and>
    (\<forall>dev' r. genl_dev_sys_resolve_by_name D (Some dev') (hub t) = Returns (Some r) \<and> r \<noteq> l \<longrightarrow>
       lacpd_cfg_add_dev K D name dev' prm t = (False, t))"
proof -
  obtain ok w1 where 1: "use_dev_sys u l w = (ok, w1)" by fastforce
  have w1: "inst_dev_sys w1 u = Some l" "lacp_obj w1 = lacp_obj w" "wrappers w1 = wrappers w" "inst_name w1 = inst_name w"
    unfolding arg_cong [OF 1, of snd, symmetric, unfolded snd_conv]
    by (simp_all add: use_dev_sys_def genl_dev_sys_add_user_def upd_sys_def split: option.split)
  obtain obj w2 where 2: "create_lacp K D u w1 = (obj, w2)" by fastforce
  have hub1: "inst_dev_sys (hub w1) u = Some l" using w1(1) by (cases w1) (simp add: hub_state.truncate_def)
  obtain b e1 where alloc: "kcall (k_alloc K) (hub w1) = (b, e1)" by fastforce
  then have e1: "inst_dev_sys e1 u = Some l" using hub1 by (auto simp: kcall_def split: prod.splits)
  have "lacpd_wrapper_get_sys_hw_addr D u e1 = (None, e1)"
    by (simp add: lacpd_wrapper_get_sys_hw_addr_def e1 assms(4) absorb_def)
  then have new: "lacp_new (Some nm) (Some (lacp_user K D u)) p (hub w1) = (None, e1)" for nm p
    by (simp add: lacp_new_def lacp_user_def alloc)
  have w2: "obj = False" "w2 = (set_hub e1 w1)\<lparr>lacp_obj := (lacp_obj w1)(u := None)\<rparr>"
    using 2 unfolding create_lacp_def new Let_def by simp_all
  have w2': "lacp_obj w2 u = None" "inst_dev_sys w2 u = Some l" "wrappers w2 = wrappers w" "inst_name w2 = inst_name w"
    using e1 w1 by (simp_all add: w2 set_hub_dev_sys)
  have other: "lacpd_cfg_add_dev K D name dev' prm t = (False, t)"
    if "lacpd_wrapper_lookup name t = Some u" "inst_dev_sys t u = Some l" "r \<noteq> l"
      "genl_dev_sys_resolve_by_name D (Some dev') (hub t) = Returns (Some r)" for dev' r t
    using that by (simp add: lacpd_cfg_add_dev_def Let_def)
  have "lacpd_cfg_add_dev K D name dev prm w = (False, if ok then w2 else w1)"
    using assms(1,3,5,6) assms(2) 1 2 w1(2) w2(1) by (simp add: lacpd_cfg_add_dev_def Let_def)
  with w1 w2' other lookup_fields [of w1 w name] lookup_fields [of w2 w name] assms(1,2) show ?thesis by (cases ok) auto
qed

definition lab_net :: "'k linux_kernel" where
  "lab_net = \<lparr>l_indextoname = (\<lambda>k i. if i = 3 then Some ''eth1'' else None), l_nametoindex = (\<lambda>k n. if n = ''eth1'' then 3 else 0),
     l_socket = (\<lambda>k. 5), l_siocgifflags = (\<lambda>k n. Some 0x41), l_ethtool_gset = (\<lambda>k n. Some (1, 1000)),
     l_siocgifhwaddr = (\<lambda>k n. Some (Mac 2 0 0 0 0 1)), l_readable = (\<lambda>k p. False), l_fopen = (\<lambda>p k. (False, k)), l_fwrite = (\<lambda>p k. (0, k))\<rparr>"

definition lab_new :: "((u32 \<times> u32 \<Rightarrow> u32), unit) daemon_state" where
  "lab_new = snd (lacpd_cfg_lacp_new lab_kernel ''lag0'' (inst_lacp_param lab_daemon 0) lab_daemon)"

theorem linux_device_refused_witness:
  "\<not> fst (lacpd_cfg_add_dev lab_kernel (\<lambda>_. linux_system_ops lab_net) (Some ''lag0'') ''eth1'' \<lparr>cfg_user_key = 0\<rparr> lab_new)"
proof -
  have w: "lab_new = lab_daemon\<lparr>inst_next := 1, inst_name := (\<lambda>_. [])(0 := ''lag0''),
      inst_lacp_param := (inst_lacp_param lab_daemon)(0 := inst_lacp_param lab_daemon 0),
      inst_dev_sys := (\<lambda>_. None), lacp_obj := (\<lambda>_. None), wrappers := [0]\<rparr>"
    unfolding lab_new_def lab_new_instance by simp
  have look: "lacpd_wrapper_lookup (Some ''lag0'') lab_new = Some 0" "lacp_obj lab_new 0 = None" "inst_dev_sys lab_new 0 = None"
    by (simp_all add: w lacpd_wrapper_lookup_def)
  have tab: "ndev_systems (hub lab_new) = Some 0 # replicate 255 None"
    by (simp add: w lab_daemon_def hub_state.truncate_def del: replicate.simps)
  have obj: "common_name_to_netdev_obj (linux_system_ops lab_net) ''eth1'' v = 3" "common_is_compatible (linux_system_ops lab_net) 3 v"
    for v :: "((u32 \<times> u32 \<Rightarrow> u32), 'z) qca_state_scheme"
    by (simp_all add: linux_system_ops_def genl_dev_linux_ndev_name_to_netdev_obj_def genl_dev_linux_ndev_is_compatible_def
      lab_net_def netdev_obj_to_domain_def GENL_LINUX_NETDEV_DOMAIN_def)
  have res: "genl_dev_sys_resolve_by_name (\<lambda>_. linux_system_ops lab_net) (Some ''eth1'') (hub lab_new) = Returns (Some 0)"
    by (simp add: genl_dev_sys_resolve_by_name_def genl_dev_name_to_netdev_obj_def genl_dev_sys_resolve_by_obj_def
      netdev_obj_is_invalid_def GENERAL_DEVICE_INVALID_ID_def netdev_obj_to_domain_def obj tab del: replicate.simps)
  have "common_name_to_netdev_obj (linux_system_ops lab_net) ''eth1'' (hub lab_new) \<noteq> 0" by (simp add: obj)
  from linux_device_refused [where D = "\<lambda>_. linux_system_ops lab_net" and K = lab_kernel and prm = "\<lparr>cfg_user_key = 0\<rparr>",
      OF look(1,2) res refl this look(3)]
  show ?thesis by (simp add: split_beta)
qed

subsection \<open>Status\<close>

text \<open>C25: A request for the status of an instance, or of all of them, is answered with a well-nested
  message if the flags of all ports of these instances fit the 64-byte buffer of the printer;
  otherwise the printer writes outside of it. An unknown name is answered with an error entry.\<close>

theorem status_request_outcome:
  shows "case lacpd_ubus_status_dump (wrapper_status_user K D E) p msg w of
      Fault f \<Rightarrow> f = Out_Of_Bounds \<and>
        \<not> (\<forall>u \<in> set (dumped_instances (msg_string msg ''lacp_name'') w). flags_of_ports_fit (the (lacp_obj w u)))
    | Returns (status, reply) \<Rightarrow> status = UBUS_STATUS_OK \<and>
        (\<forall>u \<in> set (dumped_instances (msg_string msg ''lacp_name'') w). flags_of_ports_fit (the (lacp_obj w u))) \<and>
        nesting (0, []) (the reply) = Some (length (the reply), []) \<and>
        (dumped_instances (msg_string msg ''lacp_name'') w = [] \<longrightarrow>
           reply = Some [Add_String ''Error'' ''No such a LACP instance''])"
proof -
  let ?name = "msg_string msg ''lacp_name''"
  have user: "user_status_dump (wrapper_status_user K D E) = lacpd_wrapper_dump_status K D"
    by (simp add: wrapper_status_user_def)
  have none: "lacpd_wrapper_dump_status K D ?name w = [LACP_STATUS_FIELD_ERROR ''No such a LACP instance'']"
    if "dumped_instances ?name w = []"
    using that by (simp add: lacpd_wrapper_dump_status_def dumped_instances_def)
  show ?thesis
    using dump_status_nested [of K D ?name w] none
    unfolding prints_nested_def lacpd_ubus_status_dump_def user Let_def
    by (auto simp: split: if_splits outcome.split dest!: spec [of _ "p\<lparr>bf := []\<rparr>"])
qed

theorem status_request_outcome_witness:
  "lacpd_ubus_status_dump (wrapper_status_user lab_kernel (\<lambda>_. lab_linux) (\<lambda>_. lab_linux))
     \<lparr>bf = [], arg_lacp = 1, arg_aggs = 2, arg_agg = 3, arg_ports = 4, arg_port = 5\<rparr>
     \<lparr>msg_string = \<lambda>_. Some ''lag7'', msg_int32 = \<lambda>_. None\<rparr> lab_daemon =
   Returns (UBUS_STATUS_OK, Some [Add_String ''Error'' ''No such a LACP instance''])"
proof -
  have "dumped_instances (Some ''lag7'') lab_daemon = []" by (simp add: dumped_instances_def lab_daemon_def)
  then show ?thesis
    using status_request_outcome [where K = lab_kernel and D = "\<lambda>_. lab_linux" and E = "\<lambda>_. lab_linux"
        and p = "\<lparr>bf = [], arg_lacp = 1, arg_aggs = 2, arg_agg = 3, arg_ports = 4, arg_port = 5\<rparr>"
        and msg = "\<lparr>msg_string = \<lambda>_. Some ''lag7'', msg_int32 = \<lambda>_. None\<rparr>" and w = lab_daemon]
    by (auto split: outcome.splits)
qed

subsection \<open>The end of the program\<close>

lemma loop_step_run: "daemon_run K D w \<Longrightarrow> daemon_run K D (loop_step K D ev w)"
  by (cases ev) (simp_all del: daemon_exec.simps add: daemon_run.Op daemon_run.Devices)

lemma uloop_run_run: "daemon_run K D w \<Longrightarrow> daemon_run K D (uloop_run K D evs w)"
  unfolding uloop_run_def by (induction evs arbitrary: w) (simp_all add: loop_step_run)

lemma loop_step_empty: "wrappers w = [] \<Longrightarrow> wrappers (loop_step K D ev w) = []"
  by (cases ev) (simp_all add: lacpd_wrapper_dev_link_status_changed_def lacpd_wrapper_dev_receive_lacpdu_def
    lacpd_wrapper_dev_sys_unregistered_def lacpd_cfg_lacp_destroy_def lacpd_wrapper_lookup_def port_timer_cb_def)

lemma uloop_run_empty: "wrappers w = [] \<Longrightarrow> wrappers (uloop_run K D evs w) = []"
  unfolding uloop_run_def by (induction evs arbitrary: w) (simp_all add: loop_step_empty)

lemma cleanup_empty: "wrappers (lacpd_wrapper_cleanup K D w) = []"
proof -
  have "wrappers w = us \<Longrightarrow> wrappers (cleanup_instances K D us w) = []" for us w
    by (induction us arbitrary: w) (simp_all add: list_del_def)
  then show ?thesis by (simp add: lacpd_wrapper_cleanup_def)
qed

text \<open>The systems as they are registered, used and initialised\<close>

definition uci_system where
  "uci_system U K user = (hd (lacpd_uci_cfg_probe U K []))\<lparr>cs_user := user\<rparr>"

definition ubus_system where
  "ubus_system connect user = (hd (lacpd_ubus_status_system_probe connect []))\<lparr>ss_user := user\<rparr>"

definition hotplug_system where
  "hotplug_system user = (hd (lacpd_hotplug_status_system_probe []))\<lparr>ss_user := user\<rparr>"

lemma registered_systems:
  "lacpd_uci_cfg_probe U K [] = [uci_system U K None]"
  "lacpd_hotplug_status_system_probe (lacpd_ubus_status_system_probe connect []) = [ubus_system connect None, hotplug_system None]"
  by (simp_all add: uci_system_def ubus_system_def hotplug_system_def lacpd_uci_cfg_probe_def lacpd_hotplug_status_system_probe_def
    lacpd_ubus_status_system_probe_def lacpd_cfg_sys_register_def lacpd_status_sys_register_def list_add_tail_def)

lemma system_names:
  "cs_name (uci_system U K user) = ''uci''" "ss_name (ubus_system connect u) = ''ubus''" "ss_name (hotplug_system u) = ''hotplug''"
  by (simp_all add: uci_system_def ubus_system_def hotplug_system_def lacpd_uci_cfg_probe_def lacpd_hotplug_status_system_probe_def
    lacpd_ubus_status_system_probe_def lacpd_cfg_sys_register_def lacpd_status_sys_register_def list_add_tail_def snprintf_buf_def
    LACPD_CONFIG_SYS_NAME_SIZE_def LACP_STATUS_SYS_NAME_SIZE_def)

lemma systems_used:
  "user_os_service user \<Longrightarrow> lacpd_cfg_sys_use (Some ''uci'') (Some user) [uci_system U K None] = (Some 0, [uci_system U K (Some user)])"
  "st_os_service su \<Longrightarrow> lacpd_status_sys_use (Some ''ubus'') (Some su) [ubus_system connect u, hotplug_system v] =
     (Some 0, [ubus_system connect (Some su), hotplug_system v])"
  "st_os_service su \<Longrightarrow> lacpd_status_sys_use (Some ''hotplug'') (Some su) [ubus_system connect u, hotplug_system v] =
     (Some 1, [ubus_system connect u, hotplug_system (Some su)])"
  by (simp_all add: lacpd_cfg_sys_use_def lacpd_status_sys_use_def system_names strncmp_eq_def LACPD_CONFIG_SYS_NAME_SIZE_def
    LACP_STATUS_SYS_NAME_SIZE_def) (simp_all add: uci_system_def ubus_system_def hotplug_system_def)

text \<open>
  How the systems stand when the event loop has ended, or was not entered: the UCI configuration is in
  use or not, and the two status systems are both in use, with a connection, or neither.
\<close>

definition program_ready :: "'k qca_kernel \<Rightarrow> ('k, 'h) hub_ops \<Rightarrow> ('k, 'h, 's) program \<Rightarrow> bool" where
  "program_ready K D P \<longleftrightarrow> daemon_run K D (prg_daemon P) \<and> (prg_cfg_sys P = None \<or> prg_cfg_sys P = Some 0) \<and>
     (prg_ubus_st_sys P = None \<and> prg_hotplug_st_sys P = None \<and> \<not> prg_ubus_ctx P \<or>
      prg_ubus_st_sys P = Some 0 \<and> prg_hotplug_st_sys P = Some 1 \<and> prg_ubus_ctx P)"

lemma system_calls:
  "cs_init (uci_system U K (Some u)) u' prm P =
    (case u' of None \<Rightarrow> (False, on_daemon (crash Null_Deref) P)
     | Some u \<Rightarrow> let (ok, cfg, w) = lacpd_uci_cfg_init U K u prm (prg_uci P) (prg_daemon P)
                 in (ok, P\<lparr>prg_uci := cfg, prg_daemon := w\<rparr>))"
  "cs_user (uci_system U K (Some u)) = Some u"
  "cs_exit (uci_system U K (Some u)) P = P\<lparr>prg_uci := lacpd_uci_cfg_exit (prg_uci P)\<rparr>"
  "ss_init (ubus_system connect (Some su)) P = lacpd_ubus_status_system_init connect P"
  "ss_exit (ubus_system connect (Some su)) P = lacpd_ubus_status_system_exit P"
  "ss_init (hotplug_system (Some su)) P = (True, on_daemon (\<lambda>w. w\<lparr>hotplug := (hotplug w)\<lparr>pending_events := []\<rparr>\<rparr>) P)"
  "ss_exit (hotplug_system (Some su)) P = on_daemon (\<lambda>w. w\<lparr>hotplug := (hotplug w)\<lparr>pending_events := []\<rparr>\<rparr>) P"
  by (simp_all add: uci_system_def ubus_system_def hotplug_system_def lacpd_uci_cfg_probe_def lacpd_hotplug_status_system_probe_def
    lacpd_ubus_status_system_probe_def lacpd_cfg_sys_register_def lacpd_status_sys_register_def list_add_tail_def
    lacpd_hotplug_status_system_init_def lacpd_hotplug_status_system_exit_def on_daemon_def)

lemma config_init_ready:
  assumes "program_ready K D P" and "lacpd_config_init (wrapper_cfg_user K D) [uci_system U K None] P = (ok, cfgs, Q)"
    and "prg_ubus_st_sys P = None"
  shows "program_ready K D Q" "cfgs = [uci_system U K (Some (wrapper_cfg_user K D))]" "prg_ubus_st_sys Q = None"
proof -
  have "user_os_service (wrapper_cfg_user K D)" by (simp add: wrapper_cfg_user_def)
  note use = systems_used(1) [OF this]
  obtain b cfg w where i: "lacpd_uci_cfg_init U K (wrapper_cfg_user K D) None (prg_uci P) (prg_daemon P) = (b, cfg, w)"
    by (cases "lacpd_uci_cfg_init U K (wrapper_cfg_user K D) None (prg_uci P) (prg_daemon P)") auto
  have "daemon_run K D w"
    using wcu.init_good [of K D "prg_daemon P" U K None "prg_uci P"] assms(1) i by (simp add: program_ready_def)
  with assms i show "program_ready K D Q" "cfgs = [uci_system U K (Some (wrapper_cfg_user K D))]" "prg_ubus_st_sys Q = None"
    by (auto simp: lacpd_config_init_def use system_calls program_ready_def split: if_splits)
qed

lemma ubus_init_cases:
  assumes "lacpd_ubus_status_system_init connect P = (ok, Q)"
  obtains k where "Q = P\<lparr>prg_daemon := (prg_daemon P)\<lparr>kernel := k\<rparr>, prg_ubus_ctx := ok\<rparr>"
  using assms by (auto simp: lacpd_ubus_status_system_init_def kcall_def split: prod.splits)

lemma status_init_ready:
  assumes ready: "program_ready K D P" and init: "lacpd_status_init su [ubus_system connect None, hotplug_system None] P = (ok, sts, Q)"
    and off: "prg_ubus_st_sys P = None" and su: "st_os_service su"
  shows "program_ready K D Q" "prg_ubus_st_sys Q = None \<or> sts = [ubus_system connect (Some su), hotplug_system (Some su)]"
proof -
  obtain b P1 where b: "lacpd_ubus_status_system_init connect P = (b, P1)" by fastforce
  obtain k where P1: "P1 = P\<lparr>prg_daemon := (prg_daemon P)\<lparr>kernel := k\<rparr>, prg_ubus_ctx := b\<rparr>"
    using ubus_init_cases [OF b] .
  note use = systems_used(2,3) [OF su]
  have cfg: "prg_hotplug_st_sys P = None" using ready off by (auto simp: program_ready_def)
  show "program_ready K D Q" "prg_ubus_st_sys Q = None \<or> sts = [ubus_system connect (Some su), hotplug_system (Some su)]"
    using init ready off cfg unfolding lacpd_status_init_def use
    by (auto simp: use system_calls b P1 Let_def set_ubus_st_sys_def set_hotplug_st_sys_def on_daemon_def
      program_ready_def run_fields split: if_splits)
qed

lemma wrapper_users:
  "st_os_service (wrapper_status_user K D E)"
  by (simp add: wrapper_status_user_def)

lemma main_loop_ready:
  assumes "program_ready (env_kernel X) (env_systems X) P" and "prg_ubus_st_sys P = None"
    and "main_loop X (lacpd_uci_cfg_probe (env_uci X) (env_kernel X) [])
      (lacpd_hotplug_status_system_probe (lacpd_ubus_status_system_probe (env_ubus_connect X) [])) P = (cfgs, sts, Q)"
  shows "program_ready (env_kernel X) (env_systems X) Q"
    "cfgs = [uci_system (env_uci X) (env_kernel X) (Some (wrapper_cfg_user (env_kernel X) (env_systems X)))]"
    "prg_ubus_st_sys Q = None \<or> (\<exists>su. sts = [ubus_system (env_ubus_connect X) (Some su), hotplug_system (Some su)])"
proof -
  let ?K = "env_kernel X" and ?D = "env_systems X"
  obtain ok cfgs1 P1 where c: "lacpd_config_init (wrapper_cfg_user ?K ?D) [uci_system (env_uci X) ?K None] P = (ok, cfgs1, P1)"
    by (cases "lacpd_config_init (wrapper_cfg_user ?K ?D) [uci_system (env_uci X) ?K None] P") auto
  note ready = config_init_ready [OF assms(1) c assms(2)]
  obtain ok2 sts1 P2 where s: "lacpd_status_init (wrapper_status_user ?K ?D (env_loop_systems X))
      [ubus_system (env_ubus_connect X) None, hotplug_system None] P1 = (ok2, sts1, P2)"
    by (cases "lacpd_status_init (wrapper_status_user ?K ?D (env_loop_systems X))
      [ubus_system (env_ubus_connect X) None, hotplug_system None] P1") auto
  note ready2 = status_init_ready [OF ready(1) s ready(3) wrapper_users]
  show "program_ready ?K ?D Q" "cfgs = [uci_system (env_uci X) ?K (Some (wrapper_cfg_user ?K ?D))]"
    "prg_ubus_st_sys Q = None \<or> (\<exists>su. sts = [ubus_system (env_ubus_connect X) (Some su), hotplug_system (Some su)])"
    using assms(3) c s ready ready2 unfolding main_loop_def registered_systems
    by (auto simp: Let_def program_ready_def on_daemon_def uloop_run_run split: if_splits)
qed

lemma main_exit_empty:
  assumes ready: "program_ready (env_kernel X) (env_systems X) P" and cfgs: "cfgs = [uci_system U K (Some user)]"
    and sts: "prg_ubus_st_sys P = None \<or> (\<exists>su. sts = [ubus_system connect (Some su), hotplug_system (Some su)])"
  defines "Q \<equiv> main_exit X cfgs sts P"
  shows "daemon_run (env_kernel X) (env_systems X) (prg_daemon Q)" "wrappers (prg_daemon Q) = []" "\<not> prg_ubus_ctx Q"
    "prg_cfg_sys Q \<noteq> None \<Longrightarrow> cfg_lacp_instances (prg_uci Q) = [] \<and> cfg_switches (prg_uci Q) = []"
    "prg_hotplug_st_sys Q \<noteq> None \<Longrightarrow> pending_events (hotplug (prg_daemon Q)) = []"
proof -
  let ?K = "env_kernel X" and ?D = "env_systems X"
  obtain w where w: "lacpd_shutdown_delay ?K ?D (env_timer_ok X) (env_shutdown_events X) (on_daemon (lacpd_wrapper_cleanup ?K ?D) P) =
      P\<lparr>prg_daemon := w\<rparr>" "daemon_run ?K ?D w" "wrappers w = []"
  proof -
    have run: "daemon_run ?K ?D (lacpd_wrapper_cleanup ?K ?D (prg_daemon P))"
      using daemon_run.Op [of ?K ?D "prg_daemon P" Cleanup] ready by (simp add: program_ready_def)
    let ?w = "lacpd_wrapper_cleanup ?K ?D (prg_daemon P)"
    show thesis
      by (rule that [of "if env_timer_ok X then uloop_run ?K ?D (env_shutdown_events X) ?w else ?w"])
        (simp_all add: lacpd_shutdown_delay_def on_daemon_def uloop_run_run [OF run] uloop_run_empty run cleanup_empty)
  qed
  have Q: "Q = lacpd_status_exit sts (lacpd_config_exit cfgs (P\<lparr>prg_daemon := w\<rparr>))"
    unfolding Q_def main_exit_def w(1) Let_def ..
  note exits = Q lacpd_status_exit_def lacpd_config_exit_def cfgs system_calls lacpd_uci_cfg_exit_def Let_def on_daemon_def
    lacpd_ubus_status_system_exit_def
  show "daemon_run ?K ?D (prg_daemon Q)" "wrappers (prg_daemon Q) = []" "\<not> prg_ubus_ctx Q"
    "prg_cfg_sys Q \<noteq> None \<Longrightarrow> cfg_lacp_instances (prg_uci Q) = [] \<and> cfg_switches (prg_uci Q) = []"
    "prg_hotplug_st_sys Q \<noteq> None \<Longrightarrow> pending_events (hotplug (prg_daemon Q)) = []"
    using ready sts w(2,3) by (auto simp: exits program_ready_def run_fields split: option.splits)
qed

lemma devices_before_instances:
  "probe_devices X w = Returns v \<Longrightarrow> wrappers v = wrappers w \<and> lacp_obj v = lacp_obj w"
  "init_devices X w = Returns v \<Longrightarrow> wrappers v = wrappers w \<and> lacp_obj v = lacp_obj w"
  by (auto simp: probe_devices_def init_devices_def bind_outcome_Returns_iff)

text \<open>C13: Whatever the configuration, the devices and the events were, when the program has ended there is no
  instance and no LACP object left, the connection to ubusd is closed, and the systems that were in
  use have freed their sections and their queued events. The program ends with 0, or with -1 if the memory for the
  data of the event loop does not suffice.\<close>

theorem main_leaves_nothing:
  assumes "lacpd_main X (program_zero k h) = Returns (ret, P)"
  shows "wrappers (prg_daemon P) = [] \<and> (\<forall>u. lacp_obj (prg_daemon P) u = None) \<and> \<not> prg_ubus_ctx P \<and>
    (prg_cfg_sys P \<noteq> None \<longrightarrow> cfg_lacp_instances (prg_uci P) = [] \<and> cfg_switches (prg_uci P) = []) \<and>
    (prg_hotplug_st_sys P \<noteq> None \<longrightarrow> pending_events (hotplug (prg_daemon P)) = []) \<and>
    ret = (if lacpd_os_service_init (env_sizes X) then 0 else -1)"
proof -
  let ?zero = "program_zero k h :: ('a, 'b, 'c) program"
  obtain w where w: "probe_devices X (prg_daemon ?zero) = Returns w"
    using assms by (cases "probe_devices X (prg_daemon ?zero)") (simp_all add: lacpd_main_def)
  have same: "wrappers w = []" "lacp_obj w = (\<lambda>_. None)"
    using devices_before_instances(1) [OF w] by (simp_all add: program_zero_def)
  show ?thesis
  proof (cases "lacpd_os_service_init (env_sizes X)")
    case False
    then show ?thesis using assms w same by (auto simp: lacpd_main_def program_zero_def)
  next
    case True
    obtain w1 where w1: "init_devices X (w\<lparr>wrappers := []\<rparr>) = Returns w1"
      using assms w True by (cases "init_devices X (w\<lparr>wrappers := []\<rparr>)") (simp_all add: lacpd_main_def)
    have same1: "wrappers w1 = []" "lacp_obj w1 = (\<lambda>_. None)"
      using devices_before_instances(2) [OF w1] same by simp_all
    let ?P = "?zero\<lparr>prg_daemon := w1\<rparr>"
    obtain cfgs sts P1 where m: "main_loop X (lacpd_uci_cfg_probe (env_uci X) (env_kernel X) [])
        (lacpd_hotplug_status_system_probe (lacpd_ubus_status_system_probe (env_ubus_connect X) [])) ?P = (cfgs, sts, P1)"
      by (cases "main_loop X (lacpd_uci_cfg_probe (env_uci X) (env_kernel X) [])
        (lacpd_hotplug_status_system_probe (lacpd_ubus_status_system_probe (env_ubus_connect X) [])) ?P") auto
    have "program_ready (env_kernel X) (env_systems X) ?P"
      using same1 by (auto simp: program_ready_def program_zero_def intro: daemon_run.Start)
    note ready = main_loop_ready [OF this _ m]
    have P: "P = main_exit X cfgs sts P1" "ret = 0"
      using assms w w1 m True by (simp_all add: lacpd_main_def)
    have "prg_ubus_st_sys ?P = None" by (simp add: program_zero_def)
    note exit = main_exit_empty [OF ready [OF this], folded P(1)]
    have "lacp_obj (prg_daemon P) u = None" for u
      using daemon_run_ok [OF exit(1)] exit(2) by (cases "lacp_obj (prg_daemon P) u") (auto simp: instances_ok_def)
    with exit P(2) True show ?thesis by simp
  qed
qed

text \<open>A start with no switch, the Linux system, and the package of above.\<close>

definition lab_surroundings where
  "lab_surroundings = \<lparr>env_kernel = lab_kernel, env_linux = lab_net, env_hotplug = lab_always, env_uci = lab_uci,
     env_ubus_connect = (\<lambda>k. (True, k)), env_switches = [], env_linux_sys = 0,
     env_sizes = \<lparr>sizeof_uloop_fd = 24, sizeof_uloop_timeout = 48, sizeof_uloop_process = 40\<rparr>,
     env_events = [Ev_Unregistered 0], env_timer_ok = True, env_shutdown_events = []\<rparr>"

lemma lab_returns: "\<exists>P. lacpd_main lab_surroundings (program_zero (\<lambda>_. 0) ()) = Returns (0, P)"
proof -
  let ?P = "program_zero (\<lambda>_. 0) () :: (u32 \<times> u32 \<Rightarrow> u32, unit, (string \<times> string \<times> (string \<times> bool) list \<times> (string \<times> string) list \<times> (string \<times> u32) list)) program"
  have none: "qca_switch_shell_cmd_get_word_list (k_popen lab_kernel k) None ''get_switch_list'' n =
      Returns []" for k n
  proof -
    have "k_popen lab_kernel k (shell_cmd_line None ''get_switch_list'') = None"
      unfolding lab_kernel_def qca_kernel.simps by code_simp
    then show ?thesis
      by (cases n) (simp_all add: qca_switch_shell_cmd_get_word_list_def qca_switch_shell_cmd_def Let_def)
  qed
  define e where "e = genl_dev_linux_probe 0 (hub (prg_daemon ?P))"
  define w where "w = set_hub e (prg_daemon ?P)"
  have w: "probe_devices lab_surroundings (prg_daemon ?P) = Returns w"
    unfolding probe_devices_def qca_switch_probe_def w_def e_def by (simp add: lab_surroundings_def none)
  have tab: "ndev_systems (hub (prg_daemon ?P)) = replicate 256 None"
    by (simp add: program_zero_def hub_state.truncate_def GENERAL_DEVICE_SYSTEM_MAX_DOMAIN_def del: replicate.simps)
  have "ndev_systems e = (replicate 256 None)[0 := Some 0]"
    unfolding e_def genl_dev_linux_probe_def genl_dev_system_register_def genl_dev_alloc_domain_def
    by (simp add: genl_dev_sys_lookup_None upd_sys_def tab Let_def del: replicate.simps)
  then have "ndev_systems (hub (w\<lparr>wrappers := []\<rparr>)) = Some 0 # replicate 255 None"
    by (simp add: w_def hub_state.truncate_def set_hub_def hub_state.extend_def numeral_eq_Suc)
  then have reg: "registered (hub (w\<lparr>wrappers := []\<rparr>)\<lparr>current_os_service := True\<rparr>) = [0]" by simp
  have "dev_init (env_systems lab_surroundings 0) v = Returns (genl_dev_linux_init v)" for v
    by (simp add: env_systems_def lab_surroundings_def systems_in_call_def numeral_2_eq_2 linux_system_ops_def)
  with reg obtain w1 where w1: "init_devices lab_surroundings (w\<lparr>wrappers := []\<rparr>) = Returns w1"
    by (simp add: init_devices_def genl_dev_init_def Let_def split_beta)
  have "lacpd_os_service_init (env_sizes lab_surroundings)"
    by (simp add: lab_surroundings_def lacpd_os_service_init_def GENL_OS_SERVICE_PRIVATE_DATA_SIZE_def)
  with w w1 show ?thesis by (simp add: lacpd_main_def split_beta Let_def)
qed

theorem main_leaves_nothing_witness:
  "\<exists>ret P. lacpd_main lab_surroundings (program_zero (\<lambda>_. 0) ()) = Returns (ret, P) \<and> wrappers (prg_daemon P) = [] \<and>
     \<not> prg_ubus_ctx P"
proof -
  obtain P where P: "lacpd_main lab_surroundings (program_zero (\<lambda>_. 0) ()) = Returns (0, P)" using lab_returns by blast
  from main_leaves_nothing [OF P] P show ?thesis by blast
qed

end
