(* ===== verification/Spec2Isabelle.thy ===== *)
theory Spec2Isabelle
  imports Lacp_Properties Lacp_Status Hotplug Os_Service Startup_Properties
begin

text \<open>
  The LACP daemon of this repository, \<^verbatim>\<open>qca/src/qca-lacpd\<close>. All paths below are relative to it.

  The program. The daemon bundles the ports of a switch into aggregators by the protocol of
  IEEE 802.3ad. \<^verbatim>\<open>main.c\<close> is the wrapper: it holds a list of named instances and connects three
  sides. The configuration (\<^verbatim>\<open>config/\<close>) asks it for instances and devices; each instance has an object
  of the protocol (\<^verbatim>\<open>lacp/\<close>), which calls the devices by way of the wrapper; the devices belong to device
  systems (\<^verbatim>\<open>lib_general_device/\<close>: QCA switches and Linux), which report links and packets to the
  wrapper; the status systems (\<^verbatim>\<open>status/\<close>: ubus and hotplug) hear of ports that come and go and ask for the
  state of the instances. Everything runs in one thread, in the event loop of libubox.

  Conventions. A pointer to a heap object is a natural number, and a field \<open>..._mem\<close> of the state
  is the heap; lists of objects are lists of references. Integers are words of their width. A
  function that can dereference NULL, write outside a buffer or never return gives an
  \<open>outcome\<close> (\<open>Lacp_Prelude\<close>): the value, or the fault; in the wrapper a fault ends in
  the field \<open>crashed\<close>. Function pointers of interfaces are records of functions over the state of the
  side that provides them. Names are those of the source, with a prefix where two structures share
  one.
\<close>

text \<open>
  Theories, from the protocol upwards.

  \<^item> \<open>Lacp_Prelude\<close>: integers, outcomes, timers, generic lemmas.
  \<^item> \<open>Fsm\<close> (\<^verbatim>\<open>lacp/fsm.c\<close>): tables of states with conditions and entry actions, and the runner
    that evaluates the machines of a port until none changes. The two loops are partial functions.
    The locale \<open>fsm_table\<close> is the contract of one table, with an invariant and a rank that
    decreases; \<open>fsm_progress\<close> the one of all machines of a runner, under which the loops end.
  \<^item> \<open>Lacpdu\<close> (\<^verbatim>\<open>lacpdu.c\<close>, \<^verbatim>\<open>port_info.c\<close>): port information, its comparison under a mask, the
    bytes of the packet.
  \<^item> \<open>Lacp_State\<close>, \<open>Aggregator\<close>: ports, aggregators, the instance, operation keys, membership, the
    choice of the active aggregator (\<open>Active_Aggregator\<close> says what is chosen).
  \<^item> \<open>Lacp_Inv\<close>: the invariant \<open>lacp_wf\<close> of an instance and the rank of a port.
  \<^item> \<open>Lacp_Receive\<close>, \<open>Lacp_Periodic\<close>, \<open>Lacp_Selection\<close>, \<open>Lacp_Mux\<close>, \<open>Lacp_Transmit\<close>
    (\<^verbatim>\<open>lacp_fsm.c\<close>): the five machines of a port, each an interpretation of \<open>fsm_table\<close>.
  \<^item> \<open>Lacp_Runner\<close>, \<open>Lacp_Port\<close>, \<open>Lacp\<close>, \<open>Lacp_Daemon\<close> (\<^verbatim>\<open>port.c\<close>, \<^verbatim>\<open>lacp.c\<close>): the machines
    together (an interpretation of \<open>fsm_progress\<close>), creation and destruction, the operations of an
    instance, and the states it can reach by these operations, its timers, and changes of the devices.
  \<^item> \<open>Lacp_Sends\<close>: runs of an instance as lists of events, and the frames its device layer is given
    in a run. The locales \<open>fsm_table_keeps\<close> and \<open>fsm_progress_keeps\<close> extend the two contracts of
    \<open>Fsm\<close> by a property that every change of state keeps.
  \<^item> \<open>Lacp_Properties\<close>: what an instance guarantees; \<open>Lacp_Example\<close>: devices for concrete runs.
  \<^item> \<open>Lacp_Status\<close>, \<open>Ubus_Methods\<close> (\<^verbatim>\<open>status_ubus.c\<close>): the report of an instance, the printer, the
    three methods on ubus. \<open>Hotplug\<close> (\<^verbatim>\<open>status_hotplug.c\<close>): the queue of events.
  \<^item> \<open>Genl_Device\<close> (\<^verbatim>\<open>general_device.c\<close>): the table of device systems, resolution of names and
    objects, users. The locale \<open>device_systems\<close> is what it needs of the systems below.
  \<^item> \<open>Genl_Linux\<close> (\<^verbatim>\<open>general_device_linux.c\<close>): the system of the network devices of Linux.
  \<^item> \<open>Genl_Switch\<close> (\<^verbatim>\<open>general_device_switch.c\<close>): ports and aggregators of a switch over the calls
    of its driver. \<open>Switch_Inv\<close>, \<open>Switch_Contract\<close>, \<open>Switch_Ops\<close>, \<open>Switch_Keeps\<close>: the invariant,
    and that every operation keeps it under the contract \<open>virtual_switch\<close>.
  \<^item> \<open>Qca_Shell\<close>, \<open>Qca_Packet\<close>, \<open>Qca_Switch\<close>, \<open>Qca_Driver\<close>
    (\<^verbatim>\<open>general_device_qca_switch.c\<close>): the script that describes the switches, packets and the trunk
    hash, calls of the hardware, sockets, ports and probing. \<open>Qca_System\<close> interprets
    \<open>virtual_switch\<close> on this driver; \<open>Qca_Runs\<close>, \<open>Qca_Trunk\<close>, \<open>Qca_Properties\<close>: runs of
    a switch and what holds in them; \<open>Qca_Example\<close> a concrete one.
  \<^item> \<open>Wrapper_Hub\<close>, \<open>Wrapper\<close> (\<^verbatim>\<open>main.c\<close>, \<^verbatim>\<open>wrapper.h\<close>): the wrapper, first the side that faces
    the devices, then instances, configuration calls, events, timers and queries. The state of the
    first is a part of the state of the second: a call from the protocol sees only the devices and
    the part of the wrapper it may change (\<open>hub_state\<close>).
  \<^item> \<open>Daemon\<close>: all registered systems with the wrapper as their user; interprets \<open>device_systems\<close>.
    \<open>Daemon_Runs\<close>, \<open>Daemon_Properties\<close>: runs of the wrapper.
  \<^item> \<open>Os_Service\<close> (\<^verbatim>\<open>main.c\<close>): descriptors and tasks in the event loop; timers are in the prelude.
  \<^item> \<open>Config_Uci\<close> (\<^verbatim>\<open>config_uci.c\<close>): the configuration system over the interface
    \<open>configuration_user\<close>. \<open>Config_Plan\<close>: what a package means, as a list of requests.
  \<^item> \<open>Startup\<close> (\<^verbatim>\<open>config.c\<close>, \<^verbatim>\<open>status.c\<close>, \<^verbatim>\<open>main.c\<close>): the registries and the main function.
    \<open>Startup_Properties\<close> interprets \<open>configuration_user\<close> on the wrapper.
\<close>

text \<open>
  What is shown.

  \<^item> The machines of a port come to rest, in every reachable state of an instance, with every answer of
    the devices (\<open>machines_come_to_rest\<close>); then a port collects and distributes only with a
    partner it has heard, a port whose link is down is silent, at most three LACPDUs are given
    to its device between two ticks of the rate timer, whatever happens in between
    (\<open>transmission_rate_limited\<close>), and a waiting port makes progress. The frame that is sent is
    written out byte by byte, and the partner reads what was sent. The lists of ports and
    aggregators stay consistent; each operation of an instance has its outcome on every branch.
  \<^item> In every run of a switch, also when the hardware refuses calls, its ports and aggregators are
    well-formed and the trunk groups of the hardware are the slaves (\<open>trunk_groups_are_slaves\<close>).
  \<^item> In every run of the wrapper its instances have unique names and objects in reachable states of the
    protocol (\<open>daemon_instances\<close>), so that what holds of an instance holds of those of the daemon; the two
    queries agree with each other and with the switch.
  \<^item> The configuration does what its sections say (\<open>configuration_follows_plan\<close>), and when the program
    has ended nothing is left (\<open>main_leaves_nothing\<close>).
  \<^item> Properties about errors describe inputs on which the code does what it does not mean to: a crash when
    an address cannot be read, a status report that overruns its buffer, a shell command whose
    output never ends, a counter that is stepped back in place of another, devices of Linux that are never
    accepted.

  Bounds. The loops of the runner (\<open>fsm_settle\<close>, \<open>fsm_runner_loop\<close>) and of the output of a command
  (\<open>read_output\<close>) are \<open>partial_function (option)\<close>, None when they do not end, and executable by
  their equations; that they end is a theorem, for the first two always, for the third exactly for outputs that fit. Two recursions
  have a depth: a switch that asks the other systems for the address of a control channel, which is a
  device of Linux, so that 1 is enough (the systems are built with 2), and the address of an aggregator,
  which is the one of a slave that has no slaves itself, so that 2 is enough. The event loop is a finite list
  of events in any order; a run that goes on is the limit of its finite parts, as the invariants hold after
  every event. The devices may change between any two steps.

  Parameters. Code that is not in the repository, or not part of the daemon: the allocator, ioctls of
  the switch driver, sockets and \<^verbatim>\<open>popen\<close> (record \<open>qca_kernel\<close>), names, flags and files of Linux devices
  (\<open>linux_kernel\<close>), fork and calloc of hotplug (\<open>hotplug_os\<close>), the registrations of the event loop (\<open>uloop_api\<close>), libuci (\<open>uci_api\<close>), the arguments of
  a request on ubus (\<open>ubus_request\<close>) and \<^verbatim>\<open>ubus_connect\<close>. What is assumed of them stands in the
  theorems that need it: \<open>trunk_law\<close> (the switch stores the ports of a trunk it accepts),
  \<open>counts_sends\<close> (a count of frames that only the call that sends a LACPDU adds to),
  \<open>users_quiet\<close> (users do not change the devices while they are told of a port),
  and that memory suffices where a result depends on it.

  Not modelled. The output of a shell command is text: lines with a NUL character, after which C sees no
  more of the line, are left out. Debug output and its masks, the printer of packets on stderr, signal handlers (a
  signal ends the list of events), the event loop of libubox itself, the socket of ubus, and the
  bytes of its messages. A task or timer
  that outlives its owner is a dangling pointer in C; the model shows that the timers of a port
  are idle when it is freed. The rest of the repository is left out: OpenWrt recipes, boot
  loaders, the kernel modules and the other programs under \<^verbatim>\<open>qca/src\<close>, which do not share code with
  the daemon.
\<close>

end
